(* ===== verification/Prelude.thy ===== *)
theory Prelude
  imports Main "HOL-Library.List_Lexorder" "HOL-Library.Char_ord" "HOL-Library.Product_Lexorder"
    "HOL-Library.AList"
begin

text \<open>
  Shared vocabulary of the development: Go's errors as values (a message and the sentinel
  errors that \<open>errors.Is\<close> finds in the chain), the string operations the program takes from
  \<open>strings\<close> and \<open>strconv\<close>, insertion-ordered finite maps, and the generic lemmas about
  lists and results that the components share.

  A Go string is a byte sequence, so \<^typ>\<open>string\<close> (a list of 8-bit characters) is the same
  type. Case mapping (\<open>strings.ToLower\<close>, \<open>ToUpper\<close>, \<open>EqualFold\<close>) is modelled on the
  ASCII letters; bytes from 128 on are left alone, so the Unicode folding of non-ASCII letters
  is not covered.
\<close>

named_theorems go_simps \<open>unfolding rules for the small Go library operations\<close>
named_theorems frame_simps \<open>fields of a state that an operation leaves alone\<close>

section \<open>Errors\<close>

text \<open>
  The sentinel errors of the program: the package-level error values that callers test for
  with \<open>errors.Is\<close>, the two context errors, and an HTTP status carried by \<open>httpx.APIError\<close>.
\<close>

datatype sentinel =
    ErrNotConfigured | ErrCheckpointBusy | ErrDecisionNotFound | ErrBadDecisionStatus
  | ErrBadDecisionFailure | ErrEmailNotFound | ErrBadEmailFailure | ErrBadPeerMessage
  | ErrDecisionActionsDisabled | ErrUnknownKind | ErrUnknownEntityKey
  | ErrCleanupActionsDisabled | ErrInvalidOptions | ErrOwnNodeReport | ErrNoSender
  | ErrMissingPeerToken | ErrUnauthorized | ErrPeerUnavailable
  | DeadlineExceeded | Canceled | ErrPermission | APIStatus int

datatype goerr = GoErr (err_msg: string) (err_chain: "sentinel list")

type_synonym 'a result = "goerr + 'a"

definition errors_is :: "goerr \<Rightarrow> sentinel \<Rightarrow> bool" where
  "errors_is e s \<longleftrightarrow> s \<in> set (err_chain e)"

definition new_error :: "string \<Rightarrow> goerr" where
  "new_error m = GoErr m []"

text \<open>\<open>fmt.Errorf("p: %w", e)\<close>: the text is prefixed, the chain is kept.\<close>

definition wrap_error :: "string \<Rightarrow> goerr \<Rightarrow> goerr" where
  "wrap_error p e = GoErr (p @ '': '' @ err_msg e) (err_chain e)"

text \<open>\<open>errors.Join\<close> of two non-nil errors: messages on separate lines, both chains.\<close>

definition join_errors :: "goerr \<Rightarrow> goerr \<Rightarrow> goerr" where
  "join_errors e1 e2 = GoErr (err_msg e1 @ [CHR 10] @ err_msg e2) (err_chain e1 @ err_chain e2)"

lemma errors_is_new [simp]: "\<not> errors_is (new_error m) s"
  by (simp add: errors_is_def new_error_def)

lemma errors_is_wrap [simp]: "errors_is (wrap_error p e) s \<longleftrightarrow> errors_is e s"
  by (simp add: errors_is_def wrap_error_def)

lemma errors_is_join [simp]: "errors_is (join_errors e1 e2) s \<longleftrightarrow> errors_is e1 s \<or> errors_is e2 s"
  by (simp add: errors_is_def join_errors_def)

lemma errors_is_GoErr [simp]: "errors_is (GoErr m ss) s \<longleftrightarrow> s \<in> set ss"
  by (simp add: errors_is_def)

lemma err_msg_wrap [simp]: "err_msg (wrap_error p e) = p @ '': '' @ err_msg e"
  by (simp add: wrap_error_def)

lemma err_msg_new [simp]: "err_msg (new_error m) = m"
  by (simp add: new_error_def)

section \<open>Sequencing fallible computations\<close>

definition rbind :: "'a result \<Rightarrow> ('a \<Rightarrow> 'b result) \<Rightarrow> 'b result" where
  "rbind r f = (case r of Inl e \<Rightarrow> Inl e | Inr x \<Rightarrow> f x)"

lemma rbind_simps [simp]: "rbind (Inl e) f = Inl e" "rbind (Inr x) f = f x"
  by (simp_all add: rbind_def)

lemma rbind_eq_Inr: "rbind r f = Inr y \<longleftrightarrow> (\<exists>x. r = Inr x \<and> f x = Inr y)"
  by (cases r) simp_all

lemma rbind_eq_Inl: "rbind r f = Inl e \<longleftrightarrow> r = Inl e \<or> (\<exists>x. r = Inr x \<and> f x = Inl e)"
  by (cases r) simp_all

definition wrap_result :: "string \<Rightarrow> 'a result \<Rightarrow> 'a result" where
  "wrap_result p r = (case r of Inl e \<Rightarrow> Inl (wrap_error p e) | Inr x \<Rightarrow> Inr x)"

lemma wrap_result_simps [simp]:
  "wrap_result p (Inl e) = Inl (wrap_error p e)" "wrap_result p (Inr x) = Inr x"
  by (simp_all add: wrap_result_def)

lemma wrap_result_eq_Inr [simp]: "wrap_result p r = Inr x \<longleftrightarrow> r = Inr x"
  by (cases r) simp_all

text \<open>A loop whose body may return early with an error: the first error wins.\<close>

primrec rmap :: "('a \<Rightarrow> 'b result) \<Rightarrow> 'a list \<Rightarrow> 'b list result" where
  "rmap f [] = Inr []"
| "rmap f (x # xs) = rbind (f x) (\<lambda>y. rbind (rmap f xs) (\<lambda>ys. Inr (y # ys)))"

lemma rmap_Inr_iff: "rmap f xs = Inr ys \<longleftrightarrow> list_all2 (\<lambda>x y. f x = Inr y) xs ys"
  by (induction xs arbitrary: ys) (auto simp: rbind_eq_Inr list_all2_Cons1)

lemma rmap_cong [fundef_cong]:
  "xs = ys \<Longrightarrow> (\<And>x. x \<in> set ys \<Longrightarrow> f x = g x) \<Longrightarrow> rmap f xs = rmap g ys"
  by (induction xs arbitrary: ys) auto

section \<open>Optional pointers\<close>

fun opt_list :: "'a option \<Rightarrow> 'a list" where
  "opt_list None = []"
| "opt_list (Some x) = [x]"

lemma set_opt_list [simp]: "x \<in> set (opt_list p) \<longleftrightarrow> p = Some x"
  by (cases p) auto

lemma length_opt_list [simp]: "length (opt_list p) = (if p = None then 0 else 1)"
  by (cases p) auto

section \<open>Strings\<close>

definition has_prefix :: "string \<Rightarrow> string \<Rightarrow> bool" where
  "has_prefix s p \<longleftrightarrow> take (length p) s = p"

lemma has_prefix_iff: "has_prefix s p \<longleftrightarrow> (\<exists>r. s = p @ r)"
  by (auto simp: has_prefix_def) (metis append_take_drop_id)

lemma has_prefix_append [simp]: "has_prefix (p @ r) p"
  by (simp add: has_prefix_def)

definition trim_prefix :: "string \<Rightarrow> string \<Rightarrow> string" where
  "trim_prefix s p = (if has_prefix s p then drop (length p) s else s)"

lemma trim_prefix_append [simp]: "trim_prefix (p @ r) p = r"
  by (simp add: trim_prefix_def)

text \<open>\<open>strings.Cut\<close> at the first occurrence of a one-byte separator.\<close>

fun cut_at :: "char \<Rightarrow> string \<Rightarrow> (string \<times> string) option" where
  "cut_at c [] = None"
| "cut_at c (x # xs) =
     (if x = c then Some ([], xs)
      else map_option (\<lambda>(a, b). (x # a, b)) (cut_at c xs))"

lemma cut_at_append: "c \<notin> set a \<Longrightarrow> cut_at c (a @ c # b) = Some (a, b)"
  by (induction a) auto

lemma cut_at_Some: "cut_at c s = Some (a, b) \<longleftrightarrow> s = a @ c # b \<and> c \<notin> set a"
proof (induction s arbitrary: a)
  case Nil
  then show ?case by simp
next
  case (Cons x xs)
  then show ?case by (cases a) auto
qed

lemma cut_at_None: "cut_at c s = None \<longleftrightarrow> c \<notin> set s"
  by (induction s) auto

fun split_on :: "char \<Rightarrow> string \<Rightarrow> string list" where
  "split_on c [] = [[]]"
| "split_on c (x # xs) =
     (if x = c then [] # split_on c xs
      else (case split_on c xs of [] \<Rightarrow> [[x]] | y # ys \<Rightarrow> (x # y) # ys))"

lemma split_on_ne [simp]: "split_on c s \<noteq> []"
  by (induction s) (auto split: list.splits)

fun join_with :: "string \<Rightarrow> string list \<Rightarrow> string" where
  "join_with sep [] = []"
| "join_with sep [x] = x"
| "join_with sep (x # y # ys) = x @ sep @ join_with sep (y # ys)"

definition upper_char :: "char \<Rightarrow> char" where
  "upper_char c = (let n = of_char c :: nat in if 97 \<le> n \<and> n \<le> 122 then char_of (n - 32) else c)"

definition lower_char :: "char \<Rightarrow> char" where
  "lower_char c = (let n = of_char c :: nat in if 65 \<le> n \<and> n \<le> 90 then char_of (n + 32) else c)"

definition to_upper :: "string \<Rightarrow> string" where
  "to_upper s = map upper_char s"

definition to_lower :: "string \<Rightarrow> string" where
  "to_lower s = map lower_char s"

definition equal_fold :: "string \<Rightarrow> string \<Rightarrow> bool" where
  "equal_fold s t \<longleftrightarrow> to_lower s = to_lower t"

lemma of_char_lt_256: "(of_char c :: nat) < 256"
  by (metis of_char_mod_256 mod_less_divisor zero_less_numeral)

lemma upper_char_idem [simp]: "upper_char (upper_char c) = upper_char c"
  using of_char_lt_256 [of c] by (auto simp: upper_char_def Let_def of_char_of)

lemma to_upper_idem [simp]: "to_upper (to_upper s) = to_upper s"
  by (simp add: to_upper_def)

lemma to_upper_Nil [simp]: "to_upper s = [] \<longleftrightarrow> s = []"
  by (simp add: to_upper_def)

lemma equal_fold_refl [simp]: "equal_fold s s"
  by (simp add: equal_fold_def)

lemma equal_fold_sym: "equal_fold s t \<Longrightarrow> equal_fold t s"
  by (simp add: equal_fold_def)

lemma equal_fold_trans: "equal_fold s t \<Longrightarrow> equal_fold t u \<Longrightarrow> equal_fold s u"
  by (simp add: equal_fold_def)

section \<open>Decimal integers\<close>

definition digit_char :: "nat \<Rightarrow> char" where
  "digit_char d = char_of (48 + d)"

fun show_nat :: "nat \<Rightarrow> string" where
  "show_nat n = (if n < 10 then [digit_char n] else show_nat (n div 10) @ [digit_char (n mod 10)])"

declare show_nat.simps [simp del]

definition show_int :: "int \<Rightarrow> string" where
  "show_int i = (if i < 0 then CHR ''-'' # show_nat (nat (- i)) else show_nat (nat i))"

definition char_digit :: "char \<Rightarrow> nat option" where
  "char_digit c = (let n = of_char c :: nat in if 48 \<le> n \<and> n \<le> 57 then Some (n - 48) else None)"

fun parse_digits :: "nat \<Rightarrow> string \<Rightarrow> nat option" where
  "parse_digits acc [] = Some acc"
| "parse_digits acc (c # cs) =
     (case char_digit c of None \<Rightarrow> None | Some d \<Rightarrow> parse_digits (10 * acc + d) cs)"

definition parse_nat :: "string \<Rightarrow> nat option" where
  "parse_nat s = (if s = [] then None else parse_digits 0 s)"

definition max_int64 :: int where "max_int64 = 9223372036854775807"
definition min_int64 :: int where "min_int64 = - 9223372036854775808"
definition max_uint64 :: int where "max_uint64 = 18446744073709551615"

text \<open>Arithmetic on \<open>int64\<close> wraps around.\<close>

definition wrap_int64 :: "int \<Rightarrow> int" where
  "wrap_int64 i = (i + 9223372036854775808) mod 18446744073709551616 - 9223372036854775808"

text \<open>\<open>strconv.ParseInt(s, 10, 64)\<close>: an optional sign, at least one digit, within 64 bits.\<close>

definition parse_int64 :: "string \<Rightarrow> int option" where
  "parse_int64 s =
     (case s of
        [] \<Rightarrow> None
      | c # cs \<Rightarrow>
          let neg = (c = CHR ''-''); ds = (if c = CHR ''-'' \<or> c = CHR ''+'' then cs else s)
          in case parse_nat ds of
               None \<Rightarrow> None
             | Some n \<Rightarrow>
                 let v = (if neg then - int n else int n)
                 in if min_int64 \<le> v \<and> v \<le> max_int64 then Some v else None)"

text \<open>\<open>strconv.ParseUint(s, 10, 64)\<close>: digits only, within 64 bits.\<close>

definition parse_uint64 :: "string \<Rightarrow> int option" where
  "parse_uint64 s =
     (case parse_nat s of
        None \<Rightarrow> None
      | Some n \<Rightarrow> if int n \<le> max_uint64 then Some (int n) else None)"

lemma char_digit_digit_char [simp]: "d < 10 \<Longrightarrow> char_digit (digit_char d) = Some d"
  by (simp add: char_digit_def digit_char_def of_char_of)

lemma parse_digits_append:
  "parse_digits acc (xs @ ys) =
     (case parse_digits acc xs of None \<Rightarrow> None | Some a \<Rightarrow> parse_digits a ys)"
  by (induction xs arbitrary: acc) (auto split: option.splits)

lemma show_nat_ne [simp]: "show_nat n \<noteq> []"
  by (subst show_nat.simps) simp

lemma parse_digits_show_nat: "parse_digits 0 (show_nat n) = Some n"
proof (induction n rule: show_nat.induct)
  case (1 n)
  then show ?case
    by (cases "n < 10") (simp_all add: show_nat.simps [of n] parse_digits_append)
qed

lemma parse_nat_show_nat [simp]: "parse_nat (show_nat n) = Some n"
  by (simp add: parse_nat_def parse_digits_show_nat)

lemma set_show_nat: "c \<in> set (show_nat n) \<Longrightarrow> \<exists>d<10. c = digit_char d"
proof (induction n rule: show_nat.induct)
  case (1 n)
  then show ?case
    by (cases "n < 10") (auto simp: show_nat.simps [of n] intro: exI [of _ "n mod 10"])
qed

lemma digit_char_neq [simp]:
  "d < 10 \<Longrightarrow> digit_char d \<noteq> CHR ''-''" "d < 10 \<Longrightarrow> digit_char d \<noteq> CHR ''+''"
  "d < 10 \<Longrightarrow> digit_char d \<noteq> CHR '':''"
  by (auto simp: digit_char_def dest!: arg_cong [where f = "of_char :: char \<Rightarrow> nat"])

lemma hd_show_nat: "show_nat n = c # cs \<Longrightarrow> c \<noteq> CHR ''-'' \<and> c \<noteq> CHR ''+''"
  using set_show_nat [of c n] by auto

lemma colon_show_int: "CHR '':'' \<notin> set (show_int i)"
  by (auto simp: show_int_def dest!: set_show_nat dest: sym)

lemma parse_int64_show_int:
  assumes "min_int64 \<le> i" "i \<le> max_int64"
  shows "parse_int64 (show_int i) = Some i"
proof (cases "i < 0")
  case True
  then show ?thesis using assms
    by (simp add: show_int_def parse_int64_def)
next
  case False
  obtain c cs where s: "show_nat (nat i) = c # cs"
    by (cases "show_nat (nat i)") auto
  then have "c \<noteq> CHR ''-''" "c \<noteq> CHR ''+''" using hd_show_nat [OF s] by auto
  moreover have "parse_nat (c # cs) = Some (nat i)"
    using parse_nat_show_nat [of "nat i"] s by simp
  ultimately show ?thesis using False s assms
    by (simp add: show_int_def parse_int64_def)
qed

section \<open>Lists\<close>

lemma set_sort_key [simp]: "set (sort_key f xs) = set xs"
  by simp

lemma filter_eq_Nil_iff: "filter P xs = [] \<longleftrightarrow> (\<forall>x \<in> set xs. \<not> P x)"
  by (simp add: filter_empty_conv)

text \<open>The first element of a list in a given order (\<open>ORDER BY key DESC LIMIT 1\<close> and kin).\<close>

fun first_max :: "('a \<Rightarrow> 'k::linorder) \<Rightarrow> 'a list \<Rightarrow> 'a option" where
  "first_max f [] = None"
| "first_max f (x # xs) =
     (case first_max f xs of None \<Rightarrow> Some x | Some y \<Rightarrow> if f y \<le> f x then Some x else Some y)"

lemma first_max_None [simp]: "first_max f xs = None \<longleftrightarrow> xs = []"
  by (cases xs) (auto split: option.splits if_splits)

lemma first_max_Some:
  "first_max f xs = Some m \<Longrightarrow> m \<in> set xs \<and> (\<forall>x \<in> set xs. f x \<le> f m)"
proof (induction xs arbitrary: m)
  case Nil
  then show ?case by simp
next
  case (Cons a xs)
  show ?case
  proof (cases "first_max f xs")
    case None
    with Cons.prems show ?thesis by simp
  next
    case (Some y)
    with Cons.IH [OF Some] Cons.prems show ?thesis
      by (auto split: if_splits)
  qed
qed

lemma first_max_unique:
  assumes "m \<in> set xs" "\<And>x. x \<in> set xs \<Longrightarrow> x \<noteq> m \<Longrightarrow> f x < f m"
  shows "first_max f xs = Some m"
proof -
  obtain y where y: "first_max f xs = Some y"
    using assms(1) by (cases "first_max f xs") auto
  with first_max_Some [OF y] assms have "y = m"
    by (metis leD)
  with y show ?thesis by simp
qed

section \<open>Finite maps in insertion order\<close>

type_synonym 'v strmap = "(string \<times> 'v) list"

definition map_set :: "'k \<Rightarrow> 'v \<Rightarrow> ('k \<times> 'v) list \<Rightarrow> ('k \<times> 'v) list" where
  "map_set = AList.update"

definition map_merge :: "('k \<times> 'v) list \<Rightarrow> ('k \<times> 'v) list \<Rightarrow> ('k \<times> 'v) list" where
  "map_merge m kvs = foldl (\<lambda>m (k, v). map_set k v m) m kvs"

lemma map_of_map_set [simp]: "map_of (map_set k v m) = (map_of m)(k \<mapsto> v)"
  by (simp add: map_set_def update_conv')

lemma map_of_map_set_apply: "map_of (map_set k v m) k' = (if k' = k then Some v else map_of m k')"
  by simp

lemma map_of_map_merge_absent:
  "k \<notin> fst ` set kvs \<Longrightarrow> map_of (map_merge m kvs) k = map_of m k"
  by (induction kvs arbitrary: m) (auto simp: map_merge_def)

section \<open>Loops that may fail\<close>

text \<open>A loop that returns at the first error.\<close>

fun rfoldl :: "('s \<Rightarrow> 'a \<Rightarrow> 's result) \<Rightarrow> 's \<Rightarrow> 'a list \<Rightarrow> 's result" where
  "rfoldl f s [] = Inr s"
| "rfoldl f s (x # xs) = rbind (f s x) (\<lambda>s'. rfoldl f s' xs)"

lemma rfoldl_append_result:
  assumes "\<And>s x s'. f s x = Inr s' \<Longrightarrow> \<exists>ys. g x = Inr ys \<and> s' = s @ ys"
    and "rfoldl f s xs = Inr r"
  shows "\<exists>yss. list_all2 (\<lambda>x ys. g x = Inr ys) xs yss \<and> r = s @ concat yss"
  using assms(2)
proof (induction xs arbitrary: s)
  case Nil
  then show ?case by simp
next
  case (Cons x xs)
  then obtain s' where s': "f s x = Inr s'" "rfoldl f s' xs = Inr r" by (auto simp: rbind_eq_Inr)
  with assms(1) obtain ys where "g x = Inr ys" "s' = s @ ys" by blast
  moreover from Cons.IH [OF s'(2)] obtain yss
    where "list_all2 (\<lambda>x ys. g x = Inr ys) xs yss" "r = s' @ concat yss" by blast
  ultimately show ?case by (intro exI [of _ "ys # yss"]) simp
qed

lemma list_all2_ex_right: "list_all2 P xs ys \<Longrightarrow> x \<in> set xs \<Longrightarrow> \<exists>y \<in> set ys. P x y"
  by (induction rule: list_all2_induct) auto

lemma list_all2_ex_left: "list_all2 P xs ys \<Longrightarrow> y \<in> set ys \<Longrightarrow> \<exists>x \<in> set xs. P x y"
  by (induction rule: list_all2_induct) auto

lemma rfoldl_invariant:
  assumes "\<And>s x s'. I s \<Longrightarrow> x \<in> set xs \<Longrightarrow> f s x = Inr s' \<Longrightarrow> I s'" "I s" "rfoldl f s xs = Inr r"
  shows "I r"
  using assms
proof (induction xs arbitrary: s)
  case Nil
  then show ?case by simp
next
  case (Cons x xs)
  obtain s' where s': "f s x = Inr s'" "rfoldl f s' xs = Inr r"
    using Cons.prems(3) by (auto simp: rbind_eq_Inr)
  have i: "I s'" using Cons.prems(1) [OF Cons.prems(2) _ s'(1)] by simp
  show ?case
  proof (rule Cons.IH [OF _ i s'(2)])
    show "I t'" if "I t" "y \<in> set xs" "f t y = Inr t'" for t y t'
      using Cons.prems(1) [OF that(1) _ that(3)] that(2) by simp
  qed
qed

lemma foldl_invariant: "(\<And>s x. I s \<Longrightarrow> I (f s x)) \<Longrightarrow> I s \<Longrightarrow> I (foldl f s xs)"
  by (induction xs arbitrary: s) auto

end
