(* ===== verification/Go_Float.thy ===== *)
theory Go_Float
  imports Prelude Complex_Main "HOL-Library.Log_Nat"
begin

text \<open>
  Go's \<open>float64\<close>: IEEE-754 binary64 with round-to-nearest-even. A finite value is its exact
  rational value, and every operation computes exactly and rounds once (\<open>round64\<close>: 53
  significant bits, gradual underflow at \<open>2\<^sup>-\<^sup>1\<^sup>0\<^sup>7\<^sup>4\<close>, overflow to an infinity at
  \<open>2\<^sup>1\<^sup>0\<^sup>2\<^sup>4\<close>). Infinities and NaN are values of their own, and every comparison with NaN is
  false, which is what the program's \<open>switch\<close> chains on floats see. The sign of a zero is not
  kept.
\<close>

section \<open>Rounding\<close>

definition ilog2 :: "rat \<Rightarrow> int" where
  "ilog2 x =
     (let (n, d) = quotient_of x; e = bitlen n - bitlen d
      in if 2 powi e \<le> x then e else e - 1)"

definition quantum :: "rat \<Rightarrow> int" where
  "quantum x = max (ilog2 x - 52) (- 1074)"

definition round_half_even :: "rat \<Rightarrow> int" where
  "round_half_even y =
     (let f = \<lfloor>y\<rfloor>; r = y - of_int f
      in if r < 1/2 then f else if 1/2 < r then f + 1 else if even f then f else f + 1)"

definition round_pos :: "rat \<Rightarrow> rat" where
  "round_pos x = (let q = quantum x in of_int (round_half_even (x / 2 powi q)) * 2 powi q)"

datatype f64 = NaN | PInf | NInf | Fin rat

definition round64 :: "rat \<Rightarrow> f64" where
  "round64 x =
     (if x = 0 then Fin 0
      else let v = round_pos \<bar>x\<bar>
           in if 2 powi 1024 \<le> v then (if 0 < x then PInf else NInf)
              else Fin (if 0 < x then v else - v))"

lemma ilog2_bounds:
  assumes "0 < x"
  shows "2 powi ilog2 x \<le> x" "x < 2 powi (ilog2 x + 1)"
proof -
  obtain n d where q: "quotient_of x = (n, d)" by (cases "quotient_of x")
  have d: "0 < d" and x: "x = of_int n / of_int d"
    using quotient_of_denom_pos [OF q] quotient_of_div [OF q] by auto
  have n: "0 < n" using assms x d by (simp add: zero_less_divide_iff)
  have pw: "(2::rat) powi i = 2 ^ nat i" if "0 \<le> i" for i
    using that by (simp add: power_int_def)
  have bn: "0 < bitlen n" "0 < bitlen d" using n d by (simp_all add: order_less_le bitlen_nonneg eq_commute [of 0] bitlen_eq_zero_iff)
  have b: "2 powi (bitlen k - 1) \<le> (of_int k :: rat)" "(of_int k :: rat) < 2 powi bitlen k"
    if "0 < k" "0 < bitlen k" for k
  proof -
    have "2 ^ nat (bitlen k - 1) \<le> k" "k < 2 ^ nat (bitlen k)"
      using bitlen_bounds [OF that(1)] by auto
    then have "(of_int (2 ^ nat (bitlen k - 1)) :: rat) \<le> of_int k"
      "(of_int k :: rat) < of_int (2 ^ nat (bitlen k))"
      by (simp_all only: of_int_le_iff of_int_less_iff)
    then show "2 powi (bitlen k - 1) \<le> (of_int k :: rat)" "(of_int k :: rat) < 2 powi bitlen k"
      using that(2) by (simp_all add: pw)
  qed
  let ?e = "bitlen n - bitlen d"
  have dpos: "(0::rat) < of_int d" using d by simp
  have lo: "2 powi (?e - 1) \<le> x"
  proof -
    have "2 powi (?e - 1) * (of_int d :: rat) \<le> 2 powi (?e - 1) * 2 powi bitlen d"
      using b(2) [OF d bn(2)] by (intro mult_left_mono) auto
    also have "\<dots> = 2 powi (bitlen n - 1)" by (simp flip: power_int_add)
    also have "\<dots> \<le> of_int n" by (rule b(1) [OF n bn(1)])
    finally show ?thesis using dpos by (simp add: x pos_le_divide_eq)
  qed
  have hi: "x < 2 powi (?e + 1)"
  proof -
    have "(of_int n :: rat) < 2 powi bitlen n" by (rule b(2) [OF n bn(1)])
    also have "\<dots> = 2 powi (?e + 1) * 2 powi (bitlen d - 1)" by (simp flip: power_int_add)
    also have "\<dots> \<le> 2 powi (?e + 1) * of_int d"
      using b(1) [OF d bn(2)] by (intro mult_left_mono) auto
    finally show ?thesis using dpos by (simp add: x pos_divide_less_eq)
  qed
  show "2 powi ilog2 x \<le> x" "x < 2 powi (ilog2 x + 1)"
    using lo hi by (auto simp: ilog2_def q Let_def)
qed

lemma powi_add: "(2::rat) powi (a + b) = 2 powi a * 2 powi b"
  by (simp add: power_int_add)

lemma powi_less_iff: "(2::rat) powi a < 2 powi b \<longleftrightarrow> a < b"
  by (meson linorder_not_less one_less_numeral_iff power_int_increasing power_int_strict_increasing
      semiring_norm(76) order_less_imp_le)

lemma powi_le_iff: "(2::rat) powi a \<le> 2 powi b \<longleftrightarrow> a \<le> b"
  using powi_less_iff [of b a] by auto

lemma ilog2_mono:
  assumes "0 < x" "x \<le> y"
  shows "ilog2 x \<le> ilog2 y"
proof -
  have "2 powi ilog2 x \<le> x" by (rule ilog2_bounds) fact
  also have "\<dots> \<le> y" by fact
  also have "\<dots> < 2 powi (ilog2 y + 1)" using assms by (intro ilog2_bounds) auto
  finally show ?thesis by (simp add: powi_less_iff)
qed

lemma round_half_even_bounds: "\<lfloor>y\<rfloor> \<le> round_half_even y" "round_half_even y \<le> \<lfloor>y\<rfloor> + 1"
  by (auto simp: round_half_even_def Let_def)

lemma round_half_even_of_int [simp]: "round_half_even (of_int k) = k"
  by (simp add: round_half_even_def)

lemma round_half_even_mono:
  assumes "y \<le> z"
  shows "round_half_even y \<le> round_half_even z"
proof (cases "\<lfloor>y\<rfloor> < \<lfloor>z\<rfloor>")
  case True
  then show ?thesis
    using round_half_even_bounds [of y] round_half_even_bounds [of z] by linarith
next
  case False
  with floor_mono [OF assms] have "\<lfloor>y\<rfloor> = \<lfloor>z\<rfloor>" by linarith
  with assms show ?thesis by (auto simp: round_half_even_def Let_def)
qed

lemma round_pos_upper:
  assumes "0 < x"
  shows "round_pos x \<le> 2 powi (quantum x + 53)"
proof -
  let ?q = "quantum x"
  have "x < 2 powi (ilog2 x + 1)" by (rule ilog2_bounds) fact
  also have "\<dots> \<le> 2 powi (?q + 53)" by (simp add: powi_le_iff quantum_def)
  finally have "x \<le> 2 powi 53 * 2 powi ?q" by (simp only: powi_add mult.commute less_imp_le)
  then have "x / 2 powi ?q \<le> 2 powi 53" by (simp only: pos_divide_le_eq zero_less_power_int zero_less_numeral)
  then have "x / 2 powi ?q \<le> of_int (2 ^ 53)" by simp
  from round_half_even_mono [OF this] have "round_half_even (x / 2 powi ?q) \<le> 2 ^ 53"
    by (simp only: round_half_even_of_int)
  then have "(of_int (round_half_even (x / 2 powi ?q)) :: rat) \<le> of_int (2 ^ 53)"
    by (simp only: of_int_le_iff)
  also have "\<dots> = 2 powi 53" by simp
  finally have "of_int (round_half_even (x / 2 powi ?q)) * 2 powi ?q \<le> 2 powi 53 * (2 powi ?q :: rat)"
    by (rule mult_right_mono) simp
  then show ?thesis by (simp only: round_pos_def Let_def powi_add mult.commute)
qed

lemma round_pos_lower:
  assumes "0 < x" "- 1074 < quantum x"
  shows "2 powi (quantum x + 52) \<le> round_pos x"
proof -
  let ?q = "quantum x"
  have "?q + 52 = ilog2 x" using assms(2) by (auto simp: quantum_def)
  then have "2 powi (?q + 52) \<le> x" using ilog2_bounds(1) [OF assms(1)] by simp
  then have "2 powi 52 * 2 powi ?q \<le> x" by (simp only: powi_add mult.commute)
  then have "2 powi 52 \<le> x / 2 powi ?q" by (simp only: pos_le_divide_eq zero_less_power_int zero_less_numeral)
  then have "of_int (2 ^ 52) \<le> x / 2 powi ?q" by simp
  from round_half_even_mono [OF this] have "2 ^ 52 \<le> round_half_even (x / 2 powi ?q)"
    by (simp only: round_half_even_of_int)
  then have "(of_int (2 ^ 52) :: rat) \<le> of_int (round_half_even (x / 2 powi ?q))"
    by (simp only: of_int_le_iff)
  then have "2 powi 52 \<le> (of_int (round_half_even (x / 2 powi ?q)) :: rat)" by simp
  then have "2 powi 52 * (2 powi ?q :: rat) \<le> of_int (round_half_even (x / 2 powi ?q)) * 2 powi ?q"
    by (rule mult_right_mono) simp
  then show ?thesis by (simp only: round_pos_def Let_def powi_add mult.commute)
qed

lemma round_pos_nonneg: "0 < x \<Longrightarrow> 0 \<le> round_pos x"
proof -
  assume "0 < x"
  then have "of_int 0 \<le> x / 2 powi quantum x" by simp
  from round_half_even_mono [OF this] have "0 \<le> round_half_even (x / 2 powi quantum x)"
    by (simp only: round_half_even_of_int)
  then show ?thesis by (simp add: round_pos_def Let_def)
qed

lemma round_pos_mono:
  assumes "0 < x" "x \<le> y"
  shows "round_pos x \<le> round_pos y"
proof (cases "quantum x = quantum y")
  case True
  have "x / 2 powi quantum y \<le> y / 2 powi quantum y"
    using assms by (intro divide_right_mono) auto
  from round_half_even_mono [OF this] True show ?thesis
    by (simp add: round_pos_def Let_def mult_right_mono)
next
  case False
  with ilog2_mono [OF assms] have q: "quantum x < quantum y"
    by (auto simp: quantum_def)
  have "round_pos x \<le> 2 powi (quantum x + 53)" by (rule round_pos_upper) fact
  also have "\<dots> \<le> 2 powi (quantum y + 52)" using q by (simp add: powi_le_iff)
  also have "\<dots> \<le> round_pos y"
    using q assms by (intro round_pos_lower) (auto simp: quantum_def)
  finally show ?thesis .
qed

section \<open>Order and arithmetic\<close>

fun f_le :: "f64 \<Rightarrow> f64 \<Rightarrow> bool" where
  "f_le NaN y = False"
| "f_le x NaN = False"
| "f_le NInf y = True"
| "f_le x PInf = True"
| "f_le (Fin a) (Fin b) = (a \<le> b)"
| "f_le x y = False"

fun f_eq :: "f64 \<Rightarrow> f64 \<Rightarrow> bool" where
  "f_eq NaN y = False"
| "f_eq x NaN = False"
| "f_eq x y = (x = y)"

definition f_lt :: "f64 \<Rightarrow> f64 \<Rightarrow> bool" where
  "f_lt x y \<longleftrightarrow> f_le x y \<and> \<not> f_eq x y"

definition f_finite :: "f64 \<Rightarrow> bool" where
  "f_finite x \<longleftrightarrow> (\<exists>r. x = Fin r)"

fun f_is_finite :: "f64 \<Rightarrow> bool" where
  "f_is_finite (Fin r) = True"
| "f_is_finite x = False"

lemma f_finite_code [code]: "f_finite x = f_is_finite x"
  by (cases x) (auto simp: f_finite_def)

lemma f_finite_simps [simp]:
  "f_finite (Fin r)" "\<not> f_finite NaN" "\<not> f_finite PInf" "\<not> f_finite NInf"
  by (simp_all add: f_finite_def)

fun f_add :: "f64 \<Rightarrow> f64 \<Rightarrow> f64" where
  "f_add NaN y = NaN"
| "f_add x NaN = NaN"
| "f_add PInf NInf = NaN"
| "f_add NInf PInf = NaN"
| "f_add PInf y = PInf"
| "f_add x PInf = PInf"
| "f_add NInf y = NInf"
| "f_add x NInf = NInf"
| "f_add (Fin a) (Fin b) = round64 (a + b)"

fun f_neg :: "f64 \<Rightarrow> f64" where
  "f_neg NaN = NaN"
| "f_neg PInf = NInf"
| "f_neg NInf = PInf"
| "f_neg (Fin a) = Fin (- a)"

definition f_sub :: "f64 \<Rightarrow> f64 \<Rightarrow> f64" where
  "f_sub x y = f_add x (f_neg y)"

definition inf_of_sign :: "rat \<Rightarrow> f64" where
  "inf_of_sign s = (if s = 0 then NaN else if 0 < s then PInf else NInf)"

fun f_mul :: "f64 \<Rightarrow> f64 \<Rightarrow> f64" where
  "f_mul NaN y = NaN"
| "f_mul x NaN = NaN"
| "f_mul (Fin a) (Fin b) = round64 (a * b)"
| "f_mul PInf (Fin b) = inf_of_sign b"
| "f_mul NInf (Fin b) = inf_of_sign (- b)"
| "f_mul (Fin a) PInf = inf_of_sign a"
| "f_mul (Fin a) NInf = inf_of_sign (- a)"
| "f_mul PInf PInf = PInf"
| "f_mul PInf NInf = NInf"
| "f_mul NInf PInf = NInf"
| "f_mul NInf NInf = PInf"

fun f_div :: "f64 \<Rightarrow> f64 \<Rightarrow> f64" where
  "f_div NaN y = NaN"
| "f_div x NaN = NaN"
| "f_div (Fin a) (Fin b) = (if b = 0 then inf_of_sign a else round64 (a / b))"
| "f_div PInf (Fin b) = (if b < 0 then NInf else PInf)"
| "f_div NInf (Fin b) = (if b < 0 then PInf else NInf)"
| "f_div (Fin a) y = Fin 0"
| "f_div x y = NaN"

text \<open>Conversions: \<open>float64(i)\<close>, a decimal literal, \<open>int64(x)\<close> and \<open>math.Round\<close>.\<close>

definition f_of_int :: "int \<Rightarrow> f64" where
  "f_of_int i = round64 (of_int i)"

definition f_lit :: "rat \<Rightarrow> f64" where
  "f_lit r = round64 r"

definition trunc_rat :: "rat \<Rightarrow> int" where
  "trunc_rat r = (if 0 \<le> r then \<lfloor>r\<rfloor> else - \<lfloor>- r\<rfloor>)"

text \<open>
  Outside the range of \<open>int64\<close> the conversion is implementation-defined; the value is amd64's
  (the NAS).
\<close>

fun f_to_int :: "f64 \<Rightarrow> int" where
  "f_to_int (Fin r) =
     (let i = trunc_rat r in if min_int64 \<le> i \<and> i \<le> max_int64 then i else min_int64)"
| "f_to_int _ = min_int64"

fun f_round :: "f64 \<Rightarrow> f64" where
  "f_round (Fin r) = Fin (of_int (if 0 \<le> r then \<lfloor>r + 1/2\<rfloor> else - \<lfloor>1/2 - r\<rfloor>))"
| "f_round x = x"

text \<open>\<open>fmt\<close>'s \<open>%.nf\<close>: the exact value rounded half to even at the n-th decimal.\<close>

definition show_scaled :: "nat \<Rightarrow> nat \<Rightarrow> string" where
  "show_scaled n v =
     (let ip = v div 10 ^ n; fp = v mod 10 ^ n; s = show_nat fp
      in show_nat ip @ (if n = 0 then '''' else ''.'' @ replicate (n - length s) CHR ''0'' @ s))"

fun fmt_fixed :: "nat \<Rightarrow> f64 \<Rightarrow> string" where
  "fmt_fixed n NaN = ''NaN''"
| "fmt_fixed n PInf = ''+Inf''"
| "fmt_fixed n NInf = ''-Inf''"
| "fmt_fixed n (Fin r) =
     (if r < 0 then ''-'' else '''') @ show_scaled n (nat (round_half_even (\<bar>r\<bar> * 10 ^ n)))"

definition f_clamp :: "f64 \<Rightarrow> f64 \<Rightarrow> f64 \<Rightarrow> f64" where
  "f_clamp v lo hi = (if f_lt v lo then lo else if f_lt hi v then hi else v)"

lemma f_le_refl: "x \<noteq> NaN \<Longrightarrow> f_le x x"
  by (cases x) auto

lemma f_le_trans: "f_le x y \<Longrightarrow> f_le y z \<Longrightarrow> f_le x z"
  by (cases x; cases y; cases z) auto

lemma f_le_total: "x \<noteq> NaN \<Longrightarrow> y \<noteq> NaN \<Longrightarrow> f_le x y \<or> f_le y x"
  by (cases x; cases y) auto

lemma f_le_NaN [simp]: "f_le x NaN = False" "f_lt NaN x = False" "f_lt x NaN = False"
  by (cases x; auto simp: f_lt_def)+

lemma f_lt_Fin [simp]: "f_lt (Fin a) (Fin b) \<longleftrightarrow> a < b"
  by (auto simp: f_lt_def)

lemma f_lt_not_le: "x \<noteq> NaN \<Longrightarrow> y \<noteq> NaN \<Longrightarrow> f_lt x y \<longleftrightarrow> \<not> f_le y x"
  by (cases x; cases y) (auto simp: f_lt_def)

lemma round64_not_NaN [simp]: "round64 x \<noteq> NaN"
  by (auto simp: round64_def Let_def)

lemma round64_0 [simp]: "round64 0 = Fin 0"
  by (simp add: round64_def)

lemma round64_mono:
  assumes "x \<le> y"
  shows "f_le (round64 x) (round64 y)"
proof -
  consider "0 < x" | "x \<le> 0" "0 \<le> y" | "y < 0" using assms by linarith
  then show ?thesis
  proof cases
    case 1
    with round_pos_mono [of x y] assms show ?thesis
      by (auto simp: round64_def Let_def)
  next
    case 2
    have "0 \<le> round_pos (- x)" if "x < 0" using round_pos_nonneg [of "- x"] that by simp
    moreover have "0 \<le> round_pos y" if "0 < y" using round_pos_nonneg [of y] that by simp
    ultimately show ?thesis using 2
      by (cases "x = 0"; cases "y = 0") (auto simp: round64_def Let_def intro: order_trans [of _ 0])
  next
    case 3
    with round_pos_mono [of "- y" "- x"] assms show ?thesis
      by (auto simp: round64_def Let_def)
  qed
qed

lemma f_le_infinities [simp]: "x \<noteq> NaN \<Longrightarrow> f_le NInf x" "x \<noteq> NaN \<Longrightarrow> f_le x PInf"
  by (cases x; simp)+

lemma round64_nonneg: "0 \<le> x \<Longrightarrow> f_le (Fin 0) (round64 x)"
  using round64_mono [of 0 x] by simp

lemma f_clamp_bounds:
  assumes "v \<noteq> NaN" "f_le lo hi"
  shows "f_le lo (f_clamp v lo hi) \<and> f_le (f_clamp v lo hi) hi"
  using assms by (cases v; cases lo; cases hi) (auto simp: f_clamp_def f_lt_def)

lemma f_clamp_NaN [simp]: "f_clamp NaN lo hi = NaN"
  by (simp add: f_clamp_def)

lemma f_clamp_finite:
  assumes "v \<noteq> NaN" "f_finite lo" "f_finite hi"
  shows "f_finite (f_clamp v lo hi)"
  using assms by (cases v; cases lo; cases hi) (auto simp: f_clamp_def f_lt_def)

lemma f_mul_finite_not_NaN: "f_finite x \<Longrightarrow> f_finite y \<Longrightarrow> f_mul x y \<noteq> NaN"
  by (auto simp: f_finite_def)

lemma f_mul_PInf_not_NaN: "x \<noteq> NaN \<Longrightarrow> x = Fin r \<Longrightarrow> f_mul x (Fin c) \<noteq> NaN"
  by simp

lemma f_add_finite_not_NaN: "x \<noteq> NaN \<Longrightarrow> f_finite y \<Longrightarrow> f_add x y \<noteq> NaN"
  by (cases x) (auto simp: f_finite_def)

lemma f_of_int_not_NaN [simp]: "f_of_int i \<noteq> NaN"
  by (simp add: f_of_int_def)

lemma f_of_int_mono: "i \<le> j \<Longrightarrow> f_le (f_of_int i) (f_of_int j)"
  by (simp add: f_of_int_def round64_mono)

lemma f_mul_mono_right:
  assumes "f_le (Fin a) (Fin b)" "0 \<le> c"
  shows "f_le (f_mul (Fin a) (Fin c)) (f_mul (Fin b) (Fin c))"
  using assms by (simp add: round64_mono mult_right_mono)

lemma f_div_mono_left:
  assumes "f_le (Fin a) (Fin b)" "0 < c"
  shows "f_le (f_div (Fin a) (Fin c)) (f_div (Fin b) (Fin c))"
  using assms by (simp add: round64_mono divide_right_mono)

lemma f_add_mono:
  assumes "f_le x x'" "f_le y y'" "f_add x y \<noteq> NaN" "f_add x' y' \<noteq> NaN"
  shows "f_le (f_add x y) (f_add x' y')"
  using assms by (cases x; cases x'; cases y; cases y') (auto simp: round64_mono add_mono intro: f_le_refl)

section \<open>Integers that are exact\<close>

text \<open>Integers below \<open>2\<^sup>5\<^sup>3\<close> in magnitude are floats: the conversion does not round.\<close>

lemma round_pos_small_int:
  assumes "0 < i" "i < 2 ^ 53"
  shows "round_pos (of_int i) = of_int i"
proof -
  let ?x = "of_int i :: rat" and ?q = "quantum (of_int i)"
  have "2 powi ilog2 ?x \<le> ?x" using assms by (intro ilog2_bounds) auto
  also have "\<dots> < of_int (2 ^ 53)" using assms(2) by (simp only: of_int_less_iff)
  also have "\<dots> = 2 powi 53" by simp
  finally have "ilog2 ?x < 53" by (simp only: powi_less_iff)
  then have q: "?q \<le> 0" by (simp add: quantum_def)
  have "?x / 2 powi ?q = ?x * 2 powi (- ?q)" by (simp add: power_int_minus divide_inverse)
  also have "\<dots> = of_int (i * 2 ^ nat (- ?q))" using q by (simp add: power_int_def)
  finally have "?x / 2 powi ?q = of_int (i * 2 ^ nat (- ?q))" .
  then have "round_half_even (?x / 2 powi ?q) = i * 2 ^ nat (- ?q)"
    by (simp only: round_half_even_of_int)
  then have "round_pos ?x = ?x * 2 ^ nat (- ?q) * 2 powi ?q"
    by (simp add: round_pos_def Let_def)
  also have "(2::rat) ^ nat (- ?q) = 2 powi (- ?q)" using q by (simp add: power_int_def)
  finally show ?thesis by (simp add: mult.assoc flip: power_int_add)
qed

lemma f_of_int_exact:
  assumes "\<bar>i\<bar> < 2 ^ 53"
  shows "f_of_int i = Fin (of_int i)"
proof (cases "i = 0")
  case True
  then show ?thesis by (simp add: f_of_int_def)
next
  case False
  have r: "round_pos \<bar>of_int i\<bar> = \<bar>of_int i\<bar>"
    using round_pos_small_int [of "\<bar>i\<bar>"] False assms by simp
  have "\<bar>of_int i :: rat\<bar> = of_int \<bar>i\<bar>" by simp
  also have "\<dots> < of_int (2 ^ 53)" using assms by (simp only: of_int_less_iff)
  also have "\<dots> \<le> 2 powi 1024" by simp
  finally have "\<not> 2 powi 1024 \<le> \<bar>of_int i :: rat\<bar>" by simp
  with r False show ?thesis by (simp add: f_of_int_def round64_def Let_def)
qed

end
