(* ===== verification/Go_Time.thy ===== *)
theory Go_Time
  imports Go_Float
begin

text \<open>
  Go's \<open>time.Time\<close>, \<open>time.Duration\<close> and the dynamically typed values of a
  \<open>map[string]any\<close>.

  A time is the number of nanoseconds since Go's zero time (1 January of year 1, UTC), so
  \<open>IsZero\<close> is \<open>t = 0\<close>. A duration is a signed 64-bit nanosecond count; \<open>Sub\<close> saturates at
  its bounds. A location is the only thing calendar arithmetic needs from the time zone
  database: the UTC offset, in seconds, in force at a UTC second.
\<close>

section \<open>Durations\<close>

type_synonym time = int
type_synonym duration = int

abbreviation second :: int where "second \<equiv> 1000000000"
abbreviation minute :: int where "minute \<equiv> 60000000000"
abbreviation hour :: int where "hour \<equiv> 3600000000000"
abbreviation day :: int where "day \<equiv> 86400000000000"

definition t_sub :: "time \<Rightarrow> time \<Rightarrow> duration" where
  "t_sub t u = max min_int64 (min max_int64 (t - u))"

definition t_add :: "time \<Rightarrow> duration \<Rightarrow> time" where
  "t_add t d = t + d"

definition t_is_zero :: "time \<Rightarrow> bool" where
  "t_is_zero t \<longleftrightarrow> t = 0"

text \<open>Go's integer division and remainder truncate towards zero.\<close>

definition go_div :: "int \<Rightarrow> int \<Rightarrow> int" where
  "go_div a b = sgn a * sgn b * (\<bar>a\<bar> div \<bar>b\<bar>)"

definition go_mod :: "int \<Rightarrow> int \<Rightarrow> int" where
  "go_mod a b = a - b * go_div a b"

definition dur_hours :: "duration \<Rightarrow> f64" where
  "dur_hours d = f_add (f_of_int (go_div d hour)) (f_div (f_of_int (go_mod d hour)) (f_of_int hour))"

definition dur_seconds :: "duration \<Rightarrow> f64" where
  "dur_seconds d =
     f_add (f_of_int (go_div d second)) (f_div (f_of_int (go_mod d second)) (f_of_int second))"

definition dur_round :: "duration \<Rightarrow> duration \<Rightarrow> duration" where
  "dur_round d m =
     (if m \<le> 0 then d
      else if d < 0 then
        (let r = - go_mod d m
         in if 2 * r < m then d + r else if min_int64 \<le> d - m + r then d - m + r else min_int64)
      else
        (let r = go_mod d m
         in if 2 * r < m then d - r else if d + m - r \<le> max_int64 then d + m - r else max_int64))"

lemma t_sub_bounds: "min_int64 \<le> t_sub t u \<and> t_sub t u \<le> max_int64"
  by (auto simp: t_sub_def min_int64_def max_int64_def)

lemma t_sub_antimono: "u \<le> u' \<Longrightarrow> t_sub t u' \<le> t_sub t u"
  by (auto simp: t_sub_def)

lemma t_sub_mono: "t \<le> t' \<Longrightarrow> t_sub t u \<le> t_sub t' u"
  by (auto simp: t_sub_def)

lemma t_sub_exact: "min_int64 \<le> t - u \<Longrightarrow> t - u \<le> max_int64 \<Longrightarrow> t_sub t u = t - u"
  by (simp add: t_sub_def)

lemma go_div_nonneg: "0 \<le> a \<Longrightarrow> 0 < b \<Longrightarrow> go_div a b = a div b"
  by (cases "a = 0") (auto simp: go_div_def)

lemma go_mod_nonneg: "0 \<le> a \<Longrightarrow> 0 < b \<Longrightarrow> go_mod a b = a mod b"
  by (simp add: go_mod_def go_div_nonneg minus_mult_div_eq_mod)

lemma go_mod_bound:
  assumes "0 < b"
  shows "\<bar>go_mod a b\<bar> < b"
proof (cases "0 \<le> a")
  case True
  with assms show ?thesis by (simp add: go_mod_nonneg)
next
  case False
  with assms have "go_mod a b = - (- a mod b)"
    by (simp add: go_mod_def go_div_def minus_div_mult_eq_mod [symmetric] mult.commute)
  with assms show ?thesis by simp
qed

text \<open>\<open>Hours\<close> of a non-negative duration, with the two conversions exact.\<close>

lemma dur_hours_nonneg:
  assumes "0 \<le> d" "d \<le> max_int64"
  shows "dur_hours d =
    f_add (Fin (of_int (d div hour))) (round64 (of_int (d mod hour) / of_int hour))"
proof -
  have "d div hour \<le> max_int64 div hour" using assms(2) by (rule zdiv_mono1) simp
  then have h: "0 \<le> d div hour" "d div hour < 2 ^ 53" using assms(1) by (simp_all add: max_int64_def)
  have m: "0 \<le> d mod hour" "d mod hour < hour" by simp_all
  have "f_of_int (d div hour) = Fin (of_int (d div hour))" using h by (intro f_of_int_exact) simp
  moreover have "f_of_int (d mod hour) = Fin (of_int (d mod hour))" using m by (intro f_of_int_exact) simp
  moreover have "f_of_int hour = Fin (of_int hour)" by (intro f_of_int_exact) simp
  ultimately show ?thesis using assms(1) by (simp add: dur_hours_def go_div_nonneg go_mod_nonneg)
qed

lemma round64_unit_interval:
  assumes "0 \<le> x" "x \<le> 1"
  obtains r where "round64 x = Fin r" "0 \<le> r" "r \<le> 1"
proof -
  have one: "round64 1 = Fin 1" using f_of_int_exact [of 1] by (simp add: f_of_int_def)
  have lo: "f_le (Fin 0) (round64 x)" and hi: "f_le (round64 x) (Fin 1)"
    using round64_mono [OF assms(1)] round64_mono [OF assms(2)] one by simp_all
  then show ?thesis using that by (cases "round64 x") auto
qed

lemma dur_hours_finite_form:
  assumes "0 \<le> d" "d \<le> max_int64"
  obtains r where "dur_hours d = round64 (of_int (d div hour) + r)" "0 \<le> r" "r \<le> 1"
    "round64 (of_int (d mod hour) / of_int hour) = Fin r"
proof -
  have "(of_int (d mod hour) :: rat) < of_int hour" by (simp only: of_int_less_iff)
  then have "(of_int (d mod hour) :: rat) / of_int hour \<le> 1" by simp
  moreover have "0 \<le> (of_int (d mod hour) :: rat) / of_int hour" by simp
  ultimately obtain r where r: "round64 (of_int (d mod hour) / of_int hour) = Fin r" "0 \<le> r" "r \<le> 1"
    using round64_unit_interval by blast
  with dur_hours_nonneg [OF assms] have "dur_hours d = round64 (of_int (d div hour) + r)" by simp
  with r that show ?thesis by blast
qed

lemma dur_hours_mono:
  assumes "0 \<le> d" "d \<le> d'" "d' \<le> max_int64"
  shows "f_le (dur_hours d) (dur_hours d')"
proof -
  have le: "d \<le> max_int64" "0 \<le> d'" using assms by auto
  obtain r where r: "dur_hours d = round64 (of_int (d div hour) + r)" "0 \<le> r" "r \<le> 1"
    "round64 (of_int (d mod hour) / of_int hour) = Fin r"
    by (rule dur_hours_finite_form [OF assms(1) le(1)])
  obtain r' where r': "dur_hours d' = round64 (of_int (d' div hour) + r')" "0 \<le> r'" "r' \<le> 1"
    "round64 (of_int (d' mod hour) / of_int hour) = Fin r'"
    by (rule dur_hours_finite_form [OF le(2) assms(3)])
  have "d div hour \<le> d' div hour" using assms(2) by (rule zdiv_mono1) simp
  then consider "d div hour = d' div hour" | "d div hour + 1 \<le> d' div hour" by linarith
  then have "of_int (d div hour) + r \<le> of_int (d' div hour) + r'"
  proof cases
    case 1
    then have "d mod hour \<le> d' mod hour"
      using assms(2) div_mult_mod_eq [of d hour] div_mult_mod_eq [of d' hour] by linarith
    then have "(of_int (d mod hour) :: rat) \<le> of_int (d' mod hour)" by (simp only: of_int_le_iff)
    then have "(of_int (d mod hour) :: rat) / of_int hour \<le> of_int (d' mod hour) / of_int hour"
      by (rule divide_right_mono) simp
    from round64_mono [OF this] r(4) r'(4) 1 show ?thesis by simp
  next
    case 2
    then have "(of_int (d div hour + 1) :: rat) \<le> of_int (d' div hour)" by (simp only: of_int_le_iff)
    with r(3) r'(2) show ?thesis by simp
  qed
  with r(1) r'(1) show ?thesis by (simp add: round64_mono)
qed

lemma dur_hours_0 [simp]: "dur_hours 0 = Fin 0"
  using f_of_int_exact [of hour] f_of_int_exact [of 0] by (simp add: dur_hours_def go_div_def go_mod_def)

lemma dur_hours_not_NaN [simp]: "dur_hours d \<noteq> NaN"
proof -
  have h: "f_of_int hour = Fin (of_int hour)" by (intro f_of_int_exact) simp
  have b: "\<bar>go_mod d hour\<bar> < hour" by (rule go_mod_bound) simp
  then have m: "f_of_int (go_mod d hour) = Fin (of_int (go_mod d hour))"
    by (intro f_of_int_exact) simp
  have "(of_int \<bar>go_mod d hour\<bar> :: rat) < of_int hour" using b by (simp only: of_int_less_iff)
  then have "(of_int (go_mod d hour) :: rat) / of_int hour \<le> 1"
    "- 1 \<le> (of_int (go_mod d hour) :: rat) / of_int hour" by (auto simp: abs_if split: if_splits)
  moreover have "round64 (- 1) = Fin (- 1)" "round64 1 = Fin 1"
    using f_of_int_exact [of "- 1"] f_of_int_exact [of 1] by (simp_all add: f_of_int_def)
  ultimately have "f_le (round64 (of_int (go_mod d hour) / of_int hour)) (Fin 1)"
    "f_le (Fin (- 1)) (round64 (of_int (go_mod d hour) / of_int hour))"
    using round64_mono by metis+
  then have "f_finite (round64 (of_int (go_mod d hour) / of_int hour))"
    by (cases "round64 (of_int (go_mod d hour) / of_int hour)") auto
  then show ?thesis by (simp add: dur_hours_def h m f_add_finite_not_NaN)
qed

section \<open>Stored timestamps\<close>

text \<open>
  \<open>store.formatTime\<close> writes \<open>t.UTC().Format(time.RFC3339)\<close>: the whole seconds of \<open>t\<close>. The
  model keeps the second count; SQLite compares the texts, whose order is the order of the
  counts for the four-digit years. Reading a column back (\<open>time.Parse\<close>) gives the second's start.
\<close>

type_synonym stamp = int

definition format_time :: "time \<Rightarrow> stamp" where
  "format_time t = t div second"

definition parse_time :: "stamp \<Rightarrow> time" where
  "parse_time s = s * second"

lemma format_parse_time [simp]: "format_time (parse_time s) = s"
  by (simp add: format_time_def parse_time_def)

lemma parse_format_time: "parse_time (format_time t) = t - t mod second"
  by (simp add: format_time_def parse_time_def minus_mod_eq_div_mult)

lemma parse_format_time_le: "parse_time (format_time t) \<le> t"
  by (simp add: parse_format_time)

lemma format_time_mono: "t \<le> u \<Longrightarrow> format_time t \<le> format_time u"
  by (simp add: format_time_def zdiv_mono1)

lemma format_time_less: "t + second \<le> u \<Longrightarrow> format_time t < format_time u"
proof -
  assume "t + second \<le> u"
  then have "(t + second) div second \<le> u div second" by (rule zdiv_mono1) simp
  then show ?thesis by (simp add: format_time_def)
qed

section \<open>Calendar arithmetic in a location\<close>

text \<open>
  \<open>t.AddDate(0, 0, n)\<close> keeps the wall clock of the location and moves the date by \<open>n\<close> days.
  \<open>time.Date\<close> then looks the wall clock up as if it were UTC, and if that offset does not hold
  at the resulting instant, takes the offset that does.
\<close>

type_synonym location = "int \<Rightarrow> int"

definition utc :: location where "utc = (\<lambda>_. 0)"

definition add_days :: "location \<Rightarrow> time \<Rightarrow> int \<Rightarrow> time" where
  "add_days loc t n =
     (let wall = t + loc (t div second) * second + n * day;
          off = loc (wall div second)
      in if off = 0 then wall
         else let utc_sec = wall div second - off in wall - loc utc_sec * second)"

lemma add_days_utc [simp]: "add_days utc t n = t + n * day"
  by (simp add: add_days_def utc_def)

text \<open>Where the offset does not change, a day is 24 hours.\<close>

lemma add_days_const: "add_days (\<lambda>_. c) t n = t + n * day"
  by (auto simp: add_days_def Let_def)

section \<open>Dynamically typed values\<close>

text \<open>
  The values the program puts into a \<open>map[string]any\<close>, by dynamic type. \<open>VTimeText t\<close> is the
  string that \<open>encoding/json\<close> makes of a \<open>time.Time\<close>.
\<close>

datatype anyv =
    VNull | VBool bool | VInt int | VFloat f64 | VStr string | VTime time | VTimeText time
  | VStrs "string list" | VList "anyv list" | VObj "(string \<times> anyv) list"

type_synonym data = "anyv strmap"

text \<open>
  \<open>json.Marshal\<close> followed by \<open>json.Unmarshal\<close> into \<open>any\<close>: numbers come back as \<open>float64\<close>,
  times as strings, typed slices as \<open>[]any\<close>. NaN and the infinities have no JSON form:
  marshalling fails (\<open>None\<close>).
\<close>

fun json_trip :: "anyv \<Rightarrow> anyv option"
  and json_trip_list :: "anyv list \<Rightarrow> anyv list option"
  and json_trip_obj :: "(string \<times> anyv) list \<Rightarrow> (string \<times> anyv) list option" where
  "json_trip VNull = Some VNull"
| "json_trip (VBool b) = Some (VBool b)"
| "json_trip (VInt i) = Some (VFloat (f_of_int i))"
| "json_trip (VFloat x) = (if f_is_finite x then Some (VFloat x) else None)"
| "json_trip (VStr s) = Some (VStr s)"
| "json_trip (VTime t) = Some (VTimeText t)"
| "json_trip (VTimeText t) = Some (VTimeText t)"
| "json_trip (VStrs ss) = Some (VList (map VStr ss))"
| "json_trip (VList xs) = map_option VList (json_trip_list xs)"
| "json_trip (VObj kvs) = map_option VObj (json_trip_obj kvs)"
| "json_trip_list [] = Some []"
| "json_trip_list (x # xs) =
     (case json_trip x of None \<Rightarrow> None | Some y \<Rightarrow> map_option (Cons y) (json_trip_list xs))"
| "json_trip_obj [] = Some []"
| "json_trip_obj ((k, x) # kvs) =
     (case json_trip x of None \<Rightarrow> None | Some y \<Rightarrow> map_option (Cons (k, y)) (json_trip_obj kvs))"

lemma json_trip_list_VStr [simp]: "json_trip_list (map VStr ss) = Some (map VStr ss)"
  by (induction ss) auto

end
