(* ===== verification/Go_Path.thy ===== *)
theory Go_Path
  imports Prelude
begin

text \<open>
  \<open>path/filepath\<close> on Unix: \<open>Clean\<close>, \<open>Join\<close>, \<open>Dir\<close> and \<open>Ext\<close>. \<open>Clean\<close> is given over the
  path's elements: empty elements and \<open>.\<close> are dropped, \<open>..\<close> removes the element before it
  (at the root of an absolute path it disappears, at the start of a relative path it stays).
\<close>

abbreviation sep :: char where "sep \<equiv> CHR ''/''"

definition clean_step :: "bool \<Rightarrow> string list \<Rightarrow> string \<Rightarrow> string list" where
  "clean_step rooted st c =
     (if c = '''' \<or> c = ''.'' then st
      else if c = ''..'' then
        (if st \<noteq> [] \<and> hd st \<noteq> ''..'' then tl st else if rooted then st else c # st)
      else c # st)"

definition is_rooted :: "string \<Rightarrow> bool" where
  "is_rooted s \<longleftrightarrow> s \<noteq> [] \<and> hd s = sep"

definition clean_comps :: "string \<Rightarrow> string list" where
  "clean_comps s = rev (foldl (clean_step (is_rooted s)) [] (split_on sep s))"

definition clean :: "string \<Rightarrow> string" where
  "clean s =
     (let cs = clean_comps s
      in if is_rooted s then sep # join_with [sep] cs
         else if cs = [] then ''.'' else join_with [sep] cs)"

definition path_join :: "string \<Rightarrow> string \<Rightarrow> string" where
  "path_join a b =
     (if a = '''' then (if b = '''' then '''' else clean b) else clean (a @ [sep] @ b))"

definition path_dir :: "string \<Rightarrow> string" where
  "path_dir s = clean (rev (dropWhile (\<lambda>c. c \<noteq> sep) (rev s)))"

definition path_ext :: "string \<Rightarrow> string" where
  "path_ext s =
     (let t = rev s; e = takeWhile (\<lambda>c. c \<noteq> CHR ''.'' \<and> c \<noteq> sep) t; r = drop (length e) t
      in if r \<noteq> [] \<and> hd r = CHR ''.'' then rev (e @ [CHR ''.'']) else '''')"

section \<open>Normal forms\<close>

definition plain_comp :: "string \<Rightarrow> bool" where
  "plain_comp c \<longleftrightarrow> c \<noteq> '''' \<and> c \<noteq> ''.'' \<and> c \<noteq> ''..'' \<and> sep \<notin> set c"

definition normal_comps :: "bool \<Rightarrow> string list \<Rightarrow> bool" where
  "normal_comps rooted cs \<longleftrightarrow>
     (\<exists>n xs. cs = replicate n ''..'' @ xs \<and> (\<forall>c \<in> set xs. plain_comp c) \<and> (rooted \<longrightarrow> n = 0))"

lemma clean_step_empty [simp]: "clean_step r st '''' = st"
  by (simp add: clean_step_def)

lemma split_on_no_sep: "c \<in> set (split_on x s) \<Longrightarrow> x \<notin> set c"
  by (induction s arbitrary: c) (auto split: if_splits list.splits)

lemma clean_step_normal:
  assumes "normal_comps r (rev st)" "sep \<notin> set c"
  shows "normal_comps r (rev (clean_step r st c))"
proof -
  obtain n xs where st: "rev st = replicate n ''..'' @ xs" "\<forall>c \<in> set xs. plain_comp c" "r \<longrightarrow> n = 0"
    using assms(1) by (auto simp: normal_comps_def)
  consider "c = '''' \<or> c = ''.''" | "plain_comp c" | "c = ''..''" using assms(2) by (auto simp: plain_comp_def)
  then show ?thesis
  proof cases
    case 1
    then show ?thesis using assms(1) by (simp add: clean_step_def)
  next
    case 2
    then have "rev (clean_step r st c) = replicate n ''..'' @ (xs @ [c])"
      using st by (auto simp: clean_step_def plain_comp_def)
    moreover have "\<forall>d \<in> set (xs @ [c]). plain_comp d" using 2 st(2) by simp
    ultimately show ?thesis using st(3) unfolding normal_comps_def by blast
  next
    case 3
    show ?thesis
    proof (cases xs rule: rev_cases)
      case Nil
      then have "st = replicate n ''..''" using st(1) by (simp add: rev_swap)
      then have "rev (clean_step r st c) = replicate (if r then n else Suc n) ''..'' @ []"
        using 3 st(3) by (cases n) (auto simp: clean_step_def replicate_append_same)
      then show ?thesis unfolding normal_comps_def
        by (intro exI [of _ "if r then n else Suc n"] exI [of _ "[]"]) (use st(3) in auto)
    next
      case (snoc ys y)
      then have "st = y # rev (replicate n ''..'' @ ys)" using st(1) by (simp add: rev_swap)
      moreover have "y \<noteq> ''..''" using st(2) snoc by (simp add: plain_comp_def)
      ultimately have "rev (clean_step r st c) = replicate n ''..'' @ ys"
        using 3 by (simp add: clean_step_def)
      with st snoc show ?thesis by (auto simp: normal_comps_def)
    qed
  qed
qed

lemma foldl_clean_step_normal:
  "normal_comps r (rev st) \<Longrightarrow> \<forall>c \<in> set cs. sep \<notin> set c \<Longrightarrow>
   normal_comps r (rev (foldl (clean_step r) st cs))"
  by (induction cs arbitrary: st) (auto intro: clean_step_normal)

lemma clean_comps_normal: "normal_comps (is_rooted s) (clean_comps s)"
  unfolding clean_comps_def
  by (rule foldl_clean_step_normal) (auto simp: normal_comps_def dest: split_on_no_sep)

lemma clean_step_plain: "plain_comp c \<Longrightarrow> clean_step r st c = c # st"
  by (auto simp: clean_step_def plain_comp_def)

lemma foldl_clean_step_plain:
  "\<forall>c \<in> set cs. plain_comp c \<Longrightarrow> foldl (clean_step r) st cs = rev cs @ st"
  by (induction cs arbitrary: st) (auto simp: clean_step_plain)

lemma foldl_clean_step_dots:
  "foldl (clean_step False) (replicate m ''..'') (replicate n ''..'') = replicate (n + m) ''..''"
proof (induction n arbitrary: m)
  case 0
  then show ?case by simp
next
  case (Suc n)
  have "clean_step False (replicate m ''..'') ''..'' = replicate (Suc m) ''..''"
    by (cases m) (auto simp: clean_step_def)
  with Suc.IH [of "Suc m"] show ?case by simp
qed

lemma foldl_clean_step_of_normal:
  assumes "normal_comps r cs"
  shows "foldl (clean_step r) [] cs = rev cs"
proof -
  obtain n xs where cs: "cs = replicate n ''..'' @ xs" "\<forall>c \<in> set xs. plain_comp c" "r \<longrightarrow> n = 0"
    using assms by (auto simp: normal_comps_def)
  have "foldl (clean_step r) [] (replicate n ''..'') = replicate n ''..''"
    using cs(3) foldl_clean_step_dots [of 0 n] by (cases r) auto
  with cs(2) show ?thesis by (simp add: cs(1) foldl_clean_step_plain)
qed

lemma normal_comps_no_sep:
  assumes "normal_comps r cs" "c \<in> set cs"
  shows "sep \<notin> set c \<and> c \<noteq> ''''"
proof -
  obtain n xs where "cs = replicate n ''..'' @ xs" "\<forall>c \<in> set xs. plain_comp c"
    using assms(1) unfolding normal_comps_def by blast
  with assms(2) consider "c \<in> set (replicate n ''..'')" | "plain_comp c" by auto
  then show ?thesis
  proof cases
    case 1
    then have "c = ''..''" by (simp add: set_replicate_conv_if split: if_splits)
    then show ?thesis by simp
  next
    case 2
    then show ?thesis by (simp add: plain_comp_def)
  qed
qed

lemma split_on_Cons_other:
  "x \<notin> set a \<Longrightarrow> split_on x (a @ x # b) = a # split_on x b"
  by (induction a) auto

lemma split_on_single: "x \<notin> set a \<Longrightarrow> split_on x a = [a]"
  by (induction a) auto

lemma join_with_Cons: "join_with d (c # cs) = (if cs = [] then c else c @ d @ join_with d cs)"
  by (cases cs) simp_all

lemma split_on_join:
  "cs \<noteq> [] \<Longrightarrow> \<forall>c \<in> set cs. x \<notin> set c \<Longrightarrow> split_on x (join_with [x] cs) = cs"
proof (induction cs)
  case Nil
  then show ?case by simp
next
  case (Cons c cs)
  then show ?case
    by (cases "cs = []") (simp_all add: join_with_Cons split_on_Cons_other split_on_single)
qed

lemma join_with_rooted:
  "cs \<noteq> [] \<Longrightarrow> \<forall>c \<in> set cs. sep \<notin> set c \<and> c \<noteq> '''' \<Longrightarrow> \<not> is_rooted (join_with [sep] cs)"
  by (cases cs) (auto simp: is_rooted_def hd_append join_with_Cons, (metis hd_in_set)+)

lemma is_rooted_clean [simp]: "is_rooted (clean s) = is_rooted s"
proof (cases "is_rooted s")
  case True
  then show ?thesis by (simp add: clean_def Let_def) (simp add: is_rooted_def)
next
  case False
  have "\<forall>c \<in> set (clean_comps s). sep \<notin> set c \<and> c \<noteq> ''''"
    using normal_comps_no_sep [OF clean_comps_normal] by blast
  with False join_with_rooted [of "clean_comps s"] show ?thesis
    by (auto simp: clean_def Let_def) (simp add: is_rooted_def)
qed

lemma clean_comps_clean [simp]: "clean_comps (clean s) = clean_comps s"
proof -
  let ?cs = "clean_comps s" and ?r = "is_rooted s"
  have n: "normal_comps ?r ?cs" by (rule clean_comps_normal)
  have f: "foldl (clean_step ?r) [] ?cs = rev ?cs" by (rule foldl_clean_step_of_normal) (rule n)
  have sp: "split_on sep (join_with [sep] ?cs) = ?cs" if "?cs \<noteq> []"
    using that normal_comps_no_sep [OF n] by (intro split_on_join) auto
  have "foldl (clean_step ?r) [] (split_on sep (clean s)) = rev ?cs"
  proof (cases "?cs = []")
    case True
    then show ?thesis by (auto simp: clean_def Let_def clean_step_def)
  next
    case False
    then show ?thesis using f sp by (auto simp: clean_def Let_def clean_step_def [of ?r "[]" "''''"])
  qed
  then show ?thesis by (simp add: clean_comps_def [of "clean s"])
qed

lemma clean_idem [simp]: "clean (clean s) = clean s"
  by (rule trans [OF clean_def]) (simp only: clean_comps_clean is_rooted_clean, simp only: clean_def)

lemma clean_eq_iff: "clean s = clean t \<longleftrightarrow> is_rooted s = is_rooted t \<and> clean_comps s = clean_comps t"
proof
  assume "clean s = clean t"
  then show "is_rooted s = is_rooted t \<and> clean_comps s = clean_comps t"
    using is_rooted_clean [of s] is_rooted_clean [of t] clean_comps_clean [of s] clean_comps_clean [of t]
    by simp
qed (simp add: clean_def)

lemma clean_ne [simp]: "clean s \<noteq> ''''"
proof -
  have "join_with [sep] (clean_comps s) \<noteq> ''''" if "clean_comps s \<noteq> []"
    using that normal_comps_no_sep [OF clean_comps_normal, of _ s]
    by (cases "clean_comps s") (auto simp: join_with_Cons)
  then show ?thesis by (auto simp: clean_def Let_def)
qed

text \<open>A cleaned absolute path has no \<open>..\<close> element left.\<close>

lemma clean_comps_rooted: "is_rooted s \<Longrightarrow> c \<in> set (clean_comps s) \<Longrightarrow> plain_comp c"
  using clean_comps_normal [of s] by (auto simp: normal_comps_def)

section \<open>Joining\<close>

lemma split_on_append_sep: "split_on x (a @ x # b) = split_on x a @ split_on x b"
  by (induction a) (auto split: list.splits)

lemma is_rooted_append: "a \<noteq> [] \<Longrightarrow> is_rooted (a @ b) = is_rooted a"
  by (simp add: is_rooted_def)

lemma clean_comps_append:
  assumes "a \<noteq> ''''" "plain_comp b"
  shows "clean_comps (a @ sep # b) = clean_comps a @ [b]"
  using assms
  by (simp add: clean_comps_def is_rooted_append split_on_append_sep clean_step_plain
      split_on_single plain_comp_def)

lemma path_join_comps:
  assumes "a \<noteq> ''''" "plain_comp b"
  shows "clean_comps (path_join a b) = clean_comps a @ [b]" "is_rooted (path_join a b) = is_rooted a"
  using assms clean_comps_append [OF assms] by (simp_all add: path_join_def is_rooted_append)

lemma clean_path_join [simp]: "clean (path_join a b) = (if a = '''' \<and> b = '''' then ''.'' else path_join a b)"
proof -
  have "clean '''' = ''.''" by (simp add: clean_def clean_comps_def is_rooted_def clean_step_def)
  then show ?thesis by (auto simp: path_join_def)
qed

end
