(* ===== verification/Healarr_Config.thy ===== *)
theory Healarr_Config
  imports Go_Time Go_Path "HOL-Library.Word"
begin

unbundle bit_operations_syntax

text \<open>
  \<open>internal/config\<close>: the configuration records, the defaults, the overlay of environment
  variables and \<open>config.xml\<close> keys, and the validation that every other component relies on.
  The TOML decoder, the file system, the environment and the time zone database are arguments
  of \<open>load_config\<close>. A \<open>float64\<close> literal that TOML decodes may be NaN or infinite.
\<close>

section \<open>Records\<close>

type_synonym node = string

abbreviation NodePi :: node where "NodePi \<equiv> ''pi''"
abbreviation NodeNAS :: node where "NodeNAS \<equiv> ''nas''"

record service =
  svc_url :: string
  svc_api_key_file :: string

record services =
  svcs_sonarr :: service
  svcs_radarr :: service
  svcs_prowlarr :: service
  svcs_overseerr :: service
  svcs_qbittorrent :: service
  svcs_plex :: service
  svcs_tautulli :: service

record peer_cfg =
  pc_listen_addr :: string
  pc_peer_url :: string

record web_cfg =
  wc_listen_addr :: string
  wc_base_path :: string
  wc_public_url :: string

record email_cfg =
  ec_to :: string
  ec_from :: string
  ec_msmtp_path :: string
  ec_digest_at :: string

record agent_cfg =
  ac_timezone :: string
  ac_heartbeat_interval :: duration
  ac_checkpoint_at :: string
  ac_peer_stale_after :: duration
  ac_peer_message_retention :: duration

record llm_cfg =
  lc_enabled :: bool
  lc_model :: string
  lc_daily_budget_usd :: f64

record docker_cfg =
  dc_socket :: string
  dc_binary :: string

record mount_cfg =
  mc_host :: string
  mc_container :: string
  mc_container_path :: string

record plex_library =
  pl_title :: string
  pl_path :: string

record checks_cfg =
  cc_timeout :: duration
  cc_disk_paths :: "string list"
  cc_disk_warn_percent :: f64
  cc_disk_crit_percent :: f64
  cc_queue_stuck_after :: duration
  cc_qbit_stalled_after :: duration
  cc_completed_not_imported_after :: duration
  cc_arr_history_window :: duration
  cc_wrong_file_exts :: "string list"
  cc_tv_categories :: "string list"
  cc_downloads_dirs :: "string list"
  cc_orphan_after :: duration
  cc_recycle_dirs :: "string list"
  cc_recycle_warn_gb :: f64
  cc_image_bloat_warn_gb :: f64
  cc_log_dirs :: "string list"
  cc_log_warn_gb :: f64
  cc_wanted_spike_percent :: f64
  cc_wanted_spike_min :: int
  cc_indexer_failure_window :: duration
  cc_overseerr_stuck_after :: duration
  cc_plex_scan_stale_after :: duration
  cc_plex_libraries :: "plex_library list"
  cc_seeded_min_age :: duration

record staleness_cfg =
  sc_days_max_points :: f64
  sc_days_horizon :: int
  sc_never_watched_after_days :: int
  sc_watched_full_points :: f64
  sc_watched_partial_points :: f64
  sc_ended_points :: f64
  sc_continuing_points :: f64
  sc_size_points_per_gb :: f64
  sc_size_max_points :: f64
  sc_other_requester_points :: f64
  sc_owner_requester_points :: f64
  sc_age_points_per_day :: f64
  sc_age_max_points :: f64
  sc_candidate_threshold :: f64
  sc_watchlist_threshold :: f64
  sc_owner :: string
  sc_snooze_days :: int

record cleanup_cfg =
  cl_dry_run :: bool
  cl_orphan_min_age :: duration
  cl_recycle_min_age :: duration
  cl_docker_dangling :: bool

record config =
  cfg_node :: node
  cfg_services :: services
  cfg_peer :: peer_cfg
  cfg_web :: web_cfg
  cfg_email :: email_cfg
  cfg_llm :: llm_cfg
  cfg_db_path :: string
  cfg_docker :: docker_cfg
  cfg_mounts :: "mount_cfg list"
  cfg_checks :: checks_cfg
  cfg_agent :: agent_cfg
  cfg_staleness :: staleness_cfg
  cfg_cleanup :: cleanup_cfg
  cfg_actions_enabled :: bool

record secrets =
  s_sonarr_api_key :: string
  s_radarr_api_key :: string
  s_prowlarr_api_key :: string
  s_overseerr_api_key :: string
  s_qbit_user :: string
  s_qbit_pass :: string
  s_plex_token :: string
  s_tautulli_api_key :: string
  s_peer_token :: string
  s_web_token :: string
  s_anthropic_api_key :: string

section \<open>Defaults\<close>

definition no_service :: service where
  "no_service = \<lparr>svc_url = '''', svc_api_key_file = ''''\<rparr>"

definition default_checks :: checks_cfg where
  "default_checks = \<lparr>
     cc_timeout = 60 * second,
     cc_disk_paths = [''/''],
     cc_disk_warn_percent = f_lit 85,
     cc_disk_crit_percent = f_lit 92,
     cc_queue_stuck_after = 24 * hour,
     cc_qbit_stalled_after = hour,
     cc_completed_not_imported_after = 30 * minute,
     cc_arr_history_window = 7 * 24 * hour,
     cc_wrong_file_exts = [''.exe'', ''.scr'', ''.bat'', ''.lnk'', ''.msi''],
     cc_tv_categories = [''tv''],
     cc_downloads_dirs = [],
     cc_orphan_after = 7 * 24 * hour,
     cc_recycle_dirs = [],
     cc_recycle_warn_gb = f_lit 20,
     cc_image_bloat_warn_gb = f_lit 2,
     cc_log_dirs = [''/var/log''],
     cc_log_warn_gb = f_lit 1,
     cc_wanted_spike_percent = f_lit 20,
     cc_wanted_spike_min = 10,
     cc_indexer_failure_window = 24 * hour,
     cc_overseerr_stuck_after = 7 * 24 * hour,
     cc_plex_scan_stale_after = 2 * hour,
     cc_plex_libraries = [],
     cc_seeded_min_age = 24 * hour\<rparr>"

definition default_staleness :: staleness_cfg where
  "default_staleness = \<lparr>
     sc_days_max_points = f_lit 40,
     sc_days_horizon = 180,
     sc_never_watched_after_days = 30,
     sc_watched_full_points = f_lit 15,
     sc_watched_partial_points = f_lit (- 10),
     sc_ended_points = f_lit 10,
     sc_continuing_points = f_lit (- 15),
     sc_size_points_per_gb = f_lit (1 / 10),
     sc_size_max_points = f_lit 15,
     sc_other_requester_points = f_lit 10,
     sc_owner_requester_points = f_lit (- 5),
     sc_age_points_per_day = f_lit (5 / 100),
     sc_age_max_points = f_lit 10,
     sc_candidate_threshold = f_lit 70,
     sc_watchlist_threshold = f_lit 50,
     sc_owner = '''',
     sc_snooze_days = 60\<rparr>"

definition defaults :: config where
  "defaults = \<lparr>
     cfg_node = '''',
     cfg_services = \<lparr>svcs_sonarr = no_service, svcs_radarr = no_service, svcs_prowlarr = no_service,
       svcs_overseerr = no_service, svcs_qbittorrent = no_service, svcs_plex = no_service,
       svcs_tautulli = no_service\<rparr>,
     cfg_peer = \<lparr>pc_listen_addr = ''0.0.0.0:8090'', pc_peer_url = ''''\<rparr>,
     cfg_web = \<lparr>wc_listen_addr = ''0.0.0.0:8091'', wc_base_path = ''/healarr'', wc_public_url = ''''\<rparr>,
     cfg_email = \<lparr>ec_to = '''', ec_from = '''', ec_msmtp_path = ''/usr/bin/msmtp'', ec_digest_at = ''07:00''\<rparr>,
     cfg_llm = \<lparr>lc_enabled = True, lc_model = ''claude-haiku-4-5-20251001'', lc_daily_budget_usd = f_lit 1\<rparr>,
     cfg_db_path = ''/var/lib/healarr/state.db'',
     cfg_docker = \<lparr>dc_socket = ''/var/run/docker.sock'', dc_binary = ''docker''\<rparr>,
     cfg_mounts = [],
     cfg_checks = default_checks,
     cfg_agent = \<lparr>ac_timezone = '''', ac_heartbeat_interval = 5 * minute, ac_checkpoint_at = ''03:00'',
       ac_peer_stale_after = 15 * minute, ac_peer_message_retention = 30 * 24 * hour\<rparr>,
     cfg_staleness = default_staleness,
     cfg_cleanup = \<lparr>cl_dry_run = True, cl_orphan_min_age = 168 * hour, cl_recycle_min_age = 24 * hour,
       cl_docker_dangling = True\<rparr>,
     cfg_actions_enabled = False\<rparr>"

section \<open>Validation\<close>

text \<open>One constructor per message; the rejected value is in the message, so it is kept.\<close>

datatype config_error =
    NodeRequired | UnknownNode string
  | BadTimezone string goerr | BadHeartbeat duration | BadCheckpointAt string
  | BadPeerStaleAfter duration | BadPeerRetention duration | BadDigestAt string
  | BadTimeout duration | NegativeCheckDuration string duration | NegativeCleanupDuration string duration
  | WarnNotPositive f64 | CritBelowWarn f64 f64 | CritAboveMax f64
  | NotFinite string f64 | BadHorizon int | BadNeverWatched int
  | WatchlistNotPositive f64 | CandidateNotAbove f64 f64 | CandidateAboveMax f64 | BadSnoozeDays int
  | ReadConfigFailed string goerr | SecretsStatFailed goerr | SecretsMode string "32 word"
  | ReadSecretsFailed string goerr | ArrKeyFailed string goerr

type_synonym 'a cfg_result = "config_error + 'a"

definition max_percent :: f64 where "max_percent = f_of_int 100"

definition is_digit :: "char \<Rightarrow> bool" where
  "is_digit c \<longleftrightarrow> c \<in> set ''0123456789''"

text \<open>The pattern \<open>^([01]\d|2[0-3]):[0-5]\d$\<close>.\<close>

fun hhmm_match :: "string \<Rightarrow> bool" where
  "hhmm_match [h1, h2, c, m1, m2] \<longleftrightarrow>
     ((h1 \<in> set ''01'' \<and> is_digit h2) \<or> (h1 = CHR ''2'' \<and> h2 \<in> set ''0123'')) \<and>
     c = CHR '':'' \<and> m1 \<in> set ''012345'' \<and> is_digit m2"
| "hhmm_match _ \<longleftrightarrow> False"

definition validate_agent :: "(string \<Rightarrow> location result) \<Rightarrow> agent_cfg \<Rightarrow> unit cfg_result" where
  "validate_agent load_location a =
     (case (if ac_timezone a \<noteq> '''' then load_location (ac_timezone a) else Inr utc) of
        Inl e \<Rightarrow> Inl (BadTimezone (ac_timezone a) e)
      | Inr _ \<Rightarrow>
          if ac_heartbeat_interval a \<le> 0 then Inl (BadHeartbeat (ac_heartbeat_interval a))
          else if \<not> hhmm_match (ac_checkpoint_at a) then Inl (BadCheckpointAt (ac_checkpoint_at a))
          else if ac_peer_stale_after a \<le> 0 then Inl (BadPeerStaleAfter (ac_peer_stale_after a))
          else if ac_peer_message_retention a \<le> 0 then Inl (BadPeerRetention (ac_peer_message_retention a))
          else Inr ())"

definition validate_email_digest_at :: "string \<Rightarrow> unit cfg_result" where
  "validate_email_digest_at s = (if \<not> hhmm_match s then Inl (BadDigestAt s) else Inr ())"

definition validate_node :: "node \<Rightarrow> unit cfg_result" where
  "validate_node n =
     (if n = NodePi \<or> n = NodeNAS then Inr ()
      else if n = '''' then Inl NodeRequired else Inl (UnknownNode n))"

definition check_durations :: "checks_cfg \<Rightarrow> (string \<times> duration) list" where
  "check_durations c =
    [(''timeout'', cc_timeout c),
     (''queue_stuck_after'', cc_queue_stuck_after c),
     (''qbit_stalled_after'', cc_qbit_stalled_after c),
     (''completed_not_imported_after'', cc_completed_not_imported_after c),
     (''arr_history_window'', cc_arr_history_window c),
     (''orphan_after'', cc_orphan_after c),
     (''indexer_failure_window'', cc_indexer_failure_window c),
     (''overseerr_stuck_after'', cc_overseerr_stuck_after c),
     (''plex_scan_stale_after'', cc_plex_scan_stale_after c),
     (''seeded_min_age'', cc_seeded_min_age c)]"

text \<open>The first field of a list that fails a test is the one the error names.\<close>

definition reject_first :: "('v \<Rightarrow> bool) \<Rightarrow> (string \<Rightarrow> 'v \<Rightarrow> config_error) \<Rightarrow> (string \<times> 'v) list \<Rightarrow> unit cfg_result" where
  "reject_first bad err fs =
     (case find (\<lambda>(k, v). bad v) fs of None \<Rightarrow> Inr () | Some (k, v) \<Rightarrow> Inl (err k v))"

definition and_then :: "unit cfg_result \<Rightarrow> unit cfg_result \<Rightarrow> unit cfg_result" where
  "and_then a b = (case a of Inl e \<Rightarrow> Inl e | Inr _ \<Rightarrow> b)"

definition validate_checks :: "checks_cfg \<Rightarrow> unit cfg_result" where
  "validate_checks c =
     (if cc_timeout c \<le> 0 then Inl (BadTimeout (cc_timeout c))
      else and_then (reject_first (\<lambda>d. d < 0) NegativeCheckDuration (check_durations c))
       (if f_le (cc_disk_warn_percent c) (f_of_int 0) then Inl (WarnNotPositive (cc_disk_warn_percent c))
        else if f_lt (cc_disk_crit_percent c) (cc_disk_warn_percent c)
          then Inl (CritBelowWarn (cc_disk_crit_percent c) (cc_disk_warn_percent c))
        else if f_lt max_percent (cc_disk_crit_percent c) then Inl (CritAboveMax (cc_disk_crit_percent c))
        else Inr ()))"

definition staleness_floats :: "staleness_cfg \<Rightarrow> (string \<times> f64) list" where
  "staleness_floats s =
    [(''days_max_points'', sc_days_max_points s),
     (''watched_full_points'', sc_watched_full_points s),
     (''watched_partial_points'', sc_watched_partial_points s),
     (''ended_points'', sc_ended_points s),
     (''continuing_points'', sc_continuing_points s),
     (''size_points_per_gb'', sc_size_points_per_gb s),
     (''size_max_points'', sc_size_max_points s),
     (''other_requester_points'', sc_other_requester_points s),
     (''owner_requester_points'', sc_owner_requester_points s),
     (''age_points_per_day'', sc_age_points_per_day s),
     (''age_max_points'', sc_age_max_points s),
     (''candidate_threshold'', sc_candidate_threshold s),
     (''watchlist_threshold'', sc_watchlist_threshold s)]"

definition validate_staleness :: "staleness_cfg \<Rightarrow> unit cfg_result" where
  "validate_staleness s =
     and_then (reject_first (\<lambda>v. \<not> f_is_finite v) NotFinite (staleness_floats s))
      (if sc_days_horizon s \<le> 0 then Inl (BadHorizon (sc_days_horizon s))
       else if sc_never_watched_after_days s < 0 then Inl (BadNeverWatched (sc_never_watched_after_days s))
       else if f_le (sc_watchlist_threshold s) (f_of_int 0)
         then Inl (WatchlistNotPositive (sc_watchlist_threshold s))
       else if f_le (sc_candidate_threshold s) (sc_watchlist_threshold s)
         then Inl (CandidateNotAbove (sc_candidate_threshold s) (sc_watchlist_threshold s))
       else if f_lt max_percent (sc_candidate_threshold s)
         then Inl (CandidateAboveMax (sc_candidate_threshold s))
       else if sc_snooze_days s \<le> 0 then Inl (BadSnoozeDays (sc_snooze_days s))
       else Inr ())"

definition cleanup_durations :: "cleanup_cfg \<Rightarrow> (string \<times> duration) list" where
  "cleanup_durations c =
    [(''orphan_min_age'', cl_orphan_min_age c), (''recycle_min_age'', cl_recycle_min_age c)]"

definition validate_cleanup :: "cleanup_cfg \<Rightarrow> unit cfg_result" where
  "validate_cleanup c = reject_first (\<lambda>d. d < 0) NegativeCleanupDuration (cleanup_durations c)"

definition validate :: "(string \<Rightarrow> location result) \<Rightarrow> config \<Rightarrow> unit cfg_result" where
  "validate load_location cfg =
     and_then (validate_node (cfg_node cfg))
    (and_then (validate_checks (cfg_checks cfg))
    (and_then (validate_agent load_location (cfg_agent cfg))
    (and_then (validate_staleness (cfg_staleness cfg))
    (and_then (validate_cleanup (cfg_cleanup cfg))
     (validate_email_digest_at (ec_digest_at (cfg_email cfg)))))))"

text \<open>\<open>Config.Location\<close>: the zone of the schedules; the empty name is the host's own zone.\<close>

definition config_location :: "location \<Rightarrow> (string \<Rightarrow> location result) \<Rightarrow> config \<Rightarrow> location cfg_result" where
  "config_location local load_location c =
     (if ac_timezone (cfg_agent c) = '''' then Inr local
      else case load_location (ac_timezone (cfg_agent c)) of
             Inl e \<Rightarrow> Inl (BadTimezone (ac_timezone (cfg_agent c)) e)
           | Inr loc \<Rightarrow> Inr loc)"

section \<open>Loading\<close>

text \<open>\<open>envOr\<close>: a variable that is set and not empty overrides the current value.\<close>

definition env_or :: "(string \<Rightarrow> string option) \<Rightarrow> string \<Rightarrow> string \<Rightarrow> string" where
  "env_or env key current =
     (case env key of Some v \<Rightarrow> if v \<noteq> '''' then v else current | None \<Rightarrow> current)"

definition set_url :: "(string \<Rightarrow> string option) \<Rightarrow> string \<Rightarrow> service \<Rightarrow> service" where
  "set_url env key s = s\<lparr>svc_url := env_or env key (svc_url s)\<rparr>"

definition apply_config_env :: "(string \<Rightarrow> string option) \<Rightarrow> config \<Rightarrow> config" where
  "apply_config_env env c =
     (let ss = cfg_services c in
      c\<lparr>cfg_services := ss\<lparr>
           svcs_sonarr := set_url env ''HEALARR_SONARR_URL'' (svcs_sonarr ss),
           svcs_radarr := set_url env ''HEALARR_RADARR_URL'' (svcs_radarr ss),
           svcs_prowlarr := set_url env ''HEALARR_PROWLARR_URL'' (svcs_prowlarr ss),
           svcs_overseerr := set_url env ''HEALARR_OVERSEERR_URL'' (svcs_overseerr ss),
           svcs_qbittorrent := set_url env ''HEALARR_QBITTORRENT_URL'' (svcs_qbittorrent ss),
           svcs_plex := set_url env ''HEALARR_PLEX_URL'' (svcs_plex ss),
           svcs_tautulli := set_url env ''HEALARR_TAUTULLI_URL'' (svcs_tautulli ss)\<rparr>,
         cfg_db_path := env_or env ''HEALARR_STATE_DB'' (cfg_db_path c),
         cfg_peer := (cfg_peer c)\<lparr>pc_peer_url := env_or env ''HEALARR_PEER_URL'' (pc_peer_url (cfg_peer c))\<rparr>\<rparr>)"

definition apply_secrets_env :: "(string \<Rightarrow> string option) \<Rightarrow> secrets \<Rightarrow> secrets" where
  "apply_secrets_env env s = \<lparr>
     s_sonarr_api_key = env_or env ''HEALARR_SONARR_API_KEY'' (s_sonarr_api_key s),
     s_radarr_api_key = env_or env ''HEALARR_RADARR_API_KEY'' (s_radarr_api_key s),
     s_prowlarr_api_key = env_or env ''HEALARR_PROWLARR_API_KEY'' (s_prowlarr_api_key s),
     s_overseerr_api_key = env_or env ''HEALARR_OVERSEERR_API_KEY'' (s_overseerr_api_key s),
     s_qbit_user = env_or env ''HEALARR_QBIT_USER'' (s_qbit_user s),
     s_qbit_pass = env_or env ''HEALARR_QBIT_PASS'' (s_qbit_pass s),
     s_plex_token = env_or env ''HEALARR_PLEX_TOKEN'' (s_plex_token s),
     s_tautulli_api_key = env_or env ''HEALARR_TAUTULLI_API_KEY'' (s_tautulli_api_key s),
     s_peer_token = env_or env ''HEALARR_PEER_TOKEN'' (s_peer_token s),
     s_web_token = env_or env ''HEALARR_WEB_TOKEN'' (s_web_token s),
     s_anthropic_api_key = env_or env ''ANTHROPIC_API_KEY'' (s_anthropic_api_key s)\<rparr>"

text \<open>
  \<open>ReadArrAPIKey\<close>: \<open>read_file\<close> is \<open>os.ReadFile\<close> and \<open>xml_key\<close> the text of the \<open>ApiKey\<close>
  element that \<open>encoding/xml\<close> decodes (empty when there is none).
\<close>

definition read_arr_api_key ::
  "(string \<Rightarrow> string result) \<Rightarrow> (string \<Rightarrow> string result) \<Rightarrow> string \<Rightarrow> string result" where
  "read_arr_api_key read_file xml_key path =
     (case read_file path of
        Inl e \<Rightarrow> Inl (wrap_error (''read '' @ path) e)
      | Inr raw \<Rightarrow>
          (case xml_key raw of
             Inl e \<Rightarrow> Inl (wrap_error (''parse '' @ path) e)
           | Inr k \<Rightarrow> if k = '''' then Inl (new_error (''no <ApiKey> element in '' @ path)) else Inr k))"

definition resolve_slot :: "(string \<Rightarrow> string result) \<Rightarrow> string \<Rightarrow> string \<Rightarrow> string \<Rightarrow> string cfg_result" where
  "resolve_slot read_key file key name =
     (if key \<noteq> '''' \<or> file = '''' then Inr key
      else case read_key file of Inl e \<Rightarrow> Inl (ArrKeyFailed name e) | Inr k \<Rightarrow> Inr k)"

definition resolve_arr_keys :: "(string \<Rightarrow> string result) \<Rightarrow> config \<Rightarrow> secrets \<Rightarrow> secrets cfg_result" where
  "resolve_arr_keys read_key cfg s =
     (let ss = cfg_services cfg in
      case resolve_slot read_key (svc_api_key_file (svcs_sonarr ss)) (s_sonarr_api_key s) ''sonarr'' of
        Inl e \<Rightarrow> Inl e
      | Inr k1 \<Rightarrow>
     (case resolve_slot read_key (svc_api_key_file (svcs_radarr ss)) (s_radarr_api_key s) ''radarr'' of
        Inl e \<Rightarrow> Inl e
      | Inr k2 \<Rightarrow>
     (case resolve_slot read_key (svc_api_key_file (svcs_prowlarr ss)) (s_prowlarr_api_key s) ''prowlarr'' of
        Inl e \<Rightarrow> Inl e
      | Inr k3 \<Rightarrow> Inr (s\<lparr>s_sonarr_api_key := k1, s_radarr_api_key := k2, s_prowlarr_api_key := k3\<rparr>))))"

text \<open>
  The host that \<open>Load\<close> reads: \<open>h_decode_config\<close> is \<open>toml.DecodeFile\<close> overlaid on a config,
  \<open>h_stat\<close> the permission bits of a file, \<open>h_decode_secrets\<close> the decoded secrets file.
\<close>

record host =
  h_env :: "string \<Rightarrow> string option"
  h_decode_config :: "string \<Rightarrow> config \<Rightarrow> config result"
  h_stat :: "string \<Rightarrow> 32 word result"
  h_decode_secrets :: "string \<Rightarrow> secrets result"
  h_read_file :: "string \<Rightarrow> string result"
  h_xml_key :: "string \<Rightarrow> string result"
  h_load_location :: "string \<Rightarrow> location result"

definition load_secrets :: "host \<Rightarrow> string \<Rightarrow> secrets cfg_result" where
  "load_secrets h path =
     (case h_stat h path of
        Inl e \<Rightarrow> Inl (SecretsStatFailed e)
      | Inr perm \<Rightarrow>
          if perm AND 63 \<noteq> 0 then Inl (SecretsMode path perm)
          else case h_decode_secrets h path of
                 Inl e \<Rightarrow> Inl (ReadSecretsFailed path e)
               | Inr sec \<Rightarrow> Inr sec)"

definition secrets_path :: "host \<Rightarrow> string \<Rightarrow> string" where
  "secrets_path h config_path =
     (case h_env h ''HEALARR_SECRETS'' of
        None \<Rightarrow> path_join (path_dir config_path) ''secrets.toml''
      | Some v \<Rightarrow> if v = '''' then path_join (path_dir config_path) ''secrets.toml'' else v)"

definition load_config :: "host \<Rightarrow> string \<Rightarrow> (config \<times> secrets) cfg_result" where
  "load_config h config_path =
     (case h_decode_config h config_path defaults of
        Inl e \<Rightarrow> Inl (ReadConfigFailed config_path e)
      | Inr cfg0 \<Rightarrow>
     (case load_secrets h (secrets_path h config_path) of
        Inl e \<Rightarrow> Inl e
      | Inr sec0 \<Rightarrow>
     (let cfg = apply_config_env (h_env h) cfg0; sec1 = apply_secrets_env (h_env h) sec0
      in case resolve_arr_keys (read_arr_api_key (h_read_file h) (h_xml_key h)) cfg sec1 of
        Inl e \<Rightarrow> Inl e
      | Inr sec \<Rightarrow>
          (case validate (h_load_location h) cfg of Inl e \<Rightarrow> Inl e | Inr _ \<Rightarrow> Inr (cfg, sec)))))"

section \<open>What validation establishes\<close>

text \<open>
  The contract names every field on its own, apart from the validator's tables of fields: a row
  missing from one of those tables makes the two disagree.
\<close>

definition hhmm_ok :: "string \<Rightarrow> bool" where
  "hhmm_ok s \<longleftrightarrow> (\<exists>h m. h < 24 \<and> m < 60 \<and>
     s = [digit_char (h div 10), digit_char (h mod 10), CHR '':'', digit_char (m div 10), digit_char (m mod 10)])"

definition staleness_ok :: "staleness_cfg \<Rightarrow> bool" where
  "staleness_ok s \<longleftrightarrow>
     f_finite (sc_days_max_points s) \<and> f_finite (sc_watched_full_points s) \<and>
     f_finite (sc_watched_partial_points s) \<and> f_finite (sc_ended_points s) \<and>
     f_finite (sc_continuing_points s) \<and> f_finite (sc_size_points_per_gb s) \<and>
     f_finite (sc_size_max_points s) \<and> f_finite (sc_other_requester_points s) \<and>
     f_finite (sc_owner_requester_points s) \<and> f_finite (sc_age_points_per_day s) \<and>
     f_finite (sc_age_max_points s) \<and> f_finite (sc_candidate_threshold s) \<and>
     f_finite (sc_watchlist_threshold s) \<and>
     0 < sc_days_horizon s \<and>
     0 \<le> sc_never_watched_after_days s \<and> f_lt (Fin 0) (sc_watchlist_threshold s) \<and>
     f_lt (sc_watchlist_threshold s) (sc_candidate_threshold s) \<and>
     f_le (sc_candidate_threshold s) (Fin 100) \<and> 0 < sc_snooze_days s"

text \<open>
  The disk thresholds are an ordered pair in \<open>(0, 100]\<close> unless one of them is NaN, which every
  one of the three comparisons lets through.
\<close>

definition checks_ok :: "checks_cfg \<Rightarrow> bool" where
  "checks_ok c \<longleftrightarrow>
     0 < cc_timeout c \<and> 0 \<le> cc_queue_stuck_after c \<and>
     0 \<le> cc_qbit_stalled_after c \<and> 0 \<le> cc_completed_not_imported_after c \<and>
     0 \<le> cc_arr_history_window c \<and> 0 \<le> cc_orphan_after c \<and>
     0 \<le> cc_indexer_failure_window c \<and> 0 \<le> cc_overseerr_stuck_after c \<and>
     0 \<le> cc_plex_scan_stale_after c \<and> 0 \<le> cc_seeded_min_age c \<and>
     (cc_disk_warn_percent c = NaN \<or> f_lt (Fin 0) (cc_disk_warn_percent c)) \<and>
     (cc_disk_warn_percent c = NaN \<or> cc_disk_crit_percent c = NaN \<or>
        f_le (cc_disk_warn_percent c) (cc_disk_crit_percent c)) \<and>
     (cc_disk_crit_percent c = NaN \<or> f_le (cc_disk_crit_percent c) (Fin 100))"

definition agent_ok :: "(string \<Rightarrow> location result) \<Rightarrow> agent_cfg \<Rightarrow> bool" where
  "agent_ok load_location a \<longleftrightarrow>
     (ac_timezone a = '''' \<or> (\<exists>loc. load_location (ac_timezone a) = Inr loc)) \<and>
     0 < ac_heartbeat_interval a \<and> hhmm_ok (ac_checkpoint_at a) \<and>
     0 < ac_peer_stale_after a \<and> 0 < ac_peer_message_retention a"

definition config_ok :: "(string \<Rightarrow> location result) \<Rightarrow> config \<Rightarrow> bool" where
  "config_ok load_location c \<longleftrightarrow>
     cfg_node c \<in> {NodePi, NodeNAS} \<and> checks_ok (cfg_checks c) \<and>
     agent_ok load_location (cfg_agent c) \<and> staleness_ok (cfg_staleness c) \<and>
     0 \<le> cl_orphan_min_age (cfg_cleanup c) \<and> 0 \<le> cl_recycle_min_age (cfg_cleanup c) \<and>
     hhmm_ok (ec_digest_at (cfg_email c))"

lemma and_then_Inr [simp]: "and_then a b = Inr u \<longleftrightarrow> a = Inr () \<and> b = Inr ()"
  by (cases a) (auto simp: and_then_def)

lemma reject_first_Inr [simp]:
  "reject_first bad err fs = Inr u \<longleftrightarrow> (\<forall>kv \<in> set fs. \<not> bad (snd kv))"
  by (auto simp: reject_first_def find_None_iff split: option.splits)
     (metis (mono_tags, lifting) case_prod_beta find_Some_iff nth_mem snd_conv)+

lemma digit_chars:
  "digit_char 0 = CHR ''0''" "digit_char (Suc 0) = CHR ''1''" "digit_char 2 = CHR ''2''"
  "digit_char 3 = CHR ''3''" "digit_char 4 = CHR ''4''" "digit_char 5 = CHR ''5''"
  "digit_char 6 = CHR ''6''" "digit_char 7 = CHR ''7''" "digit_char 8 = CHR ''8''"
  "digit_char 9 = CHR ''9''"
  by code_simp+

lemma digits_below:
  "set ''01'' = digit_char ` {..<2}" "set ''0123'' = digit_char ` {..<4}"
  "set ''012345'' = digit_char ` {..<6}" "set ''0123456789'' = digit_char ` {..<10}"
proof -
  have "{..<2} = {0, Suc 0}" "{..<4} = {0, Suc 0, 2, 3::nat}" "{..<6} = {0, Suc 0, 2, 3, 4, 5::nat}"
    "{..<10} = {0, Suc 0, 2, 3, 4, 5, 6, 7, 8, 9::nat}" by auto
  then show "set ''01'' = digit_char ` {..<2}" "set ''0123'' = digit_char ` {..<4}"
    "set ''012345'' = digit_char ` {..<6}" "set ''0123456789'' = digit_char ` {..<10}"
    by (simp_all only: image_insert image_empty digit_chars list.set)
qed

lemma is_digit_iff: "is_digit c \<longleftrightarrow> (\<exists>d<10. c = digit_char d)"
  by (simp only: is_digit_def digits_below) (simp add: image_iff Bex_def)

lemma hhmm_match_shape:
  assumes "hhmm_match s"
  obtains h1 h2 m1 m2 where "s = [h1, h2, CHR '':'', m1, m2]"
    "(h1 \<in> set ''01'' \<and> is_digit h2) \<or> (h1 = CHR ''2'' \<and> h2 \<in> set ''0123'')"
    "m1 \<in> set ''012345''" "is_digit m2"
proof (cases s rule: hhmm_match.cases)
  case (1 h1 h2 c m1 m2)
  with assms that show ?thesis by (simp only: hhmm_match.simps)
qed (use assms in \<open>simp_all only: hhmm_match.simps\<close>)

text \<open>The pattern accepts exactly the 24-hour times of day.\<close>

lemma hhmm_match_iff: "hhmm_match s \<longleftrightarrow> hhmm_ok s"
proof
  assume "hhmm_match s"
  then obtain h1 h2 m1 m2 where s: "s = [h1, h2, CHR '':'', m1, m2]"
    and h: "(h1 \<in> digit_char ` {..<2} \<and> is_digit h2) \<or> (h1 = digit_char 2 \<and> h2 \<in> digit_char ` {..<4})"
    and m: "m1 \<in> digit_char ` {..<6}" "is_digit m2"
    by (rule hhmm_match_shape) (simp only: digits_below digit_chars)
  have "\<exists>a b. h1 = digit_char a \<and> h2 = digit_char b \<and> b < 10 \<and> 10 * a + b < 24"
  proof (rule disjE [OF h])
    assume "h1 \<in> digit_char ` {..<2} \<and> is_digit h2"
    then obtain a b where "a < 2" "b < 10" "h1 = digit_char a" "h2 = digit_char b"
      by (auto simp: is_digit_iff)
    then show ?thesis by (intro exI [of _ a] exI [of _ b]) auto
  next
    assume "h1 = digit_char 2 \<and> h2 \<in> digit_char ` {..<4}"
    then obtain b where "h1 = digit_char 2" "b < 4" "h2 = digit_char b" by auto
    then show ?thesis by (intro exI [of _ 2] exI [of _ b]) auto
  qed
  then obtain a b where ab: "h1 = digit_char a" "h2 = digit_char b" "b < 10" "10 * a + b < 24" by blast
  obtain c d where cd: "m1 = digit_char c" "c < 6" "m2 = digit_char d" "d < 10"
    using m by (auto simp: is_digit_iff)
  show "hhmm_ok s"
    unfolding hhmm_ok_def
    by (intro exI [of _ "10 * a + b"] exI [of _ "10 * c + d"]) (use ab cd in \<open>simp add: s\<close>)
next
  assume "hhmm_ok s"
  then obtain h m where hm: "h < 24" "m < 60"
    "s = [digit_char (h div 10), digit_char (h mod 10), CHR '':'', digit_char (m div 10), digit_char (m mod 10)]"
    by (auto simp: hhmm_ok_def)
  have isd: "is_digit (digit_char (k mod 10))" for k
    by (auto simp: is_digit_iff intro!: exI [of _ "k mod 10"])
  have img: "digit_char k \<in> digit_char ` {..<n}" if "k < n" for k n using that by (intro imageI) simp
  have "h div 10 < 2 \<or> (h div 10 = 2 \<and> h mod 10 < 4)" using hm(1) div_mult_mod_eq [of h 10] by (cases "h div 10 < 2") (simp_all only: simp_thms not_less, linarith)
  then have "(digit_char (h div 10) \<in> digit_char ` {..<2} \<and> is_digit (digit_char (h mod 10))) \<or>
    (digit_char (h div 10) = digit_char 2 \<and> digit_char (h mod 10) \<in> digit_char ` {..<4})"
    using isd [of h] img [of "h div 10" 2] img [of "h mod 10" 4] by argo
  moreover have "m div 10 < 6" using hm(2) by linarith
  then have "digit_char (m div 10) \<in> digit_char ` {..<6}" by (rule img)
  ultimately show "hhmm_match s" using isd [of m]
    by (simp only: hm(3) hhmm_match.simps digits_below digit_chars simp_thms)
qed

lemma f_lt_Fin0: "x \<noteq> NaN \<Longrightarrow> f_lt (Fin 0) x \<longleftrightarrow> \<not> f_le x (Fin 0)"
  by (rule f_lt_not_le) simp_all

lemma f_of_int_small [simp]: "f_of_int 0 = Fin 0" "max_percent = Fin 100"
  using f_of_int_exact [of 0] f_of_int_exact [of 100] by (simp_all add: max_percent_def)

lemma f_finite_f_is_finite [simp]: "f_is_finite x = f_finite x"
  by (simp add: f_finite_code)

lemma f_finite_not_NaN: "f_finite x \<Longrightarrow> x \<noteq> NaN"
  by auto

lemma staleness_finite_NaN:
  "\<forall>kv \<in> set (staleness_floats s). f_finite (snd kv) \<Longrightarrow>
   sc_watchlist_threshold s \<noteq> NaN \<and> sc_candidate_threshold s \<noteq> NaN"
  by (auto simp: staleness_floats_def)

lemma validate_staleness_iff: "validate_staleness s = Inr () \<longleftrightarrow> staleness_ok s"
proof (cases "\<forall>kv \<in> set (staleness_floats s). f_finite (snd kv)")
  case False
  then show ?thesis by (auto simp: validate_staleness_def staleness_ok_def staleness_floats_def)
next
  case True
  then have "sc_watchlist_threshold s \<noteq> NaN" "sc_candidate_threshold s \<noteq> NaN"
    using staleness_finite_NaN by blast+
  with True show ?thesis
    by (auto simp: validate_staleness_def staleness_ok_def staleness_floats_def f_lt_not_le)
qed

lemma validate_checks_iff: "validate_checks c = Inr () \<longleftrightarrow> checks_ok c"
proof -
  let ?w = "cc_disk_warn_percent c" and ?k = "cc_disk_crit_percent c"
  have "f_le ?w (Fin 0) \<longleftrightarrow> ?w \<noteq> NaN \<and> \<not> f_lt (Fin 0) ?w"
    "f_lt ?k ?w \<longleftrightarrow> ?w \<noteq> NaN \<and> ?k \<noteq> NaN \<and> \<not> f_le ?w ?k"
    "f_lt (Fin 100) ?k \<longleftrightarrow> ?k \<noteq> NaN \<and> \<not> f_le ?k (Fin 100)"
    by (cases "?w = NaN"; cases "?k = NaN"; simp add: f_lt_not_le)+
  then show ?thesis by (auto simp: validate_checks_def checks_ok_def check_durations_def not_less not_le)
qed

lemma validate_agent_iff: "validate_agent ll a = Inr () \<longleftrightarrow> agent_ok ll a"
  by (auto simp: validate_agent_def agent_ok_def hhmm_match_iff not_le split: sum.splits)

lemma validate_node_iff: "validate_node n = Inr () \<longleftrightarrow> n \<in> {NodePi, NodeNAS}"
  by (simp add: validate_node_def)

lemma validate_cleanup_iff:
  "validate_cleanup c = Inr () \<longleftrightarrow> 0 \<le> cl_orphan_min_age c \<and> 0 \<le> cl_recycle_min_age c"
  by (auto simp: validate_cleanup_def cleanup_durations_def)

lemma validate_digest_iff: "validate_email_digest_at s = Inr () \<longleftrightarrow> hhmm_ok s"
  by (simp add: validate_email_digest_at_def hhmm_match_iff)

lemmas validate_iffs = validate_staleness_iff validate_checks_iff validate_agent_iff
  validate_node_iff validate_cleanup_iff validate_digest_iff

end
