(* ===== verification/Check_Types.thy ===== *)
theory Check_Types
  imports Healarr_Config
begin

text \<open>
  The values the two nodes compute and exchange: the findings and reports of
  \<open>internal/check/types.go\<close> and the messages of \<open>internal/peer/types.go\<close>.
\<close>

section \<open>Values\<close>

type_synonym severity = string
type_synonym tier = string

abbreviation SeverityInfo :: severity where "SeverityInfo \<equiv> ''info''"
abbreviation SeverityWarn :: severity where "SeverityWarn \<equiv> ''warn''"
abbreviation SeverityCritical :: severity where "SeverityCritical \<equiv> ''critical''"

abbreviation TierObserve :: tier where "TierObserve \<equiv> ''observe''"
abbreviation TierNudge :: tier where "TierNudge \<equiv> ''nudge''"
abbreviation TierCorrect :: tier where "TierCorrect \<equiv> ''correct''"
abbreviation TierEscalate :: tier where "TierEscalate \<equiv> ''escalate''"

abbreviation PiOnly :: "node list" where "PiOnly \<equiv> [NodePi]"
abbreviation NASOnly :: "node list" where "NASOnly \<equiv> [NodeNAS]"
abbreviation BothNodes :: "node list" where "BothNodes \<equiv> [NodePi, NodeNAS]"

record finding =
  fi_check_id :: string
  fi_node :: node
  fi_entity_key :: string
  fi_severity :: severity
  fi_tier :: tier
  fi_summary :: string
  fi_detail :: string
  fi_data :: data
  fi_first_seen :: time
  fi_last_seen :: time

definition finding_key :: "finding \<Rightarrow> string" where
  "finding_key f = fi_check_id f @ '':'' @ fi_entity_key f"

record check_error =
  ce_check_id :: string
  ce_error :: string

type_synonym metrics = "f64 strmap"

record report =
  rp_node :: node
  rp_generated_at :: time
  rp_findings :: "finding list"
  rp_ran :: "string list"
  rp_skipped :: "string list"
  rp_errors :: "check_error list"
  rp_metrics :: metrics
  rp_checks_run :: int
  rp_checks_failed :: int

section \<open>Messages between the nodes\<close>

record report_envelope =
  ev_node :: node
  ev_sent_at :: time
  ev_version :: string
  ev_report :: report

record heartbeat =
  hb_node :: node
  hb_at :: time
  hb_version :: string
  hb_uptime :: int

record peer_decision =
  pd_id :: int
  pd_kind :: string
  pd_entity_key :: string
  pd_payload :: data
  pd_requested_at :: time

text \<open>
  The body of a message as the log keeps it: the JSON of its value, or the text that stands for a
  value \<open>json.Marshal\<close> refuses.
\<close>

datatype payload =
    ReportBody report_envelope | HeartbeatBody heartbeat | DecisionBody peer_decision | MarshalFailed string

text \<open>
  What a report becomes on the wire: \<open>json.Marshal\<close> refuses a number without a JSON form, the data
  of each finding come back as \<open>encoding/json\<close> decodes them, all other fields are as sent.
\<close>

definition wire_finding :: "finding \<Rightarrow> finding option" where
  "wire_finding f = map_option (\<lambda>d. f\<lparr>fi_data := d\<rparr>) (json_trip_obj (fi_data f))"

fun wire_findings :: "finding list \<Rightarrow> finding list option" where
  "wire_findings [] = Some []"
| "wire_findings (f # fs) =
     (case wire_finding f of None \<Rightarrow> None | Some g \<Rightarrow> map_option (Cons g) (wire_findings fs))"

definition wire_report :: "report \<Rightarrow> report option" where
  "wire_report r =
     (if list_all (\<lambda>(k, v). f_is_finite v) (rp_metrics r)
      then map_option (\<lambda>fs. r\<lparr>rp_findings := fs\<rparr>) (wire_findings (rp_findings r)) else None)"

definition wire_envelope :: "report_envelope \<Rightarrow> report_envelope option" where
  "wire_envelope e = map_option (\<lambda>r. e\<lparr>ev_report := r\<rparr>) (wire_report (ev_report e))"

definition wire_decision :: "peer_decision \<Rightarrow> peer_decision option" where
  "wire_decision p = map_option (\<lambda>d. p\<lparr>pd_payload := d\<rparr>) (json_trip_obj (pd_payload p))"

end
