(* ===== verification/Clients.thy ===== *)
theory Clients
  imports Check_Types
begin

text \<open>
  The interfaces in \<open>internal/clients/*/types.go\<close>: the values each upstream returns, and each
  \<open>Client\<close> interface as a record of its read methods. A read method is the answer the service
  gives during the run under consideration (a value or an error). The mutating methods are the
  constructors of \<open>action\<close>: performing one appends it to the log of external calls, and the
  answer may depend on everything that was performed before.
\<close>

section \<open>Sonarr, Radarr and Prowlarr\<close>

record health_item =
  hi_type :: string
  hi_source :: string
  hi_message :: string

record sonarr_queue_item =
  sq_id :: int
  sq_series_id :: int
  sq_episode_id :: int
  sq_title :: string
  sq_status :: string
  sq_tracked_download_status :: string
  sq_tracked_download_state :: string
  sq_download_id :: string
  sq_output_path :: string
  sq_size :: f64
  sq_size_left :: f64
  sq_messages :: "string list"
  sq_added :: time

record series =
  se_id :: int
  se_tvdb_id :: int
  se_title :: string
  se_monitored :: bool
  se_status :: string
  se_path :: string
  se_added :: time
  se_episode_file_count :: int
  se_episode_count :: int
  se_size_on_disk :: int

record root_folder =
  rf_path :: string
  rf_accessible :: bool
  rf_free_space :: int

record sonarr_history =
  sh_id :: int
  sh_date :: time
  sh_event_type :: string
  sh_source_title :: string
  sh_series_id :: int
  sh_episode_id :: int
  sh_download_id :: string

record sonarr_client =
  sonarr_health :: "health_item list result"
  sonarr_queue :: "sonarr_queue_item list result"
  sonarr_series :: "series list result"
  sonarr_root_folders :: "root_folder list result"
  sonarr_wanted_missing :: "int result"
  sonarr_history :: "time \<Rightarrow> string \<Rightarrow> sonarr_history list result"

record radarr_queue_item =
  rq_id :: int
  rq_movie_id :: int
  rq_title :: string
  rq_status :: string
  rq_tracked_download_status :: string
  rq_tracked_download_state :: string
  rq_download_id :: string
  rq_output_path :: string
  rq_size :: f64
  rq_size_left :: f64
  rq_messages :: "string list"
  rq_added :: time

record movie =
  mo_id :: int
  mo_tmdb_id :: int
  mo_title :: string
  mo_year :: int
  mo_monitored :: bool
  mo_has_file :: bool
  mo_status :: string
  mo_path :: string
  mo_added :: time
  mo_size_on_disk :: int

record radarr_history =
  rh_id :: int
  rh_date :: time
  rh_event_type :: string
  rh_source_title :: string
  rh_movie_id :: int
  rh_download_id :: string

record radarr_client =
  radarr_health :: "health_item list result"
  radarr_queue :: "radarr_queue_item list result"
  radarr_movies :: "movie list result"
  radarr_root_folders :: "root_folder list result"
  radarr_wanted_missing :: "int result"
  radarr_history :: "time \<Rightarrow> string \<Rightarrow> radarr_history list result"

record indexer =
  ix_id :: int
  ix_name :: string
  ix_enable :: bool
  ix_protocol :: string
  ix_priority :: int

record indexer_status =
  is_indexer_id :: int
  is_most_recent_failure :: time
  is_disabled_till :: time

record prowlarr_client =
  prowlarr_health :: "health_item list result"
  prowlarr_indexers :: "indexer list result"
  prowlarr_indexer_status :: "indexer_status list result"

section \<open>qBittorrent\<close>

record torrent =
  to_hash :: string
  to_name :: string
  to_state :: string
  to_category :: string
  to_save_path :: string
  to_content_path :: string
  to_progress :: f64
  to_ratio :: f64
  to_size :: int
  to_completed :: int
  to_downloaded :: int
  to_uploaded :: int
  to_added_on :: time
  to_completion_on :: time
  to_seeding_time :: duration
  to_dl_speed :: int
  to_up_speed :: int
  to_num_seeds :: int
  to_num_leechs :: int

record torrent_file =
  tf_index :: int
  tf_name :: string
  tf_size :: int
  tf_progress :: f64
  tf_priority :: int

record preferences =
  pr_save_path :: string
  pr_temp_path :: string
  pr_temp_path_enabled :: bool
  pr_max_ratio :: f64
  pr_max_seeding_time :: int
  pr_excluded_file_names :: string

record qbit_client =
  qbit_version :: "string result"
  qbit_torrents :: "string \<Rightarrow> string \<Rightarrow> torrent list result"
  qbit_files :: "string \<Rightarrow> torrent_file list result"
  qbit_preferences :: "preferences result"

section \<open>Plex, Tautulli and Overseerr\<close>

record identity =
  id_machine_identifier :: string
  id_version :: string

record library =
  li_key :: string
  li_title :: string
  li_type :: string
  li_scanned_at :: time
  li_updated_at :: time

record plex_item =
  pi_rating_key :: string
  pi_title :: string
  pi_type :: string
  pi_added_at :: time
  pi_library_key :: string

record plex_client =
  plex_identity :: "identity result"
  plex_libraries :: "library list result"
  plex_recently_added :: "string \<Rightarrow> int \<Rightarrow> plex_item list result"

record history_row =
  hr_rating_key :: string
  hr_grandparent_rating_key :: string
  hr_parent_rating_key :: string
  hr_title :: string
  hr_grandparent_title :: string
  hr_media_type :: string
  hr_user :: string
  hr_date :: time
  hr_watched_status :: f64
  hr_percent_complete :: int

record tautulli_client =
  tautulli_ping :: "unit result"
  tautulli_history :: "time \<Rightarrow> int \<Rightarrow> history_row list result"
  tautulli_activity_count :: "int result"

record overseerr_request =
  or_id :: int
  or_status :: int
  or_media_type :: string
  or_tmdb_id :: int
  or_tvdb_id :: int
  or_media_status :: int
  or_requested_by :: string
  or_created_at :: time
  or_updated_at :: time

record overseerr_client =
  overseerr_requests :: "string \<Rightarrow> overseerr_request list result"

section \<open>Docker and the host file system\<close>

record container =
  co_id :: string
  co_name :: string
  co_image :: string
  co_state :: string
  co_status :: string
  co_health :: string
  co_restart_count :: int
  co_started_at :: time

record disk_usage =
  du_images_total :: int
  du_images_active :: int
  du_images_size :: int
  du_images_reclaimable :: int
  du_build_cache_size :: int

record docker_client =
  docker_containers :: "container list result"
  docker_logs :: "string \<Rightarrow> int \<Rightarrow> string result"
  docker_disk_usage :: "disk_usage result"
  docker_exec :: "string \<Rightarrow> string list \<Rightarrow> string result"

record host_mount =
  hm_target :: string
  hm_source :: string
  hm_fs_type :: string
  hm_options :: "string list"

record usage =
  us_path :: string
  us_total :: int
  us_free :: int
  us_used :: int
  us_used_percent :: f64

record dir_entry =
  en_name :: string
  en_size :: int
  en_is_dir :: bool
  en_mod_time :: time

record host_client =
  host_mounts :: "host_mount list result"
  host_is_mountpoint :: "string \<Rightarrow> bool result"
  host_device_id :: "string \<Rightarrow> int result"
  host_usage :: "string \<Rightarrow> usage result"
  host_dir_size :: "string \<Rightarrow> int \<Rightarrow> int result"
  host_list_dir :: "string \<Rightarrow> dir_entry list result"

section \<open>Mutating calls\<close>

text \<open>
  Every method of the interfaces that changes something outside the process. \<open>DockerExec\<close> is the
  command \<open>docker exec\<close> runs in a container; the probe of the mount check, which only reads, is the
  field \<open>docker_exec\<close> of the client. The outside world
  is the log of the calls made so far and the answer it gives to the next one; \<open>PruneImages\<close>
  and \<open>RunCommand\<close> answer a number, the others only succeed or fail.
\<close>

datatype action =
    QbitDelete "string list" bool | QbitReannounce "string list" | QbitResume "string list"
  | SonarrDeleteQueueItem int bool bool | SonarrUpdateMonitored int bool | SonarrDeleteSeries int bool bool
  | SonarrRunCommand string
  | RadarrDeleteQueueItem int bool bool | RadarrUpdateMonitored int bool | RadarrDeleteMovie int bool bool
  | RadarrRunCommand string
  | OverseerrDecline int | ProwlarrDeleteIndexer int | PlexRefresh string
  | HostRemove string | DockerPrune bool | DockerExec string "string list"
  | PeerSendDecision peer_decision | PeerPushReport report_envelope | PeerHeartbeat heartbeat
  | SendMail string string string

type_synonym answer = "action list \<Rightarrow> action \<Rightarrow> int result"

record world =
  w_log :: "action list"
  w_answer :: answer

definition perform :: "action \<Rightarrow> world \<Rightarrow> int result \<times> world" where
  "perform a w = (w_answer w (w_log w) a, w\<lparr>w_log := w_log w @ [a]\<rparr>)"

lemma perform_log [simp]: "w_log (snd (perform a w)) = w_log w @ [a]"
  by (simp add: perform_def)

lemma perform_answer [simp]: "w_answer (snd (perform a w)) = w_answer w"
  by (simp add: perform_def)

end
