(* ===== verification/Go_Format.thy ===== *)
theory Go_Format
  imports Go_Time "HOL-Library.Word"
begin

unbundle bit_operations_syntax

text \<open>
  Texts that the program builds with the standard library: \<open>time.RFC3339\<close> and
  \<open>time.DateOnly\<close> timestamps, \<open>Duration.String\<close>, and \<open>hex.EncodeToString\<close> of
  \<open>sha256.Sum256\<close>; and the runes of a text.
\<close>

section \<open>Timestamps\<close>

text \<open>The proleptic Gregorian date of a day counted from 1 January of year 1.\<close>

definition civil :: "int \<Rightarrow> int \<times> int \<times> int" where
  "civil days =
     (let z = days + 306; era = z div 146097; doe = z mod 146097;
          yoe = (doe - doe div 1460 + doe div 36524 - doe div 146096) div 365;
          doy = doe - (365 * yoe + yoe div 4 - yoe div 100);
          mp = (5 * doy + 2) div 153;
          d = doy - (153 * mp + 2) div 5 + 1;
          m = (if mp < 10 then mp + 3 else mp - 9)
      in (yoe + era * 400 + (if m \<le> 2 then 1 else 0), m, d))"

definition pad :: "nat \<Rightarrow> int \<Rightarrow> string" where
  "pad n i = (let s = show_nat (nat i) in replicate (n - length s) CHR ''0'' @ s)"

definition fmt_date :: "location \<Rightarrow> time \<Rightarrow> string" where
  "fmt_date loc t =
     (let secs = t div second + loc (t div second); (y, m, d) = civil (secs div 86400)
      in pad 4 y @ ''-'' @ pad 2 m @ ''-'' @ pad 2 d)"

definition fmt_offset :: "int \<Rightarrow> string" where
  "fmt_offset off =
     (if off = 0 then ''Z''
      else let a = \<bar>off\<bar> div 60
           in (if off < 0 then ''-'' else ''+'') @ pad 2 (a div 60) @ '':'' @ pad 2 (a mod 60))"

definition fmt_rfc3339 :: "location \<Rightarrow> time \<Rightarrow> string" where
  "fmt_rfc3339 loc t =
     (let off = loc (t div second); s = (t div second + off) mod 86400
      in fmt_date loc t @ ''T'' @ pad 2 (s div 3600) @ '':'' @ pad 2 (s div 60 mod 60) @ '':'' @
         pad 2 (s mod 60) @ fmt_offset off)"

text \<open>A zone of the time zone database: its offset and its abbreviation at a UTC second.\<close>

record zone =
  zn_offset :: location
  zn_abbr :: "int \<Rightarrow> string"

definition zone_utc :: zone where
  "zone_utc = \<lparr>zn_offset = utc, zn_abbr = (\<lambda>_. ''UTC'')\<rparr>"

text \<open>\<open>"2006-01-02 15:04 MST"\<close> and \<open>time.RFC1123Z\<close>; 1 January of year 1 was a Monday.\<close>

definition fmt_minute :: "zone \<Rightarrow> time \<Rightarrow> string" where
  "fmt_minute z t =
     (let s = (t div second + zn_offset z (t div second)) mod 86400
      in fmt_date (zn_offset z) t @ '' '' @ pad 2 (s div 3600) @ '':'' @ pad 2 (s div 60 mod 60) @ '' '' @
         zn_abbr z (t div second))"

definition weekday_names :: "string list" where
  "weekday_names = [''Mon'', ''Tue'', ''Wed'', ''Thu'', ''Fri'', ''Sat'', ''Sun'']"

definition month_names :: "string list" where
  "month_names = [''Jan'', ''Feb'', ''Mar'', ''Apr'', ''May'', ''Jun'', ''Jul'', ''Aug'', ''Sep'', ''Oct'', ''Nov'', ''Dec'']"

definition short_month :: "int \<Rightarrow> string" where
  "short_month m = (if 1 \<le> m \<and> m \<le> 12 then month_names ! nat (m - 1) else ''%!M'')"

definition fmt_rfc1123z :: "location \<Rightarrow> time \<Rightarrow> string" where
  "fmt_rfc1123z loc t =
     (let off = loc (t div second); secs = t div second + off; s = secs mod 86400;
          (y, m, d) = civil (secs div 86400); a = \<bar>off\<bar> div 60
      in weekday_names ! nat (secs div 86400 mod 7) @ '', '' @ pad 2 d @ '' '' @ short_month m @
         '' '' @ pad 4 y @ '' '' @ pad 2 (s div 3600) @ '':'' @ pad 2 (s div 60 mod 60) @ '':'' @ pad 2 (s mod 60) @
         '' '' @ (if off < 0 then ''-'' else ''+'') @ pad 2 (a div 60) @ pad 2 (a mod 60))"

section \<open>Durations\<close>

definition strip_zeros :: "string \<Rightarrow> string" where
  "strip_zeros s = rev (dropWhile (\<lambda>c. c = CHR ''0'') (rev s))"

text \<open>\<open>v / 10\<^sup>n\<close> in decimal, without trailing zeros.\<close>

definition fmt_frac :: "nat \<Rightarrow> int \<Rightarrow> string" where
  "fmt_frac n v =
     (let f = strip_zeros (pad n (v mod 10 ^ n))
      in show_nat (nat (v div 10 ^ n)) @ (if f = '''' then '''' else ''.'' @ f))"

definition dur_string :: "duration \<Rightarrow> string" where
  "dur_string d =
     (let u = \<bar>d\<bar>; sgn_s = (if d < 0 then ''-'' else '''')
      in if u = 0 then ''0s''
         else if u < 1000 then sgn_s @ show_nat (nat u) @ ''ns''
         else if u < 1000000 then sgn_s @ fmt_frac 3 u @ [CHR 0xC2, CHR 0xB5] @ ''s''
         else if u < second then sgn_s @ fmt_frac 6 u @ ''ms''
         else let m = u div minute; h = m div 60
              in sgn_s @ (if h > 0 then show_nat (nat h) @ ''h'' else '''') @
                 (if m > 0 then show_nat (nat (m mod 60)) @ ''m'' else '''') @
                 fmt_frac 9 (u mod minute) @ ''s'')"

section \<open>Quoting\<close>

text \<open>\<open>%q\<close>; bytes from 128 on, which belong to printable UTF-8 text, are kept.\<close>

definition hex_digit :: "nat \<Rightarrow> char" where
  "hex_digit d = (if d < 10 then char_of (48 + d) else char_of (87 + d))"

definition quote_char :: "char \<Rightarrow> string" where
  "quote_char c =
     (let n = of_char c :: nat
      in if n = 34 then [CHR 92, CHR 34] else if n = 92 then [CHR 92, CHR 92]
         else if n = 7 then [CHR 92] @ ''a'' else if n = 8 then [CHR 92] @ ''b''
         else if n = 12 then [CHR 92] @ ''f'' else if n = 10 then [CHR 92] @ ''n''
         else if n = 13 then [CHR 92] @ ''r'' else if n = 9 then [CHR 92] @ ''t''
         else if n = 11 then [CHR 92] @ ''v''
         else if n < 32 \<or> n = 127 then [CHR 92] @ ''x'' @ [hex_digit (n div 16), hex_digit (n mod 16)]
         else [c])"

definition go_quote :: "string \<Rightarrow> string" where
  "go_quote s = [CHR 34] @ concat (map quote_char s) @ [CHR 34]"

section \<open>Blanks and numbers\<close>

definition newline :: char where "newline = CHR 0x0A"

text \<open>The UTF-8 bytes of the dash in several texts.\<close>

definition em_dash :: string where
  "em_dash = [CHR 0xE2, CHR 0x80, CHR 0x94]"

definition is_space :: "char \<Rightarrow> bool" where
  "is_space c \<longleftrightarrow> (let n = of_char c :: nat in n = 32 \<or> (9 \<le> n \<and> n \<le> 13))"

definition trim_space :: "string \<Rightarrow> string" where
  "trim_space s = rev (dropWhile is_space (rev (dropWhile is_space s)))"

text \<open>The value of the leading digits: \<open>ParseUint\<close> reports a range error as soon as it overflows.\<close>

definition digits_value :: "string \<Rightarrow> nat" where
  "digits_value s = (case parse_digits 0 (takeWhile (\<lambda>c. char_digit c \<noteq> None) s) of None \<Rightarrow> 0 | Some n \<Rightarrow> n)"

definition parse_uint_error :: "string \<Rightarrow> goerr" where
  "parse_uint_error s = new_error (''strconv.ParseUint: parsing '' @ go_quote s @
     (if max_uint64 < int (digits_value s) then '': value out of range'' else '': invalid syntax''))"

definition parse_int_error :: "string \<Rightarrow> goerr" where
  "parse_int_error s =
     (let ds = (case s of [] \<Rightarrow> s | c # cs \<Rightarrow> if c = CHR ''-'' \<or> c = CHR ''+'' then cs else s)
      in new_error (''strconv.ParseInt: parsing '' @ go_quote s @
           (if max_uint64 < int (digits_value ds) \<or> parse_nat ds \<noteq> None then '': value out of range''
            else '': invalid syntax'')))"

definition parse_uint :: "string \<Rightarrow> int result" where
  "parse_uint s = (case parse_uint64 s of None \<Rightarrow> Inl (parse_uint_error s) | Some n \<Rightarrow> Inr n)"

definition parse_int :: "string \<Rightarrow> int result" where
  "parse_int s = (case parse_int64 s of None \<Rightarrow> Inl (parse_int_error s) | Some n \<Rightarrow> Inr n)"

section \<open>SHA-256\<close>

text \<open>FIPS 180-4 on 32-bit words; the constants are in decimal.\<close>

definition rotr32 :: "nat \<Rightarrow> 32 word \<Rightarrow> 32 word" where
  "rotr32 n x = drop_bit n x OR push_bit (32 - n) x"

definition sha_k :: "32 word list" where
  "sha_k = [
    1116352408, 1899447441, 3049323471, 3921009573, 961987163, 1508970993, 2453635748, 2870763221,
    3624381080, 310598401, 607225278, 1426881987, 1925078388, 2162078206, 2614888103, 3248222580,
    3835390401, 4022224774, 264347078, 604807628, 770255983, 1249150122, 1555081692, 1996064986,
    2554220882, 2821834349, 2952996808, 3210313671, 3336571891, 3584528711, 113926993, 338241895,
    666307205, 773529912, 1294757372, 1396182291, 1695183700, 1986661051, 2177026350, 2456956037,
    2730485921, 2820302411, 3259730800, 3345764771, 3516065817, 3600352804, 4094571909, 275423344,
    430227734, 506948616, 659060556, 883997877, 958139571, 1322822218, 1537002063, 1747873779,
    1955562222, 2024104815, 2227730452, 2361852424, 2428436474, 2756734187, 3204031479, 3329325298]"

definition sha_init :: "32 word list" where
  "sha_init = [1779033703, 3144134277, 1013904242, 2773480762, 1359893119, 2600822924, 528734635, 1541459225]"

text \<open>The message schedule, most recent word first.\<close>

fun sha_extend :: "nat \<Rightarrow> 32 word list \<Rightarrow> 32 word list" where
  "sha_extend 0 ws = ws"
| "sha_extend (Suc n) ws =
     (let w15 = ws ! 14; w2 = ws ! 1;
          s0 = rotr32 7 w15 XOR rotr32 18 w15 XOR drop_bit 3 w15;
          s1 = rotr32 17 w2 XOR rotr32 19 w2 XOR drop_bit 10 w2
      in sha_extend n ((ws ! 15 + s0 + ws ! 6 + s1) # ws))"

fun sha_round :: "32 word \<times> 32 word \<Rightarrow> 32 word list \<Rightarrow> 32 word list" where
  "sha_round (k, w) [a, b, c, d, e, f, g, h] =
     (let s1 = rotr32 6 e XOR rotr32 11 e XOR rotr32 25 e;
          ch = (e AND f) XOR (NOT e AND g);
          t1 = h + s1 + ch + k + w;
          s0 = rotr32 2 a XOR rotr32 13 a XOR rotr32 22 a;
          maj = (a AND b) XOR (a AND c) XOR (b AND c)
      in [t1 + s0 + maj, a, b, c, d + t1, e, f, g])"
| "sha_round _ st = st"

definition sha_block :: "32 word list \<Rightarrow> 32 word list \<Rightarrow> 32 word list" where
  "sha_block st ws =
     map2 (+) st (fold sha_round (zip sha_k (rev (sha_extend 48 (rev ws)))) st)"

definition sha_pad :: "string \<Rightarrow> nat list" where
  "sha_pad s =
     (let n = length s; z = (119 - n mod 64) mod 64
      in map of_char s @ [128] @ replicate z 0 @
         map (\<lambda>i. (8 * n) div 2 ^ (8 * i) mod 256) [7, 6, 5, 4, 3, 2, 1, 0])"

fun sha_words :: "nat list \<Rightarrow> 32 word list" where
  "sha_words (a # b # c # d # bs) =
     word_of_nat (((a * 256 + b) * 256 + c) * 256 + d) # sha_words bs"
| "sha_words _ = []"

fun sha_blocks :: "nat \<Rightarrow> 32 word list \<Rightarrow> 32 word list \<Rightarrow> 32 word list" where
  "sha_blocks 0 ws st = st"
| "sha_blocks (Suc n) ws st = sha_blocks n (drop 16 ws) (sha_block st (take 16 ws))"

definition hex_word :: "32 word \<Rightarrow> string" where
  "hex_word w = map (\<lambda>i. hex_digit (unat (drop_bit (4 * i) w) mod 16)) [7, 6, 5, 4, 3, 2, 1, 0]"

definition sha256_hex :: "string \<Rightarrow> string" where
  "sha256_hex s =
     (let ws = sha_words (sha_pad s)
      in concat (map hex_word (sha_blocks (length ws div 16) ws sha_init)))"

section \<open>UTF-8\<close>

text \<open>
  \<open>rune_len\<close> is the length of the UTF-8 encoding a string starts with, 0 if there is none. \<open>rune_count\<close> is
  \<open>utf8.RuneCountInString\<close>: a byte that is not part of an encoding counts as one rune.
\<close>

definition byte_in :: "nat \<Rightarrow> nat \<Rightarrow> char \<Rightarrow> bool" where
  "byte_in lo hi c \<longleftrightarrow> lo \<le> of_char c \<and> of_char c \<le> hi"

definition rune_len :: "string \<Rightarrow> nat" where
  "rune_len s =
     (case s of
        [] \<Rightarrow> 0
      | c # cs \<Rightarrow>
          let n = of_char c :: nat; more = byte_in 128 191
          in if n < 128 then 1
             else if 194 \<le> n \<and> n \<le> 223 then (case cs of c1 # _ \<Rightarrow> if more c1 then 2 else 0 | _ \<Rightarrow> 0)
             else if 224 \<le> n \<and> n \<le> 239 then
               (case cs of
                  c1 # c2 # _ \<Rightarrow>
                    if byte_in (if n = 224 then 160 else 128) (if n = 237 then 159 else 191) c1 \<and> more c2 then 3 else 0
                | _ \<Rightarrow> 0)
             else if 240 \<le> n \<and> n \<le> 244 then
               (case cs of
                  c1 # c2 # c3 # _ \<Rightarrow>
                    if byte_in (if n = 240 then 144 else 128) (if n = 244 then 143 else 191) c1 \<and> more c2 \<and> more c3
                    then 4 else 0
                | _ \<Rightarrow> 0)
             else 0)"

function rune_count :: "string \<Rightarrow> nat" where
  "rune_count [] = 0"
| "rune_count (c # cs) = 1 + rune_count (drop (max 1 (rune_len (c # cs))) (c # cs))"
  by pat_completeness auto
termination by (relation "measure length") auto

end
