(* ===== verification/Check_Engine.thy ===== *)
theory Check_Engine
  imports Clients Healarr_Config Go_Format "HOL-Library.Multiset"
begin

text \<open>
  \<open>internal/check\<close>: the dependencies of a check, the registry of checks and
  the runner. A check's code is a function of its dependencies that returns a result, returns an
  error or panics. What the world adds to a run is an argument of it: the event the \<open>select\<close> of
  \<open>runOne\<close> takes for each check, the clock when each check looks at it, and the clock at each
  \<open>NewFinding\<close>. The one abstraction left is inside a check: the ages it compares with its
  thresholds are all taken from one reading.
\<close>

section \<open>Dependencies\<close>

record check_result =
  re_findings :: "finding list"
  re_metrics :: metrics

text \<open>\<open>Deps\<close>; \<open>d_local\<close> is the process's own zone (\<open>time.Local\<close>).\<close>

record deps =
  d_node :: node
  d_cfg :: config
  d_now :: time
  d_local :: location
  d_previous :: "report option"
  d_sonarr :: "sonarr_client option"
  d_radarr :: "radarr_client option"
  d_prowlarr :: "prowlarr_client option"
  d_qbit :: "qbit_client option"
  d_plex :: "plex_client option"
  d_tautulli :: "tautulli_client option"
  d_overseerr :: "overseerr_client option"
  d_docker :: "docker_client option"
  d_host :: "host_client option"

definition previous_metric :: "deps \<Rightarrow> string \<Rightarrow> f64 option" where
  "previous_metric d name =
     (case d_previous d of None \<Rightarrow> None | Some r \<Rightarrow> map_of (rp_metrics r) name)"

definition new_finding :: "deps \<Rightarrow> string \<Rightarrow> string \<Rightarrow> severity \<Rightarrow> tier \<Rightarrow> string \<Rightarrow> finding" where
  "new_finding d check_id entity_key sev tr summary = \<lparr>
     fi_check_id = check_id, fi_node = d_node d, fi_entity_key = entity_key, fi_severity = sev,
     fi_tier = tr, fi_summary = summary, fi_detail = '''', fi_data = [],
     fi_first_seen = d_now d, fi_last_seen = d_now d\<rparr>"

lemma new_finding_sel [simp]:
  "fi_check_id (new_finding d c e s t m) = c" "fi_node (new_finding d c e s t m) = d_node d"
  "fi_entity_key (new_finding d c e s t m) = e" "fi_severity (new_finding d c e s t m) = s"
  "fi_tier (new_finding d c e s t m) = t" "fi_summary (new_finding d c e s t m) = m"
  "fi_data (new_finding d c e s t m) = []" "fi_detail (new_finding d c e s t m) = ''''"
  "fi_first_seen (new_finding d c e s t m) = d_now d" "fi_last_seen (new_finding d c e s t m) = d_now d"
  by (simp_all add: new_finding_def)

definition not_configured :: goerr where
  "not_configured = GoErr ''check: dependency not configured'' [ErrNotConfigured]"

section \<open>Checks\<close>

datatype 'a behaviour = Returns 'a | Panics string

record check =
  ck_id :: string
  ck_nodes :: "node list"
  ck_tier :: tier
  ck_cadence :: duration
  ck_run :: "(deps \<Rightarrow> check_result result behaviour) option"

definition applies_to :: "check \<Rightarrow> node \<Rightarrow> bool" where
  "applies_to c n \<longleftrightarrow> list_ex (\<lambda>m. m = n) (ck_nodes c)"

text \<open>A catalogue row whose code cannot panic.\<close>

definition pure_check :: "string \<Rightarrow> node list \<Rightarrow> tier \<Rightarrow> duration \<Rightarrow> (deps \<Rightarrow> check_result result) \<Rightarrow> check" where
  "pure_check i ns tr cadence run = \<lparr>ck_id = i, ck_nodes = ns, ck_tier = tr, ck_cadence = cadence,
     ck_run = Some (\<lambda>d. Returns (run d))\<rparr>"

section \<open>Registry\<close>

record registry =
  rg_order :: "string list"
  rg_by_id :: "(string \<times> check) list"

definition new_registry :: registry where
  "new_registry = \<lparr>rg_order = [], rg_by_id = []\<rparr>"

definition by_id :: "registry \<Rightarrow> string \<Rightarrow> check option" where
  "by_id r i = map_of (rg_by_id r) i"

definition register :: "registry \<Rightarrow> check \<Rightarrow> registry result" where
  "register r c =
     (if ck_id c = '''' then Inl (new_error ''check: empty id'')
      else if ck_run c = None then Inl (new_error (''check '' @ ck_id c @ '': nil Run''))
      else if length (ck_nodes c) = 0 then Inl (new_error (''check '' @ ck_id c @ '': no nodes''))
      else if by_id r (ck_id c) \<noteq> None
        then Inl (new_error (''check '' @ ck_id c @ '': already registered''))
      else Inr (r\<lparr>rg_by_id := map_set (ck_id c) c (rg_by_id r), rg_order := rg_order r @ [ck_id c]\<rparr>))"

text \<open>A map read in Go gives the zero value for an absent key.\<close>

definition zero_check :: check where
  "zero_check = \<lparr>ck_id = '''', ck_nodes = [], ck_tier = '''', ck_cadence = 0, ck_run = None\<rparr>"

definition get_check :: "registry \<Rightarrow> string \<Rightarrow> check" where
  "get_check r i = (case by_id r i of None \<Rightarrow> zero_check | Some c \<Rightarrow> c)"

definition all_checks :: "registry \<Rightarrow> check list" where
  "all_checks r = map (get_check r) (rg_order r)"

definition for_node :: "registry \<Rightarrow> node \<Rightarrow> check list" where
  "for_node r n = filter (\<lambda>c. applies_to c n) (map (get_check r) (rg_order r))"

text \<open>The loop of \<open>checks.Registry\<close>: the first rejected check aborts it.\<close>

fun register_all :: "registry \<Rightarrow> check list \<Rightarrow> registry result" where
  "register_all r [] = Inr r"
| "register_all r (c # cs) =
     (case register r c of Inl e \<Rightarrow> Inl e | Inr r' \<Rightarrow> register_all r' cs)"

section \<open>Runner\<close>

datatype ctx_end = TimedOut | Cancelled

fun ctx_error :: "ctx_end \<Rightarrow> goerr" where
  "ctx_error TimedOut = GoErr ''context deadline exceeded'' [DeadlineExceeded]"
| "ctx_error Cancelled = GoErr ''context canceled'' [Canceled]"

lemma ctx_error_configured [simp]: "\<not> errors_is (ctx_error e) ErrNotConfigured"
  by (cases e) simp_all

text \<open>What a check's goroutine sends: \<open>recover\<close> turns a panic into an error.\<close>

definition outcome :: "check \<Rightarrow> deps \<Rightarrow> check_result result" where
  "outcome c d =
     (case ck_run c of
        None \<Rightarrow> Inl (new_error ''panicked: runtime error: invalid memory address or nil pointer dereference'')
      | Some run \<Rightarrow>
          (case run d of
             Returns r \<Rightarrow> r
           | Panics v \<Rightarrow> Inl (new_error (''panicked: '' @ v))))"

text \<open>
  A run's events, per check id: \<open>rc_end\<close> is \<open>None\<close> when the \<open>select\<close> receives the outcome first and
  the context's error when it receives the context's end; \<open>rc_clock\<close> is the time passed since
  the start of the run when the check reads the clock, \<open>rc_stamp\<close> the time passed at the check's
  n-th \<open>NewFinding\<close> that ends in its result.
\<close>

record race =
  rc_end :: "string \<Rightarrow> ctx_end option"
  rc_clock :: "string \<Rightarrow> duration"
  rc_stamp :: "string \<Rightarrow> nat \<Rightarrow> duration"

text \<open>A run in which every check answers in time and no time passes.\<close>

definition prompt :: race where
  "prompt = \<lparr>rc_end = (\<lambda>_. None), rc_clock = (\<lambda>_. 0), rc_stamp = (\<lambda>_ _. 0)\<rparr>"

lemma prompt_sel [simp]: "rc_end prompt i = None" "rc_clock prompt i = 0" "rc_stamp prompt i n = 0"
  by (simp_all add: prompt_def)

definition stamp_finding :: "time \<Rightarrow> finding \<Rightarrow> finding" where
  "stamp_finding t f = f\<lparr>fi_first_seen := t, fi_last_seen := t\<rparr>"

definition stamp_findings :: "race \<Rightarrow> string \<Rightarrow> time \<Rightarrow> finding list \<Rightarrow> finding list" where
  "stamp_findings race i start fs =
     map (\<lambda>(n, f). stamp_finding (t_add start (rc_stamp race i n)) f) (enumerate 0 fs)"

definition run_one :: "race \<Rightarrow> check \<Rightarrow> deps \<Rightarrow> check_result result" where
  "run_one race c d =
     (case rc_end race (ck_id c) of
        None \<Rightarrow>
          (case outcome c (d\<lparr>d_now := t_add (d_now d) (rc_clock race (ck_id c))\<rparr>) of
             Inl e \<Rightarrow> Inl e
           | Inr r \<Rightarrow>
               Inr (r\<lparr>re_findings := stamp_findings race (ck_id c) (d_now d) (re_findings r)\<rparr>))
      | Some e \<Rightarrow> Inl (wrap_error (''check '' @ ck_id c) (ctx_error e)))"

definition severity_rank :: "severity \<Rightarrow> nat" where
  "severity_rank s = (if s = SeverityCritical then 0 else if s = SeverityWarn then 1 else 2)"

definition finding_order :: "finding \<Rightarrow> nat \<times> string \<times> string" where
  "finding_order f = (severity_rank (fi_severity f), fi_check_id f, fi_entity_key f)"

text \<open>\<open>sort.SliceStable\<close> by severity, check id and entity key.\<close>

definition sort_findings :: "finding list \<Rightarrow> finding list" where
  "sort_findings = sort_key finding_order"

definition empty_report :: "deps \<Rightarrow> report" where
  "empty_report d = \<lparr>rp_node = d_node d, rp_generated_at = d_now d, rp_findings = [], rp_ran = [],
     rp_skipped = [], rp_errors = [], rp_metrics = [], rp_checks_run = 0, rp_checks_failed = 0\<rparr>"

definition record_outcome :: "race \<Rightarrow> deps \<Rightarrow> report \<Rightarrow> check \<Rightarrow> report" where
  "record_outcome race d rep c =
     (case run_one race c d of
        Inl e \<Rightarrow>
          if errors_is e ErrNotConfigured then rep\<lparr>rp_skipped := rp_skipped rep @ [ck_id c]\<rparr>
          else rep\<lparr>rp_errors := rp_errors rep @ [\<lparr>ce_check_id = ck_id c, ce_error = err_msg e\<rparr>]\<rparr>
      | Inr res \<Rightarrow>
          rep\<lparr>rp_ran := rp_ran rep @ [ck_id c],
              rp_findings := rp_findings rep @ re_findings res,
              rp_metrics := map_merge (rp_metrics rep) (re_metrics res)\<rparr>)"

definition run_checks :: "race \<Rightarrow> check list \<Rightarrow> deps \<Rightarrow> report" where
  "run_checks race checks d =
     (let rep = foldl (record_outcome race d) (empty_report d) checks
      in rep\<lparr>rp_findings := sort_findings (rp_findings rep),
             rp_checks_run := int (length (rp_ran rep) + length (rp_errors rep)),
             rp_checks_failed := int (length (rp_errors rep))\<rparr>)"

section \<open>Lemmas on the registry\<close>

text \<open>The contract of a registry of named items, and what follows for a batch of them.\<close>

locale named_registry =
  fixes reg_ok :: "'r \<Rightarrow> bool"
    and reg_add :: "'r \<Rightarrow> 'c \<Rightarrow> 'e + 'r"
    and reg_items :: "'r \<Rightarrow> 'c list"
    and reg_find :: "'r \<Rightarrow> 'k \<Rightarrow> 'c option"
    and key :: "'c \<Rightarrow> 'k"
  assumes add_ok: "reg_ok r \<Longrightarrow> reg_add r c = Inr r' \<Longrightarrow> reg_ok r'"
    and add_items: "reg_ok r \<Longrightarrow> reg_add r c = Inr r' \<Longrightarrow> reg_items r' = reg_items r @ [c]"
    and items_distinct: "reg_ok r \<Longrightarrow> distinct (map key (reg_items r))"
    and find_items: "reg_ok r \<Longrightarrow> reg_find r k = Some c \<longleftrightarrow> c \<in> set (reg_items r) \<and> key c = k"
begin

fun add_all :: "'r \<Rightarrow> 'c list \<Rightarrow> 'e + 'r" where
  "add_all r [] = Inr r"
| "add_all r (c # cs) = (case reg_add r c of Inl e \<Rightarrow> Inl e | Inr r' \<Rightarrow> add_all r' cs)"

lemma add_all_ok: "reg_ok r \<Longrightarrow> add_all r cs = Inr r' \<Longrightarrow> reg_ok r'"
  by (induction cs arbitrary: r) (auto split: sum.splits dest: add_ok)

lemma add_all_items:
  "reg_ok r \<Longrightarrow> add_all r cs = Inr r' \<Longrightarrow> reg_items r' = reg_items r @ cs"
proof (induction cs arbitrary: r)
  case Nil
  then show ?case by simp
next
  case (Cons c cs)
  then obtain r1 where r1: "reg_add r c = Inr r1" "add_all r1 cs = Inr r'"
    by (auto split: sum.splits)
  with Cons.prems Cons.IH [of r1] add_ok [of r c r1] add_items [of r c r1] show ?case by simp
qed

lemma add_all_distinct:
  "reg_ok r \<Longrightarrow> reg_items r = [] \<Longrightarrow> add_all r cs = Inr r' \<Longrightarrow> distinct (map key cs)"
  using items_distinct [of r'] add_all_ok [of r cs r'] add_all_items [of r cs r'] by simp

lemma find_after_add_all:
  "reg_ok r \<Longrightarrow> add_all r cs = Inr r' \<Longrightarrow> c \<in> set cs \<Longrightarrow> reg_find r' (key c) = Some c"
  using find_items [of r' "key c" c] add_all_ok [of r cs r'] add_all_items [of r cs r'] by auto

end

definition registry_ok :: "registry \<Rightarrow> bool" where
  "registry_ok r \<longleftrightarrow>
     distinct (rg_order r) \<and> (\<forall>i. by_id r i = None \<longleftrightarrow> i \<notin> set (rg_order r)) \<and>
     (\<forall>i c. by_id r i = Some c \<longrightarrow> ck_id c = i \<and> i \<noteq> '''' \<and> ck_run c \<noteq> None \<and> ck_nodes c \<noteq> [])"

lemma registry_ok_new [simp]: "registry_ok new_registry"
  by (simp add: registry_ok_def new_registry_def by_id_def)

lemma registry_ok_dest:
  "registry_ok r \<Longrightarrow> by_id r i = None \<longleftrightarrow> i \<notin> set (rg_order r)"
  "registry_ok r \<Longrightarrow> by_id r i = Some c \<Longrightarrow> ck_id c = i"
  "registry_ok r \<Longrightarrow> distinct (rg_order r)"
  by (simp_all add: registry_ok_def)

lemma register_Inr:
  "register r c = Inr r' \<longleftrightarrow>
     ck_id c \<noteq> '''' \<and> ck_run c \<noteq> None \<and> ck_nodes c \<noteq> [] \<and> by_id r (ck_id c) = None \<and>
     r' = r\<lparr>rg_by_id := map_set (ck_id c) c (rg_by_id r), rg_order := rg_order r @ [ck_id c]\<rparr>"
  by (auto simp: register_def)

lemma by_id_register:
  "register r c = Inr r' \<Longrightarrow> by_id r' = (by_id r)(ck_id c \<mapsto> c)"
  by (auto simp: register_Inr by_id_def)

lemma registry_ok_register:
  assumes ok: "registry_ok r" and reg: "register r c = Inr r'"
  shows "registry_ok r'"
proof -
  have b: "by_id r' = (by_id r)(ck_id c \<mapsto> c)" by (rule by_id_register) fact
  have c: "ck_id c \<noteq> ''''" "ck_run c \<noteq> None" "ck_nodes c \<noteq> []" "ck_id c \<notin> set (rg_order r)"
    "rg_order r' = rg_order r @ [ck_id c]"
    using reg registry_ok_dest(1) [OF ok] by (auto simp: register_Inr)
  have 1: "distinct (rg_order r')" using c registry_ok_dest(3) [OF ok] by simp
  have 2: "by_id r' i = None \<longleftrightarrow> i \<notin> set (rg_order r')" for i
    using c(5) registry_ok_dest(1) [OF ok, of i] by (auto simp: b)
  have 3: "ck_id x = i \<and> i \<noteq> '''' \<and> ck_run x \<noteq> None \<and> ck_nodes x \<noteq> []" if "by_id r' i = Some x" for i x
  proof (cases "i = ck_id c")
    case True
    with that c show ?thesis by (simp add: b)
  next
    case False
    with that have "by_id r i = Some x" by (simp add: b)
    with ok show ?thesis unfolding registry_ok_def by blast
  qed
  show ?thesis unfolding registry_ok_def using 1 2 3 by blast
qed

lemma all_checks_register:
  assumes "registry_ok r" "register r c = Inr r'"
  shows "all_checks r' = all_checks r @ [c]"
proof -
  have b: "by_id r' = (by_id r)(ck_id c \<mapsto> c)" by (rule by_id_register) fact
  have n: "ck_id c \<notin> set (rg_order r)" "rg_order r' = rg_order r @ [ck_id c]"
    using assms registry_ok_dest(1) [OF assms(1)] by (auto simp: register_Inr)
  then have "map (get_check r') (rg_order r) = map (get_check r) (rg_order r)"
    by (auto simp: get_check_def b)
  with n(2) show ?thesis by (simp add: all_checks_def get_check_def [of r' "ck_id c"] b)
qed

lemma get_check_Some: "by_id r i = Some c \<Longrightarrow> get_check r i = c"
  by (simp add: get_check_def)

lemma ck_id_get_check:
  assumes "registry_ok r" "i \<in> set (rg_order r)"
  shows "ck_id (get_check r i) = i"
proof -
  obtain c where "by_id r i = Some c" using registry_ok_dest(1) [OF assms(1), of i] assms(2) by blast
  then show ?thesis using registry_ok_dest(2) [OF assms(1)] get_check_Some by metis
qed

lemma ids_all_checks: "registry_ok r \<Longrightarrow> map ck_id (all_checks r) = rg_order r"
  by (simp add: all_checks_def ck_id_get_check map_idI)

lemma by_id_all_checks:
  assumes "registry_ok r"
  shows "by_id r i = Some c \<longleftrightarrow> c \<in> set (all_checks r) \<and> ck_id c = i"
proof
  assume c: "by_id r i = Some c"
  then have "i \<in> set (rg_order r)" using registry_ok_dest(1) [OF assms, of i] by fastforce
  with c get_check_Some [OF c] registry_ok_dest(2) [OF assms c]
  show "c \<in> set (all_checks r) \<and> ck_id c = i" by (auto simp: all_checks_def)
next
  assume c: "c \<in> set (all_checks r) \<and> ck_id c = i"
  then obtain j where j: "j \<in> set (rg_order r)" "c = get_check r j" by (auto simp: all_checks_def)
  with ck_id_get_check [OF assms j(1)] c have "j = i" by simp
  with j registry_ok_dest(1) [OF assms, of i] obtain x where "by_id r i = Some x" by blast
  with \<open>j = i\<close> j(2) get_check_Some show "by_id r i = Some c" by metis
qed

interpretation reg: named_registry registry_ok register all_checks by_id ck_id
  by unfold_locales
    (simp_all add: registry_ok_register all_checks_register by_id_all_checks ids_all_checks registry_ok_dest(3))

lemma register_all_eq [simp]: "reg.add_all r cs = register_all r cs"
  by (induction cs arbitrary: r) (auto split: sum.splits)

lemma all_checks_new [simp]: "all_checks new_registry = []"
  by (simp add: all_checks_def new_registry_def)

lemma for_node_filter: "for_node r n = filter (\<lambda>c. applies_to c n) (all_checks r)"
  by (simp add: for_node_def all_checks_def)

lemma applies_to_iff [simp]: "applies_to c n \<longleftrightarrow> n \<in> set (ck_nodes c)"
  by (auto simp: applies_to_def list_ex_iff)


section \<open>Lemmas on the runner\<close>

text \<open>The dependencies as a check sees them.\<close>

definition deps_at :: "race \<Rightarrow> check \<Rightarrow> deps \<Rightarrow> deps" where
  "deps_at race c d = d\<lparr>d_now := t_add (d_now d) (rc_clock race (ck_id c))\<rparr>"

lemma deps_at_sel [simp]:
  "d_node (deps_at race c d) = d_node d" "d_cfg (deps_at race c d) = d_cfg d"
  "d_now (deps_at race c d) = t_add (d_now d) (rc_clock race (ck_id c))"
  "d_previous (deps_at race c d) = d_previous d" "d_plex (deps_at race c d) = d_plex d"
  by (simp_all add: deps_at_def)

lemma run_one_Inr:
  "run_one race c d = Inr res \<longleftrightarrow> rc_end race (ck_id c) = None \<and>
     (\<exists>r. outcome c (deps_at race c d) = Inr r \<and>
       res = r\<lparr>re_findings := stamp_findings race (ck_id c) (d_now d) (re_findings r)\<rparr>)"
  by (auto simp: run_one_def deps_at_def split: option.split sum.split)

lemma in_stamp_findings:
  "g \<in> set (stamp_findings race i start fs) \<longleftrightarrow>
     (\<exists>n f. n < length fs \<and> f = fs ! n \<and> g = stamp_finding (t_add start (rc_stamp race i n)) f)"
  by (auto simp: stamp_findings_def in_set_enumerate_eq image_iff Bex_def split_beta)

lemma stamp_finding_sel [simp]:
  "fi_check_id (stamp_finding t f) = fi_check_id f" "fi_node (stamp_finding t f) = fi_node f"
  "fi_severity (stamp_finding t f) = fi_severity f" "fi_entity_key (stamp_finding t f) = fi_entity_key f"
  "fi_tier (stamp_finding t f) = fi_tier f" "fi_data (stamp_finding t f) = fi_data f"
  "fi_first_seen (stamp_finding t f) = t" "fi_last_seen (stamp_finding t f) = t"
  by (simp_all add: stamp_finding_def)

definition ran_ok :: "race \<Rightarrow> deps \<Rightarrow> check \<Rightarrow> bool" where
  "ran_ok race d c \<longleftrightarrow> (\<exists>r. run_one race c d = Inr r)"

definition was_skipped :: "race \<Rightarrow> deps \<Rightarrow> check \<Rightarrow> bool" where
  "was_skipped race d c \<longleftrightarrow> (\<exists>e. run_one race c d = Inl e \<and> errors_is e ErrNotConfigured)"

definition failed_with :: "race \<Rightarrow> deps \<Rightarrow> check \<Rightarrow> goerr option" where
  "failed_with race d c =
     (case run_one race c d of
        Inl e \<Rightarrow> if errors_is e ErrNotConfigured then None else Some e
      | Inr _ \<Rightarrow> None)"

definition findings_of :: "race \<Rightarrow> deps \<Rightarrow> check \<Rightarrow> finding list" where
  "findings_of race d c = (case run_one race c d of Inl _ \<Rightarrow> [] | Inr r \<Rightarrow> re_findings r)"

definition metrics_of :: "race \<Rightarrow> deps \<Rightarrow> check \<Rightarrow> metrics" where
  "metrics_of race d c = (case run_one race c d of Inl _ \<Rightarrow> [] | Inr r \<Rightarrow> re_metrics r)"

definition error_rows :: "race \<Rightarrow> deps \<Rightarrow> check \<Rightarrow> check_error list" where
  "error_rows race d c =
     map (\<lambda>e. \<lparr>ce_check_id = ck_id c, ce_error = err_msg e\<rparr>) (opt_list (failed_with race d c))"

lemmas outcome_defs = ran_ok_def was_skipped_def failed_with_def findings_of_def metrics_of_def error_rows_def

lemma map_merge_Nil [simp]: "map_merge m [] = m"
  by (simp add: map_merge_def)

lemma foldl_record:
  "foldl (record_outcome race d) rep cs = rep\<lparr>
     rp_ran := rp_ran rep @ map ck_id (filter (ran_ok race d) cs),
     rp_skipped := rp_skipped rep @ map ck_id (filter (was_skipped race d) cs),
     rp_errors := rp_errors rep @ concat (map (error_rows race d) cs),
     rp_findings := rp_findings rep @ concat (map (findings_of race d) cs),
     rp_metrics := foldl (\<lambda>m c. map_merge m (metrics_of race d c)) (rp_metrics rep) cs\<rparr>"
  by (induction cs arbitrary: rep) (simp_all add: record_outcome_def outcome_defs split: sum.split)

lemma run_checks_fields:
  "rp_node (run_checks race cs d) = d_node d"
  "rp_generated_at (run_checks race cs d) = d_now d"
  "rp_ran (run_checks race cs d) = map ck_id (filter (ran_ok race d) cs)"
  "rp_skipped (run_checks race cs d) = map ck_id (filter (was_skipped race d) cs)"
  "rp_errors (run_checks race cs d) = concat (map (error_rows race d) cs)"
  "rp_findings (run_checks race cs d) = sort_findings (concat (map (findings_of race d) cs))"
  "rp_metrics (run_checks race cs d) = foldl (\<lambda>m c. map_merge m (metrics_of race d c)) [] cs"
  "rp_checks_run (run_checks race cs d) = int (length (rp_ran (run_checks race cs d)) + length (rp_errors (run_checks race cs d)))"
  "rp_checks_failed (run_checks race cs d) = int (length (rp_errors (run_checks race cs d)))"
  by (simp_all add: run_checks_def Let_def foldl_record empty_report_def)

lemma error_ids: "map ce_check_id (error_rows race d c) = (if failed_with race d c = None then [] else [ck_id c])"
  by (cases "failed_with race d c") (simp_all add: error_rows_def)

lemma one_bucket:
  "{# ck_id c #} = mset (map ck_id (filter (ran_ok race d) [c])) +
     mset (map ck_id (filter (was_skipped race d) [c])) + mset (map ce_check_id (error_rows race d c))"
  by (simp add: outcome_defs split: sum.split)

lemma buckets_mset:
  "mset (map ck_id cs) = mset (map ck_id (filter (ran_ok race d) cs)) +
     mset (map ck_id (filter (was_skipped race d) cs)) +
     mset (map ce_check_id (concat (map (error_rows race d) cs)))"
proof (induction cs)
  case Nil
  then show ?case by simp
next
  case (Cons c cs)
  have f: "filter P (c # cs) = filter P [c] @ filter P cs" for P by simp
  have "mset (map ck_id (c # cs)) = {# ck_id c #} + mset (map ck_id cs)" by simp
  also note one_bucket [of c race d]
  also note Cons.IH
  finally show ?case
    by (simp only: f map_append mset_append concat.simps list.map ac_simps)
qed


section \<open>Properties\<close>

text \<open>C35: Whatever the checks do and however the deadlines fall, one run accounts for every check
  exactly once: its id is in \<open>Ran\<close>, in \<open>Skipped\<close> or in \<open>Errors\<close>, and the two counters are the
  lengths they are documented to be.\<close>

theorem run_accounts_for_every_check:
  "mset (map ck_id cs) = mset (rp_ran (run_checks race cs d)) + mset (rp_skipped (run_checks race cs d)) +
     mset (map ce_check_id (rp_errors (run_checks race cs d))) \<and>
   rp_checks_run (run_checks race cs d) =
     int (length (rp_ran (run_checks race cs d)) + length (rp_errors (run_checks race cs d))) \<and>
   rp_checks_failed (run_checks race cs d) = int (length (rp_errors (run_checks race cs d)))"
proof (intro conjI)
  show "mset (map ck_id cs) = mset (rp_ran (run_checks race cs d)) + mset (rp_skipped (run_checks race cs d)) +
     mset (map ce_check_id (rp_errors (run_checks race cs d)))"
    unfolding run_checks_fields by (rule buckets_mset)
qed (rule run_checks_fields)+

text \<open>The order of a report's findings, as it is documented: critical findings before warnings,
  both before the rest; within one severity by check id, within one check by entity key.\<close>

definition reported_before :: "finding \<Rightarrow> finding \<Rightarrow> bool" where
  "reported_before f g \<longleftrightarrow>
     (let sf = fi_severity f; sg = fi_severity g; critical = ''critical''; warn = ''warn'' in
      if sf = critical \<and> sg \<noteq> critical then True
      else if sf \<noteq> critical \<and> sg = critical then False
      else if sf = warn \<and> sg \<notin> {critical, warn} then True
      else if sf \<notin> {critical, warn} \<and> sg = warn then False
      else if fi_check_id f \<noteq> fi_check_id g then fi_check_id f < fi_check_id g
      else fi_entity_key f < fi_entity_key g)"

lemma reported_before_iff: "reported_before f g \<longleftrightarrow> finding_order f < finding_order g"
  by (auto simp: reported_before_def finding_order_def severity_rank_def Let_def less_prod_def)

text \<open>C39: The findings of a report are exactly those of the checks that completed, none lost and
  none duplicated; no finding stands after one that the documented order puts behind it (critical
  first, then warnings, then the rest; then by check id and by entity key); and those whose
  severity class, check id and entity key agree keep the order in which the checks produced them.\<close>

theorem run_findings_sorted_and_complete:
  "mset (rp_findings (run_checks race cs d)) = (\<Sum>c \<leftarrow> cs. mset (findings_of race d c)) \<and>
   sorted_wrt (\<lambda>f g. \<not> reported_before g f) (rp_findings (run_checks race cs d)) \<and>
   filter (\<lambda>f. \<not> reported_before f k \<and> \<not> reported_before k f) (rp_findings (run_checks race cs d)) =
     filter (\<lambda>f. \<not> reported_before f k \<and> \<not> reported_before k f) (concat (map (findings_of race d) cs))"
proof -
  have "mset (concat xss) = (\<Sum>xs \<leftarrow> xss. mset xs)" for xss :: "finding list list"
    by (induction xss) simp_all
  moreover have "(\<lambda>f. \<not> reported_before f k \<and> \<not> reported_before k f) = (\<lambda>f. finding_order f = finding_order k)"
    by (auto simp: reported_before_iff)
  moreover have "sorted_wrt (\<lambda>f g. \<not> reported_before g f) (sort_findings fs)" for fs
    using sorted_sort_key [of finding_order fs]
    by (simp add: sort_findings_def reported_before_iff sorted_wrt_map not_less)
  ultimately show ?thesis
    unfolding run_checks_fields by (simp add: sort_findings_def comp_def sort_key_stable)
qed

text \<open>A check that hangs past its deadline or panics cannot disturb the rest of the run: the
  report has the findings, the metrics and the other check lists of the run without it, and the
  check itself is one entry of \<open>Errors\<close>.\<close>

theorem bad_check_is_isolated:
  assumes "rc_end race (ck_id c) \<noteq> None \<or>
    (\<exists>run v. ck_run c = Some run \<and> run (d\<lparr>d_now := t_add (d_now d) (rc_clock race (ck_id c))\<rparr>) = Panics v)"
  shows "rp_findings (run_checks race (xs @ c # ys) d) = rp_findings (run_checks race (xs @ ys) d) \<and>
    rp_metrics (run_checks race (xs @ c # ys) d) = rp_metrics (run_checks race (xs @ ys) d) \<and>
    rp_ran (run_checks race (xs @ c # ys) d) = rp_ran (run_checks race (xs @ ys) d) \<and>
    rp_skipped (run_checks race (xs @ c # ys) d) = rp_skipped (run_checks race (xs @ ys) d) \<and>
    (\<exists>m. rp_errors (run_checks race (xs @ c # ys) d) =
       rp_errors (run_checks race xs d) @ [\<lparr>ce_check_id = ck_id c, ce_error = m\<rparr>] @ rp_errors (run_checks race ys d))"
proof -
  obtain e where e: "run_one race c d = Inl e" "\<not> errors_is e ErrNotConfigured"
    using assms by (cases "rc_end race (ck_id c)") (auto simp: run_one_def outcome_def)
  then show ?thesis
    unfolding run_checks_fields by (simp add: outcome_defs)
qed


text \<open>Dependencies with no client configured, for concrete instances.\<close>

definition sample_deps :: "config \<Rightarrow> deps" where
  "sample_deps cfg = \<lparr>d_node = NodePi, d_cfg = cfg, d_now = 63900000000 * second, d_local = utc,
     d_previous = None, d_sonarr = None, d_radarr = None, d_prowlarr = None, d_qbit = None, d_plex = None,
     d_tautulli = None, d_overseerr = None, d_docker = None, d_host = None\<rparr>"

definition panicking_check :: check where
  "panicking_check = \<lparr>ck_id = ''boom'', ck_nodes = [NodePi], ck_tier = TierObserve, ck_cadence = hour,
     ck_run = Some (\<lambda>_. Panics ''index out of range'')\<rparr>"

theorem bad_check_is_isolated_witness:
  "\<exists>m. rp_errors (run_checks prompt [panicking_check] (sample_deps defaults)) = [\<lparr>ce_check_id = ''boom'', ce_error = m\<rparr>]"
proof -
  have "\<exists>run v. ck_run panicking_check = Some run \<and> run e = Panics v" for e by (simp add: panicking_check_def)
  with bad_check_is_isolated [of prompt panicking_check "sample_deps defaults" "[]" "[]"]
  show ?thesis by (simp add: run_checks_def empty_report_def panicking_check_def)
qed

end
