(* ===== verification/Store_Core.thy ===== *)
theory Store_Core
  imports Check_Engine
begin

text \<open>
  \<open>internal/store\<close>: the SQLite state file. A table is the list of its rows in insertion order,
  an \<open>INTEGER PRIMARY KEY\<close> is one more than the largest id present. Every statement may fail
  for a reason of the database (disk, lock, cancelled context): the fault plan has one entry per
  statement still to come, and a statement that fails changes nothing. \<open>RowsAffected\<close> and
  \<open>LastInsertId\<close> of the driver do not fail after a successful statement. A timestamp column is
  the second count of its RFC 3339 text, whose order SQLite compares.
\<close>

section \<open>Tables\<close>

record finding_row =
  fr_id :: int
  fr_check_id :: string
  fr_node :: node
  fr_entity_key :: string
  fr_severity :: severity
  fr_tier :: tier
  fr_summary :: string
  fr_detail :: string
  fr_data :: data
  fr_status :: string
  fr_first_seen :: stamp
  fr_last_seen :: stamp
  fr_resolved_at :: "stamp option"
  fr_snooze_until :: "stamp option"
  fr_seen_count :: int

record report_row =
  rr_id :: int
  rr_node :: node
  rr_generated_at :: stamp
  rr_checks_run :: int
  rr_checks_failed :: int
  rr_findings_count :: int
  rr_ran :: "string list"
  rr_skipped :: "string list"
  rr_errors :: "check_error list"
  rr_metrics :: metrics

record decision_row =
  dr_id :: int
  dr_entity_key :: string
  dr_kind :: string
  dr_status :: string
  dr_snooze_until :: "stamp option"
  dr_requested_at :: stamp
  dr_executed_at :: "stamp option"
  dr_error :: string

record remediation_row =
  mr_id :: int
  mr_finding_id :: "int option"
  mr_node :: node
  mr_action :: string
  mr_tier :: string
  mr_dry_run :: bool
  mr_status :: string
  mr_detail :: string
  mr_created_at :: stamp
  mr_finished_at :: "stamp option"

record email_row =
  er_id :: int
  er_to :: string
  er_subject :: string
  er_body :: string
  er_status :: string
  er_created_at :: stamp
  er_sent_at :: "stamp option"
  er_error :: string

record peer_row =
  pm_id :: int
  pm_direction :: string
  pm_kind :: string
  pm_peer :: node
  pm_payload :: payload
  pm_received_at :: stamp

text \<open>\<open>db_version\<close> is the row of \<open>schema_meta\<close> (\<open>None\<close> before that table exists), \<open>db_migrations\<close> the
  scripts that have been run.\<close>

record db =
  db_reports :: "report_row list"
  db_findings :: "finding_row list"
  db_decisions :: "decision_row list"
  db_remediations :: "remediation_row list"
  db_emails :: "email_row list"
  db_peer_messages :: "peer_row list"
  db_version :: "int option"
  db_migrations :: "string list"

definition empty_db :: db where
  "empty_db = \<lparr>db_reports = [], db_findings = [], db_decisions = [], db_remediations = [],
     db_emails = [], db_peer_messages = [], db_version = None, db_migrations = []\<rparr>"

definition next_id :: "('r \<Rightarrow> int) \<Rightarrow> 'r list \<Rightarrow> int" where
  "next_id idf rows = foldr (\<lambda>r m. max (idf r) m) rows 0 + 1"

lemma next_id_greater: "r \<in> set rows \<Longrightarrow> idf r < next_id idf rows"
proof -
  have "idf r \<le> foldr (\<lambda>r m. max (idf r) m) rows 0" if "r \<in> set rows"
    using that by (induction rows) auto
  then show "r \<in> set rows \<Longrightarrow> idf r < next_id idf rows" by (simp add: next_id_def)
qed

lemma next_id_pos: "0 < next_id idf rows"
proof -
  have "0 \<le> foldr (\<lambda>r m. max (idf r) m) rows 0" by (induction rows) auto
  then show ?thesis by (simp add: next_id_def)
qed

lemma next_id_fresh: "next_id idf rows \<notin> idf ` set rows"
  using next_id_greater [of _ rows idf] by fastforce

section \<open>Statements\<close>

record store =
  st_db :: db
  st_faults :: "goerr option list"

type_synonym 'a sm = "store \<Rightarrow> 'a result \<times> store"

definition sret :: "'a \<Rightarrow> 'a sm" where
  "sret x s = (Inr x, s)"

definition sfail :: "goerr \<Rightarrow> 'a sm" where
  "sfail e s = (Inl e, s)"

definition sbind :: "'a sm \<Rightarrow> ('a \<Rightarrow> 'b sm) \<Rightarrow> 'b sm" where
  "sbind m f s = (case m s of (Inl e, s') \<Rightarrow> (Inl e, s') | (Inr x, s') \<Rightarrow> f x s')"

definition slift :: "'a result \<Rightarrow> 'a sm" where
  "slift r s = (r, s)"

fun take_fault :: "store \<Rightarrow> goerr option \<times> store" where
  "take_fault s =
     (case st_faults s of [] \<Rightarrow> (None, s) | f # fs \<Rightarrow> (f, s\<lparr>st_faults := fs\<rparr>))"

text \<open>One statement: it fails as planned, violates a constraint, or takes effect.\<close>

definition sexec :: "string \<Rightarrow> (db \<Rightarrow> ('a \<times> db) result) \<Rightarrow> 'a sm" where
  "sexec p f s =
     (case take_fault s of
        (Some e, s') \<Rightarrow> (Inl (wrap_error p e), s')
      | (None, s') \<Rightarrow>
          (case f (st_db s') of
             Inl e \<Rightarrow> (Inl (wrap_error p e), s')
           | Inr (x, db') \<Rightarrow> (Inr x, s'\<lparr>st_db := db'\<rparr>)))"

definition supdate :: "string \<Rightarrow> (db \<Rightarrow> 'a \<times> db) \<Rightarrow> 'a sm" where
  "supdate p f = sexec p (\<lambda>db. Inr (f db))"

definition squery :: "string \<Rightarrow> (db \<Rightarrow> 'a) \<Rightarrow> 'a sm" where
  "squery p q = supdate p (\<lambda>db. (q db, db))"

text \<open>
  \<open>BeginTx\<close>, the body, \<open>Commit\<close>; on any error the deferred \<open>Rollback\<close>, whose own failure is
  joined to the error (after a failed commit it is \<open>sql.ErrTxDone\<close> and is dropped). Without a
  successful commit the database is the one before.
\<close>

definition stransaction :: "string \<Rightarrow> 'a sm \<Rightarrow> 'a sm" where
  "stransaction what body s =
     (case take_fault s of
        (Some e, s1) \<Rightarrow> (Inl (wrap_error (''store: begin '' @ what) e), s1)
      | (None, s1) \<Rightarrow>
          (case body s1 of
             (Inl e, s2) \<Rightarrow>
               (case take_fault s2 of
                  (Some rb, s3) \<Rightarrow>
                    (Inl (join_errors e (wrap_error (''store: rollback '' @ what) rb)), s3\<lparr>st_db := st_db s\<rparr>)
                | (None, s3) \<Rightarrow> (Inl e, s3\<lparr>st_db := st_db s\<rparr>))
           | (Inr x, s2) \<Rightarrow>
               (case take_fault s2 of
                  (Some e, s3) \<Rightarrow> (Inl (wrap_error (''store: commit '' @ what) e), s3\<lparr>st_db := st_db s\<rparr>)
                | (None, s3) \<Rightarrow> (Inr x, s3))))"

lemma take_fault_db [simp]: "take_fault s = (f, s') \<Longrightarrow> st_db s' = st_db s"
  by (auto split: list.splits)

declare take_fault.simps [simp del]

lemma sret_eq [simp]: "sret x s = (r, s') \<longleftrightarrow> r = Inr x \<and> s' = s"
  by (auto simp: sret_def)

lemma sfail_eq [simp]: "sfail e s = (r, s') \<longleftrightarrow> r = Inl e \<and> s' = s"
  by (auto simp: sfail_def)

lemma slift_eq [simp]: "slift q s = (r, s') \<longleftrightarrow> q = r \<and> s' = s"
  by (auto simp: slift_def)

lemma sbind_Inr:
  "sbind m f s = (Inr y, s') \<longleftrightarrow> (\<exists>x s1. m s = (Inr x, s1) \<and> f x s1 = (Inr y, s'))"
  by (auto simp: sbind_def split: prod.splits sum.splits)

lemma sexec_Inr:
  "sexec p f s = (Inr x, s') \<Longrightarrow> f (st_db s) = Inr (x, st_db s')"
  by (auto simp: sexec_def split: prod.splits option.splits sum.splits)

lemma sexec_Inr_db:
  "sexec p f s = (Inr x, s') \<Longrightarrow> \<exists>db'. f (st_db s) = Inr (x, db') \<and> st_db s' = db'"
  using sexec_Inr by fast

lemma sexec_Inl: "sexec p f s = (Inl e, s') \<Longrightarrow> st_db s' = st_db s"
  by (auto simp: sexec_def split: prod.splits option.splits sum.splits)

lemma supdate_Inr: "supdate p f s = (Inr x, s') \<Longrightarrow> f (st_db s) = (x, st_db s')"
  by (auto simp: supdate_def dest: sexec_Inr)

lemma supdate_Inl: "supdate p f s = (Inl e, s') \<Longrightarrow> st_db s' = st_db s"
  by (auto simp: supdate_def dest: sexec_Inl)

lemma squery_db: "squery p q s = (r, s') \<Longrightarrow> st_db s' = st_db s"
  by (cases r) (auto simp: squery_def dest: supdate_Inr supdate_Inl)

lemma squery_Inr: "squery p q s = (Inr x, s') \<Longrightarrow> x = q (st_db s) \<and> st_db s' = st_db s"
  by (auto simp: squery_def dest: supdate_Inr)

lemma stransaction_Inl: "stransaction what body s = (Inl e, s') \<Longrightarrow> st_db s' = st_db s"
  by (auto simp: stransaction_def split: prod.splits option.splits sum.splits)

lemma stransaction_Inr:
  "stransaction what body s = (Inr x, s') \<Longrightarrow>
     \<exists>s1 s2. st_db s1 = st_db s \<and> body s1 = (Inr x, s2) \<and> st_db s' = st_db s2"
  by (auto simp: stransaction_def split: prod.splits option.splits sum.splits) (metis take_fault_db)

text \<open>What a fault-free store does: each statement takes effect.\<close>

lemma take_fault_none [simp]: "st_faults s = [] \<Longrightarrow> take_fault s = (None, s)"
  by (simp add: take_fault.simps)

lemma sexec_no_fault:
  "st_faults s = [] \<Longrightarrow> sexec p f s =
     (case f (st_db s) of Inl e \<Rightarrow> (Inl (wrap_error p e), s) | Inr (x, db') \<Rightarrow> (Inr x, s\<lparr>st_db := db'\<rparr>))"
  by (simp add: sexec_def)

lemma supdate_no_fault:
  "st_faults s = [] \<Longrightarrow> supdate p f s = (Inr (fst (f (st_db s))), s\<lparr>st_db := snd (f (st_db s))\<rparr>)"
  by (simp add: supdate_def sexec_no_fault split: prod.split)

lemma squery_no_fault: "st_faults s = [] \<Longrightarrow> squery p q s = (Inr (q (st_db s)), s)"
  by (simp add: squery_def supdate_no_fault)

text \<open>
  A property of the database that holds before an operation and that its every statement keeps.
\<close>

definition preserves :: "(db \<Rightarrow> bool) \<Rightarrow> 'a sm \<Rightarrow> bool" where
  "preserves I m \<longleftrightarrow> (\<forall>s. I (st_db s) \<longrightarrow> I (st_db (snd (m s))))"

lemma preservesI: "(\<And>s r s'. I (st_db s) \<Longrightarrow> m s = (r, s') \<Longrightarrow> I (st_db s')) \<Longrightarrow> preserves I m"
  unfolding preserves_def by (metis prod.collapse)

lemma preservesD: "preserves I m \<Longrightarrow> I (st_db s) \<Longrightarrow> m s = (r, s') \<Longrightarrow> I (st_db s')"
  unfolding preserves_def by (metis snd_conv)

lemma preserves_sret [intro]: "preserves I (sret x)"
  by (rule preservesI) auto

lemma preserves_sfail [intro]: "preserves I (sfail e)"
  by (rule preservesI) auto

lemma preserves_slift [intro]: "preserves I (slift r)"
  by (rule preservesI) auto

lemma preserves_sbind [intro]:
  assumes "preserves I m" "\<And>x. preserves I (f x)"
  shows "preserves I (sbind m f)"
proof (rule preservesI)
  fix s r s'
  assume I: "I (st_db s)" and b: "sbind m f s = (r, s')"
  obtain q s1 where m: "m s = (q, s1)" by (cases "m s")
  with preservesD [OF assms(1) I] have I1: "I (st_db s1)" by blast
  show "I (st_db s')"
  proof (cases q)
    case (Inl e)
    with b m I1 show ?thesis by (auto simp: sbind_def)
  next
    case (Inr x)
    with b m have "f x s1 = (r, s')" by (simp add: sbind_def)
    with preservesD [OF assms(2) I1] show ?thesis by blast
  qed
qed

lemma preserves_sexec:
  assumes "\<And>db x db'. I db \<Longrightarrow> f db = Inr (x, db') \<Longrightarrow> I db'"
  shows "preserves I (sexec p f)"
proof (rule preservesI)
  fix s r s'
  assume I: "I (st_db s)" and e: "sexec p f s = (r, s')"
  show "I (st_db s')"
  proof (cases r)
    case (Inl x)
    with e sexec_Inl I show ?thesis by metis
  next
    case (Inr x)
    with e have "f (st_db s) = Inr (x, st_db s')" by (auto dest: sexec_Inr)
    with assms I show ?thesis by blast
  qed
qed

lemma preserves_supdate:
  "(\<And>db. I db \<Longrightarrow> I (snd (f db))) \<Longrightarrow> preserves I (supdate p f)"
  unfolding supdate_def by (rule preserves_sexec) force

lemma preserves_squery [intro]: "preserves I (squery p q)"
  unfolding squery_def by (rule preserves_supdate) simp

lemma preserves_stransaction [intro]:
  assumes "preserves I body"
  shows "preserves I (stransaction what body)"
proof (rule preservesI)
  fix s r s'
  assume I: "I (st_db s)" and t: "stransaction what body s = (r, s')"
  show "I (st_db s')"
  proof (cases r)
    case (Inl e)
    with t stransaction_Inl I show ?thesis by metis
  next
    case (Inr x)
    with t obtain s1 s2 where s: "st_db s1 = st_db s" "body s1 = (Inr x, s2)" "st_db s' = st_db s2"
      by (auto dest: stransaction_Inr)
    with I preservesD [OF assms, of s1] show ?thesis by simp
  qed
qed

end
