(* ===== verification/Store_Findings.thy ===== *)
theory Store_Findings
  imports Store_Core
begin

text \<open>
  \<open>store/reports.go\<close>, \<open>store/findings.go\<close>, \<open>store/history.go\<close> and the finding side of
  \<open>store/decisions.go\<close>: saving a report with the dedup and resolve rules of its findings, the
  snooze, and the queries over reports and findings.
\<close>

section \<open>Encoding\<close>

text \<open>The offending value's own text, which \<open>encoding/json\<close> appends, is left out of the message.\<close>

definition unsupported_value :: goerr where
  "unsupported_value = new_error ''marshal: json: unsupported value''"

definition marshal_data :: "data \<Rightarrow> data result" where
  "marshal_data d = (case json_trip_obj d of None \<Rightarrow> Inl unsupported_value | Some d' \<Rightarrow> Inr d')"

definition marshal_metrics :: "metrics \<Rightarrow> metrics result" where
  "marshal_metrics m = (if list_all (\<lambda>(k, v). f_is_finite v) m then Inr m else Inl unsupported_value)"

section \<open>Reports\<close>

definition new_report_row :: "report \<Rightarrow> metrics \<Rightarrow> int \<Rightarrow> report_row" where
  "new_report_row rep ms i = \<lparr>rr_id = i, rr_node = rp_node rep, rr_generated_at = format_time (rp_generated_at rep),
     rr_checks_run = rp_checks_run rep, rr_checks_failed = rp_checks_failed rep,
     rr_findings_count = int (length (rp_findings rep)), rr_ran = rp_ran rep, rr_skipped = rp_skipped rep,
     rr_errors = rp_errors rep, rr_metrics = ms\<rparr>"

definition insert_report :: "report \<Rightarrow> int sm" where
  "insert_report rep =
     sbind (slift (wrap_result ''store: marshal report.metrics'' (marshal_metrics (rp_metrics rep)))) (\<lambda>ms.
     supdate ''store: insert report'' (\<lambda>db.
       let i = next_id rr_id (db_reports db)
       in (i, db\<lparr>db_reports := db_reports db @ [new_report_row rep ms i]\<rparr>)))"

definition decode_report :: "report_row \<Rightarrow> report" where
  "decode_report r = \<lparr>rp_node = rr_node r, rp_generated_at = parse_time (rr_generated_at r), rp_findings = [],
     rp_ran = rr_ran r, rp_skipped = rr_skipped r, rp_errors = rr_errors r, rp_metrics = rr_metrics r,
     rp_checks_run = rr_checks_run r, rp_checks_failed = rr_checks_failed r\<rparr>"

definition latest_report :: "node \<Rightarrow> report option sm" where
  "latest_report n =
     squery ''store: latest report'' (\<lambda>db.
       map_option decode_report
         (first_max (\<lambda>r. (rr_generated_at r, rr_id r)) (filter (\<lambda>r. rr_node r = n) (db_reports db))))"

section \<open>Findings\<close>

record upsert_summary =
  us_new :: int
  us_updated :: int
  us_resolved :: int

definition zero_summary :: upsert_summary where
  "zero_summary = \<lparr>us_new = 0, us_updated = 0, us_resolved = 0\<rparr>"

definition active :: "finding_row \<Rightarrow> bool" where
  "active r \<longleftrightarrow> fr_status r = ''open'' \<or> fr_status r = ''snoozed''"

type_synonym fkey = "node \<times> string \<times> string"

definition row_key :: "finding_row \<Rightarrow> fkey" where
  "row_key r = (fr_node r, fr_check_id r, fr_entity_key r)"

definition fkey_of :: "finding \<Rightarrow> fkey" where
  "fkey_of f = (fi_node f, fi_check_id f, fi_entity_key f)"

text \<open>The \<open>SET\<close> clause of the update, with SQL's \<open>NULL > t\<close> not true.\<close>

definition still_snoozed :: "stamp \<Rightarrow> finding_row \<Rightarrow> bool" where
  "still_snoozed ts r \<longleftrightarrow>
     fr_status r = ''snoozed'' \<and> (case fr_snooze_until r of None \<Rightarrow> False | Some u \<Rightarrow> ts < u)"

definition refresh_row :: "stamp \<Rightarrow> finding \<Rightarrow> data \<Rightarrow> finding_row \<Rightarrow> finding_row" where
  "refresh_row ts f dat r = r\<lparr>
     fr_last_seen := ts, fr_seen_count := fr_seen_count r + 1, fr_severity := fi_severity f,
     fr_summary := fi_summary f, fr_detail := fi_detail f, fr_data := dat,
     fr_status := (if still_snoozed ts r then ''snoozed'' else ''open''),
     fr_snooze_until := (if still_snoozed ts r then fr_snooze_until r else None)\<rparr>"

definition update_open_finding :: "finding \<Rightarrow> time \<Rightarrow> bool sm" where
  "update_open_finding f generated_at =
     sbind (slift (wrap_result (''store: marshal finding '' @ finding_key f @ '' data'') (marshal_data (fi_data f)))) (\<lambda>dat.
     supdate (''store: update finding '' @ finding_key f) (\<lambda>db.
       let hit = (\<lambda>r. active r \<and> row_key r = fkey_of f)
       in (list_ex hit (db_findings db),
           db\<lparr>db_findings := map (\<lambda>r. if hit r then refresh_row (format_time generated_at) f dat r else r)
                 (db_findings db)\<rparr>)))"

definition new_row :: "stamp \<Rightarrow> finding \<Rightarrow> data \<Rightarrow> int \<Rightarrow> finding_row" where
  "new_row ts f dat i = \<lparr>fr_id = i, fr_check_id = fi_check_id f, fr_node = fi_node f,
     fr_entity_key = fi_entity_key f, fr_severity = fi_severity f, fr_tier = fi_tier f,
     fr_summary = fi_summary f, fr_detail = fi_detail f, fr_data = dat, fr_status = ''open'',
     fr_first_seen = ts, fr_last_seen = ts, fr_resolved_at = None, fr_snooze_until = None,
     fr_seen_count = 1\<rparr>"

text \<open>The unique index \<open>findings_open_key\<close> rejects a second active row for a key.\<close>

definition unique_violation :: goerr where
  "unique_violation = new_error ''constraint failed: UNIQUE constraint failed: index 'findings_open_key' (2067)''"

definition insert_finding :: "finding \<Rightarrow> time \<Rightarrow> unit sm" where
  "insert_finding f generated_at =
     sbind (slift (wrap_result (''store: marshal finding '' @ finding_key f @ '' data'') (marshal_data (fi_data f)))) (\<lambda>dat.
     sexec (''store: insert finding '' @ finding_key f) (\<lambda>db.
       if list_ex (\<lambda>r. active r \<and> row_key r = fkey_of f) (db_findings db) then Inl unique_violation
       else Inr ((), db\<lparr>db_findings := db_findings db @
              [new_row (format_time generated_at) f dat (next_id fr_id (db_findings db))]\<rparr>)))"

definition resolve_row :: "stamp \<Rightarrow> finding_row \<Rightarrow> finding_row" where
  "resolve_row ts r = r\<lparr>fr_status := ''resolved'', fr_resolved_at := Some ts\<rparr>"

definition resolve_missing_findings :: "node \<Rightarrow> string \<Rightarrow> string list \<Rightarrow> time \<Rightarrow> int sm" where
  "resolve_missing_findings n check_id seen generated_at =
     supdate (''store: resolve findings for check '' @ check_id) (\<lambda>db.
       let hit = (\<lambda>r. active r \<and> fr_node r = n \<and> fr_check_id r = check_id \<and> fr_entity_key r \<notin> set seen)
       in (int (length (filter hit (db_findings db))),
           db\<lparr>db_findings := map (\<lambda>r. if hit r then resolve_row (format_time generated_at) r else r)
                 (db_findings db)\<rparr>))"

fun upsert_each :: "time \<Rightarrow> finding list \<Rightarrow> upsert_summary \<Rightarrow> upsert_summary sm" where
  "upsert_each ts [] sm = sret sm"
| "upsert_each ts (f # fs) sm =
     sbind (update_open_finding f ts) (\<lambda>updated.
       if updated then upsert_each ts fs (sm\<lparr>us_updated := us_updated sm + 1\<rparr>)
       else sbind (insert_finding f ts) (\<lambda>_. upsert_each ts fs (sm\<lparr>us_new := us_new sm + 1\<rparr>)))"

text \<open>\<open>seenKeys[checkID]\<close>: the entity keys of the report's findings for a check, whatever their node.\<close>

definition seen_keys :: "finding list \<Rightarrow> string \<Rightarrow> string list" where
  "seen_keys fs check_id = map fi_entity_key (filter (\<lambda>f. fi_check_id f = check_id) fs)"

fun resolve_each :: "report \<Rightarrow> string list \<Rightarrow> upsert_summary \<Rightarrow> upsert_summary sm" where
  "resolve_each rep [] sm = sret sm"
| "resolve_each rep (c # cs) sm =
     sbind (resolve_missing_findings (rp_node rep) c (seen_keys (rp_findings rep) c) (rp_generated_at rep))
       (\<lambda>n. resolve_each rep cs (sm\<lparr>us_resolved := us_resolved sm + n\<rparr>))"

definition upsert_findings :: "report \<Rightarrow> upsert_summary sm" where
  "upsert_findings rep =
     sbind (upsert_each (rp_generated_at rep) (rp_findings rep) zero_summary)
       (\<lambda>sm. resolve_each rep (rp_ran rep) sm)"

definition save_report :: "report \<Rightarrow> (int \<times> upsert_summary) sm" where
  "save_report rep =
     stransaction ''save report''
       (sbind (insert_report rep) (\<lambda>i. sbind (upsert_findings rep) (\<lambda>sm. sret (i, sm))))"

section \<open>Queries\<close>

record stored_finding =
  sf_id :: int
  sf_finding :: finding
  sf_status :: string
  sf_seen_count :: int
  sf_resolved_at :: "time option"
  sf_snooze_until :: "time option"

definition scan_stored_finding :: "finding_row \<Rightarrow> stored_finding" where
  "scan_stored_finding r = \<lparr>sf_id = fr_id r,
     sf_finding = \<lparr>fi_check_id = fr_check_id r, fi_node = fr_node r, fi_entity_key = fr_entity_key r,
       fi_severity = fr_severity r, fi_tier = fr_tier r, fi_summary = fr_summary r, fi_detail = fr_detail r,
       fi_data = fr_data r, fi_first_seen = parse_time (fr_first_seen r), fi_last_seen = parse_time (fr_last_seen r)\<rparr>,
     sf_status = fr_status r, sf_seen_count = fr_seen_count r,
     sf_resolved_at = map_option parse_time (fr_resolved_at r),
     sf_snooze_until = map_option parse_time (fr_snooze_until r)\<rparr>"

definition sql_severity :: "severity \<Rightarrow> int" where
  "sql_severity s =
     (if s = ''critical'' then 3 else if s = ''warn'' then 2 else if s = ''info'' then 1 else 0)"

definition open_findings :: "node \<Rightarrow> stored_finding list sm" where
  "open_findings n =
     squery ''store: open findings'' (\<lambda>db.
       map scan_stored_finding
         (sort_key (\<lambda>r. (- sql_severity (fr_severity r), fr_check_id r, fr_entity_key r))
           (filter (\<lambda>r. fr_node r = n \<and> active r) (db_findings db))))"

text \<open>SQLite's \<open>LIMIT\<close>: a negative limit is no limit.\<close>

definition sql_limit :: "int \<Rightarrow> 'a list \<Rightarrow> 'a list" where
  "sql_limit n xs = (if n < 0 then xs else take (nat n) xs)"

definition finding_history :: "node \<Rightarrow> time \<Rightarrow> int \<Rightarrow> stored_finding list sm" where
  "finding_history n since limit =
     squery ''store: finding history'' (\<lambda>db.
       map scan_stored_finding
         (sql_limit limit (sort_key (\<lambda>r. (- fr_last_seen r, - fr_id r))
           (filter (\<lambda>r. fr_node r = n \<and> format_time since \<le> fr_last_seen r) (db_findings db)))))"

definition snooze_row :: "stamp \<Rightarrow> finding_row \<Rightarrow> finding_row" where
  "snooze_row until r = r\<lparr>fr_status := ''snoozed'', fr_snooze_until := Some until\<rparr>"

definition snooze_entity :: "string \<Rightarrow> time \<Rightarrow> unit sm" where
  "snooze_entity entity_key until =
     supdate (''store: snooze entity '' @ entity_key) (\<lambda>db.
       ((), db\<lparr>db_findings := map (\<lambda>r. if fr_entity_key r = entity_key \<and> active r
              then snooze_row (format_time until) r else r) (db_findings db)\<rparr>))"

definition snoozed_until :: "string \<Rightarrow> time option sm" where
  "snoozed_until entity_key =
     squery (''store: snoozed until '' @ entity_key) (\<lambda>db.
       map_option parse_time (first_max id
         (concat (map (\<lambda>r. opt_list (fr_snooze_until r))
           (filter (\<lambda>r. fr_entity_key r = entity_key \<and> fr_status r = ''snoozed'') (db_findings db))))))"

end
