(* ===== verification/Store_Tracker.thy ===== *)
theory Store_Tracker
  imports Store_Findings
begin

text \<open>
  What the findings table promises. The abstract tracker is a partial function from (node, check,
  entity) to the one active finding of that key; saving a report is a function on it. The row
  invariant says why it is well defined: at most one active row per key, whatever happened
  before, and a status that its columns agree with.
\<close>

section \<open>The row invariant\<close>

definition row_ok :: "finding_row \<Rightarrow> bool" where
  "row_ok r \<longleftrightarrow> 0 < fr_id r \<and> 1 \<le> fr_seen_count r \<and>
     (fr_status r = ''open'' \<and> fr_snooze_until r = None \<and> fr_resolved_at r = None \<or>
      fr_status r = ''snoozed'' \<and> fr_snooze_until r \<noteq> None \<and> fr_resolved_at r = None \<or>
      fr_status r = ''resolved'' \<and> fr_resolved_at r \<noteq> None)"

definition findings_ok :: "finding_row list \<Rightarrow> bool" where
  "findings_ok rows \<longleftrightarrow>
     distinct (map fr_id rows) \<and> list_all row_ok rows \<and> distinct (map row_key (filter active rows))"

definition touch :: "(finding_row \<Rightarrow> bool) \<Rightarrow> (finding_row \<Rightarrow> finding_row) \<Rightarrow> finding_row list \<Rightarrow> finding_row list" where
  "touch hit g rows = map (\<lambda>r. if hit r then g r else r) rows"

lemma refresh_row_sel [simp]:
  "fr_id (refresh_row ts f d r) = fr_id r" "row_key (refresh_row ts f d r) = row_key r"
  "active (refresh_row ts f d r)"
  by (simp_all add: refresh_row_def row_key_def active_def)

lemma snooze_row_sel [simp]:
  "fr_id (snooze_row u r) = fr_id r" "row_key (snooze_row u r) = row_key r" "active (snooze_row u r)"
  by (simp_all add: snooze_row_def row_key_def active_def)

lemma resolve_row_sel [simp]:
  "fr_id (resolve_row ts r) = fr_id r" "row_key (resolve_row ts r) = row_key r" "\<not> active (resolve_row ts r)"
  by (simp_all add: resolve_row_def row_key_def active_def)

lemma new_row_sel [simp]:
  "fr_id (new_row ts f d i) = i" "row_key (new_row ts f d i) = fkey_of f" "active (new_row ts f d i)"
  by (simp_all add: new_row_def row_key_def active_def fkey_of_def)

lemma row_ok_refresh: "active r \<Longrightarrow> row_ok r \<Longrightarrow> row_ok (refresh_row ts f d r)"
  by (auto simp: row_ok_def refresh_row_def still_snoozed_def active_def split: option.splits)

lemma row_ok_snooze: "active r \<Longrightarrow> row_ok r \<Longrightarrow> row_ok (snooze_row u r)"
  by (auto simp: row_ok_def snooze_row_def active_def)

lemma row_ok_resolve: "row_ok r \<Longrightarrow> row_ok (resolve_row ts r)"
  by (auto simp: row_ok_def resolve_row_def)

lemma row_ok_new: "0 < i \<Longrightarrow> row_ok (new_row ts f d i)"
  by (simp add: row_ok_def new_row_def)

lemma touch_ids: "(\<And>r. fr_id (g r) = fr_id r) \<Longrightarrow> map fr_id (touch hit g rows) = map fr_id rows"
  by (simp add: touch_def)

lemma touch_rows_ok:
  "(\<And>r. hit r \<Longrightarrow> row_ok r \<Longrightarrow> row_ok (g r)) \<Longrightarrow> list_all row_ok rows \<Longrightarrow> list_all row_ok (touch hit g rows)"
  by (auto simp: touch_def list_all_iff)

lemma touch_keys_active:
  assumes "\<And>r. hit r \<Longrightarrow> active r" "\<And>r. active (g r)" "\<And>r. row_key (g r) = row_key r"
  shows "map row_key (filter active (touch hit g rows)) = map row_key (filter active rows)"
  by (induction rows) (use assms in \<open>auto simp: touch_def\<close>)

lemma touch_keys_inactive:
  assumes "\<And>r. \<not> active (g r)"
  shows "filter active (touch hit g rows) = filter (\<lambda>r. active r \<and> \<not> hit r) rows"
  by (induction rows) (use assms in \<open>auto simp: touch_def\<close>)

lemma findings_ok_touch_active:
  assumes "findings_ok rows" "\<And>r. hit r \<Longrightarrow> active r" "\<And>r. active (g r)" "\<And>r. row_key (g r) = row_key r"
    "\<And>r. fr_id (g r) = fr_id r" "\<And>r. active r \<Longrightarrow> row_ok r \<Longrightarrow> row_ok (g r)"
  shows "findings_ok (touch hit g rows)"
proof -
  have "list_all row_ok (touch hit g rows)"
    using assms by (intro touch_rows_ok) (auto simp: findings_ok_def)
  then show ?thesis
    using assms(1) by (simp only: findings_ok_def touch_ids [OF assms(5)] touch_keys_active [OF assms(2,3,4)])
qed

lemma findings_ok_touch_resolve:
  assumes "findings_ok rows"
  shows "findings_ok (touch hit (resolve_row ts) rows)"
proof -
  have "list_all row_ok (touch hit (resolve_row ts) rows)"
    using assms by (intro touch_rows_ok) (auto simp: findings_ok_def row_ok_resolve)
  moreover have "distinct (map row_key (filter (\<lambda>r. active r \<and> \<not> hit r) rows))"
    using assms distinct_map_filter [of row_key "filter active rows" "\<lambda>r. \<not> hit r"]
    by (simp add: findings_ok_def conj_commute)
  ultimately show ?thesis
    using assms by (simp add: findings_ok_def touch_ids touch_keys_inactive)
qed

lemma findings_ok_insert:
  assumes "findings_ok rows" "\<not> list_ex (\<lambda>r. active r \<and> row_key r = fkey_of f) rows"
  shows "findings_ok (rows @ [new_row ts f d (next_id fr_id rows)])"
  using assms next_id_fresh [of fr_id rows]
  by (auto simp: findings_ok_def list_ex_iff row_ok_new next_id_pos)

abbreviation db_findings_ok :: "db \<Rightarrow> bool" where
  "db_findings_ok db \<equiv> findings_ok (db_findings db)"

lemma preserves_update_open: "preserves db_findings_ok (update_open_finding f t)"
  unfolding update_open_finding_def Let_def
  by (intro preserves_sbind preserves_slift preserves_supdate)
     (simp flip: touch_def, rule findings_ok_touch_active, auto simp: row_ok_refresh)

lemma preserves_insert: "preserves db_findings_ok (insert_finding f t)"
  unfolding insert_finding_def
  by (intro preserves_sbind preserves_slift preserves_sexec)
     (auto simp: findings_ok_insert split: if_splits)

lemma preserves_resolve: "preserves db_findings_ok (resolve_missing_findings n c seen t)"
  unfolding resolve_missing_findings_def Let_def
  by (rule preserves_supdate) (simp flip: touch_def add: findings_ok_touch_resolve)

lemma preserves_snooze: "preserves db_findings_ok (snooze_entity e t)"
  unfolding snooze_entity_def
  by (rule preserves_supdate)
     (simp flip: touch_def, rule findings_ok_touch_active, auto simp: row_ok_snooze)

lemma preserves_upsert_each: "preserves db_findings_ok (upsert_each t fs sm)"
  by (induction fs arbitrary: sm)
     (auto intro!: preserves_sbind preserves_sret preserves_update_open preserves_insert)

lemma preserves_resolve_each: "preserves db_findings_ok (resolve_each rep cs sm)"
  by (induction cs arbitrary: sm)
     (auto intro!: preserves_sbind preserves_sret preserves_resolve)

lemma preserves_insert_report: "preserves db_findings_ok (insert_report rep)"
  unfolding insert_report_def Let_def
  by (intro preserves_sbind preserves_slift preserves_supdate) simp

lemma preserves_save_report: "preserves db_findings_ok (save_report rep)"
  unfolding save_report_def upsert_findings_def
  by (intro preserves_stransaction preserves_sbind preserves_insert_report preserves_upsert_each
      preserves_resolve_each preserves_sret)

section \<open>The abstract tracker\<close>

type_synonym tracker = "fkey \<Rightarrow> finding_row option"

definition active_row :: "finding_row list \<Rightarrow> fkey \<Rightarrow> finding_row option" where
  "active_row rows k = find (\<lambda>r. active r \<and> row_key r = k) rows"

definition tracked :: "db \<Rightarrow> tracker" where
  "tracked db k = map_option (\<lambda>r. r\<lparr>fr_id := 0\<rparr>) (active_row (db_findings db) k)"

definition stored_data :: "finding \<Rightarrow> data" where
  "stored_data f = (case json_trip_obj (fi_data f) of None \<Rightarrow> [] | Some d \<Rightarrow> d)"

definition track_one :: "stamp \<Rightarrow> tracker \<Rightarrow> finding \<Rightarrow> tracker" where
  "track_one ts m f = m(fkey_of f \<mapsto>
     (case m (fkey_of f) of
        None \<Rightarrow> new_row ts f (stored_data f) 0
      | Some r \<Rightarrow> refresh_row ts f (stored_data f) r))"

definition drop_missing :: "report \<Rightarrow> string \<Rightarrow> fkey \<Rightarrow> bool" where
  "drop_missing rep c k \<longleftrightarrow>
     fst k = rp_node rep \<and> fst (snd k) = c \<and> snd (snd k) \<notin> set (seen_keys (rp_findings rep) c)"

definition track_report :: "report \<Rightarrow> tracker \<Rightarrow> tracker" where
  "track_report rep m =
     (\<lambda>k. if \<exists>c \<in> set (rp_ran rep). drop_missing rep c k then None
          else foldl (track_one (format_time (rp_generated_at rep))) m (rp_findings rep) k)"

lemma active_row_None: "active_row rows k = None \<longleftrightarrow> \<not> list_ex (\<lambda>r. active r \<and> row_key r = k) rows"
  by (auto simp: active_row_def find_None_iff list_ex_iff)

lemma active_row_touch:
  assumes "\<And>r. active (g r)" "\<And>r. row_key (g r) = row_key r"
  shows "active_row (touch (\<lambda>r. active r \<and> row_key r = k0) g rows) k =
    (if k = k0 then map_option g (active_row rows k) else active_row rows k)"
  by (induction rows) (use assms in \<open>auto simp: touch_def active_row_def\<close>)

lemma active_row_touch_resolve:
  assumes "\<And>r. hit r \<longleftrightarrow> active r \<and> P (row_key r)"
  shows "active_row (touch hit (resolve_row ts) rows) k = (if P k then None else active_row rows k)"
  by (induction rows) (use assms in \<open>auto simp: touch_def active_row_def\<close>)

lemma active_row_insert:
  "\<not> list_ex (\<lambda>r. active r \<and> row_key r = fkey_of f) rows \<Longrightarrow>
   active_row (rows @ [new_row ts f d i]) = (active_row rows)(fkey_of f \<mapsto> new_row ts f d i)"
proof
  fix k
  assume a: "\<not> list_ex (\<lambda>r. active r \<and> row_key r = fkey_of f) rows"
  have app: "find P (xs @ ys) = (case find P xs of None \<Rightarrow> find P ys | Some x \<Rightarrow> Some x)"
    for P :: "finding_row \<Rightarrow> bool" and xs ys by (induction xs) auto
  show "active_row (rows @ [new_row ts f d i]) k = ((active_row rows)(fkey_of f \<mapsto> new_row ts f d i)) k"
    using a active_row_None [of rows "fkey_of f"]
    by (auto simp: active_row_def app split: option.split)
qed

lemma refresh_row_id: "(refresh_row ts f d r)\<lparr>fr_id := i\<rparr> = refresh_row ts f d (r\<lparr>fr_id := i\<rparr>)"
  by (simp add: refresh_row_def still_snoozed_def)

lemma marshal_data_Inr: "marshal_data (fi_data f) = Inr d \<Longrightarrow> d = stored_data f"
  by (auto simp: marshal_data_def stored_data_def split: option.splits)

lemma db_findings_updD: "db\<lparr>db_findings := rows\<rparr> = db' \<Longrightarrow> db_findings db' = rows"
  by auto

lemma update_open_tracked:
  assumes "update_open_finding f t s = (Inr b, s')"
  shows "b \<longleftrightarrow> tracked (st_db s) (fkey_of f) \<noteq> None"
    "b \<Longrightarrow> tracked (st_db s') = track_one (format_time t) (tracked (st_db s)) f"
    "\<not> b \<Longrightarrow> st_db s' = st_db s"
proof -
  let ?rows = "db_findings (st_db s)" and ?hit = "\<lambda>r. active r \<and> row_key r = fkey_of f"
  obtain d where d: "marshal_data (fi_data f) = Inr d"
    and u: "b = list_ex ?hit ?rows"
      "st_db s' = (st_db s)\<lparr>db_findings := touch ?hit (refresh_row (format_time t) f d) ?rows\<rparr>"
    using assms by (auto simp: update_open_finding_def sbind_Inr Let_def touch_def dest!: supdate_Inr)
  show b: "b \<longleftrightarrow> tracked (st_db s) (fkey_of f) \<noteq> None"
    by (simp add: u tracked_def active_row_None)
  have dd: "d = stored_data f" using d by (rule marshal_data_Inr)
  have ar: "active_row (db_findings (st_db s')) k =
      (if k = fkey_of f then map_option (refresh_row (format_time t) f d) (active_row ?rows k)
       else active_row ?rows k)" for k
    by (simp add: u(2) active_row_touch)
  show "tracked (st_db s') = track_one (format_time t) (tracked (st_db s)) f" if b
    using that b by (auto simp: fun_eq_iff track_one_def tracked_def ar dd refresh_row_id split: option.split)
  show "st_db s' = st_db s" if "\<not> b"
  proof -
    have "touch ?hit g ?rows = ?rows" for g
      using that u(1) by (auto simp: touch_def list_ex_iff intro!: map_idI)
    then show ?thesis by (simp add: u(2))
  qed
qed

lemma insert_tracked:
  assumes "insert_finding f t s = (Inr u, s')" "tracked (st_db s) (fkey_of f) = None"
  shows "tracked (st_db s') = track_one (format_time t) (tracked (st_db s)) f"
proof -
  obtain d i where d: "marshal_data (fi_data f) = Inr d"
    and n: "\<not> list_ex (\<lambda>r. active r \<and> row_key r = fkey_of f) (db_findings (st_db s))"
    and s': "db_findings (st_db s') = db_findings (st_db s) @ [new_row (format_time t) f d i]"
    using assms(1) by (auto simp: insert_finding_def sbind_Inr dest!: sexec_Inr db_findings_updD split: if_splits)
  have "d = stored_data f" using d by (rule marshal_data_Inr)
  moreover have "(new_row ts f d j)\<lparr>fr_id := 0\<rparr> = new_row ts f d 0" for ts j by (simp add: new_row_def)
  ultimately show ?thesis
    using assms(2) by (auto simp: fun_eq_iff tracked_def s' active_row_insert [OF n] track_one_def)
qed

lemma upsert_each_tracked:
  "upsert_each t fs sm s = (Inr sm', s') \<Longrightarrow>
   tracked (st_db s') = foldl (track_one (format_time t)) (tracked (st_db s)) fs \<and>
   us_new sm' + us_updated sm' = us_new sm + us_updated sm + int (length fs) \<and>
   us_resolved sm' = us_resolved sm"
proof (induction fs arbitrary: sm s)
  case Nil
  then show ?case by simp
next
  case (Cons f fs)
  then obtain b s1 where u: "update_open_finding f t s = (Inr b, s1)"
    and rest: "(if b then upsert_each t fs (sm\<lparr>us_updated := us_updated sm + 1\<rparr>)
      else sbind (insert_finding f t) (\<lambda>_. upsert_each t fs (sm\<lparr>us_new := us_new sm + 1\<rparr>))) s1 = (Inr sm', s')"
    by (auto simp: sbind_Inr)
  show ?case
  proof (cases b)
    case True
    with rest Cons.IH [of "sm\<lparr>us_updated := us_updated sm + 1\<rparr>" s1] update_open_tracked [OF u]
    show ?thesis by simp
  next
    case False
    with rest obtain x s2 where i: "insert_finding f t s1 = (Inr x, s2)"
      and r: "upsert_each t fs (sm\<lparr>us_new := us_new sm + 1\<rparr>) s2 = (Inr sm', s')"
      by (auto simp: sbind_Inr)
    have "st_db s1 = st_db s" "tracked (st_db s1) (fkey_of f) = None"
      using update_open_tracked [OF u] False by simp_all
    with insert_tracked [OF i] Cons.IH [OF r] show ?thesis by simp
  qed
qed

lemma resolve_tracked:
  assumes "resolve_missing_findings (rp_node rep) c (seen_keys (rp_findings rep) c) t s = (Inr n, s')"
  shows "tracked (st_db s') = (\<lambda>k. if drop_missing rep c k then None else tracked (st_db s) k)"
proof -
  let ?hit = "\<lambda>r. active r \<and> fr_node r = rp_node rep \<and> fr_check_id r = c \<and>
    fr_entity_key r \<notin> set (seen_keys (rp_findings rep) c)"
  have s': "db_findings (st_db s') = touch ?hit (resolve_row (format_time t)) (db_findings (st_db s))"
    using supdate_Inr [OF assms [unfolded resolve_missing_findings_def Let_def]]
    by (auto simp: touch_def dest!: db_findings_updD)
  have "active_row (touch ?hit (resolve_row ts) rows) k =
      (if drop_missing rep c k then None else active_row rows k)" for ts rows k
    by (rule active_row_touch_resolve [where P = "drop_missing rep c"]) (auto simp: drop_missing_def row_key_def)
  then show ?thesis by (auto simp: tracked_def s')
qed

lemma resolve_each_tracked:
  "resolve_each rep cs sm s = (Inr sm', s') \<Longrightarrow>
   tracked (st_db s') = (\<lambda>k. if \<exists>c \<in> set cs. drop_missing rep c k then None else tracked (st_db s) k) \<and>
   us_new sm' = us_new sm \<and> us_updated sm' = us_updated sm"
proof (induction cs arbitrary: sm s)
  case Nil
  then show ?case by simp
next
  case (Cons c cs)
  then obtain n s1 where
    n: "resolve_missing_findings (rp_node rep) c (seen_keys (rp_findings rep) c) (rp_generated_at rep) s = (Inr n, s1)"
    and r: "resolve_each rep cs (sm\<lparr>us_resolved := us_resolved sm + n\<rparr>) s1 = (Inr sm', s')"
    by (auto simp: sbind_Inr)
  from Cons.IH [OF r] resolve_tracked [OF n] show ?case by (auto simp: fun_eq_iff)
qed

lemma db_reports_updD:
  "db\<lparr>db_reports := rows\<rparr> = db' \<Longrightarrow> db_findings db' = db_findings db \<and> db_reports db' = rows"
  by auto

lemma insert_report_tracked:
  "insert_report rep s = (Inr i, s') \<Longrightarrow>
     db_findings (st_db s') = db_findings (st_db s) \<and>
     (\<exists>ms. marshal_metrics (rp_metrics rep) = Inr ms \<and> i = next_id rr_id (db_reports (st_db s)) \<and>
       db_reports (st_db s') = db_reports (st_db s) @ [new_report_row rep ms i])"
  by (auto simp: insert_report_def sbind_Inr Let_def dest!: supdate_Inr db_reports_updD)

lemma save_report_tracked:
  assumes "save_report rep s = (Inr (i, sm), s')"
  shows "tracked (st_db s') = track_report rep (tracked (st_db s)) \<and>
    us_new sm + us_updated sm = int (length (rp_findings rep))"
proof -
  obtain s0 s1 where b: "st_db s0 = st_db s" "st_db s' = st_db s1"
    "sbind (insert_report rep) (\<lambda>i. sbind (upsert_findings rep) (\<lambda>sm. sret (i, sm))) s0 = (Inr (i, sm), s1)"
    using stransaction_Inr [OF assms [unfolded save_report_def]] by auto
  then obtain sa sb sm1 where
    r: "insert_report rep s0 = (Inr i, sa)" and
    u: "upsert_each (rp_generated_at rep) (rp_findings rep) zero_summary sa = (Inr sm1, sb)" and
    v: "resolve_each rep (rp_ran rep) sm1 sb = (Inr sm, s1)"
    by (auto simp: sbind_Inr upsert_findings_def)
  have "tracked (st_db sa) = tracked (st_db s)"
    using insert_report_tracked [OF r] b(1) by (simp add: tracked_def fun_eq_iff)
  with upsert_each_tracked [OF u] resolve_each_tracked [OF v] show ?thesis
    by (auto simp: b(2) track_report_def fun_eq_iff zero_summary_def)
qed


section \<open>When a report can be saved\<close>

definition encodable :: "finding \<Rightarrow> bool" where
  "encodable f \<longleftrightarrow> json_trip_obj (fi_data f) \<noteq> None"

lemma marshal_data_encodable: "(\<exists>d. marshal_data (fi_data f) = Inr d) \<longleftrightarrow> encodable f"
  by (auto simp: marshal_data_def encodable_def split: option.splits)

lemma upsert_each_encodable:
  "upsert_each t fs sm s = (Inr sm', s') \<Longrightarrow> list_all encodable fs"
  by (induction fs arbitrary: sm s)
     (auto simp: sbind_Inr update_open_finding_def encodable_def marshal_data_def
       split: if_splits option.splits)

lemma upsert_each_total:
  "list_all encodable fs \<Longrightarrow> st_faults s = [] \<Longrightarrow>
   \<exists>sm' s'. upsert_each t fs sm s = (Inr sm', s') \<and> st_faults s' = []"
proof (induction fs arbitrary: sm s)
  case Nil
  then show ?case by simp
next
  case (Cons f fs)
  then obtain d where d: "marshal_data (fi_data f) = Inr d"
    using marshal_data_encodable [of f] by auto
  let ?hit = "\<lambda>r. active r \<and> row_key r = fkey_of f"
  let ?u = "s\<lparr>st_db := (st_db s)\<lparr>db_findings :=
    map (\<lambda>r. if ?hit r then refresh_row (format_time t) f d r else r) (db_findings (st_db s))\<rparr>\<rparr>"
  have u: "update_open_finding f t s = (Inr (list_ex ?hit (db_findings (st_db s))), ?u)"
    using Cons.prems(2) by (simp add: update_open_finding_def d sbind_def slift_def supdate_no_fault Let_def)
  show ?case
  proof (cases "list_ex ?hit (db_findings (st_db s))")
    case True
    then show ?thesis
      using Cons.IH [of ?u "sm\<lparr>us_updated := us_updated sm + 1\<rparr>"] Cons.prems u by (simp add: sbind_def)
  next
    case False
    moreover from False have "list_ex ?hit (db_findings (st_db ?u)) = False"
      by (auto simp: list_ex_iff)
    ultimately show ?thesis
      using Cons.IH [of _ "sm\<lparr>us_new := us_new sm + 1\<rparr>"] Cons.prems u
      by (simp add: sbind_def insert_finding_def d slift_def sexec_no_fault)
  qed
qed

lemma resolve_each_total:
  "st_faults s = [] \<Longrightarrow> \<exists>sm' s'. resolve_each rep cs sm s = (Inr sm', s') \<and> st_faults s' = []"
  by (induction cs arbitrary: sm s)
     (simp_all add: sbind_def resolve_missing_findings_def supdate_no_fault Let_def)

lemma insert_report_total:
  "st_faults s = [] \<Longrightarrow> list_all (\<lambda>(k, v). f_is_finite v) (rp_metrics rep) \<Longrightarrow>
   \<exists>i s'. insert_report rep s = (Inr i, s') \<and> st_faults s' = []"
  by (simp add: insert_report_def sbind_def slift_def marshal_metrics_def supdate_no_fault Let_def)

lemma insert_report_finite:
  "insert_report rep s = (Inr i, s') \<Longrightarrow> list_all (\<lambda>(k, v). f_is_finite v) (rp_metrics rep)"
  by (auto simp: insert_report_def sbind_Inr marshal_metrics_def split: if_splits)

lemma save_report_total:
  assumes "st_faults s = []" "list_all (\<lambda>(k, v). f_is_finite v) (rp_metrics rep)" "list_all encodable (rp_findings rep)"
  shows "\<exists>x s'. save_report rep s = (Inr x, s') \<and> st_faults s' = []"
proof -
  obtain i s1 where 1: "insert_report rep s = (Inr i, s1)" "st_faults s1 = []"
    using insert_report_total [OF assms(1,2)] by blast
  obtain sm s2 where 2: "upsert_each (rp_generated_at rep) (rp_findings rep) zero_summary s1 = (Inr sm, s2)"
    "st_faults s2 = []"
    using upsert_each_total [OF assms(3) 1(2)] by blast
  obtain sm' s3 where 3: "resolve_each rep (rp_ran rep) sm s2 = (Inr sm', s3)" "st_faults s3 = []"
    using resolve_each_total [OF 2(2)] by blast
  have "sbind (insert_report rep) (\<lambda>i. sbind (upsert_findings rep) (\<lambda>sm. sret (i, sm))) s = (Inr (i, sm'), s3)"
    by (simp add: sbind_def upsert_findings_def 1 2 3 sret_def)
  then show ?thesis using assms(1) 3(2) by (simp add: save_report_def stransaction_def)
qed

lemma save_report_encodable:
  assumes "save_report rep s = (Inr x, s')"
  shows "list_all (\<lambda>(k, v). f_is_finite v) (rp_metrics rep) \<and> list_all encodable (rp_findings rep)"
proof -
  obtain i sm s0 s1 where
    "sbind (insert_report rep) (\<lambda>i. sbind (upsert_findings rep) (\<lambda>sm. sret (i, sm))) s0 = (Inr (i, sm), s1)"
    using stransaction_Inr [OF assms [unfolded save_report_def]] by (cases x) auto
  then show ?thesis
    by (auto simp: sbind_Inr upsert_findings_def dest: insert_report_finite upsert_each_encodable)
qed

section \<open>Rows of the past\<close>

definition closed_rows :: "db \<Rightarrow> finding_row set" where
  "closed_rows db = set (filter (\<lambda>r. \<not> active r) (db_findings db))"

lemma closed_touch:
  "(\<And>r. hit r \<Longrightarrow> active r) \<Longrightarrow> r \<in> set rows \<Longrightarrow> \<not> active r \<Longrightarrow> r \<in> set (touch hit g rows)"
  unfolding touch_def by (auto simp: image_iff intro!: bexI [of _ r])

definition keeps_closed :: "finding_row set \<Rightarrow> db \<Rightarrow> bool" where
  "keeps_closed R db \<longleftrightarrow> R \<subseteq> closed_rows db"

lemma keeps_closed_touch:
  assumes "keeps_closed R db" "\<And>r. hit r \<Longrightarrow> active r"
  shows "keeps_closed R (db\<lparr>db_findings := touch hit g (db_findings db)\<rparr>)"
  using assms closed_touch [of hit _ "db_findings db" g] by (auto simp: keeps_closed_def closed_rows_def)

lemma keeps_closed_update: "preserves (keeps_closed R) (update_open_finding f t)"
  unfolding update_open_finding_def Let_def
  by (intro preserves_sbind preserves_slift preserves_supdate)
     (simp flip: touch_def, rule keeps_closed_touch, auto)

lemma keeps_closed_insert: "preserves (keeps_closed R) (insert_finding f t)"
  unfolding insert_finding_def
  by (intro preserves_sbind preserves_slift preserves_sexec)
     (auto simp: keeps_closed_def closed_rows_def split: if_splits)

lemma keeps_closed_resolve: "preserves (keeps_closed R) (resolve_missing_findings n c seen t)"
  unfolding resolve_missing_findings_def Let_def
  by (rule preserves_supdate) (simp flip: touch_def, rule keeps_closed_touch, auto)

lemma keeps_closed_upsert_each: "preserves (keeps_closed R) (upsert_each t fs sm)"
  by (induction fs arbitrary: sm)
     (auto intro!: preserves_sbind preserves_sret keeps_closed_update keeps_closed_insert)

lemma keeps_closed_resolve_each: "preserves (keeps_closed R) (resolve_each rep cs sm)"
  by (induction cs arbitrary: sm)
     (auto intro!: preserves_sbind preserves_sret keeps_closed_resolve)

lemma keeps_closed_insert_report: "preserves (keeps_closed R) (insert_report rep)"
  unfolding insert_report_def Let_def
  by (intro preserves_sbind preserves_slift preserves_supdate) (simp add: keeps_closed_def closed_rows_def)

lemma keeps_closed_save_report: "preserves (keeps_closed R) (save_report rep)"
  unfolding save_report_def upsert_findings_def
  by (intro preserves_stransaction preserves_sbind keeps_closed_insert_report keeps_closed_upsert_each
      keeps_closed_resolve_each preserves_sret)

end
