(* ===== verification/Store_Queues.thy ===== *)
theory Store_Queues
  imports Store_Core
begin

text \<open>
  The other tables of \<open>internal/store\<close>: decisions, remediations, the email outbox, the peer
  message log, the checkpoint and the migrations. Decisions and emails are both queues of
  pending rows: the locale \<open>pending_queue\<close> states that contract once.
\<close>

section \<open>Decisions\<close>

record decision =
  de_id :: int
  de_entity_key :: string
  de_kind :: string
  de_status :: string
  de_snooze_until :: "time option"
  de_requested_at :: time
  de_executed_at :: "time option"
  de_error :: string

definition err_decision_not_found :: goerr where
  "err_decision_not_found = GoErr ''store: decision not found'' [ErrDecisionNotFound]"

definition err_bad_decision_status :: goerr where
  "err_bad_decision_status = GoErr ''store: bad decision status'' [ErrBadDecisionStatus]"

definition err_bad_decision_failure :: goerr where
  "err_bad_decision_failure =
     GoErr ''store: mark decision failed/blocked requires a non-nil cause'' [ErrBadDecisionFailure]"

definition new_decision_row :: "int \<Rightarrow> string \<Rightarrow> string \<Rightarrow> time \<Rightarrow> decision_row" where
  "new_decision_row i entity_key kind t = \<lparr>dr_id = i, dr_entity_key = entity_key, dr_kind = kind,
     dr_status = ''pending'', dr_snooze_until = None, dr_requested_at = format_time t,
     dr_executed_at = None, dr_error = ''''\<rparr>"

definition create_decision :: "string \<Rightarrow> string \<Rightarrow> time \<Rightarrow> int sm" where
  "create_decision entity_key kind t =
     supdate ''store: create decision'' (\<lambda>db.
       let i = next_id dr_id (db_decisions db)
       in (i, db\<lparr>db_decisions := db_decisions db @ [new_decision_row i entity_key kind t]\<rparr>))"

definition scan_decision_row :: "decision_row \<Rightarrow> decision" where
  "scan_decision_row r = \<lparr>de_id = dr_id r, de_entity_key = dr_entity_key r, de_kind = dr_kind r,
     de_status = dr_status r, de_snooze_until = map_option parse_time (dr_snooze_until r),
     de_requested_at = parse_time (dr_requested_at r),
     de_executed_at = map_option parse_time (dr_executed_at r), de_error = dr_error r\<rparr>"

definition pending_decisions :: "decision list sm" where
  "pending_decisions =
     squery ''store: pending decisions'' (\<lambda>db.
       map scan_decision_row (sort_key (\<lambda>r. (dr_requested_at r, dr_id r))
         (filter (\<lambda>r. dr_status r = ''pending'') (db_decisions db))))"

definition decision_by_id :: "int \<Rightarrow> decision option sm" where
  "decision_by_id i =
     squery (''store: decision '' @ show_int i) (\<lambda>db.
       map_option scan_decision_row (find (\<lambda>r. dr_id r = i) (db_decisions db)))"

definition valid_decision_statuses :: "string list" where
  "valid_decision_statuses = [''executed'', ''failed'', ''blocked'']"

definition resolve_decision :: "int \<Rightarrow> string \<Rightarrow> time \<Rightarrow> string \<Rightarrow> decision_row list \<Rightarrow> decision_row list" where
  "resolve_decision i status t msg rows =
     map (\<lambda>r. if dr_id r = i
       then r\<lparr>dr_status := status, dr_executed_at := Some (format_time t), dr_error := msg\<rparr> else r) rows"

definition mark_decision :: "int \<Rightarrow> string \<Rightarrow> time \<Rightarrow> goerr option \<Rightarrow> unit sm" where
  "mark_decision i status t cause =
     (if status \<notin> set valid_decision_statuses then
        sfail (wrap_error (''store: mark decision '' @ show_int i @ '' status '' @ go_quote status) err_bad_decision_status)
      else if status \<noteq> ''executed'' \<and> cause = None then
        sfail (wrap_error (''store: mark decision '' @ show_int i @ '' '' @ status) err_bad_decision_failure)
      else
        let msg = (case cause of None \<Rightarrow> '''' | Some e \<Rightarrow> err_msg e);
            what = ''store: mark decision '' @ show_int i @ '' '' @ status
        in sbind (supdate what (\<lambda>db.
             (int (length (filter (\<lambda>r. dr_id r = i) (db_decisions db))),
              db\<lparr>db_decisions := resolve_decision i status t msg (db_decisions db)\<rparr>)))
           (\<lambda>n. if n = 0 then sfail (wrap_error what err_decision_not_found) else sret ()))"

section \<open>Remediations\<close>

record remediation =
  rm_id :: int
  rm_finding_id :: "int option"
  rm_node :: node
  rm_action :: string
  rm_tier :: string
  rm_status :: string
  rm_detail :: string
  rm_dry_run :: bool
  rm_created_at :: time
  rm_finished_at :: "time option"

definition new_remediation_row :: "remediation \<Rightarrow> int \<Rightarrow> remediation_row" where
  "new_remediation_row r i = \<lparr>mr_id = i, mr_finding_id = rm_finding_id r, mr_node = rm_node r,
     mr_action = rm_action r, mr_tier = rm_tier r, mr_dry_run = rm_dry_run r, mr_status = rm_status r,
     mr_detail = rm_detail r, mr_created_at = format_time (rm_created_at r),
     mr_finished_at = map_option format_time (rm_finished_at r)\<rparr>"

definition record_remediation :: "remediation \<Rightarrow> int sm" where
  "record_remediation r =
     supdate ''store: record remediation'' (\<lambda>db.
       let i = next_id mr_id (db_remediations db)
       in (i, db\<lparr>db_remediations := db_remediations db @ [new_remediation_row r i]\<rparr>))"

definition scan_remediation :: "remediation_row \<Rightarrow> remediation" where
  "scan_remediation r = \<lparr>rm_id = mr_id r, rm_finding_id = mr_finding_id r, rm_node = mr_node r,
     rm_action = mr_action r, rm_tier = mr_tier r, rm_status = mr_status r, rm_detail = mr_detail r,
     rm_dry_run = mr_dry_run r, rm_created_at = parse_time (mr_created_at r),
     rm_finished_at = map_option parse_time (mr_finished_at r)\<rparr>"

definition recent_remediations :: "time \<Rightarrow> remediation list sm" where
  "recent_remediations since =
     squery ''store: recent remediations'' (\<lambda>db.
       map scan_remediation (sort_key (\<lambda>r. (- mr_created_at r, - mr_id r))
         (filter (\<lambda>r. format_time since \<le> mr_created_at r) (db_remediations db))))"

section \<open>Email outbox\<close>

record outbox_email =
  oe_id :: int
  oe_to :: string
  oe_subject :: string
  oe_body :: string
  oe_created_at :: time

definition err_email_not_found :: goerr where
  "err_email_not_found = GoErr ''store: email not found'' [ErrEmailNotFound]"

definition err_bad_email_failure :: goerr where
  "err_bad_email_failure = GoErr ''store: mark email failed requires a non-nil cause'' [ErrBadEmailFailure]"

definition new_email_row :: "int \<Rightarrow> string \<Rightarrow> string \<Rightarrow> string \<Rightarrow> time \<Rightarrow> email_row" where
  "new_email_row i recipient subject body t = \<lparr>er_id = i, er_to = recipient, er_subject = subject, er_body = body,
     er_status = ''pending'', er_created_at = format_time t, er_sent_at = None, er_error = ''''\<rparr>"

definition enqueue_email :: "string \<Rightarrow> string \<Rightarrow> string \<Rightarrow> time \<Rightarrow> int sm" where
  "enqueue_email recipient subject body t =
     supdate ''store: enqueue email'' (\<lambda>db.
       let i = next_id er_id (db_emails db)
       in (i, db\<lparr>db_emails := db_emails db @ [new_email_row i recipient subject body t]\<rparr>))"

definition resolve_email :: "int \<Rightarrow> string \<Rightarrow> time \<Rightarrow> string \<Rightarrow> email_row list \<Rightarrow> email_row list" where
  "resolve_email i status t msg rows =
     map (\<lambda>r. if er_id r = i
       then r\<lparr>er_status := status, er_sent_at := Some (format_time t), er_error := msg\<rparr> else r) rows"

definition update_email :: "string \<Rightarrow> int \<Rightarrow> string \<Rightarrow> time \<Rightarrow> string \<Rightarrow> unit sm" where
  "update_email what i status t msg =
     sbind (supdate what (\<lambda>db.
       (int (length (filter (\<lambda>r. er_id r = i) (db_emails db))),
        db\<lparr>db_emails := resolve_email i status t msg (db_emails db)\<rparr>)))
      (\<lambda>n. if n = 0 then sfail (wrap_error what err_email_not_found) else sret ())"

definition mark_email_sent :: "int \<Rightarrow> time \<Rightarrow> unit sm" where
  "mark_email_sent i t = update_email (''store: mark email '' @ show_int i @ '' sent'') i ''sent'' t ''''"

definition mark_email_failed :: "int \<Rightarrow> time \<Rightarrow> goerr option \<Rightarrow> unit sm" where
  "mark_email_failed i t cause =
     (let what = ''store: mark email '' @ show_int i @ '' failed''
      in case cause of
           None \<Rightarrow> sfail (wrap_error what err_bad_email_failure)
         | Some e \<Rightarrow> update_email what i ''failed'' t (err_msg e))"

definition scan_outbox_email :: "email_row \<Rightarrow> outbox_email" where
  "scan_outbox_email r = \<lparr>oe_id = er_id r, oe_to = er_to r, oe_subject = er_subject r, oe_body = er_body r,
     oe_created_at = parse_time (er_created_at r)\<rparr>"

definition pending_emails :: "outbox_email list sm" where
  "pending_emails =
     squery ''store: pending emails'' (\<lambda>db.
       map scan_outbox_email (sort_key (\<lambda>r. (er_created_at r, er_id r))
         (filter (\<lambda>r. er_status r = ''pending'') (db_emails db))))"

section \<open>Peer messages\<close>

definition err_bad_peer_message :: goerr where
  "err_bad_peer_message = GoErr ''store: bad peer message'' [ErrBadPeerMessage]"

definition valid_peer_directions :: "string list" where
  "valid_peer_directions = [''in'', ''out'']"

definition valid_peer_kinds :: "string list" where
  "valid_peer_kinds = [''report'', ''heartbeat'', ''decision'']"

definition save_peer_message :: "string \<Rightarrow> string \<Rightarrow> node \<Rightarrow> payload \<Rightarrow> time \<Rightarrow> int sm" where
  "save_peer_message direction kind peer payload t =
     (if direction \<notin> set valid_peer_directions then
        sfail (wrap_error (''store: peer message direction '' @ go_quote direction) err_bad_peer_message)
      else if kind \<notin> set valid_peer_kinds then
        sfail (wrap_error (''store: peer message kind '' @ go_quote kind) err_bad_peer_message)
      else supdate ''store: save peer message'' (\<lambda>db.
        let i = next_id pm_id (db_peer_messages db)
        in (i, db\<lparr>db_peer_messages := db_peer_messages db @
              [\<lparr>pm_id = i, pm_direction = direction, pm_kind = kind, pm_peer = peer, pm_payload = payload,
                pm_received_at = format_time t\<rparr>]\<rparr>)))"

definition last_peer_message_at :: "node \<Rightarrow> string \<Rightarrow> time option sm" where
  "last_peer_message_at peer kind =
     squery ''store: last peer message at'' (\<lambda>db.
       map_option (\<lambda>r. parse_time (pm_received_at r))
         (first_max (\<lambda>r. (pm_received_at r, pm_id r))
           (filter (\<lambda>r. pm_peer r = peer \<and> pm_kind r = kind \<and> pm_direction r = ''in'') (db_peer_messages db))))"

definition prune_peer_messages :: "time \<Rightarrow> int sm" where
  "prune_peer_messages older_than =
     supdate ''store: prune peer messages'' (\<lambda>db.
       let old = (\<lambda>r. pm_received_at r < format_time older_than)
       in (int (length (filter old (db_peer_messages db))),
           db\<lparr>db_peer_messages := filter (\<lambda>r. \<not> old r) (db_peer_messages db)\<rparr>))"

section \<open>Checkpoint and migrations\<close>

definition checkpoint_result :: "int \<Rightarrow> unit result" where
  "checkpoint_result busy =
     (if busy \<noteq> 0 then Inl (GoErr ''store: wal checkpoint busy: WAL not fully truncated'' [ErrCheckpointBusy])
      else Inr ())"

text \<open>\<open>busy\<close> is the first column that \<open>PRAGMA wal_checkpoint(TRUNCATE)\<close> answers.\<close>

definition checkpoint :: "int \<Rightarrow> unit sm" where
  "checkpoint busy =
     sbind (squery ''store: checkpoint'' (\<lambda>_. busy)) (\<lambda>b.
       slift (wrap_result ''store: checkpoint'' (checkpoint_result b)))"

definition atoi_error :: "string \<Rightarrow> goerr" where
  "atoi_error p = new_error (''strconv.Atoi: parsing '' @ go_quote p @ '': invalid syntax'')"

definition migration_version :: "string \<Rightarrow> int result" where
  "migration_version name =
     (case cut_at CHR ''_'' name of
        None \<Rightarrow> Inl (new_error (''store: migration '' @ go_quote name @ '' missing version prefix''))
      | Some (prefix, _) \<Rightarrow>
          (case parse_int64 prefix of
             None \<Rightarrow> Inl (wrap_error (''store: migration '' @ go_quote name @ '' has non-numeric version prefix'')
                      (atoi_error prefix))
           | Some v \<Rightarrow> Inr v))"

definition schema_version :: "int sm" where
  "schema_version =
     sexec ''store: schema version'' (\<lambda>db.
       case db_version db of
         None \<Rightarrow> Inl (new_error ''SQL logic error: no such table: schema_meta (1)'')
       | Some v \<Rightarrow> Inr (v, db))"

definition current_schema_version :: "int sm" where
  "current_schema_version =
     sbind (squery ''store: check schema_meta'' (\<lambda>db. db_version db \<noteq> None)) (\<lambda>present.
       if \<not> present then sret 0
       else squery ''store: read schema_meta'' (\<lambda>db. case db_version db of None \<Rightarrow> 0 | Some v \<Rightarrow> v))"

text \<open>
  The two embedded scripts: the first creates every table (and \<open>schema_meta\<close> with version 0), the
  second two indexes on them. A script of the same effect run twice fails: what it creates is there.
\<close>

definition init_script :: string where "init_script = ''0001_init.sql''"
definition index_script :: string where "index_script = ''0002_phase4_indexes.sql''"

definition embedded_migrations :: "string list" where
  "embedded_migrations = [init_script, index_script]"

definition run_script :: "string \<Rightarrow> db \<Rightarrow> (unit \<times> db) result" where
  "run_script name db =
     (if name = init_script then
        (if db_version db \<noteq> None then Inl (new_error ''SQL logic error: table schema_meta already exists (1)'')
         else Inr ((), db\<lparr>db_version := Some 0, db_migrations := db_migrations db @ [name]\<rparr>))
      else if db_version db = None then Inl (new_error ''SQL logic error: no such table: main.decisions (1)'')
      else if name \<in> set (db_migrations db)
        then Inl (new_error ''SQL logic error: index decisions_status already exists (1)'')
      else Inr ((), db\<lparr>db_migrations := db_migrations db @ [name]\<rparr>))"

definition apply_migration :: "string \<Rightarrow> int \<Rightarrow> unit sm" where
  "apply_migration name version =
     stransaction (''migration '' @ name)
       (sbind (sexec (''store: apply migration '' @ name) (run_script name)) (\<lambda>_.
        supdate (''store: record migration '' @ name @ '' version'') (\<lambda>db.
          ((), db\<lparr>db_version := map_option (\<lambda>_. version) (db_version db)\<rparr>))))"

fun migrate_each :: "int \<Rightarrow> string list \<Rightarrow> unit sm" where
  "migrate_each current [] = sret ()"
| "migrate_each current (name # names) =
     sbind (slift (migration_version name)) (\<lambda>version.
       if version \<le> current then migrate_each current names
       else sbind (apply_migration name version) (\<lambda>_. migrate_each current names))"

definition migrate :: "unit sm" where
  "migrate = sbind current_schema_version (\<lambda>current. migrate_each current (sort embedded_migrations))"

end
