(* ===== verification/Store_Laws.thy ===== *)
theory Store_Laws
  imports Store_Tracker Store_Queues
begin

text \<open>
  The laws of the store: the contract of a queue of pending rows (shared by the decisions and the
  outbox), the invariant of the whole database under every operation and every fault plan, the
  retention of the peer log, and the migrations.
\<close>

section \<open>Queues of pending rows\<close>

locale pending_queue =
  fixes q_ok :: "'q \<Rightarrow> bool"
    and pend :: "'q \<Rightarrow> int list"
    and enq :: "'m \<Rightarrow> 'q \<Rightarrow> int \<times> 'q"
    and fin :: "int \<Rightarrow> 'o \<Rightarrow> 'q \<Rightarrow> 'q"
    and terminal :: "'o \<Rightarrow> bool"
  assumes enq_ok: "q_ok q \<Longrightarrow> q_ok (snd (enq m q))"
    and fin_ok: "q_ok q \<Longrightarrow> terminal out \<Longrightarrow> q_ok (fin i out q)"
    and pend_distinct: "q_ok q \<Longrightarrow> distinct (pend q)"
    and enq_pend: "q_ok q \<Longrightarrow> set (pend (snd (enq m q))) = insert (fst (enq m q)) (set (pend q))"
    and enq_fresh: "q_ok q \<Longrightarrow> fst (enq m q) \<notin> set (pend q)"
    and fin_pend: "q_ok q \<Longrightarrow> terminal out \<Longrightarrow> pend (fin i out q) = filter (\<lambda>j. j \<noteq> i) (pend q)"
begin

definition drain :: "(int \<Rightarrow> 'o) \<Rightarrow> int list \<Rightarrow> 'q \<Rightarrow> 'q" where
  "drain out is q = foldl (\<lambda>q i. fin i (out i) q) q is"

lemma drain_pend:
  "q_ok q \<Longrightarrow> (\<And>i. terminal (out i)) \<Longrightarrow>
   q_ok (drain out is q) \<and> pend (drain out is q) = filter (\<lambda>j. j \<notin> set is) (pend q)"
proof (induction "is" arbitrary: q)
  case Nil
  then show ?case by (simp add: drain_def)
next
  case (Cons i js)
  then have "q_ok (fin i (out i) q)" by (simp add: fin_ok)
  from Cons.IH [OF this Cons.prems(2)] Cons.prems show ?case
    by (simp add: drain_def fin_pend conj_commute)
qed

lemma drain_all: "q_ok q \<Longrightarrow> (\<And>i. terminal (out i)) \<Longrightarrow> pend (drain out (pend q) q) = []"
  by (simp add: drain_pend filter_empty_conv)

lemma drain_keeps_later:
  assumes "q_ok q" "\<And>i. terminal (out i)"
  shows "pend (drain out (pend q) (snd (enq m q))) = [fst (enq m q)]"
proof -
  let ?p = "filter (\<lambda>j. j \<notin> set (pend q)) (pend (snd (enq m q)))"
  have e: "q_ok (snd (enq m q))" using assms(1) by (rule enq_ok)
  have "set ?p = {fst (enq m q)}" using enq_pend [OF assms(1), of m] enq_fresh [OF assms(1), of m] by auto
  moreover have "distinct ?p" using pend_distinct [OF e] by simp
  ultimately have "length ?p = 1" using distinct_card [of ?p] by simp
  then have "?p = [fst (enq m q)]" using \<open>set ?p = _\<close> by (cases ?p) auto
  with drain_pend [OF e assms(2)] show ?thesis by simp
qed

end

definition pending_decision_ids :: "decision_row list \<Rightarrow> int list" where
  "pending_decision_ids rows =
     map dr_id (sort_key (\<lambda>r. (dr_requested_at r, dr_id r)) (filter (\<lambda>r. dr_status r = ''pending'') rows))"

definition insert_decision :: "string \<times> string \<times> time \<Rightarrow> decision_row list \<Rightarrow> int \<times> decision_row list" where
  "insert_decision m rows =
     (case m of (entity_key, kind, t) \<Rightarrow>
        let i = next_id dr_id rows in (i, rows @ [new_decision_row i entity_key kind t]))"

definition pending_email_ids :: "email_row list \<Rightarrow> int list" where
  "pending_email_ids rows =
     map er_id (sort_key (\<lambda>r. (er_created_at r, er_id r)) (filter (\<lambda>r. er_status r = ''pending'') rows))"

definition insert_email :: "string \<times> string \<times> string \<times> time \<Rightarrow> email_row list \<Rightarrow> int \<times> email_row list" where
  "insert_email m rows =
     (case m of (recipient, subject, body, t) \<Rightarrow>
        let i = next_id er_id rows in (i, rows @ [new_email_row i recipient subject body t]))"

lemma sort_key_filter_map:
  assumes "\<And>x. f (g x) = f x" "\<And>x. P (g x) \<Longrightarrow> g x = x"
  shows "sort_key f (filter P (map g xs)) = filter (\<lambda>x. P (g x)) (sort_key f (filter (\<lambda>x. P (g x)) xs))"
proof -
  have "filter P (map g xs) = filter (\<lambda>x. P (g x)) xs"
    by (induction xs) (auto simp: assms(2))
  then show ?thesis by (simp add: filter_sort)
qed

text \<open>Resolving a row takes its id out of the pending ids and keeps the order of the others.\<close>

lemma pending_resolve_rows:
  assumes "\<And>r. i_of r = i \<Longrightarrow> \<not> P (g r)"
  shows "map i_of (sort_key key (filter P (map (\<lambda>r. if i_of r = i then g r else r) rows))) =
    filter (\<lambda>j. j \<noteq> i) (map i_of (sort_key key (filter P rows)))"
proof -
  have "filter P (map (\<lambda>r. if i_of r = i then g r else r) rows) = filter (\<lambda>r. i_of r \<noteq> i) (filter P rows)"
    by (induction rows) (auto simp: assms)
  then show ?thesis by (simp add: filter_sort [symmetric] filter_map comp_def)
qed

definition decisions_ok :: "decision_row list \<Rightarrow> bool" where
  "decisions_ok rows \<longleftrightarrow> distinct (map dr_id rows) \<and>
     list_all (\<lambda>r. dr_status r = ''pending'' \<and> dr_executed_at r = None \<or>
       dr_status r \<in> set valid_decision_statuses \<and> dr_executed_at r \<noteq> None) rows"

definition emails_ok :: "email_row list \<Rightarrow> bool" where
  "emails_ok rows \<longleftrightarrow> distinct (map er_id rows) \<and>
     list_all (\<lambda>r. er_status r = ''pending'' \<and> er_sent_at r = None \<or>
       er_status r \<in> {''sent'', ''failed''} \<and> er_sent_at r \<noteq> None) rows"

lemma resolve_decision_ids [simp]: "map dr_id (resolve_decision i st t msg rows) = map dr_id rows"
  by (simp add: resolve_decision_def)

lemma resolve_email_ids [simp]: "map er_id (resolve_email i st t msg rows) = map er_id rows"
  by (simp add: resolve_email_def)

lemma decisions_ok_resolve:
  "decisions_ok rows \<Longrightarrow> st \<in> set valid_decision_statuses \<Longrightarrow> decisions_ok (resolve_decision i st t msg rows)"
  by (auto simp: decisions_ok_def list_all_iff) (auto simp: resolve_decision_def)

lemma emails_ok_resolve:
  "emails_ok rows \<Longrightarrow> st \<in> {''sent'', ''failed''} \<Longrightarrow> emails_ok (resolve_email i st t msg rows)"
  by (auto simp: emails_ok_def list_all_iff) (auto simp: resolve_email_def)

type_synonym resolution = "string \<times> time \<times> string"

interpretation decision_queue: pending_queue decisions_ok pending_decision_ids insert_decision
  "\<lambda>i (st, t, msg). resolve_decision i st t msg" "\<lambda>(st, t, msg). st \<in> set valid_decision_statuses"
proof unfold_locales
  fix q :: "decision_row list" and m :: "string \<times> string \<times> time" and out :: resolution and i :: int
  obtain e k t where m: "m = (e, k, t)" by (cases m) auto
  obtain st t' msg where out: "out = (st, t', msg)" by (cases out) auto
  assume ok: "decisions_ok q"
  show "decisions_ok (snd (insert_decision m q))"
    using ok next_id_fresh [of dr_id q]
    by (auto simp: m insert_decision_def decisions_ok_def new_decision_row_def Let_def)
  show "distinct (pending_decision_ids q)"
    using ok distinct_map_filter [of dr_id q "\<lambda>r. dr_status r = ''pending''"]
    by (simp add: pending_decision_ids_def decisions_ok_def flip: distinct_map) (simp add: distinct_map)
  show "set (pending_decision_ids (snd (insert_decision m q))) =
      insert (fst (insert_decision m q)) (set (pending_decision_ids q))"
    by (auto simp: m insert_decision_def pending_decision_ids_def new_decision_row_def Let_def)
  show "fst (insert_decision m q) \<notin> set (pending_decision_ids q)"
    using next_id_fresh [of dr_id q] by (auto simp: m insert_decision_def pending_decision_ids_def Let_def)
  assume "(\<lambda>(st, t, msg). st \<in> set valid_decision_statuses) out"
  then have st: "st \<in> set valid_decision_statuses" by (simp add: out)
  then have np: "st \<noteq> ''pending''" by (auto simp: valid_decision_statuses_def)
  show "decisions_ok ((\<lambda>(st, t, msg). resolve_decision i st t msg) out q)"
    using ok st by (simp add: out decisions_ok_resolve)
  show "pending_decision_ids ((\<lambda>(st, t, msg). resolve_decision i st t msg) out q) =
      filter (\<lambda>j. j \<noteq> i) (pending_decision_ids q)"
    using np by (simp add: out resolve_decision_def pending_decision_ids_def pending_resolve_rows)
qed

interpretation email_queue: pending_queue emails_ok pending_email_ids insert_email
  "\<lambda>i (st, t, msg). resolve_email i st t msg" "\<lambda>(st, t, msg). st \<in> {''sent'', ''failed''}"
proof unfold_locales
  fix q :: "email_row list" and m :: "string \<times> string \<times> string \<times> time" and out :: resolution and i :: int
  obtain e k b t where m: "m = (e, k, b, t)" by (cases m) auto
  obtain st t' msg where out: "out = (st, t', msg)" by (cases out) auto
  assume ok: "emails_ok q"
  show "emails_ok (snd (insert_email m q))"
    using ok next_id_fresh [of er_id q]
    by (auto simp: m insert_email_def emails_ok_def new_email_row_def Let_def)
  show "distinct (pending_email_ids q)"
    using ok distinct_map_filter [of er_id q "\<lambda>r. er_status r = ''pending''"]
    by (simp add: pending_email_ids_def emails_ok_def flip: distinct_map) (simp add: distinct_map)
  show "set (pending_email_ids (snd (insert_email m q))) =
      insert (fst (insert_email m q)) (set (pending_email_ids q))"
    by (auto simp: m insert_email_def pending_email_ids_def new_email_row_def Let_def)
  show "fst (insert_email m q) \<notin> set (pending_email_ids q)"
    using next_id_fresh [of er_id q] by (auto simp: m insert_email_def pending_email_ids_def Let_def)
  assume "(\<lambda>(st, t, msg). st \<in> {''sent'', ''failed''}) out"
  then have st: "st \<in> {''sent'', ''failed''}" by (simp add: out)
  then have np: "st \<noteq> ''pending''" by auto
  show "emails_ok ((\<lambda>(st, t, msg). resolve_email i st t msg) out q)"
    using ok st by (simp add: out emails_ok_resolve)
  show "pending_email_ids ((\<lambda>(st, t, msg). resolve_email i st t msg) out q) =
      filter (\<lambda>j. j \<noteq> i) (pending_email_ids q)"
    using np by (simp add: out resolve_email_def pending_email_ids_def pending_resolve_rows)
qed


section \<open>The invariant of the database\<close>

definition peer_row_ok :: "peer_row \<Rightarrow> bool" where
  "peer_row_ok r \<longleftrightarrow> pm_direction r \<in> set valid_peer_directions \<and> pm_kind r \<in> set valid_peer_kinds"

definition db_ok :: "db \<Rightarrow> bool" where
  "db_ok db \<longleftrightarrow> findings_ok (db_findings db) \<and> decisions_ok (db_decisions db) \<and>
     emails_ok (db_emails db) \<and> list_all peer_row_ok (db_peer_messages db) \<and>
     distinct (map rr_id (db_reports db)) \<and> distinct (map mr_id (db_remediations db)) \<and>
     distinct (map pm_id (db_peer_messages db))"

text \<open>The operations that change the database, as data.\<close>

datatype store_op =
    SaveReport report | SnoozeEntity string time | CreateDecision string string time
  | MarkDecision int string time "goerr option" | RecordRemediation remediation
  | EnqueueEmail string string string time | MarkEmailSent int time | MarkEmailFailed int time "goerr option"
  | SavePeerMessage string string node payload time | PrunePeerMessages time | Migrate

fun run_op :: "store_op \<Rightarrow> store \<Rightarrow> store" where
  "run_op (SaveReport rep) s = snd (save_report rep s)"
| "run_op (SnoozeEntity e t) s = snd (snooze_entity e t s)"
| "run_op (CreateDecision e k t) s = snd (create_decision e k t s)"
| "run_op (MarkDecision i st t c) s = snd (mark_decision i st t c s)"
| "run_op (RecordRemediation r) s = snd (record_remediation r s)"
| "run_op (EnqueueEmail a b c t) s = snd (enqueue_email a b c t s)"
| "run_op (MarkEmailSent i t) s = snd (mark_email_sent i t s)"
| "run_op (MarkEmailFailed i t c) s = snd (mark_email_failed i t c s)"
| "run_op (SavePeerMessage d k n p t) s = snd (save_peer_message d k n p t s)"
| "run_op (PrunePeerMessages t) s = snd (prune_peer_messages t s)"
| "run_op Migrate s = snd (migrate s)"

text \<open>The parts of the database that saving a report and snoozing leave alone.\<close>

definition same_queues :: "db \<Rightarrow> db \<Rightarrow> bool" where
  "same_queues d db \<longleftrightarrow> db_decisions db = db_decisions d \<and> db_emails db = db_emails d \<and>
     db_peer_messages db = db_peer_messages d \<and> db_remediations db = db_remediations d"

definition report_ids_ok :: "db \<Rightarrow> bool" where
  "report_ids_ok db \<longleftrightarrow> distinct (map rr_id (db_reports db))"

lemma preserves_conj:
  "preserves I m \<Longrightarrow> preserves J m \<Longrightarrow> preserves (\<lambda>db. I db \<and> J db) m"
  unfolding preserves_def by blast

lemma frame_update_open [intro]:
  "preserves (\<lambda>db. same_queues d db \<and> report_ids_ok db) (update_open_finding f t)"
  unfolding update_open_finding_def Let_def
  by (intro preserves_sbind preserves_slift preserves_supdate) (simp add: same_queues_def report_ids_ok_def)

lemma frame_insert [intro]:
  "preserves (\<lambda>db. same_queues d db \<and> report_ids_ok db) (insert_finding f t)"
  unfolding insert_finding_def
  by (intro preserves_sbind preserves_slift preserves_sexec)
     (auto simp: same_queues_def report_ids_ok_def split: if_splits)

lemma frame_resolve [intro]:
  "preserves (\<lambda>db. same_queues d db \<and> report_ids_ok db) (resolve_missing_findings n c seen t)"
  unfolding resolve_missing_findings_def Let_def
  by (rule preserves_supdate) (simp add: same_queues_def report_ids_ok_def)

lemma frame_insert_report [intro]:
  "preserves (\<lambda>db. same_queues d db \<and> report_ids_ok db) (insert_report rep)"
  unfolding insert_report_def Let_def
  by (intro preserves_sbind preserves_slift preserves_supdate)
     (use next_id_fresh [of rr_id] in \<open>auto simp: same_queues_def report_ids_ok_def new_report_row_def\<close>)

lemma frame_upsert_each: "preserves (\<lambda>db. same_queues d db \<and> report_ids_ok db) (upsert_each t fs sm)"
  by (induction fs arbitrary: sm) (auto intro!: preserves_sbind preserves_sret)

lemma frame_resolve_each: "preserves (\<lambda>db. same_queues d db \<and> report_ids_ok db) (resolve_each rep cs sm)"
  by (induction cs arbitrary: sm) (auto intro!: preserves_sbind preserves_sret)

lemma frame_save_report: "preserves (\<lambda>db. same_queues d db \<and> report_ids_ok db) (save_report rep)"
  unfolding save_report_def upsert_findings_def
  by (intro preserves_stransaction preserves_sbind frame_insert_report frame_upsert_each
      frame_resolve_each preserves_sret)

lemma db_ok_split:
  "db_ok db \<longleftrightarrow> (\<exists>d. same_queues d db \<and> report_ids_ok db \<and> findings_ok (db_findings db) \<and>
     decisions_ok (db_decisions d) \<and> emails_ok (db_emails d) \<and> list_all peer_row_ok (db_peer_messages d) \<and>
     distinct (map mr_id (db_remediations d)) \<and> distinct (map pm_id (db_peer_messages d)))"
  by (auto simp: db_ok_def same_queues_def report_ids_ok_def)

lemma preserves_save_report_db: "preserves db_ok (save_report rep)"
proof (rule preservesI)
  fix s r s'
  assume ok: "db_ok (st_db s)" and m: "save_report rep s = (r, s')"
  have "findings_ok (db_findings (st_db s'))"
    using preservesD [OF preserves_save_report _ m] ok by (simp add: db_ok_def)
  moreover have "same_queues (st_db s) (st_db s') \<and> report_ids_ok (st_db s')"
    using preservesD [OF frame_save_report _ m, of "st_db s"] ok
    by (simp add: db_ok_def same_queues_def report_ids_ok_def)
  ultimately show "db_ok (st_db s')" using ok by (simp add: db_ok_def same_queues_def report_ids_ok_def)
qed

lemma preserves_snooze_db: "preserves db_ok (snooze_entity e t)"
proof (rule preservesI)
  fix s r s'
  assume ok: "db_ok (st_db s)" and m: "snooze_entity e t s = (r, s')"
  have "preserves (\<lambda>db. same_queues (st_db s) db \<and> report_ids_ok db) (snooze_entity e t)"
    unfolding snooze_entity_def by (rule preserves_supdate) (simp add: same_queues_def report_ids_ok_def)
  from preservesD [OF this _ m] preservesD [OF preserves_snooze _ m] ok show "db_ok (st_db s')"
    by (simp add: db_ok_def same_queues_def report_ids_ok_def)
qed

lemma preserves_create_decision: "preserves db_ok (create_decision e k t)"
  unfolding create_decision_def Let_def
  by (rule preserves_supdate)
     (use decision_queue.enq_ok [of _ "(e, k, t)"] in \<open>auto simp: db_ok_def insert_decision_def Let_def\<close>)

lemma preserves_mark_decision: "preserves db_ok (mark_decision i st t c)"
proof (cases "st \<in> set valid_decision_statuses")
  case True
  then have "preserves db_ok (supdate p (\<lambda>db. (n db, db\<lparr>db_decisions := resolve_decision i st t msg (db_decisions db)\<rparr>)))"
    for p msg and n :: "db \<Rightarrow> int"
    by (intro preserves_supdate) (auto simp: db_ok_def decisions_ok_resolve)
  then show ?thesis
    by (auto simp: mark_decision_def Let_def intro!: preserves_sbind)
next
  case False
  then show ?thesis by (auto simp: mark_decision_def)
qed

lemma preserves_record_remediation: "preserves db_ok (record_remediation r)"
  unfolding record_remediation_def Let_def
  by (rule preserves_supdate)
     (use next_id_fresh [of mr_id] in \<open>auto simp: db_ok_def new_remediation_row_def\<close>)

lemma preserves_enqueue_email: "preserves db_ok (enqueue_email a b c t)"
  unfolding enqueue_email_def Let_def
  by (rule preserves_supdate)
     (use email_queue.enq_ok [of _ "(a, b, c, t)"] in \<open>auto simp: db_ok_def insert_email_def Let_def\<close>)

lemma preserves_update_email: "st \<in> {''sent'', ''failed''} \<Longrightarrow> preserves db_ok (update_email what i st t msg)"
  unfolding update_email_def
  by (intro preserves_sbind preserves_supdate) (auto simp: db_ok_def emails_ok_resolve)

lemma preserves_mark_email:
  "preserves db_ok (mark_email_sent i t)" "preserves db_ok (mark_email_failed i t c)"
  by (cases c; auto simp: mark_email_sent_def mark_email_failed_def Let_def intro!: preserves_update_email)+

lemma preserves_save_peer_message: "preserves db_ok (save_peer_message d k n p t)"
  unfolding save_peer_message_def Let_def
  by (auto intro!: preserves_supdate)
     (use next_id_fresh [of pm_id] in \<open>auto simp: db_ok_def peer_row_ok_def\<close>)

lemma preserves_prune: "preserves db_ok (prune_peer_messages t)"
  unfolding prune_peer_messages_def Let_def
  by (rule preserves_supdate) (auto simp: db_ok_def distinct_map_filter list_all_iff)

lemma preserves_migrate_each: "preserves db_ok (migrate_each v names)"
proof (induction names)
  case Nil
  then show ?case by auto
next
  case (Cons name names)
  have "preserves db_ok (apply_migration name w)" for w
    unfolding apply_migration_def
    by (intro preserves_stransaction preserves_sbind preserves_sexec preserves_supdate)
       (auto simp: run_script_def db_ok_def split: if_splits)
  with Cons show ?case by (auto intro!: preserves_sbind)
qed

lemma preserves_migrate: "preserves db_ok migrate"
  unfolding migrate_def current_schema_version_def
  by (intro preserves_sbind preserves_migrate_each) auto

lemmas preserves_db_ok = preserves_save_report_db preserves_snooze_db preserves_create_decision
  preserves_mark_decision preserves_record_remediation preserves_enqueue_email preserves_mark_email
  preserves_save_peer_message preserves_prune preserves_migrate

lemma run_op_ok: "db_ok (st_db s) \<Longrightarrow> db_ok (st_db (run_op op s))"
  by (cases op) (use preserves_db_ok in \<open>auto simp: preserves_def\<close>)

lemma db_ok_empty [simp]: "db_ok empty_db"
  by (simp add: db_ok_def empty_db_def findings_ok_def decisions_ok_def emails_ok_def)

lemma run_ops_ok: "db_ok (st_db s) \<Longrightarrow> db_ok (st_db (foldl (\<lambda>s op. run_op op s) s ops))"
  by (induction ops arbitrary: s) (simp_all add: run_op_ok)


section \<open>Tracking one key\<close>

lemma track_one_other: "k \<noteq> fkey_of f \<Longrightarrow> track_one ts m f k = m k"
  by (simp add: track_one_def)

lemma foldl_track_absent: "k \<notin> fkey_of ` set fs \<Longrightarrow> foldl (track_one ts) m fs k = m k"
  by (induction fs arbitrary: m) (auto simp: track_one_other)

lemma track_one_last_seen: "\<exists>r. track_one ts m f (fkey_of f) = Some r \<and> fr_last_seen r = ts \<and>
    (fr_status r = ''snoozed'' \<longrightarrow> (\<exists>u. fr_snooze_until r = Some u \<and> ts < u))"
  by (auto simp: track_one_def new_row_def refresh_row_def still_snoozed_def split: option.splits)

lemma foldl_track_present:
  "k \<in> fkey_of ` set fs \<Longrightarrow>
   \<exists>r. foldl (track_one ts) m fs k = Some r \<and> fr_last_seen r = ts \<and>
     (fr_status r = ''snoozed'' \<longrightarrow> (\<exists>u. fr_snooze_until r = Some u \<and> ts < u))"
proof (induction fs arbitrary: m)
  case Nil
  then show ?case by simp
next
  case (Cons f fs)
  show ?case
  proof (cases "k \<in> fkey_of ` set fs")
    case True
    then show ?thesis using Cons.IH by simp
  next
    case False
    with Cons.prems have "k = fkey_of f" by simp
    with False track_one_last_seen [of ts m f] show ?thesis by (simp add: foldl_track_absent)
  qed
qed

lemma foldl_track_single:
  "filter (\<lambda>g. fkey_of g = k) fs = [f] \<Longrightarrow> foldl (track_one ts) m fs k = track_one ts m f k"
proof (induction fs arbitrary: m)
  case Nil
  then show ?case by simp
next
  case (Cons g fs)
  show ?case
  proof (cases "fkey_of g = k")
    case True
    with Cons.prems have "g = f" "filter (\<lambda>g. fkey_of g = k) fs = []" by simp_all
    moreover from \<open>filter (\<lambda>g. fkey_of g = k) fs = []\<close> have "k \<notin> fkey_of ` set fs"
      by (auto simp: filter_empty_conv)
    ultimately show ?thesis by (simp add: foldl_track_absent)
  next
    case False
    with Cons show ?thesis by (simp add: track_one_def)
  qed
qed

lemma drop_missing_reported: "k = fkey_of f \<Longrightarrow> f \<in> set (rp_findings rep) \<Longrightarrow> \<not> drop_missing rep c k"
  by (auto simp: drop_missing_def fkey_of_def seen_keys_def)

section \<open>Migrations\<close>

definition schema_ok :: "db \<Rightarrow> bool" where
  "schema_ok db \<longleftrightarrow> (db_version db, db_migrations db) \<in>
     {(None, []), (Some 1, [init_script]), (Some 2, [init_script, index_script])}"

lemma scripts_differ [simp]: "init_script \<noteq> index_script" "index_script \<noteq> init_script"
  by (simp_all add: init_script_def index_script_def)

lemma migration_versions [simp]: "migration_version init_script = Inr 1" "migration_version index_script = Inr 2"
  by code_simp+

lemma sorted_migrations [simp]: "sort embedded_migrations = [init_script, index_script]"
  by code_simp

lemma apply_migration_Inr:
  assumes "apply_migration name v s = (Inr u, s')"
  shows "\<exists>db. run_script name (st_db s) = Inr ((), db) \<and>
    st_db s' = db\<lparr>db_version := map_option (\<lambda>_. v) (db_version db)\<rparr>"
proof -
  let ?upd = "supdate (''store: record migration '' @ name @ '' version'') (\<lambda>db.
    ((), db\<lparr>db_version := map_option (\<lambda>_. v) (db_version db)\<rparr>))"
  obtain s1 s2 where t: "st_db s1 = st_db s" "st_db s' = st_db s2"
    "sbind (sexec (''store: apply migration '' @ name) (run_script name)) (\<lambda>_. ?upd) s1 = (Inr u, s2)"
    using stransaction_Inr [OF assms [unfolded apply_migration_def]] by blast
  then obtain w s3 where "sexec (''store: apply migration '' @ name) (run_script name) s1 = (Inr w, s3)"
    "?upd s3 = (Inr u, s2)"
    unfolding sbind_Inr by blast
  from sexec_Inr [OF this(1)] supdate_Inr [OF this(2)] show ?thesis using t(1,2) by auto
qed

lemma run_script_schema:
  assumes "schema_ok db0" "run_script name db0 = Inr ((), db)" "name = init_script \<and> v = 1 \<or> name = index_script \<and> v = 2"
  shows "schema_ok (db\<lparr>db_version := map_option (\<lambda>_. v) (db_version db)\<rparr>)"
  using assms unfolding schema_ok_def run_script_def by (auto split: if_splits)

lemma apply_migration_schema:
  assumes "name = init_script \<and> v = 1 \<or> name = index_script \<and> v = 2"
  shows "preserves schema_ok (apply_migration name v)"
proof (rule preservesI)
  fix s r s'
  assume ok: "schema_ok (st_db s)" and m: "apply_migration name v s = (r, s')"
  show "schema_ok (st_db s')"
  proof (cases r)
    case (Inl e)
    with m have "st_db s' = st_db s" by (simp add: apply_migration_def) (rule stransaction_Inl)
    with ok show ?thesis by simp
  next
    case (Inr u)
    with apply_migration_Inr m obtain db where "run_script name (st_db s) = Inr ((), db)"
      "st_db s' = db\<lparr>db_version := map_option (\<lambda>_. v) (db_version db)\<rparr>" by blast
    with run_script_schema [OF ok _ assms] show ?thesis by simp
  qed
qed

lemma sbind_slift_Inr: "sbind (slift (Inr x)) f = f x"
  by (rule ext) (simp add: sbind_def slift_def)

lemma preserves_schema_migrate: "preserves schema_ok migrate"
proof -
  have a: "preserves schema_ok (apply_migration init_script 1)" "preserves schema_ok (apply_migration index_script 2)"
    by (simp_all add: apply_migration_schema)
  have "preserves schema_ok (migrate_each v [init_script, index_script])" for v
    using a by (auto simp: sbind_slift_Inr)
  moreover have "preserves schema_ok current_schema_version"
    unfolding current_schema_version_def by (rule preserves_sbind) auto
  ultimately show ?thesis unfolding migrate_def sorted_migrations by (intro preserves_sbind)
qed

lemma apply_migration_no_fault:
  assumes "run_script name db = Inr ((), db1)"
  shows "apply_migration name v \<lparr>st_db = db, st_faults = []\<rparr> =
    (Inr (), \<lparr>st_db = db1\<lparr>db_version := map_option (\<lambda>_. v) (db_version db1)\<rparr>, st_faults = []\<rparr>)"
  by (simp add: apply_migration_def stransaction_def sbind_def sexec_no_fault supdate_no_fault assms)

lemma current_version_no_fault:
  "current_schema_version \<lparr>st_db = db, st_faults = []\<rparr> =
     (Inr (case db_version db of None \<Rightarrow> 0 | Some v \<Rightarrow> v), \<lparr>st_db = db, st_faults = []\<rparr>)"
  by (simp add: current_schema_version_def sbind_def squery_no_fault sret_def split: option.split)

lemma migrate_completes:
  assumes "schema_ok db"
  shows "migrate \<lparr>st_db = db, st_faults = []\<rparr> =
    (Inr (), \<lparr>st_db = db\<lparr>db_version := Some 2, db_migrations := [init_script, index_script]\<rparr>, st_faults = []\<rparr>)"
proof -
  have unf: "migrate \<lparr>st_db = db, st_faults = []\<rparr> =
      migrate_each (case db_version db of None \<Rightarrow> 0 | Some v \<Rightarrow> v) [init_script, index_script] \<lparr>st_db = db, st_faults = []\<rparr>"
    by (simp only: migrate_def sorted_migrations sbind_def current_version_no_fault prod.case sum.case)
  consider "db_version db = None" "db_migrations db = []" | "db_version db = Some 1" "db_migrations db = [init_script]"
    | "db_version db = Some 2" "db_migrations db = [init_script, index_script]"
    using assms by (auto simp: schema_ok_def)
  then show ?thesis
  proof cases
    case 1
    then have "run_script init_script db = Inr ((), db\<lparr>db_version := Some 0, db_migrations := [init_script]\<rparr>)"
      by (simp add: run_script_def)
    moreover have "run_script index_script (db\<lparr>db_migrations := [init_script], db_version := Some 1\<rparr>) =
        Inr ((), db\<lparr>db_version := Some 1, db_migrations := [init_script, index_script]\<rparr>)"
      by (simp add: run_script_def)
    ultimately show ?thesis using 1
      by (simp add: unf sbind_slift_Inr sbind_def apply_migration_no_fault sret_def)
  next
    case 2
    then have "run_script index_script db = Inr ((), db\<lparr>db_migrations := [init_script, index_script]\<rparr>)"
      by (simp add: run_script_def)
    then show ?thesis using 2
      by (simp add: unf sbind_slift_Inr sbind_def apply_migration_no_fault sret_def)
  next
    case 3
    then have "db\<lparr>db_version := Some 2, db_migrations := [init_script, index_script]\<rparr> = db" by simp
    with 3 show ?thesis by (simp add: unf sbind_slift_Inr sret_def)
  qed
qed

section \<open>Properties\<close>

text \<open>C1: \<open>SaveReport\<close> implements the tracker and is atomic. When it succeeds, the active finding of
  every (node, check, entity) is what the dedup and resolve rules make of the previous one, and each
  finding of the report was counted once as new or updated; when any statement, the commit or the
  encoding fails, the database is unchanged.\<close>

theorem save_report_refines_tracker:
  "case save_report rep s of
     (Inr (i, sm), s') \<Rightarrow> tracked (st_db s') = track_report rep (tracked (st_db s)) \<and>
       us_new sm + us_updated sm = int (length (rp_findings rep))
   | (Inl e, s') \<Rightarrow> st_db s' = st_db s"
proof (cases "save_report rep s")
  case (Pair r s')
  then show ?thesis
    using save_report_tracked [of rep s _ _ s'] stransaction_Inl [of "''save report''" _ s _ s']
    by (auto simp: save_report_def split: sum.split)
qed

text \<open>C40: Without a database fault a report is saved exactly when every metric and every data value
  has a JSON form: in particular the unique index over active findings never rejects a finding of
  the report, whatever duplicates it holds.\<close>

theorem save_report_succeeds_iff_encodable:
  "(\<exists>i sm s'. save_report rep \<lparr>st_db = db, st_faults = []\<rparr> = (Inr (i, sm), s')) \<longleftrightarrow>
   list_all (\<lambda>(k, v). f_is_finite v) (rp_metrics rep) \<and> list_all encodable (rp_findings rep)"
  using save_report_encodable [of rep "\<lparr>st_db = db, st_faults = []\<rparr>"]
    save_report_total [of "\<lparr>st_db = db, st_faults = []\<rparr>" rep] by fastforce

text \<open>C36: Whatever sequence of store operations runs, and whichever of their statements fail, the
  database keeps its invariant: at most one open or snoozed finding per node, check and entity,
  unique ids in every table, and statuses that agree with their timestamps.\<close>

theorem store_invariant:
  "db_ok (st_db (foldl (\<lambda>s op. run_op op s) \<lparr>st_db = empty_db, st_faults = faults\<rparr> ops))"
  by (rule run_ops_ok) simp

text \<open>C4: The life of a finding. After a saved report, a reported key is active, seen at the report's
  time, and snoozed only if its snooze has not expired; a key of a check that ran and did not report
  it is closed; and a key that the report does not mention, of another node or of a check that did
  not run (skipped, failed, hung), is exactly as it was.\<close>

theorem finding_lifecycle:
  assumes "save_report rep s = (Inr (i, sm), s')"
  shows "(k \<in> fkey_of ` set (rp_findings rep) \<longrightarrow>
      (\<exists>r. tracked (st_db s') k = Some r \<and> fr_last_seen r = format_time (rp_generated_at rep) \<and>
        (fr_status r = ''snoozed'' \<longrightarrow> (\<exists>u. fr_snooze_until r = Some u \<and> format_time (rp_generated_at rep) < u)))) \<and>
    (k = (rp_node rep, c, e) \<and> c \<in> set (rp_ran rep) \<and> e \<notin> set (seen_keys (rp_findings rep) c) \<longrightarrow>
      tracked (st_db s') k = None) \<and>
    (k = (n, c, e) \<and> k \<notin> fkey_of ` set (rp_findings rep) \<and> (n \<noteq> rp_node rep \<or> c \<notin> set (rp_ran rep)) \<longrightarrow>
      tracked (st_db s') k = tracked (st_db s) k)"
proof -
  have t: "tracked (st_db s') = track_report rep (tracked (st_db s))"
    using save_report_tracked [OF assms] by blast
  have 1: "\<not> (\<exists>c \<in> set (rp_ran rep). drop_missing rep c k)" if "k \<in> fkey_of ` set (rp_findings rep)"
    using that drop_missing_reported by blast
  have 3: "\<not> (\<exists>c \<in> set (rp_ran rep). drop_missing rep c (n, c', e))" if "n \<noteq> rp_node rep \<or> c' \<notin> set (rp_ran rep)" for c'
    using that by (auto simp: drop_missing_def)
  show ?thesis
    using foldl_track_present [of k "rp_findings rep"] 1 3 [of c]
    by (auto simp: t track_report_def foldl_track_absent drop_missing_def)
qed

text \<open>A snooze lasts exactly until it expires. When an active finding is reported again, its
  sighting count goes up by one and its first sighting is kept; it stays snoozed with the same
  deadline if the report is older than the deadline, and is open with no deadline otherwise.\<close>

theorem snooze_holds_until_expiry:
  assumes "save_report rep s = (Inr (i, sm), s')"
    and "filter (\<lambda>g. fkey_of g = k) (rp_findings rep) = [f]"
    and "tracked (st_db s) k = Some r"
  shows "\<exists>r'. tracked (st_db s') k = Some r' \<and> fr_seen_count r' = fr_seen_count r + 1 \<and>
    fr_first_seen r' = fr_first_seen r \<and> fr_severity r' = fi_severity f \<and>
    (if still_snoozed (format_time (rp_generated_at rep)) r
     then fr_status r' = ''snoozed'' \<and> fr_snooze_until r' = fr_snooze_until r
     else fr_status r' = ''open'' \<and> fr_snooze_until r' = None)"
proof -
  have f: "f \<in> set (rp_findings rep)" "fkey_of f = k"
    using arg_cong [OF assms(2), of set] by auto
  have "tracked (st_db s') k = track_one (format_time (rp_generated_at rep)) (tracked (st_db s)) f k"
    using save_report_tracked [OF assms(1)] drop_missing_reported [of k f rep] f
      foldl_track_single [OF assms(2)] by (auto simp: track_report_def)
  with assms(3) f(2) show ?thesis
    by (auto simp: track_one_def refresh_row_def)
qed

text \<open>History is append-only: no saved report, under any faults, alters or removes a finding row
  that had been resolved.\<close>

theorem resolved_rows_are_final:
  "closed_rows (st_db s) \<subseteq> closed_rows (st_db (snd (save_report rep s)))"
  using keeps_closed_save_report [of "closed_rows (st_db s)" rep]
  by (simp add: preserves_def keeps_closed_def)

text \<open>A migration run that is interrupted at any statement leaves a schema that is some prefix of
  the migrations, fully applied and with the version of that prefix; opening the store again
  completes it, and a complete schema is left alone.\<close>

theorem migrations_resume:
  "schema_ok (st_db (snd (migrate \<lparr>st_db = empty_db, st_faults = faults\<rparr>))) \<and>
   (let db = st_db (snd (migrate \<lparr>st_db = empty_db, st_faults = faults\<rparr>))
    in migrate \<lparr>st_db = db, st_faults = []\<rparr> =
       (Inr (), \<lparr>st_db = db\<lparr>db_version := Some 2, db_migrations := [init_script, index_script]\<rparr>, st_faults = []\<rparr>))"
proof -
  have "schema_ok (st_db \<lparr>st_db = empty_db, st_faults = faults\<rparr>)"
    by (simp add: schema_ok_def empty_db_def)
  then have "schema_ok (st_db (snd (migrate \<lparr>st_db = empty_db, st_faults = faults\<rparr>)))"
    using preserves_schema_migrate unfolding preserves_def by blast
  then show ?thesis by (simp add: Let_def migrate_completes)
qed


section \<open>Witnesses\<close>

definition sample_finding :: finding where
  "sample_finding = \<lparr>fi_check_id = ''c'', fi_node = NodePi, fi_entity_key = ''e'', fi_severity = SeverityWarn,
     fi_tier = TierNudge, fi_summary = ''s'', fi_detail = '''', fi_data = [], fi_first_seen = 0, fi_last_seen = 0\<rparr>"

definition sample_report :: "time \<Rightarrow> report" where
  "sample_report t = \<lparr>rp_node = NodePi, rp_generated_at = t, rp_findings = [sample_finding], rp_ran = [''c''],
     rp_skipped = [], rp_errors = [], rp_metrics = [], rp_checks_run = 1, rp_checks_failed = 0\<rparr>"

definition snoozed_row :: finding_row where
  "snoozed_row = \<lparr>fr_id = 7, fr_check_id = ''c'', fr_node = NodePi, fr_entity_key = ''e'', fr_severity = SeverityWarn,
     fr_tier = TierNudge, fr_summary = ''s'', fr_detail = '''', fr_data = [], fr_status = ''snoozed'',
     fr_first_seen = 100, fr_last_seen = 100, fr_resolved_at = None, fr_snooze_until = Some 300, fr_seen_count = 1\<rparr>"

definition snoozed_store :: store where
  "snoozed_store = \<lparr>st_db = empty_db\<lparr>db_findings := [snoozed_row]\<rparr>, st_faults = []\<rparr>"

lemma sample_saved:
  "st_faults s = [] \<Longrightarrow> \<exists>i sm s'. save_report (sample_report t) s = (Inr (i, sm), s')"
  using save_report_total [of s "sample_report t"]
  by (auto simp: sample_report_def encodable_def sample_finding_def)

lemma snoozed_store_faults: "st_faults snoozed_store = []"
  by (simp add: snoozed_store_def)

theorem finding_lifecycle_witness:
  "\<exists>r s'. tracked (st_db s') (NodePi, ''c'', ''e'') = Some r \<and> fr_last_seen r = 200 \<and>
     s' = snd (save_report (sample_report (200 * second)) snoozed_store)"
proof -
  obtain i sm s' where s': "save_report (sample_report (200 * second)) snoozed_store = (Inr (i, sm), s')"
    using sample_saved [of snoozed_store "200 * second"] snoozed_store_faults by blast
  have rep: "(NodePi, ''c'', ''e'') \<in> fkey_of ` set (rp_findings (sample_report (200 * second)))"
    "format_time (rp_generated_at (sample_report (200 * second))) = 200"
    by (simp_all add: sample_report_def sample_finding_def fkey_of_def format_time_def)
  have "\<exists>r. tracked (st_db s') (NodePi, ''c'', ''e'') = Some r \<and> fr_last_seen r = 200"
    using finding_lifecycle [OF s', THEN conjunct1] rep by metis
  moreover have "s' = snd (save_report (sample_report (200 * second)) snoozed_store)" by (simp only: s' snd_conv)
  ultimately show ?thesis by blast
qed

theorem snooze_holds_until_expiry_witness:
  "\<exists>r s'. tracked (st_db s') (NodePi, ''c'', ''e'') = Some r \<and> fr_status r = ''snoozed'' \<and>
     s' = snd (save_report (sample_report (200 * second)) snoozed_store)"
proof -
  obtain i sm s' where s': "save_report (sample_report (200 * second)) snoozed_store = (Inr (i, sm), s')"
    using sample_saved [of snoozed_store "200 * second"] snoozed_store_faults by blast
  have f: "filter (\<lambda>g. fkey_of g = (NodePi, ''c'', ''e'')) (rp_findings (sample_report (200 * second))) = [sample_finding]"
    by (simp add: sample_report_def fkey_of_def sample_finding_def)
  have r: "tracked (st_db snoozed_store) (NodePi, ''c'', ''e'') = Some (snoozed_row\<lparr>fr_id := 0\<rparr>)"
    by (simp add: tracked_def active_row_def snoozed_store_def snoozed_row_def active_def row_key_def)
  have "still_snoozed (format_time (rp_generated_at (sample_report (200 * second)))) (snoozed_row\<lparr>fr_id := 0\<rparr>)"
    by (simp add: still_snoozed_def snoozed_row_def sample_report_def format_time_def)
  with snooze_holds_until_expiry [OF s' f r]
  have "\<exists>r. tracked (st_db s') (NodePi, ''c'', ''e'') = Some r \<and> fr_status r = ''snoozed''" by metis
  moreover have "s' = snd (save_report (sample_report (200 * second)) snoozed_store)" by (simp only: s' snd_conv)
  ultimately show ?thesis by blast
qed

end
