(* ===== verification/Staleness.thy ===== *)
theory Staleness
  imports Check_Engine
begin

text \<open>
  \<open>internal/staleness\<close>: the deterministic score of a title (\<open>score.go\<close>), the collection of the
  titles from Sonarr, Radarr, Tautulli and Overseerr (\<open>collect.go\<close>) and the check that reports
  the candidates (\<open>check.go\<close>). Scores are binary64 floats throughout.
\<close>

section \<open>Scoring\<close>

record item =
  it_entity_key :: string
  it_title :: string
  it_kind :: string
  it_last_watched :: time
  it_watched_fully :: bool
  it_watched_partially :: bool
  it_ended :: bool
  it_monitored :: bool
  it_size_bytes :: int
  it_requested_by :: string
  it_added :: time

record score =
  scr_total :: f64
  scr_components :: "f64 strmap"

abbreviation BandCandidate :: string where "BandCandidate \<equiv> ''candidate''"
abbreviation BandWatchlist :: string where "BandWatchlist \<equiv> ''watchlist''"
abbreviation BandSuppressed :: string where "BandSuppressed \<equiv> ''suppressed''"

definition days_between :: "time \<Rightarrow> time \<Rightarrow> f64" where
  "days_between now t = f_div (dur_hours (t_sub now t)) (f_of_int 24)"

definition never_watched_days_score :: "item \<Rightarrow> staleness_cfg \<Rightarrow> time \<Rightarrow> f64" where
  "never_watched_days_score it w now =
     (if sc_never_watched_after_days w \<le> 0 \<or> t_is_zero (it_added it) then Fin 0
      else if f_lt (f_of_int (sc_never_watched_after_days w)) (days_between now (it_added it))
        then sc_days_max_points w
      else Fin 0)"

definition days_score :: "item \<Rightarrow> staleness_cfg \<Rightarrow> time \<Rightarrow> f64" where
  "days_score it w now =
     (if t_is_zero (it_last_watched it) then never_watched_days_score it w now
      else
        let horizon = (if sc_days_horizon w \<le> 0 then 1 else sc_days_horizon w);
            days_since = days_between now (it_last_watched it);
            days_since = (if f_lt days_since (Fin 0) then Fin 0 else days_since);
            frac = f_div days_since (f_of_int horizon);
            frac = (if f_lt (Fin 1) frac then Fin 1 else frac)
        in f_mul frac (sc_days_max_points w))"

definition completion_score :: "item \<Rightarrow> staleness_cfg \<Rightarrow> f64" where
  "completion_score it w =
     (if it_watched_fully it then sc_watched_full_points w
      else if it_watched_partially it then sc_watched_partial_points w
      else Fin 0)"

definition arr_score :: "item \<Rightarrow> staleness_cfg \<Rightarrow> f64" where
  "arr_score it w =
     (if it_ended it then sc_ended_points w
      else if it_monitored it then sc_continuing_points w
      else Fin 0)"

definition size_score :: "item \<Rightarrow> staleness_cfg \<Rightarrow> f64" where
  "size_score it w =
     (let gb = f_div (f_of_int (it_size_bytes it)) (f_of_int 1000000000)
      in f_clamp (f_mul gb (sc_size_points_per_gb w)) (Fin 0) (sc_size_max_points w))"

definition requester_score :: "item \<Rightarrow> staleness_cfg \<Rightarrow> f64" where
  "requester_score it w =
     (if it_requested_by it = '''' then Fin 0
      else if it_requested_by it = sc_owner w then sc_owner_requester_points w
      else if it_watched_fully it \<or> it_watched_partially it then Fin 0
      else sc_other_requester_points w)"

definition age_score :: "item \<Rightarrow> staleness_cfg \<Rightarrow> time \<Rightarrow> f64" where
  "age_score it w now =
     (if t_is_zero (it_added it) then Fin 0
      else
        let days = days_between now (it_added it);
            days = (if f_lt days (Fin 0) then Fin 0 else days)
        in f_clamp (f_mul days (sc_age_points_per_day w)) (Fin 0) (sc_age_max_points w))"

definition score_item :: "item \<Rightarrow> staleness_cfg \<Rightarrow> time \<Rightarrow> score" where
  "score_item it w now =
     (let days = days_score it w now; completion = completion_score it w; arr = arr_score it w;
          size = size_score it w; requester = requester_score it w; age = age_score it w now;
          tot = f_add (f_add (f_add (f_add (f_add days completion) arr) size) requester) age
      in \<lparr>scr_total = f_clamp tot (Fin 0) (Fin 100),
          scr_components = [(''days'', days), (''completion'', completion), (''arr'', arr),
            (''size'', size), (''requester'', requester), (''age'', age)]\<rparr>)"

definition band :: "f64 \<Rightarrow> staleness_cfg \<Rightarrow> string" where
  "band tot w =
     (if f_le (sc_candidate_threshold w) tot then BandCandidate
      else if f_le (sc_watchlist_threshold w) tot then BandWatchlist
      else BandSuppressed)"

section \<open>Collecting\<close>

text \<open>
  \<open>-2 * time.Duration(horizon) * 24 * time.Hour\<close> is computed in 64 bits and wraps.
\<close>

definition history_window :: "deps \<Rightarrow> time" where
  "history_window d =
     (let h = sc_days_horizon (cfg_staleness (d_cfg d)); horizon = (if h \<le> 0 then 1 else h)
      in t_add (d_now d) (wrap_int64 (- 2 * horizon * 24 * hour)))"

definition overseerr_all_requests :: "deps \<Rightarrow> overseerr_request list result" where
  "overseerr_all_requests d =
     (case d_overseerr d of None \<Rightarrow> Inr [] | Some c \<Rightarrow> overseerr_requests c ''all'')"

definition add_if_absent :: "int \<Rightarrow> string \<Rightarrow> (int \<times> string) list \<Rightarrow> (int \<times> string) list" where
  "add_if_absent i v m = (if i = 0 then m else case map_of m i of None \<Rightarrow> map_set i v m | Some _ \<Rightarrow> m)"

definition requester_lookups :: "overseerr_request list \<Rightarrow> (int \<times> string) list \<times> (int \<times> string) list" where
  "requester_lookups reqs =
     foldl (\<lambda>(tvdb, tmdb) r.
       (add_if_absent (or_tvdb_id r) (or_requested_by r) tvdb,
        add_if_absent (or_tmdb_id r) (or_requested_by r) tmdb)) ([], []) reqs"

definition lookup_requester :: "(int \<times> string) list \<Rightarrow> int \<Rightarrow> string" where
  "lookup_requester m i = (case map_of m i of None \<Rightarrow> '''' | Some v \<Rightarrow> v)"

definition match_rows :: "history_row list \<Rightarrow> string \<Rightarrow> string \<Rightarrow> bool \<Rightarrow> history_row list" where
  "match_rows rows media_type title episode =
     filter (\<lambda>r. hr_media_type r = media_type \<and>
       equal_fold (if episode then hr_grandparent_title r else hr_title r) title) rows"

definition watch_full_threshold :: int where "watch_full_threshold = 85"

definition watch_step :: "time \<times> bool \<Rightarrow> history_row \<Rightarrow> time \<times> bool" where
  "watch_step st r =
     (let (last, fully) = st
      in (if last < hr_date r then hr_date r else last,
          fully \<or> f_le (Fin 1) (hr_watched_status r) \<or> watch_full_threshold \<le> hr_percent_complete r))"

definition watch_summary :: "history_row list \<Rightarrow> time \<times> bool \<times> bool" where
  "watch_summary rows =
     (let (last, fully) = foldl watch_step (0, False) rows
      in (last, fully, rows \<noteq> [] \<and> \<not> fully))"

definition series_item :: "series \<Rightarrow> history_row list \<Rightarrow> (int \<times> string) list \<Rightarrow> item" where
  "series_item s rows tvdb =
     (let (last, fully, partially) = watch_summary (match_rows rows ''episode'' (se_title s) True)
      in \<lparr>it_entity_key = ''sonarr:'' @ show_int (se_id s), it_title = se_title s, it_kind = ''series'',
          it_last_watched = last, it_watched_fully = fully, it_watched_partially = partially,
          it_ended = equal_fold (se_status s) ''ended'', it_monitored = se_monitored s,
          it_size_bytes = se_size_on_disk s, it_requested_by = lookup_requester tvdb (se_tvdb_id s),
          it_added = se_added s\<rparr>)"

definition movie_item :: "movie \<Rightarrow> history_row list \<Rightarrow> (int \<times> string) list \<Rightarrow> item" where
  "movie_item m rows tmdb =
     (let (last, fully, partially) = watch_summary (match_rows rows ''movie'' (mo_title m) False)
      in \<lparr>it_entity_key = ''radarr:'' @ show_int (mo_id m), it_title = mo_title m, it_kind = ''movie'',
          it_last_watched = last, it_watched_fully = fully, it_watched_partially = partially,
          it_ended = (\<not> mo_monitored m), it_monitored = mo_monitored m,
          it_size_bytes = mo_size_on_disk m, it_requested_by = lookup_requester tmdb (mo_tmdb_id m),
          it_added = mo_added m\<rparr>)"

definition series_items :: "deps \<Rightarrow> history_row list \<Rightarrow> (int \<times> string) list \<Rightarrow> item list result" where
  "series_items d rows tvdb =
     (case d_sonarr d of
        None \<Rightarrow> Inr []
      | Some c \<Rightarrow> rbind (wrap_result ''staleness: sonarr series'' (sonarr_series c))
          (\<lambda>ss. Inr (map (\<lambda>s. series_item s rows tvdb) ss)))"

definition movie_items :: "deps \<Rightarrow> history_row list \<Rightarrow> (int \<times> string) list \<Rightarrow> item list result" where
  "movie_items d rows tmdb =
     (case d_radarr d of
        None \<Rightarrow> Inr []
      | Some c \<Rightarrow> rbind (wrap_result ''staleness: radarr movies'' (radarr_movies c))
          (\<lambda>ms. Inr (map (\<lambda>m. movie_item m rows tmdb) ms)))"

definition collect_items :: "deps \<Rightarrow> item list result" where
  "collect_items d =
     (if d_sonarr d = None \<and> d_radarr d = None then Inl not_configured
      else case d_tautulli d of
        None \<Rightarrow> Inl not_configured
      | Some t \<Rightarrow>
          rbind (wrap_result ''staleness: tautulli history'' (tautulli_history t (history_window d) 5000)) (\<lambda>rows.
          rbind (wrap_result ''staleness: overseerr requests'' (overseerr_all_requests d)) (\<lambda>reqs.
          let (tvdb, tmdb) = requester_lookups reqs
          in rbind (series_items d rows tvdb) (\<lambda>xs.
             rbind (movie_items d rows tmdb) (\<lambda>ys. Inr (xs @ ys))))))"

section \<open>The check\<close>

definition component_order :: "string list" where
  "component_order = [''days'', ''completion'', ''arr'', ''size'', ''requester'', ''age'']"

text \<open>
  \<open>sort.SliceStable\<close> on at most 20 elements is one insertion sort: each element moves left past
  the elements that are less than it. The list is kept reversed.
\<close>

fun move_left :: "(string \<times> f64) \<Rightarrow> (string \<times> f64) list \<Rightarrow> (string \<times> f64) list" where
  "move_left x [] = [x]"
| "move_left x (y # ys) = (if f_lt (snd y) (snd x) then y # move_left x ys else x # y # ys)"

definition sort_desc :: "(string \<times> f64) list \<Rightarrow> (string \<times> f64) list" where
  "sort_desc xs = rev (foldl (\<lambda>acc x. move_left x acc) [] xs)"

definition ranked_components :: "f64 strmap \<Rightarrow> (string \<times> f64) list" where
  "ranked_components c =
     sort_desc (map (\<lambda>k. (k, case map_of c k of None \<Rightarrow> Fin 0 | Some v \<Rightarrow> v)) component_order)"

definition top_components :: "f64 strmap \<Rightarrow> string list" where
  "top_components c = map (\<lambda>(k, v). k @ '': '' @ fmt_fixed 0 v) (take 2 (ranked_components c))"

abbreviation staleness_scan_id :: string where "staleness_scan_id \<equiv> ''staleness_scan''"

definition staleness_finding :: "deps \<Rightarrow> item \<Rightarrow> score \<Rightarrow> severity \<Rightarrow> finding" where
  "staleness_finding d it sc sev =
     (new_finding d staleness_scan_id (it_entity_key it) sev TierEscalate
       (it_title it @ '' stale (score '' @ show_int (f_to_int (f_round (scr_total sc))) @ ''): '' @
        join_with '', '' (top_components (scr_components sc))))
     \<lparr>fi_data := [(''score'', VFloat (scr_total sc)),
        (''components'', VObj (map (\<lambda>(k, v). (k, VFloat v)) (scr_components sc))),
        (''sizeBytes'', VInt (it_size_bytes it)), (''lastWatched'', VTime (it_last_watched it)),
        (''requestedBy'', VStr (it_requested_by it)), (''title'', VStr (it_title it)),
        (''kind'', VStr (it_kind it))]\<rparr>"

definition scan_item :: "deps \<Rightarrow> item \<Rightarrow> finding list" where
  "scan_item d it =
     (let w = cfg_staleness (d_cfg d); sc = score_item it w (d_now d); b = band (scr_total sc) w
      in if b = BandCandidate then [staleness_finding d it sc SeverityWarn]
         else if b = BandWatchlist then [staleness_finding d it sc SeverityInfo]
         else [])"

definition count_band :: "deps \<Rightarrow> string \<Rightarrow> item list \<Rightarrow> nat" where
  "count_band d b its =
     (let w = cfg_staleness (d_cfg d)
      in length (filter (\<lambda>it. band (scr_total (score_item it w (d_now d))) w = b) its))"

definition run_staleness_scan :: "deps \<Rightarrow> check_result result" where
  "run_staleness_scan d =
     rbind (collect_items d) (\<lambda>its. Inr \<lparr>
       re_findings = concat (map (scan_item d) its),
       re_metrics = [(''staleness_candidates'', f_of_int (int (count_band d BandCandidate its))),
         (''staleness_watchlist'', f_of_int (int (count_band d BandWatchlist its)))]\<rparr>)"

definition staleness_scan_check :: check where
  "staleness_scan_check = \<lparr>ck_id = staleness_scan_id, ck_nodes = PiOnly, ck_tier = TierEscalate,
     ck_cadence = 24 * hour, ck_run = Some (\<lambda>d. Returns (run_staleness_scan d))\<rparr>"

end
