(* ===== verification/Staleness_Laws.thy ===== *)
theory Staleness_Laws
  imports Staleness
begin

text \<open>
  The staleness score for every validated weight set: it is a number in \<open>[0, 100]\<close> (never NaN),
  it can only rise as time passes, and the bands, the findings and the explanation agree with it.
\<close>

section \<open>Bounds on the floats involved\<close>

lemma round_pos_moderate:
  assumes "0 < x" "x \<le> 18446744073709551616"
  shows "round_pos x \<le> 36893488147419103232"
proof -
  have "2 powi ilog2 x \<le> x" by (rule ilog2_bounds) fact
  also have "\<dots> \<le> 2 powi 64" using assms(2) by simp
  finally have "quantum x + 53 \<le> 65" by (simp only: powi_le_iff quantum_def)
  then have "2 powi (quantum x + 53) \<le> (2 powi 65 :: rat)" by (simp only: powi_le_iff)
  with round_pos_upper [OF assms(1)] show ?thesis by simp
qed

lemma round64_moderate:
  assumes "\<bar>z\<bar> \<le> 18446744073709551616"
  obtains r where "round64 z = Fin r" "\<bar>r\<bar> \<le> 36893488147419103232"
proof (cases "z = 0")
  case True
  then show ?thesis using that [of 0] by simp
next
  case False
  then have p: "0 \<le> round_pos \<bar>z\<bar>" "round_pos \<bar>z\<bar> \<le> 36893488147419103232"
    using round_pos_nonneg [of "\<bar>z\<bar>"] round_pos_moderate [of "\<bar>z\<bar>"] assms by auto
  have "(36893488147419103232 :: rat) < 2 powi 1024" by simp
  with p have "\<not> 2 powi 1024 \<le> round_pos \<bar>z\<bar>" by linarith
  with False have "round64 z = Fin (if 0 < z then round_pos \<bar>z\<bar> else - round_pos \<bar>z\<bar>)"
    by (simp add: round64_def Let_def)
  moreover have "\<bar>if 0 < z then round_pos \<bar>z\<bar> else - round_pos \<bar>z\<bar>\<bar> \<le> 36893488147419103232"
    using p by (cases "0 < z") (simp_all only: if_True if_False abs_of_nonneg abs_minus_cancel)
  ultimately show ?thesis by (rule that)
qed

lemma f_of_int_int64:
  assumes "min_int64 \<le> i" "i \<le> max_int64"
  obtains a where "f_of_int i = Fin a" "\<bar>a\<bar> \<le> 36893488147419103232"
proof -
  have "\<bar>i\<bar> \<le> 18446744073709551616" using assms by (simp add: min_int64_def max_int64_def)
  then have "(of_int \<bar>i\<bar> :: rat) \<le> of_int 18446744073709551616" by (simp only: of_int_le_iff)
  then have "\<bar>of_int i :: rat\<bar> \<le> 18446744073709551616" by simp
  then show ?thesis using that by (elim round64_moderate) (simp add: f_of_int_def)
qed

lemma go_div_bound: "\<bar>d\<bar> \<le> 9223372036854775808 \<Longrightarrow> \<bar>go_div d hour\<bar> \<le> 2562047"
proof -
  assume "\<bar>d\<bar> \<le> 9223372036854775808"
  then have "\<bar>d\<bar> div hour \<le> 9223372036854775808 div hour" by (rule zdiv_mono1) simp
  then have "\<bar>d\<bar> div hour \<le> 2562047" by simp
  moreover have "0 \<le> \<bar>d\<bar> div hour" by simp
  ultimately show ?thesis by (auto simp: go_div_def abs_mult sgn_if)
qed

text \<open>\<open>Hours\<close> of any duration: the exact quotient plus a rounded fraction of the same sign.\<close>

lemma dur_hours_form:
  assumes "\<bar>d\<bar> \<le> 9223372036854775808"
  obtains q r where "dur_hours d = round64 (of_int q + r)" "\<bar>q\<bar> \<le> 2562047" "\<bar>r\<bar> \<le> 1"
    "d \<le> 0 \<longrightarrow> q \<le> 0 \<and> r \<le> 0"
proof -
  let ?q = "go_div d hour" and ?m = "go_mod d hour"
  have q: "\<bar>?q\<bar> \<le> 2562047" using assms by (rule go_div_bound)
  have m: "\<bar>?m\<bar> < hour" by (rule go_mod_bound) simp
  have fq: "f_of_int ?q = Fin (of_int ?q)" using q by (intro f_of_int_exact) simp
  have fm: "f_of_int ?m = Fin (of_int ?m)" using m by (intro f_of_int_exact) simp
  have fh: "f_of_int hour = Fin (of_int hour)" by (intro f_of_int_exact) simp
  have "(of_int \<bar>?m\<bar> :: rat) < of_int hour" using m by (simp only: of_int_less_iff)
  then have x: "(of_int ?m :: rat) / of_int hour \<le> 1" "- 1 \<le> (of_int ?m :: rat) / of_int hour"
    by (auto simp: abs_if split: if_splits)
  have one: "round64 1 = Fin 1" "round64 (- 1) = Fin (- 1)"
    using f_of_int_exact [of 1] f_of_int_exact [of "- 1"] by (simp_all add: f_of_int_def)
  obtain r where r: "round64 (of_int ?m / of_int hour) = Fin r" "\<bar>r\<bar> \<le> 1"
    using round64_mono [OF x(1)] round64_mono [OF x(2)] one
    by (cases "round64 (of_int ?m / of_int hour)") auto
  have neg: "?q \<le> 0 \<and> r \<le> 0" if "d \<le> 0"
  proof -
    have qn: "?q \<le> 0" using that by (auto simp: go_div_def sgn_if)
    have "?m = - (- d mod hour)" if "d < 0"
      using that by (simp add: go_mod_def go_div_def minus_div_mult_eq_mod [symmetric] mult.commute)
    then have "?m \<le> 0" using that by (cases "d = 0") (simp_all add: go_mod_def go_div_def)
    then have "(of_int ?m :: rat) \<le> 0" by simp
    then have "(of_int ?m :: rat) / of_int hour \<le> 0" by (simp add: divide_nonpos_pos)
    from round64_mono [OF this] r(1) have "r \<le> 0" by simp
    with qn show ?thesis by simp
  qed
  have "f_div (Fin (of_int ?m)) (Fin (of_int hour)) = Fin r" using r(1) by simp
  then have "dur_hours d = round64 (of_int ?q + r)" by (simp only: dur_hours_def fq fm fh f_add.simps)
  then show ?thesis using that [of ?q r] q r(2) neg by blast
qed

lemma t_sub_abs: "\<bar>t_sub t u\<bar> \<le> 9223372036854775808"
  using t_sub_bounds [of t u] unfolding min_int64_def max_int64_def by linarith

lemma dur_hours_finite:
  assumes "\<bar>d\<bar> \<le> 9223372036854775808"
  obtains h where "dur_hours d = Fin h" "\<bar>h\<bar> \<le> 2562048" "d \<le> 0 \<longrightarrow> h \<le> 0"
proof -
  obtain q r where qr: "dur_hours d = round64 (of_int q + r)" "\<bar>q\<bar> \<le> 2562047" "\<bar>r\<bar> \<le> 1"
    "d \<le> 0 \<longrightarrow> q \<le> 0 \<and> r \<le> 0"
    by (rule dur_hours_form [OF assms])
  have "(of_int \<bar>q\<bar> :: rat) \<le> of_int 2562047" using qr(2) by (simp only: of_int_le_iff)
  then have s: "of_int q + r \<le> 2562048" "- 2562048 \<le> of_int q + r" using qr(3) by auto
  have e: "round64 2562048 = Fin 2562048" "round64 (- 2562048) = Fin (- 2562048)"
    using f_of_int_exact [of 2562048] f_of_int_exact [of "- 2562048"] by (simp_all add: f_of_int_def)
  obtain h where h: "round64 (of_int q + r) = Fin h" "\<bar>h\<bar> \<le> 2562048"
    using round64_mono [OF s(1)] round64_mono [OF s(2)] e by (cases "round64 (of_int q + r)") auto
  have "h \<le> 0" if "d \<le> 0"
  proof -
    have "(of_int q :: rat) + r \<le> 0" using qr(4) that by (simp add: add_nonpos_nonpos)
    from round64_mono [OF this] h(1) show ?thesis by simp
  qed
  with qr(1) h that show ?thesis by simp
qed

lemma days_between_finite:
  obtains x where "days_between now t = Fin x" "now \<le> t \<longrightarrow> x \<le> 0"
proof -
  obtain h where h: "dur_hours (t_sub now t) = Fin h" "\<bar>h\<bar> \<le> 2562048" "t_sub now t \<le> 0 \<longrightarrow> h \<le> 0"
    by (rule dur_hours_finite [OF t_sub_abs])
  have c: "f_of_int 24 = Fin 24" using f_of_int_exact [of 24] by simp
  have "\<bar>h / 24\<bar> \<le> 18446744073709551616" using h(2) by (simp add: abs_divide)
  then obtain x where x: "round64 (h / 24) = Fin x" by (rule round64_moderate)
  have "x \<le> 0" if "now \<le> t"
  proof -
    have "t_sub now t \<le> 0" using that by (auto simp: t_sub_def min_int64_def max_int64_def)
    then have "h / 24 \<le> 0" using h(3) by simp
    from round64_mono [OF this] x show ?thesis by simp
  qed
  with x that show ?thesis by (simp add: days_between_def h(1) c)
qed

lemma days_between_mono:
  assumes "t \<le> now" "now \<le> now'"
  shows "f_le (days_between now t) (days_between now' t)"
proof -
  have d: "0 \<le> t_sub now t" "t_sub now t \<le> t_sub now' t" "t_sub now' t \<le> max_int64"
    using assms t_sub_bounds [of now' t] t_sub_mono [of now now' t]
    by (auto simp: t_sub_def max_int64_def min_int64_def)
  obtain h where h: "dur_hours (t_sub now t) = Fin h" by (rule dur_hours_finite [OF t_sub_abs])
  obtain h' where h': "dur_hours (t_sub now' t) = Fin h'" by (rule dur_hours_finite [OF t_sub_abs])
  have c: "f_of_int 24 = Fin 24" using f_of_int_exact [of 24] by simp
  from dur_hours_mono [OF d] h h' show ?thesis
    by (simp add: days_between_def c round64_mono divide_right_mono)
qed

text \<open>Days since an instant, cut off at zero: finite, and monotone in the current time.\<close>

definition since_days :: "time \<Rightarrow> time \<Rightarrow> f64" where
  "since_days now t = (if f_lt (days_between now t) (Fin 0) then Fin 0 else days_between now t)"

lemma since_days_finite: obtains x where "since_days now t = Fin x" "0 \<le> x"
proof -
  obtain x where "days_between now t = Fin x" by (rule days_between_finite)
  then show ?thesis using that by (cases "x < 0") (auto simp: since_days_def)
qed

lemma since_days_mono:
  assumes "now \<le> now'"
  shows "f_le (since_days now t) (since_days now' t)"
proof (cases "now \<le> t")
  case True
  obtain x where x: "days_between now t = Fin x" "now \<le> t \<longrightarrow> x \<le> 0" by (rule days_between_finite)
  with True have "since_days now t = Fin 0" by (cases "x < 0") (auto simp: since_days_def)
  moreover obtain y where "since_days now' t = Fin y" "0 \<le> y" by (rule since_days_finite)
  ultimately show ?thesis by simp
next
  case False
  then have m: "f_le (days_between now t) (days_between now' t)"
    using assms by (intro days_between_mono) auto
  obtain x where x: "days_between now t = Fin x" by (rule days_between_finite)
  obtain y where y: "days_between now' t = Fin y" by (rule days_between_finite)
  from m show ?thesis by (auto simp: since_days_def x y)
qed

section \<open>Components\<close>

definition watched_frac :: "staleness_cfg \<Rightarrow> time \<Rightarrow> time \<Rightarrow> f64" where
  "watched_frac w now t =
     (let frac = f_div (since_days now t) (f_of_int (if sc_days_horizon w \<le> 0 then 1 else sc_days_horizon w))
      in if f_lt (Fin 1) frac then Fin 1 else frac)"

lemma days_score_watched:
  "\<not> t_is_zero (it_last_watched it) \<Longrightarrow>
   days_score it w now = f_mul (watched_frac w now (it_last_watched it)) (sc_days_max_points w)"
  by (simp add: days_score_def watched_frac_def since_days_def Let_def)

lemma horizon_float:
  obtains h where "f_of_int (if sc_days_horizon w \<le> 0 then 1 else sc_days_horizon w) = h" "f_le (Fin 1) h"
proof -
  have "f_le (f_of_int 1) (f_of_int (if sc_days_horizon w \<le> 0 then 1 else sc_days_horizon w))"
    by (rule f_of_int_mono) auto
  moreover have "f_of_int 1 = Fin 1" using f_of_int_exact [of 1] by simp
  ultimately show ?thesis using that by simp
qed

lemma cap_one:
  assumes "f_le (Fin 0) v"
  obtains r where "(if f_lt (Fin 1) v then Fin 1 else v) = Fin r" "0 \<le> r" "r \<le> 1"
proof (cases v)
  case (Fin a)
  with assms that [of 1] that [of a] show ?thesis by (cases "1 < a") auto
qed (use assms that [of 1] in \<open>auto simp: f_lt_def\<close>)

lemma watched_frac_range: obtains r where "watched_frac w now t = Fin r" "0 \<le> r" "r \<le> 1"
proof -
  obtain h where h: "f_of_int (if sc_days_horizon w \<le> 0 then 1 else sc_days_horizon w) = h" "f_le (Fin 1) h"
    by (rule horizon_float)
  obtain x where x: "since_days now t = Fin x" "0 \<le> x" by (rule since_days_finite)
  have "f_le (Fin 0) (f_div (Fin x) h)"
  proof (cases h)
    case (Fin a)
    with h(2) have "1 \<le> a" by simp
    then show ?thesis using x(2) Fin by (simp add: round64_nonneg)
  qed (use h(2) in simp_all)
  then obtain r where "(if f_lt (Fin 1) (f_div (Fin x) h) then Fin 1 else f_div (Fin x) h) = Fin r" "0 \<le> r" "r \<le> 1"
    by (rule cap_one)
  then show ?thesis using that by (simp add: watched_frac_def Let_def h(1) x(1))
qed

lemma watched_frac_mono:
  assumes "now \<le> now'"
  shows "f_le (watched_frac w now t) (watched_frac w now' t)"
proof -
  obtain h where h: "f_of_int (if sc_days_horizon w \<le> 0 then 1 else sc_days_horizon w) = h" "f_le (Fin 1) h"
    by (rule horizon_float)
  obtain x where x: "since_days now t = Fin x" "0 \<le> x" by (rule since_days_finite)
  obtain y where y: "since_days now' t = Fin y" "0 \<le> y" by (rule since_days_finite)
  have xy: "x \<le> y" using since_days_mono [OF assms, of t] x(1) y(1) by simp
  have f: "f_le (f_div (Fin x) h) (f_div (Fin y) h)"
  proof (cases h)
    case (Fin a)
    with h(2) have "1 \<le> a" by simp
    then show ?thesis using xy Fin by (simp add: round64_mono divide_right_mono)
  qed (use h(2) in simp_all)
  have cap: "f_le (if f_lt (Fin 1) a then Fin 1 else a) (if f_lt (Fin 1) b then Fin 1 else b)"
    if "f_le a b" for a b
    using that by (cases a; cases b) (auto simp: f_lt_def)
  show ?thesis using cap [OF f] by (simp add: watched_frac_def Let_def x(1) y(1) h(1))
qed

lemma days_score_not_NaN:
  assumes "f_finite (sc_days_max_points w)"
  shows "days_score it w now \<noteq> NaN"
proof (cases "t_is_zero (it_last_watched it)")
  case True
  with assms show ?thesis by (auto simp: days_score_def never_watched_days_score_def)
next
  case False
  obtain r where "watched_frac w now (it_last_watched it) = Fin r" by (rule watched_frac_range)
  with assms show ?thesis
    by (simp add: days_score_watched [OF False] f_mul_finite_not_NaN)
qed

lemma completion_finite: "f_finite (sc_watched_full_points w) \<Longrightarrow> f_finite (sc_watched_partial_points w) \<Longrightarrow>
    f_finite (completion_score it w)"
  by (simp add: completion_score_def)

lemma arr_finite: "f_finite (sc_ended_points w) \<Longrightarrow> f_finite (sc_continuing_points w) \<Longrightarrow> f_finite (arr_score it w)"
  by (simp add: arr_score_def)

lemma requester_finite: "f_finite (sc_owner_requester_points w) \<Longrightarrow> f_finite (sc_other_requester_points w) \<Longrightarrow>
    f_finite (requester_score it w)"
  by (simp add: requester_score_def)

lemma size_finite:
  assumes "f_finite (sc_size_points_per_gb w)" "f_finite (sc_size_max_points w)"
    "min_int64 \<le> it_size_bytes it" "it_size_bytes it \<le> max_int64"
  shows "f_finite (size_score it w)"
proof -
  obtain a where a: "f_of_int (it_size_bytes it) = Fin a" "\<bar>a\<bar> \<le> 36893488147419103232"
    by (rule f_of_int_int64 [OF assms(3,4)])
  then have "\<bar>a / 1000000000\<bar> \<le> 18446744073709551616" by (simp add: abs_divide)
  then obtain g where g: "round64 (a / 1000000000) = Fin g" by (rule round64_moderate)
  have "f_of_int 1000000000 = Fin 1000000000" using f_of_int_exact [of 1000000000] by simp
  then show ?thesis
    using assms(1,2) by (simp add: size_score_def Let_def a(1) g f_clamp_finite f_mul_finite_not_NaN)
qed

lemma age_score_since: "\<not> t_is_zero (it_added it) \<Longrightarrow> age_score it w now =
    f_clamp (f_mul (since_days now (it_added it)) (sc_age_points_per_day w)) (Fin 0) (sc_age_max_points w)"
  by (simp add: age_score_def since_days_def Let_def)

lemma age_finite:
  assumes "f_finite (sc_age_points_per_day w)" "f_finite (sc_age_max_points w)"
  shows "f_finite (age_score it w now)"
proof (cases "t_is_zero (it_added it)")
  case True
  then show ?thesis by (simp add: age_score_def)
next
  case False
  obtain x where "since_days now (it_added it) = Fin x" by (rule since_days_finite)
  with assms show ?thesis by (simp add: age_score_since [OF False] f_clamp_finite f_mul_finite_not_NaN)
qed

lemma staleness_ok_finite:
  assumes "staleness_ok w"
  shows "f_finite (sc_days_max_points w)" "f_finite (sc_watched_full_points w)" "f_finite (sc_watched_partial_points w)"
    "f_finite (sc_ended_points w)" "f_finite (sc_continuing_points w)" "f_finite (sc_size_points_per_gb w)"
    "f_finite (sc_size_max_points w)" "f_finite (sc_other_requester_points w)" "f_finite (sc_owner_requester_points w)"
    "f_finite (sc_age_points_per_day w)" "f_finite (sc_age_max_points w)" "f_finite (sc_candidate_threshold w)"
    "f_finite (sc_watchlist_threshold w)"
  using assms by (simp_all add: staleness_ok_def)

definition raw_total :: "item \<Rightarrow> staleness_cfg \<Rightarrow> time \<Rightarrow> f64" where
  "raw_total it w now = f_add (f_add (f_add (f_add (f_add (days_score it w now) (completion_score it w))
     (arr_score it w)) (size_score it w)) (requester_score it w)) (age_score it w now)"

lemma scr_total_raw: "scr_total (score_item it w now) = f_clamp (raw_total it w now) (Fin 0) (Fin 100)"
  by (simp add: score_item_def raw_total_def Let_def)

definition size_ok :: "item \<Rightarrow> bool" where
  "size_ok it \<longleftrightarrow> min_int64 \<le> it_size_bytes it \<and> it_size_bytes it \<le> max_int64"

lemma raw_total_not_NaN:
  assumes "staleness_ok w" "size_ok it"
  shows "raw_total it w now \<noteq> NaN"
proof -
  note fin = staleness_ok_finite [OF assms(1)]
  have "f_finite (completion_score it w)" "f_finite (arr_score it w)" "f_finite (size_score it w)"
    "f_finite (requester_score it w)" "f_finite (age_score it w now)"
    using fin assms(2) by (auto simp: size_ok_def intro: completion_finite arr_finite size_finite requester_finite age_finite)
  then show ?thesis
    unfolding raw_total_def by (intro f_add_finite_not_NaN days_score_not_NaN fin)
qed

lemma scr_total_range:
  assumes "staleness_ok w" "size_ok it"
  obtains r where "scr_total (score_item it w now) = Fin r" "0 \<le> r" "r \<le> 100"
proof -
  have "f_le (Fin 0) (scr_total (score_item it w now)) \<and> f_le (scr_total (score_item it w now)) (Fin 100)"
    unfolding scr_total_raw by (rule f_clamp_bounds [OF raw_total_not_NaN [OF assms]]) simp
  then show ?thesis using that by (cases "scr_total (score_item it w now)") auto
qed

section \<open>Monotonicity in time\<close>

lemma f_clamp_mono:
  "f_le x y \<Longrightarrow> f_le lo hi \<Longrightarrow> f_le (f_clamp x lo hi) (f_clamp y lo hi)"
  by (cases x; cases y; cases lo; cases hi) (auto simp: f_clamp_def f_lt_def)

lemma days_score_mono:
  assumes "f_finite (sc_days_max_points w)" "f_le (Fin 0) (sc_days_max_points w)" "now \<le> now'"
  shows "f_le (days_score it w now) (days_score it w now')"
proof -
  obtain m where m: "sc_days_max_points w = Fin m" "0 \<le> m"
    using assms(1,2) by (auto simp: f_finite_def)
  show ?thesis
  proof (cases "t_is_zero (it_last_watched it)")
    case True
    have nw: "f_le (never_watched_days_score it w now) (never_watched_days_score it w now')"
    proof (cases "sc_never_watched_after_days w \<le> 0 \<or> t_is_zero (it_added it)")
      case True
      then show ?thesis by (auto simp: never_watched_days_score_def)
    next
      case False
      let ?n = "f_of_int (sc_never_watched_after_days w)"
      have n0: "f_le (Fin 0) ?n" using False f_of_int_mono [of 0 "sc_never_watched_after_days w"] by simp
      have "f_lt ?n (days_between now' (it_added it))" if l: "f_lt ?n (days_between now (it_added it))"
      proof -
        obtain x where x: "days_between now (it_added it) = Fin x" "now \<le> it_added it \<longrightarrow> x \<le> 0"
          by (rule days_between_finite)
        obtain y where y: "days_between now' (it_added it) = Fin y" by (rule days_between_finite)
        have "0 < x" using l n0 x(1) by (cases ?n) (auto simp: f_lt_def)
        with x(2) have "it_added it \<le> now" by linarith
        from days_between_mono [OF this assms(3)] l show ?thesis
          by (cases ?n) (auto simp: x(1) y f_lt_def)
      qed
      then show ?thesis using False m by (auto simp: never_watched_days_score_def)
    qed
    then show ?thesis using True by (simp add: days_score_def)
  next
    case False
    obtain r where r: "watched_frac w now (it_last_watched it) = Fin r" by (rule watched_frac_range)
    obtain r' where r': "watched_frac w now' (it_last_watched it) = Fin r'" by (rule watched_frac_range)
    from watched_frac_mono [OF assms(3), of w "it_last_watched it"] r r' m
    show ?thesis by (simp add: days_score_watched [OF False] round64_mono mult_right_mono)
  qed
qed

lemma age_score_mono:
  assumes "f_finite (sc_age_points_per_day w)" "f_le (Fin 0) (sc_age_points_per_day w)"
    "f_le (Fin 0) (sc_age_max_points w)" "now \<le> now'"
  shows "f_le (age_score it w now) (age_score it w now')"
proof (cases "t_is_zero (it_added it)")
  case True
  then show ?thesis by (simp add: age_score_def)
next
  case False
  obtain c where c: "sc_age_points_per_day w = Fin c" "0 \<le> c" using assms(1,2) by (auto simp: f_finite_def)
  obtain x where x: "since_days now (it_added it) = Fin x" by (rule since_days_finite)
  obtain y where y: "since_days now' (it_added it) = Fin y" by (rule since_days_finite)
  have "x \<le> y" using since_days_mono [OF assms(4), of "it_added it"] x y by simp
  then show ?thesis
    by (simp add: age_score_since [OF False] x y c f_clamp_mono assms(3) round64_mono mult_right_mono)
qed

lemma raw_total_mono:
  assumes "staleness_ok w" "size_ok it" "f_le (Fin 0) (sc_days_max_points w)"
    "f_le (Fin 0) (sc_age_points_per_day w)" "f_le (Fin 0) (sc_age_max_points w)" "now \<le> now'"
  shows "f_le (raw_total it w now) (raw_total it w now')"
proof -
  note fin = staleness_ok_finite [OF assms(1)]
  have c: "f_finite (completion_score it w)" "f_finite (arr_score it w)" "f_finite (size_score it w)"
    "f_finite (requester_score it w)" "f_finite (age_score it w now)" "f_finite (age_score it w now')"
    using fin assms(2) by (auto simp: size_ok_def intro: completion_finite arr_finite size_finite requester_finite age_finite)
  have refl: "f_le x x" if "f_finite x" for x using that by (intro f_le_refl) auto
  have d: "f_le (days_score it w now) (days_score it w now')"
    by (rule days_score_mono) (use fin assms in auto)
  have a: "f_le (age_score it w now) (age_score it w now')"
    by (rule age_score_mono) (use fin assms in auto)
  show ?thesis
    unfolding raw_total_def
    by (intro f_add_mono d a refl c f_add_finite_not_NaN days_score_not_NaN fin)
qed

section \<open>The ranking of the components\<close>

definition ranked_desc :: "(string \<times> f64) list \<Rightarrow> bool" where
  "ranked_desc xs \<longleftrightarrow> sorted_wrt (\<lambda>x y. f_le (snd y) (snd x)) xs"

lemma move_left_set [simp]: "set (move_left x ys) = insert x (set ys)"
  by (induction ys) auto

lemma move_left_mset [simp]: "mset (move_left x ys) = add_mset x (mset ys)"
  by (induction ys) auto

text \<open>The accumulator is kept reversed, so it is sorted upwards.\<close>

lemma move_left_sorted:
  assumes "sorted_wrt (\<lambda>a b. f_le (snd a) (snd b)) ys" "\<forall>y \<in> insert x (set ys). snd y \<noteq> NaN"
  shows "sorted_wrt (\<lambda>a b. f_le (snd a) (snd b)) (move_left x ys)"
  using assms
proof (induction ys)
  case Nil
  then show ?case by simp
next
  case (Cons y ys)
  show ?case
  proof (cases "f_lt (snd y) (snd x)")
    case True
    then have "f_le (snd y) (snd x)" by (simp add: f_lt_def)
    with True Cons show ?thesis by auto
  next
    case False
    with Cons.prems(2) have "f_le (snd x) (snd y)" by (auto simp: f_lt_not_le)
    with False Cons.prems show ?thesis by (auto intro: f_le_trans)
  qed
qed

lemma foldl_move_left:
  assumes "sorted_wrt (\<lambda>a b. f_le (snd a) (snd b)) acc" "\<forall>y \<in> set acc \<union> set xs. snd y \<noteq> NaN"
  shows "sorted_wrt (\<lambda>a b. f_le (snd a) (snd b)) (foldl (\<lambda>acc x. move_left x acc) acc xs) \<and>
    mset (foldl (\<lambda>acc x. move_left x acc) acc xs) = mset acc + mset xs"
  using assms
proof (induction xs arbitrary: acc)
  case Nil
  then show ?case by simp
next
  case (Cons x xs)
  have "sorted_wrt (\<lambda>a b. f_le (snd a) (snd b)) (move_left x acc)"
    using Cons.prems by (intro move_left_sorted) auto
  with Cons.IH [of "move_left x acc"] Cons.prems show ?case by auto
qed

lemma sort_desc_ranked:
  assumes "\<forall>y \<in> set xs. snd y \<noteq> NaN"
  shows "ranked_desc (sort_desc xs) \<and> mset (sort_desc xs) = mset xs"
  using foldl_move_left [of "[]" xs] assms
  by (simp add: ranked_desc_def sort_desc_def sorted_wrt_rev)

section \<open>Properties\<close>

lemma score_components_not_NaN:
  assumes "staleness_ok w" "size_ok it"
  shows "\<forall>kv \<in> set (scr_components (score_item it w now)). snd kv \<noteq> NaN"
proof -
  note fin = staleness_ok_finite [OF assms(1)]
  have "f_finite (completion_score it w)" "f_finite (arr_score it w)" "f_finite (size_score it w)"
    "f_finite (requester_score it w)" "f_finite (age_score it w now)"
    using fin assms(2) by (auto simp: size_ok_def intro: completion_finite arr_finite size_finite requester_finite age_finite)
  moreover have "days_score it w now \<noteq> NaN" using fin(1) by (rule days_score_not_NaN)
  ultimately show ?thesis by (auto simp: score_item_def Let_def)
qed

text \<open>C37: For every weight set that passes validation, every title and every pair of instants, the
  staleness score is a finite number between 0 and 100: no combination of huge, tiny or negative
  weights, unset timestamps or clock skew makes it NaN or infinite.\<close>

theorem score_in_range:
  assumes "staleness_ok w" "size_ok it"
  shows "\<exists>r. scr_total (score_item it w now) = Fin r \<and> 0 \<le> r \<and> r \<le> 100"
  using scr_total_range [OF assms] by blast

text \<open>Time never makes a title less stale: with weights that validate and non-negative day, age-rate
  and age-cap weights, the score at a later instant is at least the score at an earlier one, so a
  title's band can only move towards candidate until something about the title changes.\<close>

theorem score_rises_with_time:
  assumes "staleness_ok w" "size_ok it" "f_le (Fin 0) (sc_days_max_points w)"
    "f_le (Fin 0) (sc_age_points_per_day w)" "f_le (Fin 0) (sc_age_max_points w)" "now \<le> now'"
  shows "f_le (scr_total (score_item it w now)) (scr_total (score_item it w now')) \<and>
    (band (scr_total (score_item it w now)) w = BandCandidate \<longrightarrow>
       band (scr_total (score_item it w now')) w = BandCandidate) \<and>
    (band (scr_total (score_item it w now')) w = BandSuppressed \<longrightarrow>
       band (scr_total (score_item it w now)) w = BandSuppressed)"
proof -
  have le: "f_le (scr_total (score_item it w now)) (scr_total (score_item it w now'))"
    unfolding scr_total_raw by (intro f_clamp_mono raw_total_mono assms) simp
  then show ?thesis by (auto simp: band_def split: if_splits dest: f_le_trans)
qed

text \<open>The explanation names the two components that contributed most: the ranking is a
  permutation of the six components in descending order of value.\<close>

theorem top_components_are_largest:
  assumes "staleness_ok w" "size_ok it"
  shows "ranked_desc (ranked_components (scr_components (score_item it w now))) \<and>
    mset (ranked_components (scr_components (score_item it w now))) = mset (scr_components (score_item it w now)) \<and>
    length (top_components (scr_components (score_item it w now))) = 2"
proof -
  let ?c = "scr_components (score_item it w now)"
  have c: "map (\<lambda>k. (k, case map_of ?c k of None \<Rightarrow> Fin 0 | Some v \<Rightarrow> v)) component_order = ?c"
    by (simp add: component_order_def score_item_def Let_def)
  have r: "ranked_desc (sort_desc ?c) \<and> mset (sort_desc ?c) = mset ?c"
    by (rule sort_desc_ranked [OF score_components_not_NaN [OF assms]])
  then have "length (sort_desc ?c) = length ?c" by (metis size_mset)
  moreover have "length ?c = 6" by (simp add: score_item_def Let_def)
  ultimately show ?thesis using r by (simp add: ranked_components_def c top_components_def)
qed

text \<open>The scan reports exactly the titles that are not suppressed, in the order they were collected,
  once each, warn for a candidate and info for the watch list, and its two metrics count them.\<close>

theorem scan_reports_unsuppressed:
  "case collect_items d of
     Inl e \<Rightarrow> run_staleness_scan d = Inl e
   | Inr its \<Rightarrow> \<exists>res. run_staleness_scan d = Inr res \<and>
       map fi_entity_key (re_findings res) = map it_entity_key (filter (\<lambda>it.
         band (scr_total (score_item it (cfg_staleness (d_cfg d)) (d_now d))) (cfg_staleness (d_cfg d)) \<noteq> BandSuppressed) its) \<and>
       length (filter (\<lambda>f. fi_severity f = SeverityWarn) (re_findings res)) = count_band d BandCandidate its \<and>
       length (filter (\<lambda>f. fi_severity f = SeverityInfo) (re_findings res)) = count_band d BandWatchlist its \<and>
       length (re_findings res) = count_band d BandCandidate its + count_band d BandWatchlist its"
proof (cases "collect_items d")
  case (Inl e)
  then show ?thesis by (simp add: run_staleness_scan_def)
next
  case (Inr its)
  let ?w = "cfg_staleness (d_cfg d)"
  let ?b = "\<lambda>it. band (scr_total (score_item it ?w (d_now d))) ?w"
  have b: "?b it = BandCandidate \<or> ?b it = BandWatchlist \<or> ?b it = BandSuppressed" for it
    by (simp add: band_def)
  have keys: "map fi_entity_key (concat (map (scan_item d) its)) =
      map it_entity_key (filter (\<lambda>it. ?b it \<noteq> BandSuppressed) its)"
  proof (induction its)
    case (Cons it its)
    then show ?case using b [of it] by (auto simp: scan_item_def Let_def staleness_finding_def)
  qed simp
  have warn: "length (filter (\<lambda>f. fi_severity f = SeverityWarn) (concat (map (scan_item d) its))) = count_band d BandCandidate its"
    by (induction its) (auto simp: scan_item_def Let_def count_band_def staleness_finding_def)
  have info: "length (filter (\<lambda>f. fi_severity f = SeverityInfo) (concat (map (scan_item d) its))) = count_band d BandWatchlist its"
    by (induction its) (auto simp: scan_item_def Let_def count_band_def staleness_finding_def)
  have len: "length (concat (map (scan_item d) its)) = count_band d BandCandidate its + count_band d BandWatchlist its"
    by (induction its) (auto simp: scan_item_def Let_def count_band_def)
  show ?thesis using Inr keys warn info len by (simp add: run_staleness_scan_def)
qed

text \<open>The watch-history window is computed in 64 bits: a horizon of at most 53375 days looks back
  twice the horizon as documented, and one of 60000 days, which validation accepts, asks for history
  from a date more than 200 years in the future, so that every title looks never watched.\<close>

theorem history_window_overflows:
  "(0 < sc_days_horizon (cfg_staleness (d_cfg d)) \<and> sc_days_horizon (cfg_staleness (d_cfg d)) \<le> 53375 \<longrightarrow>
     history_window d = d_now d - 2 * sc_days_horizon (cfg_staleness (d_cfg d)) * day) \<and>
   (sc_days_horizon (cfg_staleness (d_cfg d)) = 60000 \<longrightarrow> d_now d + 200 * 365 * day < history_window d)"
proof (intro conjI impI)
  let ?h = "sc_days_horizon (cfg_staleness (d_cfg d))"
  assume h: "0 < ?h \<and> ?h \<le> 53375"
  have "(- 2 * ?h * 24 * hour + 9223372036854775808) mod 18446744073709551616 =
      - 2 * ?h * 24 * hour + 9223372036854775808"
    using h by (intro mod_pos_pos_trivial) simp_all
  with h show "history_window d = d_now d - 2 * ?h * day"
    by (simp add: history_window_def Let_def wrap_int64_def t_add_def)
next
  assume "sc_days_horizon (cfg_staleness (d_cfg d)) = 60000"
  then show "d_now d + 200 * 365 * day < history_window d"
    by (simp add: history_window_def Let_def wrap_int64_def t_add_def)
qed

section \<open>Witnesses\<close>

definition sample_item :: item where
  "sample_item = \<lparr>it_entity_key = ''sonarr:1'', it_title = ''Show'', it_kind = ''series'', it_last_watched = 0,
     it_watched_fully = False, it_watched_partially = False, it_ended = True, it_monitored = True,
     it_size_bytes = 5000000000, it_requested_by = '''', it_added = 0\<rparr>"

definition flat_weights :: staleness_cfg where
  "flat_weights = \<lparr>sc_days_max_points = Fin 40, sc_days_horizon = 180, sc_never_watched_after_days = 30,
     sc_watched_full_points = Fin 15, sc_watched_partial_points = Fin (- 10), sc_ended_points = Fin 10,
     sc_continuing_points = Fin (- 15), sc_size_points_per_gb = Fin (1 / 8), sc_size_max_points = Fin 15,
     sc_other_requester_points = Fin 10, sc_owner_requester_points = Fin (- 5),
     sc_age_points_per_day = Fin (1 / 16), sc_age_max_points = Fin 10, sc_candidate_threshold = Fin 70,
     sc_watchlist_threshold = Fin 50, sc_owner = '''', sc_snooze_days = 60\<rparr>"

lemma flat_weights_ok: "staleness_ok flat_weights"
  by (simp add: staleness_ok_def flat_weights_def)

lemma sample_item_ok: "size_ok sample_item"
  by (simp add: size_ok_def sample_item_def min_int64_def max_int64_def)

theorem score_in_range_witness:
  "\<exists>r. scr_total (score_item sample_item flat_weights (63000000000 * second)) = Fin r \<and> 0 \<le> r \<and> r \<le> 100"
  by (rule score_in_range [OF flat_weights_ok sample_item_ok])

theorem score_rises_with_time_witness:
  "f_le (scr_total (score_item sample_item flat_weights 0)) (scr_total (score_item sample_item flat_weights day))"
  using score_rises_with_time [OF flat_weights_ok sample_item_ok, of 0 day] by (simp add: flat_weights_def)

theorem top_components_are_largest_witness:
  "length (top_components (scr_components (score_item sample_item flat_weights 0))) = 2"
  using top_components_are_largest [OF flat_weights_ok sample_item_ok] by blast

theorem history_window_overflows_witness:
  "d_now (sample_deps (defaults\<lparr>cfg_staleness := flat_weights\<lparr>sc_days_horizon := 60000\<rparr>\<rparr>)) + 200 * 365 * day <
   history_window (sample_deps (defaults\<lparr>cfg_staleness := flat_weights\<lparr>sc_days_horizon := 60000\<rparr>\<rparr>))"
  using history_window_overflows [of "sample_deps (defaults\<lparr>cfg_staleness := flat_weights\<lparr>sc_days_horizon := 60000\<rparr>\<rparr>)"]
  by (simp add: sample_deps_def)

end
