(* ===== verification/Checks_Qbit.thy ===== *)
theory Checks_Qbit
  imports Check_Engine
begin

text \<open>
  \<open>internal/checks/qbit\<close>: torrents that are stalled or in error, completed torrents that no *arr
  imported, torrents holding disallowed files, and torrents that have seeded to target. A map to
  \<open>bool\<close> used as a set is the list of its members.
\<close>

section \<open>Import history\<close>

definition add_download_id :: "string list \<Rightarrow> string \<Rightarrow> string list" where
  "add_download_id ids i = (if i = '''' then ids else ids @ [to_upper i])"

definition sonarr_imports :: "deps \<Rightarrow> time \<Rightarrow> string list \<Rightarrow> string list result" where
  "sonarr_imports d since ids =
     (case d_sonarr d of
        None \<Rightarrow> Inr ids
      | Some c \<Rightarrow> rbind (wrap_result ''sonarr history'' (sonarr_history c since ''downloadFolderImported''))
          (\<lambda>recs. Inr (foldl (\<lambda>ids r. add_download_id ids (sh_download_id r)) ids recs)))"

definition radarr_imports :: "deps \<Rightarrow> time \<Rightarrow> string list \<Rightarrow> string list result" where
  "radarr_imports d since ids =
     (case d_radarr d of
        None \<Rightarrow> Inr ids
      | Some c \<Rightarrow> rbind (wrap_result ''radarr history'' (radarr_history c since ''downloadFolderImported''))
          (\<lambda>recs. Inr (foldl (\<lambda>ids r. add_download_id ids (rh_download_id r)) ids recs)))"

definition imported_download_ids :: "deps \<Rightarrow> time \<Rightarrow> string list result" where
  "imported_download_ids d since =
     rbind (sonarr_imports d since []) (\<lambda>ids. radarr_imports d since ids)"

definition history_since :: "deps \<Rightarrow> time" where
  "history_since d = t_add (d_now d) (- cc_arr_history_window (cfg_checks (d_cfg d)))"

text \<open>What every check of the family starts with.\<close>

definition all_torrents :: "qbit_client \<Rightarrow> torrent list result" where
  "all_torrents q = wrap_result ''qbit torrents'' (qbit_torrents q '''' '''')"

section \<open>Stalled or errored\<close>

definition stalled_errored_finding :: "deps \<Rightarrow> torrent \<Rightarrow> finding option" where
  "stalled_errored_finding d t =
     (if to_state t = ''error'' \<or> to_state t = ''missingFiles'' then
        Some (new_finding d ''qbit_stalled_errored'' (''qbit:'' @ to_hash t) SeverityCritical TierNudge
          (to_name t @ '' is in state '' @ to_state t))
      else if to_state t = ''stalledDL'' \<or> to_state t = ''metaDL'' then
        (if \<not> t_is_zero (to_added_on t) \<and>
            cc_qbit_stalled_after (cfg_checks (d_cfg d)) < t_sub (d_now d) (to_added_on t) then
           Some (new_finding d ''qbit_stalled_errored'' (''qbit:'' @ to_hash t) SeverityWarn TierNudge
             (to_name t @ '' stalled ('' @ show_int (to_num_seeds t) @ '' seeds, added '' @
              fmt_rfc3339 utc (to_added_on t) @ '')''))
         else None)
      else None)"

definition run_stalled_errored :: "deps \<Rightarrow> check_result result" where
  "run_stalled_errored d =
     (case d_qbit d of
        None \<Rightarrow> Inl not_configured
      | Some q \<Rightarrow> rbind (all_torrents q) (\<lambda>ts.
          let fs = concat (map (\<lambda>t. opt_list (stalled_errored_finding d t)) ts)
          in Inr \<lparr>re_findings = fs,
               re_metrics = [(''qbit_torrents'', f_of_int (int (length ts))),
                 (''qbit_stalled'', f_of_int (int (length fs)))]\<rparr>))"

section \<open>Completed but not imported\<close>

definition not_imported_finding :: "deps \<Rightarrow> torrent \<Rightarrow> string list \<Rightarrow> finding option" where
  "not_imported_finding d t imported =
     (if f_lt (to_progress t) (Fin 1) \<or> to_category t = '''' \<or> t_is_zero (to_completion_on t) then None
      else
        let age = t_sub (d_now d) (to_completion_on t); cs = cfg_checks (d_cfg d)
        in if cc_arr_history_window cs < age \<or> age \<le> cc_completed_not_imported_after cs then None
           else if to_upper (to_hash t) \<in> set imported then None
           else Some ((new_finding d ''qbit_completed_not_imported'' (''qbit:'' @ to_hash t) SeverityWarn TierCorrect
                  (to_name t @ '' completed '' @ dur_string (dur_round age minute) @ '' ago but no arr import recorded''))
                \<lparr>fi_data := [(''category'', VStr (to_category t)), (''contentPath'', VStr (to_content_path t)),
                   (''completedAt'', VTime (to_completion_on t))]\<rparr>))"

definition run_completed_not_imported :: "deps \<Rightarrow> check_result result" where
  "run_completed_not_imported d =
     (case d_qbit d of
        None \<Rightarrow> Inl not_configured
      | Some q \<Rightarrow>
          if d_sonarr d = None \<and> d_radarr d = None then Inl not_configured
          else rbind (all_torrents q) (\<lambda>ts.
               rbind (imported_download_ids d (history_since d)) (\<lambda>imported.
               Inr \<lparr>re_findings = concat (map (\<lambda>t. opt_list (not_imported_finding d t imported)) ts),
                 re_metrics = []\<rparr>)))"

section \<open>Disallowed files\<close>

definition ext_in_list :: "string \<Rightarrow> string list \<Rightarrow> bool" where
  "ext_in_list ext exts \<longleftrightarrow> list_ex (\<lambda>e. to_lower e = ext) exts"

definition category_in_list :: "string \<Rightarrow> string list \<Rightarrow> bool" where
  "category_in_list category l \<longleftrightarrow> list_ex (\<lambda>v. equal_fold v category) l"

definition is_bad_file :: "string \<Rightarrow> string \<Rightarrow> string list \<Rightarrow> string list \<Rightarrow> bool" where
  "is_bad_file name category wrong_exts tv_categories =
     (let ext = to_lower (path_ext name)
      in ext_in_list ext wrong_exts \<or> (ext = ''.iso'' \<and> category_in_list category tv_categories))"

definition wrong_file_finding :: "deps \<Rightarrow> torrent \<Rightarrow> torrent_file list \<Rightarrow> finding option" where
  "wrong_file_finding d t files =
     (let cs = cfg_checks (d_cfg d);
          bad = map tf_name (filter (\<lambda>f. is_bad_file (tf_name f) (to_category t)
                  (cc_wrong_file_exts cs) (cc_tv_categories cs)) files)
      in case bad of
           [] \<Rightarrow> None
         | b # _ \<Rightarrow> Some ((new_finding d ''wrong_file_type'' (''qbit:'' @ to_hash t) SeverityCritical TierCorrect
               (to_name t @ '' contains '' @ show_int (int (length bad)) @ '' disallowed file(s): '' @ b))
             \<lparr>fi_data := [(''files'', VStrs bad), (''category'', VStr (to_category t))]\<rparr>))"

definition inspect_errors_finding :: "deps \<Rightarrow> (string \<times> goerr) list \<Rightarrow> finding" where
  "inspect_errors_finding d errored =
     (let (h, e) = hd errored
      in (new_finding d ''wrong_file_type'' ''qbit:wrong_file_type:inspect-errors'' SeverityWarn TierObserve
           (show_int (int (length errored)) @ '' torrent(s) could not be inspected''))
         \<lparr>fi_detail := ''qbit files '' @ h @ '': '' @ err_msg e,
          fi_data := [(''hashes'', VStrs (map fst errored)), (''firstError'', VStr (err_msg e))]\<rparr>)"

text \<open>The loop: findings so far, and the torrents whose file list could not be read with their errors.\<close>

definition inspect_torrent ::
  "deps \<Rightarrow> qbit_client \<Rightarrow> finding list \<times> (string \<times> goerr) list \<Rightarrow> torrent \<Rightarrow> finding list \<times> (string \<times> goerr) list" where
  "inspect_torrent d q st t =
     (let (fs, errored) = st
      in case qbit_files q (to_hash t) of
           Inl e \<Rightarrow> (fs, errored @ [(to_hash t, e)])
         | Inr files \<Rightarrow> (fs @ opt_list (wrong_file_finding d t files), errored))"

definition run_wrong_file_type :: "deps \<Rightarrow> check_result result" where
  "run_wrong_file_type d =
     (case d_qbit d of
        None \<Rightarrow> Inl not_configured
      | Some q \<Rightarrow> rbind (all_torrents q) (\<lambda>ts.
          let (fs, errored) = foldl (inspect_torrent d q) ([], []) ts;
              ms = [(''qbit_wrong_file_torrents'', f_of_int (int (length fs)))]
          in if errored = [] then Inr \<lparr>re_findings = fs, re_metrics = ms\<rparr>
             else Inr \<lparr>re_findings = fs @ [inspect_errors_finding d errored],
                    re_metrics = ms @ [(''qbit_wrong_file_inspect_errors'', f_of_int (int (length errored)))]\<rparr>))"

section \<open>Seeded to target\<close>

definition seeded_to_target :: "torrent \<Rightarrow> preferences \<Rightarrow> bool" where
  "seeded_to_target t p \<longleftrightarrow>
     (f_lt (Fin 0) (pr_max_ratio p) \<and> f_le (pr_max_ratio p) (to_ratio t)) \<or>
     (0 < pr_max_seeding_time p \<and> pr_max_seeding_time p * minute \<le> to_seeding_time t)"

definition seeded_done_matches :: "deps \<Rightarrow> torrent \<Rightarrow> preferences \<Rightarrow> string list \<Rightarrow> bool" where
  "seeded_done_matches d t p imported \<longleftrightarrow>
     (if f_lt (to_progress t) (Fin 1) \<or> t_is_zero (to_completion_on t) then False
      else if \<not> seeded_to_target t p then False
      else if t_sub (d_now d) (to_completion_on t) < cc_seeded_min_age (cfg_checks (d_cfg d)) then False
      else to_upper (to_hash t) \<in> set imported)"

definition seeded_done :: "deps \<Rightarrow> torrent list result" where
  "seeded_done d =
     (case d_qbit d of
        None \<Rightarrow> Inl not_configured
      | Some q \<Rightarrow>
          if d_sonarr d = None \<and> d_radarr d = None then Inl not_configured
          else rbind (all_torrents q) (\<lambda>ts.
               rbind (wrap_result ''qbit preferences'' (qbit_preferences q)) (\<lambda>p.
               rbind (imported_download_ids d (history_since d)) (\<lambda>imported.
               Inr (filter (\<lambda>t. seeded_done_matches d t p imported) ts)))))"

definition seeding_hours :: "torrent \<Rightarrow> int" where
  "seeding_hours t = f_to_int (dur_hours (dur_round (to_seeding_time t) hour))"

definition run_seeded_done :: "deps \<Rightarrow> check_result result" where
  "run_seeded_done d =
     rbind (seeded_done d) (\<lambda>ts.
       Inr \<lparr>re_findings = map (\<lambda>t. new_finding d ''seeded_done'' (''qbit:'' @ to_hash t) SeverityInfo TierNudge
              (to_name t @ '' seeded to target (ratio '' @ fmt_fixed 2 (to_ratio t) @ '', '' @
               show_int (seeding_hours t) @ ''h) and imported; safe to remove'')) ts,
         re_metrics = [(''qbit_seeded_done'', f_of_int (int (length ts)))]\<rparr>)"

section \<open>Catalogue rows\<close>

definition qbit_checks :: "check list" where
  "qbit_checks =
    [pure_check ''qbit_stalled_errored'' NASOnly TierNudge (15 * minute) run_stalled_errored,
     pure_check ''qbit_completed_not_imported'' NASOnly TierCorrect (15 * minute) run_completed_not_imported,
     pure_check ''wrong_file_type'' NASOnly TierCorrect (15 * minute) run_wrong_file_type,
     pure_check ''seeded_done'' NASOnly TierNudge (24 * hour) run_seeded_done]"

end
