(* ===== verification/Checks_Disk.thy ===== *)
theory Checks_Disk
  imports Checks_Qbit
begin

text \<open>
  \<open>internal/checks/disk\<close>: free space, directory growth, reclaimable Docker images, and downloads
  qBittorrent no longer accounts for. A map to \<open>bool\<close> used as a set is the list of its members.
\<close>

definition giga :: f64 where "giga = f_of_int 1000000000"

definition in_gb :: "int \<Rightarrow> string" where
  "in_gb n = fmt_fixed 1 (f_div (f_of_int n) giga)"

section \<open>Disk pressure\<close>

definition pressure_finding :: "deps \<Rightarrow> string \<Rightarrow> tier \<Rightarrow> string \<Rightarrow> usage \<Rightarrow> finding option" where
  "pressure_finding d i tr path u =
     (let summary = path @ '' is '' @ fmt_fixed 0 (us_used_percent u) @ ''% full ('' @ in_gb (us_free u) @ '' GB free)'';
          cs = cfg_checks (d_cfg d)
      in if f_le (cc_disk_crit_percent cs) (us_used_percent u) then
           Some (new_finding d i path SeverityCritical tr summary)
         else if f_le (cc_disk_warn_percent cs) (us_used_percent u) then
           Some (new_finding d i path SeverityWarn tr summary)
         else None)"

definition pressure_path ::
  "deps \<Rightarrow> host_client \<Rightarrow> string \<Rightarrow> tier \<Rightarrow> check_result \<Rightarrow> string \<Rightarrow> check_result result" where
  "pressure_path d h i tr res path =
     rbind (wrap_result (''usage '' @ path) (host_usage h path)) (\<lambda>u.
       Inr \<lparr>re_findings = re_findings res @ opt_list (pressure_finding d i tr path u),
         re_metrics = map_set (''disk_used_percent:'' @ path) (us_used_percent u) (re_metrics res)\<rparr>)"

definition run_pressure :: "string \<Rightarrow> tier \<Rightarrow> deps \<Rightarrow> check_result result" where
  "run_pressure i tr d =
     (let paths = cc_disk_paths (cfg_checks (d_cfg d))
      in case d_host d of
           None \<Rightarrow> Inl not_configured
         | Some h \<Rightarrow>
             if paths = [] then Inl not_configured
             else rfoldl (pressure_path d h i tr) \<lparr>re_findings = [], re_metrics = []\<rparr> paths)"

section \<open>Directory size\<close>

definition dir_size_step ::
  "deps \<Rightarrow> host_client \<Rightarrow> string \<Rightarrow> tier \<Rightarrow> f64 \<Rightarrow> string \<Rightarrow> check_result \<Rightarrow> string \<Rightarrow> check_result result" where
  "dir_size_step d h i tr warn_bytes label res dir =
     rbind (wrap_result (''dirsize '' @ dir) (host_dir_size h dir 0)) (\<lambda>size.
       Inr \<lparr>re_findings = re_findings res @
              (if f_le warn_bytes (f_of_int size) then
                 [new_finding d i dir SeverityWarn tr (label @ '' '' @ dir @ '' is '' @ in_gb size @ '' GB'')]
               else []),
         re_metrics = map_set (i @ ''_bytes:'' @ dir) (f_of_int size) (re_metrics res)\<rparr>)"

definition run_dir_size ::
  "string \<Rightarrow> tier \<Rightarrow> (config \<Rightarrow> string list) \<Rightarrow> (config \<Rightarrow> f64) \<Rightarrow> string \<Rightarrow> deps \<Rightarrow> check_result result" where
  "run_dir_size i tr dirs warn_gb label d =
     (let ds = dirs (d_cfg d)
      in case d_host d of
           None \<Rightarrow> Inl not_configured
         | Some h \<Rightarrow>
             if ds = [] then Inl not_configured
             else rfoldl (dir_size_step d h i tr (f_mul (warn_gb (d_cfg d)) giga) label)
                    \<lparr>re_findings = [], re_metrics = []\<rparr> ds)"

definition log_dirs :: "config \<Rightarrow> string list" where "log_dirs cfg = cc_log_dirs (cfg_checks cfg)"
definition log_warn_gb :: "config \<Rightarrow> f64" where "log_warn_gb cfg = cc_log_warn_gb (cfg_checks cfg)"
definition recycle_dirs :: "config \<Rightarrow> string list" where "recycle_dirs cfg = cc_recycle_dirs (cfg_checks cfg)"
definition recycle_warn_gb :: "config \<Rightarrow> f64" where "recycle_warn_gb cfg = cc_recycle_warn_gb (cfg_checks cfg)"

section \<open>Docker images\<close>

definition run_image_bloat :: "deps \<Rightarrow> check_result result" where
  "run_image_bloat d =
     (case d_docker d of
        None \<Rightarrow> Inl not_configured
      | Some c \<Rightarrow> rbind (wrap_result ''docker disk usage'' (docker_disk_usage c)) (\<lambda>u.
          let n = du_images_reclaimable u;
              ms = [(''docker_images_reclaimable_bytes'', f_of_int n)]
          in if f_lt (f_of_int n) (f_mul (cc_image_bloat_warn_gb (cfg_checks (d_cfg d))) giga)
             then Inr \<lparr>re_findings = [], re_metrics = ms\<rparr>
             else Inr \<lparr>re_findings = [new_finding d ''docker_image_bloat'' ''docker:images'' SeverityWarn TierNudge
                    (in_gb n @ '' GB of docker images reclaimable'')], re_metrics = ms\<rparr>))"

section \<open>Orphaned downloads\<close>

record orphan =
  o_path :: string
  o_size :: int
  o_is_dir :: bool
  o_mod_time :: time

text \<open>The two sets of \<open>trackedPaths\<close>: what one torrent adds to each.\<close>

definition track_torrent :: "string list \<times> string list \<Rightarrow> torrent \<Rightarrow> string list \<times> string list" where
  "track_torrent kp t =
     (let (known, parents) = kp;
          (known1, parents1) =
            (if to_content_path t \<noteq> '''' then
               (known @ [clean (to_content_path t)], parents @ [path_dir (to_content_path t)])
             else (known, parents));
          known2 =
            (if to_save_path t \<noteq> '''' \<and> to_name t \<noteq> '''' then
               known1 @ [path_join (to_save_path t) (to_name t)]
             else known1)
      in (known2, parents1))"

definition tracked_paths :: "torrent list \<Rightarrow> string list \<times> string list" where
  "tracked_paths ts = foldl track_torrent ([], []) ts"

definition orphan_entries :: "string \<Rightarrow> dir_entry list \<Rightarrow> string list \<Rightarrow> string list \<Rightarrow> orphan list" where
  "orphan_entries dir entries known parents =
     concat (map (\<lambda>e.
       let full = path_join dir (en_name e)
       in if full \<in> set known \<or> full \<in> set parents then []
          else [\<lparr>o_path = full, o_size = en_size e, o_is_dir = en_is_dir e, o_mod_time = en_mod_time e\<rparr>]) entries)"

definition find_orphans :: "deps \<Rightarrow> orphan list result" where
  "find_orphans d =
     (let dirs = cc_downloads_dirs (cfg_checks (d_cfg d))
      in case (d_host d, d_qbit d) of
           (Some h, Some q) \<Rightarrow>
             if dirs = [] then Inl not_configured
             else rbind (wrap_result ''qbit torrents'' (qbit_torrents q '''' '''')) (\<lambda>ts.
                  let (known, parents) = tracked_paths ts
                  in rfoldl (\<lambda>os dir. rbind (wrap_result (''listdir '' @ dir) (host_list_dir h dir))
                        (\<lambda>entries. Inr (os @ orphan_entries dir entries known parents))) [] dirs)
         | _ \<Rightarrow> Inl not_configured)"

definition orphan_finding :: "deps \<Rightarrow> orphan \<Rightarrow> finding" where
  "orphan_finding d o1 =
     (new_finding d ''orphan_downloads'' (o_path o1) SeverityWarn TierCorrect
        (o_path o1 @ '' is not tracked by qBittorrent (modified '' @ fmt_date (d_local d) (o_mod_time o1) @ '')''))
      \<lparr>fi_data := [(''size'', VInt (o_size o1)), (''isDir'', VBool (o_is_dir o1))]\<rparr>"

definition run_orphan_downloads :: "deps \<Rightarrow> check_result result" where
  "run_orphan_downloads d =
     rbind (find_orphans d) (\<lambda>os.
       let fs = map (orphan_finding d)
                  (filter (\<lambda>o1. \<not> t_sub (d_now d) (o_mod_time o1) \<le> cc_orphan_after (cfg_checks (d_cfg d))) os)
       in Inr \<lparr>re_findings = fs, re_metrics = [(''orphan_downloads_count'', f_of_int (int (length fs)))]\<rparr>)"

section \<open>Catalogue rows\<close>

definition disk_checks :: "check list" where
  "disk_checks =
    [pure_check ''disk_pressure_pi_sd'' PiOnly TierNudge (24 * hour) (run_pressure ''disk_pressure_pi_sd'' TierNudge),
     pure_check ''disk_pressure_nas_volume'' NASOnly TierCorrect hour (run_pressure ''disk_pressure_nas_volume'' TierCorrect),
     pure_check ''docker_image_bloat'' PiOnly TierNudge (24 * hour) run_image_bloat,
     pure_check ''log_size'' PiOnly TierNudge (24 * hour)
       (run_dir_size ''log_size'' TierNudge log_dirs log_warn_gb ''log directory''),
     pure_check ''recycle_bin_size'' NASOnly TierCorrect (24 * hour)
       (run_dir_size ''recycle_bin_size'' TierCorrect recycle_dirs recycle_warn_gb ''recycle bin''),
     pure_check ''orphan_downloads'' NASOnly TierCorrect (24 * hour) run_orphan_downloads]"

section \<open>Lemmas on orphans\<close>

definition tracks :: "torrent \<Rightarrow> string \<Rightarrow> bool" where
  "tracks t p \<longleftrightarrow>
     (to_content_path t \<noteq> '''' \<and> (p = clean (to_content_path t) \<or> p = path_dir (to_content_path t))) \<or>
     (to_save_path t \<noteq> '''' \<and> to_name t \<noteq> '''' \<and> p = path_join (to_save_path t) (to_name t))"

lemma track_torrent_sets:
  "track_torrent kp t = kp' \<Longrightarrow>
   p \<in> set (fst kp') \<union> set (snd kp') \<longleftrightarrow> p \<in> set (fst kp) \<union> set (snd kp) \<or> tracks t p"
  by (auto simp: track_torrent_def tracks_def Let_def split: prod.splits if_splits)

lemma tracked_paths_sets_aux:
  "p \<in> set (fst (foldl track_torrent kp ts)) \<union> set (snd (foldl track_torrent kp ts)) \<longleftrightarrow>
   p \<in> set (fst kp) \<union> set (snd kp) \<or> (\<exists>t \<in> set ts. tracks t p)"
proof (induction ts arbitrary: kp)
  case Nil
  then show ?case by simp
next
  case (Cons t ts)
  show ?case using Cons.IH [of "track_torrent kp t"] track_torrent_sets [of kp t "track_torrent kp t" p] by auto
qed

lemma tracked_paths_sets:
  "tracked_paths ts = (known, parents) \<Longrightarrow>
   p \<in> set known \<or> p \<in> set parents \<longleftrightarrow> (\<exists>t \<in> set ts. tracks t p)"
  using tracked_paths_sets_aux [of p "([], [])" ts] by (simp add: tracked_paths_def)

definition orphan_of :: "string \<Rightarrow> dir_entry \<Rightarrow> orphan" where
  "orphan_of dir e = \<lparr>o_path = path_join dir (en_name e), o_size = en_size e, o_is_dir = en_is_dir e,
     o_mod_time = en_mod_time e\<rparr>"

lemma orphan_entries_filter:
  assumes "tracked_paths ts = (known, parents)"
  shows "orphan_entries dir es known parents =
    map (orphan_of dir) (filter (\<lambda>e. \<not> (\<exists>t \<in> set ts. tracks t (path_join dir (en_name e)))) es)"
  by (induction es) (auto simp: orphan_entries_def Let_def orphan_of_def tracked_paths_sets [OF assms, symmetric])

lemma find_orphans_cases:
  assumes "find_orphans d = Inr os"
  obtains h q ts yss where "d_host d = Some h" "d_qbit d = Some q" "qbit_torrents q '''' '''' = Inr ts"
    "list_all2 (\<lambda>dir ys. rbind (wrap_result (''listdir '' @ dir) (host_list_dir h dir)) (\<lambda>es. Inr
       (map (orphan_of dir) (filter (\<lambda>e. \<not> (\<exists>t \<in> set ts. tracks t (path_join dir (en_name e)))) es))) = Inr ys)
       (cc_downloads_dirs (cfg_checks (d_cfg d))) yss" "os = concat yss"
proof -
  obtain h q where hq: "d_host d = Some h" "d_qbit d = Some q"
    using assms by (auto simp: find_orphans_def Let_def split: option.splits)
  then obtain ts where ts: "qbit_torrents q '''' '''' = Inr ts"
    using assms by (auto simp: find_orphans_def Let_def rbind_eq_Inr split: if_splits)
  obtain known parents where tr: "tracked_paths ts = (known, parents)" by (cases "tracked_paths ts")
  let ?f = "\<lambda>os dir. rbind (wrap_result (''listdir '' @ dir) (host_list_dir h dir))
    (\<lambda>entries. Inr (os @ orphan_entries dir entries known parents))"
  let ?g = "\<lambda>dir. rbind (wrap_result (''listdir '' @ dir) (host_list_dir h dir)) (\<lambda>es. Inr
       (map (orphan_of dir) (filter (\<lambda>e. \<not> (\<exists>t \<in> set ts. tracks t (path_join dir (en_name e)))) es)))"
  have "rfoldl ?f [] (cc_downloads_dirs (cfg_checks (d_cfg d))) = Inr os"
    using assms hq ts tr by (auto simp: find_orphans_def Let_def split: if_splits)
  moreover have "?f s x = Inr s' \<Longrightarrow> \<exists>ys. ?g x = Inr ys \<and> s' = s @ ys" for s x s'
    by (auto simp: rbind_eq_Inr orphan_entries_filter [OF tr])
  ultimately have "\<exists>yss. list_all2 (\<lambda>dir ys. ?g dir = Inr ys) (cc_downloads_dirs (cfg_checks (d_cfg d))) yss \<and>
      os = [] @ concat yss" by (rule rfoldl_append_result [rotated])
  with hq ts that show thesis by auto
qed

lemma find_orphans_mem:
  assumes "find_orphans d = Inr os" "d_host d = Some h" "d_qbit d = Some q" "qbit_torrents q '''' '''' = Inr ts"
  shows "o1 \<in> set os \<longleftrightarrow>
    (\<exists>dir \<in> set (cc_downloads_dirs (cfg_checks (d_cfg d))). \<exists>es e. host_list_dir h dir = Inr es \<and> e \<in> set es \<and>
       o1 = orphan_of dir e \<and> \<not> (\<exists>t \<in> set ts. tracks t (o_path o1)))"
proof -
  let ?dirs = "cc_downloads_dirs (cfg_checks (d_cfg d))"
  from assms(1) obtain h' q' ts' yss where x: "d_host d = Some h'" "d_qbit d = Some q'"
    "qbit_torrents q' '''' '''' = Inr ts'" and l: "list_all2 (\<lambda>dir ys. rbind (wrap_result (''listdir '' @ dir) (host_list_dir h' dir)) (\<lambda>es. Inr
       (map (orphan_of dir) (filter (\<lambda>e. \<not> (\<exists>t \<in> set ts'. tracks t (path_join dir (en_name e)))) es))) = Inr ys)
       ?dirs yss" and os: "os = concat yss" by (rule find_orphans_cases)
  have l: "list_all2 (\<lambda>dir ys. \<exists>es. host_list_dir h dir = Inr es \<and> ys =
       map (orphan_of dir) (filter (\<lambda>e. \<not> (\<exists>t \<in> set ts. tracks t (path_join dir (en_name e)))) es)) ?dirs yss"
    using l x assms(2-4) by (auto simp: rbind_eq_Inr elim!: list_all2_mono)
  show ?thesis
  proof
    assume "o1 \<in> set os"
    then obtain ys where ys: "ys \<in> set yss" "o1 \<in> set ys" using os by auto
    from list_all2_ex_left [OF l ys(1)] ys(2)
    show "\<exists>dir \<in> set ?dirs. \<exists>es e. host_list_dir h dir = Inr es \<and> e \<in> set es \<and>
       o1 = orphan_of dir e \<and> \<not> (\<exists>t \<in> set ts. tracks t (o_path o1))"
      by (fastforce simp: orphan_of_def)
  next
    assume "\<exists>dir \<in> set ?dirs. \<exists>es e. host_list_dir h dir = Inr es \<and> e \<in> set es \<and>
       o1 = orphan_of dir e \<and> \<not> (\<exists>t \<in> set ts. tracks t (o_path o1))"
    then obtain dir es e where o1: "dir \<in> set ?dirs" "host_list_dir h dir = Inr es" "e \<in> set es" "o1 = orphan_of dir e"
      "\<not> (\<exists>t \<in> set ts. tracks t (o_path o1))" by blast
    from list_all2_ex_right [OF l o1(1)] o1(2) obtain ys where "ys \<in> set yss" "ys =
      map (orphan_of dir) (filter (\<lambda>e. \<not> (\<exists>t \<in> set ts. tracks t (path_join dir (en_name e)))) es)" by auto
    moreover have "o_path o1 = path_join dir (en_name e)" using o1(4) by (simp add: orphan_of_def)
    ultimately have "o1 \<in> set ys" "ys \<in> set yss" using o1(3-5) by auto
    then show "o1 \<in> set os" using os by auto
  qed
qed

section \<open>Properties\<close>

text \<open>C38: The orphans are exactly the listed entries of the configured downloads directories that
  no torrent of qBittorrent accounts for, by its content path, the directory of its content path or
  its save path joined with its name; no listing entry is lost and no tracked path is reported.\<close>

theorem orphans_are_exactly_untracked:
  assumes "find_orphans d = Inr os" "d_host d = Some h" "d_qbit d = Some q" "qbit_torrents q '''' '''' = Inr ts"
  shows "o1 \<in> set os \<longleftrightarrow>
    (\<exists>dir \<in> set (cc_downloads_dirs (cfg_checks (d_cfg d))). \<exists>es e. host_list_dir h dir = Inr es \<and> e \<in> set es \<and>
       o1 = orphan_of dir e \<and> \<not> (\<exists>t \<in> set ts. tracks t (o_path o1)))"
  using assms by (rule find_orphans_mem)

text \<open>A host with one downloads directory holding one entry, and a torrent two levels below it.\<close>

definition sample_host :: "dir_entry list \<Rightarrow> host_client" where
  "sample_host es = \<lparr>host_mounts = Inr [], host_is_mountpoint = (\<lambda>_. Inr True), host_device_id = (\<lambda>_. Inr 1),
     host_usage = (\<lambda>_. Inl (new_error ''no usage'')), host_dir_size = (\<lambda>_ _. Inr 0), host_list_dir = (\<lambda>_. Inr es)\<rparr>"

definition sample_qbit :: "torrent list \<Rightarrow> qbit_client" where
  "sample_qbit ts = \<lparr>qbit_version = Inr ''v5'', qbit_torrents = (\<lambda>_ _. Inr ts),
     qbit_files = (\<lambda>_. Inr []), qbit_preferences = Inl (new_error ''no preferences'')\<rparr>"

definition sample_torrent :: "string \<Rightarrow> string \<Rightarrow> string \<Rightarrow> torrent" where
  "sample_torrent n save content = \<lparr>to_hash = ''c0ffee'', to_name = n, to_state = ''uploading'', to_category = ''tv'',
     to_save_path = save, to_content_path = content, to_progress = Fin 1, to_ratio = Fin 1, to_size = 700,
     to_completed = 700, to_downloaded = 700, to_uploaded = 700, to_added_on = 1, to_completion_on = 2,
     to_seeding_time = hour, to_dl_speed = 0, to_up_speed = 0, to_num_seeds = 1, to_num_leechs = 0\<rparr>"

definition orphan_deps :: "config \<Rightarrow> deps" where
  "orphan_deps cfg = (sample_deps (cfg\<lparr>cfg_checks := (cfg_checks cfg)\<lparr>cc_downloads_dirs := [''/dl'']\<rparr>\<rparr>))
     \<lparr>d_node := NodeNAS, d_host := Some (sample_host [\<lparr>en_name = ''complete'', en_size = 0, en_is_dir = True, en_mod_time = 1\<rparr>]),
      d_qbit := Some (sample_qbit [sample_torrent ''Show'' ''/dl/complete/tv'' ''/dl/complete/tv/Show''])\<rparr>"

lemmas sample_defs = sample_deps_def sample_host_def sample_qbit_def sample_torrent_def orphan_deps_def

lemma find_orphans_sample:
  "find_orphans (orphan_deps cfg) = Inr [\<lparr>o_path = ''/dl/complete'', o_size = 0, o_is_dir = True, o_mod_time = 1\<rparr>]"
  by (simp add: find_orphans_def sample_defs tracked_paths_def track_torrent_def orphan_entries_def
      path_join_def path_dir_def clean_def clean_comps_def clean_step_def is_rooted_def)

theorem orphans_are_exactly_untracked_witness:
  "\<exists>es e. e \<in> set es \<and> orphan_of ''/dl'' e = \<lparr>o_path = ''/dl/complete'', o_size = 0, o_is_dir = True, o_mod_time = 1\<rparr>"
  using orphans_are_exactly_untracked [OF find_orphans_sample [of defaults],
      of "sample_host [\<lparr>en_name = ''complete'', en_size = 0, en_is_dir = True, en_mod_time = 1\<rparr>]"
      "sample_qbit [sample_torrent ''Show'' ''/dl/complete/tv'' ''/dl/complete/tv/Show'']"
      "[sample_torrent ''Show'' ''/dl/complete/tv'' ''/dl/complete/tv/Show'']"
      "\<lparr>o_path = ''/dl/complete'', o_size = 0, o_is_dir = True, o_mod_time = 1\<rparr>"]
  by (auto simp: orphan_deps_def sample_deps_def sample_qbit_def) metis

end
