(* ===== verification/Cleanup.thy ===== *)
theory Cleanup
  imports Checks_Disk
begin

text \<open>
  \<open>internal/cleanup\<close>: the four planners, which only read, and \<open>Execute\<close>, whose mutating calls
  are appended to the log of the \<open>world\<close> it is given. A \<open>Planner\<close> is the record of its three
  methods.
\<close>

type_synonym kind = string

abbreviation KindRecycle :: kind where "KindRecycle \<equiv> ''recycle''"
abbreviation KindOrphans :: kind where "KindOrphans \<equiv> ''orphans''"
abbreviation KindDocker :: kind where "KindDocker \<equiv> ''docker''"
abbreviation KindSeeded :: kind where "KindSeeded \<equiv> ''seeded''"

record plan_item =
  it_key :: string
  it_detail :: string
  it_bytes :: int

record plan =
  pn_kind :: kind
  pn_node :: node
  pn_items :: "plan_item list"
  pn_bytes :: int

record cleanup_result =
  cr_kind :: kind
  cr_executed :: int
  cr_bytes :: int
  cr_errors :: "string list"

definition err_actions_disabled :: goerr where
  "err_actions_disabled = GoErr ''cleanup: actions are disabled in config'' [ErrCleanupActionsDisabled]"

record planner =
  pl_kind :: kind
  pl_nodes :: "node list"
  pl_plan :: "deps \<Rightarrow> plan result"

section \<open>Planning\<close>

text \<open>\<open>plan.Items = append(...)\<close> and \<open>plan.Bytes += ...\<close>, in 64 bits.\<close>

definition add_item :: "plan \<Rightarrow> plan_item \<Rightarrow> plan" where
  "add_item p i = p\<lparr>pn_items := pn_items p @ [i], pn_bytes := wrap_int64 (pn_bytes p + it_bytes i)\<rparr>"

definition empty_plan :: "kind \<Rightarrow> deps \<Rightarrow> plan" where
  "empty_plan k d = \<lparr>pn_kind = k, pn_node = d_node d, pn_items = [], pn_bytes = 0\<rparr>"

definition recycle_entry_size :: "host_client \<Rightarrow> string \<Rightarrow> bool \<Rightarrow> int \<Rightarrow> int result" where
  "recycle_entry_size h path is_dir stat_size =
     (if \<not> is_dir then Inr stat_size
      else wrap_result (''cleanup: recycle: dirsize '' @ path) (host_dir_size h path 0))"

definition recycle_entry :: "deps \<Rightarrow> host_client \<Rightarrow> string \<Rightarrow> plan \<Rightarrow> dir_entry \<Rightarrow> plan result" where
  "recycle_entry d h dir p e =
     (if t_sub (d_now d) (en_mod_time e) < cl_recycle_min_age (cfg_cleanup (d_cfg d)) then Inr p
      else
        let full = path_join dir (en_name e)
        in rbind (recycle_entry_size h full (en_is_dir e) (en_size e)) (\<lambda>size.
             Inr (add_item p \<lparr>it_key = full,
               it_detail = ''recycle bin entry, modified '' @ fmt_date (d_local d) (en_mod_time e), it_bytes = size\<rparr>)))"

definition recycle_dir :: "deps \<Rightarrow> host_client \<Rightarrow> plan \<Rightarrow> string \<Rightarrow> plan result" where
  "recycle_dir d h p dir =
     rbind (wrap_result (''cleanup: recycle: listdir '' @ dir) (host_list_dir h dir))
       (\<lambda>es. rfoldl (recycle_entry d h dir) p es)"

definition plan_recycle :: "deps \<Rightarrow> plan result" where
  "plan_recycle d =
     (let dirs = cc_recycle_dirs (cfg_checks (d_cfg d))
      in case d_host d of
           None \<Rightarrow> Inl not_configured
         | Some h \<Rightarrow>
             if dirs = [] then Inl not_configured
             else rfoldl (recycle_dir d h) (empty_plan KindRecycle d) dirs)"

definition plan_orphan :: "deps \<Rightarrow> plan \<Rightarrow> orphan \<Rightarrow> plan" where
  "plan_orphan d p o1 =
     (if t_sub (d_now d) (o_mod_time o1) < cl_orphan_min_age (cfg_cleanup (d_cfg d)) then p
      else add_item p \<lparr>it_key = o_path o1,
             it_detail = ''orphaned download, modified '' @ fmt_date (d_local d) (o_mod_time o1), it_bytes = o_size o1\<rparr>)"

definition plan_orphans :: "deps \<Rightarrow> plan result" where
  "plan_orphans d =
     rbind (find_orphans d) (\<lambda>os. Inr (foldl (plan_orphan d) (empty_plan KindOrphans d) os))"

definition docker_images_key :: string where "docker_images_key = ''docker:images''"

definition plan_docker :: "deps \<Rightarrow> plan result" where
  "plan_docker d =
     (case d_docker d of
        None \<Rightarrow> Inl not_configured
      | Some c \<Rightarrow> rbind (wrap_result ''cleanup: docker: disk usage'' (docker_disk_usage c)) (\<lambda>u.
          let n = du_images_reclaimable u; p = empty_plan KindDocker d;
              scope = (if cl_docker_dangling (cfg_cleanup (d_cfg d)) then ''dangling'' else ''unused'')
          in if n \<le> 0 then Inr p
             else Inr (p\<lparr>pn_items := pn_items p @ [\<lparr>it_key = docker_images_key,
                    it_detail = in_gb n @ '' GB of '' @ scope @ '' images reclaimable'', it_bytes = n\<rparr>],
                    pn_bytes := n\<rparr>)))"

definition plan_torrent :: "plan \<Rightarrow> torrent \<Rightarrow> plan" where
  "plan_torrent p t = add_item p \<lparr>it_key = to_hash t,
     it_detail = to_name t @ '' seeded to target (ratio '' @ fmt_fixed 2 (to_ratio t) @ '', '' @
       show_int (seeding_hours t) @ ''h)'', it_bytes = to_size t\<rparr>"

definition plan_seeded :: "deps \<Rightarrow> plan result" where
  "plan_seeded d = rbind (seeded_done d) (\<lambda>ts. Inr (foldl plan_torrent (empty_plan KindSeeded d) ts))"

definition recycle_planner :: planner where
  "recycle_planner = \<lparr>pl_kind = KindRecycle, pl_nodes = NASOnly, pl_plan = plan_recycle\<rparr>"

definition orphans_planner :: planner where
  "orphans_planner = \<lparr>pl_kind = KindOrphans, pl_nodes = NASOnly, pl_plan = plan_orphans\<rparr>"

definition docker_planner :: planner where
  "docker_planner = \<lparr>pl_kind = KindDocker, pl_nodes = PiOnly, pl_plan = plan_docker\<rparr>"

definition seeded_planner :: planner where
  "seeded_planner = \<lparr>pl_kind = KindSeeded, pl_nodes = NASOnly, pl_plan = plan_seeded\<rparr>"

definition all_planners :: "planner list" where
  "all_planners = [recycle_planner, orphans_planner, docker_planner, seeded_planner]"

section \<open>Executing\<close>

definition is_under_dir :: "string \<Rightarrow> string \<Rightarrow> bool" where
  "is_under_dir dir path \<longleftrightarrow>
     (let dir = clean dir; path = clean path
      in if dir = path then True else has_prefix path (dir @ [sep]))"

definition under_any_prefix :: "string \<Rightarrow> string list \<Rightarrow> bool" where
  "under_any_prefix path prefixes \<longleftrightarrow> list_ex (\<lambda>prefix. is_under_dir prefix path) prefixes"

definition allowed_prefixes :: "config \<Rightarrow> kind \<Rightarrow> string list result" where
  "allowed_prefixes cfg k =
     (if k = KindRecycle then Inr (cc_recycle_dirs (cfg_checks cfg))
      else if k = KindOrphans then Inr (cc_downloads_dirs (cfg_checks cfg))
      else Inl (new_error (''cleanup: '' @ k @ '' does not remove host paths'')))"

definition host_remove_item ::
  "string list \<Rightarrow> cleanup_result \<times> world \<Rightarrow> plan_item \<Rightarrow> cleanup_result \<times> world" where
  "host_remove_item prefixes st i =
     (let (res, w) = st
      in if \<not> under_any_prefix (it_key i) prefixes then
           (res\<lparr>cr_errors := cr_errors res @
              [it_key i @ '': not under a configured directory, refusing to remove'']\<rparr>, w)
         else
           case perform (HostRemove (clean (it_key i))) w of
             (Inl e, w') \<Rightarrow> (res\<lparr>cr_errors := cr_errors res @ [it_key i @ '': '' @ err_msg e]\<rparr>, w')
           | (Inr _, w') \<Rightarrow>
               (res\<lparr>cr_executed := cr_executed res + 1, cr_bytes := wrap_int64 (cr_bytes res + it_bytes i)\<rparr>, w'))"

definition execute_host_remove :: "deps \<Rightarrow> plan \<Rightarrow> world \<Rightarrow> cleanup_result result \<times> world" where
  "execute_host_remove d p w =
     (case d_host d of
        None \<Rightarrow> (Inl (new_error (''cleanup: '' @ pn_kind p @ '': host filesystem client not configured'')), w)
      | Some _ \<Rightarrow>
          (case allowed_prefixes (d_cfg d) (pn_kind p) of
             Inl e \<Rightarrow> (Inl e, w)
           | Inr prefixes \<Rightarrow>
               let (res, w') = foldl (host_remove_item prefixes)
                     (\<lparr>cr_kind = pn_kind p, cr_executed = 0, cr_bytes = 0, cr_errors = []\<rparr>, w) (pn_items p)
               in (Inr res, w')))"

definition execute_docker :: "deps \<Rightarrow> plan \<Rightarrow> world \<Rightarrow> cleanup_result result \<times> world" where
  "execute_docker d p w =
     (case d_docker d of
        None \<Rightarrow> (Inl (new_error ''cleanup: docker: docker client not configured''), w)
      | Some _ \<Rightarrow>
          (case perform (DockerPrune (cl_docker_dangling (cfg_cleanup (d_cfg d)))) w of
             (Inl e, w') \<Rightarrow> (Inl (wrap_error ''cleanup: docker: prune images'' e), w')
           | (Inr reclaimed, w') \<Rightarrow>
               (Inr \<lparr>cr_kind = KindDocker, cr_executed = int (length (pn_items p)), cr_bytes = reclaimed,
                  cr_errors = []\<rparr>, w')))"

definition execute_seeded :: "deps \<Rightarrow> plan \<Rightarrow> world \<Rightarrow> cleanup_result result \<times> world" where
  "execute_seeded d p w =
     (case d_qbit d of
        None \<Rightarrow> (Inl (new_error ''cleanup: seeded: qbittorrent client not configured''), w)
      | Some _ \<Rightarrow>
          if length (pn_items p) = 0
          then (Inr \<lparr>cr_kind = KindSeeded, cr_executed = 0, cr_bytes = 0, cr_errors = []\<rparr>, w)
          else
            let hashes = map it_key (pn_items p)
            in case perform (QbitDelete hashes False) w of
                 (Inl e, w') \<Rightarrow> (Inl (wrap_error ''cleanup: seeded: delete torrents'' e), w')
               | (Inr _, w') \<Rightarrow>
                   (Inr \<lparr>cr_kind = KindSeeded, cr_executed = int (length hashes), cr_bytes = pn_bytes p,
                      cr_errors = []\<rparr>, w'))"

definition execute :: "deps \<Rightarrow> plan \<Rightarrow> world \<Rightarrow> cleanup_result result \<times> world" where
  "execute d p w =
     (if \<not> cfg_actions_enabled (d_cfg d) \<or> cl_dry_run (cfg_cleanup (d_cfg d))
      then (Inl err_actions_disabled, w)
      else if pn_kind p = KindRecycle \<or> pn_kind p = KindOrphans then execute_host_remove d p w
      else if pn_kind p = KindDocker then execute_docker d p w
      else if pn_kind p = KindSeeded then execute_seeded d p w
      else (Inl (new_error (''cleanup: execute: unknown kind '' @ go_quote (pn_kind p))), w))"

end
