(* ===== verification/Cleanup_Laws.thy ===== *)
theory Cleanup_Laws
  imports Cleanup "HOL-Library.Sublist"
begin

text \<open>
  What the cleanup package promises: the contract of a planner, the calls \<open>Execute\<close> makes and where
  a removal can land.
\<close>

section \<open>The contract of a planner\<close>

definition is_int64 :: "int \<Rightarrow> bool" where
  "is_int64 i \<longleftrightarrow> min_int64 \<le> i \<and> i \<le> max_int64"

lemma wrap_int64_id [simp]: "is_int64 i \<Longrightarrow> wrap_int64 i = i"
  by (simp add: is_int64_def min_int64_def max_int64_def wrap_int64_def)

lemma wrap_int64_add [simp]: "wrap_int64 (wrap_int64 i + j) = wrap_int64 (i + j)"
  by (simp add: wrap_int64_def algebra_simps mod_simps)

lemma is_int64_wrap [simp]: "is_int64 (wrap_int64 i)"
proof -
  have "0 \<le> (i + 9223372036854775808) mod 18446744073709551616"
    "(i + 9223372036854775808) mod 18446744073709551616 < 18446744073709551616" by simp_all
  then show ?thesis by (simp add: is_int64_def wrap_int64_def min_int64_def max_int64_def)
qed

definition items_total :: "plan_item list \<Rightarrow> int" where
  "items_total is = sum_list (map it_bytes is)"

lemma items_total_simps [simp]:
  "items_total [] = 0" "items_total (is @ js) = items_total is + items_total js"
  "items_total [i] = it_bytes i"
  by (simp_all add: items_total_def)

definition plan_ok :: "kind \<Rightarrow> deps \<Rightarrow> plan \<Rightarrow> bool" where
  "plan_ok k d p \<longleftrightarrow> pn_kind p = k \<and> pn_node p = d_node d \<and>
     ((\<forall>i \<in> set (pn_items p). is_int64 (it_bytes i)) \<longrightarrow> pn_bytes p = wrap_int64 (items_total (pn_items p)))"

definition summed :: "kind \<Rightarrow> deps \<Rightarrow> plan \<Rightarrow> bool" where
  "summed k d p \<longleftrightarrow> pn_kind p = k \<and> pn_node p = d_node d \<and> pn_bytes p = wrap_int64 (items_total (pn_items p))"

lemma summed_plan_ok: "summed k d p \<Longrightarrow> plan_ok k d p"
  by (simp add: summed_def plan_ok_def)

lemma summed_empty [simp]: "summed k d (empty_plan k d)"
  by (simp add: summed_def empty_plan_def wrap_int64_def)

lemma summed_add_item [simp]: "summed k d p \<Longrightarrow> summed k d (add_item p i)"
  by (simp add: summed_def add_item_def)

locale cleanup_planner =
  fixes kind :: kind and plan :: "deps \<Rightarrow> plan result"
  assumes plan_ok: "plan d = Inr p \<Longrightarrow> plan_ok kind d p"
begin

lemma plan_kind: "plan d = Inr p \<Longrightarrow> pn_kind p = kind"
  using plan_ok by (simp add: plan_ok_def)

lemma plan_node: "plan d = Inr p \<Longrightarrow> pn_node p = d_node d"
  using plan_ok by (simp add: plan_ok_def)

lemma plan_bytes:
  "plan d = Inr p \<Longrightarrow> \<forall>i \<in> set (pn_items p). is_int64 (it_bytes i) \<Longrightarrow> is_int64 (items_total (pn_items p)) \<Longrightarrow>
   pn_bytes p = items_total (pn_items p)"
  using plan_ok by (simp add: plan_ok_def)

text \<open>What \<open>Execute\<close> does to the plan depends on the planner's kind only.\<close>

lemma execute_dispatch:
  "plan d = Inr p \<Longrightarrow> cfg_actions_enabled (d_cfg d) \<Longrightarrow> \<not> cl_dry_run (cfg_cleanup (d_cfg d)) \<Longrightarrow>
   execute d p w =
     (if kind = KindRecycle \<or> kind = KindOrphans then execute_host_remove d p w
      else if kind = KindDocker then execute_docker d p w
      else if kind = KindSeeded then execute_seeded d p w
      else (Inl (new_error (''cleanup: execute: unknown kind '' @ go_quote kind)), w))"
  using plan_kind by (simp add: execute_def)

end

lemma summed_recycle_entry:
  assumes "summed k d p" "recycle_entry d h dir p e = Inr p'"
  shows "summed k d p'"
  using assms by (auto simp: recycle_entry_def Let_def rbind_eq_Inr split: if_splits)

lemma summed_recycle_dir:
  assumes "summed k d p" "recycle_dir d h p dir = Inr p'"
  shows "summed k d p'"
proof -
  obtain es where "rfoldl (recycle_entry d h dir) p es = Inr p'"
    using assms(2) by (auto simp: recycle_dir_def rbind_eq_Inr)
  from rfoldl_invariant [where I = "summed k d", OF _ assms(1) this] summed_recycle_entry show ?thesis by blast
qed

lemma summed_plan_recycle:
  assumes "plan_recycle d = Inr p"
  shows "summed KindRecycle d p"
proof -
  obtain h where "rfoldl (recycle_dir d h) (empty_plan KindRecycle d) (cc_recycle_dirs (cfg_checks (d_cfg d))) = Inr p"
    using assms by (auto simp: plan_recycle_def Let_def split: option.splits if_splits)
  from rfoldl_invariant [where I = "summed KindRecycle d", OF _ summed_empty this] summed_recycle_dir
  show ?thesis by blast
qed

lemma summed_plan_orphans:
  assumes "plan_orphans d = Inr p"
  shows "summed KindOrphans d p"
proof -
  obtain os where "p = foldl (plan_orphan d) (empty_plan KindOrphans d) os"
    using assms by (auto simp: plan_orphans_def rbind_eq_Inr)
  moreover have "summed KindOrphans d (foldl (plan_orphan d) (empty_plan KindOrphans d) os)"
    by (rule foldl_invariant) (auto simp: plan_orphan_def)
  ultimately show ?thesis by simp
qed

lemma summed_plan_seeded:
  assumes "plan_seeded d = Inr p"
  shows "summed KindSeeded d p"
proof -
  obtain ts where "p = foldl plan_torrent (empty_plan KindSeeded d) ts"
    using assms by (auto simp: plan_seeded_def rbind_eq_Inr)
  moreover have "summed KindSeeded d (foldl plan_torrent (empty_plan KindSeeded d) ts)"
    by (rule foldl_invariant) (auto simp: plan_torrent_def)
  ultimately show ?thesis by simp
qed

lemma plan_ok_plan_docker: "plan_docker d = Inr p \<Longrightarrow> plan_ok KindDocker d p"
  by (auto simp: plan_docker_def plan_ok_def Let_def empty_plan_def rbind_eq_Inr wrap_int64_def
      is_int64_def min_int64_def max_int64_def split: option.splits if_splits)

interpretation recycle: cleanup_planner KindRecycle plan_recycle
  by unfold_locales (rule summed_plan_ok, rule summed_plan_recycle)

interpretation orphans: cleanup_planner KindOrphans plan_orphans
  by unfold_locales (rule summed_plan_ok, rule summed_plan_orphans)

interpretation docker: cleanup_planner KindDocker plan_docker
  by unfold_locales (rule plan_ok_plan_docker)

interpretation seeded: cleanup_planner KindSeeded plan_seeded
  by unfold_locales (rule summed_plan_ok, rule summed_plan_seeded)

section \<open>Where a removal can land\<close>

lemma is_under_dir_comps:
  assumes "is_rooted dir" "is_under_dir dir path"
  shows "is_rooted path \<and> (\<exists>r. clean_comps path = clean_comps dir @ r)"
proof (cases "clean dir = clean path")
  case True
  then show ?thesis using assms(1) by (auto simp: clean_eq_iff)
next
  case False
  then obtain r where r: "clean path = clean dir @ sep # r"
    using assms(2) by (auto simp: is_under_dir_def Let_def has_prefix_iff)
  then have "is_rooted (clean path)" using assms(1) is_rooted_append [of "clean dir"] by simp
  then have p: "is_rooted path" by simp
  let ?cd = "clean_comps dir" and ?cp = "clean_comps path"
  have nd: "\<forall>c \<in> set ?cd. sep \<notin> set c" and np: "\<forall>c \<in> set ?cp. sep \<notin> set c \<and> c \<noteq> ''''"
    using normal_comps_no_sep [OF clean_comps_normal] by blast+
  have j: "join_with [sep] ?cp = join_with [sep] ?cd @ sep # r"
    using r p assms(1) by (simp add: clean_def Let_def)
  then have cp: "?cp \<noteq> []" by auto
  then have s: "?cp = split_on sep (join_with [sep] ?cd @ sep # r)"
    using split_on_join [of ?cp sep] np j by simp
  show ?thesis
  proof (cases "?cd = []")
    case True
    then have "is_rooted (join_with [sep] ?cp)" using j by (simp add: is_rooted_def)
    then show ?thesis using join_with_rooted [OF cp np] by simp
  next
    case False
    then have "?cp = ?cd @ split_on sep r"
      using s split_on_join [OF False nd] by (simp add: split_on_append_sep)
    with p show ?thesis by blast
  qed
qed

lemma under_any_prefix_ex: "under_any_prefix path ps \<longleftrightarrow> (\<exists>dir \<in> set ps. is_under_dir dir path)"
  by (auto simp: under_any_prefix_def list_ex_iff)

text \<open>A plain entry name joined to an absolute directory other than the root is under it.\<close>

lemma is_under_dir_path_join:
  assumes "is_rooted dir" "clean_comps dir \<noteq> []" "plain_comp n"
  shows "is_under_dir dir (path_join dir n)"
proof -
  have d: "dir \<noteq> ''''" using assms(1) by (auto simp: is_rooted_def)
  note c = path_join_comps [OF d assms(3)]
  have j: "join_with s (xs @ [x]) = join_with s xs @ s @ x" if "xs \<noteq> []" for s x :: string and xs
    using that by (induction xs) (auto simp: join_with_Cons)
  have "clean (path_join dir n) = clean dir @ sep # n"
    using assms(1,2) c by (simp add: clean_def Let_def j)
  then show ?thesis by (simp add: is_under_dir_def Let_def has_prefix_iff)
qed

section \<open>The calls of one execution\<close>

definition gate_open :: "deps \<Rightarrow> bool" where
  "gate_open d \<longleftrightarrow> cfg_actions_enabled (d_cfg d) \<and> \<not> cl_dry_run (cfg_cleanup (d_cfg d))"

definition removable :: "string list \<Rightarrow> plan \<Rightarrow> plan_item list" where
  "removable ps p = filter (\<lambda>i. under_any_prefix (it_key i) ps) (pn_items p)"

definition removal :: "plan_item \<Rightarrow> action" where
  "removal i = HostRemove (clean (it_key i))"

text \<open>The reference: the calls a plan stands for.\<close>

definition cleanup_calls :: "deps \<Rightarrow> plan \<Rightarrow> action list" where
  "cleanup_calls d p =
     (if \<not> gate_open d then []
      else if pn_kind p = KindRecycle then
        (if d_host d = None then [] else map removal (removable (cc_recycle_dirs (cfg_checks (d_cfg d))) p))
      else if pn_kind p = KindOrphans then
        (if d_host d = None then [] else map removal (removable (cc_downloads_dirs (cfg_checks (d_cfg d))) p))
      else if pn_kind p = KindDocker then
        (if d_docker d = None then [] else [DockerPrune (cl_docker_dangling (cfg_cleanup (d_cfg d)))])
      else if pn_kind p = KindSeeded then
        (if d_qbit d = None \<or> pn_items p = [] then [] else [QbitDelete (map it_key (pn_items p)) False])
      else [])"

lemma host_remove_item_log:
  "w_log (snd (host_remove_item ps (res, w) i)) =
     w_log w @ (if under_any_prefix (it_key i) ps then [removal i] else [])"
  by (auto simp: host_remove_item_def Let_def perform_def removal_def split: sum.splits)

lemma foldl_host_remove_log:
  "w_log (snd (foldl (host_remove_item ps) (res, w) is)) =
     w_log w @ map removal (filter (\<lambda>i. under_any_prefix (it_key i) ps) is)"
proof (induction "is" arbitrary: res w)
  case Nil
  then show ?case by simp
next
  case (Cons i "is")
  obtain res' w' where "host_remove_item ps (res, w) i = (res', w')" by fastforce
  with host_remove_item_log [of ps res w i] Cons.IH [of res' w'] show ?case by auto
qed

lemma execute_host_remove_log:
  "w_log (snd (execute_host_remove d p w)) = w_log w @
     (case (d_host d, allowed_prefixes (d_cfg d) (pn_kind p)) of
        (Some _, Inr ps) \<Rightarrow> map removal (removable ps p) | _ \<Rightarrow> [])"
  by (simp add: execute_host_remove_def Let_def removable_def case_prod_beta foldl_host_remove_log
      split: option.split sum.split)

lemma execute_log: "w_log (snd (execute d p w)) = w_log w @ cleanup_calls d p"
proof (cases "gate_open d")
  case False
  then show ?thesis by (auto simp: execute_def cleanup_calls_def gate_open_def)
next
  case True
  then show ?thesis
    by (auto simp: execute_def cleanup_calls_def gate_open_def execute_host_remove_log allowed_prefixes_def
        execute_docker_def execute_seeded_def Let_def perform_def split: option.splits sum.splits)
qed

section \<open>Accounting of host removals\<close>

definition removed_ok :: "plan_item list \<Rightarrow> cleanup_result \<Rightarrow> bool" where
  "removed_ok is res \<longleftrightarrow> cr_executed res + int (length (cr_errors res)) = int (length is) \<and>
     (\<exists>done. subseq done is \<and> int (length done) = cr_executed res \<and> cr_bytes res = wrap_int64 (items_total done))"

lemma removed_ok_step:
  assumes "removed_ok is res" "host_remove_item ps (res, w) i = (res', w')"
  shows "removed_ok (is @ [i]) res'"
proof -
  obtain done1 where don: "subseq done1 is" "int (length done1) = cr_executed res"
    "cr_bytes res = wrap_int64 (items_total done1)" using assms(1) by (auto simp: removed_ok_def)
  have n: "cr_executed res + int (length (cr_errors res)) = int (length is)" using assms(1) by (simp add: removed_ok_def)
  have skip: "subseq done1 (is @ [i])" using list_emb_append_mono [OF don(1), of "[]" "[i]"] by simp
  have take: "subseq (done1 @ [i]) (is @ [i])" using don(1) by (simp add: list_emb_append_mono)
  consider "cr_executed res' = cr_executed res" "cr_bytes res' = cr_bytes res" "length (cr_errors res') = Suc (length (cr_errors res))"
    | "cr_executed res' = cr_executed res + 1" "cr_bytes res' = wrap_int64 (cr_bytes res + it_bytes i)" "cr_errors res' = cr_errors res"
    using assms(2) by (auto simp: host_remove_item_def Let_def split: if_splits prod.splits sum.splits)
  then show ?thesis
  proof cases
    case 1
    with n don skip show ?thesis unfolding removed_ok_def by (auto intro!: exI [of _ done1])
  next
    case 2
    with n don take show ?thesis unfolding removed_ok_def by (auto intro!: exI [of _ "done1 @ [i]"])
  qed
qed

lemma removed_ok_foldl:
  "removed_ok js res \<Longrightarrow> foldl (host_remove_item ps) (res, w) is = (res', w') \<Longrightarrow> removed_ok (js @ is) res'"
proof (induction "is" arbitrary: js res w)
  case Nil
  then show ?case by simp
next
  case (Cons i "is")
  obtain r1 w1 where r1: "host_remove_item ps (res, w) i = (r1, w1)" by fastforce
  from Cons.IH [OF removed_ok_step [OF Cons.prems(1) r1], of w1] Cons.prems(2) r1 show ?case by simp
qed

lemma removed_ok_execute:
  assumes "execute_host_remove d p w = (Inr res, w')"
  shows "removed_ok (pn_items p) res"
proof -
  obtain ps where "foldl (host_remove_item ps)
      (\<lparr>cr_kind = pn_kind p, cr_executed = 0, cr_bytes = 0, cr_errors = []\<rparr>, w) (pn_items p) = (res, w')"
    using assms by (auto simp: execute_host_remove_def Let_def split: option.splits sum.splits prod.splits)
  moreover have "removed_ok [] \<lparr>cr_kind = pn_kind p, cr_executed = 0, cr_bytes = 0, cr_errors = []\<rparr>"
    by (simp add: removed_ok_def wrap_int64_def)
  ultimately show ?thesis using removed_ok_foldl [of "[]"] by fastforce
qed

section \<open>Keys of planned removals\<close>

definition keys_from :: "string list \<Rightarrow> (string \<Rightarrow> bool) \<Rightarrow> plan \<Rightarrow> bool" where
  "keys_from dirs N p \<longleftrightarrow> (\<forall>i \<in> set (pn_items p). \<exists>dir \<in> set dirs. \<exists>n. N n \<and> it_key i = path_join dir n)"

lemma keys_from_empty [simp]: "keys_from dirs N (empty_plan k d)"
  by (simp add: keys_from_def empty_plan_def)

lemma keys_from_add:
  "keys_from dirs N p \<Longrightarrow> dir \<in> set dirs \<Longrightarrow> N n \<Longrightarrow> it_key i = path_join dir n \<Longrightarrow> keys_from dirs N (add_item p i)"
  by (auto simp: keys_from_def add_item_def)

definition plain_listing :: "deps \<Rightarrow> string list \<Rightarrow> bool" where
  "plain_listing d dirs \<longleftrightarrow> (case d_host d of None \<Rightarrow> True | Some h \<Rightarrow>
     (\<forall>dir \<in> set dirs. case host_list_dir h dir of Inl _ \<Rightarrow> True | Inr es \<Rightarrow> (\<forall>e \<in> set es. plain_comp (en_name e))))"

lemma keys_from_recycle:
  assumes "plan_recycle d = Inr p" "plain_listing d (cc_recycle_dirs (cfg_checks (d_cfg d)))"
  shows "keys_from (cc_recycle_dirs (cfg_checks (d_cfg d))) plain_comp p"
proof -
  let ?dirs = "cc_recycle_dirs (cfg_checks (d_cfg d))"
  obtain h where h: "d_host d = Some h" "rfoldl (recycle_dir d h) (empty_plan KindRecycle d) ?dirs = Inr p"
    using assms(1) by (auto simp: plan_recycle_def Let_def split: option.splits if_splits)
  have step: "keys_from ?dirs plain_comp p2"
    if dir: "keys_from ?dirs plain_comp p1" "dir \<in> set ?dirs" "recycle_dir d h p1 dir = Inr p2" for p1 dir p2
  proof -
    obtain es where es: "host_list_dir h dir = Inr es" "rfoldl (recycle_entry d h dir) p1 es = Inr p2"
      using dir(3) by (auto simp: recycle_dir_def rbind_eq_Inr)
    have pl: "plain_comp (en_name e)" if "e \<in> set es" for e
      using assms(2) h(1) dir(2) es(1) that by (fastforce simp: plain_listing_def)
    show ?thesis
    proof (rule rfoldl_invariant [where I = "keys_from ?dirs plain_comp", OF _ dir(1) es(2)])
      fix p e p' assume e: "keys_from ?dirs plain_comp p" "e \<in> set es" "recycle_entry d h dir p e = Inr p'"
      show "keys_from ?dirs plain_comp p'"
      proof (cases "t_sub (d_now d) (en_mod_time e) < cl_recycle_min_age (cfg_cleanup (d_cfg d))")
        case True
        with e show ?thesis by (simp add: recycle_entry_def)
      next
        case False
        with e(3) obtain i where i: "p' = add_item p i" "it_key i = path_join dir (en_name e)"
          by (auto simp: recycle_entry_def Let_def rbind_eq_Inr)
        show ?thesis unfolding i(1) using e(1) dir(2) pl [OF e(2)] i(2) by (rule keys_from_add)
      qed
    qed
  qed
  show ?thesis by (rule rfoldl_invariant [where I = "keys_from ?dirs plain_comp", OF step keys_from_empty h(2)])
qed

lemma keys_from_orphans:
  assumes "plan_orphans d = Inr p" "plain_listing d (cc_downloads_dirs (cfg_checks (d_cfg d)))"
  shows "keys_from (cc_downloads_dirs (cfg_checks (d_cfg d))) plain_comp p"
proof -
  let ?dirs = "cc_downloads_dirs (cfg_checks (d_cfg d))"
  obtain os where os: "find_orphans d = Inr os" and p: "p = foldl (plan_orphan d) (empty_plan KindOrphans d) os"
    using assms(1) by (auto simp: plan_orphans_def rbind_eq_Inr)
  obtain h q ts yss where c: "d_host d = Some h" "d_qbit d = Some q" "qbit_torrents q '''' '''' = Inr ts"
    using find_orphans_cases [OF os] by metis
  have key: "\<exists>dir \<in> set ?dirs. \<exists>n. plain_comp n \<and> o_path o1 = path_join dir n" if "o1 \<in> set os" for o1
    using that find_orphans_mem [OF os c] assms(2) c(1) by (fastforce simp: plain_listing_def orphan_of_def)
  have "keys_from ?dirs plain_comp (foldl (plan_orphan d) p0 os')"
    if "keys_from ?dirs plain_comp p0" "set os' \<subseteq> set os" for p0 os'
    using that
  proof (induction os' arbitrary: p0)
    case Nil
    then show ?case by simp
  next
    case (Cons o1 os')
    obtain dir n where "dir \<in> set ?dirs" "plain_comp n" "o_path o1 = path_join dir n"
      using key [of o1] Cons.prems(2) by auto
    with Cons.prems(1) have "keys_from ?dirs plain_comp (plan_orphan d p0 o1)"
      by (auto simp: plan_orphan_def intro: keys_from_add)
    with Cons show ?case by simp
  qed
  from this [OF keys_from_empty, of os] p show ?thesis by simp
qed

lemma keys_from_removable:
  assumes "keys_from dirs plain_comp p" "\<forall>dir \<in> set dirs. is_rooted dir \<and> clean_comps dir \<noteq> []"
  shows "removable dirs p = pn_items p"
proof -
  have "under_any_prefix (it_key i) dirs" if "i \<in> set (pn_items p)" for i
    using assms that is_under_dir_path_join unfolding keys_from_def under_any_prefix_ex by metis
  then show ?thesis by (simp add: removable_def)
qed

section \<open>Concrete instances\<close>

definition acting :: "config \<Rightarrow> config" where
  "acting cfg = cfg\<lparr>cfg_actions_enabled := True, cfg_cleanup := (cfg_cleanup cfg)\<lparr>cl_dry_run := False\<rparr>\<rparr>"

definition sample_world :: world where
  "sample_world = \<lparr>w_log = [], w_answer = (\<lambda>_ _. Inr 0)\<rparr>"

definition sample_plan :: plan where
  "sample_plan = \<lparr>pn_kind = KindOrphans, pn_node = NodeNAS,
     pn_items = [\<lparr>it_key = ''/dl/complete'', it_detail = ''orphaned download, modified 0001-01-01'', it_bytes = 0\<rparr>],
     pn_bytes = 0\<rparr>"

lemma fmt_date_one: "fmt_date utc 1 = ''0001-01-01''"
  by code_simp

lemma plan_orphans_sample: "plan_orphans (orphan_deps (acting defaults)) = Inr sample_plan"
  by (simp add: plan_orphans_def find_orphans_sample plan_orphan_def empty_plan_def add_item_def sample_plan_def)
    (simp add: orphan_deps_def sample_deps_def acting_def defaults_def t_sub_def min_int64_def max_int64_def
      wrap_int64_def fmt_date_one)

lemma cleanup_calls_sample:
  "cleanup_calls (orphan_deps (acting defaults)) sample_plan = [HostRemove ''/dl/complete'']"
  by (simp add: cleanup_calls_def gate_open_def orphan_deps_def sample_deps_def acting_def sample_plan_def
      removable_def removal_def under_any_prefix_def is_under_dir_def clean_def clean_comps_def clean_step_def
      is_rooted_def has_prefix_def)

section \<open>Properties\<close>

text \<open>C31: Executing a plan makes exactly the external calls the plan stands for, in the plan's
  order: none while actions are disabled or dry-run is on, one removal per item under a configured
  directory for recycle and orphans, one prune for docker, one delete that keeps the files for
  seeded, and none for an unknown kind or a missing client.\<close>

theorem execute_makes_the_planned_calls:
  "w_log (snd (execute d p w)) = w_log w @ cleanup_calls d p"
  by (rule execute_log)

text \<open>C30: With absolute configured directories, every path \<open>Execute\<close> removes, whatever plan it is
  given, is a cleaned path without \<open>..\<close> whose elements extend those of a configured recycle or
  downloads directory, and a removal only happens when actions are enabled and dry-run is off.\<close>

theorem removals_stay_in_configured_dirs:
  assumes "w_log (snd (execute d p w)) = w_log w @ acts" "HostRemove path \<in> set acts"
    "\<forall>dir \<in> set (cc_recycle_dirs (cfg_checks (d_cfg d)) @ cc_downloads_dirs (cfg_checks (d_cfg d))). is_rooted dir"
  shows "clean path = path \<and> ''..'' \<notin> set (clean_comps path) \<and>
    (\<exists>dir \<in> set (cc_recycle_dirs (cfg_checks (d_cfg d)) @ cc_downloads_dirs (cfg_checks (d_cfg d))).
       \<exists>rest. clean_comps path = clean_comps dir @ rest) \<and>
    cfg_actions_enabled (d_cfg d) \<and> \<not> cl_dry_run (cfg_cleanup (d_cfg d))"
proof -
  let ?dirs = "cc_recycle_dirs (cfg_checks (d_cfg d)) @ cc_downloads_dirs (cfg_checks (d_cfg d))"
  have "acts = cleanup_calls d p" using assms(1) execute_log [of d p w] by simp
  with assms(2) have m: "HostRemove path \<in> set (cleanup_calls d p)" by simp
  then have gate: "gate_open d" by (auto simp: cleanup_calls_def split: if_splits)
  let ?mem = "\<lambda>ps. HostRemove path \<in> set (map removal (removable ps p))"
  have "?mem (cc_recycle_dirs (cfg_checks (d_cfg d))) \<or> ?mem (cc_downloads_dirs (cfg_checks (d_cfg d)))"
    using m by (simp add: cleanup_calls_def split: if_splits)
  then obtain ps where ps: "?mem ps" "set ps \<subseteq> set ?dirs" by (metis Un_upper1 Un_upper2 set_append)
  then obtain i :: plan_item where i: "path = clean (it_key i)" "under_any_prefix (it_key i) ps"
    by (auto simp: removable_def removal_def)
  then obtain dir where dir: "dir \<in> set ?dirs" "is_under_dir dir (it_key i)" using ps(2) by (auto simp: under_any_prefix_ex)
  with assms(3) is_under_dir_comps obtain rest where
    r: "is_rooted (it_key i)" "clean_comps (it_key i) = clean_comps dir @ rest" by blast
  have "''..'' \<notin> set (clean_comps (it_key i))"
    using clean_comps_rooted [OF r(1), of "''..''"] by (auto simp: plain_comp_def)
  with i(1) r(2) dir(1) gate show ?thesis by (auto simp: gate_open_def)
qed

theorem removals_stay_in_configured_dirs_witness:
  "\<exists>rest. clean_comps ''/dl/complete'' = clean_comps ''/dl'' @ rest"
proof -
  let ?d = "orphan_deps (acting defaults)"
  have "w_log (snd (execute ?d sample_plan sample_world)) = w_log sample_world @ [HostRemove ''/dl/complete'']"
    by (simp only: execute_log cleanup_calls_sample)
  from removals_stay_in_configured_dirs [OF this, of "''/dl/complete''"]
  show ?thesis by (simp add: orphan_deps_def sample_deps_def acting_def defaults_def default_checks_def is_rooted_def)
qed

text \<open>A removal that fails or is refused does not stop the rest: every item is either counted as
  executed or has its line in \<open>Errors\<close>, and \<open>Bytes\<close> is the total of the executed items.\<close>

theorem partial_failures_are_accounted:
  assumes "execute d p w = (Inr res, w')" "pn_kind p = KindRecycle \<or> pn_kind p = KindOrphans"
  shows "cr_executed res + int (length (cr_errors res)) = int (length (pn_items p)) \<and>
    (\<exists>removed. subseq removed (pn_items p) \<and> int (length removed) = cr_executed res \<and>
       cr_bytes res = wrap_int64 (items_total removed))"
proof -
  have "execute_host_remove d p w = (Inr res, w')" using assms by (auto simp: execute_def split: if_splits)
  from removed_ok_execute [OF this] show ?thesis by (simp add: removed_ok_def)
qed

lemma execute_sample:
  "execute (orphan_deps (acting defaults)) sample_plan sample_world =
     (Inr \<lparr>cr_kind = KindOrphans, cr_executed = 1, cr_bytes = 0, cr_errors = []\<rparr>,
      sample_world\<lparr>w_log := [HostRemove ''/dl/complete'']\<rparr>)"
  by (simp add: execute_def orphan_deps_def sample_deps_def acting_def sample_plan_def execute_host_remove_def
      allowed_prefixes_def host_remove_item_def perform_def sample_world_def wrap_int64_def
      under_any_prefix_def is_under_dir_def clean_def clean_comps_def clean_step_def is_rooted_def has_prefix_def)

theorem partial_failures_are_accounted_witness:
  "\<exists>removed. subseq removed (pn_items sample_plan) \<and> length removed = 1"
  using partial_failures_are_accounted [OF execute_sample] by (auto simp: sample_plan_def)

text \<open>What the recycle and orphan planners propose, \<open>Execute\<close> accepts: with directories that
  are absolute and not the root, and listings of plain names, the removals are those of all the
  planned items, so none is refused.\<close>

theorem planned_removals_are_accepted:
  assumes "plan_recycle d = Inr p \<and> dirs = cc_recycle_dirs (cfg_checks (d_cfg d)) \<or>
      plan_orphans d = Inr p \<and> dirs = cc_downloads_dirs (cfg_checks (d_cfg d))"
    and "\<forall>dir \<in> set dirs. is_rooted dir \<and> clean_comps dir \<noteq> []" "plain_listing d dirs" "gate_open d"
  shows "w_log (snd (execute d p w)) = w_log w @ map removal (pn_items p)"
proof -
  have "removable dirs p = pn_items p"
    using assms(1-3) keys_from_recycle keys_from_orphans by (intro keys_from_removable) auto
  moreover have "d_host d \<noteq> None"
    using assms(1) by (auto simp: plan_recycle_def plan_orphans_def Let_def rbind_eq_Inr
        split: option.splits elim: find_orphans_cases)
  moreover have "pn_kind p = KindRecycle \<and> dirs = cc_recycle_dirs (cfg_checks (d_cfg d)) \<or>
      pn_kind p = KindOrphans \<and> dirs = cc_downloads_dirs (cfg_checks (d_cfg d))"
    using assms(1) recycle.plan_kind orphans.plan_kind by blast
  ultimately have "cleanup_calls d p = map removal (pn_items p)" using assms(4) by (auto simp: cleanup_calls_def)
  then show ?thesis by (simp only: execute_log)
qed

theorem planned_removals_are_accepted_witness:
  "w_log (snd (execute (orphan_deps (acting defaults)) sample_plan sample_world)) = [HostRemove ''/dl/complete'']"
proof -
  let ?d = "orphan_deps (acting defaults)"
  have "\<forall>dir \<in> set [''/dl'']. is_rooted dir \<and> clean_comps dir \<noteq> []"
    by (simp add: is_rooted_def clean_comps_def clean_step_def)
  moreover have "plain_listing ?d [''/dl'']" "gate_open ?d"
    by (simp_all add: plain_listing_def gate_open_def orphan_deps_def sample_deps_def sample_host_def acting_def plain_comp_def)
  ultimately have "w_log (snd (execute ?d sample_plan sample_world)) = w_log sample_world @ map removal (pn_items sample_plan)"
    by (intro planned_removals_are_accepted [where dirs = "[''/dl'']"])
      (simp_all only: plan_orphans_sample, simp_all add: orphan_deps_def sample_deps_def)
  then show ?thesis
    by (simp add: sample_world_def sample_plan_def removal_def clean_def clean_comps_def clean_step_def is_rooted_def)
qed

text \<open>Every planner of \<open>All\<close> keeps the contract of a plan: its own kind, the node it ran on,
  and \<open>Bytes\<close> equal to the total of its items in 64-bit arithmetic.\<close>

theorem planners_honour_contract:
  assumes "pl \<in> set all_planners" "pl_plan pl d = Inr p" "\<forall>i \<in> set (pn_items p). is_int64 (it_bytes i)"
  shows "pn_kind p = pl_kind pl \<and> pn_node p = d_node d \<and> pn_bytes p = wrap_int64 (items_total (pn_items p))"
proof -
  have "plan_ok (pl_kind pl) d p"
    using assms(1,2) recycle.plan_ok orphans.plan_ok docker.plan_ok seeded.plan_ok
    by (auto simp: all_planners_def recycle_planner_def orphans_planner_def docker_planner_def seeded_planner_def)
  with assms(3) show ?thesis by (simp add: plan_ok_def)
qed

theorem planners_honour_contract_witness:
  "pn_bytes sample_plan = wrap_int64 (items_total (pn_items sample_plan))"
  using planners_honour_contract [of orphans_planner "orphan_deps (acting defaults)" sample_plan]
  by (simp add: all_planners_def orphans_planner_def plan_orphans_sample)
    (simp add: sample_plan_def is_int64_def min_int64_def max_int64_def)

text \<open>The orphan rule looks only one level deep: a listed directory that holds the content of a
  torrent two levels below it is an orphan, and a cleanup with actions enabled removes it, content
  included.\<close>

theorem tracked_content_can_be_removed:
  "plan_orphans (orphan_deps (acting defaults)) = Inr sample_plan \<and>
   w_log (snd (execute (orphan_deps (acting defaults)) sample_plan sample_world)) = [HostRemove ''/dl/complete''] \<and>
   (\<exists>q t. d_qbit (orphan_deps (acting defaults)) = Some q \<and> qbit_torrents q '''' '''' = Inr [t] \<and>
      clean_comps (to_content_path t) = clean_comps ''/dl/complete'' @ [''tv'', ''Show''])"
proof (intro conjI)
  show "w_log (snd (execute (orphan_deps (acting defaults)) sample_plan sample_world)) = [HostRemove ''/dl/complete'']"
    by (simp only: execute_sample snd_conv) simp
qed (rule plan_orphans_sample, simp add: orphan_deps_def sample_deps_def sample_qbit_def sample_torrent_def
    clean_comps_def clean_step_def is_rooted_def)

end
