(* ===== verification/Checks_Mounts.thy ===== *)
theory Checks_Mounts
  imports Check_Engine
begin

text \<open>
  \<open>internal/checks/mounts\<close>: a bind mount that fell through to the container's own file system, and
  the host side of each configured mount. Text is ASCII where \<open>strings.TrimSpace\<close> looks at it.
\<close>

section \<open>The probe\<close>

text \<open>\<open>strings.ReplaceAll(s, "'", `'\''`)\<close> between single quotes.\<close>

definition quote_sh_char :: "char \<Rightarrow> string" where
  "quote_sh_char c = (if c = CHR 0x27 then [CHR 0x27, CHR 0x5C, CHR 0x27, CHR 0x27] else [c])"

definition shell_quote :: "string \<Rightarrow> string" where
  "shell_quote s = [CHR 0x27] @ concat (map quote_sh_char s) @ [CHR 0x27]"

definition probe_cmd :: "string \<Rightarrow> string" where
  "probe_cmd container_path =
     (let q = shell_quote container_path
      in ''( stat -c %d / '' @ q @ ''; ls -A '' @ q @ '' | wc -l ) 2>/dev/null'')"

definition parse_mount_probe :: "string \<Rightarrow> (int \<times> int \<times> int) result" where
  "parse_mount_probe out =
     (case split_on newline (trim_space out) of
        [l0, l1, l2] \<Rightarrow>
          rbind (wrap_result ''root device'' (parse_uint (trim_space l0))) (\<lambda>root_dev.
          rbind (wrap_result ''path device'' (parse_uint (trim_space l1))) (\<lambda>path_dev.
          rbind (wrap_result ''entry count'' (parse_int (trim_space l2))) (\<lambda>entries.
            Inr (root_dev, path_dev, entries))))
      | ls \<Rightarrow> Inl (new_error (''expected 3 lines, got '' @ show_int (int (length ls)))))"

section \<open>Mount race\<close>

definition decide_mount_race ::
  "deps \<Rightarrow> string \<Rightarrow> int \<Rightarrow> int \<Rightarrow> int \<Rightarrow> bool \<Rightarrow> finding option" where
  "decide_mount_race d key root_dev path_dev entries host_mounted =
     (let dat = [(''rootDevice'', VInt root_dev), (''pathDevice'', VInt path_dev), (''entries'', VInt entries),
                 (''hostMounted'', VBool host_mounted)]
      in if path_dev = root_dev then
           Some ((new_finding d ''mount_race'' key SeverityCritical TierCorrect
               (key @ '' is bound to the container root filesystem (mount race)''))\<lparr>fi_data := dat\<rparr>)
         else if entries = 0 \<and> host_mounted then
           Some ((new_finding d ''mount_race'' key SeverityWarn TierCorrect
               (key @ '' is empty while host mount is healthy''))\<lparr>fi_data := dat\<rparr>)
         else None)"

definition inspect_mount :: "deps \<Rightarrow> docker_client \<Rightarrow> host_client \<Rightarrow> mount_cfg \<Rightarrow> finding option result" where
  "inspect_mount d dk h m =
     (let key = mc_container m @ '':'' @ mc_container_path m
      in case docker_exec dk (mc_container m) [''sh'', ''-c'', probe_cmd (mc_container_path m)] of
           Inl e \<Rightarrow> Inr (Some ((new_finding d ''mount_race'' key SeverityCritical TierCorrect
               ''cannot inspect mount inside container'')\<lparr>fi_detail := err_msg e\<rparr>))
         | Inr out \<Rightarrow>
             (case parse_mount_probe out of
                Inl e \<Rightarrow> Inr (Some ((new_finding d ''mount_race'' key SeverityCritical TierCorrect
                    (''cannot parse mount probe for '' @ key))
                    \<lparr>fi_detail := err_msg e, fi_data := [(''raw'', VStr out)]\<rparr>))
              | Inr (root_dev, path_dev, entries) \<Rightarrow>
                  rbind (wrap_result (''is mountpoint '' @ mc_host m) (host_is_mountpoint h (mc_host m)))
                    (\<lambda>mounted. Inr (decide_mount_race d key root_dev path_dev entries mounted))))"

definition run_mount_race :: "deps \<Rightarrow> check_result result" where
  "run_mount_race d =
     (case (d_docker d, d_host d) of
        (Some dk, Some h) \<Rightarrow>
          if cfg_mounts (d_cfg d) = [] then Inl not_configured
          else rbind (rfoldl (\<lambda>fs m. rbind (inspect_mount d dk h m) (\<lambda>f. Inr (fs @ opt_list f)))
                 [] (cfg_mounts (d_cfg d)))
               (\<lambda>fs. Inr \<lparr>re_findings = fs, re_metrics = []\<rparr>)
      | _ \<Rightarrow> Inl not_configured)"

section \<open>Host mounts\<close>

definition add_host_path :: "string list \<Rightarrow> mount_cfg \<Rightarrow> string list" where
  "add_host_path paths m = (if mc_host m \<in> set paths then paths else paths @ [mc_host m])"

definition unique_host_paths :: "mount_cfg list \<Rightarrow> string list" where
  "unique_host_paths ms = foldl add_host_path [] ms"

text \<open>A finding, or the used percentage when the mount is readable.\<close>

definition inspect_host_mount :: "deps \<Rightarrow> host_client \<Rightarrow> string \<Rightarrow> (finding + f64) result" where
  "inspect_host_mount d h path =
     rbind (wrap_result (''is mountpoint '' @ path) (host_is_mountpoint h path)) (\<lambda>mounted.
       if \<not> mounted then
         Inr (Inl (new_finding d ''host_mount_health'' path SeverityCritical TierObserve (path @ '' is not a mount point'')))
       else
         case host_usage h path of
           Inl e \<Rightarrow> Inr (Inl (new_finding d ''host_mount_health'' path SeverityCritical TierObserve
                      (path @ '' unreadable: '' @ err_msg e)))
         | Inr u \<Rightarrow> Inr (Inr (us_used_percent u)))"

definition host_mount_step :: "deps \<Rightarrow> host_client \<Rightarrow> check_result \<Rightarrow> string \<Rightarrow> check_result result" where
  "host_mount_step d h res path =
     rbind (inspect_host_mount d h path) (\<lambda>r. Inr
       (case r of
          Inl f \<Rightarrow> res\<lparr>re_findings := re_findings res @ [f]\<rparr>
        | Inr pct \<Rightarrow> res\<lparr>re_metrics := map_set (''mount_used_percent:'' @ path) pct (re_metrics res)\<rparr>))"

definition run_host_mount_health :: "deps \<Rightarrow> check_result result" where
  "run_host_mount_health d =
     (case d_host d of
        None \<Rightarrow> Inl not_configured
      | Some h \<Rightarrow>
          if cfg_mounts (d_cfg d) = [] then Inl not_configured
          else rfoldl (host_mount_step d h) \<lparr>re_findings = [], re_metrics = []\<rparr>
                 (unique_host_paths (cfg_mounts (d_cfg d))))"

section \<open>Catalogue rows\<close>

definition mounts_checks :: "check list" where
  "mounts_checks =
    [pure_check ''mount_race'' PiOnly TierCorrect (5 * minute) run_mount_race,
     pure_check ''host_mount_health'' BothNodes TierObserve (5 * minute) run_host_mount_health]"

end
