(* ===== verification/Mounts_Laws.thy ===== *)
theory Mounts_Laws
  imports Checks_Mounts
begin

text \<open>The mount probe: the command reads one path whatever its characters, and its output reads back.\<close>

section \<open>Shell words\<close>

text \<open>
  How a POSIX shell reads one word: single quotes keep every character, a backslash outside quotes
  keeps the next one, and the word ends at an unquoted blank or operator.
\<close>

definition sh_ends :: "char \<Rightarrow> bool" where
  "sh_ends c \<longleftrightarrow> c \<in> set '' ;|&()<>'' \<or> c = newline"

fun sh_word :: "string \<Rightarrow> string \<Rightarrow> (string \<times> string) option"
  and sh_quoted :: "string \<Rightarrow> string \<Rightarrow> (string \<times> string) option" where
  "sh_word acc [] = Some (rev acc, [])"
| "sh_word acc (c # cs) =
     (if c = CHR 0x27 then sh_quoted acc cs
      else if c = CHR 0x5C then (case cs of [] \<Rightarrow> None | e # es \<Rightarrow> sh_word (e # acc) es)
      else if sh_ends c then Some (rev acc, c # cs)
      else sh_word (c # acc) cs)"
| "sh_quoted acc [] = None"
| "sh_quoted acc (c # cs) = (if c = CHR 0x27 then sh_word acc cs else sh_quoted (c # acc) cs)"

lemma sh_quoted_body:
  "sh_quoted acc (concat (map quote_sh_char s) @ CHR 0x27 # rest) = sh_word (rev s @ acc) rest"
  by (induction s arbitrary: acc) (auto simp: quote_sh_char_def)

lemma sh_word_shell_quote: "sh_word acc (shell_quote s @ rest) = sh_word (rev s @ acc) rest"
  by (simp add: shell_quote_def sh_quoted_body)

section \<open>The probe's output\<close>

lemma show_int_nonneg: "0 \<le> i \<Longrightarrow> show_int i = show_nat (nat i)"
  by (simp add: show_int_def)

lemma digit_not_space: "d < 10 \<Longrightarrow> \<not> is_space (digit_char d)"
  by (auto simp: is_space_def digit_char_def Let_def)

lemma is_space_show_nat: "c \<in> set (show_nat n) \<Longrightarrow> \<not> is_space c"
  using set_show_nat digit_not_space by blast

lemma dropWhile_pad: "\<forall>c \<in> set p. is_space c \<Longrightarrow> dropWhile is_space (p @ s) = dropWhile is_space s"
  by (induction p) auto

lemma dropWhile_first: "s \<noteq> [] \<Longrightarrow> \<not> is_space (hd s) \<Longrightarrow> dropWhile is_space s = s"
  by (cases s) auto

lemma trim_space_mid:
  assumes "\<forall>c \<in> set p. is_space c" "\<forall>c \<in> set q. is_space c" "s \<noteq> []" "\<not> is_space (hd s)" "\<not> is_space (last s)"
  shows "trim_space (p @ s @ q) = s"
proof -
  have "dropWhile is_space (p @ s @ q) = s @ q"
    using assms by (simp add: dropWhile_pad dropWhile_first)
  moreover have "dropWhile is_space (rev (s @ q)) = rev s"
    using assms dropWhile_pad [of "rev q" "rev s"] dropWhile_first [of "rev s"] by (simp add: hd_rev)
  ultimately show ?thesis by (simp add: trim_space_def)
qed

lemma newline_space [simp]: "is_space newline"
  by (simp add: is_space_def newline_def)

lemma newline_not_shown: "newline \<notin> set (show_nat n)"
  using is_space_show_nat by force

lemma parse_uint_show: "0 \<le> i \<Longrightarrow> i \<le> max_uint64 \<Longrightarrow> parse_uint (show_int i) = Inr i"
  by (simp add: parse_uint_def parse_uint64_def show_int_nonneg)

lemma parse_int_show: "0 \<le> i \<Longrightarrow> i \<le> max_int64 \<Longrightarrow> parse_int (show_int i) = Inr i"
  using parse_int64_show_int [of i] by (simp add: parse_int_def min_int64_def)

text \<open>What the probe prints; \<open>wc\<close> may pad the count with blanks.\<close>

definition probe_output :: "int \<Rightarrow> int \<Rightarrow> nat \<Rightarrow> int \<Rightarrow> string" where
  "probe_output root_dev path_dev blanks entries =
     show_int root_dev @ [newline] @ show_int path_dev @ [newline] @ replicate blanks CHR '' '' @ show_int entries @ [newline]"

lemma trim_shown [simp]: "trim_space (show_nat n) = show_nat n"
  using trim_space_mid [of "[]" "[]" "show_nat n"] is_space_show_nat [of _ n]
  by simp

lemma trim_padded: "trim_space (replicate k CHR '' '' @ show_nat n) = show_nat n"
  using trim_space_mid [of "replicate k CHR '' ''" "[]" "show_nat n"] is_space_show_nat [of _ n]
  by (simp add: is_space_def)

lemma parse_mount_probe_output:
  assumes "0 \<le> r" "r \<le> max_uint64" "0 \<le> p" "p \<le> max_uint64" "0 \<le> n" "n \<le> max_int64"
  shows "parse_mount_probe (probe_output r p k n) = Inr (r, p, n)"
proof -
  let ?l = "replicate k CHR '' '' @ show_nat (nat n)"
  let ?s = "show_nat (nat r) @ newline # show_nat (nat p) @ newline # ?l"
  have "trim_space (probe_output r p k n) = ?s"
    using trim_space_mid [of "[]" "[newline]" ?s] is_space_show_nat [of _ "nat r"] is_space_show_nat [of _ "nat n"]
    by (simp add: probe_output_def show_int_nonneg assms hd_append)
  moreover have "split_on newline ?s = [show_nat (nat r), show_nat (nat p), ?l]"
    using newline_not_shown by (auto simp: split_on_Cons_other split_on_single newline_def)
  ultimately show ?thesis
    using parse_uint_show [of r] parse_uint_show [of p] parse_int_show [of n] assms
    by (simp add: parse_mount_probe_def trim_padded show_int_nonneg)
qed

section \<open>Properties\<close>

text \<open>C3: The probe names one path: in both places the shell reads the quoted container path as a
  single word equal to the path, whatever quotes, blanks or operators it contains, so a mount's
  configuration cannot add commands.\<close>

theorem probe_reads_one_path:
  "probe_cmd p = ''( stat -c %d / '' @ shell_quote p @ ''; ls -A '' @ shell_quote p @ '' | wc -l ) 2>/dev/null'' \<and>
   sh_word [] (shell_quote p @ ''; ls -A '' @ rest) = Some (p, ''; ls -A '' @ rest) \<and>
   sh_word [] (shell_quote p @ '' | wc -l ) 2>/dev/null'') = Some (p, '' | wc -l ) 2>/dev/null'')"
  by (simp add: probe_cmd_def Let_def sh_word_shell_quote sh_ends_def)

text \<open>A bind mount that fell through is always detected: when the probe answers with the devices
  and the entry count, the check reports a critical finding exactly when the path is on the
  container's root device, a warning exactly when it is elsewhere but empty while the host side is
  mounted, and nothing otherwise.\<close>

theorem mount_race_decided:
  assumes "docker_exec dk (mc_container m) [''sh'', ''-c'', probe_cmd (mc_container_path m)] = Inr (probe_output r p k n)"
    and "host_is_mountpoint h (mc_host m) = Inr mounted"
    and "0 \<le> r" "r \<le> max_uint64" "0 \<le> p" "p \<le> max_uint64" "0 \<le> n" "n \<le> max_int64"
  shows "\<exists>f. inspect_mount d dk h m = Inr f \<and>
    map_option fi_severity f =
      (if p = r then Some SeverityCritical else if n = 0 \<and> mounted then Some SeverityWarn else None)"
proof -
  have "inspect_mount d dk h m =
      Inr (decide_mount_race d (mc_container m @ '':'' @ mc_container_path m) r p n mounted)"
    by (simp add: inspect_mount_def Let_def assms(1,2) parse_mount_probe_output [OF assms(3-8)])
  then show ?thesis by (simp add: decide_mount_race_def Let_def)
qed

definition sample_mount :: mount_cfg where
  "sample_mount = \<lparr>mc_host = ''/mnt/media'', mc_container = ''sonarr'', mc_container_path = ''/media''\<rparr>"

definition sample_docker :: docker_client where
  "sample_docker = \<lparr>docker_containers = Inr [], docker_logs = (\<lambda>_ _. Inr ''''),
     docker_disk_usage = Inl (new_error ''no usage''), docker_exec = (\<lambda>_ _. Inr (probe_output 64 64 0 12))\<rparr>"

definition mounted_host :: host_client where
  "mounted_host = \<lparr>host_mounts = Inr [], host_is_mountpoint = (\<lambda>_. Inr True), host_device_id = (\<lambda>_. Inr 1),
     host_usage = (\<lambda>_. Inl (new_error ''no usage'')), host_dir_size = (\<lambda>_ _. Inr 0), host_list_dir = (\<lambda>_. Inr [])\<rparr>"

theorem mount_race_decided_witness:
  "\<exists>f. inspect_mount (sample_deps defaults) sample_docker mounted_host sample_mount = Inr (Some f) \<and>
     fi_severity f = SeverityCritical"
  using mount_race_decided [of sample_docker sample_mount 64 64 0 12 mounted_host True "sample_deps defaults"]
  by (auto simp: sample_docker_def mounted_host_def max_uint64_def max_int64_def)

end
