(* ===== verification/Checks_Services.thy ===== *)
theory Checks_Services
  imports Check_Engine
begin

text \<open>
  \<open>internal/checks/indexers\<close>, \<open>plex\<close> and \<open>requests\<close>: the checks of Prowlarr's indexers, of Plex, of
  Tautulli and of Overseerr. Timestamps of the services are in UTC, file times in the local zone.
\<close>

section \<open>Indexers\<close>

definition indexer_names :: "indexer list \<Rightarrow> (int \<times> string) list" where
  "indexer_names idx = foldl (\<lambda>m ix. map_set (ix_id ix) (ix_name ix) m) [] idx"

definition indexer_name :: "(int \<times> string) list \<Rightarrow> int \<Rightarrow> string" where
  "indexer_name names i = (case map_of names i of Some n \<Rightarrow> n | None \<Rightarrow> ''#'' @ show_int i)"

definition count_enabled :: "indexer list \<Rightarrow> int" where
  "count_enabled idx = int (length (filter ix_enable idx))"

definition indexer_status_finding :: "deps \<Rightarrow> (int \<times> string) list \<Rightarrow> indexer_status \<Rightarrow> finding option" where
  "indexer_status_finding d names s =
     (let name = indexer_name names (is_indexer_id s); key = ''prowlarr:'' @ show_int (is_indexer_id s)
      in if \<not> t_is_zero (is_disabled_till s) \<and> d_now d < is_disabled_till s then
           Some (new_finding d ''indexer_failures'' key SeverityWarn TierObserve
             (''indexer '' @ name @ '' disabled until '' @ fmt_rfc3339 utc (is_disabled_till s)))
         else if \<not> t_is_zero (is_most_recent_failure s) \<and>
                 t_sub (d_now d) (is_most_recent_failure s) \<le> cc_indexer_failure_window (cfg_checks (d_cfg d)) then
           Some (new_finding d ''indexer_failures'' key SeverityInfo TierObserve
             (''indexer '' @ name @ '' failed at '' @ fmt_rfc3339 utc (is_most_recent_failure s)))
         else None)"

definition run_indexer_failures :: "deps \<Rightarrow> check_result result" where
  "run_indexer_failures d =
     (case d_prowlarr d of
        None \<Rightarrow> Inl not_configured
      | Some c \<Rightarrow>
          rbind (wrap_result ''indexers'' (prowlarr_indexers c)) (\<lambda>idx.
          rbind (wrap_result ''indexer status'' (prowlarr_indexer_status c)) (\<lambda>statuses.
            Inr \<lparr>re_findings = concat (map (\<lambda>s. opt_list (indexer_status_finding d (indexer_names idx) s)) statuses),
              re_metrics = [(''prowlarr_indexers_enabled'', f_of_int (count_enabled idx))]\<rparr>)))"

definition indexers_checks :: "check list" where
  "indexers_checks = [pure_check ''indexer_failures'' PiOnly TierObserve (15 * minute) run_indexer_failures]"

section \<open>Requests\<close>

definition run_tautulli_reachability :: "deps \<Rightarrow> check_result result" where
  "run_tautulli_reachability d =
     (case d_tautulli d of
        None \<Rightarrow> Inl not_configured
      | Some c \<Rightarrow>
          (case tautulli_ping c of
             Inl e \<Rightarrow> Inr \<lparr>re_findings = [new_finding d ''tautulli_reachability'' ''tautulli'' SeverityWarn TierObserve
                        (''tautulli unreachable: '' @ err_msg e)], re_metrics = []\<rparr>
           | Inr _ \<Rightarrow>
               rbind (wrap_result ''activity count'' (tautulli_activity_count c)) (\<lambda>streams.
                 Inr \<lparr>re_findings = [], re_metrics = [(''tautulli_active_streams'', f_of_int streams)]\<rparr>)))"

definition stuck_processing_finding :: "deps \<Rightarrow> overseerr_request \<Rightarrow> finding" where
  "stuck_processing_finding d r =
     new_finding d ''overseerr_stuck_processing'' (''overseerr:'' @ show_int (or_id r)) SeverityWarn TierObserve
       (''overseerr request #'' @ show_int (or_id r) @ '' ('' @ or_media_type r @ '' tmdb:'' @ show_int (or_tmdb_id r) @
        '') processing since '' @ fmt_rfc3339 utc (or_updated_at r) @ '' for '' @ or_requested_by r)"

definition run_overseerr_stuck_processing :: "deps \<Rightarrow> check_result result" where
  "run_overseerr_stuck_processing d =
     (case d_overseerr d of
        None \<Rightarrow> Inl not_configured
      | Some c \<Rightarrow>
          rbind (wrap_result ''requests'' (overseerr_requests c ''processing'')) (\<lambda>reqs.
            Inr \<lparr>re_findings = map (stuck_processing_finding d)
                   (filter (\<lambda>r. \<not> (t_is_zero (or_updated_at r) \<or>
                      t_sub (d_now d) (or_updated_at r) \<le> cc_overseerr_stuck_after (cfg_checks (d_cfg d)))) reqs),
              re_metrics = [(''overseerr_processing'', f_of_int (int (length reqs)))]\<rparr>))"

definition requests_checks :: "check list" where
  "requests_checks =
    [pure_check ''tautulli_reachability'' PiOnly TierObserve (24 * hour) run_tautulli_reachability,
     pure_check ''overseerr_stuck_processing'' PiOnly TierObserve (24 * hour) run_overseerr_stuck_processing]"

section \<open>Plex\<close>

definition run_plex_reachability :: "deps \<Rightarrow> check_result result" where
  "run_plex_reachability d =
     (case d_plex d of
        None \<Rightarrow> Inl not_configured
      | Some c \<Rightarrow>
          (case plex_identity c of
             Inl e \<Rightarrow> Inr \<lparr>re_findings = [new_finding d ''plex_reachability'' ''plex'' SeverityCritical TierObserve
                        (''plex unreachable: '' @ err_msg e)], re_metrics = []\<rparr>
           | Inr _ \<Rightarrow> Inr \<lparr>re_findings = [], re_metrics = [(''plex_reachable'', Fin 1)]\<rparr>))"

definition find_library_by_title :: "library list \<Rightarrow> string \<Rightarrow> library option" where
  "find_library_by_title libs title = find (\<lambda>l. equal_fold (li_title l) title) libs"

definition later :: "time \<Rightarrow> time \<Rightarrow> time" where
  "later newest t = (if newest < t then t else newest)"

definition newest_mod_time :: "dir_entry list \<Rightarrow> time" where
  "newest_mod_time es = foldl (\<lambda>newest e. later newest (en_mod_time e)) 0 es"

definition newest_sub :: "host_client \<Rightarrow> string \<Rightarrow> time \<Rightarrow> dir_entry \<Rightarrow> time result" where
  "newest_sub h dir newest e =
     (if \<not> en_is_dir e then Inr newest
      else let sub = path_join dir (en_name e)
           in rbind (wrap_result (''listdir '' @ sub) (host_list_dir h sub)) (\<lambda>es.
                Inr (later newest (newest_mod_time es))))"

definition newest_under :: "host_client \<Rightarrow> string \<Rightarrow> time result" where
  "newest_under h dir =
     rbind (wrap_result (''listdir '' @ dir) (host_list_dir h dir)) (\<lambda>es.
       rfoldl (newest_sub h dir) (newest_mod_time es) es)"

definition scan_freshness_finding ::
  "deps \<Rightarrow> host_client \<Rightarrow> library list \<Rightarrow> check_result \<Rightarrow> plex_library \<Rightarrow> check_result result" where
  "scan_freshness_finding d h libs res configured =
     (case find_library_by_title libs (pl_title configured) of
        None \<Rightarrow> Inr (res\<lparr>re_findings := re_findings res @
          [new_finding d ''plex_scan_freshness'' (''plex:'' @ pl_title configured) SeverityWarn TierNudge
             (''plex library '' @ pl_title configured @ '' not found'')]\<rparr>)
      | Some lib \<Rightarrow>
          if t_is_zero (li_scanned_at lib) then Inr (res\<lparr>re_findings := re_findings res @
            [new_finding d ''plex_scan_freshness'' (''plex:'' @ li_key lib) SeverityWarn TierNudge
               (''plex library '' @ pl_title configured @ '' has never been scanned'')]\<rparr>)
          else rbind (newest_under h (pl_path configured)) (\<lambda>newest.
            if t_is_zero newest then Inr res
            else
              let age = t_sub newest (li_scanned_at lib);
                  res = res\<lparr>re_metrics := map_set (''plex_scan_age_hours:'' @ li_key lib) (dur_hours age) (re_metrics res)\<rparr>
              in if age \<le> cc_plex_scan_stale_after (cfg_checks (d_cfg d)) then Inr res
                 else Inr (res\<lparr>re_findings := re_findings res @
                   [new_finding d ''plex_scan_freshness'' (''plex:'' @ li_key lib) SeverityWarn TierNudge
                      (''plex library '' @ pl_title configured @ '' last scanned '' @ fmt_rfc3339 utc (li_scanned_at lib) @
                       '' but '' @ pl_path configured @ '' changed '' @ fmt_rfc3339 (d_local d) newest)]\<rparr>)))"

definition run_plex_scan_freshness :: "deps \<Rightarrow> check_result result" where
  "run_plex_scan_freshness d =
     (let libraries = cc_plex_libraries (cfg_checks (d_cfg d))
      in case (d_plex d, d_host d) of
           (Some c, Some h) \<Rightarrow>
             if libraries = [] then Inl not_configured
             else rbind (wrap_result ''libraries'' (plex_libraries c)) (\<lambda>libs.
                  rfoldl (scan_freshness_finding d h libs) \<lparr>re_findings = [], re_metrics = []\<rparr> libraries)
         | _ \<Rightarrow> Inl not_configured)"

definition plex_checks :: "check list" where
  "plex_checks =
    [pure_check ''plex_reachability'' NASOnly TierObserve (5 * minute) run_plex_reachability,
     pure_check ''plex_scan_freshness'' NASOnly TierNudge (24 * hour) run_plex_scan_freshness]"

end
