(* ===== verification/Checks_Arr.thy ===== *)
theory Checks_Arr
  imports Check_Engine
begin

text \<open>
  \<open>internal/checks/arr\<close>: the health items of Sonarr, Radarr and Prowlarr, stuck download queues,
  a jump in the wanted counts, and pending updates. The three clients' health items are one record
  of the model, so the adapters of \<open>sonarrHealth\<close>, \<open>radarrHealth\<close> and \<open>prowlarrHealth\<close> copy it.
\<close>

section \<open>Health\<close>

record app_health =
  ah_name :: string
  ah_items :: "health_item list result"

definition sonarr_app_health :: "deps \<Rightarrow> health_item list result" where
  "sonarr_app_health d = (case d_sonarr d of None \<Rightarrow> Inr [] | Some c \<Rightarrow> sonarr_health c)"

definition radarr_app_health :: "deps \<Rightarrow> health_item list result" where
  "radarr_app_health d = (case d_radarr d of None \<Rightarrow> Inr [] | Some c \<Rightarrow> radarr_health c)"

definition prowlarr_app_health :: "deps \<Rightarrow> health_item list result" where
  "prowlarr_app_health d = (case d_prowlarr d of None \<Rightarrow> Inr [] | Some c \<Rightarrow> prowlarr_health c)"

definition app_healths :: "deps \<Rightarrow> app_health list result" where
  "app_healths d =
     (if d_sonarr d = None \<and> d_radarr d = None \<and> d_prowlarr d = None then Inl not_configured
      else Inr [\<lparr>ah_name = ''sonarr'', ah_items = sonarr_app_health d\<rparr>,
                \<lparr>ah_name = ''radarr'', ah_items = radarr_app_health d\<rparr>,
                \<lparr>ah_name = ''prowlarr'', ah_items = prowlarr_app_health d\<rparr>])"

definition short_hash :: "string \<Rightarrow> string" where
  "short_hash s = take 8 (sha256_hex s)"

definition health_item_finding :: "deps \<Rightarrow> string \<Rightarrow> health_item \<Rightarrow> finding option" where
  "health_item_finding d app item =
     (if hi_source item = ''UpdateCheck'' then None
      else Some (new_finding d ''arr_health'' (app @ '':'' @ hi_source item @ '':'' @ short_hash (hi_message item))
        (if equal_fold (hi_type item) ''error'' then SeverityCritical else SeverityWarn) TierObserve
        (app @ '': '' @ hi_message item)))"

definition arr_health_app_findings :: "deps \<Rightarrow> app_health \<Rightarrow> finding list" where
  "arr_health_app_findings d a =
     (case ah_items a of
        Inl e \<Rightarrow> [new_finding d ''arr_health'' (ah_name a) SeverityCritical TierObserve
                    (ah_name a @ '' unreachable: '' @ err_msg e)]
      | Inr items \<Rightarrow> concat (map (\<lambda>i. opt_list (health_item_finding d (ah_name a) i)) items))"

definition run_arr_health :: "deps \<Rightarrow> check_result result" where
  "run_arr_health d =
     rbind (app_healths d) (\<lambda>apps.
       Inr \<lparr>re_findings = concat (map (arr_health_app_findings d) apps), re_metrics = []\<rparr>)"

section \<open>Updates\<close>

definition update_findings :: "deps \<Rightarrow> string \<Rightarrow> health_item list \<Rightarrow> finding list" where
  "update_findings d app items =
     map (\<lambda>i. new_finding d ''service_update_available'' (app @ '':update'') SeverityInfo TierObserve
                (app @ '': '' @ hi_message i))
       (filter (\<lambda>i. hi_source i = ''UpdateCheck'') items)"

definition update_step :: "deps \<Rightarrow> finding list \<Rightarrow> app_health \<Rightarrow> finding list result" where
  "update_step d fs a =
     rbind (wrap_result (ah_name a @ '' health'') (ah_items a)) (\<lambda>items.
       Inr (fs @ update_findings d (ah_name a) items))"

definition run_service_update_available :: "deps \<Rightarrow> check_result result" where
  "run_service_update_available d =
     rbind (app_healths d) (\<lambda>apps.
     rbind (rfoldl (update_step d) [] apps) (\<lambda>fs.
       Inr \<lparr>re_findings = fs, re_metrics = []\<rparr>))"

section \<open>Queues\<close>

record queue_item =
  qi_id :: int
  qi_title :: string
  qi_tracked_download_status :: string
  qi_tracked_download_state :: string
  qi_download_id :: string
  qi_size_left :: f64
  qi_messages :: "string list"
  qi_added :: time

definition stuck_statuses :: "string list" where
  "stuck_statuses = [''warning'', ''error'']"

definition stuck_states :: "string list" where
  "stuck_states = [''importFailed'', ''failedPending'', ''importBlocked'']"

definition sonarr_queue_items :: "sonarr_queue_item list \<Rightarrow> queue_item list" where
  "sonarr_queue_items rs = map (\<lambda>r. \<lparr>qi_id = sq_id r, qi_title = sq_title r,
     qi_tracked_download_status = sq_tracked_download_status r,
     qi_tracked_download_state = sq_tracked_download_state r, qi_download_id = sq_download_id r,
     qi_size_left = sq_size_left r, qi_messages = sq_messages r, qi_added = sq_added r\<rparr>) rs"

definition radarr_queue_items :: "radarr_queue_item list \<Rightarrow> queue_item list" where
  "radarr_queue_items rs = map (\<lambda>r. \<lparr>qi_id = rq_id r, qi_title = rq_title r,
     qi_tracked_download_status = rq_tracked_download_status r,
     qi_tracked_download_state = rq_tracked_download_state r, qi_download_id = rq_download_id r,
     qi_size_left = rq_size_left r, qi_messages = rq_messages r, qi_added = rq_added r\<rparr>) rs"

text \<open>The dash in the summary is U+2014, three bytes of UTF-8.\<close>

definition queue_item_finding :: "deps \<Rightarrow> string \<Rightarrow> queue_item \<Rightarrow> finding option" where
  "queue_item_finding d app it =
     (let key = app @ '':queue:'' @ show_int (qi_id it)
      in if to_lower (qi_tracked_download_status it) \<in> set stuck_statuses \<or>
            qi_tracked_download_state it \<in> set stuck_states then
           let detail = (case qi_messages it of [] \<Rightarrow> qi_tracked_download_state it | m # _ \<Rightarrow> m)
           in Some ((new_finding d ''arr_queue_stuck'' key SeverityWarn TierNudge
                (app @ '' queue: '' @ qi_title it @ '' '' @ em_dash @ '' '' @ detail))
              \<lparr>fi_data := [(''downloadId'', VStr (qi_download_id it)), (''state'', VStr (qi_tracked_download_state it)),
                 (''status'', VStr (qi_tracked_download_status it))]\<rparr>)
         else if \<not> t_is_zero (qi_added it) \<and>
                 cc_queue_stuck_after (cfg_checks (d_cfg d)) < t_sub (d_now d) (qi_added it) \<and>
                 f_lt (Fin 0) (qi_size_left it) then
           Some (new_finding d ''arr_queue_stuck'' key SeverityWarn TierNudge
             (app @ '' queue: '' @ qi_title it @ '' has been downloading for '' @
              fmt_fixed 0 (dur_hours (t_sub (d_now d) (qi_added it))) @ ''h''))
         else None)"

definition queue_app_findings :: "deps \<Rightarrow> string \<Rightarrow> queue_item list \<Rightarrow> finding list" where
  "queue_app_findings d app items = concat (map (\<lambda>it. opt_list (queue_item_finding d app it)) items)"

definition queue_app :: "deps \<Rightarrow> string \<Rightarrow> queue_item list result option \<Rightarrow> check_result \<Rightarrow> check_result result" where
  "queue_app d app queue res =
     (case queue of
        None \<Rightarrow> Inr res
      | Some r \<Rightarrow> rbind (wrap_result (app @ '' queue'') r) (\<lambda>items.
          Inr \<lparr>re_findings = re_findings res @ queue_app_findings d app items,
            re_metrics = map_set (app @ ''_queue_len'') (f_of_int (int (length items))) (re_metrics res)\<rparr>))"

definition run_arr_queue_stuck :: "deps \<Rightarrow> check_result result" where
  "run_arr_queue_stuck d =
     (if d_sonarr d = None \<and> d_radarr d = None then Inl not_configured
      else rbind (queue_app d ''sonarr'' (map_option (\<lambda>c. map_sum id sonarr_queue_items (sonarr_queue c)) (d_sonarr d))
                   \<lparr>re_findings = [], re_metrics = []\<rparr>) (\<lambda>res.
           queue_app d ''radarr'' (map_option (\<lambda>c. map_sum id radarr_queue_items (radarr_queue c)) (d_radarr d)) res))"

section \<open>Wanted counts\<close>

definition spike_finding :: "deps \<Rightarrow> string \<Rightarrow> f64 \<Rightarrow> int \<Rightarrow> finding option" where
  "spike_finding d app prev n =
     (let diff = f_sub (f_of_int n) prev; cs = cfg_checks (d_cfg d)
      in if f_lt diff (f_of_int (cc_wanted_spike_min cs)) then None
         else if \<not> f_eq prev (Fin 0) \<and> f_lt (f_mul (f_div diff prev) (Fin 100)) (cc_wanted_spike_percent cs) then None
         else Some ((new_finding d ''arr_wanted_missing_spike'' (app @ '':wanted'') SeverityWarn TierObserve
             (app @ '': wanted/missing jumped from '' @ fmt_fixed 0 prev @ '' to '' @ show_int n))
           \<lparr>fi_data := [(''previous'', VFloat prev), (''current'', VInt n)]\<rparr>))"

definition wanted_missing_spike ::
  "deps \<Rightarrow> string \<Rightarrow> int result option \<Rightarrow> check_result \<Rightarrow> check_result result" where
  "wanted_missing_spike d app counted res =
     (case counted of
        None \<Rightarrow> Inr res
      | Some r \<Rightarrow> rbind (wrap_result (app @ '' wanted missing'') r) (\<lambda>n.
          let name = app @ ''_wanted_missing''
          in Inr \<lparr>re_findings = re_findings res @
                 (case previous_metric d name of None \<Rightarrow> [] | Some prev \<Rightarrow> opt_list (spike_finding d app prev n)),
               re_metrics = map_set name (f_of_int n) (re_metrics res)\<rparr>))"

definition run_arr_wanted_missing_spike :: "deps \<Rightarrow> check_result result" where
  "run_arr_wanted_missing_spike d =
     (if d_sonarr d = None \<and> d_radarr d = None then Inl not_configured
      else rbind (wanted_missing_spike d ''sonarr'' (map_option sonarr_wanted_missing (d_sonarr d))
                   \<lparr>re_findings = [], re_metrics = []\<rparr>) (\<lambda>res.
           wanted_missing_spike d ''radarr'' (map_option radarr_wanted_missing (d_radarr d)) res))"

section \<open>Catalogue rows\<close>

definition arr_checks :: "check list" where
  "arr_checks =
    [pure_check ''arr_health'' PiOnly TierObserve (5 * minute) run_arr_health,
     pure_check ''arr_queue_stuck'' PiOnly TierNudge (15 * minute) run_arr_queue_stuck,
     pure_check ''arr_wanted_missing_spike'' PiOnly TierObserve (24 * hour) run_arr_wanted_missing_spike,
     pure_check ''service_update_available'' BothNodes TierObserve (24 * hour) run_service_update_available]"

end
