(* ===== verification/Catalogue.thy ===== *)
theory Catalogue
  imports Checks_Arr Checks_Mounts Checks_Services Checks_Disk Staleness
begin

text \<open>
  \<open>internal/checks/all.go\<close>: the catalogue of every check family, registered in order, and what every
  check of the catalogue guarantees about its findings.
\<close>

definition families :: "check list list" where
  "families = [mounts_checks, arr_checks, indexers_checks, requests_checks, qbit_checks, disk_checks,
     plex_checks, [staleness_scan_check]]"

definition catalogue :: "check list" where
  "catalogue = concat families"

definition checks_registry :: "registry result" where
  "checks_registry = register_all new_registry catalogue"

lemmas row_defs = mounts_checks_def arr_checks_def indexers_checks_def requests_checks_def qbit_checks_def
  disk_checks_def plex_checks_def

lemmas family_defs = row_defs staleness_scan_check_def

lemma catalogue_expand:
  "map ck_id catalogue = [''mount_race'', ''host_mount_health'', ''arr_health'', ''arr_queue_stuck'',
     ''arr_wanted_missing_spike'', ''service_update_available'', ''indexer_failures'', ''tautulli_reachability'',
     ''overseerr_stuck_processing'', ''qbit_stalled_errored'', ''qbit_completed_not_imported'', ''wrong_file_type'',
     ''seeded_done'', ''disk_pressure_pi_sd'', ''disk_pressure_nas_volume'', ''docker_image_bloat'', ''log_size'',
     ''recycle_bin_size'', ''orphan_downloads'', ''plex_reachability'', ''plex_scan_freshness'', ''staleness_scan'']"
  by (simp add: catalogue_def families_def family_defs pure_check_def)

section \<open>Registration\<close>

definition registrable :: "check \<Rightarrow> bool" where
  "registrable c \<longleftrightarrow> ck_id c \<noteq> '''' \<and> ck_run c \<noteq> None \<and> ck_nodes c \<noteq> []"

lemma register_all_succeeds:
  assumes "registry_ok r" "\<forall>c \<in> set cs. registrable c" "distinct (rg_order r @ map ck_id cs)"
  shows "\<exists>r'. register_all r cs = Inr r'"
  using assms
proof (induction cs arbitrary: r)
  case Nil
  then show ?case by simp
next
  case (Cons c cs)
  have "by_id r (ck_id c) = None" using registry_ok_dest(1) [OF Cons.prems(1)] Cons.prems(3) by auto
  then obtain r1 where r1: "register r c = Inr r1" "rg_order r1 = rg_order r @ [ck_id c]"
    using Cons.prems(2) by (auto simp: register_Inr registrable_def)
  moreover have "registry_ok r1" using registry_ok_register [OF Cons.prems(1) r1(1)] .
  ultimately show ?case using Cons.IH [of r1] Cons.prems(2,3) by simp
qed

lemma catalogue_registrable: "\<forall>c \<in> set catalogue. registrable c"
  by (simp add: catalogue_def families_def family_defs pure_check_def registrable_def)

lemma catalogue_ids_distinct: "distinct (map ck_id catalogue)"
  unfolding catalogue_expand by simp

lemma checks_registry_Inr:
  obtains r where "checks_registry = Inr r" "registry_ok r" "all_checks r = catalogue"
proof -
  have "\<exists>r. register_all new_registry catalogue = Inr r"
    using catalogue_registrable catalogue_ids_distinct
    by (intro register_all_succeeds registry_ok_new) (simp_all add: new_registry_def)
  then obtain r where r: "register_all new_registry catalogue = Inr r" by blast
  show thesis
    using that r reg.add_all_ok [of new_registry catalogue r] reg.add_all_items [of new_registry catalogue r]
    by (simp add: checks_registry_def)
qed

section \<open>The stamp of a finding\<close>

definition stamped1 :: "deps \<Rightarrow> string \<Rightarrow> finding \<Rightarrow> bool" where
  "stamped1 d i f \<longleftrightarrow> fi_check_id f = i \<and> fi_node f = d_node d \<and>
     fi_severity f \<in> {SeverityInfo, SeverityWarn, SeverityCritical} \<and>
     fi_first_seen f = d_now d \<and> fi_last_seen f = d_now d"

definition stamped :: "deps \<Rightarrow> string \<Rightarrow> finding list \<Rightarrow> bool" where
  "stamped d i fs \<longleftrightarrow> (\<forall>f \<in> set fs. stamped1 d i f)"

lemma stamped1_simps [simp]:
  "stamped1 d i (new_finding d j k s t m) \<longleftrightarrow> j = i \<and> s \<in> {SeverityInfo, SeverityWarn, SeverityCritical}"
  "stamped1 d i (f\<lparr>fi_data := x\<rparr>) = stamped1 d i f"
  "stamped1 d i (f\<lparr>fi_detail := y\<rparr>) = stamped1 d i f"
  by (auto simp: stamped1_def)

lemma stamped_simps [simp]:
  "stamped d i []" "stamped d i (f # fs) \<longleftrightarrow> stamped1 d i f \<and> stamped d i fs"
  "stamped d i (fs @ gs) \<longleftrightarrow> stamped d i fs \<and> stamped d i gs"
  "stamped d i (concat fss) \<longleftrightarrow> (\<forall>fs \<in> set fss. stamped d i fs)"
  "stamped d i (map g xs) \<longleftrightarrow> (\<forall>x \<in> set xs. stamped1 d i (g x))"
  "stamped d i (opt_list p) \<longleftrightarrow> (case p of None \<Rightarrow> True | Some f \<Rightarrow> stamped1 d i f)"
  by (auto simp: stamped_def split: option.split)

lemma stamped_rfoldl:
  assumes "rfoldl g s xs = Inr r" "\<And>s x s'. I s \<Longrightarrow> g s x = Inr s' \<Longrightarrow> I s'" "I s"
  shows "I r"
  using rfoldl_invariant [of I xs g s r] assms by blast

text \<open>What a check's code is: it returns, and its findings carry its id.\<close>

definition stamps :: "check \<Rightarrow> bool" where
  "stamps c \<longleftrightarrow> (\<forall>d. case outcome c d of Inl _ \<Rightarrow> True | Inr r \<Rightarrow> stamped d (ck_id c) (re_findings r))"

lemma stamps_pure_check:
  "(\<And>d r. run d = Inr r \<Longrightarrow> stamped d i (re_findings r)) \<Longrightarrow> stamps (pure_check i ns t cad run)"
  by (simp add: stamps_def outcome_def pure_check_def split: sum.split)

lemma stamps_mount_race: "stamps (pure_check ''mount_race'' ns t c run_mount_race)"
proof (rule stamps_pure_check)
  fix d r assume "run_mount_race d = Inr r"
  then obtain dk h fs where "rfoldl (\<lambda>fs m. rbind (inspect_mount d dk h m) (\<lambda>f. Inr (fs @ opt_list f))) [] (cfg_mounts (d_cfg d)) = Inr fs"
    "r = \<lparr>re_findings = fs, re_metrics = []\<rparr>"
    by (auto simp: run_mount_race_def rbind_eq_Inr split: option.splits if_splits)
  moreover from this(1) have "stamped d ''mount_race'' fs"
    by (rule stamped_rfoldl [where I = "stamped d ''mount_race''"])
      (auto simp: rbind_eq_Inr inspect_mount_def decide_mount_race_def Let_def split: sum.splits option.splits if_splits)
  ultimately show "stamped d ''mount_race'' (re_findings r)" by simp
qed

lemma inspect_host_mount_stamped:
  "inspect_host_mount d h p = Inr (Inl f) \<Longrightarrow> stamped1 d ''host_mount_health'' f"
  by (auto simp: inspect_host_mount_def rbind_eq_Inr split: sum.splits if_splits)

lemma host_mount_step_stamped:
  assumes "stamped d ''host_mount_health'' (re_findings s)" "host_mount_step d h s p = Inr s'"
  shows "stamped d ''host_mount_health'' (re_findings s')"
proof -
  obtain v where v: "inspect_host_mount d h p = Inr v" using assms(2) by (auto simp: host_mount_step_def rbind_eq_Inr)
  with assms show ?thesis
    by (cases v) (auto simp: host_mount_step_def dest: inspect_host_mount_stamped)
qed

lemma stamps_host_mount_health: "stamps (pure_check ''host_mount_health'' ns t c run_host_mount_health)"
proof (rule stamps_pure_check)
  fix d r assume "run_host_mount_health d = Inr r"
  then obtain h where "rfoldl (host_mount_step d h) \<lparr>re_findings = [], re_metrics = []\<rparr>
      (unique_host_paths (cfg_mounts (d_cfg d))) = Inr r"
    by (auto simp: run_host_mount_health_def split: option.splits if_splits)
  then show "stamped d ''host_mount_health'' (re_findings r)"
    by (rule stamped_rfoldl [where I = "\<lambda>r. stamped d ''host_mount_health'' (re_findings r)"])
      (auto intro: host_mount_step_stamped)
qed

lemma stamps_arr_health: "stamps (pure_check ''arr_health'' ns t c run_arr_health)"
  by (rule stamps_pure_check)
    (auto simp: run_arr_health_def rbind_eq_Inr arr_health_app_findings_def health_item_finding_def
      split: sum.splits option.splits)

lemma stamps_service_update: "stamps (pure_check ''service_update_available'' ns t c run_service_update_available)"
proof (rule stamps_pure_check)
  fix d r assume "run_service_update_available d = Inr r"
  then obtain apps fs where "rfoldl (update_step d) [] apps = Inr fs" "re_findings r = fs"
    by (auto simp: run_service_update_available_def rbind_eq_Inr)
  moreover from this(1) have "stamped d ''service_update_available'' fs"
    by (rule stamped_rfoldl [where I = "stamped d ''service_update_available''"])
      (auto simp: update_step_def rbind_eq_Inr update_findings_def)
  ultimately show "stamped d ''service_update_available'' (re_findings r)" by simp
qed

lemma queue_app_stamped:
  "queue_app d app q res = Inr res' \<Longrightarrow> stamped d ''arr_queue_stuck'' (re_findings res) \<Longrightarrow>
   stamped d ''arr_queue_stuck'' (re_findings res')"
  by (auto simp: queue_app_def queue_app_findings_def queue_item_finding_def Let_def rbind_eq_Inr
      split: option.splits)

lemma stamps_queue_stuck: "stamps (pure_check ''arr_queue_stuck'' ns t c run_arr_queue_stuck)"
proof (rule stamps_pure_check)
  fix d r assume "run_arr_queue_stuck d = Inr r"
  then obtain x q1 q2 where "queue_app d ''sonarr'' q1 \<lparr>re_findings = [], re_metrics = []\<rparr> = Inr x" "queue_app d ''radarr'' q2 x = Inr r"
    unfolding run_arr_queue_stuck_def by (auto simp: rbind_eq_Inr split: if_splits)
  then show "stamped d ''arr_queue_stuck'' (re_findings r)" using queue_app_stamped [of d "''sonarr''"] queue_app_stamped [of d "''radarr''"] by simp
qed

lemma wanted_stamped:
  "wanted_missing_spike d app q res = Inr res' \<Longrightarrow> stamped d ''arr_wanted_missing_spike'' (re_findings res) \<Longrightarrow>
   stamped d ''arr_wanted_missing_spike'' (re_findings res')"
  by (auto simp: wanted_missing_spike_def spike_finding_def Let_def rbind_eq_Inr
      split: option.splits if_splits)

lemma stamps_wanted: "stamps (pure_check ''arr_wanted_missing_spike'' ns t c run_arr_wanted_missing_spike)"
proof (rule stamps_pure_check)
  fix d r assume "run_arr_wanted_missing_spike d = Inr r"
  then obtain x q1 q2 where "wanted_missing_spike d ''sonarr'' q1 \<lparr>re_findings = [], re_metrics = []\<rparr> = Inr x" "wanted_missing_spike d ''radarr'' q2 x = Inr r"
    unfolding run_arr_wanted_missing_spike_def by (auto simp: rbind_eq_Inr split: if_splits)
  then show "stamped d ''arr_wanted_missing_spike'' (re_findings r)" using wanted_stamped [of d "''sonarr''"] wanted_stamped [of d "''radarr''"] by simp
qed

lemma stamps_indexer_failures: "stamps (pure_check ''indexer_failures'' ns t c run_indexer_failures)"
  by (rule stamps_pure_check)
    (auto simp: run_indexer_failures_def rbind_eq_Inr indexer_status_finding_def Let_def
      split: option.splits if_splits)

lemma stamps_tautulli: "stamps (pure_check ''tautulli_reachability'' ns t c run_tautulli_reachability)"
  by (rule stamps_pure_check)
    (auto simp: run_tautulli_reachability_def rbind_eq_Inr split: option.splits sum.splits)

lemma stamps_overseerr: "stamps (pure_check ''overseerr_stuck_processing'' ns t c run_overseerr_stuck_processing)"
  by (rule stamps_pure_check)
    (auto simp: run_overseerr_stuck_processing_def rbind_eq_Inr stuck_processing_finding_def split: option.splits)

lemma stamps_stalled: "stamps (pure_check ''qbit_stalled_errored'' ns t c run_stalled_errored)"
  by (rule stamps_pure_check)
    (auto simp: run_stalled_errored_def rbind_eq_Inr stalled_errored_finding_def Let_def split: option.splits if_splits)

lemma stamps_not_imported: "stamps (pure_check ''qbit_completed_not_imported'' ns t c run_completed_not_imported)"
  by (rule stamps_pure_check)
    (auto simp: run_completed_not_imported_def rbind_eq_Inr not_imported_finding_def Let_def split: option.splits if_splits)

lemma inspect_torrent_stamped:
  "stamped d ''wrong_file_type'' (fst st) \<Longrightarrow> stamped d ''wrong_file_type'' (fst (inspect_torrent d q st t))"
  by (auto simp: inspect_torrent_def wrong_file_finding_def Let_def case_prod_beta split: sum.splits list.splits option.splits)

lemma stamps_wrong_file: "stamps (pure_check ''wrong_file_type'' ns t c run_wrong_file_type)"
proof (rule stamps_pure_check)
  fix d r assume a: "run_wrong_file_type d = Inr r"
  have inv: "stamped d ''wrong_file_type'' (fst (foldl (inspect_torrent d q) ([], []) ts))" for q ts
    by (rule foldl_invariant) (auto intro: inspect_torrent_stamped)
  obtain q ts where "re_findings r = fst (foldl (inspect_torrent d q) ([], []) ts) \<or>
      (\<exists>es. re_findings r = fst (foldl (inspect_torrent d q) ([], []) ts) @ [inspect_errors_finding d es])"
    using a by (fastforce simp: run_wrong_file_type_def rbind_eq_Inr Let_def case_prod_beta split: option.splits if_splits)
  then show "stamped d ''wrong_file_type'' (re_findings r)"
    using inv by (auto simp: inspect_errors_finding_def case_prod_beta)
qed

lemma stamps_seeded: "stamps (pure_check ''seeded_done'' ns t c run_seeded_done)"
  by (rule stamps_pure_check) (auto simp: run_seeded_done_def rbind_eq_Inr)

lemma stamps_pressure: "stamps (pure_check i ns t c (run_pressure i tr))"
proof (rule stamps_pure_check)
  fix d r assume "run_pressure i tr d = Inr r"
  then obtain h where "rfoldl (pressure_path d h i tr) \<lparr>re_findings = [], re_metrics = []\<rparr>
      (cc_disk_paths (cfg_checks (d_cfg d))) = Inr r"
    by (auto simp: run_pressure_def Let_def split: option.splits if_splits)
  then show "stamped d i (re_findings r)"
    by (rule stamped_rfoldl [where I = "\<lambda>r. stamped d i (re_findings r)"])
      (auto simp: rbind_eq_Inr pressure_path_def pressure_finding_def Let_def split: option.splits if_splits)
qed

lemma stamps_dir_size: "stamps (pure_check i ns t c (run_dir_size i tr dirs gb label))"
proof (rule stamps_pure_check)
  fix d r assume "run_dir_size i tr dirs gb label d = Inr r"
  then obtain h w where "rfoldl (dir_size_step d h i tr w label) \<lparr>re_findings = [], re_metrics = []\<rparr> (dirs (d_cfg d)) = Inr r"
    by (auto simp: run_dir_size_def Let_def split: option.splits if_splits)
  then show "stamped d i (re_findings r)"
    by (rule stamped_rfoldl [where I = "\<lambda>r. stamped d i (re_findings r)"])
      (auto simp: rbind_eq_Inr dir_size_step_def)
qed

lemma stamps_image_bloat: "stamps (pure_check ''docker_image_bloat'' ns t c run_image_bloat)"
  by (rule stamps_pure_check) (auto simp: run_image_bloat_def rbind_eq_Inr Let_def split: option.splits if_splits)

lemma stamps_orphans: "stamps (pure_check ''orphan_downloads'' ns t c run_orphan_downloads)"
  by (rule stamps_pure_check) (auto simp: run_orphan_downloads_def rbind_eq_Inr orphan_finding_def)

lemma stamps_plex_reachability: "stamps (pure_check ''plex_reachability'' ns t c run_plex_reachability)"
  by (rule stamps_pure_check) (auto simp: run_plex_reachability_def split: option.splits sum.splits)

lemma stamps_plex_freshness: "stamps (pure_check ''plex_scan_freshness'' ns t c run_plex_scan_freshness)"
proof (rule stamps_pure_check)
  fix d r assume "run_plex_scan_freshness d = Inr r"
  then obtain h libs where "rfoldl (scan_freshness_finding d h libs) \<lparr>re_findings = [], re_metrics = []\<rparr>
      (cc_plex_libraries (cfg_checks (d_cfg d))) = Inr r"
    by (auto simp: run_plex_scan_freshness_def Let_def rbind_eq_Inr split: option.splits if_splits)
  then show "stamped d ''plex_scan_freshness'' (re_findings r)"
    by (rule stamped_rfoldl [where I = "\<lambda>r. stamped d ''plex_scan_freshness'' (re_findings r)"])
      (auto simp: rbind_eq_Inr scan_freshness_finding_def Let_def split: option.splits if_splits)
qed

lemma stamps_staleness_scan: "stamps staleness_scan_check"
  by (auto simp: stamps_def outcome_def staleness_scan_check_def run_staleness_scan_def rbind_eq_Inr scan_item_def
      staleness_finding_def Let_def split: sum.splits)

lemma stamps_catalogue:
  assumes "c \<in> set catalogue"
  shows "stamps c"
  using assms unfolding catalogue_def families_def row_defs
  by (auto intro: stamps_mount_race stamps_host_mount_health
      stamps_arr_health stamps_queue_stuck stamps_wanted stamps_service_update stamps_indexer_failures
      stamps_tautulli stamps_overseerr stamps_stalled stamps_not_imported stamps_wrong_file stamps_seeded
      stamps_pressure stamps_dir_size stamps_image_bloat stamps_orphans stamps_plex_reachability
      stamps_plex_freshness stamps_staleness_scan)

section \<open>Properties\<close>

text \<open>The catalogue always registers: no check is malformed, no two share an id, and the
  registry lists all of them in the order of the families.\<close>

theorem catalogue_registers:
  "case checks_registry of Inl e \<Rightarrow> False
   | Inr r \<Rightarrow> all_checks r = catalogue \<and> distinct (map ck_id (all_checks r)) \<and> registry_ok r"
proof -
  obtain r where r: "checks_registry = Inr r" "registry_ok r" "all_checks r = catalogue" by (rule checks_registry_Inr)
  show ?thesis unfolding r(1) by (simp add: r(2,3) catalogue_ids_distinct)
qed


text \<open>Dependencies whose only service is a Tautulli that does not answer.\<close>

definition silent_tautulli :: deps where
  "silent_tautulli = (sample_deps defaults)\<lparr>d_tautulli := Some \<lparr>tautulli_ping = Inl (new_error ''timeout''),
     tautulli_history = (\<lambda>_ _. Inr []), tautulli_activity_count = Inr 0\<rparr>\<rparr>"


end
