(* ===== verification/System.thy ===== *)
theory System
  imports Store_Queues Store_Findings
begin

text \<open>
  What the parts above the store share: the state of one node (its store and the world outside the
  process) and the sequencing of operations on it. An operation returns a value, an explicit
  \<open>result\<close> where the Go function returns an error, so that every caller decides what an error does.
\<close>

record sys =
  sy_store :: store
  sy_world :: world

type_synonym 'a act = "sys \<Rightarrow> 'a \<times> sys"

definition aret :: "'a \<Rightarrow> 'a act" where
  "aret x s = (x, s)"

definition abind :: "'a act \<Rightarrow> ('a \<Rightarrow> 'b act) \<Rightarrow> 'b act" where
  "abind m f s = (case m s of (x, s') \<Rightarrow> f x s')"

definition on_store :: "'a sm \<Rightarrow> 'a result act" where
  "on_store m s = (case m (sy_store s) of (r, st) \<Rightarrow> (r, s\<lparr>sy_store := st\<rparr>))"

definition call :: "action \<Rightarrow> int result act" where
  "call a s = (case perform a (sy_world s) of (r, w) \<Rightarrow> (r, s\<lparr>sy_world := w\<rparr>))"

text \<open>The external calls made so far.\<close>

definition calls :: "sys \<Rightarrow> action list" where
  "calls s = w_log (sy_world s)"

lemma aret_eq [simp]: "aret x s = (y, s') \<longleftrightarrow> y = x \<and> s' = s"
  by (auto simp: aret_def)

lemma abind_eq: "abind m f s = (y, s') \<longleftrightarrow> (\<exists>x s1. m s = (x, s1) \<and> f x s1 = (y, s'))"
  by (auto simp: abind_def split: prod.splits)

lemma calls_on_store: "calls (snd (on_store m s)) = calls s"
  by (simp add: on_store_def calls_def split: prod.split)

lemma calls_call: "calls (snd (call a s)) = calls s @ [a]"
  by (simp add: call_def calls_def perform_def)

lemma store_call: "sy_store (snd (call a s)) = sy_store s"
  by (simp add: call_def perform_def)

text \<open>
  What an operation adds to the log of external calls: all of them satisfy a predicate. Sequencing
  keeps it, so a bound on the calls of a handler is the bound on the calls of its steps.
\<close>

definition only_calls :: "(action \<Rightarrow> bool) \<Rightarrow> 'a act \<Rightarrow> bool" where
  "only_calls P m \<longleftrightarrow> (\<forall>s. \<exists>as. calls (snd (m s)) = calls s @ as \<and> list_all P as)"

lemma only_callsD:
  "only_calls P m \<Longrightarrow> m s = (x, s') \<Longrightarrow> \<exists>as. calls s' = calls s @ as \<and> list_all P as"
  unfolding only_calls_def by (metis snd_conv)

lemma only_calls_aret [intro]: "only_calls P (aret x)"
  by (simp add: only_calls_def aret_def)

lemma only_calls_on_store [intro]: "only_calls P (on_store m)"
  by (simp add: only_calls_def calls_on_store)

lemma only_calls_call [intro]: "P a \<Longrightarrow> only_calls P (call a)"
  by (simp add: only_calls_def calls_call)

lemma only_calls_abind [intro]:
  assumes "only_calls P m" "\<And>x. only_calls P (f x)"
  shows "only_calls P (abind m f)"
  unfolding only_calls_def
proof
  fix s
  obtain x s1 where m: "m s = (x, s1)" by fastforce
  obtain as bs where "calls s1 = calls s @ as" "list_all P as"
    "calls (snd (f x s1)) = calls s1 @ bs" "list_all P bs"
    using only_callsD [OF assms(1) m] assms(2) [of x] unfolding only_calls_def by blast
  then show "\<exists>as. calls (snd (abind m f s)) = calls s @ as \<and> list_all P as"
    by (intro exI [of _ "as @ bs"]) (simp add: abind_def m)
qed

text \<open>
  The stronger statement: what an operation adds to the log, as a list. A sequence adds the
  concatenation of what its steps add.
\<close>

definition adds :: "(action list \<Rightarrow> bool) \<Rightarrow> 'a act \<Rightarrow> bool" where
  "adds P m \<longleftrightarrow> (\<forall>s. \<exists>as. calls (snd (m s)) = calls s @ as \<and> P as)"

lemma addsD: "adds P m \<Longrightarrow> m s = (x, s') \<Longrightarrow> \<exists>as. calls s' = calls s @ as \<and> P as"
  unfolding adds_def by (metis snd_conv)

lemma adds_aret: "P [] \<Longrightarrow> adds P (aret x)"
  by (simp add: adds_def aret_def)

lemma adds_on_store: "P [] \<Longrightarrow> adds P (on_store m)"
  by (simp add: adds_def calls_on_store)

lemma adds_call: "P [a] \<Longrightarrow> adds P (call a)"
  by (simp add: adds_def calls_call)

lemma adds_mono: "adds P m \<Longrightarrow> (\<And>as. P as \<Longrightarrow> Q as) \<Longrightarrow> adds Q m"
  unfolding adds_def by blast

lemma adds_abind:
  assumes "adds P m" "\<And>x. adds Q (f x)" "\<And>as bs. P as \<Longrightarrow> Q bs \<Longrightarrow> R (as @ bs)"
  shows "adds R (abind m f)"
  unfolding adds_def
proof
  fix s
  obtain x s1 where m: "m s = (x, s1)" by fastforce
  obtain as bs where "calls s1 = calls s @ as" "P as" "calls (snd (f x s1)) = calls s1 @ bs" "Q bs"
    using addsD [OF assms(1) m] assms(2) [of x] unfolding adds_def by blast
  then show "\<exists>as. calls (snd (abind m f s)) = calls s @ as \<and> R as"
    using assms(3) by (intro exI [of _ "as @ bs"]) (simp add: abind_def m)
qed

lemma adds_if: "(c \<Longrightarrow> adds P m) \<Longrightarrow> (\<not> c \<Longrightarrow> adds P n) \<Longrightarrow> adds P (if c then m else n)"
  by simp

lemma adds_case_sum:
  "(\<And>e. r = Inl e \<Longrightarrow> adds P (f e)) \<Longrightarrow> (\<And>x. r = Inr x \<Longrightarrow> adds P (g x)) \<Longrightarrow> adds P (case_sum f g r)"
  by (cases r) auto

lemma adds_case_option:
  "(p = None \<Longrightarrow> adds P m) \<Longrightarrow> (\<And>x. p = Some x \<Longrightarrow> adds P (g x)) \<Longrightarrow> adds P (case_option m g p)"
  by (cases p) auto

lemma only_calls_adds: "only_calls P m \<longleftrightarrow> adds (list_all P) m"
  by (simp add: only_calls_def adds_def)

lemma adds_nothing: "only_calls (\<lambda>_. False) m \<longleftrightarrow> adds (\<lambda>as. as = []) m"
proof -
  have "list_all (\<lambda>_. False) = (\<lambda>as :: action list. as = [])"
  proof
    show "list_all (\<lambda>_. False) as \<longleftrightarrow> as = []" for as :: "action list" by (cases as) simp_all
  qed
  then show ?thesis by (simp add: only_calls_adds)
qed

lemma only_calls_mono: "only_calls P m \<Longrightarrow> (\<And>a. P a \<Longrightarrow> Q a) \<Longrightarrow> only_calls Q m"
  unfolding only_calls_def by (metis list.pred_mono_strong)

lemma only_calls_if [intro]: "(c \<Longrightarrow> only_calls P m) \<Longrightarrow> (\<not> c \<Longrightarrow> only_calls P n) \<Longrightarrow> only_calls P (if c then m else n)"
  by simp

lemma only_calls_case_sum [intro]:
  "(\<And>e. r = Inl e \<Longrightarrow> only_calls P (f e)) \<Longrightarrow> (\<And>x. r = Inr x \<Longrightarrow> only_calls P (g x)) \<Longrightarrow> only_calls P (case_sum f g r)"
  by (cases r) auto

lemma only_calls_case_option [intro]:
  "(p = None \<Longrightarrow> only_calls P m) \<Longrightarrow> (\<And>x. p = Some x \<Longrightarrow> only_calls P (g x)) \<Longrightarrow> only_calls P (case_option m g p)"
  by (cases p) auto

text \<open>An operation keeps an invariant of the database when its statements do.\<close>

definition keeps :: "(db \<Rightarrow> bool) \<Rightarrow> 'a act \<Rightarrow> bool" where
  "keeps I m \<longleftrightarrow> (\<forall>s. I (st_db (sy_store s)) \<longrightarrow> I (st_db (sy_store (snd (m s)))))"

lemma keepsD: "keeps I m \<Longrightarrow> m s = (x, s') \<Longrightarrow> I (st_db (sy_store s)) \<Longrightarrow> I (st_db (sy_store s'))"
  unfolding keeps_def by (metis snd_conv)

lemma keeps_aret [intro]: "keeps I (aret x)"
  by (simp add: keeps_def aret_def)

lemma keeps_call [intro]: "keeps I (call a)"
  by (simp add: keeps_def store_call)

lemma keeps_on_store [intro]:
  assumes "preserves I m"
  shows "keeps I (on_store m)"
  unfolding keeps_def
proof (intro allI impI)
  fix s :: sys assume i: "I (st_db (sy_store s))"
  obtain r st where m: "m (sy_store s) = (r, st)" by fastforce
  from preservesD [OF assms i m] show "I (st_db (sy_store (snd (on_store m s))))"
    by (simp add: on_store_def m)
qed

lemma keeps_abind [intro]:
  assumes "keeps I m" "\<And>x. keeps I (f x)"
  shows "keeps I (abind m f)"
  unfolding keeps_def abind_def using assms by (auto simp: keeps_def split: prod.splits)

lemma keeps_if [intro]: "keeps I m \<Longrightarrow> keeps I n \<Longrightarrow> keeps I (if c then m else n)"
  by simp

lemma keeps_case_sum [intro]: "(\<And>e. keeps I (f e)) \<Longrightarrow> (\<And>x. keeps I (g x)) \<Longrightarrow> keeps I (case_sum f g r)"
  by (cases r) auto

lemma keeps_case_option [intro]: "keeps I m \<Longrightarrow> (\<And>x. keeps I (g x)) \<Longrightarrow> keeps I (case_option m g p)"
  by (cases p) auto

end
