(* ===== verification/Decisions.thy ===== *)
theory Decisions
  imports System Check_Engine
begin

text \<open>
  \<open>internal/decision\<close>: executing a human's keep or delete choice. The store and the clients are the
  \<open>sys\<close> the operations thread; \<open>dd_peer\<close> says whether a peer client is configured. Log lines are
  not modelled.
\<close>

abbreviation KindKeep :: string where "KindKeep \<equiv> ''keep''"
abbreviation KindDelete :: string where "KindDelete \<equiv> ''delete''"

definition err_decision_actions_disabled :: goerr where
  "err_decision_actions_disabled = GoErr ''decision: actions are disabled in config'' [ErrDecisionActionsDisabled]"

definition err_unknown_kind :: goerr where
  "err_unknown_kind = GoErr ''decision: unknown kind'' [ErrUnknownKind]"

definition err_unknown_entity_key :: goerr where
  "err_unknown_entity_key = GoErr ''decision: unknown entity key'' [ErrUnknownEntityKey]"

definition history_lookback :: duration where
  "history_lookback = 90 * 24 * hour"

record decision_deps =
  dd_deps :: deps
  dd_peer :: bool

section \<open>Entity keys\<close>

record entity_ref =
  er_provider :: string
  er_ident :: int

text \<open>\<open>fmt.Errorf("%w: %q", e, key)\<close>.\<close>

definition quoted_error :: "goerr \<Rightarrow> string \<Rightarrow> goerr" where
  "quoted_error e key = GoErr (err_msg e @ '': '' @ go_quote key) (err_chain e)"

definition parse_entity_key :: "string \<Rightarrow> entity_ref result" where
  "parse_entity_key key =
     (case cut_at CHR '':'' key of
        None \<Rightarrow> Inl (quoted_error err_unknown_entity_key key)
      | Some (provider, id_str) \<Rightarrow>
          if provider \<noteq> ''sonarr'' \<and> provider \<noteq> ''radarr'' then Inl (quoted_error err_unknown_entity_key key)
          else case parse_int id_str of
                 Inl e \<Rightarrow> Inl (GoErr (err_msg (quoted_error err_unknown_entity_key key) @ '': '' @ err_msg e)
                              (err_chain err_unknown_entity_key @ err_chain e))
               | Inr i \<Rightarrow> Inr \<lparr>er_provider = provider, er_ident = i\<rparr>)"

section \<open>Outcomes\<close>

definition record_delete_remediation :: "decision_deps \<Rightarrow> string \<Rightarrow> time \<Rightarrow> string \<Rightarrow> unit act" where
  "record_delete_remediation d status t detail =
     abind (on_store (record_remediation \<lparr>rm_id = 0, rm_finding_id = None, rm_node = d_node (dd_deps d),
        rm_action = ''decision_delete'', rm_tier = TierCorrect, rm_status = status, rm_detail = detail,
        rm_dry_run = False, rm_created_at = t, rm_finished_at = Some t\<rparr>)) (\<lambda>_. aret ())"

definition mark :: "decision \<Rightarrow> string \<Rightarrow> time \<Rightarrow> goerr option \<Rightarrow> unit result act" where
  "mark dec status t cause = on_store (mark_decision (de_id dec) status t cause)"

definition block_delete :: "decision_deps \<Rightarrow> decision \<Rightarrow> time \<Rightarrow> decision result act" where
  "block_delete d dec now =
     abind (record_delete_remediation d ''blocked'' now (err_msg err_decision_actions_disabled)) (\<lambda>_.
     abind (mark dec ''blocked'' now (Some err_decision_actions_disabled)) (\<lambda>r. aret (Inl
       (case r of
          Inl e \<Rightarrow> wrap_error (''decision: delete '' @ show_int (de_id dec) @ '': mark blocked'')
                     (join_errors err_decision_actions_disabled e)
        | Inr _ \<Rightarrow> wrap_error (''decision: delete '' @ show_int (de_id dec)) err_decision_actions_disabled))))"

definition fail_delete :: "decision_deps \<Rightarrow> decision \<Rightarrow> time \<Rightarrow> goerr \<Rightarrow> decision result act" where
  "fail_delete d dec now cause =
     abind (record_delete_remediation d ''failed'' now (err_msg cause)) (\<lambda>_.
     abind (mark dec ''failed'' now (Some cause)) (\<lambda>r. aret (Inl
       (case r of
          Inl e \<Rightarrow> wrap_error (''decision: delete '' @ show_int (de_id dec) @ '': mark failed'') (join_errors cause e)
        | Inr _ \<Rightarrow> wrap_error (''decision: delete '' @ show_int (de_id dec)) cause))))"

definition finish_delete :: "decision_deps \<Rightarrow> decision \<Rightarrow> time \<Rightarrow> string list \<Rightarrow> decision result act" where
  "finish_delete d dec now parts =
     abind (record_delete_remediation d ''executed'' now (join_with ''; '' parts)) (\<lambda>_.
     abind (mark dec ''executed'' now None) (\<lambda>r. aret
       (case r of
          Inl e \<Rightarrow> Inl (wrap_error (''decision: delete '' @ show_int (de_id dec) @ '': mark executed'') e)
        | Inr _ \<Rightarrow> Inr (dec\<lparr>de_status := ''executed'', de_executed_at := Some now\<rparr>))))"

section \<open>Keep\<close>

definition execute_keep :: "decision_deps \<Rightarrow> decision \<Rightarrow> decision result act" where
  "execute_keep d dec =
     (let now = d_now (dd_deps d);
          until = add_days (d_local (dd_deps d)) now (sc_snooze_days (cfg_staleness (d_cfg (dd_deps d))));
          keep = ''decision: keep '' @ show_int (de_id dec)
      in abind (on_store (snooze_entity (de_entity_key dec) until)) (\<lambda>r.
         case r of
           Inl e \<Rightarrow>
             let wrapped = wrap_error (keep @ '': snooze '' @ de_entity_key dec) e
             in abind (mark dec ''failed'' now (Some wrapped)) (\<lambda>r2. aret (Inl
                  (case r2 of
                     Inl e2 \<Rightarrow> join_errors wrapped (wrap_error (keep @ '': mark failed'') e2)
                   | Inr _ \<Rightarrow> wrapped)))
         | Inr _ \<Rightarrow>
             abind (mark dec ''executed'' now None) (\<lambda>r2. aret
               (case r2 of
                  Inl e \<Rightarrow> Inl (wrap_error (keep @ '': mark executed'') e)
                | Inr _ \<Rightarrow> Inr (dec\<lparr>de_status := ''executed'', de_snooze_until := Some until,
                             de_executed_at := Some now\<rparr>)))))"

section \<open>Delete\<close>

text \<open>The external id, the title and a note for the remediation's detail.\<close>

definition lookup_sonarr_series :: "sonarr_client \<Rightarrow> int \<Rightarrow> int \<times> string \<times> string list" where
  "lookup_sonarr_series c i =
     (case sonarr_series c of
        Inl e \<Rightarrow> (0, '''', [''sonarr lookup: '' @ err_msg e])
      | Inr ss \<Rightarrow> (case find (\<lambda>s. se_id s = i) ss of
                    Some s \<Rightarrow> (se_tvdb_id s, se_title s, []) | None \<Rightarrow> (0, '''', [])))"

definition lookup_radarr_movie :: "radarr_client \<Rightarrow> int \<Rightarrow> int \<times> string \<times> string list" where
  "lookup_radarr_movie c i =
     (case radarr_movies c of
        Inl e \<Rightarrow> (0, '''', [''radarr lookup: '' @ err_msg e])
      | Inr ms \<Rightarrow> (case find (\<lambda>m. mo_id m = i) ms of
                    Some m \<Rightarrow> (mo_tmdb_id m, mo_title m, []) | None \<Rightarrow> (0, '''', [])))"

definition request_matches :: "string \<Rightarrow> int \<Rightarrow> overseerr_request \<Rightarrow> bool" where
  "request_matches media_type ext_id r \<longleftrightarrow>
     or_media_type r = media_type \<and>
     (if media_type = ''tv'' then or_tvdb_id r = ext_id
      else if media_type = ''movie'' then or_tmdb_id r = ext_id else False)"

fun decline_each :: "string \<Rightarrow> int \<Rightarrow> overseerr_request list \<Rightarrow> int \<Rightarrow> string list \<Rightarrow> (int \<times> string list) act" where
  "decline_each media_type ext_id [] declined lines = aret (declined, lines)"
| "decline_each media_type ext_id (r # rs) declined lines =
     (if \<not> request_matches media_type ext_id r then decline_each media_type ext_id rs declined lines
      else abind (call (OverseerrDecline (or_id r))) (\<lambda>a.
        case a of
          Inl e \<Rightarrow> decline_each media_type ext_id rs declined
                     (lines @ [''decline overseerr request '' @ show_int (or_id r) @ '': '' @ err_msg e])
        | Inr _ \<Rightarrow> decline_each media_type ext_id rs (declined + 1) lines))"

definition decline_overseerr_requests :: "decision_deps \<Rightarrow> string \<Rightarrow> int \<Rightarrow> string list act" where
  "decline_overseerr_requests d media_type ext_id =
     (case d_overseerr (dd_deps d) of
        None \<Rightarrow> aret []
      | Some c \<Rightarrow>
          if ext_id = 0 then aret []
          else case overseerr_requests c '''' of
                 Inl e \<Rightarrow> aret [''overseerr requests: '' @ err_msg e]
               | Inr reqs \<Rightarrow> abind (decline_each media_type ext_id reqs 0 []) (\<lambda>(declined, lines).
                   aret ((''declined '' @ show_int declined @ '' overseerr request(s)'') # lines)))"

definition send_qbit_delete_hint :: "decision_deps \<Rightarrow> string \<Rightarrow> string list \<Rightarrow> string list act" where
  "send_qbit_delete_hint d entity_key hashes =
     (if \<not> dd_peer d \<or> length hashes = 0 then aret []
      else abind (call (PeerSendDecision \<lparr>pd_id = 0, pd_kind = ''qbit_delete'', pd_entity_key = entity_key,
             pd_payload = [(''hashes'', VStrs hashes)], pd_requested_at = d_now (dd_deps d)\<rparr>)) (\<lambda>r.
        case r of
          Inl e \<Rightarrow> aret [''qbit_delete peer send: '' @ err_msg e]
        | Inr _ \<Rightarrow> aret [''sent qbit_delete hint for '' @ show_int (int (length hashes)) @ '' torrent(s)'']))"

definition collect_hash :: "string list \<Rightarrow> string \<Rightarrow> string list" where
  "collect_hash hashes download_id = (let h = to_upper download_id in if h \<in> set hashes then hashes else hashes @ [h])"

definition sonarr_download_hashes :: "sonarr_client \<Rightarrow> int \<Rightarrow> time \<Rightarrow> string list" where
  "sonarr_download_hashes c series_id now =
     (case sonarr_history c (t_add now (- history_lookback)) '''' of
        Inl _ \<Rightarrow> []
      | Inr recs \<Rightarrow> foldl collect_hash [] (map sh_download_id
          (filter (\<lambda>r. \<not> (sh_series_id r \<noteq> series_id \<or> sh_download_id r = '''')) recs)))"

definition radarr_download_hashes :: "radarr_client \<Rightarrow> int \<Rightarrow> time \<Rightarrow> string list" where
  "radarr_download_hashes c movie_id now =
     (case radarr_history c (t_add now (- history_lookback)) '''' of
        Inl _ \<Rightarrow> []
      | Inr recs \<Rightarrow> foldl collect_hash [] (map rh_download_id
          (filter (\<lambda>r. \<not> (rh_movie_id r \<noteq> movie_id \<or> rh_download_id r = '''')) recs)))"

definition execute_delete_sonarr :: "decision_deps \<Rightarrow> decision \<Rightarrow> int \<Rightarrow> time \<Rightarrow> decision result act" where
  "execute_delete_sonarr d dec i now =
     (case d_sonarr (dd_deps d) of
        None \<Rightarrow> fail_delete d dec now (GoErr (err_msg not_configured @ '': sonarr'') [ErrNotConfigured])
      | Some c \<Rightarrow>
          let (tvdb, title, note) = lookup_sonarr_series c i
          in abind (call (SonarrDeleteSeries i True True)) (\<lambda>r.
             case r of
               Inl e \<Rightarrow> fail_delete d dec now (wrap_error (''delete series '' @ show_int i) e)
             | Inr _ \<Rightarrow>
                 abind (decline_overseerr_requests d ''tv'' tvdb) (\<lambda>declined.
                 abind (send_qbit_delete_hint d (de_entity_key dec) (sonarr_download_hashes c i now)) (\<lambda>hint.
                 finish_delete d dec now ([''deleted sonarr series '' @ show_int i @ '' ('' @ title @ '')''] @
                   note @ declined @ hint)))))"

definition execute_delete_radarr :: "decision_deps \<Rightarrow> decision \<Rightarrow> int \<Rightarrow> time \<Rightarrow> decision result act" where
  "execute_delete_radarr d dec i now =
     (case d_radarr (dd_deps d) of
        None \<Rightarrow> fail_delete d dec now (GoErr (err_msg not_configured @ '': radarr'') [ErrNotConfigured])
      | Some c \<Rightarrow>
          let (tmdb, title, note) = lookup_radarr_movie c i
          in abind (call (RadarrDeleteMovie i True True)) (\<lambda>r.
             case r of
               Inl e \<Rightarrow> fail_delete d dec now (wrap_error (''delete movie '' @ show_int i) e)
             | Inr _ \<Rightarrow>
                 abind (decline_overseerr_requests d ''movie'' tmdb) (\<lambda>declined.
                 abind (send_qbit_delete_hint d (de_entity_key dec) (radarr_download_hashes c i now)) (\<lambda>hint.
                 finish_delete d dec now ([''deleted radarr movie '' @ show_int i @ '' ('' @ title @ '')''] @
                   note @ declined @ hint)))))"

definition execute_delete :: "decision_deps \<Rightarrow> decision \<Rightarrow> decision result act" where
  "execute_delete d dec =
     (let now = d_now (dd_deps d)
      in if \<not> cfg_actions_enabled (d_cfg (dd_deps d)) then block_delete d dec now
         else case parse_entity_key (de_entity_key dec) of
                Inl e \<Rightarrow> fail_delete d dec now e
              | Inr ref \<Rightarrow>
                  if er_provider ref = ''sonarr'' then execute_delete_sonarr d dec (er_ident ref) now
                  else execute_delete_radarr d dec (er_ident ref) now)"

definition execute_decision :: "decision_deps \<Rightarrow> int \<Rightarrow> decision result act" where
  "execute_decision d i =
     abind (on_store (decision_by_id i)) (\<lambda>r.
       case r of
         Inl e \<Rightarrow> aret (Inl (wrap_error (''decision: execute '' @ show_int i) e))
       | Inr None \<Rightarrow> aret (Inl (wrap_error (''decision: execute '' @ show_int i) err_decision_not_found))
       | Inr (Some dec) \<Rightarrow>
           if de_kind dec = KindKeep then execute_keep d dec
           else if de_kind dec = KindDelete then execute_delete d dec
           else fail_delete d dec (d_now (dd_deps d)) (quoted_error err_unknown_kind (de_kind dec)))"

end
