(* ===== verification/Notify.thy ===== *)
theory Notify
  imports Check_Types Go_Format
begin

text \<open>
  \<open>internal/notify\<close>: assembling the digest (\<open>build.go\<close>), rendering it (\<open>digest.go\<close> and the embedded
  template) and the message handed to msmtp (\<open>sender.go\<close>). A time that the digest shows carries
  the zone it is shown in. The template is written out as the text it produces.
\<close>

type_synonym zoned = "zone \<times> time"

definition fmt_stamp :: "zoned \<Rightarrow> string" where
  "fmt_stamp = (\<lambda>(z, t). fmt_minute z t)"

section \<open>Input\<close>

record peer_section =
  ps_node :: node
  ps_generated_at :: zoned
  ps_findings :: "finding list"
  ps_checks_run :: int
  ps_checks_failed :: int
  ps_stale_since :: "zoned option"

record cleanup_summary =
  cs_kind :: string
  cs_items :: int
  cs_bytes :: int

record digest_input =
  di_node :: node
  di_generated_at :: zoned
  di_findings :: "finding list"
  di_errors :: "check_error list"
  di_skipped :: "string list"
  di_checks_run :: int
  di_metrics :: metrics
  di_base_url :: string
  di_staleness :: "finding list"
  di_cleanup_plans :: "cleanup_summary list"
  di_pending :: int
  di_peer :: "peer_section option"

type_synonym digest_option = "digest_input \<Rightarrow> digest_input"

definition with_staleness :: "finding list \<Rightarrow> digest_option" where
  "with_staleness fs i = i\<lparr>di_staleness := fs\<rparr>"

definition with_cleanup_plans :: "cleanup_summary list \<Rightarrow> digest_option" where
  "with_cleanup_plans ps i = i\<lparr>di_cleanup_plans := ps\<rparr>"

definition with_pending_decisions :: "int \<Rightarrow> digest_option" where
  "with_pending_decisions n i = i\<lparr>di_pending := n\<rparr>"

definition build_digest ::
  "node \<Rightarrow> zoned \<Rightarrow> report \<Rightarrow> finding list \<Rightarrow> peer_section option \<Rightarrow> string \<Rightarrow> digest_option list \<Rightarrow> digest_input" where
  "build_digest n now own own_findings peer base_url opts =
     foldl (\<lambda>i opt. opt i)
       \<lparr>di_node = n, di_generated_at = now, di_findings = own_findings, di_errors = rp_errors own,
        di_skipped = rp_skipped own, di_checks_run = rp_checks_run own, di_metrics = rp_metrics own,
        di_base_url = base_url, di_staleness = [], di_cleanup_plans = [], di_pending = 0, di_peer = peer\<rparr> opts"

section \<open>Subject\<close>

fun count_severities :: "finding list \<Rightarrow> int \<times> int" where
  "count_severities [] = (0, 0)"
| "count_severities (f # fs) =
     (let (critical, warn) = count_severities fs
      in if fi_severity f = SeverityCritical then (critical + 1, warn)
         else if fi_severity f = SeverityWarn then (critical, warn + 1)
         else (critical, warn))"

definition digest_subject :: "digest_input \<Rightarrow> string" where
  "digest_subject i =
     (let (critical, warn) = count_severities (di_findings i);
          (critical, warn) = (case di_peer i of None \<Rightarrow> (critical, warn)
            | Some p \<Rightarrow> (critical + fst (count_severities (ps_findings p)), warn + snd (count_severities (ps_findings p))))
      in ''healarr digest '' @ em_dash @ '' '' @
         fmt_date (zn_offset (fst (di_generated_at i))) (snd (di_generated_at i)) @ '' '' @ em_dash @ '' '' @
         show_int critical @ '' critical, '' @ show_int warn @ '' warn'')"

definition other_node :: "node \<Rightarrow> node" where
  "other_node n = (if n = NodePi then NodeNAS else NodePi)"

section \<open>Sizes\<close>

text \<open>The loop of \<open>humanizeBytes\<close>: the divisor and the index of the unit.\<close>

function unit_loop :: "int \<Rightarrow> nat \<Rightarrow> int \<Rightarrow> int \<times> nat" where
  "unit_loop dv ex v = (if 1024 \<le> v then unit_loop (dv * 1024) (ex + 1) (v div 1024) else (dv, ex))"
  by auto
termination by (relation "measure (\<lambda>(_, _, v). nat v)") (auto simp: nat_less_iff)

declare unit_loop.simps [simp del]

definition unit_letters :: string where "unit_letters = ''KMGTPE''"

text \<open>An index past the letters panics: \<open>None\<close>.\<close>

definition humanize_bytes :: "int \<Rightarrow> string option" where
  "humanize_bytes n =
     (let n = (if n < 0 then 0 else n)
      in if n < 1024 then Some (show_int n @ '' B'')
         else let (dv, ex) = unit_loop 1024 0 (n div 1024)
              in if ex < length unit_letters
                 then Some (fmt_fixed 1 (f_div (f_of_int n) (f_of_int dv)) @ '' '' @ [unit_letters ! ex] @ ''iB'')
                 else None)"

text \<open>The sizes shown are \<open>int64\<close> values, for which there is always a unit (\<open>humanize_total\<close> below).\<close>

definition shown_bytes :: "int \<Rightarrow> string" where
  "shown_bytes n = (case humanize_bytes n of None \<Rightarrow> '''' | Some s \<Rightarrow> s)"

section \<open>View\<close>

text \<open>The readers of \<open>Finding.Data\<close>; a time decoded from JSON is its text, here in UTC.\<close>

definition data_float :: "data \<Rightarrow> string \<Rightarrow> f64" where
  "data_float d k = (case map_of d k of Some (VFloat x) \<Rightarrow> x | _ \<Rightarrow> Fin 0)"

definition data_string :: "data \<Rightarrow> string \<Rightarrow> string" where
  "data_string d k = (case map_of d k of Some (VStr s) \<Rightarrow> s | Some (VTimeText t) \<Rightarrow> fmt_rfc3339 utc t | _ \<Rightarrow> '''')"

record finding_view =
  fv_check_id :: string
  fv_summary :: string
  fv_detail :: string

definition to_finding_view :: "finding \<Rightarrow> finding_view" where
  "to_finding_view f = \<lparr>fv_check_id = fi_check_id f, fv_summary = fi_summary f, fv_detail = fi_detail f\<rparr>"

record staleness_line =
  sl_title :: string
  sl_score :: int
  sl_band :: string
  sl_size :: string

definition staleness_top_n :: nat where "staleness_top_n = 10"

definition staleness_band :: "severity \<Rightarrow> string" where
  "staleness_band sev = (if sev = SeverityWarn then ''candidate'' else ''watchlist'')"

definition build_staleness_lines :: "finding list \<Rightarrow> staleness_line list" where
  "build_staleness_lines fs =
     map (\<lambda>f. \<lparr>sl_title = data_string (fi_data f) ''title'',
       sl_score = f_to_int (f_round (data_float (fi_data f) ''score'')),
       sl_band = staleness_band (fi_severity f),
       sl_size = shown_bytes (f_to_int (data_float (fi_data f) ''sizeBytes''))\<rparr>) (take staleness_top_n fs)"

record cleanup_line =
  ln_kind :: string
  ln_items :: int
  ln_bytes :: string

definition build_cleanup_plan_lines :: "cleanup_summary list \<Rightarrow> cleanup_line list" where
  "build_cleanup_plan_lines ps =
     map (\<lambda>p. \<lparr>ln_kind = cs_kind p, ln_items = cs_items p, ln_bytes = shown_bytes (cs_bytes p)\<rparr>) ps"

text \<open>The findings of a section by severity; everything that is not critical or warn is an info.\<close>

record buckets =
  bk_critical :: "finding_view list"
  bk_warn :: "finding_view list"
  bk_info :: "finding_view list"

definition add_to_bucket :: "buckets \<Rightarrow> finding \<Rightarrow> buckets" where
  "add_to_bucket b f =
     (if fi_severity f = SeverityCritical then b\<lparr>bk_critical := bk_critical b @ [to_finding_view f]\<rparr>
      else if fi_severity f = SeverityWarn then b\<lparr>bk_warn := bk_warn b @ [to_finding_view f]\<rparr>
      else b\<lparr>bk_info := bk_info b @ [to_finding_view f]\<rparr>)"

definition bucket_findings :: "finding list \<Rightarrow> buckets" where
  "bucket_findings fs = foldl add_to_bucket \<lparr>bk_critical = [], bk_warn = [], bk_info = []\<rparr> fs"

section \<open>Rendering\<close>

text \<open>
  The text of \<open>digest.tmpl\<close>: a section is preceded by a blank line and absent when it has nothing to
  show; the trim markers join the PEER heading to the section before it.
\<close>

definition line :: "string \<Rightarrow> string" where
  "line s = s @ [newline]"

definition finding_lines :: "finding_view \<Rightarrow> string" where
  "finding_lines v = line (''- ['' @ fv_check_id v @ ''] '' @ fv_summary v) @
     (if fv_detail v = '''' then '''' else line (''    '' @ fv_detail v))"

definition finding_section :: "string \<Rightarrow> finding_view list \<Rightarrow> string" where
  "finding_section title vs =
     (if vs = [] then '''' else line '''' @ line title @ concat (map finding_lines vs))"

definition finding_counts :: "int \<Rightarrow> buckets \<Rightarrow> string" where
  "finding_counts n b = show_int n @ '' open findings ('' @ show_int (int (length (bk_critical b))) @ '' critical, '' @
     show_int (int (length (bk_warn b))) @ '' warn, '' @ show_int (int (length (bk_info b))) @ '' info)''"

definition severity_sections :: "finding list \<Rightarrow> string" where
  "severity_sections fs =
     (let b = bucket_findings fs
      in (if fs = [] then line '''' @ line ''No open findings.'' else '''') @
         finding_section ''CRITICAL'' (bk_critical b) @ finding_section ''WARN'' (bk_warn b) @
         finding_section ''INFO'' (bk_info b))"

definition staleness_text :: "staleness_line \<Rightarrow> string" where
  "staleness_text l = line (''- '' @ sl_title l @ '' (score '' @ show_int (sl_score l) @ '', '' @ sl_band l @ '', '' @
     sl_size l @ '')'')"

definition cleanup_text :: "cleanup_line \<Rightarrow> string" where
  "cleanup_text l = line (''- '' @ ln_kind l @ '': '' @ show_int (ln_items l) @ '' item(s), '' @ ln_bytes l)"

definition peer_body :: "node \<Rightarrow> peer_section option \<Rightarrow> string" where
  "peer_body self peer =
     (case peer of
        None \<Rightarrow> line (''PEER ('' @ other_node self @ '')'') @ line '''' @
                line (''peer '' @ other_node self @ '': no report received'')
      | Some p \<Rightarrow>
          line (''PEER ('' @ ps_node p @ '')'') @ line '''' @
          (case ps_stale_since p of
             Some t \<Rightarrow> line (''peer '' @ ps_node p @ '' stale since '' @ fmt_stamp t)
           | None \<Rightarrow>
               line (''Peer summary: '' @ show_int (ps_checks_run p) @ '' checks run, '' @ show_int (ps_checks_failed p) @
                 '' failed, '' @ finding_counts (int (length (ps_findings p))) (bucket_findings (ps_findings p))) @
               severity_sections (ps_findings p)))"

definition own_sections :: "digest_input \<Rightarrow> string" where
  "own_sections i =
     (if di_errors i = [] then ''''
      else line '''' @ line ''Check errors:'' @
        concat (map (\<lambda>e. line (''- ['' @ ce_check_id e @ ''] '' @ ce_error e)) (di_errors i))) @
     (if di_skipped i = [] then ''''
      else line '''' @ line (''Skipped (not configured): '' @ join_with '', '' (di_skipped i))) @
     (if di_base_url i = '''' then '''' else line '''' @ line (''Decisions: '' @ di_base_url i @ ''/decisions'')) @
     (if di_pending i = 0 then '''' else line '''' @ line (''Decisions pending: '' @ show_int (di_pending i))) @
     (if di_staleness i = [] then ''''
      else line '''' @ line ''STALENESS'' @ concat (map staleness_text (build_staleness_lines (di_staleness i)))) @
     (if di_cleanup_plans i = [] then ''''
      else line '''' @ line ''CLEANUP (dry-run plans)'' @
        concat (map cleanup_text (build_cleanup_plan_lines (di_cleanup_plans i))))"

definition digest_head :: "digest_input \<Rightarrow> string" where
  "digest_head i =
     line (''healarr digest '' @ em_dash @ '' '' @ di_node i @ '' '' @ em_dash @ '' '' @ fmt_stamp (di_generated_at i)) @
     line '''' @
     line (''Summary: '' @ show_int (di_checks_run i) @ '' checks run, '' @ show_int (int (length (di_errors i))) @
       '' failed, '' @ show_int (int (length (di_skipped i))) @ '' skipped, '' @
       finding_counts (int (length (di_findings i))) (bucket_findings (di_findings i)))"

definition render_digest :: "digest_input \<Rightarrow> string" where
  "render_digest i = digest_head i @ severity_sections (di_findings i) @ own_sections i @ peer_body (di_node i) (di_peer i)"

section \<open>Mail\<close>

definition header_safe :: "string \<Rightarrow> string" where
  "header_safe s = filter (\<lambda>c. c \<noteq> newline) (filter (\<lambda>c. c \<noteq> CHR 0x0D) s)"

definition build_message :: "string \<Rightarrow> string \<Rightarrow> string \<Rightarrow> string \<Rightarrow> location \<Rightarrow> time \<Rightarrow> string" where
  "build_message sender recipient subject body loc now =
     line (''From: '' @ header_safe sender) @ line (''To: '' @ header_safe recipient) @
     line (''Subject: '' @ header_safe subject) @ line (''Date: '' @ fmt_rfc1123z loc now) @
     line ''MIME-Version: 1.0'' @ line ''Content-Type: text/plain; charset=utf-8'' @ line '''' @ body"

text \<open>
  \<open>msmtp\<close> is an external program: it gets its arguments and the message on standard input, and
  answers a possible failure and what it wrote to standard error.
\<close>

record msmtp_sender =
  ms_path :: string
  ms_from :: string

type_synonym program = "string \<Rightarrow> string list \<Rightarrow> string \<Rightarrow> goerr option \<times> string"

definition msmtp_send ::
  "program \<Rightarrow> msmtp_sender \<Rightarrow> location \<Rightarrow> time \<Rightarrow> string \<Rightarrow> string \<Rightarrow> string \<Rightarrow> unit result" where
  "msmtp_send run m loc now recipient subject body =
     (case run (ms_path m) [''--read-envelope-from'', ''-t''] (build_message (ms_from m) recipient subject body loc now) of
        (None, _) \<Rightarrow> Inr ()
      | (Some e, stderr) \<Rightarrow>
          Inl (GoErr (''notify: send mail: '' @ err_msg e @ '': '' @ trim_space stderr) (err_chain e)))"

section \<open>Laws\<close>

lemma split_on_append: "c \<notin> set a \<Longrightarrow> split_on c (a @ c # b) = a # split_on c b"
  by (induction a) (auto split: list.splits)

lemma split_line: "newline \<notin> set a \<Longrightarrow> split_on newline (line a @ b) = a # split_on newline b"
  using split_on_append [of newline a b] by (simp add: line_def)

lemma newline_header_safe [simp]: "newline \<notin> set (header_safe s)"
  by (simp add: header_safe_def)

text \<open>The unit chosen for a size: a power of 1024 that leaves less than 1024 of it.\<close>

lemma unit_loop_spec:
  "0 \<le> v \<Longrightarrow> unit_loop dv ex v = (dv', ex') \<Longrightarrow>
     \<exists>k. ex' = ex + k \<and> dv' = dv * 1024 ^ k \<and> v div 1024 ^ k < 1024 \<and> (0 < k \<longrightarrow> 1 \<le> v div 1024 ^ k)"
proof (induction dv ex v rule: unit_loop.induct)
  case (1 dv ex v)
  show ?case
  proof (cases "1024 \<le> v")
    case True
    then have "0 \<le> v div 1024" "unit_loop (dv * 1024) (ex + 1) (v div 1024) = (dv', ex')"
      using 1(3) by (simp_all add: unit_loop.simps [of dv ex v])
    from 1(1) [OF True this] obtain k where k: "ex' = ex + 1 + k" "dv' = dv * 1024 * 1024 ^ k"
      "v div 1024 div 1024 ^ k < 1024" "0 < k \<longrightarrow> 1 \<le> v div 1024 div 1024 ^ k" by blast
    have "1 \<le> v div 1024" using True by simp
    then have "1 \<le> v div 1024 div 1024 ^ k" using k(4) by (cases "k = 0") simp_all
    then show ?thesis
      using k by (intro exI [of _ "Suc k"]) (auto simp: zdiv_zmult2_eq)
  next
    case False
    with 1 show ?thesis by (intro exI [of _ 0]) (auto simp: unit_loop.simps [of dv ex v])
  qed
qed


lemma humanize_unit:
  assumes "1024 \<le> n" "n \<le> max_int64"
  shows "\<exists>k. k < 6 \<and> 1024 ^ (k + 1) \<le> n \<and> n < 1024 ^ (k + 2) \<and>
    humanize_bytes n = Some (fmt_fixed 1 (f_div (f_of_int n) (f_of_int (1024 ^ (k + 1)))) @ '' '' @
      [unit_letters ! k] @ ''iB'')"
proof -
  obtain dv ex where loop: "unit_loop 1024 0 (n div 1024) = (dv, ex)" by fastforce
  have "0 \<le> n div 1024" using assms by simp
  from unit_loop_spec [OF this loop] have k: "dv = 1024 ^ (ex + 1)" "n div 1024 div 1024 ^ ex < 1024"
    "0 < ex \<longrightarrow> 1 \<le> n div 1024 div 1024 ^ ex" by auto
  have "1 \<le> n div 1024" using assms(1) by simp
  then have "1 \<le> n div 1024 div 1024 ^ ex" using k(3) by (cases "ex = 0") auto
  then have q: "1 \<le> n div 1024 ^ (ex + 1)" "n div 1024 ^ (ex + 1) < 1024"
    using k(2) by (simp_all add: zdiv_zmult2_eq)
  then have lo: "1024 ^ (ex + 1) \<le> n" by (metis div_pos_pos_trivial assms(1) linorder_not_le not_one_le_zero
        order_trans zero_le_numeral)
  have pos: "(0 :: int) < 1024 ^ (ex + 1)" by simp
  have "n = 1024 ^ (ex + 1) * (n div 1024 ^ (ex + 1)) + n mod 1024 ^ (ex + 1)" by simp
  moreover have "n mod 1024 ^ (ex + 1) < 1024 ^ (ex + 1)" using pos by (rule pos_mod_bound)
  moreover have "1024 ^ (ex + 1) * (n div 1024 ^ (ex + 1)) \<le> 1024 ^ (ex + 1) * 1023"
    using q(2) pos by (intro mult_left_mono) simp_all
  ultimately have "n < 1024 ^ (ex + 1) * 1023 + 1024 ^ (ex + 1)" by linarith
  then have hi: "n < 1024 ^ (ex + 2)" by simp
  have "ex < 6"
  proof (rule ccontr)
    assume "\<not> ex < 6"
    then have "(1024 :: int) ^ 7 \<le> 1024 ^ (ex + 1)" by (intro power_increasing) simp_all
    with lo assms(2) show False by (simp add: max_int64_def)
  qed
  then show ?thesis
    using lo hi k(1) loop assms(1) by (intro exI [of _ ex]) (simp add: humanize_bytes_def unit_letters_def)
qed

text \<open>The size shown for any \<open>int64\<close> is never an index out of the unit letters: below one KiB it is
  the byte count (0 for a negative number), and from there on the unit is the one in which the size is
  at least 1 and below 1024.\<close>

theorem humanize_total:
  assumes "min_int64 \<le> n" "n \<le> max_int64"
  shows "if n < 1024 then humanize_bytes n = Some (show_int (max 0 n) @ '' B'')
    else \<exists>k<6. 1024 ^ (k + 1) \<le> n \<and> n < 1024 ^ (k + 2) \<and>
      humanize_bytes n = Some (fmt_fixed 1 (f_div (f_of_int n) (f_of_int (1024 ^ (k + 1)))) @ '' '' @
        [''KMGTPE'' ! k] @ ''iB'')"
  using humanize_unit [OF _ assms(2)] by (auto simp: humanize_bytes_def unit_letters_def max_def)

theorem humanize_total_witness:
  "\<exists>k<6. 1024 ^ (k + 1) \<le> (5000000000 :: int) \<and> (5000000000 :: int) < 1024 ^ (k + 2)"
  using humanize_total [of 5000000000] by (auto simp: min_int64_def max_int64_def)

lemma split_on_last: "c \<notin> set a \<Longrightarrow> split_on c a = [a]"
  by (induction a) auto

lemma newline_digit [simp]:
  assumes "d < 10"
  shows "newline \<noteq> digit_char d"
proof
  assume "newline = digit_char d"
  then have "(of_char newline :: nat) = of_char (digit_char d)" by (rule arg_cong)
  also have "\<dots> = 48 + d" using assms by (simp add: digit_char_def)
  finally have "(of_char newline :: nat) = 48 + d" .
  moreover have "(of_char newline :: nat) = 10" by (simp add: newline_def)
  ultimately show False using assms by simp
qed

lemma newline_show_nat [simp]: "newline \<notin> set (show_nat n)"
  by (induction n rule: show_nat.induct) (subst show_nat.simps, auto)

lemma newline_pad [simp]: "newline \<notin> set (pad n i)"
  by (auto simp: pad_def Let_def newline_def)
    (metis newline_show_nat newline_def)

lemma newline_names: "newline \<notin> set (weekday_names ! nat (k mod 7))" "newline \<notin> set (short_month m)"
proof -
  have "nat (k mod 7) < 7" by (simp add: nat_less_iff)
  then have "weekday_names ! nat (k mod 7) \<in> set weekday_names" by (intro nth_mem) (simp add: weekday_names_def)
  moreover have "list_all (\<lambda>w. newline \<notin> set w) weekday_names" by (simp add: weekday_names_def newline_def)
  ultimately show "newline \<notin> set (weekday_names ! nat (k mod 7))" by (simp add: list_all_iff)
  have "list_all (\<lambda>w. newline \<notin> set w) month_names" by (simp add: month_names_def newline_def)
  moreover have "month_names ! nat (m - 1) \<in> set month_names" if "1 \<le> m" "m \<le> 12"
    using that by (intro nth_mem) (auto simp: month_names_def)
  ultimately show "newline \<notin> set (short_month m)"
    by (auto simp: short_month_def list_all_iff) (simp_all add: newline_def)
qed

lemma newline_date: "newline \<notin> set (fmt_rfc1123z loc t)"
  by (simp add: fmt_rfc1123z_def Let_def case_prod_beta newline_names) (simp add: newline_def)

text \<open>C16: No value can add a header: read line by line, the message is exactly the six headers in their
  fixed order, an empty line and the lines of the body, whatever the addresses and the subject
  contain, and the subject line carries the subject without its line breaks.\<close>

theorem headers_are_fixed:
  "\<exists>date. split_on newline (build_message sender recipient subject body loc now) =
     [''From: '' @ header_safe sender, ''To: '' @ header_safe recipient, ''Subject: '' @ header_safe subject,
      ''Date: '' @ date, ''MIME-Version: 1.0'', ''Content-Type: text/plain; charset=utf-8'', ''''] @
     split_on newline body"
proof -
  have "newline \<notin> set (fmt_rfc1123z loc now)" by (rule newline_date)
  then show ?thesis
    by (intro exI [of _ "fmt_rfc1123z loc now"])
      (simp add: build_message_def newline_def split_line [unfolded newline_def] newline_header_safe [unfolded newline_def])
qed

end
