(* ===== verification/Agent.thy ===== *)
theory Agent
  imports System Catalogue Cleanup Decisions Notify
begin

text \<open>
  \<open>internal/agent\<close>: one check cycle (\<open>cycle.go\<close>), the answers to the other node's calls
  (\<open>handler.go\<close>) and the nightly cleanup planning (\<open>cleanupjob.go\<close>). \<open>now\<close> is what the clock answers
  in the operation, \<open>deps\<close> what \<open>Options.Deps\<close> builds for it. Log lines are not modelled.
\<close>

section \<open>Options\<close>

definition err_invalid_options :: "string \<Rightarrow> goerr" where
  "err_invalid_options what = new_error (''agent: invalid options: '' @ what)"

text \<open>
  Which of the required options are set; \<open>ao_peer\<close> and \<open>ao_sender\<close> say whether a peer client and a
  mail sender are configured.
\<close>

record agent_options =
  ao_cfg :: config
  ao_registry :: "registry option"
  ao_has_deps :: bool
  ao_has_store :: bool
  ao_has_now :: bool
  ao_version :: string
  ao_peer :: bool
  ao_sender :: bool
  ao_peer_token :: string
  ao_web :: bool

definition validate_options :: "agent_options \<Rightarrow> unit result" where
  "validate_options opts =
     (if cfg_node (ao_cfg opts) = '''' then Inl (err_invalid_options ''cfg.node is required'')
      else if ao_registry opts = None then Inl (err_invalid_options ''registry is required'')
      else if \<not> ao_has_deps opts then Inl (err_invalid_options ''deps is required'')
      else if \<not> ao_has_store opts then Inl (err_invalid_options ''store is required'')
      else if \<not> ao_has_now opts then Inl (err_invalid_options ''now is required'')
      else if ao_version opts = '''' then Inl (err_invalid_options ''version is required'')
      else Inr ())"

record agent =
  ag_cfg :: config
  ag_registry :: registry
  ag_version :: string
  ag_peer :: bool
  ag_sender :: bool
  ag_peer_token :: string
  ag_web :: bool
  ag_started_at :: time

definition new_agent :: "agent_options \<Rightarrow> agent result" where
  "new_agent opts = rbind (validate_options opts) (\<lambda>_.
     case ao_registry opts of
       None \<Rightarrow> Inl (err_invalid_options ''registry is required'')
     | Some r \<Rightarrow> Inr \<lparr>ag_cfg = ao_cfg opts, ag_registry = r, ag_version = ao_version opts, ag_peer = ao_peer opts,
         ag_sender = ao_sender opts, ag_peer_token = ao_peer_token opts, ag_web = ao_web opts, ag_started_at = 0\<rparr>)"

abbreviation ag_node :: "agent \<Rightarrow> node" where
  "ag_node a \<equiv> cfg_node (ag_cfg a)"

definition fallback_payload :: "goerr \<Rightarrow> payload" where
  "fallback_payload e = MarshalFailed ([CHR 123, CHR 34] @ ''marshalError'' @ [CHR 34] @ '':'' @ go_quote (err_msg e) @ [CHR 125])"

definition envelope_payload :: "report_envelope \<Rightarrow> payload" where
  "envelope_payload e = (case wire_envelope e of None \<Rightarrow> fallback_payload unsupported_value | Some _ \<Rightarrow> ReportBody e)"

definition decision_payload :: "peer_decision \<Rightarrow> payload" where
  "decision_payload p = (case wire_decision p of None \<Rightarrow> fallback_payload unsupported_value | Some _ \<Rightarrow> DecisionBody p)"

section \<open>Cycles\<close>

definition checks_for_cadence :: "check list \<Rightarrow> duration \<Rightarrow> check list" where
  "checks_for_cadence cs cadence = filter (\<lambda>c. ck_cadence c = cadence) cs"

definition blank_report :: "node \<Rightarrow> time \<Rightarrow> report" where
  "blank_report n t = \<lparr>rp_node = n, rp_generated_at = t, rp_findings = [], rp_ran = [], rp_skipped = [],
     rp_errors = [], rp_metrics = [], rp_checks_run = 0, rp_checks_failed = 0\<rparr>"

definition push_report :: "agent \<Rightarrow> time \<Rightarrow> report \<Rightarrow> bool act" where
  "push_report a now rep =
     (let env = \<lparr>ev_node = ag_node a, ev_sent_at = now, ev_version = ag_version a, ev_report = rep\<rparr>
      in abind (call (PeerPushReport env)) (\<lambda>r.
         abind (on_store (save_peer_message ''out'' ''report'' (other_node (ag_node a)) (envelope_payload env) now)) (\<lambda>_.
         aret (\<not> isl r))))"

definition cycle_deps :: "deps \<Rightarrow> report option \<Rightarrow> deps" where
  "cycle_deps d prev = (case prev of None \<Rightarrow> d | Some r \<Rightarrow> d\<lparr>d_previous := Some r\<rparr>)"

definition run_cycle :: "agent \<Rightarrow> race \<Rightarrow> deps result \<Rightarrow> time \<Rightarrow> duration \<Rightarrow> (report \<times> int) result act" where
  "run_cycle a race deps now cadence =
     (let checks = checks_for_cadence (for_node (ag_registry a) (ag_node a)) cadence
      in if length checks = 0 then aret (Inr (blank_report (ag_node a) now, 0))
         else case deps of
           Inl e \<Rightarrow> aret (Inl (wrap_error ''agent: run cycle: build deps'' e))
         | Inr d \<Rightarrow>
             abind (on_store (latest_report (ag_node a))) (\<lambda>r.
             case r of
               Inl e \<Rightarrow> aret (Inl (wrap_error ''agent: run cycle: latest report'' e))
             | Inr prev \<Rightarrow>
                 let rep = run_checks race checks (cycle_deps d prev)
                 in abind (on_store (save_report rep)) (\<lambda>r2.
                    case r2 of
                      Inl e \<Rightarrow> aret (Inl (wrap_error ''agent: run cycle: save report'' e))
                    | Inr (i, _) \<Rightarrow>
                        if ag_peer a \<and> ag_node a = NodeNAS
                        then abind (push_report a now rep) (\<lambda>_. aret (Inr (rep, i)))
                        else aret (Inr (rep, i)))))"

section \<open>The other node's calls\<close>

definition record_inbound :: "string \<Rightarrow> node \<Rightarrow> payload \<Rightarrow> time \<Rightarrow> int result act" where
  "record_inbound kind peer body now = on_store (save_peer_message ''in'' kind peer body now)"

definition err_own_node_report :: goerr where
  "err_own_node_report = new_error ''agent: peer report claims own node''"

definition receive_report :: "agent \<Rightarrow> time \<Rightarrow> report_envelope \<Rightarrow> int result act" where
  "receive_report a now env =
     (if ev_node env = ag_node a
      then aret (Inl (GoErr (''agent: receive report: '' @ err_msg err_own_node_report @ '': '' @ ev_node env)
             (err_chain err_own_node_report)))
      else
        let rep = (ev_report env)\<lparr>rp_node := ev_node env\<rparr>
        in abind (on_store (save_report rep)) (\<lambda>r.
           case r of
             Inl e \<Rightarrow> aret (Inl (wrap_error ''agent: receive report: save'' e))
           | Inr (i, _) \<Rightarrow>
               abind (record_inbound ''report'' (ev_node env) (envelope_payload env) now) (\<lambda>r2. aret
                 (case r2 of
                    Inl e \<Rightarrow> Inl (wrap_error ''agent: receive report: record'' e)
                  | Inr _ \<Rightarrow> Inr i))))"

definition latest_own_report :: "agent \<Rightarrow> time \<Rightarrow> report_envelope option result act" where
  "latest_own_report a now =
     abind (on_store (latest_report (ag_node a))) (\<lambda>r. aret
       (case r of
          Inl e \<Rightarrow> Inl (wrap_error ''agent: latest own report'' e)
        | Inr None \<Rightarrow> Inr None
        | Inr (Some rep) \<Rightarrow> Inr (Some \<lparr>ev_node = ag_node a, ev_sent_at = now, ev_version = ag_version a, ev_report = rep\<rparr>)))"

definition hashes_from_payload :: "data \<Rightarrow> string list" where
  "hashes_from_payload p =
     (case map_of p ''hashes'' of
        Some (VStrs ss) \<Rightarrow> ss
      | Some (VList xs) \<Rightarrow> concat (map (\<lambda>x. case x of VStr s \<Rightarrow> [s] | VTimeText t \<Rightarrow> [fmt_rfc3339 utc t] | _ \<Rightarrow> []) xs)
      | _ \<Rightarrow> [])"

definition record_qbit_delete_remediation :: "agent \<Rightarrow> time \<Rightarrow> string \<Rightarrow> string \<Rightarrow> unit act" where
  "record_qbit_delete_remediation a t status detail =
     abind (on_store (record_remediation \<lparr>rm_id = 0, rm_finding_id = None, rm_node = ag_node a,
        rm_action = ''qbit_delete'', rm_tier = TierCorrect, rm_status = status, rm_detail = detail,
        rm_dry_run = False, rm_created_at = t, rm_finished_at = Some t\<rparr>)) (\<lambda>_. aret ())"

definition execute_qbit_delete :: "agent \<Rightarrow> deps result \<Rightarrow> time \<Rightarrow> peer_decision \<Rightarrow> unit act" where
  "execute_qbit_delete a deps now p =
     (if \<not> cfg_actions_enabled (ag_cfg a)
      then record_qbit_delete_remediation a now ''blocked'' (err_msg err_decision_actions_disabled)
      else
        let hashes = hashes_from_payload (pd_payload p)
        in if length hashes = 0 then record_qbit_delete_remediation a now ''failed'' ''qbit_delete: no hashes in payload''
           else case deps of
             Inl e \<Rightarrow> record_qbit_delete_remediation a now ''failed'' (''build deps: '' @ err_msg e)
           | Inr d \<Rightarrow>
               if d_qbit d = None then record_qbit_delete_remediation a now ''failed'' (err_msg not_configured)
               else abind (call (QbitDelete hashes True)) (\<lambda>r.
                 case r of
                   Inl e \<Rightarrow> record_qbit_delete_remediation a now ''failed'' (err_msg e)
                 | Inr _ \<Rightarrow> record_qbit_delete_remediation a now ''executed''
                     (''deleted '' @ show_int (int (length hashes)) @ '' torrent(s) for '' @ pd_entity_key p)))"

text \<open>The clock is read once for the message (\<open>now\<close>) and once more for its execution (\<open>now'\<close>).\<close>

definition receive_decision :: "agent \<Rightarrow> deps result \<Rightarrow> time \<Rightarrow> time \<Rightarrow> peer_decision \<Rightarrow> int result act" where
  "receive_decision a deps now now' p =
     abind (record_inbound ''decision'' (other_node (ag_node a)) (decision_payload p) now) (\<lambda>r.
       case r of
         Inl e \<Rightarrow> aret (Inl (wrap_error ''agent: receive decision'' e))
       | Inr i \<Rightarrow>
           if pd_kind p = ''qbit_delete'' then abind (execute_qbit_delete a deps now' p) (\<lambda>_. aret (Inr i))
           else aret (Inr i))"

definition receive_heartbeat :: "time \<Rightarrow> heartbeat \<Rightarrow> unit result act" where
  "receive_heartbeat now hb =
     abind (record_inbound ''heartbeat'' (hb_node hb) (HeartbeatBody hb) now) (\<lambda>r. aret
       (case r of Inl e \<Rightarrow> Inl (wrap_error ''agent: receive heartbeat'' e) | Inr _ \<Rightarrow> Inr ()))"

section \<open>Nightly cleanup planning\<close>

definition planners_for_node :: "node \<Rightarrow> planner list" where
  "planners_for_node n = filter (\<lambda>p. list_ex (\<lambda>m. m = n) (pl_nodes p)) all_planners"

definition record_cleanup_plan :: "agent \<Rightarrow> time \<Rightarrow> kind \<Rightarrow> string \<Rightarrow> string \<Rightarrow> unit act" where
  "record_cleanup_plan a now k status detail =
     abind (on_store (record_remediation \<lparr>rm_id = 0, rm_finding_id = None, rm_node = ag_node a,
        rm_action = ''cleanup:'' @ k, rm_tier = TierCorrect, rm_status = status, rm_detail = detail,
        rm_dry_run = True, rm_created_at = now, rm_finished_at = None\<rparr>)) (\<lambda>_. aret ())"

definition plan_one_daily_cleanup :: "agent \<Rightarrow> deps \<Rightarrow> time \<Rightarrow> planner \<Rightarrow> unit act" where
  "plan_one_daily_cleanup a d now p =
     (case pl_plan p d of
        Inl e \<Rightarrow> record_cleanup_plan a now (pl_kind p) ''failed'' (err_msg e)
      | Inr plan \<Rightarrow> record_cleanup_plan a now (pl_kind p) ''planned''
          (show_int (int (length (pn_items plan))) @ '' items, '' @ show_int (pn_bytes plan) @ '' bytes''))"

fun for_each :: "('a \<Rightarrow> unit act) \<Rightarrow> 'a list \<Rightarrow> unit act" where
  "for_each f [] = aret ()"
| "for_each f (x # xs) = abind (f x) (\<lambda>_. for_each f xs)"

definition plan_daily_cleanups :: "agent \<Rightarrow> deps result \<Rightarrow> time \<Rightarrow> unit act" where
  "plan_daily_cleanups a deps now =
     (let planners = planners_for_node (ag_node a)
      in case deps of
           Inl e \<Rightarrow> for_each (\<lambda>p. record_cleanup_plan a now (pl_kind p) ''failed'' (''build deps: '' @ err_msg e)) planners
         | Inr d \<Rightarrow> for_each (plan_one_daily_cleanup a d now) planners)"

end
