(* ===== verification/Agent_Schedule.thy ===== *)
theory Agent_Schedule
  imports Agent
begin

text \<open>
  \<open>internal/agent/digest.go\<close>, \<open>schedule.go\<close> and \<open>run.go\<close>: the daily digest, the jobs the scheduler
  runs and the daemon's life from start to shutdown. The cron library is a parameter: what it says
  to a spec when an entry is added.
\<close>

section \<open>Digest\<close>

abbreviation snoozed_status :: string where "snoozed_status \<equiv> ''snoozed''"

definition err_no_sender :: goerr where
  "err_no_sender = new_error ''agent: no sender configured''"

definition to_findings :: "stored_finding list \<Rightarrow> finding list" where
  "to_findings sfs = map sf_finding sfs"

definition open_staleness_findings :: "stored_finding list \<Rightarrow> finding list" where
  "open_staleness_findings sfs =
     map sf_finding (filter (\<lambda>sf. \<not> (fi_check_id (sf_finding sf) \<noteq> staleness_scan_id \<or> sf_status sf = snoozed_status)) sfs)"

definition finding_score :: "finding \<Rightarrow> f64" where
  "finding_score f = data_float (fi_data f) ''score''"

text \<open>\<open>sort.SliceStable\<close> by descending score; a score is a finite float, so its rank is a total order.\<close>

fun score_rank :: "f64 \<Rightarrow> rat" where
  "score_rank (Fin r) = r"
| "score_rank _ = 0"

definition collect_staleness_findings :: "finding list \<Rightarrow> finding list \<Rightarrow> finding list" where
  "collect_staleness_findings own peer = sort_key (\<lambda>f. - score_rank (finding_score f)) (own @ peer)"

text \<open>
  \<open>fmt.Sscanf(detail, "%d items, %d bytes")\<close>: what it scanned before the text stopped matching. A number
  may follow blanks, and a blank of the format matches one or more of them; a newline is none. The blanks
  are those of ASCII.
\<close>

definition scan_blank :: "char \<Rightarrow> bool" where
  "scan_blank c \<longleftrightarrow> c \<in> {CHR 0x09, CHR 0x0B, CHR 0x0C, CHR 0x0D, CHR '' ''}"

definition scan_blanks :: "string \<Rightarrow> string option" where
  "scan_blanks s = (case s of [] \<Rightarrow> Some [] | c # cs \<Rightarrow> if scan_blank c then Some (dropWhile scan_blank s) else None)"

definition scan_decimal :: "string \<Rightarrow> (int \<times> string) option" where
  "scan_decimal s =
     (let (neg, t) = (case dropWhile scan_blank s of [] \<Rightarrow> (False, []) | c # cs \<Rightarrow> if c = CHR ''-'' then (True, cs)
                        else if c = CHR ''+'' then (False, cs) else (False, c # cs));
          ds = takeWhile (\<lambda>c. char_digit c \<noteq> None) t
      in if ds = [] then None
         else case parse_int64 ((if neg then ''-'' else '''') @ ds) of
                None \<Rightarrow> None | Some v \<Rightarrow> Some (v, dropWhile (\<lambda>c. char_digit c \<noteq> None) t))"

definition parse_cleanup_plan_detail :: "string \<Rightarrow> int \<times> int" where
  "parse_cleanup_plan_detail s =
     (case scan_decimal s of
        None \<Rightarrow> (0, 0)
      | Some (n, rest) \<Rightarrow>
          (case scan_blanks rest of
             None \<Rightarrow> (n, 0)
           | Some rest1 \<Rightarrow>
               if \<not> has_prefix rest1 ''items,'' then (n, 0)
               else (case scan_blanks (trim_prefix rest1 ''items,'') of
                       None \<Rightarrow> (n, 0)
                     | Some rest2 \<Rightarrow> (case scan_decimal rest2 of None \<Rightarrow> (n, 0) | Some (b, _) \<Rightarrow> (n, b)))))"

definition cleanup_summaries :: "remediation list \<Rightarrow> cleanup_summary list" where
  "cleanup_summaries rs =
     snd (foldl (\<lambda>(seen, acc) r.
       if rm_status r \<noteq> ''planned'' \<or> \<not> has_prefix (rm_action r) ''cleanup:'' then (seen, acc)
       else let k = trim_prefix (rm_action r) ''cleanup:'';
                (items, bytes) = parse_cleanup_plan_detail (rm_detail r)
            in if k \<in> set seen then (seen, acc)
               else (seen @ [k], acc @ [\<lparr>cs_kind = k, cs_items = items, cs_bytes = bytes\<rparr>])) ([], []) rs)"

text \<open>The clock readings of one digest: for the peer's age, for the digest, for the outbox row.\<close>

record digest_clock =
  dc_peer :: time
  dc_now :: time
  dc_marked :: time

definition utc_time :: "time \<Rightarrow> zoned" where
  "utc_time t = (zone_utc, t)"

definition build_peer_section :: "agent \<Rightarrow> time \<Rightarrow> (peer_section option \<times> finding list) result act" where
  "build_peer_section a now =
     (let p = other_node (ag_node a)
      in abind (on_store (last_peer_message_at p ''report'')) (\<lambda>r. case r of
           Inl e \<Rightarrow> aret (Inl (wrap_error ''peer last message'' e))
         | Inr None \<Rightarrow> aret (Inr (None, []))
         | Inr (Some last_at) \<Rightarrow>
             abind (on_store (latest_report p)) (\<lambda>r2. case r2 of
               Inl e \<Rightarrow> aret (Inl (wrap_error ''peer latest report'' e))
             | Inr rep \<Rightarrow>
                 abind (on_store (open_findings p)) (\<lambda>r3. aret (case r3 of
                   Inl e \<Rightarrow> Inl (wrap_error ''peer open findings'' e)
                 | Inr sfs \<Rightarrow>
                     Inr (Some \<lparr>ps_node = p,
                         ps_generated_at = utc_time (case rep of None \<Rightarrow> 0 | Some x \<Rightarrow> rp_generated_at x),
                         ps_findings = to_findings sfs,
                         ps_checks_run = (case rep of None \<Rightarrow> 0 | Some x \<Rightarrow> rp_checks_run x),
                         ps_checks_failed = (case rep of None \<Rightarrow> 0 | Some x \<Rightarrow> rp_checks_failed x),
                         ps_stale_since = (if ac_peer_stale_after (cfg_agent (ag_cfg a)) < t_sub now last_at
                                           then Some (utc_time last_at) else None)\<rparr>,
                       open_staleness_findings sfs))))))"

definition digest_of :: "agent \<Rightarrow> zone \<Rightarrow> time \<Rightarrow> report \<Rightarrow> stored_finding list \<Rightarrow> peer_section option \<Rightarrow> finding list \<Rightarrow>
    remediation list \<Rightarrow> decision list \<Rightarrow> digest_input" where
  "digest_of a z now own sfs peer peer_stale rems pending =
     build_digest (ag_node a) (z, now) own (to_findings sfs) peer (wc_public_url (cfg_web (ag_cfg a)))
       [with_staleness (collect_staleness_findings (open_staleness_findings sfs) peer_stale),
        with_cleanup_plans (cleanup_summaries rems), with_pending_decisions (int (length pending))]"

text \<open>What is enqueued is what is sent; the row is marked by the outcome, and a mark that fails is only logged.\<close>

definition deliver_digest :: "agent \<Rightarrow> digest_clock \<Rightarrow> digest_input \<Rightarrow> int result act" where
  "deliver_digest a c i =
     (let recipient = ec_to (cfg_email (ag_cfg a)); subject = digest_subject i; body = render_digest i
      in abind (on_store (enqueue_email recipient subject body (dc_now c))) (\<lambda>r. case r of
           Inl e \<Rightarrow> aret (Inl (wrap_error ''agent: send digest: enqueue'' e))
         | Inr k \<Rightarrow>
             abind (call (SendMail recipient subject body)) (\<lambda>sent. case sent of
               Inl e \<Rightarrow> abind (on_store (mark_email_failed k (dc_marked c) (Some e))) (\<lambda>_.
                          aret (Inl (wrap_error ''agent: send digest: send'' e)))
             | Inr _ \<Rightarrow> abind (on_store (mark_email_sent k (dc_marked c))) (\<lambda>_. aret (Inr k)))))"

definition no_report :: report where
  "no_report = blank_report '''' 0"

definition send_digest :: "agent \<Rightarrow> zone \<Rightarrow> digest_clock \<Rightarrow> int result act" where
  "send_digest a z c =
     (let failed = (\<lambda>what e. aret (Inl (wrap_error (''agent: send digest'' @ what) e)))
      in if \<not> ag_sender a then failed '''' err_no_sender
         else abind (on_store (latest_report (ag_node a))) (\<lambda>r1. case r1 of
           Inl e \<Rightarrow> failed '': own latest report'' e
         | Inr own \<Rightarrow>
         abind (on_store (open_findings (ag_node a))) (\<lambda>r2. case r2 of
           Inl e \<Rightarrow> failed '': own open findings'' e
         | Inr sfs \<Rightarrow>
         abind (build_peer_section a (dc_peer c)) (\<lambda>r3. case r3 of
           Inl e \<Rightarrow> failed '''' e
         | Inr (peer, peer_stale) \<Rightarrow>
         abind (on_store (recent_remediations (t_add (dc_now c) (- (24 * hour))))) (\<lambda>r4. case r4 of
           Inl e \<Rightarrow> failed '': recent cleanup plans'' e
         | Inr rems \<Rightarrow>
         abind (on_store pending_decisions) (\<lambda>r5. case r5 of
           Inl e \<Rightarrow> failed '': pending decisions'' e
         | Inr pending \<Rightarrow>
         deliver_digest a c (digest_of a z (dc_now c) (case own of None \<Rightarrow> no_report | Some x \<Rightarrow> x) sfs peer
           peer_stale rems pending)))))))"

section \<open>Jobs\<close>

text \<open>
  The cron jobs. \<open>DailyJob\<close> chains the night's cleanup planning to its cycle.
\<close>

datatype job = CycleJob duration | DailyJob duration | HeartbeatJob | DigestJob | MaintenanceJob

definition send_heartbeat :: "agent \<Rightarrow> time \<Rightarrow> unit result act" where
  "send_heartbeat a now =
     (if \<not> ag_peer a then aret (Inr ())
      else
        let uptime = (if t_is_zero (ag_started_at a) then 0 else f_to_int (dur_seconds (t_sub now (ag_started_at a))));
            hb = \<lparr>hb_node = ag_node a, hb_at = now, hb_version = ag_version a, hb_uptime = uptime\<rparr>
        in abind (call (PeerHeartbeat hb)) (\<lambda>_.
           abind (on_store (save_peer_message ''out'' ''heartbeat'' (other_node (ag_node a)) (HeartbeatBody hb) now)) (\<lambda>r. aret
             (case r of Inl e \<Rightarrow> Inl (wrap_error ''agent: send heartbeat: record'' e) | Inr _ \<Rightarrow> Inr ()))))"

definition prune_messages :: "agent \<Rightarrow> time \<Rightarrow> int act" where
  "prune_messages a now =
     abind (on_store (prune_peer_messages (t_add now (- ac_peer_message_retention (cfg_agent (ag_cfg a))))))
       (\<lambda>r. aret (case r of Inl _ \<Rightarrow> 0 | Inr n \<Rightarrow> n))"

definition run_nightly_maintenance :: "agent \<Rightarrow> time \<Rightarrow> int \<Rightarrow> unit act" where
  "run_nightly_maintenance a now busy =
     abind (prune_messages a now) (\<lambda>_. abind (on_store (checkpoint busy)) (\<lambda>_. aret ()))"

definition run_scheduled_cycle :: "agent \<Rightarrow> race \<Rightarrow> deps result \<Rightarrow> time \<Rightarrow> duration \<Rightarrow> unit act" where
  "run_scheduled_cycle a race deps now cadence = abind (run_cycle a race deps now cadence) (\<lambda>_. aret ())"

definition run_daily_cycle_and_planning ::
  "agent \<Rightarrow> race \<Rightarrow> deps result \<Rightarrow> deps result \<Rightarrow> time \<Rightarrow> duration \<Rightarrow> unit act" where
  "run_daily_cycle_and_planning a race deps deps2 now cadence =
     abind (run_scheduled_cycle a race deps now cadence) (\<lambda>_. plan_daily_cleanups a deps2 now)"

section \<open>Schedule\<close>

definition initial_cycle_cadence :: duration where "initial_cycle_cadence = 5 * minute"
definition daily_cycle_spec :: string where "daily_cycle_spec = ''10 0 * * *''"

definition cycle_cadences :: "(string \<times> duration) list" where
  "cycle_cadences = [(''*/5 * * * *'', initial_cycle_cadence), (''*/15 * * * *'', 15 * minute), (''0 * * * *'', hour),
     (daily_cycle_spec, 24 * hour)]"

text \<open>\<open>time.Parse("15:04", s)\<close>: one or two digits of hour, a colon, exactly two digits of minute.\<close>

definition two_digits :: "char \<Rightarrow> char \<Rightarrow> nat option" where
  "two_digits a b =
     (case (char_digit a, char_digit b) of (Some x, Some y) \<Rightarrow> Some (10 * x + y) | _ \<Rightarrow> None)"

definition clock_time :: "nat option \<Rightarrow> nat option \<Rightarrow> (nat \<times> nat) option" where
  "clock_time h m =
     (case (h, m) of (Some h, Some m) \<Rightarrow> if h < 24 \<and> m < 60 then Some (h, m) else None | _ \<Rightarrow> None)"

fun parse_hour_minute :: "string \<Rightarrow> (nat \<times> nat) option" where
  "parse_hour_minute [a, c, x, y] =
     (if c = CHR '':'' then clock_time (char_digit a) (two_digits x y) else None)"
| "parse_hour_minute [a, b, c, x, y] =
     (if c = CHR '':'' then clock_time (two_digits a b) (two_digits x y) else None)"
| "parse_hour_minute _ = None"

definition daily_cron_spec :: "string \<Rightarrow> string result" where
  "daily_cron_spec s =
     (case parse_hour_minute s of
        None \<Rightarrow> Inl (new_error (''invalid '' @ go_quote ''HH:MM'' @ '' time '' @ go_quote s))
      | Some (h, m) \<Rightarrow> Inr (show_nat m @ '' '' @ show_nat h @ '' * * *''))"

definition digest_enabled :: "agent \<Rightarrow> bool" where
  "digest_enabled a \<longleftrightarrow> ag_sender a \<and> ec_to (cfg_email (ag_cfg a)) \<noteq> ''''"

type_synonym cron = "string \<Rightarrow> unit result"
type_synonym entries = "(string \<times> job) list"

definition add_func :: "cron \<Rightarrow> string \<Rightarrow> string \<Rightarrow> job \<Rightarrow> entries \<Rightarrow> entries result" where
  "add_func cron what spec j es = rbind (wrap_result (''agent: schedule: '' @ what) (cron spec)) (\<lambda>_. Inr (es @ [(spec, j)]))"

definition schedule_cycles :: "cron \<Rightarrow> entries \<Rightarrow> entries result" where
  "schedule_cycles cron es =
     rfoldl (\<lambda>es (spec, cadence). add_func cron (''cycle '' @ spec) spec
       (if spec = daily_cycle_spec then DailyJob cadence else CycleJob cadence) es) es cycle_cadences"

definition schedule_heartbeat :: "agent \<Rightarrow> cron \<Rightarrow> entries \<Rightarrow> entries result" where
  "schedule_heartbeat a cron es =
     (if \<not> ag_peer a then Inr es
      else add_func cron ''heartbeat'' (''@every '' @ dur_string (ac_heartbeat_interval (cfg_agent (ag_cfg a)))) HeartbeatJob es)"

definition schedule_digest :: "agent \<Rightarrow> cron \<Rightarrow> entries \<Rightarrow> entries result" where
  "schedule_digest a cron es =
     (if \<not> digest_enabled a then Inr es
      else rbind (wrap_result ''agent: schedule: digest'' (daily_cron_spec (ec_digest_at (cfg_email (ag_cfg a)))))
        (\<lambda>spec. add_func cron ''digest'' spec DigestJob es))"

definition schedule_checkpoint :: "agent \<Rightarrow> cron \<Rightarrow> entries \<Rightarrow> entries result" where
  "schedule_checkpoint a cron es =
     rbind (wrap_result ''agent: schedule: checkpoint'' (daily_cron_spec (ac_checkpoint_at (cfg_agent (ag_cfg a)))))
       (\<lambda>spec. add_func cron ''checkpoint'' spec MaintenanceJob es)"

text \<open>\<open>zone_error\<close> is the error of \<open>Config.Location\<close>, if any.\<close>

definition schedule :: "agent \<Rightarrow> goerr option \<Rightarrow> cron \<Rightarrow> entries result" where
  "schedule a zone_error cron =
     (case zone_error of
        Some e \<Rightarrow> Inl (wrap_error ''agent: schedule'' e)
      | None \<Rightarrow>
          rbind (schedule_cycles cron []) (\<lambda>es. rbind (schedule_heartbeat a cron es) (\<lambda>es.
          rbind (schedule_digest a cron es) (schedule_checkpoint a cron))))"

section \<open>Life of the daemon\<close>

definition err_missing_peer_token :: goerr where
  "err_missing_peer_token = new_error ''agent: peer listener configured but no peer token set''"

text \<open>How a server ends and which event the \<open>select\<close> takes first.\<close>

datatype shutdown_event = PeerServerExit "goerr option" | WebServerExit "goerr option" | CtxDone

definition join_exits :: "goerr option \<Rightarrow> goerr option \<Rightarrow> goerr option" where
  "join_exits a b =
     (case (a, b) of (None, x) \<Rightarrow> x | (Some e, None) \<Rightarrow> Some e | (Some e, Some f) \<Rightarrow> Some (join_errors e f))"

text \<open>
  \<open>awaitShutdownOrServerFailure\<close>: \<open>peer_exit\<close> and \<open>web_exit\<close> are the graceful ends of the servers
  that run (\<open>None\<close> for a server that was never started).
\<close>

definition await_shutdown :: "shutdown_event \<Rightarrow> goerr option option \<Rightarrow> goerr option option \<Rightarrow> goerr option" where
  "await_shutdown ev peer_exit web_exit =
     (case ev of
        PeerServerExit e \<Rightarrow> e
      | WebServerExit e \<Rightarrow> e
      | CtxDone \<Rightarrow> join_exits (case peer_exit of None \<Rightarrow> None | Some e \<Rightarrow> e) (case web_exit of None \<Rightarrow> None | Some e \<Rightarrow> e))"

definition start_failure :: "goerr \<Rightarrow> unit result" where
  "start_failure e = Inl (wrap_error ''agent: run'' e)"

text \<open>
  \<open>Run\<close>: the checks before anything starts, the initial cycle (whose failure is only logged), the
  scheduled work (\<open>body\<close>) until a shutdown event, and the result.
\<close>

definition run_agent ::
  "agent \<Rightarrow> time \<Rightarrow> goerr option \<Rightarrow> cron \<Rightarrow> race \<Rightarrow> deps result \<Rightarrow> unit act \<Rightarrow> shutdown_event \<Rightarrow>
   goerr option option \<Rightarrow> goerr option option \<Rightarrow> unit result act" where
  "run_agent a now zone_error cron race deps body ev peer_exit web_exit =
     (if pc_listen_addr (cfg_peer (ag_cfg a)) \<noteq> '''' \<and> ag_peer_token a = ''''
      then aret (start_failure err_missing_peer_token)
      else
        let a = a\<lparr>ag_started_at := now\<rparr>
        in case schedule a zone_error cron of
             Inl e \<Rightarrow> aret (start_failure e)
           | Inr _ \<Rightarrow>
               abind (run_cycle a race deps now initial_cycle_cadence) (\<lambda>_.
               abind body (\<lambda>_.
               aret (case await_shutdown ev peer_exit web_exit of
                       None \<Rightarrow> Inr ()
                     | Some e \<Rightarrow> Inl (wrap_error ''agent: run: server'' e)))))"

end
