(* ===== verification/Httpx.thy ===== *)
theory Httpx
  imports Go_Format Check_Types
begin

text \<open>
  \<open>internal/clients/httpx/client.go\<close>: the HTTP client under every upstream client and the peer
  client. The network is a parameter, \<open>exchange\<close>: what a request is answered, or how it fails. So is
  the JSON decoder of a response type. Query strings are encoded, parsed and redacted as \<open>net/url\<close>
  does; an encoded path or a user in the base URL is not covered.
\<close>

section \<open>Query strings\<close>

definition query_safe :: "char \<Rightarrow> bool" where
  "query_safe c \<longleftrightarrow> (let n = of_char c :: nat
     in 48 \<le> n \<and> n \<le> 57 \<or> 65 \<le> n \<and> n \<le> 90 \<or> 97 \<le> n \<and> n \<le> 122 \<or> n = 45 \<or> n = 95 \<or> n = 46 \<or> n = 126)"

definition upper_hex :: "nat \<Rightarrow> char" where
  "upper_hex d = (if d < 10 then char_of (48 + d) else char_of (55 + d))"

definition percent_encode :: "char \<Rightarrow> string" where
  "percent_encode c = (let n = of_char c :: nat in [CHR 0x25, upper_hex (n div 16), upper_hex (n mod 16)])"

definition escape_char :: "char \<Rightarrow> string" where
  "escape_char c = (if query_safe c then [c] else if c = CHR '' '' then ''+'' else percent_encode c)"

definition query_escape :: "string \<Rightarrow> string" where
  "query_escape s = concat (map escape_char s)"

definition unhex :: "char \<Rightarrow> nat option" where
  "unhex c = (let n = of_char c :: nat
     in if 48 \<le> n \<and> n \<le> 57 then Some (n - 48) else if 97 \<le> n \<and> n \<le> 102 then Some (n - 87)
        else if 65 \<le> n \<and> n \<le> 70 then Some (n - 55) else None)"

text \<open>\<open>url.QueryUnescape\<close>; \<open>None\<close> stands for its error.\<close>

fun query_unescape :: "string \<Rightarrow> string option" where
  "query_unescape [] = Some []"
| "query_unescape (c # cs) =
     (if c = CHR 0x25
      then (case cs of
              a # b # rest \<Rightarrow>
                (case (unhex a, unhex b) of
                   (Some x, Some y) \<Rightarrow> map_option ((#) (char_of (16 * x + y))) (query_unescape rest)
                 | _ \<Rightarrow> None)
            | _ \<Rightarrow> None)
      else map_option ((#) (if c = CHR ''+'' then CHR '' '' else c)) (query_unescape cs))"

type_synonym query_values = "(string \<times> string list) list"

definition pair_text :: "string \<times> string \<Rightarrow> string" where
  "pair_text = (\<lambda>(k, v). query_escape k @ ''='' @ query_escape v)"

definition pairs_of :: "query_values \<Rightarrow> (string \<times> string) list" where
  "pairs_of q = concat (map (\<lambda>(k, vs). map (Pair k) vs) q)"

definition encode :: "query_values \<Rightarrow> string" where
  "encode q = join_with ''&'' (map pair_text (pairs_of (sort_key fst q)))"

text \<open>\<open>URL.Query\<close>: pairs that do not parse are skipped, the values of a key are collected.\<close>

definition parse_pair :: "string \<Rightarrow> (string \<times> string) option" where
  "parse_pair s =
     (if CHR '';'' \<in> set s \<or> s = [] then None
      else let (k, v) = (case cut_at (CHR ''='') s of None \<Rightarrow> (s, '''') | Some p \<Rightarrow> p)
           in case (query_unescape k, query_unescape v) of (Some k, Some v) \<Rightarrow> Some (k, v) | _ \<Rightarrow> None)"

fun add_value :: "query_values \<Rightarrow> string \<times> string \<Rightarrow> query_values" where
  "add_value [] (k, v) = [(k, [v])]"
| "add_value ((k', vs) # q) (k, v) = (if k' = k then (k', vs @ [v]) # q else (k', vs) # add_value q (k, v))"

definition parse_query :: "string \<Rightarrow> query_values" where
  "parse_query s = foldl add_value [] (concat (map (\<lambda>t. opt_list (parse_pair t)) (split_on (CHR ''&'') s)))"

section \<open>URLs\<close>

text \<open>A URL that this package builds: \<open>scheme://host\<close>, the decoded path and the encoded query.\<close>

record url =
  ur_base :: string
  ur_path :: string
  ur_query :: string

definition path_safe :: "char \<Rightarrow> bool" where
  "path_safe c \<longleftrightarrow> query_safe c \<or> c \<in> set ''$&+,/:;=@''"

definition escape_path :: "string \<Rightarrow> string" where
  "escape_path s = concat (map (\<lambda>c. if path_safe c then [c] else percent_encode c) s)"

definition url_string :: "url \<Rightarrow> string" where
  "url_string u = ur_base u @ escape_path (ur_path u) @ (if ur_query u = '''' then '''' else ''?'' @ ur_query u)"

text \<open>
  \<open>redactURL\<close> and \<open>hasQuery\<close> parse the text of the URL again; \<open>parses\<close> says whether \<open>url.Parse\<close> accepts
  it. A text it rejects is shown as it is and counts as one without a query.
\<close>

definition has_query :: "bool \<Rightarrow> url \<Rightarrow> bool" where
  "has_query parses u \<longleftrightarrow> parses \<and> ur_query u \<noteq> ''''"

definition redact_values :: "query_values \<Rightarrow> query_values" where
  "redact_values q = map (\<lambda>(k, vs). (k, map (\<lambda>_. ''REDACTED'') vs)) q"

definition redact_url :: "bool \<Rightarrow> url \<Rightarrow> string" where
  "redact_url parses u =
     (if \<not> parses \<or> ur_query u = '''' then url_string u
      else url_string (u\<lparr>ur_query := encode (redact_values (parse_query (ur_query u)))\<rparr>))"

section \<open>The client\<close>

definition default_http_timeout :: duration where "default_http_timeout = 15 * second"

text \<open>
  Headers are an association list with canonical names, so \<open>Set\<close> replaces the values of a name. The
  TLS server name is the one setting of the transport that options change.
\<close>

record http_client =
  hc_base :: url
  hc_headers :: "(string \<times> string list) list"
  hc_http_timeout :: duration
  hc_server_name :: string
  hc_timeout :: duration

type_synonym http_option = "http_client \<Rightarrow> http_client"

definition with_header :: "string \<Rightarrow> string \<Rightarrow> http_option" where
  "with_header k v c = c\<lparr>hc_headers := map_set k [v] (hc_headers c)\<rparr>"

definition with_timeout :: "duration \<Rightarrow> http_option" where
  "with_timeout d c = c\<lparr>hc_timeout := d\<rparr>"

definition with_http_client :: "duration \<Rightarrow> string \<Rightarrow> http_option" where
  "with_http_client timeout server_name c = c\<lparr>hc_http_timeout := timeout, hc_server_name := server_name\<rparr>"

definition with_tls_server_name :: "string \<Rightarrow> http_option" where
  "with_tls_server_name name c = c\<lparr>hc_server_name := name\<rparr>"

text \<open>\<open>parse\<close> is \<open>url.Parse\<close>: scheme, host, path and raw query of a text.\<close>

type_synonym url_parser = "string \<Rightarrow> (string \<times> string \<times> string \<times> string) result"

definition new_client :: "url_parser \<Rightarrow> string \<Rightarrow> http_option list \<Rightarrow> http_client result" where
  "new_client parse base opts =
     (let invalid = ''httpx: invalid base URL '' @ go_quote base
      in rbind (wrap_result invalid (parse base)) (\<lambda>(scheme, host, path, query).
         if scheme = '''' \<or> host = '''' then Inl (new_error invalid)
         else
           let c = foldl (\<lambda>c opt. opt c)
                 \<lparr>hc_base = \<lparr>ur_base = scheme @ ''://'' @ host, ur_path = path, ur_query = query\<rparr>, hc_headers = [],
                   hc_http_timeout = default_http_timeout, hc_server_name = '''', hc_timeout = 0\<rparr> opts
           in Inr (if hc_timeout c \<noteq> 0 then c\<lparr>hc_http_timeout := hc_timeout c\<rparr> else c)))"

definition trim_left :: "char \<Rightarrow> string \<Rightarrow> string" where
  "trim_left c s = dropWhile (\<lambda>x. x = c) s"

definition trim_right :: "char \<Rightarrow> string \<Rightarrow> string" where
  "trim_right c s = rev (dropWhile (\<lambda>x. x = c) (rev s))"

text \<open>A missing query keeps the one of the base URL.\<close>

definition resolve :: "http_client \<Rightarrow> string \<Rightarrow> query_values option \<Rightarrow> url" where
  "resolve c path query =
     (let u = (hc_base c)\<lparr>ur_path := trim_right (CHR ''/'') (ur_path (hc_base c)) @ ''/'' @ trim_left (CHR ''/'') path\<rparr>
      in case query of None \<Rightarrow> u | Some q \<Rightarrow> u\<lparr>ur_query := encode q\<rparr>)"

section \<open>One exchange\<close>

record http_request =
  hq_method :: string
  hq_url :: url
  hq_headers :: "(string \<times> string list) list"
  hq_body :: string

text \<open>
  How an exchange ends: the request cannot be built, it fails (\<open>url.Error\<close> with the failure inside),
  the body cannot be read, or a status and a body arrive. A request that cannot be built says whether
  \<open>url.Parse\<close> accepts its URL and, when the error is a \<open>url.Error\<close>, the operation in it; building any
  other request has parsed its URL.
\<close>

datatype http_outcome =
    Unbuildable bool "string option" goerr
  | TransportFailure string goerr
  | ReadFailure goerr
  | Answered int string

type_synonym exchange = "http_request \<Rightarrow> http_outcome"

definition ellipsis :: string where
  "ellipsis = [CHR 0xE2, CHR 0x80, CHR 0xA6]"

definition truncate :: "string \<Rightarrow> nat \<Rightarrow> string" where
  "truncate s n = (if length s \<le> n then s else take n s @ ellipsis)"

definition api_error :: "int \<Rightarrow> string \<Rightarrow> string \<Rightarrow> string \<Rightarrow> goerr" where
  "api_error status method shown body =
     GoErr (method @ '' '' @ shown @ '': HTTP '' @ show_int status @ '': '' @ truncate body 200) [APIStatus status]"

fun first_status :: "sentinel list \<Rightarrow> int option" where
  "first_status [] = None"
| "first_status (s # ss) = (case s of APIStatus n \<Rightarrow> Some n | _ \<Rightarrow> first_status ss)"

text \<open>\<open>errors.As\<close> into an \<open>*APIError\<close>.\<close>

definition api_status :: "goerr \<Rightarrow> int option" where
  "api_status e = first_status (err_chain e)"

definition is_status :: "goerr \<Rightarrow> int \<Rightarrow> bool" where
  "is_status e n \<longleftrightarrow> api_status e = Some n"

text \<open>The text of a \<open>url.Error\<close> whose URL has been redacted.\<close>

definition redact_transport_error :: "bool \<Rightarrow> string \<Rightarrow> url \<Rightarrow> goerr \<Rightarrow> goerr" where
  "redact_transport_error parses op u e = GoErr (op @ '' '' @ go_quote (redact_url parses u) @ '': '' @ err_msg e) (err_chain e)"

definition max_response :: nat where "max_response = 33554432"

definition omitted_body :: string where
  "omitted_body = ''(body omitted: request carried query parameters)''"

definition request_headers :: "http_client \<Rightarrow> string \<Rightarrow> (string \<times> string list) list" where
  "request_headers c content_type =
     (let h = (if content_type = '''' then hc_headers c else map_set ''Content-Type'' [content_type] (hc_headers c))
      in case map_of h ''Accept'' of
           Some (v # _) \<Rightarrow> if v = '''' then map_set ''Accept'' [''application/json, text/plain;q=0.9, */*;q=0.5''] h else h
         | _ \<Rightarrow> map_set ''Accept'' [''application/json, text/plain;q=0.9, */*;q=0.5''] h)"

definition request_of :: "http_client \<Rightarrow> string \<Rightarrow> url \<Rightarrow> string \<Rightarrow> string \<Rightarrow> http_request" where
  "request_of c method u body content_type =
     \<lparr>hq_method = method, hq_url = u, hq_headers = request_headers c content_type, hq_body = body\<rparr>"

definition http_do :: "http_client \<Rightarrow> exchange \<Rightarrow> string \<Rightarrow> url \<Rightarrow> string \<Rightarrow> string \<Rightarrow> string result" where
  "http_do c ex method u body content_type =
     (let shown = method @ '' '' @ redact_url True u
      in case ex (request_of c method u body content_type) of
           Unbuildable parses op e \<Rightarrow> Inl (wrap_error (''httpx: build '' @ method @ '' '' @ redact_url parses u)
             (case op of None \<Rightarrow> e | Some op \<Rightarrow> redact_transport_error parses op u e))
         | TransportFailure op e \<Rightarrow> Inl (wrap_error (''httpx: '' @ shown) (redact_transport_error True op u e))
         | ReadFailure e \<Rightarrow> Inl (wrap_error (''httpx: read '' @ shown) e)
         | Answered status raw \<Rightarrow>
             if status < 200 \<or> 299 < status
             then Inl (api_error status method (redact_url True u) (if has_query True u then omitted_body else take max_response raw))
             else Inr (take max_response raw))"

text \<open>\<open>None\<close>: the destination is left as it was.\<close>

definition decode_json :: "(string \<Rightarrow> 'a result) \<Rightarrow> string \<Rightarrow> 'a option result" where
  "decode_json dec raw =
     (if raw = '''' then Inr None
      else case dec raw of
             Inl e \<Rightarrow> Inl (GoErr (''httpx: decode response: '' @ err_msg e @ '' (body: '' @ truncate raw 200 @ '')'') (err_chain e))
           | Inr v \<Rightarrow> Inr (Some v))"

definition get_json :: "http_client \<Rightarrow> exchange \<Rightarrow> (string \<Rightarrow> 'a result) \<Rightarrow> string \<Rightarrow> query_values option \<Rightarrow> 'a option result" where
  "get_json c ex dec path query = rbind (http_do c ex ''GET'' (resolve c path query) '''' '''') (decode_json dec)"

text \<open>\<open>body\<close> is the encoded request value: nothing, or what the JSON encoder makes of it.\<close>

definition send_json :: "http_client \<Rightarrow> exchange \<Rightarrow> (string \<Rightarrow> 'a result) \<Rightarrow> string \<Rightarrow> string \<Rightarrow> query_values option \<Rightarrow>
    string result option \<Rightarrow> 'a option result" where
  "send_json c ex dec method path query body =
     rbind (case body of None \<Rightarrow> Inr '''' | Some r \<Rightarrow> wrap_result ''httpx: encode body'' r) (\<lambda>buf.
     rbind (http_do c ex method (resolve c path query) buf ''application/json'') (decode_json dec))"

definition post_json_query where
  "post_json_query c ex dec path query body = send_json c ex dec ''POST'' path query body"

definition post_json where
  "post_json c ex dec path body = post_json_query c ex dec path None body"

definition put_json where
  "put_json c ex dec path body = send_json c ex dec ''PUT'' path None body"

definition http_delete :: "http_client \<Rightarrow> exchange \<Rightarrow> string \<Rightarrow> query_values option \<Rightarrow> unit result" where
  "http_delete c ex path query = rbind (http_do c ex ''DELETE'' (resolve c path query) '''' '''') (\<lambda>_. Inr ())"

definition get_text :: "http_client \<Rightarrow> exchange \<Rightarrow> string \<Rightarrow> query_values option \<Rightarrow> string result" where
  "get_text c ex path query = http_do c ex ''GET'' (resolve c path query) '''' ''''"

definition post_form :: "http_client \<Rightarrow> exchange \<Rightarrow> string \<Rightarrow> query_values \<Rightarrow> string result" where
  "post_form c ex path form =
     http_do c ex ''POST'' (resolve c path None) (encode form) ''application/x-www-form-urlencoded''"

end
