(* ===== verification/Peer.thy ===== *)
theory Peer
  imports Agent Httpx
begin

text \<open>
  \<open>internal/peer\<close>: the node-to-node channel. The client (\<open>client.go\<close>) retries over the HTTP client,
  the server (\<open>server.go\<close>, \<open>handlers.go\<close>) authenticates a request, decodes it and hands it to a
  \<open>Handler\<close>, which the agent provides. The JSON encoders and decoders of the messages are a parameter.
\<close>

section \<open>Messages\<close>

record ack =
  ak_status :: string
  ak_id :: int

text \<open>
  What \<open>Decoder.Decode\<close> finds at the start of a stream: a complete value, the end of the stream inside
  a value, or no JSON of the right shape. \<open>um_\<close> is \<open>json.Unmarshal\<close> of a complete text.
\<close>

datatype 'a streamed = Complete 'a | EndOfStream | Malformed

record codec =
  enc_envelope :: "report_envelope \<Rightarrow> string result"
  enc_decision :: "peer_decision \<Rightarrow> string result"
  enc_heartbeat :: "heartbeat \<Rightarrow> string result"
  enc_ack :: "ack \<Rightarrow> string result"
  dec_envelope :: "string \<Rightarrow> report_envelope streamed"
  dec_decision :: "string \<Rightarrow> peer_decision streamed"
  dec_heartbeat :: "string \<Rightarrow> heartbeat streamed"
  um_ack :: "string \<Rightarrow> ack result"
  um_envelope :: "string \<Rightarrow> report_envelope result"

text \<open>
  The text of a string in JSON: every byte that is not part of a UTF-8 encoding becomes U+FFFD.
\<close>

function json_text :: "string \<Rightarrow> string" where
  "json_text [] = []"
| "json_text (c # cs) =
     (let n = rune_len (c # cs)
      in if n = 0 then [CHR 0xEF, CHR 0xBF, CHR 0xBD] @ json_text cs
         else take n (c # cs) @ json_text (drop n (c # cs)))"
  by pat_completeness auto
termination by (relation "measure length") auto

text \<open>The keys of an object are written in byte order, and of two that became equal the later one is kept.\<close>

definition recode_keys :: "(string \<times> 'v) list \<Rightarrow> (string \<times> 'v) list" where
  "recode_keys m =
     (let recode = map (\<lambda>(k, v). (json_text k, v))
      in if distinct (map fst (recode m)) then recode m else map_merge [] (recode (sort_key fst m)))"

fun value_text :: "anyv \<Rightarrow> anyv"
  and list_text :: "anyv list \<Rightarrow> anyv list"
  and object_text :: "(string \<times> anyv) list \<Rightarrow> (string \<times> anyv) list" where
  "value_text (VStr s) = VStr (json_text s)"
| "value_text (VStrs ss) = VStrs (map json_text ss)"
| "value_text (VList xs) = VList (list_text xs)"
| "value_text (VObj kvs) = VObj (recode_keys (object_text kvs))"
| "value_text v = v"
| "list_text [] = []"
| "list_text (x # xs) = value_text x # list_text xs"
| "object_text [] = []"
| "object_text ((k, v) # kvs) = (k, value_text v) # object_text kvs"

definition finding_text :: "finding \<Rightarrow> finding" where
  "finding_text f = f\<lparr>fi_check_id := json_text (fi_check_id f), fi_node := json_text (fi_node f),
     fi_entity_key := json_text (fi_entity_key f), fi_severity := json_text (fi_severity f),
     fi_tier := json_text (fi_tier f), fi_summary := json_text (fi_summary f), fi_detail := json_text (fi_detail f),
     fi_data := recode_keys (object_text (fi_data f))\<rparr>"

definition report_text :: "report \<Rightarrow> report" where
  "report_text r = r\<lparr>rp_node := json_text (rp_node r), rp_findings := map finding_text (rp_findings r),
     rp_ran := map json_text (rp_ran r), rp_skipped := map json_text (rp_skipped r),
     rp_errors := map (\<lambda>e. \<lparr>ce_check_id = json_text (ce_check_id e), ce_error = json_text (ce_error e)\<rparr>) (rp_errors r),
     rp_metrics := recode_keys (rp_metrics r)\<rparr>"

definition envelope_text :: "report_envelope \<Rightarrow> report_envelope" where
  "envelope_text e = e\<lparr>ev_node := json_text (ev_node e), ev_version := json_text (ev_version e),
     ev_report := report_text (ev_report e)\<rparr>"

section \<open>Client\<close>

definition default_peer_timeout :: duration where "default_peer_timeout = 5 * second"
definition default_retries :: int where "default_retries = 2"

definition report_path :: string where "report_path = ''/v1/report''"
definition latest_report_path :: string where "latest_report_path = ''/v1/report/latest''"
definition decision_path :: string where "decision_path = ''/v1/decision''"
definition heartbeat_path :: string where "heartbeat_path = ''/v1/heartbeat''"

definition unauthorized :: "int \<Rightarrow> goerr" where
  "unauthorized status = GoErr (''peer: unauthorized (status '' @ show_int status @ '')'') [ErrUnauthorized]"

text \<open>With a negative number of retries there is no last error and \<open>%w\<close> formats a nil.\<close>

definition peer_unavailable :: "goerr option \<Rightarrow> goerr" where
  "peer_unavailable last_err =
     (case last_err of
        None \<Rightarrow> GoErr ''peer: unavailable: %!w(<nil>)'' [ErrPeerUnavailable]
      | Some e \<Rightarrow> GoErr (''peer: unavailable: '' @ err_msg e) (ErrPeerUnavailable # err_chain e))"

record peer_config =
  pk_timeout :: duration
  pk_retries :: int
  pk_backoff :: "int \<Rightarrow> duration"

definition with_peer_timeout :: "duration \<Rightarrow> peer_config \<Rightarrow> peer_config" where
  "with_peer_timeout d c = c\<lparr>pk_timeout := d\<rparr>"

definition with_retries :: "int \<Rightarrow> peer_config \<Rightarrow> peer_config" where
  "with_retries n c = c\<lparr>pk_retries := n\<rparr>"

definition with_backoff :: "(int \<Rightarrow> duration) \<Rightarrow> peer_config \<Rightarrow> peer_config" where
  "with_backoff f c = c\<lparr>pk_backoff := f\<rparr>"

definition default_backoff :: "int \<Rightarrow> duration" where
  "default_backoff attempt = (if attempt \<le> 1 then second div 2 else second)"

record peer_client =
  pe_http :: http_client
  pe_retries :: int
  pe_backoff :: "int \<Rightarrow> duration"

definition new_peer_client ::
  "url_parser \<Rightarrow> string \<Rightarrow> string \<Rightarrow> (peer_config \<Rightarrow> peer_config) list \<Rightarrow> peer_client result" where
  "new_peer_client parse base token opts =
     (let cfg = foldl (\<lambda>c opt. opt c)
            \<lparr>pk_timeout = default_peer_timeout, pk_retries = default_retries, pk_backoff = default_backoff\<rparr> opts
      in rbind (wrap_result ''peer: new client''
           (new_client parse base [with_header ''Authorization'' (''Bearer '' @ token), with_timeout (pk_timeout cfg)]))
           (\<lambda>hc. Inr \<lparr>pe_http = hc, pe_retries = pk_retries cfg, pe_backoff = pk_backoff cfg\<rparr>))"

text \<open>
  The caller's context: what it answers when it ends the wait before an attempt, and whether it has
  ended when an attempt fails.
\<close>

record caller =
  cx_interrupts :: "int \<Rightarrow> goerr option"
  cx_done :: "int \<Rightarrow> bool"

definition wait_for :: "caller \<Rightarrow> duration \<Rightarrow> int \<Rightarrow> goerr option" where
  "wait_for cx d attempt = (if d \<le> 0 then None else cx_interrupts cx attempt)"

text \<open>One attempt acts on the state of the rest of the world.\<close>

type_synonym ('a, 's) attempt = "int \<Rightarrow> 's \<Rightarrow> 'a result \<times> 's"

function retry_from ::
  "peer_client \<Rightarrow> caller \<Rightarrow> ('a, 's) attempt \<Rightarrow> int \<Rightarrow> goerr option \<Rightarrow> 's \<Rightarrow> 'a result \<times> 's" where
  "retry_from c cx fn attempt last_err s =
     (if attempt \<le> pe_retries c then
        case (if 0 < attempt then wait_for cx (pe_backoff c attempt) attempt else None) of
          Some e \<Rightarrow> (Inl e, s)
        | None \<Rightarrow>
            (case fn attempt s of
               (Inr x, s') \<Rightarrow> (Inr x, s')
             | (Inl e, s') \<Rightarrow>
                 if cx_done cx attempt then (Inl e, s')
                 else case api_status e of
                        None \<Rightarrow> retry_from c cx fn (attempt + 1) (Some e) s'
                      | Some status \<Rightarrow>
                          if status = 401 \<or> status = 403 then (Inl (unauthorized status), s')
                          else if status < 500 then (Inl e, s')
                          else retry_from c cx fn (attempt + 1) (Some e) s')
      else (Inl (peer_unavailable last_err), s))"
  by pat_completeness auto
termination by (relation "measure (\<lambda>(c, _, _, attempt, _). nat (pe_retries c + 1 - attempt))") auto

declare retry_from.simps [simp del]

definition do_with_retry :: "peer_client \<Rightarrow> caller \<Rightarrow> ('a, 's) attempt \<Rightarrow> 's \<Rightarrow> 'a result \<times> 's" where
  "do_with_retry c cx fn s = retry_from c cx fn 0 None s"

text \<open>How the network treats the request of one attempt, acting on the state of what it reaches.\<close>

type_synonym 's network = "int \<Rightarrow> http_request \<Rightarrow> 's \<Rightarrow> http_outcome \<times> 's"

definition attempt_post ::
  "http_client \<Rightarrow> 's network \<Rightarrow> (string \<Rightarrow> 'a result) \<Rightarrow> string \<Rightarrow> string result \<Rightarrow> ('a option, 's) attempt" where
  "attempt_post c net dec path body i s =
     (case body of
        Inl e \<Rightarrow> (Inl (wrap_error ''httpx: encode body'' e), s)
      | Inr buf \<Rightarrow>
          (case net i (request_of c ''POST'' (resolve c path None) buf ''application/json'') s of
             (out, s') \<Rightarrow> (post_json c (\<lambda>_. out) dec path (Some (Inr buf)), s')))"

definition attempt_get :: "http_client \<Rightarrow> 's network \<Rightarrow> (string \<Rightarrow> 'a result) \<Rightarrow> string \<Rightarrow> ('a option, 's) attempt" where
  "attempt_get c net dec path i s =
     (case net i (request_of c ''GET'' (resolve c path None) '''' '''') s of
        (out, s') \<Rightarrow> (get_json c (\<lambda>_. out) dec path None, s'))"

definition zero_ack :: ack where "zero_ack = \<lparr>ak_status = '''', ak_id = 0\<rparr>"

definition zero_envelope :: report_envelope where
  "zero_envelope = \<lparr>ev_node = '''', ev_sent_at = 0, ev_version = '''', ev_report = blank_report '''' 0\<rparr>"

text \<open>A response without a body leaves the zero value.\<close>

definition post_acked ::
  "string \<Rightarrow> peer_client \<Rightarrow> caller \<Rightarrow> 's network \<Rightarrow> codec \<Rightarrow> string \<Rightarrow> string result \<Rightarrow> 's \<Rightarrow> ack result \<times> 's" where
  "post_acked what c cx net k path body s =
     (case do_with_retry c cx (attempt_post (pe_http c) net (um_ack k) path body) s of
        (Inl e, s') \<Rightarrow> (Inl (wrap_error (''peer: '' @ what) e), s')
      | (Inr a, s') \<Rightarrow> (Inr (case a of None \<Rightarrow> zero_ack | Some a \<Rightarrow> a), s'))"

definition peer_push_report :: "peer_client \<Rightarrow> caller \<Rightarrow> 's network \<Rightarrow> codec \<Rightarrow> report_envelope \<Rightarrow> 's \<Rightarrow> ack result \<times> 's" where
  "peer_push_report c cx net k env = post_acked ''push report'' c cx net k report_path (enc_envelope k env)"

definition fetch_latest :: "peer_client \<Rightarrow> caller \<Rightarrow> 's network \<Rightarrow> codec \<Rightarrow> 's \<Rightarrow> report_envelope option result \<times> 's" where
  "fetch_latest c cx net k s =
     (case do_with_retry c cx (attempt_get (pe_http c) net (um_envelope k) latest_report_path) s of
        (Inr env, s') \<Rightarrow> (Inr (Some (case env of None \<Rightarrow> zero_envelope | Some v \<Rightarrow> v)), s')
      | (Inl e, s') \<Rightarrow> if is_status e 404 then (Inr None, s') else (Inl (wrap_error ''peer: fetch latest'' e), s'))"

definition peer_send_decision :: "peer_client \<Rightarrow> caller \<Rightarrow> 's network \<Rightarrow> codec \<Rightarrow> peer_decision \<Rightarrow> 's \<Rightarrow> ack result \<times> 's" where
  "peer_send_decision c cx net k d = post_acked ''send decision'' c cx net k decision_path (enc_decision k d)"

definition peer_heartbeat :: "peer_client \<Rightarrow> caller \<Rightarrow> 's network \<Rightarrow> codec \<Rightarrow> heartbeat \<Rightarrow> 's \<Rightarrow> ack result \<times> 's" where
  "peer_heartbeat c cx net k hb = post_acked ''heartbeat'' c cx net k heartbeat_path (enc_heartbeat k hb)"

section \<open>Server\<close>

definition max_body_bytes :: nat where "max_body_bytes = 4194304"

text \<open>A request as it reaches the server; a missing header reads as the empty string.\<close>

record server_request =
  sr_method :: string
  sr_path :: string
  sr_authorization :: string
  sr_body :: string

record server_response =
  rs_status :: int
  rs_body :: string

text \<open>What the server needs from the agent.\<close>

record peer_handler =
  ph_receive_report :: "report_envelope \<Rightarrow> int result act"
  ph_latest_own_report :: "report_envelope option result act"
  ph_receive_decision :: "peer_decision \<Rightarrow> int result act"
  ph_receive_heartbeat :: "heartbeat \<Rightarrow> unit result act"

definition agent_handler :: "agent \<Rightarrow> deps result \<Rightarrow> time \<Rightarrow> time \<Rightarrow> peer_handler" where
  "agent_handler a deps now now' = \<lparr>ph_receive_report = receive_report a now, ph_latest_own_report = latest_own_report a now,
     ph_receive_decision = receive_decision a deps now now', ph_receive_heartbeat = receive_heartbeat now\<rparr>"

definition bearer_token :: "string \<Rightarrow> string option" where
  "bearer_token h =
     (if length h \<le> length ''Bearer '' \<or> take (length ''Bearer '') h \<noteq> ''Bearer '' then None
      else Some (drop (length ''Bearer '') h))"

definition write_error :: "int \<Rightarrow> string \<Rightarrow> server_response" where
  "write_error status msg = \<lparr>rs_status = status, rs_body = msg @ [newline]\<rparr>"

text \<open>The status is written before the value is encoded, so a value that does not encode leaves an empty body.\<close>

definition write_json :: "int \<Rightarrow> string result \<Rightarrow> server_response" where
  "write_json status v = \<lparr>rs_status = status, rs_body = (case v of Inl _ \<Rightarrow> '''' | Inr s \<Rightarrow> s @ [newline])\<rparr>"

text \<open>A body that is cut off by the limit inside a value is too large, any other failure is a bad request.\<close>

definition decode_body :: "(string \<Rightarrow> 'a streamed) \<Rightarrow> server_request \<Rightarrow> server_response + 'a" where
  "decode_body dec r =
     (case dec (take max_body_bytes (sr_body r)) of
        Complete v \<Rightarrow> Inr v
      | EndOfStream \<Rightarrow>
          if max_body_bytes < length (sr_body r) then Inl (write_error 413 ''request body too large'')
          else Inl (write_error 400 ''bad request'')
      | Malformed \<Rightarrow> Inl (write_error 400 ''bad request''))"

definition internal_error :: server_response where
  "internal_error = write_error 500 ''internal error''"

definition handle_report :: "codec \<Rightarrow> peer_handler \<Rightarrow> server_request \<Rightarrow> server_response act" where
  "handle_report k h r =
     (case decode_body (dec_envelope k) r of
        Inl resp \<Rightarrow> aret resp
      | Inr env \<Rightarrow> abind (ph_receive_report h env) (\<lambda>x. aret (case x of
            Inl _ \<Rightarrow> internal_error
          | Inr i \<Rightarrow> write_json 200 (enc_ack k \<lparr>ak_status = ''ok'', ak_id = i\<rparr>))))"

definition handle_latest_report :: "codec \<Rightarrow> peer_handler \<Rightarrow> server_request \<Rightarrow> server_response act" where
  "handle_latest_report k h r =
     abind (ph_latest_own_report h) (\<lambda>x. aret (case x of
         Inl _ \<Rightarrow> internal_error
       | Inr None \<Rightarrow> write_error 404 ''not found''
       | Inr (Some env) \<Rightarrow> write_json 200 (enc_envelope k env)))"

definition handle_decision :: "codec \<Rightarrow> peer_handler \<Rightarrow> server_request \<Rightarrow> server_response act" where
  "handle_decision k h r =
     (case decode_body (dec_decision k) r of
        Inl resp \<Rightarrow> aret resp
      | Inr d \<Rightarrow> abind (ph_receive_decision h d) (\<lambda>x. aret (case x of
            Inl _ \<Rightarrow> internal_error
          | Inr i \<Rightarrow> write_json 202 (enc_ack k \<lparr>ak_status = ''accepted'', ak_id = i\<rparr>))))"

definition handle_heartbeat :: "codec \<Rightarrow> peer_handler \<Rightarrow> server_request \<Rightarrow> server_response act" where
  "handle_heartbeat k h r =
     (case decode_body (dec_heartbeat k) r of
        Inl resp \<Rightarrow> aret resp
      | Inr hb \<Rightarrow> abind (ph_receive_heartbeat h hb) (\<lambda>x. aret (case x of
            Inl _ \<Rightarrow> internal_error
          | Inr _ \<Rightarrow> write_json 200 (enc_ack k \<lparr>ak_status = ''ok'', ak_id = 0\<rparr>))))"

text \<open>
  \<open>ServeMux\<close> on cleaned paths: a pattern for \<open>GET\<close> also takes \<open>HEAD\<close>, a known path with another method
  is answered 405, an unknown path 404.
\<close>

definition mux :: "(string \<times> string \<times> 'h) list \<Rightarrow> string \<Rightarrow> string \<Rightarrow> server_response + 'h" where
  "mux routes method path =
     (let at_path = filter (\<lambda>(m, p, h). p = path) routes
      in case filter (\<lambda>(m, p, h). m = method \<or> m = ''GET'' \<and> method = ''HEAD'') at_path of
           (_, _, h) # _ \<Rightarrow> Inr h
         | [] \<Rightarrow> Inl (if at_path = [] then write_error 404 ''404 page not found'' else write_error 405 ''Method Not Allowed''))"

definition peer_routes :: "codec \<Rightarrow> peer_handler \<Rightarrow> (string \<times> string \<times> (server_request \<Rightarrow> server_response act)) list" where
  "peer_routes k h =
     [(''POST'', report_path, handle_report k h), (''GET'', latest_report_path, handle_latest_report k h),
      (''POST'', decision_path, handle_decision k h), (''POST'', heartbeat_path, handle_heartbeat k h)]"

definition auth_middleware :: "string \<Rightarrow> (server_request \<Rightarrow> server_response act) \<Rightarrow> server_request \<Rightarrow> server_response act" where
  "auth_middleware token inner r =
     (if bearer_token (sr_authorization r) \<noteq> Some token then aret (write_error 401 ''unauthorized'') else inner r)"

definition peer_serve :: "string \<Rightarrow> codec \<Rightarrow> peer_handler \<Rightarrow> server_request \<Rightarrow> server_response act" where
  "peer_serve token k h = auth_middleware token (\<lambda>r.
     case mux (peer_routes k h) (sr_method r) (sr_path r) of Inl resp \<Rightarrow> aret resp | Inr f \<Rightarrow> f r)"

definition new_peer_server :: "string \<Rightarrow> codec \<Rightarrow> peer_handler option \<Rightarrow> (server_request \<Rightarrow> server_response act) result" where
  "new_peer_server token k h =
     (if token = '''' then Inl (new_error ''peer: NewServer: token must not be empty'')
      else case h of
             None \<Rightarrow> Inl (new_error ''peer: NewServer: handler must not be nil'')
           | Some h \<Rightarrow> Inr (peer_serve token k h))"

text \<open>
  \<open>ListenAndServe\<close> and \<open>Serve\<close>: \<open>listen\<close> says how binding ends, \<open>serving\<close> how \<open>http.Server.Serve\<close> ends (nothing
  for \<open>ErrServerClosed\<close>), \<open>shutdown\<close> how a shutdown ends if the context is done first.
\<close>

definition serve_until :: "string \<Rightarrow> goerr option \<Rightarrow> goerr option option \<Rightarrow> unit result" where
  "serve_until what serving shutdown =
     (case shutdown of
        Some (Some e) \<Rightarrow> Inl (wrap_error (what @ '': shutdown'') e)
      | _ \<Rightarrow> (case serving of None \<Rightarrow> Inr () | Some e \<Rightarrow> Inl (wrap_error (what @ '': serve'') e)))"

definition listen_and_serve :: "string \<Rightarrow> string \<Rightarrow> goerr option \<Rightarrow> goerr option \<Rightarrow> goerr option option \<Rightarrow> unit result" where
  "listen_and_serve what addr listen serving shutdown =
     (case listen of
        Some e \<Rightarrow> Inl (wrap_error (what @ '': listen on '' @ addr) e)
      | None \<Rightarrow> serve_until what serving shutdown)"

end
