(* ===== verification/Web.thy ===== *)
theory Web
  imports Agent_Schedule Peer
begin

text \<open>
  \<open>internal/web\<close>: sessions and CSRF tokens (\<open>auth.go\<close>), routing (\<open>server.go\<close>), the dashboard, decisions
  and history pages and the form that records a decision. The clock, the random source and the HTML
  templates (\<open>html/template\<close> over files that are not Go) are parameters; a page is the value a template is
  executed on.
\<close>

section \<open>Keyed hashing\<close>

text \<open>The bytes of a SHA-256 digest, and HMAC (RFC 2104) for a key of at most one block.\<close>

definition word_bytes :: "32 word \<Rightarrow> string" where
  "word_bytes w = map (\<lambda>i. char_of (unat (drop_bit (8 * i) w) mod 256)) [3, 2, 1, 0]"

definition sha256_bytes :: "string \<Rightarrow> string" where
  "sha256_bytes s =
     (let ws = sha_words (sha_pad s)
      in concat (map word_bytes (sha_blocks (length ws div 16) ws sha_init)))"

definition xor_byte :: "nat \<Rightarrow> char \<Rightarrow> char" where
  "xor_byte k c = char_of (unat ((word_of_nat k :: 8 word) XOR word_of_nat (of_char c)))"

definition hmac_sha256_hex :: "string \<Rightarrow> string \<Rightarrow> string" where
  "hmac_sha256_hex key msg =
     (let k = key @ replicate (64 - length key) (char_of (0 :: nat))
      in sha256_hex (map (xor_byte 92) k @ sha256_bytes (map (xor_byte 54) k @ msg)))"

definition hex_string :: "string \<Rightarrow> string" where
  "hex_string s = concat (map (\<lambda>c. [hex_digit (of_char c div 16), hex_digit (of_char c mod 16)]) s)"

section \<open>Server\<close>

definition session_ttl :: duration where "session_ttl = 30 * 24 * hour"
definition session_id_bytes :: nat where "session_id_bytes = 32"
definition recent_activity_window :: duration where "recent_activity_window = 7 * 24 * hour"
definition history_limit :: int where "history_limit = 200"

definition default_base_path :: string where
  "default_base_path = wc_base_path (cfg_web defaults)"

definition normalize_base_path :: "string \<Rightarrow> string" where
  "normalize_base_path raw0 =
     (let raw = (if raw0 = '''' then default_base_path else raw0)
      in if raw = ''/'' then ''''
         else
           let trimmed = (if raw \<noteq> '''' \<and> last raw = CHR ''/'' then butlast raw else raw)
           in if trimmed = '''' \<or> hd trimmed \<noteq> CHR ''/'' then CHR ''/'' # trimmed else trimmed)"

record web_server =
  ws_cfg :: config
  ws_base :: string
  ws_token :: string
  ws_csrf_key :: string

text \<open>\<open>csrf_key\<close> is what the random source answers.\<close>

definition new_web :: "config \<Rightarrow> string \<Rightarrow> bool \<Rightarrow> bool \<Rightarrow> string result \<Rightarrow> goerr option \<Rightarrow> web_server result" where
  "new_web cfg token has_store has_runner csrf_key templates =
     (if token = '''' then Inl (new_error ''web: New: token must not be empty'')
      else if \<not> has_store then Inl (new_error ''web: New: store must not be nil'')
      else if \<not> has_runner then Inl (new_error ''web: New: runner must not be nil'')
      else rbind (wrap_result ''web: New: generate csrf key'' csrf_key) (\<lambda>key.
        case templates of
          Some e \<Rightarrow> Inl (wrap_error ''web: New: parse templates: parse'' e)
        | None \<Rightarrow> Inr \<lparr>ws_cfg = cfg, ws_base = normalize_base_path (wc_base_path (cfg_web cfg)), ws_token = token,
            ws_csrf_key = key\<rparr>))"

definition root_path :: "web_server \<Rightarrow> string" where
  "root_path sv = (if ws_base sv = '''' then ''/'' else ws_base sv)"

section \<open>Sessions\<close>

text \<open>The session table of the process beside the state of the node.\<close>

record web_state =
  wb_sys :: sys
  wb_sessions :: "string \<Rightarrow> time option"

type_synonym 'a web = "web_state \<Rightarrow> 'a \<times> web_state"

definition wret :: "'a \<Rightarrow> 'a web" where
  "wret x s = (x, s)"

definition wbind :: "'a web \<Rightarrow> ('a \<Rightarrow> 'b web) \<Rightarrow> 'b web" where
  "wbind m f s = (case m s of (x, s') \<Rightarrow> f x s')"

definition on_sys :: "'a act \<Rightarrow> 'a web" where
  "on_sys m s = (case m (wb_sys s) of (x, sy) \<Rightarrow> (x, s\<lparr>wb_sys := sy\<rparr>))"

definition create_session :: "string result \<Rightarrow> time \<Rightarrow> string result web" where
  "create_session random now s =
     (case random of
        Inl e \<Rightarrow> (Inl (wrap_error ''web: create session'' e), s)
      | Inr raw \<Rightarrow>
          let i = hex_string raw
          in (Inr i, s\<lparr>wb_sessions := (wb_sessions s)(i \<mapsto> t_add now session_ttl)\<rparr>))"

definition delete_session :: "string \<Rightarrow> unit web" where
  "delete_session i s = ((), s\<lparr>wb_sessions := (wb_sessions s)(i := None)\<rparr>)"

text \<open>An expired session is evicted when it is looked at.\<close>

definition valid_session :: "string \<Rightarrow> time \<Rightarrow> bool web" where
  "valid_session i now s =
     (case wb_sessions s i of
        None \<Rightarrow> (False, s)
      | Some expires \<Rightarrow> if expires < now then (False, snd (delete_session i s)) else (True, s))"

definition csrf_token :: "web_server \<Rightarrow> string \<Rightarrow> string" where
  "csrf_token sv session = hmac_sha256_hex (ws_csrf_key sv) session"

definition valid_csrf :: "web_server \<Rightarrow> string \<Rightarrow> string \<Rightarrow> bool" where
  "valid_csrf sv session got \<longleftrightarrow> got = csrf_token sv session"

section \<open>Requests and responses\<close>

text \<open>
  \<open>wr_cookie\<close> is the value of the session cookie, if sent; \<open>wr_form\<close> the posted fields, or nothing when the
  form does not parse. Missing query parameters and fields read as the empty string.
\<close>

record web_request =
  wr_method :: string
  wr_path :: string
  wr_cookie :: "string option"
  wr_token :: string
  wr_flash :: string
  wr_form :: "(string \<times> string) list option"

definition form_value :: "(string \<times> string) list \<Rightarrow> string \<Rightarrow> string" where
  "form_value form k = (case map_of form k of None \<Rightarrow> '''' | Some v \<Rightarrow> v)"

text \<open>What the clock and the random source answer while a request is served.\<close>

record web_env =
  en_checked :: time
  en_now :: time
  en_cookie :: time
  en_random :: "string result"

record page_data =
  pg_base :: string
  pg_csrf :: string
  pg_flash :: string

definition flash_message :: "string \<Rightarrow> string" where
  "flash_message code =
     (if code = ''blocked'' then ''Recorded '' @ em_dash @ '' actions are disabled in config, so it was not executed.''
      else if code = ''ok'' then ''Decision recorded.'' else '''')"

definition page_data_of :: "web_server \<Rightarrow> string \<Rightarrow> web_request \<Rightarrow> page_data" where
  "page_data_of sv session r = \<lparr>pg_base = ws_base sv, pg_csrf = csrf_token sv session, pg_flash = flash_message (wr_flash r)\<rparr>"

section \<open>Dashboard\<close>

definition dashboard_nodes :: "node list" where "dashboard_nodes = [NodePi, NodeNAS]"

definition disk_metric_prefixes :: "string list" where
  "disk_metric_prefixes = [''disk_used_percent:'', ''mount_used_percent:'']"

record disk_gauge =
  dg_label :: string
  dg_percent :: f64

record web_finding =
  wf_check_id :: string
  wf_entity_key :: string
  wf_summary :: string
  wf_detail :: string

record node_view =
  nv_node :: node
  nv_report :: "(time \<times> int \<times> int) option"
  nv_findings_count :: int
  nv_heartbeat :: "time option"
  nv_gauges :: "disk_gauge list"
  nv_critical :: "web_finding list"
  nv_warn :: "web_finding list"
  nv_info :: "web_finding list"

definition gauge_of :: "string \<times> f64 \<Rightarrow> disk_gauge option" where
  "gauge_of = (\<lambda>(key, v). case filter (has_prefix key) disk_metric_prefixes of
     [] \<Rightarrow> None | p # _ \<Rightarrow> Some \<lparr>dg_label = trim_prefix key p, dg_percent = v\<rparr>)"

definition disk_gauges :: "metrics \<Rightarrow> disk_gauge list" where
  "disk_gauges ms = sort_key dg_label (concat (map (\<lambda>m. opt_list (gauge_of m)) ms))"

definition exclude_snoozed :: "stored_finding list \<Rightarrow> stored_finding list" where
  "exclude_snoozed fs = filter (\<lambda>f. sf_status f \<noteq> snoozed_status) fs"

definition web_finding_of :: "stored_finding \<Rightarrow> web_finding" where
  "web_finding_of f = \<lparr>wf_check_id = fi_check_id (sf_finding f), wf_entity_key = fi_entity_key (sf_finding f),
     wf_summary = fi_summary (sf_finding f), wf_detail = fi_detail (sf_finding f)\<rparr>"

fun group_by_severity :: "stored_finding list \<Rightarrow> web_finding list \<times> web_finding list \<times> web_finding list" where
  "group_by_severity [] = ([], [], [])"
| "group_by_severity (f # fs) =
     (let (c, w, i) = group_by_severity fs; v = web_finding_of f; s = fi_severity (sf_finding f)
      in if s = SeverityCritical then (v # c, w, i) else if s = SeverityWarn then (c, v # w, i) else (c, w, v # i))"

definition build_node_view :: "node \<Rightarrow> node_view result act" where
  "build_node_view n =
     abind (on_store (latest_report n)) (\<lambda>r1. case r1 of
       Inl e \<Rightarrow> aret (Inl (wrap_error ''latest report'' e))
     | Inr rep \<Rightarrow>
     abind (on_store (last_peer_message_at n ''heartbeat'')) (\<lambda>r2. case r2 of
       Inl e \<Rightarrow> aret (Inl (wrap_error ''last heartbeat'' e))
     | Inr hb \<Rightarrow>
     abind (on_store (open_findings n)) (\<lambda>r3. aret (case r3 of
       Inl e \<Rightarrow> Inl (wrap_error ''open findings'' e)
     | Inr sfs \<Rightarrow>
         let fs = exclude_snoozed sfs; (c, w, i) = group_by_severity fs
         in Inr \<lparr>nv_node = n, nv_report = map_option (\<lambda>r. (rp_generated_at r, rp_checks_run r, rp_checks_failed r)) rep,
              nv_findings_count = int (length fs), nv_heartbeat = hb,
              nv_gauges = (case rep of None \<Rightarrow> [] | Some r \<Rightarrow> disk_gauges (rp_metrics r)),
              nv_critical = c, nv_warn = w, nv_info = i\<rparr>))))"

fun collect :: "('a \<Rightarrow> 'b result act) \<Rightarrow> 'a list \<Rightarrow> 'b list result act" where
  "collect f [] = aret (Inr [])"
| "collect f (x # xs) = abind (f x) (\<lambda>r. case r of
     Inl e \<Rightarrow> aret (Inl e)
   | Inr y \<Rightarrow> abind (collect f xs) (\<lambda>r2. aret (case r2 of Inl e \<Rightarrow> Inl e | Inr ys \<Rightarrow> Inr (y # ys))))"

section \<open>Decisions page\<close>

record web_component =
  cv_name :: string
  cv_value :: f64

record staleness_view =
  sv_entity_key :: string
  sv_title :: string
  sv_kind :: string
  sv_score :: f64
  sv_band :: string
  sv_components :: "web_component list"
  sv_size :: int
  sv_last_watched :: "time option"
  sv_requested_by :: string

text \<open>The text of a time in the data of a finding is kept as \<open>VTimeText\<close>.\<close>

definition data_time :: "data \<Rightarrow> string \<Rightarrow> time option" where
  "data_time d k = (case map_of d k of Some (VTimeText t) \<Rightarrow> if t_is_zero t then None else Some t | _ \<Rightarrow> None)"

definition data_components :: "data \<Rightarrow> web_component list" where
  "data_components d =
     (case map_of d ''components'' of
        Some (VObj raw) \<Rightarrow> sort_key cv_name
          (map (\<lambda>(name, v). \<lparr>cv_name = name, cv_value = (case v of VFloat x \<Rightarrow> x | _ \<Rightarrow> Fin 0)\<rparr>) raw)
      | _ \<Rightarrow> [])"

definition to_staleness_view :: "string \<Rightarrow> data \<Rightarrow> staleness_cfg \<Rightarrow> staleness_view" where
  "to_staleness_view entity_key d w =
     (let score = data_float d ''score''
      in \<lparr>sv_entity_key = entity_key, sv_title = data_string d ''title'', sv_kind = data_string d ''kind'',
        sv_score = score, sv_band = band score w, sv_components = data_components d,
        sv_size = f_to_int (data_float d ''sizeBytes''), sv_last_watched = data_time d ''lastWatched'',
        sv_requested_by = data_string d ''requestedBy''\<rparr>)"

definition candidates_of :: "web_server \<Rightarrow> stored_finding list list \<Rightarrow> staleness_view list" where
  "candidates_of sv sfss =
     sort_key (\<lambda>v. (- score_rank (sv_score v), sv_entity_key v))
       (map (\<lambda>f. to_staleness_view (fi_entity_key (sf_finding f)) (fi_data (sf_finding f)) (cfg_staleness (ws_cfg sv)))
         (filter (\<lambda>f. \<not> (fi_check_id (sf_finding f) \<noteq> staleness_scan_id \<or> sf_status f = snoozed_status)) (concat sfss)))"

definition staleness_candidates :: "web_server \<Rightarrow> staleness_view list result act" where
  "staleness_candidates sv =
     abind (collect (\<lambda>n. abind (on_store (open_findings n)) (\<lambda>r. aret (wrap_result (''open findings '' @ n) r))) dashboard_nodes)
       (\<lambda>r. aret (case r of Inl e \<Rightarrow> Inl e | Inr sfss \<Rightarrow> Inr (candidates_of sv sfss)))"

record decision_row_view =
  rv_id :: int
  rv_entity_key :: string
  rv_kind :: string
  rv_status :: string
  rv_requested_at :: time

definition to_decision_rows :: "decision list \<Rightarrow> decision_row_view list" where
  "to_decision_rows ds = map (\<lambda>d. \<lparr>rv_id = de_id d, rv_entity_key = de_entity_key d, rv_kind = de_kind d,
     rv_status = de_status d, rv_requested_at = de_requested_at d\<rparr>) ds"

record remediation_view =
  mv_action :: string
  mv_node :: node
  mv_status :: string
  mv_detail :: string
  mv_created_at :: time
  mv_dry_run :: bool

definition to_remediation_view :: "remediation \<Rightarrow> remediation_view" where
  "to_remediation_view r = \<lparr>mv_action = rm_action r, mv_node = rm_node r, mv_status = rm_status r,
     mv_detail = rm_detail r, mv_created_at = rm_created_at r, mv_dry_run = rm_dry_run r\<rparr>"

definition filter_remediations :: "remediation list \<Rightarrow> string \<Rightarrow> string \<Rightarrow> remediation_view list" where
  "filter_remediations rs action status =
     map to_remediation_view (filter (\<lambda>r. rm_action r = action \<and> rm_status r = status) rs)"

definition filter_cleanup_plans :: "remediation list \<Rightarrow> remediation_view list" where
  "filter_cleanup_plans rs = map to_remediation_view (filter (\<lambda>r. has_prefix (rm_action r) ''cleanup:'') rs)"

record decisions_view =
  dv_page :: page_data
  dv_actions_enabled :: bool
  dv_candidates :: "staleness_view list"
  dv_pending :: "decision_row_view list"
  dv_blocked :: "remediation_view list"
  dv_executed :: "remediation_view list"
  dv_cleanup_plans :: "remediation_view list"

section \<open>History page\<close>

record finding_history_view =
  hv_check_id :: string
  hv_entity_key :: string
  hv_summary :: string
  hv_status :: string
  hv_last_seen :: time

definition to_finding_history_views :: "stored_finding list \<Rightarrow> finding_history_view list" where
  "to_finding_history_views fs = map (\<lambda>f. \<lparr>hv_check_id = fi_check_id (sf_finding f),
     hv_entity_key = fi_entity_key (sf_finding f), hv_summary = fi_summary (sf_finding f), hv_status = sf_status f,
     hv_last_seen = fi_last_seen (sf_finding f)\<rparr>) fs"

section \<open>Display\<close>

definition plural :: "int \<Rightarrow> string \<Rightarrow> string" where
  "plural n unit_name = (if n = 1 then ''1 '' @ unit_name else show_int n @ '' '' @ unit_name @ ''s'')"

definition ago :: "time \<Rightarrow> time \<Rightarrow> string" where
  "ago now t =
     (let d = t_sub now t; day = 24 * hour
      in if d < minute then ''just now''
         else if d < hour then plural (d div minute) ''minute'' @ '' ago''
         else if d < day then plural (d div hour) ''hour'' @ '' ago''
         else if d < 30 * day then plural (d div day) ''day'' @ '' ago''
         else if d < 365 * day then plural (d div (30 * day)) ''month'' @ '' ago''
         else plural (d div (365 * day)) ''year'' @ '' ago'')"

section \<open>Handlers\<close>

datatype web_page =
    LoginPage page_data
  | DashboardPage page_data "node_view list"
  | DecisionsPage decisions_view
  | HistoryPage page_data "(node \<times> finding_history_view list) list" "remediation_view list"

text \<open>A response: its status and text, or a redirect, or a page, and what it does to the session cookie.\<close>

datatype cookie_change = KeepCookie | SetCookie string string time | ClearCookie string

datatype web_response =
    ErrorText int string
  | SeeOther string cookie_change
  | Rendered string

definition internal_server_error :: web_response where
  "internal_server_error = ErrorText 500 ''internal server error''"

text \<open>\<open>execute\<close> is the template engine on the set of templates.\<close>

type_synonym templates = "web_page \<Rightarrow> string result"

definition render :: "templates \<Rightarrow> web_page \<Rightarrow> web_response" where
  "render tp p = (case tp p of Inl _ \<Rightarrow> internal_server_error | Inr html \<Rightarrow> Rendered html)"

definition handle_login :: "web_server \<Rightarrow> templates \<Rightarrow> web_env \<Rightarrow> web_request \<Rightarrow> web_response web" where
  "handle_login sv tp en r =
     (if wr_token r = '''' then wret (render tp (LoginPage \<lparr>pg_base = ws_base sv, pg_csrf = '''', pg_flash = ''''\<rparr>))
      else if wr_token r \<noteq> ws_token sv then wret (ErrorText 401 ''unauthorized'')
      else wbind (create_session (en_random en) (en_now en)) (\<lambda>x. wret (case x of
             Inl _ \<Rightarrow> internal_server_error
           | Inr i \<Rightarrow> SeeOther (ws_base sv @ ''/'') (SetCookie (root_path sv) i (t_add (en_cookie en) session_ttl)))))"

definition handle_logout :: "web_server \<Rightarrow> string \<Rightarrow> web_request \<Rightarrow> web_response web" where
  "handle_logout sv session r =
     (case wr_form r of
        None \<Rightarrow> wret (ErrorText 400 ''bad request'')
      | Some form \<Rightarrow>
          if \<not> valid_csrf sv session (form_value form ''csrf'') then wret (ErrorText 403 ''forbidden'')
          else wbind (delete_session session) (\<lambda>_. wret (SeeOther (ws_base sv @ ''/login'') (ClearCookie (root_path sv)))))"

definition handle_dashboard :: "web_server \<Rightarrow> templates \<Rightarrow> string \<Rightarrow> web_request \<Rightarrow> web_response web" where
  "handle_dashboard sv tp session r =
     wbind (on_sys (collect build_node_view dashboard_nodes)) (\<lambda>x. wret (case x of
       Inl _ \<Rightarrow> internal_server_error
     | Inr nvs \<Rightarrow> render tp (DashboardPage (page_data_of sv session r) nvs)))"

definition handle_decisions_get :: "web_server \<Rightarrow> templates \<Rightarrow> web_env \<Rightarrow> string \<Rightarrow> web_request \<Rightarrow> web_response web" where
  "handle_decisions_get sv tp en session r =
     wbind (on_sys (staleness_candidates sv)) (\<lambda>x1. case x1 of Inl _ \<Rightarrow> wret internal_server_error | Inr cands \<Rightarrow>
     wbind (on_sys (on_store pending_decisions)) (\<lambda>x2. case x2 of Inl _ \<Rightarrow> wret internal_server_error | Inr pending \<Rightarrow>
     wbind (on_sys (on_store (recent_remediations (t_add (en_now en) (- recent_activity_window))))) (\<lambda>x3. wret (case x3 of
       Inl _ \<Rightarrow> internal_server_error
     | Inr rs \<Rightarrow> render tp (DecisionsPage \<lparr>dv_page = page_data_of sv session r,
         dv_actions_enabled = cfg_actions_enabled (ws_cfg sv), dv_candidates = cands, dv_pending = to_decision_rows pending,
         dv_blocked = filter_remediations rs ''decision_delete'' ''blocked'',
         dv_executed = filter_remediations rs ''decision_delete'' ''executed'',
         dv_cleanup_plans = filter_cleanup_plans rs\<rparr>)))))"

text \<open>\<open>^(sonarr|radarr):\d+$\<close>\<close>

definition entity_key_pattern :: "string \<Rightarrow> bool" where
  "entity_key_pattern s \<longleftrightarrow>
     (case cut_at (CHR '':'') s of
        None \<Rightarrow> False
      | Some (p, ds) \<Rightarrow> (p = ''sonarr'' \<or> p = ''radarr'') \<and> ds \<noteq> '''' \<and> list_all (\<lambda>c. char_digit c \<noteq> None) ds)"

text \<open>\<open>runner\<close> executes a decision by its id, as \<open>decision.Execute\<close> does.\<close>

definition handle_decisions_post ::
  "web_server \<Rightarrow> (int \<Rightarrow> decision result act) \<Rightarrow> web_env \<Rightarrow> string \<Rightarrow> web_request \<Rightarrow> web_response web" where
  "handle_decisions_post sv runner en session r =
     (case wr_form r of
        None \<Rightarrow> wret (ErrorText 400 ''bad request'')
      | Some form \<Rightarrow>
          let kind = form_value form ''kind''; entity_key = form_value form ''entity_key''
          in if \<not> valid_csrf sv session (form_value form ''csrf'') then wret (ErrorText 403 ''forbidden'')
             else if kind \<noteq> KindKeep \<and> kind \<noteq> KindDelete then wret (ErrorText 400 ''invalid kind'')
             else if \<not> entity_key_pattern entity_key then wret (ErrorText 400 ''invalid entity_key'')
             else wbind (on_sys (on_store (create_decision entity_key kind (en_now en)))) (\<lambda>x. case x of
               Inl _ \<Rightarrow> wret internal_server_error
             | Inr i \<Rightarrow> wbind (on_sys (runner i)) (\<lambda>x2. wret (case x2 of
                 Inr _ \<Rightarrow> SeeOther (ws_base sv @ ''/decisions?flash=ok'') KeepCookie
               | Inl e \<Rightarrow> if errors_is e ErrDecisionActionsDisabled
                          then SeeOther (ws_base sv @ ''/decisions?flash=blocked'') KeepCookie
                          else internal_server_error))))"

definition handle_history :: "web_server \<Rightarrow> templates \<Rightarrow> web_env \<Rightarrow> string \<Rightarrow> web_request \<Rightarrow> web_response web" where
  "handle_history sv tp en session r =
     (let since = t_add (en_now en) (- recent_activity_window)
      in wbind (on_sys (collect (\<lambda>n. abind (on_store (finding_history n since history_limit)) (\<lambda>x. aret (case x of
             Inl e \<Rightarrow> Inl e | Inr fs \<Rightarrow> Inr (n, to_finding_history_views fs)))) dashboard_nodes)) (\<lambda>x1. case x1 of
           Inl _ \<Rightarrow> wret internal_server_error
         | Inr nodes \<Rightarrow>
             wbind (on_sys (on_store (recent_remediations since))) (\<lambda>x2. wret (case x2 of
               Inl _ \<Rightarrow> internal_server_error
             | Inr rs \<Rightarrow> render tp (HistoryPage (page_data_of sv session r) nodes (map to_remediation_view rs))))))"

section \<open>Routing\<close>

text \<open>A request without a live session goes to the login page if it is a GET and is refused otherwise.\<close>

definition require_session :: "web_server \<Rightarrow> web_env \<Rightarrow> (string \<Rightarrow> web_request \<Rightarrow> web_response web) \<Rightarrow> web_request \<Rightarrow> web_response web" where
  "require_session sv en inner r =
     (let refused = wret (if wr_method r = ''GET'' then SeeOther (ws_base sv @ ''/login'') KeepCookie
                          else ErrorText 401 ''unauthorized'')
      in case wr_cookie r of
           None \<Rightarrow> refused
         | Some c \<Rightarrow>
             if c = '''' then refused
             else wbind (valid_session c (en_checked en)) (\<lambda>ok. if ok then inner c r else refused))"

datatype web_target = LoginRoute | LogoutRoute | DashboardRoute | DecisionsRoute | DecideRoute | HistoryRoute | WrongMethod | NoRoute

text \<open>
  \<open>ServeMux\<close> on a cleaned path: the pattern of the dashboard covers everything below the base path that
  no other pattern takes, and a pattern for \<open>GET\<close> also takes \<open>HEAD\<close>.
\<close>

definition web_route :: "web_server \<Rightarrow> string \<Rightarrow> string \<Rightarrow> web_target" where
  "web_route sv method path =
     (let b = ws_base sv; read = (method = ''GET'' \<or> method = ''HEAD'');
          below = has_prefix path (b @ ''/'') \<or> b \<noteq> '''' \<and> path = b
      in if read \<and> path = b @ ''/login'' then LoginRoute
         else if method = ''POST'' \<and> path = b @ ''/logout'' then LogoutRoute
         else if read \<and> path = b @ ''/decisions'' then DecisionsRoute
         else if method = ''POST'' \<and> path = b @ ''/decisions'' then DecideRoute
         else if read \<and> path = b @ ''/history'' then HistoryRoute
         else if read \<and> below then DashboardRoute
         else if below then WrongMethod else NoRoute)"

definition web_serve ::
  "web_server \<Rightarrow> templates \<Rightarrow> (int \<Rightarrow> decision result act) \<Rightarrow> web_env \<Rightarrow> web_request \<Rightarrow> web_response web" where
  "web_serve sv tp runner en r =
     (case web_route sv (wr_method r) (wr_path r) of
        LoginRoute \<Rightarrow> handle_login sv tp en r
      | LogoutRoute \<Rightarrow> require_session sv en (handle_logout sv) r
      | DashboardRoute \<Rightarrow> require_session sv en (handle_dashboard sv tp) r
      | DecisionsRoute \<Rightarrow> require_session sv en (handle_decisions_get sv tp en) r
      | DecideRoute \<Rightarrow> require_session sv en (handle_decisions_post sv runner en) r
      | HistoryRoute \<Rightarrow> require_session sv en (handle_history sv tp en) r
      | WrongMethod \<Rightarrow> wret (ErrorText 405 ''Method Not Allowed'')
      | NoRoute \<Rightarrow> wret (ErrorText 404 ''404 page not found''))"

end
