(* ===== verification/Decisions_Laws.thy ===== *)
theory Decisions_Laws
  imports Decisions Store_Laws Staleness_Laws
begin

text \<open>
  What executing a decision does: which external calls it makes, what becomes of the decision's row,
  and that the invariant of the database survives it.
\<close>

abbreviation decisions :: "sys \<Rightarrow> decision_row list" where
  "decisions s \<equiv> db_decisions (st_db (sy_store s))"

definition delete_call :: "entity_ref \<Rightarrow> action" where
  "delete_call e = (if er_provider e = ''sonarr'' then SonarrDeleteSeries (er_ident e) True True
     else RadarrDeleteMovie (er_ident e) True True)"

text \<open>
  What belongs to an entity, said of the answers of the services alone: the first title listed under
  its id, the Overseerr requests about that title (same media type and same non-zero external id), and
  the downloads of its history within the lookback.
\<close>

definition request_about :: "deps \<Rightarrow> entity_ref \<Rightarrow> overseerr_request \<Rightarrow> bool" where
  "request_about d e r \<longleftrightarrow>
     (if er_provider e = ''sonarr''
      then \<exists>c ss t. d_sonarr d = Some c \<and> sonarr_series c = Inr ss \<and>
             find (\<lambda>t. se_id t = er_ident e) ss = Some t \<and>
             or_media_type r = ''tv'' \<and> se_tvdb_id t \<noteq> 0 \<and> or_tvdb_id r = se_tvdb_id t
      else \<exists>c ms t. d_radarr d = Some c \<and> radarr_movies c = Inr ms \<and>
             find (\<lambda>t. mo_id t = er_ident e) ms = Some t \<and>
             or_media_type r = ''movie'' \<and> mo_tmdb_id t \<noteq> 0 \<and> or_tmdb_id r = mo_tmdb_id t)"

definition listed_requests :: "deps \<Rightarrow> overseerr_request list" where
  "listed_requests d =
     (case d_overseerr d of None \<Rightarrow> []
      | Some c \<Rightarrow> (case overseerr_requests c '''' of Inl _ \<Rightarrow> [] | Inr rs \<Rightarrow> rs))"

definition downloads_of :: "deps \<Rightarrow> entity_ref \<Rightarrow> string set" where
  "downloads_of d e =
     (if er_provider e = ''sonarr''
      then {to_upper (sh_download_id h) | h c hs. d_sonarr d = Some c \<and>
              sonarr_history c (t_add (d_now d) (- (90 * 24 * hour))) '''' = Inr hs \<and> h \<in> set hs \<and>
              sh_series_id h = er_ident e \<and> sh_download_id h \<noteq> ''''}
      else {to_upper (rh_download_id h) | h c hs. d_radarr d = Some c \<and>
              radarr_history c (t_add (d_now d) (- (90 * 24 * hour))) '''' = Inr hs \<and> h \<in> set hs \<and>
              rh_movie_id h = er_ident e \<and> rh_download_id h \<noteq> ''''})"

text \<open>
  The calls that follow a successful delete: the requests about the title are declined, in the order
  Overseerr lists them, and a configured peer is told the key and the downloads, if there are any.
\<close>

definition follow_ups :: "decision_deps \<Rightarrow> string \<Rightarrow> entity_ref \<Rightarrow> action list \<Rightarrow> bool" where
  "follow_ups d key e as \<longleftrightarrow>
     (\<exists>hs. distinct hs \<and> set hs = downloads_of (dd_deps d) e \<and>
       as = [OverseerrDecline (or_id r). r \<leftarrow> listed_requests (dd_deps d), request_about (dd_deps d) e r] @
            (if dd_peer d \<and> hs \<noteq> []
             then [PeerSendDecision \<lparr>pd_id = 0, pd_kind = ''qbit_delete'', pd_entity_key = key,
                     pd_payload = [(''hashes'', VStrs hs)], pd_requested_at = d_now (dd_deps d)\<rparr>]
             else []))"

abbreviation silent :: "'a act \<Rightarrow> bool" where
  "silent \<equiv> only_calls (\<lambda>_. False)"

section \<open>External calls\<close>

lemma silent_log: "silent m \<Longrightarrow> m s = (x, s') \<Longrightarrow> calls s' = calls s"
  using only_callsD [of "\<lambda>_. False" m s x s'] by (metis (full_types) append_Nil2 list.pred_inject(2) neq_Nil_conv)

lemma silent_parts [intro]:
  "silent (record_delete_remediation d status t detail)" "silent (mark dec status t cause)"
  unfolding record_delete_remediation_def mark_def by blast+

lemma silent_outcomes [intro]:
  "silent (block_delete d dec now)" "silent (fail_delete d dec now cause)" "silent (finish_delete d dec now parts)"
  unfolding block_delete_def fail_delete_def finish_delete_def by blast+

lemma silent_keep [intro]: "silent (execute_keep d dec)"
  unfolding execute_keep_def Let_def by blast

lemma adds_silent: "silent m \<Longrightarrow> adds (\<lambda>as. as = []) m"
  by (simp add: adds_nothing)

lemma decline_each_adds:
  "adds (\<lambda>as. as = [OverseerrDecline (or_id r). r \<leftarrow> reqs, request_matches media ext r]) (decline_each media ext reqs n lines)"
proof (induction reqs arbitrary: n lines)
  case (Cons r rs)
  show ?case
  proof (cases "request_matches media ext r")
    case True
    have "adds (\<lambda>as. as = OverseerrDecline (or_id r) # [OverseerrDecline (or_id r). r \<leftarrow> rs, request_matches media ext r])
        (abind (call (OverseerrDecline (or_id r))) (\<lambda>a. case a of
           Inl e \<Rightarrow> decline_each media ext rs n (lines @ [f e]) | Inr _ \<Rightarrow> decline_each media ext rs (n + 1) lines))" for f
      by (rule adds_abind [where P = "\<lambda>as. as = [OverseerrDecline (or_id r)]", OF adds_call])
        (auto split: sum.split intro: Cons.IH)
    then show ?thesis by (simp add: True)
  next
    case False
    then show ?thesis using Cons.IH by simp
  qed
qed (simp add: adds_aret)

lemma decline_requests_add:
  "adds (\<lambda>as. as = (if ext = 0 then []
       else [OverseerrDecline (or_id r). r \<leftarrow> listed_requests (dd_deps d), request_matches media ext r]))
     (decline_overseerr_requests d media ext)"
proof -
  have "adds (\<lambda>as. as = [OverseerrDecline (or_id r). r \<leftarrow> reqs, request_matches media ext r])
      (abind (decline_each media ext reqs 0 []) (\<lambda>(n, lines). aret (f n lines)))"
    for reqs and f :: "int \<Rightarrow> string list \<Rightarrow> string list"
    by (rule adds_abind [OF decline_each_adds, where Q = "\<lambda>bs. bs = []"]) (auto simp: adds_aret split: prod.split)
  then show ?thesis
    by (auto simp: decline_overseerr_requests_def listed_requests_def adds_aret split: option.split sum.split)
qed

lemma hint_adds:
  "adds (\<lambda>as. as = (if dd_peer d \<and> hs \<noteq> []
       then [PeerSendDecision \<lparr>pd_id = 0, pd_kind = ''qbit_delete'', pd_entity_key = key,
               pd_payload = [(''hashes'', VStrs hs)], pd_requested_at = d_now (dd_deps d)\<rparr>] else []))
     (send_qbit_delete_hint d key hs)"
proof -
  have "adds (\<lambda>as. as = [a]) (abind (call a) (case_sum (\<lambda>e. aret (f e)) (\<lambda>x. aret (g x))))"
    for a and f :: "goerr \<Rightarrow> string list" and g
    by (rule adds_abind [OF adds_call, where P = "\<lambda>as. as = [a]" and Q = "\<lambda>bs. bs = []"])
      (auto simp: adds_aret split: sum.split)
  then show ?thesis by (simp add: send_qbit_delete_hint_def adds_aret)
qed

lemma collect_hashes:
  "distinct hs \<Longrightarrow> distinct (foldl collect_hash hs xs) \<and> set (foldl collect_hash hs xs) = set hs \<union> to_upper ` set xs"
  by (induction xs arbitrary: hs) (auto simp: collect_hash_def Let_def)

lemma sonarr_hashes:
  assumes "d_sonarr d = Some c" "er_provider e = ''sonarr''"
  shows "distinct (sonarr_download_hashes c (er_ident e) (d_now d)) \<and>
    set (sonarr_download_hashes c (er_ident e) (d_now d)) = downloads_of d e"
proof (cases "sonarr_history c (t_add (d_now d) (- history_lookback)) ''''")
  case (Inl err)
  then show ?thesis using assms by (auto simp: sonarr_download_hashes_def downloads_of_def history_lookback_def)
next
  case (Inr hs)
  then show ?thesis
    using assms collect_hashes [of "[]" "map sh_download_id
        (filter (\<lambda>r. \<not> (sh_series_id r \<noteq> er_ident e \<or> sh_download_id r = '''')) hs)"]
    by (auto simp: sonarr_download_hashes_def downloads_of_def history_lookback_def)
qed

lemma radarr_hashes:
  assumes "d_radarr d = Some c" "er_provider e \<noteq> ''sonarr''"
  shows "distinct (radarr_download_hashes c (er_ident e) (d_now d)) \<and>
    set (radarr_download_hashes c (er_ident e) (d_now d)) = downloads_of d e"
proof (cases "radarr_history c (t_add (d_now d) (- history_lookback)) ''''")
  case (Inl err)
  then show ?thesis using assms by (auto simp: radarr_download_hashes_def downloads_of_def history_lookback_def)
next
  case (Inr hs)
  then show ?thesis
    using assms collect_hashes [of "[]" "map rh_download_id
        (filter (\<lambda>r. \<not> (rh_movie_id r \<noteq> er_ident e \<or> rh_download_id r = '''')) hs)"]
    by (auto simp: radarr_download_hashes_def downloads_of_def history_lookback_def)
qed

lemma sonarr_requests:
  assumes "d_sonarr d = Some c" "er_provider e = ''sonarr''" "lookup_sonarr_series c (er_ident e) = (ext, nm, extra)"
  shows "(ext \<noteq> 0 \<and> request_matches ''tv'' ext r) = request_about d e r"
  using assms
  by (auto simp: request_about_def request_matches_def lookup_sonarr_series_def split: sum.splits option.splits)

lemma radarr_requests:
  assumes "d_radarr d = Some c" "er_provider e \<noteq> ''sonarr''" "lookup_radarr_movie c (er_ident e) = (ext, nm, extra)"
  shows "(ext \<noteq> 0 \<and> request_matches ''movie'' ext r) = request_about d e r"
  using assms
  by (auto simp: request_about_def request_matches_def lookup_radarr_movie_def split: sum.splits option.splits)

lemma follow_ups_add:
  assumes "\<And>r. (ext \<noteq> 0 \<and> request_matches media ext r) = request_about (dd_deps d) e r"
    "distinct hs \<and> set hs = downloads_of (dd_deps d) e" "\<And>x y. silent (f x y)"
  shows "adds (follow_ups d key e)
    (abind (decline_overseerr_requests d media ext) (\<lambda>x. abind (send_qbit_delete_hint d key hs) (f x)))"
proof -
  have r: "(if ext = 0 then [] else [OverseerrDecline (or_id r). r \<leftarrow> rs, request_matches media ext r]) =
      [OverseerrDecline (or_id r). r \<leftarrow> rs, request_about (dd_deps d) e r]" for rs
    using assms(1) by (auto intro!: arg_cong [of _ _ concat] map_cong)
  have "adds (\<lambda>as. as = (if dd_peer d \<and> hs \<noteq> []
       then [PeerSendDecision \<lparr>pd_id = 0, pd_kind = ''qbit_delete'', pd_entity_key = key,
               pd_payload = [(''hashes'', VStrs hs)], pd_requested_at = d_now (dd_deps d)\<rparr>] else []))
     (abind (send_qbit_delete_hint d key hs) (f x))" for x
    by (rule adds_abind [OF hint_adds adds_silent [OF assms(3)]]) simp
  then show ?thesis
    by (rule adds_abind [OF decline_requests_add]) (use assms(2) in \<open>unfold r follow_ups_def, blast\<close>)
qed

text \<open>An operation that calls nothing, or one action and, unless that is answered with an error, what \<open>F\<close> allows.\<close>

definition opens_with :: "action \<Rightarrow> (action list \<Rightarrow> bool) \<Rightarrow> 'a act \<Rightarrow> bool" where
  "opens_with a F m \<longleftrightarrow>
     (\<forall>s. calls (snd (m s)) = calls s \<or>
        (\<exists>as. calls (snd (m s)) = calls s @ a # as \<and> (if isl (fst (perform a (sy_world s))) then as = [] else F as)))"

lemma opens_with_silent: "silent m \<Longrightarrow> opens_with a F m"
  unfolding opens_with_def by (metis prod.collapse silent_log)

lemma call_then:
  assumes "\<And>e. silent (f e)" "\<And>n. adds F (g n)"
  shows "\<exists>as. calls (snd (abind (call a) (case_sum f g) s)) = calls s @ a # as \<and>
    (if isl (fst (perform a (sy_world s))) then as = [] else F as)"
proof -
  define r where "r = fst (perform a (sy_world s))"
  obtain s1 where c: "call a s = (r, s1)" unfolding call_def r_def by (cases "perform a (sy_world s)") simp
  have s1: "calls s1 = calls s @ [a]" using calls_call [of a s] c by simp
  show ?thesis
  proof (cases r)
    case (Inl e)
    obtain x s2 where x: "f e s1 = (x, s2)" by fastforce
    from silent_log [OF assms(1) x] show ?thesis by (simp add: abind_def c Inl r_def [symmetric] x s1)
  next
    case (Inr n)
    obtain as where "calls (snd (g n s1)) = calls s1 @ as" "F as" using assms(2) [of n] unfolding adds_def by blast
    then show ?thesis by (simp add: abind_def c Inr r_def [symmetric] s1)
  qed
qed

lemma opens_with_call:
  assumes "\<And>e. silent (f e)" "\<And>n. adds F (g n)"
  shows "opens_with a F (abind (call a) (case_sum f g))"
  using call_then [of f F g, OF assms] unfolding opens_with_def by blast

lemma delete_steps:
  assumes "d_sonarr (dd_deps d) = Some c" "er_provider e = ''sonarr''"
    "lookup_sonarr_series c (er_ident e) = (ext, nm, extra)"
  shows "adds (follow_ups d key e)
    (abind (decline_overseerr_requests d ''tv'' ext) (\<lambda>x.
     abind (send_qbit_delete_hint d key (sonarr_download_hashes c (er_ident e) (d_now (dd_deps d)))) (\<lambda>y.
     finish_delete d dec now (parts x y))))"
  by (intro follow_ups_add sonarr_requests [OF assms] sonarr_hashes assms silent_outcomes)

lemma delete_steps_movie:
  assumes "d_radarr (dd_deps d) = Some c" "er_provider e \<noteq> ''sonarr''"
    "lookup_radarr_movie c (er_ident e) = (ext, nm, extra)"
  shows "adds (follow_ups d key e)
    (abind (decline_overseerr_requests d ''movie'' ext) (\<lambda>x.
     abind (send_qbit_delete_hint d key (radarr_download_hashes c (er_ident e) (d_now (dd_deps d)))) (\<lambda>y.
     finish_delete d dec now (parts x y))))"
  by (intro follow_ups_add radarr_requests [OF assms] radarr_hashes assms silent_outcomes)

lemma opens_with_sonarr:
  assumes "er_provider e = ''sonarr''"
  shows "opens_with (delete_call e) (follow_ups d (de_entity_key dec) e)
    (execute_delete_sonarr d dec (er_ident e) (d_now (dd_deps d)))"
proof (cases "d_sonarr (dd_deps d)")
  case (Some c)
  obtain ext nm extra where l: "lookup_sonarr_series c (er_ident e) = (ext, nm, extra)" by (metis prod_cases3)
  show ?thesis
    using assms unfolding execute_delete_sonarr_def Some l Let_def option.case prod.case delete_call_def
    by (simp add: opens_with_call silent_outcomes delete_steps [OF Some assms l])
qed (simp add: execute_delete_sonarr_def opens_with_silent silent_outcomes)

lemma opens_with_radarr:
  assumes "er_provider e \<noteq> ''sonarr''"
  shows "opens_with (delete_call e) (follow_ups d (de_entity_key dec) e)
    (execute_delete_radarr d dec (er_ident e) (d_now (dd_deps d)))"
proof (cases "d_radarr (dd_deps d)")
  case (Some c)
  obtain ext nm extra where l: "lookup_radarr_movie c (er_ident e) = (ext, nm, extra)" by (metis prod_cases3)
  show ?thesis
    using assms unfolding execute_delete_radarr_def Some l Let_def option.case prod.case delete_call_def
    by (simp add: opens_with_call silent_outcomes delete_steps_movie [OF Some assms l])
qed (simp add: execute_delete_radarr_def opens_with_silent silent_outcomes)

lemma opens_with_delete:
  assumes "parse_entity_key (de_entity_key dec) = Inr e"
  shows "opens_with (delete_call e) (follow_ups d (de_entity_key dec) e) (execute_delete d dec)"
  using assms opens_with_sonarr [of e d dec] opens_with_radarr [of e d dec]
  by (simp add: execute_delete_def Let_def opens_with_silent silent_outcomes)

lemma unmatched_delete_is_silent:
  assumes "\<nexists>e. cfg_actions_enabled (d_cfg (dd_deps d)) \<and> parse_entity_key (de_entity_key dec) = Inr e"
  shows "silent (execute_delete d dec)"
  using assms unfolding execute_delete_def Let_def
  by (cases "parse_entity_key (de_entity_key dec)") auto

text \<open>The dispatch on the loaded decision.\<close>

definition run_loaded :: "decision_deps \<Rightarrow> int \<Rightarrow> decision option result \<Rightarrow> decision result act" where
  "run_loaded d i r =
     (case r of
        Inl e \<Rightarrow> aret (Inl (wrap_error (''decision: execute '' @ show_int i) e))
      | Inr None \<Rightarrow> aret (Inl (wrap_error (''decision: execute '' @ show_int i) err_decision_not_found))
      | Inr (Some dec) \<Rightarrow>
          if de_kind dec = KindKeep then execute_keep d dec
          else if de_kind dec = KindDelete then execute_delete d dec
          else fail_delete d dec (d_now (dd_deps d)) (quoted_error err_unknown_kind (de_kind dec)))"

lemma execute_loaded: "execute_decision d i = abind (on_store (decision_by_id i)) (run_loaded d i)"
  unfolding execute_decision_def run_loaded_def ..

text \<open>C32: Executing a decision touches nothing but the entity it names: if it makes any external call
  at all, the row under its id is a delete, actions are enabled, its key parses, and the first call deletes
  exactly that series or movie (files and import exclusion included). When that call is answered with an
  error no other follows. Otherwise the later calls are known one by one: a decline for each listed
  Overseerr request about the very title under that id, in their order, and, when a peer is configured and
  the entity's history of the last 90 days names downloads, one hint to the peer with the decision's key
  and exactly those downloads, each once.\<close>

theorem only_the_named_entity_is_deleted:
  assumes "execute_decision d i s = (res, s')"
  shows "calls s' = calls s \<or>
    (\<exists>r e as. find (\<lambda>r. dr_id r = i) (decisions s) = Some r \<and> dr_kind r = KindDelete \<and>
       cfg_actions_enabled (d_cfg (dd_deps d)) \<and> parse_entity_key (dr_entity_key r) = Inr e \<and>
       calls s' = calls s @ delete_call e # as \<and>
       (if isl (fst (perform (delete_call e) (sy_world s))) then as = []
        else follow_ups d (dr_entity_key r) e as))"
proof -
  obtain q s1 where q: "on_store (decision_by_id i) s = (q, s1)" by fastforce
  have log: "calls s1 = calls s" using calls_on_store [of "decision_by_id i" s] q by simp
  have world: "sy_world s1 = sy_world s" using q by (auto simp: on_store_def split: prod.splits)
  have row: "q = Inr (map_option scan_decision_row (find (\<lambda>r. dr_id r = i) (decisions s)))" if "q = Inr x" for x
    using q that by (auto simp: on_store_def decision_by_id_def split: prod.splits dest: squery_Inr)
  show ?thesis
  proof (cases "\<exists>r. q = Inr (Some (scan_decision_row r)) \<and>
      find (\<lambda>r. dr_id r = i) (decisions s) = Some r \<and> dr_kind r = KindDelete \<and>
      cfg_actions_enabled (d_cfg (dd_deps d)) \<and> (\<exists>e. parse_entity_key (dr_entity_key r) = Inr e)")
    case True
    then obtain r e where r: "q = Inr (Some (scan_decision_row r))"
      "find (\<lambda>r. dr_id r = i) (decisions s) = Some r" "dr_kind r = KindDelete"
      "cfg_actions_enabled (d_cfg (dd_deps d))" "parse_entity_key (dr_entity_key r) = Inr e" by blast
    have run: "execute_delete d (scan_decision_row r) s1 = (res, s')"
      using assms r(1,3) by (simp add: execute_loaded run_loaded_def abind_def q scan_decision_row_def)
    have "opens_with (delete_call e) (follow_ups d (dr_entity_key r) e) (execute_delete d (scan_decision_row r))"
      using opens_with_delete [of "scan_decision_row r" e d] r by (simp add: scan_decision_row_def)
    then have "calls s' = calls s1 \<or> (\<exists>as. calls s' = calls s1 @ delete_call e # as \<and>
        (if isl (fst (perform (delete_call e) (sy_world s1))) then as = [] else follow_ups d (dr_entity_key r) e as))"
      unfolding opens_with_def by (metis run snd_conv)
    then show ?thesis using r log world by auto
  next
    case False
    have "silent (run_loaded d i q)"
    proof (cases q)
      case (Inr q2)
      show ?thesis
      proof (cases q2)
        case (Some dec)
        have "map_option scan_decision_row (find (\<lambda>r. dr_id r = i) (decisions s)) = Some dec"
          using row [OF Inr] Inr Some by simp
        then obtain r where r: "dec = scan_decision_row r" "find (\<lambda>r. dr_id r = i) (decisions s) = Some r"
          by (auto simp: map_option_eq_Some)
        with False Inr Some have "silent (execute_delete d dec)" if "dr_kind r = KindDelete"
          using that by (intro unmatched_delete_is_silent) (auto simp: scan_decision_row_def)
        then show ?thesis
          by (simp add: run_loaded_def Inr Some) (auto simp: r scan_decision_row_def)
      qed (simp add: run_loaded_def Inr only_calls_aret)
    qed (simp add: run_loaded_def only_calls_aret)
    moreover have "run_loaded d i q s1 = (res, s')" using assms by (simp add: execute_loaded abind_def q)
    ultimately show ?thesis using silent_log log by metis
  qed
qed

section \<open>Outcomes on a working store\<close>

definition working :: "sys \<Rightarrow> bool" where
  "working s \<longleftrightarrow> st_faults (sy_store s) = []"

text \<open>Steps between the load and the mark: the store keeps working and no decision row changes.\<close>

definition quiet :: "'a act \<Rightarrow> bool" where
  "quiet m \<longleftrightarrow> (\<forall>s. working s \<longrightarrow> working (snd (m s)) \<and> decisions (snd (m s)) = decisions s)"

lemma quietD: "quiet m \<Longrightarrow> working s \<Longrightarrow> m s = (x, s') \<Longrightarrow> working s' \<and> decisions s' = decisions s"
  unfolding quiet_def by (metis snd_conv)

lemma quiet_aret [intro]: "quiet (aret x)"
  by (simp add: quiet_def aret_def)

lemma quiet_call [intro]: "quiet (call a)"
  by (simp add: quiet_def working_def store_call)

lemma quiet_abind [intro]: "quiet m \<Longrightarrow> (\<And>x. quiet (f x)) \<Longrightarrow> quiet (abind m f)"
  by (auto simp: quiet_def abind_def split: prod.splits)

lemma quiet_if [intro]: "quiet m \<Longrightarrow> quiet n \<Longrightarrow> quiet (if c then m else n)"
  by simp

lemma quiet_case_sum [intro]: "(\<And>e. quiet (f e)) \<Longrightarrow> (\<And>x. quiet (g x)) \<Longrightarrow> quiet (case_sum f g r)"
  by (cases r) auto

lemma quiet_case_option [intro]: "quiet m \<Longrightarrow> (\<And>x. quiet (g x)) \<Longrightarrow> quiet (case_option m g p)"
  by (cases p) auto

lemma quiet_supdate:
  "(\<And>db. db_decisions (snd (f db)) = db_decisions db) \<Longrightarrow> quiet (on_store (supdate p f))"
  by (auto simp: quiet_def working_def on_store_def supdate_no_fault)

lemma quiet_parts [intro]:
  "quiet (record_delete_remediation d status t detail)" "quiet (on_store (snooze_entity e u))"
proof -
  have "quiet (on_store (record_remediation r))" for r
    unfolding record_remediation_def by (rule quiet_supdate) (simp add: Let_def)
  then show "quiet (record_delete_remediation d status t detail)"
    unfolding record_delete_remediation_def by blast
qed (auto simp: snooze_entity_def intro: quiet_supdate)

lemma quiet_decline_each [intro]: "quiet (decline_each media ext reqs n lines)"
  by (induction reqs arbitrary: n lines) (auto split: sum.splits)

lemma quiet_follow_ups [intro]:
  "quiet (decline_overseerr_requests d media ext)" "quiet (send_qbit_delete_hint d key hashes)"
proof -
  have "quiet (abind (decline_each media ext reqs 0 []) (\<lambda>(n, lines). aret (f n lines)))"
    for reqs and f :: "int \<Rightarrow> string list \<Rightarrow> string list"
    by (rule quiet_abind [OF quiet_decline_each]) (clarsimp simp: quiet_aret)
  then show "quiet (decline_overseerr_requests d media ext)"
    by (simp add: decline_overseerr_requests_def quiet_aret split: option.split sum.split)
  have "quiet (abind (call a) (case_sum (\<lambda>e. aret (f e)) (\<lambda>x. aret (g x))))"
    for a and f :: "goerr \<Rightarrow> string list" and g
    by (rule quiet_abind [OF quiet_call]) (simp add: quiet_aret split: sum.split)
  then show "quiet (send_qbit_delete_hint d key hashes)"
    by (simp add: send_qbit_delete_hint_def quiet_aret)
qed

text \<open>The step marks the decision with the status, and the message is empty exactly when asked to be.\<close>

definition settles :: "int \<Rightarrow> string \<Rightarrow> time \<Rightarrow> 'a result act \<Rightarrow> bool" where
  "settles i status t m \<longleftrightarrow> (\<forall>s. working s \<longrightarrow> i \<in> dr_id ` set (decisions s) \<longrightarrow>
     working (snd (m s)) \<and> (\<exists>msg. (status = ''executed'' \<longrightarrow> msg = '''') \<and>
       decisions (snd (m s)) = resolve_decision i status t msg (decisions s)) \<and>
     isl (fst (m s)) = (status \<noteq> ''executed''))"

lemma settles_after_quiet:
  assumes "quiet m" "\<And>x. settles i st t (f x)"
  shows "settles i st t (abind m f)"
  unfolding settles_def
proof (intro allI impI)
  fix s :: sys assume s: "working s" "i \<in> dr_id ` set (decisions s)"
  obtain x s1 where m: "m s = (x, s1)" by fastforce
  have s1: "working s1" "decisions s1 = decisions s" using quietD [OF assms(1) s(1) m] by simp_all
  with assms(2) [of x, unfolded settles_def, rule_format, of s1] s(2) m show "working (snd (abind m f s)) \<and>
     (\<exists>msg. (st = ''executed'' \<longrightarrow> msg = '''') \<and>
       decisions (snd (abind m f s)) = resolve_decision i st t msg (decisions s)) \<and>
     isl (fst (abind m f s)) = (st \<noteq> ''executed'')"
    by (simp add: abind_def)
qed

lemma mark_working:
  assumes "working s" "de_id dec \<in> dr_id ` set (decisions s)"
    "st \<in> set valid_decision_statuses" "st \<noteq> ''executed'' \<longrightarrow> cause \<noteq> None"
  shows "\<exists>s'. mark dec st t cause s = (Inr (), s') \<and> working s' \<and> decisions s' =
     resolve_decision (de_id dec) st t (case cause of None \<Rightarrow> '''' | Some e \<Rightarrow> err_msg e) (decisions s)"
proof -
  have "\<exists>x \<in> set (decisions s). dr_id x = de_id dec" using assms(2) by auto
  then have "int (length (filter (\<lambda>r. dr_id r = de_id dec) (decisions s))) \<noteq> 0"
    by (auto simp: filter_empty_conv)
  then show ?thesis
    using assms(1,3,4)
    by (auto simp: mark_def mark_decision_def on_store_def Let_def sbind_def supdate_no_fault working_def sret_def
        split: option.splits)
qed

lemma settles_mark:
  assumes "st \<in> set valid_decision_statuses" "st \<noteq> ''executed'' \<longleftrightarrow> cause \<noteq> None"
    "\<And>s. snd (f (Inr ()) s) = s" "\<And>s. isl (fst (f (Inr ()) s)) \<longleftrightarrow> st \<noteq> ''executed''"
  shows "settles (de_id dec) st t (abind (mark dec st t cause) f)"
  unfolding settles_def
proof (intro allI impI)
  fix s :: sys assume w: "working s" "de_id dec \<in> dr_id ` set (decisions s)"
  obtain s' where s': "mark dec st t cause s = (Inr (), s')" "working s'" "decisions s' =
     resolve_decision (de_id dec) st t (case cause of None \<Rightarrow> '''' | Some e \<Rightarrow> err_msg e) (decisions s)"
    using mark_working [OF w assms(1)] assms(2) by blast
  then have "abind (mark dec st t cause) f s = f (Inr ()) s'" by (simp add: abind_def)
  with s' assms(2-4) show "working (snd (abind (mark dec st t cause) f s)) \<and>
     (\<exists>msg. (st = ''executed'' \<longrightarrow> msg = '''') \<and>
       decisions (snd (abind (mark dec st t cause) f s)) = resolve_decision (de_id dec) st t msg (decisions s)) \<and>
     isl (fst (abind (mark dec st t cause) f s)) = (st \<noteq> ''executed'')"
    by (auto split: option.splits)
qed

lemma settles_outcomes:
  "settles (de_id dec) ''blocked'' now (block_delete d dec now)"
  "settles (de_id dec) ''failed'' now (fail_delete d dec now cause)"
  "settles (de_id dec) ''executed'' now (finish_delete d dec now parts)"
  unfolding block_delete_def fail_delete_def finish_delete_def
  by (rule settles_after_quiet [OF quiet_parts(1)], rule settles_mark,
      simp_all add: valid_decision_statuses_def aret_def)+


text \<open>How a decision ends: its status after the execution.\<close>

definition deletable :: "decision_deps \<Rightarrow> world \<Rightarrow> entity_ref \<Rightarrow> bool" where
  "deletable d w e \<longleftrightarrow>
     (if er_provider e = ''sonarr'' then d_sonarr (dd_deps d) \<noteq> None else d_radarr (dd_deps d) \<noteq> None) \<and>
     \<not> isl (fst (perform (delete_call e) w))"

definition final_status :: "decision_deps \<Rightarrow> world \<Rightarrow> string \<Rightarrow> string \<Rightarrow> string" where
  "final_status d w kind key =
     (if kind = KindKeep then ''executed''
      else if kind \<noteq> KindDelete then ''failed''
      else if \<not> cfg_actions_enabled (d_cfg (dd_deps d)) then ''blocked''
      else case parse_entity_key key of
             Inl _ \<Rightarrow> ''failed''
           | Inr e \<Rightarrow> if deletable d w e then ''executed'' else ''failed'')"

definition settles_at :: "sys \<Rightarrow> int \<Rightarrow> string \<Rightarrow> time \<Rightarrow> 'a result act \<Rightarrow> bool" where
  "settles_at s i st t m \<longleftrightarrow> (working s \<longrightarrow> i \<in> dr_id ` set (decisions s) \<longrightarrow>
     working (snd (m s)) \<and> (\<exists>msg. (st = ''executed'' \<longrightarrow> msg = '''') \<and>
       decisions (snd (m s)) = resolve_decision i st t msg (decisions s)) \<and>
     isl (fst (m s)) = (st \<noteq> ''executed''))"

lemma settles_atI: "settles i st t m \<Longrightarrow> settles_at s i st t m"
  by (simp add: settles_def settles_at_def)

lemma settles_at_call:
  assumes "settles i st t (f (fst (perform a (sy_world s))))"
  shows "settles_at s i st t (abind (call a) f)"
proof -
  obtain s1 where c: "call a s = (fst (perform a (sy_world s)), s1)" "sy_store s1 = sy_store s"
    unfolding call_def by (cases "perform a (sy_world s)") simp
  from assms have "settles_at s1 i st t (f (fst (perform a (sy_world s))))" by (rule settles_atI)
  with c show ?thesis by (simp add: settles_at_def abind_def working_def)
qed

lemma settles_delete:
  "settles_at s (de_id dec) (final_status d (sy_world s) KindDelete (de_entity_key dec)) (d_now (dd_deps d))
     (execute_delete d dec)"
proof (cases "cfg_actions_enabled (d_cfg (dd_deps d))")
  case on: True
  show ?thesis
  proof (cases "parse_entity_key (de_entity_key dec)")
    case (Inl e)
    then show ?thesis using on
      by (simp add: execute_delete_def final_status_def Let_def settles_atI settles_outcomes)
  next
    case (Inr e)
    let ?now = "d_now (dd_deps d)"
    have "settles_at s (de_id dec) (if d_sonarr (dd_deps d) \<noteq> None \<and>
         \<not> isl (fst (perform (SonarrDeleteSeries (er_ident e) True True) (sy_world s))) then ''executed'' else ''failed'')
       ?now (execute_delete_sonarr d dec (er_ident e) ?now)"
    proof (cases "d_sonarr (dd_deps d)")
      case (Some c)
      show ?thesis unfolding execute_delete_sonarr_def Some case_prod_beta Let_def option.case
        by (rule settles_at_call)
          (auto split!: sum.split intro!: settles_after_quiet [OF quiet_follow_ups(1)]
            settles_after_quiet [OF quiet_follow_ups(2)] settles_outcomes)
    qed (simp add: execute_delete_sonarr_def settles_atI settles_outcomes)
    moreover have "settles_at s (de_id dec) (if d_radarr (dd_deps d) \<noteq> None \<and>
         \<not> isl (fst (perform (RadarrDeleteMovie (er_ident e) True True) (sy_world s))) then ''executed'' else ''failed'')
       ?now (execute_delete_radarr d dec (er_ident e) ?now)"
    proof (cases "d_radarr (dd_deps d)")
      case (Some c)
      show ?thesis unfolding execute_delete_radarr_def Some case_prod_beta Let_def option.case
        by (rule settles_at_call)
          (auto split!: sum.split intro!: settles_after_quiet [OF quiet_follow_ups(1)]
            settles_after_quiet [OF quiet_follow_ups(2)] settles_outcomes)
    qed (simp add: execute_delete_radarr_def settles_atI settles_outcomes)
    ultimately show ?thesis using on Inr
      by (simp add: execute_delete_def final_status_def deletable_def delete_call_def Let_def)
  qed
qed (simp add: execute_delete_def final_status_def Let_def settles_atI settles_outcomes)


lemma settles_keep: "settles_at s (de_id dec) ''executed'' (d_now (dd_deps d)) (execute_keep d dec)"
proof (cases "working s")
  case True
  define u where "u = add_days (d_local (dd_deps d)) (d_now (dd_deps d)) (sc_snooze_days (cfg_staleness (d_cfg (dd_deps d))))"
  obtain s1 where sn: "on_store (snooze_entity (de_entity_key dec) u) s = (Inr (), s1)"
    using True by (simp add: on_store_def snooze_entity_def supdate_no_fault working_def)
  let ?rest = "abind (mark dec ''executed'' (d_now (dd_deps d)) None) (\<lambda>r2. aret
     (case r2 of Inl e \<Rightarrow> Inl (wrap_error ((''decision: keep '' @ show_int (de_id dec)) @ '': mark executed'') e)
      | Inr _ \<Rightarrow> Inr (dec\<lparr>de_status := ''executed'', de_snooze_until := Some u,
                      de_executed_at := Some (d_now (dd_deps d))\<rparr>)))"
  have "settles (de_id dec) ''executed'' (d_now (dd_deps d)) ?rest"
    by (rule settles_mark) (simp_all add: valid_decision_statuses_def aret_def)
  then have "settles_at s1 (de_id dec) ''executed'' (d_now (dd_deps d)) ?rest" by (rule settles_atI)
  moreover have "execute_keep d dec s = ?rest s1"
    unfolding execute_keep_def Let_def u_def [symmetric]
      abind_def [of "on_store (snooze_entity (de_entity_key dec) u)"]
    by (simp only: sn prod.case sum.case)
  moreover have "working s1" "decisions s1 = decisions s"
    using quietD [OF quiet_parts(2) True sn] by simp_all
  ultimately show ?thesis by (simp add: settles_at_def)
qed (simp add: settles_at_def)

lemma load_working:
  "working s \<Longrightarrow> on_store (decision_by_id i) s =
     (Inr (map_option scan_decision_row (find (\<lambda>r. dr_id r = i) (decisions s))), s)"
  by (simp add: on_store_def decision_by_id_def squery_no_fault working_def)

lemma settles_decision:
  assumes "working s" "find (\<lambda>r. dr_id r = i) (decisions s) = Some r"
  shows "settles_at s i (final_status d (sy_world s) (dr_kind r) (dr_entity_key r)) (d_now (dd_deps d)) (execute_decision d i)"
proof -
  define dec where "dec = scan_decision_row r"
  have r: "r \<in> set (decisions s)" "dr_id r = i" using assms(2) by (auto simp: find_Some_iff)
  have fields: "de_id dec = i" "de_kind dec = dr_kind r" "de_entity_key dec = dr_entity_key r"
    by (simp_all add: dec_def scan_decision_row_def r)
  have "settles_at s i (final_status d (sy_world s) (dr_kind r) (dr_entity_key r)) (d_now (dd_deps d)) (run_loaded d i (Inr (Some dec)))"
    using settles_keep [of s dec d] settles_delete [of s dec d]
      settles_outcomes(2) [of dec "d_now (dd_deps d)" d, THEN settles_atI]
    by (auto simp: run_loaded_def fields final_status_def)
  then show ?thesis
    by (simp add: settles_at_def execute_loaded abind_def load_working [OF assms(1)] assms(2) dec_def)
qed

lemma final_status_cases: "final_status d w k key \<in> {''executed'', ''failed'', ''blocked''}"
  by (auto simp: final_status_def split: sum.split)

text \<open>C33: On a working store every execution settles its decision: the row ends executed, failed or
  blocked exactly as its kind, the actions switch, the entity key and the answer to the delete call say
  (the best-effort steps after the delete have no say), every other row is as it was, and the caller
  gets an error exactly when the row is not executed.\<close>

theorem decision_is_settled:
  assumes "working s" "find (\<lambda>r. dr_id r = i) (decisions s) = Some r" "execute_decision d i s = (res, s')"
  shows "\<exists>st msg. st = final_status d (sy_world s) (dr_kind r) (dr_entity_key r) \<and>
     st \<in> {''executed'', ''failed'', ''blocked''} \<and> (st = ''executed'' \<longrightarrow> msg = '''') \<and>
     decisions s' = resolve_decision i st (d_now (dd_deps d)) msg (decisions s) \<and>
     isl res = (st \<noteq> ''executed'')"
proof -
  have "i \<in> dr_id ` set (decisions s)" using assms(2) by (auto simp: find_Some_iff)
  then show ?thesis
    using settles_decision [OF assms(1,2), of d] final_status_cases [of d "sy_world s" "dr_kind r" "dr_entity_key r"] assms(1,3)
    by (auto simp: settles_at_def)
qed

lemma keeps_mark [intro]: "keeps db_ok (mark dec st t c)"
  unfolding mark_def by (rule keeps_on_store) (rule preserves_mark_decision)

lemma keeps_parts [intro]: "keeps db_ok (record_delete_remediation d st t detail)"
  unfolding record_delete_remediation_def
  by (intro keeps_abind keeps_on_store keeps_aret preserves_record_remediation)

lemma keeps_outcomes [intro]:
  "keeps db_ok (block_delete d dec now)" "keeps db_ok (fail_delete d dec now cause)"
  "keeps db_ok (finish_delete d dec now parts)"
  unfolding block_delete_def fail_delete_def finish_delete_def
  by (intro keeps_abind keeps_parts keeps_mark keeps_aret)+


lemma keeps_decline_each [intro]: "keeps I (decline_each media ext reqs n lines)"
proof (induction reqs arbitrary: n lines)
  case (Cons r rs)
  then show ?case unfolding decline_each.simps by (intro keeps_if keeps_abind keeps_call keeps_case_sum)
qed (simp add: keeps_aret)

lemma keeps_follow_ups [intro]:
  "keeps I (decline_overseerr_requests d media ext)" "keeps I (send_qbit_delete_hint d key hashes)"
proof -
  have "keeps I (abind (decline_each media ext reqs 0 []) (\<lambda>(n, lines). aret (f n lines)))"
    for reqs and f :: "int \<Rightarrow> string list \<Rightarrow> string list"
    by (rule keeps_abind [OF keeps_decline_each]) (clarsimp simp: keeps_aret)
  then show "keeps I (decline_overseerr_requests d media ext)"
    by (simp add: decline_overseerr_requests_def keeps_aret split: option.split sum.split)
  have "keeps I (abind (call a) (case_sum (\<lambda>e. aret (f e)) (\<lambda>x. aret (g x))))"
    for a and f :: "goerr \<Rightarrow> string list" and g
    by (rule keeps_abind [OF keeps_call]) (simp add: keeps_aret split: sum.split)
  then show "keeps I (send_qbit_delete_hint d key hashes)"
    by (simp add: send_qbit_delete_hint_def keeps_aret)
qed

lemma keeps_delete: "keeps db_ok (execute_delete d dec)"
proof -
  have "keeps db_ok (execute_delete_sonarr d dec i now)" for i now
    unfolding execute_delete_sonarr_def case_prod_beta Let_def
    by (intro keeps_case_option keeps_outcomes keeps_abind keeps_call keeps_case_sum keeps_follow_ups)
  moreover have "keeps db_ok (execute_delete_radarr d dec i now)" for i now
    unfolding execute_delete_radarr_def case_prod_beta Let_def
    by (intro keeps_case_option keeps_outcomes keeps_abind keeps_call keeps_case_sum keeps_follow_ups)
  ultimately show ?thesis
    unfolding execute_delete_def Let_def by (intro keeps_if keeps_outcomes keeps_case_sum)
qed

lemma keeps_keep: "keeps db_ok (execute_keep d dec)"
  unfolding execute_keep_def Let_def
  by (intro keeps_abind keeps_case_sum keeps_mark keeps_aret keeps_on_store preserves_snooze_db)

lemma keeps_execution: "keeps db_ok (execute_decision d i)"
proof -
  have "keeps db_ok (run_loaded d i r)" for r
    unfolding run_loaded_def
    by (intro keeps_case_sum keeps_case_option keeps_if keeps_aret keeps_keep keeps_delete keeps_outcomes)
  then show ?thesis
    unfolding execute_loaded decision_by_id_def
    by (intro keeps_abind keeps_on_store preserves_squery)
qed

text \<open>The invariant of the database survives every execution of a decision, whatever statement
  fails on the way and whatever the clients answer.\<close>

theorem decision_keeps_database:
  assumes "db_ok (st_db (sy_store s))" "execute_decision d i s = (res, s')"
  shows "db_ok (st_db (sy_store s'))"
  using keepsD [OF keeps_execution assms(2)] assms(1) by blast

section \<open>Repeated deletes and keeps\<close>

lemma opens_with_delete_call:
  assumes "cfg_actions_enabled (d_cfg (dd_deps d))" "parse_entity_key (de_entity_key dec) = Inr e"
    "if er_provider e = ''sonarr'' then d_sonarr (dd_deps d) \<noteq> None else d_radarr (dd_deps d) \<noteq> None"
  shows "\<exists>as. calls (snd (execute_delete d dec s)) = calls s @ delete_call e # as"
proof (cases "er_provider e = ''sonarr''")
  case True
  then obtain c where c: "d_sonarr (dd_deps d) = Some c" using assms(3) by auto
  obtain ext nm extra where l: "lookup_sonarr_series c (er_ident e) = (ext, nm, extra)" by (metis prod_cases3)
  have "execute_delete d dec = execute_delete_sonarr d dec (er_ident e) (d_now (dd_deps d))"
    using assms True by (simp add: execute_delete_def Let_def)
  then show ?thesis
    using call_then [OF silent_outcomes(2) delete_steps [OF c True l]] True
    unfolding execute_delete_sonarr_def c l Let_def option.case prod.case delete_call_def by fastforce
next
  case False
  then obtain c where c: "d_radarr (dd_deps d) = Some c" using assms(3) by auto
  obtain ext nm extra where l: "lookup_radarr_movie c (er_ident e) = (ext, nm, extra)" by (metis prod_cases3)
  have "execute_delete d dec = execute_delete_radarr d dec (er_ident e) (d_now (dd_deps d))"
    using assms False by (simp add: execute_delete_def Let_def)
  then show ?thesis
    using call_then [OF silent_outcomes(2) delete_steps_movie [OF c False l]] False
    unfolding execute_delete_radarr_def c l Let_def option.case prod.case delete_call_def by fastforce
qed

lemma executed_delete_calls:
  assumes "working s" "find (\<lambda>r. dr_id r = i) (decisions s) = Some r"
    "dr_kind r = KindDelete" "cfg_actions_enabled (d_cfg (dd_deps d))"
    "parse_entity_key (dr_entity_key r) = Inr e"
    "if er_provider e = ''sonarr'' then d_sonarr (dd_deps d) \<noteq> None else d_radarr (dd_deps d) \<noteq> None"
    "execute_decision d i s = (res, s')"
  shows "\<exists>as. calls s' = calls s @ delete_call e # as"
proof -
  have "execute_delete d (scan_decision_row r) s = (res, s')"
    using assms(7) by (simp add: execute_loaded run_loaded_def abind_def load_working [OF assms(1)] assms(2)
        scan_decision_row_def assms(3))
  then show ?thesis
    using opens_with_delete_call [of d "scan_decision_row r" e s] assms by (simp add: scan_decision_row_def)
qed

text \<open>Execution does not look at the status: a delete decision that already ran (its row is executed)
  issues the delete call once more when it is executed again, and with it the declines and the hint.\<close>

theorem executed_delete_runs_again:
  assumes "working s" "find (\<lambda>r. dr_id r = i) (decisions s) = Some r" "dr_status r = ''executed''"
    "dr_kind r = KindDelete" "cfg_actions_enabled (d_cfg (dd_deps d))"
    "parse_entity_key (dr_entity_key r) = Inr e"
    "if er_provider e = ''sonarr'' then d_sonarr (dd_deps d) \<noteq> None else d_radarr (dd_deps d) \<noteq> None"
    "execute_decision d i s = (res, s')"
  shows "\<exists>as. calls s' = calls s @ delete_call e # as"
  by (rule executed_delete_calls [OF assms(1,2,4-8)])

lemma resolve_decision_find:
  "find (\<lambda>r. dr_id r = i) rows = Some r \<Longrightarrow>
     find (\<lambda>r. dr_id r = i) (resolve_decision i st t msg rows) =
       Some (r\<lparr>dr_status := st, dr_executed_at := Some (format_time t), dr_error := msg\<rparr>)"
  by (induction rows) (auto simp: resolve_decision_def split: if_splits)

text \<open>A keep snoozes every active finding of its entity until the configured number of days from
  now and returns that date, but the decision's own row never gets it: its snooze date stays what it was.\<close>

theorem keep_snoozes_the_entity:
  assumes "working s" "find (\<lambda>r. dr_id r = i) (decisions s) = Some r" "dr_kind r = KindKeep"
    "execute_decision d i s = (res, s')"
  shows "let until = add_days (d_local (dd_deps d)) (d_now (dd_deps d)) (sc_snooze_days (cfg_staleness (d_cfg (dd_deps d))))
    in db_findings (st_db (sy_store s')) =
         map (\<lambda>f. if fr_entity_key f = dr_entity_key r \<and> active f then snooze_row (format_time until) f else f)
           (db_findings (st_db (sy_store s))) \<and>
       (\<exists>dec r'. res = Inr dec \<and> de_snooze_until dec = Some until \<and>
         find (\<lambda>r. dr_id r = i) (decisions s') = Some r' \<and> dr_status r' = ''executed'' \<and>
         dr_snooze_until r' = dr_snooze_until r)"
proof -
  define u where "u = add_days (d_local (dd_deps d)) (d_now (dd_deps d)) (sc_snooze_days (cfg_staleness (d_cfg (dd_deps d))))"
  let ?db = "st_db (sy_store s)" and ?now = "d_now (dd_deps d)"
  let ?db' = "?db\<lparr>db_findings := map (\<lambda>f. if fr_entity_key f = dr_entity_key r \<and> active f
      then snooze_row (format_time u) f else f) (db_findings ?db)\<rparr>"
  define s1 where "s1 = s\<lparr>sy_store := (sy_store s)\<lparr>st_db := ?db'\<rparr>\<rparr>"
  define dec where "dec = scan_decision_row r"
  have rid: "dr_id r = i" "i \<in> dr_id ` set (decisions s)" using assms(2) by (auto simp: find_Some_iff)
  have sn: "on_store (snooze_entity (de_entity_key dec) u) s = (Inr (), s1)"
    using assms(1) by (simp add: on_store_def snooze_entity_def supdate_no_fault working_def s1_def dec_def
        scan_decision_row_def)
  have w1: "working s1" "decisions s1 = decisions s" using assms(1) by (simp_all add: s1_def working_def)
  have pos: "filter (\<lambda>r. dr_id r = i) (decisions s) \<noteq> []" using rid by (auto simp: filter_empty_conv)
  have mk: "mark dec ''executed'' ?now None s1 = (Inr (), s1\<lparr>sy_store := (sy_store s1)\<lparr>st_db :=
      (st_db (sy_store s1))\<lparr>db_decisions := resolve_decision i ''executed'' ?now '''' (decisions s)\<rparr>\<rparr>\<rparr>)"
    using w1 pos rid
    by (simp add: mark_def mark_decision_def valid_decision_statuses_def on_store_def Let_def sbind_def
        supdate_no_fault working_def sret_def dec_def scan_decision_row_def)
  have "execute_decision d i s = execute_keep d dec s"
    by (simp add: execute_loaded run_loaded_def abind_def load_working [OF assms(1)] assms(2,3)
        scan_decision_row_def dec_def)
  also have "\<dots> = (Inr (dec\<lparr>de_status := ''executed'', de_snooze_until := Some u, de_executed_at := Some ?now\<rparr>),
      s1\<lparr>sy_store := (sy_store s1)\<lparr>st_db :=
      (st_db (sy_store s1))\<lparr>db_decisions := resolve_decision i ''executed'' ?now '''' (decisions s)\<rparr>\<rparr>\<rparr>)"
    unfolding execute_keep_def Let_def u_def [symmetric]
      abind_def [of "on_store (snooze_entity (de_entity_key dec) u)"] abind_def [of "mark dec ''executed'' ?now None"]
    by (simp only: sn mk prod.case sum.case aret_def)
  finally have "res = Inr (dec\<lparr>de_status := ''executed'', de_snooze_until := Some u, de_executed_at := Some ?now\<rparr>)"
    "st_db (sy_store s') = ?db'\<lparr>db_decisions := resolve_decision i ''executed'' ?now '''' (decisions s)\<rparr>"
    using assms(4) by (simp_all add: s1_def)
  then show ?thesis
    unfolding Let_def u_def [symmetric] by (simp add: resolve_decision_find [OF assms(2)])
qed

section \<open>Entity keys\<close>

lemma parse_entity_key_show:
  assumes "p = ''sonarr'' \<or> p = ''radarr''" "min_int64 \<le> i" "i \<le> max_int64"
  shows "parse_entity_key (p @ CHR '':'' # show_int i) = Inr \<lparr>er_provider = p, er_ident = i\<rparr>"
proof -
  have "CHR '':'' \<notin> set p" using assms(1) by auto
  then show ?thesis
    using assms parse_int64_show_int [OF assms(2,3)] by (simp add: parse_entity_key_def cut_at_append parse_int_def)
qed


text \<open>The ids a configured client answers are Go \<open>int64\<close> values.\<close>

definition int64_ids :: "deps \<Rightarrow> bool" where
  "int64_ids d \<longleftrightarrow>
     (case d_sonarr d of None \<Rightarrow> True | Some c \<Rightarrow>
        (case sonarr_series c of Inl _ \<Rightarrow> True
         | Inr ss \<Rightarrow> list_all (\<lambda>s. min_int64 \<le> se_id s \<and> se_id s \<le> max_int64) ss)) \<and>
     (case d_radarr d of None \<Rightarrow> True | Some c \<Rightarrow>
        (case radarr_movies c of Inl _ \<Rightarrow> True
         | Inr ms \<Rightarrow> list_all (\<lambda>m. min_int64 \<le> mo_id m \<and> mo_id m \<le> max_int64) ms))"

text \<open>The entity is a title the client lists.\<close>

definition names_a_title :: "deps \<Rightarrow> entity_ref \<Rightarrow> bool" where
  "names_a_title d e \<longleftrightarrow>
     (if er_provider e = ''sonarr''
      then \<exists>c ss. d_sonarr d = Some c \<and> sonarr_series c = Inr ss \<and> er_ident e \<in> se_id ` set ss
      else er_provider e = ''radarr'' \<and>
        (\<exists>c ms. d_radarr d = Some c \<and> radarr_movies c = Inr ms \<and> er_ident e \<in> mo_id ` set ms))"

lemma collected_keys:
  assumes "collect_items d = Inr its" "it \<in> set its" "int64_ids d"
  shows "\<exists>e. parse_entity_key (it_entity_key it) = Inr e \<and> names_a_title d e"
proof -
  obtain rows tvdb tmdb xs ys where c: "series_items d rows tvdb = Inr xs" "movie_items d rows tmdb = Inr ys"
    "its = xs @ ys"
    using assms(1) by (auto simp: collect_items_def rbind_eq_Inr case_prod_beta split: if_splits option.splits)
  consider "it \<in> set xs" | "it \<in> set ys" using assms(2) c(3) by auto
  then show ?thesis
  proof cases
    case 1
    then obtain k ss s where s: "d_sonarr d = Some k" "sonarr_series k = Inr ss" "s \<in> set ss"
      "it = series_item s rows tvdb"
      using c(1) by (auto simp: series_items_def rbind_eq_Inr split: option.splits)
    have "min_int64 \<le> se_id s" "se_id s \<le> max_int64"
      using assms(3) s by (auto simp: int64_ids_def list_all_iff)
    then have "parse_entity_key (''sonarr'' @ CHR '':'' # show_int (se_id s)) = Inr \<lparr>er_provider = ''sonarr'', er_ident = se_id s\<rparr>"
      by (intro parse_entity_key_show) simp_all
    then show ?thesis using s by (auto simp: series_item_def case_prod_beta names_a_title_def)
  next
    case 2
    then obtain k ms m where m: "d_radarr d = Some k" "radarr_movies k = Inr ms" "m \<in> set ms"
      "it = movie_item m rows tmdb"
      using c(2) by (auto simp: movie_items_def rbind_eq_Inr split: option.splits)
    have "min_int64 \<le> mo_id m" "mo_id m \<le> max_int64"
      using assms(3) m by (auto simp: int64_ids_def list_all_iff)
    then have "parse_entity_key (''radarr'' @ CHR '':'' # show_int (mo_id m)) = Inr \<lparr>er_provider = ''radarr'', er_ident = mo_id m\<rparr>"
      by (intro parse_entity_key_show) simp_all
    then show ?thesis using m by (auto simp: movie_item_def case_prod_beta names_a_title_def)
  qed
qed

text \<open>C34: The key the staleness scan prints is the key the executor reads back: for every finding of a
  scan the entity key parses, and it names a series Sonarr lists or a movie Radarr lists.\<close>

theorem scan_keys_are_executable:
  assumes "run_staleness_scan d = Inr res" "f \<in> set (re_findings res)" "int64_ids d"
  shows "\<exists>e. parse_entity_key (fi_entity_key f) = Inr e \<and> names_a_title d e"
proof -
  obtain its it where it: "collect_items d = Inr its" "it \<in> set its" "f \<in> set (scan_item d it)"
    using assms(1,2) by (auto simp: run_staleness_scan_def rbind_eq_Inr)
  then have "fi_entity_key f = it_entity_key it"
    by (auto simp: scan_item_def Let_def staleness_finding_def new_finding_def split: if_splits)
  then show ?thesis using collected_keys [OF it(1,2) assms(3)] by simp
qed

section \<open>Concrete instances\<close>

definition sample_sonarr :: "series list \<Rightarrow> sonarr_client" where
  "sample_sonarr ss = \<lparr>sonarr_health = Inr [], sonarr_queue = Inr [], sonarr_series = Inr ss,
     sonarr_root_folders = Inr [], sonarr_wanted_missing = Inr 0, sonarr_history = (\<lambda>_ _. Inr [])\<rparr>"

definition sample_row :: "string \<Rightarrow> string \<Rightarrow> decision_row" where
  "sample_row kind st = (new_decision_row 1 ''sonarr:7'' kind 0)\<lparr>dr_status := st\<rparr>"

definition sample_sys :: "string \<Rightarrow> string \<Rightarrow> sys" where
  "sample_sys kind st = \<lparr>sy_store = \<lparr>st_db = empty_db\<lparr>db_decisions := [sample_row kind st]\<rparr>, st_faults = []\<rparr>,
     sy_world = \<lparr>w_log = [], w_answer = (\<lambda>_ _. Inr 0)\<rparr>\<rparr>"

definition sample_decider :: decision_deps where
  "sample_decider = \<lparr>dd_deps = (sample_deps (defaults\<lparr>cfg_actions_enabled := True\<rparr>))
     \<lparr>d_sonarr := Some (sample_sonarr [])\<rparr>, dd_peer = False\<rparr>"

lemma sample_facts:
  "working (sample_sys kind st)"
  "find (\<lambda>r. dr_id r = 1) (decisions (sample_sys kind st)) = Some (sample_row kind st)"
  "dr_kind (sample_row kind st) = kind" "dr_status (sample_row kind st) = st"
  "dr_entity_key (sample_row kind st) = ''sonarr:7''"
  "calls (sample_sys kind st) = []" "db_ok (st_db (sy_store (sample_sys kind st))) = decisions_ok [sample_row kind st]"
  "parse_entity_key ''sonarr:7'' = Inr \<lparr>er_provider = ''sonarr'', er_ident = 7\<rparr>"
  "cfg_actions_enabled (d_cfg (dd_deps sample_decider))" "d_sonarr (dd_deps sample_decider) \<noteq> None"
proof -
  have "''sonarr:7'' = ''sonarr'' @ CHR '':'' # show_int 7" by code_simp
  then show "parse_entity_key ''sonarr:7'' = Inr \<lparr>er_provider = ''sonarr'', er_ident = 7\<rparr>"
    using parse_entity_key_show [of "''sonarr''" 7] by (simp add: min_int64_def max_int64_def)
  show "db_ok (st_db (sy_store (sample_sys kind st))) = decisions_ok [sample_row kind st]"
    using db_ok_empty by (simp add: sample_sys_def db_ok_def empty_db_def)
qed (simp_all add: sample_sys_def sample_row_def new_decision_row_def working_def calls_def sample_decider_def
    sample_deps_def)


theorem decision_is_settled_witness:
  "dr_status (hd (decisions (snd (execute_decision sample_decider 1 (sample_sys ''delete'' ''pending''))))) = ''executed''"
proof -
  obtain res s' where x: "execute_decision sample_decider 1 (sample_sys ''delete'' ''pending'') = (res, s')" by fastforce
  have "final_status sample_decider (sy_world (sample_sys ''delete'' ''pending'')) ''delete'' ''sonarr:7'' = ''executed''"
    using sample_facts(8-10) by (simp add: final_status_def deletable_def perform_def sample_sys_def)
  with decision_is_settled [OF sample_facts(1,2) x]
  show ?thesis by (auto simp: x sample_facts resolve_decision_def) (simp add: sample_sys_def sample_row_def new_decision_row_def)
qed

theorem decision_keeps_database_witness:
  "db_ok (st_db (sy_store (snd (execute_decision sample_decider 1 (sample_sys ''keep'' ''pending'')))))"
proof -
  obtain res s' where x: "execute_decision sample_decider 1 (sample_sys ''keep'' ''pending'') = (res, s')" by fastforce
  have "db_ok (st_db (sy_store (sample_sys ''keep'' ''pending'')))"
    by (simp add: sample_facts decisions_ok_def) (simp add: sample_row_def new_decision_row_def)
  from decision_keeps_database [OF this x] show ?thesis by (simp add: x)
qed

theorem executed_delete_runs_again_witness:
  "\<exists>as. calls (snd (execute_decision sample_decider 1 (sample_sys ''delete'' ''executed''))) =
     SonarrDeleteSeries 7 True True # as"
proof -
  obtain res s' where x: "execute_decision sample_decider 1 (sample_sys ''delete'' ''executed'') = (res, s')" by fastforce
  from executed_delete_runs_again [OF sample_facts(1,2) _ _ sample_facts(9) _ _ x] show ?thesis
    using sample_facts(10) by (simp add: x sample_facts delete_call_def)
qed

theorem keep_snoozes_the_entity_witness:
  "\<exists>r. find (\<lambda>r. dr_id r = 1) (decisions (snd (execute_decision sample_decider 1 (sample_sys ''keep'' ''pending'')))) = Some r \<and>
     dr_status r = ''executed'' \<and> dr_snooze_until r = None"
proof -
  obtain res s' where x: "execute_decision sample_decider 1 (sample_sys ''keep'' ''pending'') = (res, s')" by fastforce
  have "dr_snooze_until (sample_row ''keep'' ''pending'') = None" by (simp add: sample_row_def new_decision_row_def)
  with keep_snoozes_the_entity [OF sample_facts(1,2) sample_facts(3) x] show ?thesis
    unfolding x snd_conv by (metis (no_types, lifting))
qed

definition sample_series :: series where
  "sample_series = \<lparr>se_id = 7, se_tvdb_id = 70, se_title = ''Show'', se_monitored = True, se_status = ''ended'',
     se_path = ''/tv/Show'', se_added = 0, se_episode_file_count = 1, se_episode_count = 1, se_size_on_disk = 0\<rparr>"

text \<open>A library with two shows, requests for one of them, for the other and for a film, and a download of the first.\<close>

definition grabbed :: "int \<Rightarrow> string \<Rightarrow> sonarr_history" where
  "grabbed i hash = \<lparr>sh_id = 1, sh_date = 0, sh_event_type = ''grabbed'', sh_source_title = ''Show'', sh_series_id = i,
     sh_episode_id = 1, sh_download_id = hash\<rparr>"

definition busy_sonarr :: sonarr_client where
  "busy_sonarr = (sample_sonarr [sample_series, sample_series\<lparr>se_id := 8, se_tvdb_id := 80\<rparr>])
     \<lparr>sonarr_history := (\<lambda>_ _. Inr [grabbed 7 ''ab'', grabbed 8 ''cd''])\<rparr>"

definition sample_request :: "int \<Rightarrow> string \<Rightarrow> int \<Rightarrow> overseerr_request" where
  "sample_request i media ext = \<lparr>or_id = i, or_status = 2, or_media_type = media, or_tmdb_id = ext, or_tvdb_id = ext,
     or_media_status = 3, or_requested_by = ''me'', or_created_at = 0, or_updated_at = 0\<rparr>"

definition busy_decider :: decision_deps where
  "busy_decider = \<lparr>dd_deps = (sample_deps (defaults\<lparr>cfg_actions_enabled := True\<rparr>))
     \<lparr>d_sonarr := Some busy_sonarr, d_overseerr := Some \<lparr>overseerr_requests = (\<lambda>_. Inr
        [sample_request 3 ''tv'' 70, sample_request 4 ''movie'' 70, sample_request 5 ''tv'' 80])\<rparr>\<rparr>, dd_peer = True\<rparr>"

lemma distinct_singleton_set: "distinct xs \<Longrightarrow> set xs = {a} \<Longrightarrow> xs = [a]"
proof (cases xs)
  case (Cons x t)
  assume "distinct xs" "set xs = {a}"
  then have "x = a" "a \<notin> set t" "set t \<subseteq> {a}" by (auto simp: Cons)
  then show "xs = [a]" by (cases t) (auto simp: Cons)
qed simp

lemma busy_follow_ups:
  assumes "follow_ups busy_decider ''sonarr:7'' \<lparr>er_provider = ''sonarr'', er_ident = 7\<rparr> as"
  shows "\<exists>t. as = [OverseerrDecline 3, PeerSendDecision \<lparr>pd_id = 0, pd_kind = ''qbit_delete'', pd_entity_key = ''sonarr:7'',
    pd_payload = [(''hashes'', VStrs [''AB''])], pd_requested_at = t\<rparr>]"
proof -
  let ?e = "\<lparr>er_provider = ''sonarr'', er_ident = 7\<rparr>"
  obtain hs where hs: "distinct hs" "set hs = downloads_of (dd_deps busy_decider) ?e"
    and as: "as = [OverseerrDecline (or_id r). r \<leftarrow> listed_requests (dd_deps busy_decider), request_about (dd_deps busy_decider) ?e r] @
      (if dd_peer busy_decider \<and> hs \<noteq> [] then [PeerSendDecision \<lparr>pd_id = 0, pd_kind = ''qbit_delete'',
         pd_entity_key = ''sonarr:7'', pd_payload = [(''hashes'', VStrs hs)], pd_requested_at = d_now (dd_deps busy_decider)\<rparr>] else [])"
    using assms unfolding follow_ups_def by blast
  have up: "to_upper ''ab'' = ''AB''" by code_simp
  have c: "d_sonarr (dd_deps busy_decider) = Some busy_sonarr" by (simp add: busy_decider_def)
  have g: "sh_series_id (grabbed i x) = i" "sh_download_id (grabbed i x) = x" for i x by (simp_all add: grabbed_def)
  have "downloads_of (dd_deps busy_decider) ?e =
      {to_upper (sh_download_id h) | h. h \<in> set [grabbed 7 ''ab'', grabbed 8 ''cd''] \<and> sh_series_id h = 7 \<and> sh_download_id h \<noteq> ''''}"
    unfolding downloads_of_def c by (simp add: busy_sonarr_def)
  also have "\<dots> = to_upper ` sh_download_id ` {h \<in> {grabbed 7 ''ab'', grabbed 8 ''cd''}. sh_series_id h = 7 \<and> sh_download_id h \<noteq> ''''}"
    by auto
  also have "{h \<in> {grabbed 7 ''ab'', grabbed 8 ''cd''}. sh_series_id h = 7 \<and> sh_download_id h \<noteq> ''''} = {grabbed 7 ''ab''}"
    by (auto simp: g)
  finally have "downloads_of (dd_deps busy_decider) ?e = {''AB''}" using up by (simp add: g)
  then have "hs = [''AB'']" using hs distinct_singleton_set by metis
  moreover have "[OverseerrDecline (or_id r). r \<leftarrow> listed_requests (dd_deps busy_decider), request_about (dd_deps busy_decider) ?e r] =
      [OverseerrDecline 3]"
    by (simp add: listed_requests_def busy_decider_def request_about_def busy_sonarr_def sample_sonarr_def sample_series_def
        sample_request_def)
  ultimately show ?thesis using as by (simp add: busy_decider_def)
qed

theorem only_the_named_entity_is_deleted_witness:
  "\<exists>t. calls (snd (execute_decision busy_decider 1 (sample_sys ''delete'' ''pending''))) =
     [SonarrDeleteSeries 7 True True, OverseerrDecline 3,
      PeerSendDecision \<lparr>pd_id = 0, pd_kind = ''qbit_delete'', pd_entity_key = ''sonarr:7'',
        pd_payload = [(''hashes'', VStrs [''AB''])], pd_requested_at = t\<rparr>]"
proof -
  let ?s = "sample_sys ''delete'' ''pending''"
  obtain res s' where x: "execute_decision busy_decider 1 ?s = (res, s')" by fastforce
  have "\<exists>as. calls s' = calls ?s @ SonarrDeleteSeries 7 True True # as"
    using executed_delete_calls [OF sample_facts(1,2) sample_facts(3) _ _ _ x] sample_facts(5,8)
    by (simp add: busy_decider_def sample_deps_def delete_call_def)
  then have "calls s' \<noteq> calls ?s" by auto
  with only_the_named_entity_is_deleted [OF x]
  obtain r e as where r: "find (\<lambda>r. dr_id r = 1) (decisions ?s) = Some r" "parse_entity_key (dr_entity_key r) = Inr e"
    and log: "calls s' = calls ?s @ delete_call e # as"
    and rest: "if isl (fst (perform (delete_call e) (sy_world ?s))) then as = [] else follow_ups busy_decider (dr_entity_key r) e as"
    by blast
  have "r = sample_row ''delete'' ''pending''" using r(1) sample_facts(2) by (metis option.inject)
  then have key: "dr_entity_key r = ''sonarr:7''" "e = \<lparr>er_provider = ''sonarr'', er_ident = 7\<rparr>"
    using r(2) sample_facts(5,8) by simp_all
  have as: "calls s' = SonarrDeleteSeries 7 True True # as"
    using log by (simp add: sample_facts key delete_call_def)
  have "\<not> isl (fst (perform (delete_call e) (sy_world ?s)))" by (simp add: perform_def sample_sys_def)
  with rest key have flw: "follow_ups busy_decider ''sonarr:7'' \<lparr>er_provider = ''sonarr'', er_ident = 7\<rparr> as" by simp
  with as busy_follow_ups [OF flw] show ?thesis by (auto simp: x)
qed

lemma score_ignores_threshold:
  "score_item it (w\<lparr>sc_candidate_threshold := x\<rparr>) now = score_item it w now" (is "score_item it ?w now = _")
proof (cases w)
  case fields
  have "never_watched_days_score it ?w now = never_watched_days_score it w now" "completion_score it ?w = completion_score it w"
    "arr_score it ?w = arr_score it w" "size_score it ?w = size_score it w"
    "requester_score it ?w = requester_score it w" "age_score it ?w now = age_score it w now"
    unfolding fields never_watched_days_score_def completion_score_def arr_score_def size_score_def
      requester_score_def age_score_def staleness_cfg.simps by (rule refl)+
  moreover from this(1) have "days_score it ?w now = days_score it w now"
    unfolding days_score_def unfolding fields staleness_cfg.simps by (simp only:)
  ultimately show ?thesis by (simp only: score_item_def)
qed

text \<open>One series, and a candidate threshold of 0: every title is a candidate.\<close>

definition sample_scan :: deps where
  "sample_scan = (sample_deps (defaults\<lparr>cfg_staleness := flat_weights\<lparr>sc_candidate_threshold := Fin 0\<rparr>\<rparr>))
     \<lparr>d_sonarr := Some (sample_sonarr [sample_series]),
      d_tautulli := Some \<lparr>tautulli_ping = Inr (), tautulli_history = (\<lambda>_ _. Inr []), tautulli_activity_count = Inr 0\<rparr>\<rparr>"

lemma sample_scan_finds: "\<exists>res f. run_staleness_scan sample_scan = Inr res \<and> f \<in> set (re_findings res)"
proof -
  let ?it = "series_item sample_series [] []" and ?w = "flat_weights\<lparr>sc_candidate_threshold := Fin 0\<rparr>"
  have items: "collect_items sample_scan = Inr [?it]"
    by (simp add: collect_items_def sample_scan_def sample_deps_def overseerr_all_requests_def requester_lookups_def
        series_items_def movie_items_def sample_sonarr_def)
  have "size_ok ?it"
    by (simp add: size_ok_def series_item_def sample_series_def case_prod_beta min_int64_def max_int64_def)
  then obtain r where "scr_total (score_item ?it flat_weights (d_now sample_scan)) = Fin r" "0 \<le> r"
    by (metis scr_total_range flat_weights_ok)
  moreover note score_ignores_threshold [of ?it "Fin 0" flat_weights "d_now sample_scan"]
  ultimately have "scr_total (score_item ?it ?w (d_now sample_scan)) = Fin r" "0 \<le> r" by simp_all
  then have "scan_item sample_scan ?it \<noteq> []"
    by (simp add: scan_item_def Let_def band_def sample_scan_def sample_deps_def)
  then show ?thesis
    using items by (cases "scan_item sample_scan ?it") (auto simp: run_staleness_scan_def)
qed

theorem scan_keys_are_executable_witness:
  "\<exists>(f :: finding) e. parse_entity_key (fi_entity_key f) = Inr e \<and> names_a_title sample_scan e"
proof -
  have "int64_ids sample_scan"
    by (simp add: int64_ids_def sample_scan_def sample_deps_def sample_sonarr_def sample_series_def min_int64_def max_int64_def)
  moreover obtain res f where "run_staleness_scan sample_scan = Inr res" "f \<in> set (re_findings res)"
    using sample_scan_finds by blast
  ultimately show ?thesis using scan_keys_are_executable [of sample_scan res f] by blast
qed

end
