(* ===== verification/Agent_Laws.thy ===== *)
theory Agent_Laws
  imports Agent_Schedule Decisions_Laws
begin

text \<open>
  What a node's daemon can do: a step relation over its scheduled jobs, the other node's calls and
  the execution of decisions, the calls and the database invariant of its runs, and what the
  schedule, the cycle and the digest guarantee.
\<close>

section \<open>Steps of a node\<close>

text \<open>
  One operation of the daemon, with whatever the clock, the dependencies, the peer or the operator
  supply. A decision is executed under the daemon's own configuration.
\<close>

inductive daemon_step :: "agent \<Rightarrow> sys \<Rightarrow> sys \<Rightarrow> bool" for a where
  cycle: "run_scheduled_cycle a race deps now cadence s = (u, s') \<Longrightarrow> daemon_step a s s'"
| daily: "run_daily_cycle_and_planning a race deps deps2 now cadence s = (u, s') \<Longrightarrow> daemon_step a s s'"
| heartbeat_out: "send_heartbeat a now s = (r, s') \<Longrightarrow> daemon_step a s s'"
| digest: "send_digest a z c s = (i, s') \<Longrightarrow> daemon_step a s s'"
| maintenance: "run_nightly_maintenance a now busy s = (u, s') \<Longrightarrow> daemon_step a s s'"
| report_in: "receive_report a now env s = (i, s') \<Longrightarrow> daemon_step a s s'"
| report_out: "latest_own_report a now s = (e, s') \<Longrightarrow> daemon_step a s s'"
| decision_in: "receive_decision a deps now now' p s = (i, s') \<Longrightarrow> daemon_step a s s'"
| heartbeat_in: "receive_heartbeat now hb s = (r, s') \<Longrightarrow> daemon_step a s s'"
| decided: "on_store (create_decision key kind now) s = (i, s') \<Longrightarrow> daemon_step a s s'"
| decision: "d_cfg (dd_deps d) = ag_cfg a \<Longrightarrow> execute_decision d i s = (dec, s') \<Longrightarrow> daemon_step a s s'"

inductive daemon_run :: "agent \<Rightarrow> sys \<Rightarrow> sys \<Rightarrow> bool" for a where
  idle: "daemon_run a s s"
| active_step: "daemon_step a s s1 \<Longrightarrow> daemon_run a s1 s2 \<Longrightarrow> daemon_run a s s2"

inductive_cases daemon_stepE: "daemon_step a s s'"

lemma daemon_run_invariant:
  assumes "daemon_run a s s'" "\<And>s s'. daemon_step a s s' \<Longrightarrow> I s \<Longrightarrow> I s'" "I s"
  shows "I s'"
  using assms by (induction) blast+

section \<open>External calls of a run\<close>

text \<open>The calls that change nothing but the peer's log and the operator's mailbox.\<close>

fun observing :: "action \<Rightarrow> bool" where
  "observing (PeerPushReport e) = True"
| "observing (PeerHeartbeat h) = True"
| "observing (SendMail t s b) = True"
| "observing a = False"

lemma silent_only: "silent m \<Longrightarrow> only_calls P m"
  by (erule only_calls_mono) simp

lemma observing_push: "only_calls observing (push_report a now rep)"
  unfolding push_report_def Let_def
  by (intro only_calls_abind only_calls_call only_calls_on_store only_calls_aret) simp

lemma observing_cycle: "only_calls observing (run_cycle a race deps now cadence)"
proof -
  have end_of_cycle: "only_calls observing (if ag_peer a \<and> ag_node a = NodeNAS
      then abind (push_report a now rep) (\<lambda>_. aret (Inr (rep, i))) else aret (Inr (rep, i)))" for rep and i :: int
    by (intro only_calls_if only_calls_abind observing_push only_calls_aret)
  show ?thesis
    unfolding run_cycle_def Let_def
    by (intro only_calls_if only_calls_aret only_calls_case_sum only_calls_abind only_calls_on_store)
      (simp_all add: case_prod_beta end_of_cycle)
qed

lemma observing_scheduled_cycle: "only_calls observing (run_scheduled_cycle a race deps now cadence)"
  unfolding run_scheduled_cycle_def by (intro only_calls_abind observing_cycle only_calls_aret)

lemma silent_for_each: "(\<And>x. silent (f x)) \<Longrightarrow> silent (for_each f xs)"
  by (induction xs) (auto intro: only_calls_abind only_calls_aret)

lemma silent_plan: "silent (plan_daily_cleanups a deps now)"
proof -
  have r: "silent (record_cleanup_plan a now k st detail)" for k st detail
    unfolding record_cleanup_plan_def by (intro only_calls_abind only_calls_on_store only_calls_aret)
  have "silent (plan_one_daily_cleanup a d now p)" for d p
    unfolding plan_one_daily_cleanup_def by (intro only_calls_case_sum r)
  then show ?thesis
    unfolding plan_daily_cleanups_def Let_def by (intro only_calls_case_sum silent_for_each r)
qed

lemma observing_daily: "only_calls observing (run_daily_cycle_and_planning a race deps deps2 now cadence)"
  unfolding run_daily_cycle_and_planning_def
  by (rule only_calls_abind [OF observing_scheduled_cycle silent_only [OF silent_plan]])

lemma observing_heartbeat: "only_calls observing (send_heartbeat a now)"
  unfolding send_heartbeat_def Let_def
  by (intro only_calls_if only_calls_aret only_calls_abind only_calls_call only_calls_on_store) simp

lemma observing_digest: "only_calls observing (send_digest a z c)"
proof -
  have peer_sec: "only_calls observing (build_peer_section a now)" for now
    unfolding build_peer_section_def Let_def
    by (intro only_calls_abind only_calls_on_store only_calls_case_sum only_calls_case_option only_calls_aret)
  have deliver: "only_calls observing (deliver_digest a c i)" for i
    unfolding deliver_digest_def Let_def
    by (intro only_calls_abind only_calls_on_store only_calls_case_sum only_calls_aret only_calls_call) simp
  show ?thesis
    unfolding send_digest_def Let_def
    by (intro only_calls_if only_calls_aret only_calls_abind only_calls_on_store only_calls_case_sum peer_sec)
      (auto simp: case_prod_beta intro!: only_calls_abind only_calls_on_store only_calls_case_sum only_calls_aret deliver)
qed

lemma silent_store_ops:
  "silent (run_nightly_maintenance a now busy)" "silent (receive_report a now env)"
  "silent (latest_own_report a now)" "silent (receive_heartbeat now hb)"
proof -
  show "silent (run_nightly_maintenance a now busy)"
    unfolding run_nightly_maintenance_def prune_messages_def
    by (intro only_calls_abind only_calls_on_store only_calls_aret)
  show "silent (receive_report a now env)"
    unfolding receive_report_def record_inbound_def Let_def
    by (intro only_calls_if only_calls_abind only_calls_on_store only_calls_aret only_calls_case_sum)
      (auto simp: case_prod_beta intro!: only_calls_abind only_calls_on_store only_calls_aret)
  show "silent (latest_own_report a now)" "silent (receive_heartbeat now hb)"
    unfolding latest_own_report_def receive_heartbeat_def record_inbound_def
    by (intro only_calls_abind only_calls_on_store only_calls_aret)+
qed


text \<open>A received decision makes at most one call: it deletes the torrents the payload names.\<close>

definition names_hashes :: "peer_decision \<Rightarrow> action \<Rightarrow> bool" where
  "names_hashes p x \<longleftrightarrow> x = QbitDelete (hashes_from_payload (pd_payload p)) True"

lemma calls_received_decision:
  "only_calls (\<lambda>x. cfg_actions_enabled (ag_cfg a) \<and> pd_kind p = ''qbit_delete'' \<and> names_hashes p x)
     (receive_decision a deps now now' p)"
  (is "only_calls ?P _")
proof -
  have r: "only_calls ?P (record_qbit_delete_remediation a now' st detail)" for st detail
    unfolding record_qbit_delete_remediation_def by (intro only_calls_abind only_calls_on_store only_calls_aret)
  have "only_calls ?P (execute_qbit_delete a deps now' p)" if kind: "pd_kind p = ''qbit_delete''"
  proof (cases "cfg_actions_enabled (ag_cfg a)")
    case True
    have "only_calls ?P (call (QbitDelete (hashes_from_payload (pd_payload p)) True))"
      by (rule only_calls_call) (simp add: True kind names_hashes_def)
    then show ?thesis
      unfolding execute_qbit_delete_def Let_def
      by (intro only_calls_if only_calls_case_sum only_calls_abind r)
  next
    case False
    then have "execute_qbit_delete a deps now' p =
        record_qbit_delete_remediation a now' ''blocked'' (err_msg err_decision_actions_disabled)"
      by (simp add: execute_qbit_delete_def)
    then show ?thesis by (simp only: r)
  qed
  then show ?thesis
    unfolding receive_decision_def record_inbound_def
    by (intro only_calls_abind only_calls_on_store only_calls_case_sum only_calls_if only_calls_aret)
qed

lemma decision_calls:
  assumes "execute_decision d i s = (dec, s')"
  shows "\<exists>as. calls s' = calls s @ as \<and> (cfg_actions_enabled (d_cfg (dd_deps d)) \<or> as = [])"
proof -
  obtain q s1 where q: "on_store (decision_by_id i) s = (q, s1)" by fastforce
  have log: "calls s1 = calls s" using calls_on_store [of "decision_by_id i" s] q by simp
  have run: "run_loaded d i q s1 = (dec, s')" using assms by (simp add: execute_loaded abind_def q)
  show ?thesis
  proof (cases "cfg_actions_enabled (d_cfg (dd_deps d))")
    case True
    have "only_calls (\<lambda>_. True) (execute_delete d x)" for x
    proof (cases "parse_entity_key (de_entity_key x)")
      case (Inr e)
      then have "opens_with (delete_call e) (follow_ups d (de_entity_key x) e) (execute_delete d x)" by (rule opens_with_delete)
      then show ?thesis unfolding opens_with_def only_calls_def
        by (metis append.right_neutral list.pred_True)
    qed (auto intro!: silent_only unmatched_delete_is_silent)
    then have "only_calls (\<lambda>_. True) (run_loaded d i q)"
      unfolding run_loaded_def
      by (intro only_calls_case_sum only_calls_case_option only_calls_if only_calls_aret)
        (simp_all add: silent_only silent_keep silent_outcomes)
    from only_callsD [OF this run] show ?thesis using True log by auto
  next
    case False
    then have "silent (execute_delete d x)" for x by (intro unmatched_delete_is_silent) simp
    then have "silent (run_loaded d i q)"
      unfolding run_loaded_def
      by (intro only_calls_case_sum only_calls_case_option only_calls_if only_calls_aret silent_keep silent_outcomes)
    from silent_log [OF this run] show ?thesis using log by simp
  qed
qed

definition quiet_log :: "sys \<Rightarrow> sys \<Rightarrow> bool" where
  "quiet_log s s' \<longleftrightarrow> (\<exists>as. calls s' = calls s @ as \<and> list_all observing as)"

lemma quiet_logI: "only_calls observing m \<Longrightarrow> m s = (x, s') \<Longrightarrow> quiet_log s s'"
  unfolding quiet_log_def by (rule only_callsD)

lemma disabled_step:
  assumes "\<not> cfg_actions_enabled (ag_cfg a)" "daemon_step a s s'"
  shows "quiet_log s s'"
  using assms(2)
proof cases
  case (decision_in deps now now' p i)
  have "only_calls observing (receive_decision a deps now now' p)"
    by (rule only_calls_mono [OF calls_received_decision]) (simp add: assms(1))
  then show ?thesis using decision_in by (blast intro: quiet_logI)
next
  case (decision d i dec)
  then show ?thesis using decision_calls [of d i s dec s'] assms(1) by (auto simp: quiet_log_def)
next
  case (decided key kind now i)
  then show ?thesis by (blast intro: quiet_logI only_calls_on_store)
qed (blast intro: quiet_logI observing_scheduled_cycle observing_daily observing_heartbeat observing_digest
      silent_store_ops [THEN silent_only])+

text \<open>C9: With actions disabled the daemon only observes: over any run of its jobs, whatever the peer
  sends and whatever decisions are created and executed, the only calls it ever makes push a report,
  send a heartbeat or mail a digest.\<close>

theorem disabled_daemon_only_observes:
  assumes "daemon_run a s s'" "\<not> cfg_actions_enabled (ag_cfg a)"
  shows "\<exists>as. calls s' = calls s @ as \<and> list_all observing as"
proof -
  have "quiet_log s s'"
    using assms(1)
  proof (rule daemon_run_invariant [where I = "quiet_log s"])
    show "quiet_log s x \<Longrightarrow> quiet_log s y" if "daemon_step a x y" for x y
      using disabled_step [OF assms(2) that] by (auto simp: quiet_log_def)
  qed (simp add: quiet_log_def)
  then show ?thesis by (simp add: quiet_log_def)
qed


section \<open>The database over a run\<close>

lemmas keeps_parts = keeps_abind keeps_aret keeps_call keeps_if keeps_case_sum keeps_case_option

lemma keeps_query: "keeps db_ok (on_store (squery p q))"
  by (intro keeps_on_store preserves_squery)

lemma keeps_queries:
  "keeps db_ok (on_store (latest_report n))" "keeps db_ok (on_store (open_findings n))"
  "keeps db_ok (on_store (last_peer_message_at n k))" "keeps db_ok (on_store (recent_remediations t))"
  "keeps db_ok (on_store pending_decisions)"
  unfolding latest_report_def open_findings_def last_peer_message_at_def recent_remediations_def pending_decisions_def
  by (rule keeps_query)+

lemma preserves_checkpoint: "preserves db_ok (checkpoint busy)"
  unfolding checkpoint_def by (intro preserves_sbind preserves_squery preserves_slift)

lemma keeps_writes:
  "keeps db_ok (on_store (save_report rep))" "keeps db_ok (on_store (save_peer_message dir kind n body t))"
  "keeps db_ok (on_store (record_remediation r))" "keeps db_ok (on_store (enqueue_email x y z t))"
  "keeps db_ok (on_store (mark_email_sent i t))" "keeps db_ok (on_store (mark_email_failed i t c))"
  "keeps db_ok (on_store (prune_peer_messages t))" "keeps db_ok (on_store (create_decision key kind t))"
  "keeps db_ok (on_store (checkpoint busy))"
  by (intro keeps_on_store preserves_save_report_db preserves_save_peer_message preserves_record_remediation
      preserves_enqueue_email preserves_mark_email preserves_prune preserves_create_decision preserves_checkpoint)+

lemma keeps_cycle: "keeps db_ok (run_scheduled_cycle a race deps now cadence)"
proof -
  have "keeps db_ok (push_report a now rep)" for rep
    unfolding push_report_def Let_def by (intro keeps_parts keeps_writes)
  then have c: "keeps db_ok (if ag_peer a \<and> ag_node a = NodeNAS
      then abind (push_report a now rep) (\<lambda>_. aret (Inr (rep, i))) else aret (Inr (rep, i)))" for rep and i :: int
    by (intro keeps_parts)
  have "keeps db_ok (run_cycle a race deps now cadence)"
    unfolding run_cycle_def Let_def case_prod_beta by (intro c keeps_parts keeps_queries keeps_writes)
  then show ?thesis unfolding run_scheduled_cycle_def by (intro keeps_parts)
qed

lemma keeps_daily: "keeps db_ok (run_daily_cycle_and_planning a race deps deps2 now cadence)"
proof -
  have r: "keeps db_ok (record_cleanup_plan a now k st detail)" for k st detail
    unfolding record_cleanup_plan_def by (intro keeps_parts keeps_writes)
  have each: "keeps db_ok (for_each f xs)" if "\<And>x. keeps db_ok (f x)" for f :: "planner \<Rightarrow> unit act" and xs
    by (induction xs) (auto intro: that keeps_abind keeps_aret)
  have "keeps db_ok (plan_one_daily_cleanup a d now p)" for d p
    unfolding plan_one_daily_cleanup_def by (intro keeps_case_sum r)
  then show ?thesis
    unfolding run_daily_cycle_and_planning_def plan_daily_cleanups_def Let_def
    by (intro keeps_abind keeps_cycle keeps_case_sum each r)
qed

lemma keeps_digest: "keeps db_ok (send_digest a z c)"
proof -
  have p: "keeps db_ok (build_peer_section a now)" for now
    unfolding build_peer_section_def Let_def by (intro keeps_parts keeps_queries)
  have d: "keeps db_ok (deliver_digest a c i)" for i
    unfolding deliver_digest_def Let_def by (intro keeps_parts keeps_writes)
  show ?thesis
    unfolding send_digest_def Let_def case_prod_beta by (intro keeps_parts keeps_queries p d)
qed

lemma keeps_messages:
  "keeps db_ok (receive_report a now env)" "keeps db_ok (latest_own_report a now)"
  "keeps db_ok (receive_heartbeat now hb)" "keeps db_ok (send_heartbeat a now)"
  "keeps db_ok (run_nightly_maintenance a now busy)"
  unfolding receive_report_def latest_own_report_def receive_heartbeat_def send_heartbeat_def record_inbound_def
    run_nightly_maintenance_def prune_messages_def Let_def case_prod_beta
  by (intro keeps_parts keeps_queries keeps_writes)+

lemma keeps_received_decision: "keeps db_ok (receive_decision a deps now now' p)"
proof -
  have "keeps db_ok (record_qbit_delete_remediation a t st detail)" for t st detail
    unfolding record_qbit_delete_remediation_def by (intro keeps_parts keeps_writes)
  then have "keeps db_ok (execute_qbit_delete a deps now' p)"
    unfolding execute_qbit_delete_def Let_def by (intro keeps_parts)
  then show ?thesis
    unfolding receive_decision_def record_inbound_def by (intro keeps_parts keeps_writes)
qed

abbreviation sys_ok :: "sys \<Rightarrow> bool" where
  "sys_ok s \<equiv> db_ok (st_db (sy_store s))"

text \<open>C10: The invariant of the database holds throughout the life of the daemon: from a database that
  satisfies it, no sequence of jobs, peer calls and decisions, with whatever statements failing on
  the way, leaves it.\<close>

theorem daemon_keeps_database:
  assumes "daemon_run a s s'" "db_ok (st_db (sy_store s))"
  shows "db_ok (st_db (sy_store s'))"
  using assms(1)
proof (rule daemon_run_invariant [where I = sys_ok])
  show "sys_ok x \<Longrightarrow> sys_ok y" if "daemon_step a x y" for x y
    using that
  proof cases
    case (decision d i dec)
    then show "sys_ok x \<Longrightarrow> sys_ok y" using keeps_execution keepsD by metis
  qed (blast intro: keepsD keeps_cycle keeps_daily keeps_digest keeps_messages keeps_received_decision keeps_writes)+
qed (rule assms(2))

end
