(* ===== verification/Config_Laws.thy ===== *)
theory Config_Laws
  imports Healarr_Config
begin

text \<open>Validation against the declarative description of an acceptable configuration.\<close>

text \<open>C15: Validation accepts exactly the configurations that satisfy the declarative contract: a known
  node; a positive timeout and nine non-negative check durations; disk thresholds with
  \<open>0 < warn \<le> crit \<le> 100\<close>, where a comparison with a NaN passes; a known time zone, 24-hour times of
  day (the pattern match on the texts included) and positive agent intervals; thirteen finite
  staleness weights, \<open>0 < watchlist < candidate \<le> 100\<close>, a positive horizon and snooze and a
  non-negative never-watched bound; and non-negative cleanup ages.\<close>

theorem validate_accepts_exactly: "validate load_location cfg = Inr () \<longleftrightarrow> config_ok load_location cfg"
  by (auto simp: validate_def config_ok_def validate_iffs)

end
