(* ===== verification/Schedule_Laws.thy ===== *)
theory Schedule_Laws
  imports Agent_Laws Config_Laws
begin

text \<open>
  What the schedule covers, what a cycle knows about the past, and what the digest delivers.
\<close>

section \<open>The schedule\<close>

text \<open>What the cron library accepts: four five-field specs, a time of day, a positive interval.\<close>

definition cron_accepts :: "cron \<Rightarrow> bool" where
  "cron_accepts cron \<longleftrightarrow>
     cron ''*/5 * * * *'' = Inr () \<and> cron ''*/15 * * * *'' = Inr () \<and> cron ''0 * * * *'' = Inr () \<and>
     cron ''10 0 * * *'' = Inr () \<and>
     (\<forall>h m. h < 24 \<longrightarrow> m < 60 \<longrightarrow> cron (show_nat m @ '' '' @ show_nat h @ '' * * *'') = Inr ()) \<and>
     (\<forall>d. 0 < d \<longrightarrow> cron (''@every '' @ dur_string d) = Inr ())"

text \<open>
  What a five-field spec means to the cron library: a field is a star, a step \<open>*/n\<close> or a number, and the
  job runs at the minutes of the day whose minute and hour both match. The other three fields are stars.
\<close>

definition field_matches :: "string \<Rightarrow> nat \<Rightarrow> bool" where
  "field_matches f n \<longleftrightarrow>
     f = ''*'' \<or> parse_nat f = Some n \<or>
     (has_prefix f ''*/'' \<and> (case parse_nat (drop 2 f) of None \<Rightarrow> False | Some k \<Rightarrow> n mod k = 0))"

definition fires_at :: "string \<Rightarrow> nat \<Rightarrow> nat \<Rightarrow> bool" where
  "fires_at spec h m \<longleftrightarrow>
     (case split_on CHR '' '' spec of
        [fm, fh, d, mo, wd] \<Rightarrow> field_matches fm m \<and> field_matches fh h \<and> d = ''*'' \<and> mo = ''*'' \<and> wd = ''*''
      | _ \<Rightarrow> False)"

text \<open>The text of a time of day in a configuration.\<close>

definition clock_text :: "nat \<Rightarrow> nat \<Rightarrow> string" where
  "clock_text h m = [digit_char (h div 10), digit_char (h mod 10), CHR '':'', digit_char (m div 10), digit_char (m mod 10)]"

fun job_cadence :: "job \<Rightarrow> duration option" where
  "job_cadence (CycleJob d) = Some d"
| "job_cadence (DailyJob d) = Some d"
| "job_cadence j = None"

definition cycle_entries :: entries where
  "cycle_entries = [(''*/5 * * * *'', CycleJob (5 * minute)), (''*/15 * * * *'', CycleJob (15 * minute)),
     (''0 * * * *'', CycleJob hour), (''10 0 * * *'', DailyJob (24 * hour))]"

lemma field_matches_simps [simp]:
  "field_matches ''*'' n" "field_matches ''*/5'' n \<longleftrightarrow> n mod 5 = 0" "field_matches ''*/15'' n \<longleftrightarrow> n mod 15 = 0"
  "field_matches ''0'' n \<longleftrightarrow> n = 0" "field_matches ''10'' n \<longleftrightarrow> n = 10"
proof -
  have p: "parse_nat ''5'' = Some 5" "parse_nat ''15'' = Some 15" "parse_nat ''0'' = Some 0" "parse_nat ''10'' = Some 10"
    "parse_nat ''*/5'' = None" "parse_nat ''*/15'' = None" by code_simp+
  then show "field_matches ''*'' n" "field_matches ''*/5'' n \<longleftrightarrow> n mod 5 = 0" "field_matches ''*/15'' n \<longleftrightarrow> n mod 15 = 0"
    "field_matches ''0'' n \<longleftrightarrow> n = 0" "field_matches ''10'' n \<longleftrightarrow> n = 10"
    by (auto simp: field_matches_def has_prefix_def)
qed

lemma not_in_show_nat: "char_digit c = None \<Longrightarrow> c \<notin> set (show_nat k)"
  using char_digit_digit_char by (auto dest: set_show_nat)

lemma field_matches_show [simp]: "field_matches (show_nat k) n \<longleftrightarrow> n = k"
proof -
  have "char_digit CHR ''*'' = None" by code_simp
  then have "CHR ''*'' \<notin> set (show_nat k)" by (rule not_in_show_nat)
  then have "show_nat k \<noteq> ''*''" "\<not> has_prefix (show_nat k) ''*/''" by (auto simp: has_prefix_iff)
  then show ?thesis by (auto simp: field_matches_def)
qed

lemma fires_at_daily: "fires_at (show_nat m @ '' '' @ show_nat h @ '' * * *'') h' m' \<longleftrightarrow> h' = h \<and> m' = m"
proof -
  have "char_digit CHR '' '' = None" by code_simp
  then have blank: "CHR '' '' \<notin> set (show_nat k)" for k by (rule not_in_show_nat)
  have "split_on c (a @ c # b) = a # split_on c b" if "c \<notin> set a" for c a b using that by (induction a) auto
  from this [OF blank] show ?thesis by (auto simp: fires_at_def)
qed

lemma fires_at_cycles:
  "fires_at ''*/5 * * * *'' h m \<longleftrightarrow> m mod 5 = 0" "fires_at ''*/15 * * * *'' h m \<longleftrightarrow> m mod 15 = 0"
  "fires_at ''0 * * * *'' h m \<longleftrightarrow> m = 0" "fires_at ''10 0 * * *'' h m \<longleftrightarrow> m = 10 \<and> h = 0"
  by (simp_all add: fires_at_def)

lemma digit_char_inj: "digit_char a = digit_char b \<Longrightarrow> a < 10 \<Longrightarrow> b < 10 \<Longrightarrow> a = b"
  using char_digit_digit_char by (metis option.inject)

lemma two_digits_inj:
  assumes "digit_char (a div 10) = digit_char (b div 10)" "digit_char (a mod 10) = digit_char (b mod 10)" "a < 100" "b < 100"
  shows "a = b"
proof -
  have "a div 10 = b div 10" by (rule digit_char_inj [OF assms(1)]) (use assms in auto)
  moreover have "a mod 10 = b mod 10" by (rule digit_char_inj [OF assms(2)]) auto
  ultimately show ?thesis by (metis div_mult_mod_eq)
qed

lemma clock_text_inj:
  assumes "h < 24" "m < 60" "h' < 24" "m' < 60"
  shows "clock_text h m = clock_text h' m' \<longleftrightarrow> h = h' \<and> m = m'"
proof
  assume "clock_text h m = clock_text h' m'"
  then have "digit_char (h div 10) = digit_char (h' div 10)" "digit_char (h mod 10) = digit_char (h' mod 10)"
    "digit_char (m div 10) = digit_char (m' div 10)" "digit_char (m mod 10) = digit_char (m' mod 10)"
    unfolding clock_text_def by (simp_all only: list.inject simp_thms)
  then show "h = h' \<and> m = m'" using two_digits_inj [of h h'] two_digits_inj [of m m'] assms by simp
qed simp

text \<open>Each cycle runs at every multiple of its cadence, the daily one ten minutes after midnight.\<close>

lemma cycles_fire:
  assumes "h < 24" "m < 60"
  shows "fires_at ''*/5 * * * *'' h m \<longleftrightarrow> int (60 * h + m) mod (5 * minute div minute) = 0"
    "fires_at ''*/15 * * * *'' h m \<longleftrightarrow> int (60 * h + m) mod (15 * minute div minute) = 0"
    "fires_at ''0 * * * *'' h m \<longleftrightarrow> int (60 * h + m) mod (hour div minute) = 0"
    "fires_at ''10 0 * * *'' h m \<longleftrightarrow> int (60 * h + m) mod (24 * hour div minute) = 10"
proof -
  have c: "5 * minute div minute = 5" "15 * minute div minute = 15" "hour div minute = 60" "24 * hour div minute = 1440"
    by simp_all
  have "int (60 * h + m) mod 1440 = int (60 * h + m)" using assms by (intro mod_pos_pos_trivial) auto
  moreover have "int (60 * h + m) = 10 \<longleftrightarrow> m = 10 \<and> h = 0" using assms by presburger
  ultimately show "fires_at ''10 0 * * *'' h m \<longleftrightarrow> int (60 * h + m) mod (24 * hour div minute) = 10"
    unfolding fires_at_cycles c(4) by (simp only:)
  show "fires_at ''*/5 * * * *'' h m \<longleftrightarrow> int (60 * h + m) mod (5 * minute div minute) = 0"
    unfolding fires_at_cycles c(1) by presburger
  show "fires_at ''*/15 * * * *'' h m \<longleftrightarrow> int (60 * h + m) mod (15 * minute div minute) = 0"
    unfolding fires_at_cycles c(2) by presburger
  show "fires_at ''0 * * * *'' h m \<longleftrightarrow> int (60 * h + m) mod (hour div minute) = 0"
    unfolding fires_at_cycles c(3) using assms by presburger
qed

lemma parse_hhmm_ok:
  assumes "hhmm_ok s"
  obtains h m where "h < 24" "m < 60" "daily_cron_spec s = Inr (show_nat m @ '' '' @ show_nat h @ '' * * *'')"
    "s = [digit_char (h div 10), digit_char (h mod 10), CHR '':'', digit_char (m div 10), digit_char (m mod 10)]"
proof -
  obtain h m where hm: "h < 24" "m < 60"
    "s = [digit_char (h div 10), digit_char (h mod 10), CHR '':'', digit_char (m div 10), digit_char (m mod 10)]"
    using assms by (auto simp: hhmm_ok_def)
  have small: "h div 10 < 10" "m div 10 < 10" using hm by auto
  have "10 * (n div 10) + n mod 10 = n" for n :: nat by simp
  then have "parse_hour_minute s = Some (h, m)"
    using hm(1,2) small by (simp add: hm(3) two_digits_def clock_time_def)
  then show thesis using that hm by (simp add: daily_cron_spec_def)
qed

lemma schedule_cycles_ok:
  assumes "cron_accepts cron"
  shows "schedule_cycles cron [] = Inr cycle_entries"
proof -
  have "cron ''*/5 * * * *'' = Inr ()" "cron ''*/15 * * * *'' = Inr ()" "cron ''0 * * * *'' = Inr ()"
    "cron ''10 0 * * *'' = Inr ()"
    using assms by (simp_all add: cron_accepts_def)
  then show ?thesis
    by (simp add: schedule_cycles_def cycle_cadences_def daily_cycle_spec_def initial_cycle_cadence_def
        add_func_def cycle_entries_def)
qed

lemma schedule_ok:
  assumes "config_ok ll (ag_cfg a)" "cron_accepts cron"
  obtains h m h' m' where "h < 24" "m < 60" "h' < 24" "m' < 60"
    "ec_digest_at (cfg_email (ag_cfg a)) = clock_text h m" "ac_checkpoint_at (cfg_agent (ag_cfg a)) = clock_text h' m'"
    "schedule a None cron = Inr (cycle_entries @
      (if ag_peer a then [(''@every '' @ dur_string (ac_heartbeat_interval (cfg_agent (ag_cfg a))), HeartbeatJob)] else []) @
      (if digest_enabled a then [(show_nat m @ '' '' @ show_nat h @ '' * * *'', DigestJob)] else []) @
      [(show_nat m' @ '' '' @ show_nat h' @ '' * * *'', MaintenanceJob)])"
proof -
  have ok: "hhmm_ok (ec_digest_at (cfg_email (ag_cfg a)))" "hhmm_ok (ac_checkpoint_at (cfg_agent (ag_cfg a)))"
    "0 < ac_heartbeat_interval (cfg_agent (ag_cfg a))"
    using assms(1) by (auto simp: config_ok_def agent_ok_def)
  obtain h m where d: "h < 24" "m < 60" "ec_digest_at (cfg_email (ag_cfg a)) = clock_text h m"
    "daily_cron_spec (ec_digest_at (cfg_email (ag_cfg a))) = Inr (show_nat m @ '' '' @ show_nat h @ '' * * *'')"
    unfolding clock_text_def by (rule parse_hhmm_ok [OF ok(1)])
  obtain h' m' where c: "h' < 24" "m' < 60" "ac_checkpoint_at (cfg_agent (ag_cfg a)) = clock_text h' m'"
    "daily_cron_spec (ac_checkpoint_at (cfg_agent (ag_cfg a))) = Inr (show_nat m' @ '' '' @ show_nat h' @ '' * * *'')"
    unfolding clock_text_def by (rule parse_hhmm_ok [OF ok(2)])
  have cron: "cron (show_nat m @ '' '' @ show_nat h @ '' * * *'') = Inr ()"
    "cron (show_nat m' @ '' '' @ show_nat h' @ '' * * *'') = Inr ()"
    "cron (''@every '' @ dur_string (ac_heartbeat_interval (cfg_agent (ag_cfg a)))) = Inr ()"
    using assms(2) c(1,2) d(1,2) ok(3) unfolding cron_accepts_def by blast+
  show thesis
    by (rule that [OF d(1,2) c(1,2) d(3) c(3)])
      (use cron in \<open>simp add: schedule_def schedule_cycles_ok [OF assms(2)] schedule_heartbeat_def schedule_digest_def
        schedule_checkpoint_def d(4) c(4) add_func_def\<close>)
qed

lemma catalogue_cadences: "ck_cadence c \<in> {5 * minute, 15 * minute, hour, 24 * hour}" if "c \<in> set catalogue"
proof -
  have "list_all (\<lambda>c. ck_cadence c \<in> {5 * minute, 15 * minute, hour, 24 * hour}) catalogue"
    by (simp add: catalogue_def families_def family_defs pure_check_def)
  with that show ?thesis by (simp add: list_all_iff)
qed



section \<open>What a cycle knows of the past\<close>

definition same_reports :: "report_row list \<Rightarrow> db \<Rightarrow> bool" where
  "same_reports rows db \<longleftrightarrow> db_reports db = rows"

lemma findings_keep_reports:
  "preserves (same_reports rows) (upsert_each t fs sm)" "preserves (same_reports rows) (resolve_each rep cs sm)"
proof -
  have u: "preserves (same_reports rows) (update_open_finding f t)" for f
    unfolding update_open_finding_def Let_def
    by (intro preserves_sbind preserves_slift preserves_supdate) (simp add: same_reports_def)
  have i: "preserves (same_reports rows) (insert_finding f t)" for f
    unfolding insert_finding_def
    by (intro preserves_sbind preserves_slift preserves_sexec) (auto simp: same_reports_def split: if_splits)
  have r: "preserves (same_reports rows) (resolve_missing_findings n c seen x)" for n c seen x
    unfolding resolve_missing_findings_def Let_def
    by (rule preserves_supdate) (simp add: same_reports_def)
  show "preserves (same_reports rows) (upsert_each t fs sm)"
  proof (induction fs arbitrary: sm)
    case (Cons f fs)
    show ?case unfolding upsert_each.simps
      by (rule preserves_sbind [OF u]) (simp add: Cons preserves_sbind [OF i])
  qed (simp add: preserves_sret)
  show "preserves (same_reports rows) (resolve_each rep cs sm)"
  proof (induction cs arbitrary: sm)
    case (Cons c cs)
    show ?case unfolding resolve_each.simps by (rule preserves_sbind [OF r]) (rule Cons)
  qed (simp add: preserves_sret)
qed

lemma saved_report_row:
  assumes "save_report rep st = (Inr (i, sm), st')"
  shows "db_reports (st_db st') = db_reports (st_db st) @
    [new_report_row rep (rp_metrics rep) (next_id rr_id (db_reports (st_db st)))]"
proof -
  obtain s0 s1 where b: "st_db s0 = st_db st" "st_db st' = st_db s1"
    "sbind (insert_report rep) (\<lambda>i. sbind (upsert_findings rep) (\<lambda>sm. sret (i, sm))) s0 = (Inr (i, sm), s1)"
    using stransaction_Inr [OF assms [unfolded save_report_def]] by auto
  then obtain sa sb sm1 where
    r: "insert_report rep s0 = (Inr i, sa)" and
    u: "upsert_each (rp_generated_at rep) (rp_findings rep) zero_summary sa = (Inr sm1, sb)" and
    v: "resolve_each rep (rp_ran rep) sm1 sb = (Inr sm, s1)"
    by (auto simp: sbind_Inr upsert_findings_def)
  obtain ms where ms: "marshal_metrics (rp_metrics rep) = Inr ms"
    "db_reports (st_db sa) = db_reports (st_db s0) @ [new_report_row rep ms (next_id rr_id (db_reports (st_db s0)))]"
    using insert_report_tracked [OF r] by auto
  then have "ms = rp_metrics rep" by (auto simp: marshal_metrics_def split: if_splits)
  moreover have "db_reports (st_db s1) = db_reports (st_db sa)"
    using preservesD [OF findings_keep_reports(2) _ v] preservesD [OF findings_keep_reports(1) _ u]
    by (simp add: same_reports_def)
  ultimately show ?thesis using ms(2) b by simp
qed

lemma latest_after_save:
  assumes "save_report rep st = (Inr (i, sm), st')"
    "\<forall>r \<in> set (db_reports (st_db st)). rr_node r = rp_node rep \<longrightarrow> rr_generated_at r \<le> format_time (rp_generated_at rep)"
    "latest_report (rp_node rep) st' = (Inr prev, st'')"
  shows "map_option rp_metrics prev = Some (rp_metrics rep)"
proof -
  let ?rows = "db_reports (st_db st)"
  let ?new = "new_report_row rep (rp_metrics rep) (next_id rr_id ?rows)"
  let ?mine = "\<lambda>r. rr_node r = rp_node rep"
  have "first_max (\<lambda>r. (rr_generated_at r, rr_id r)) (filter ?mine (?rows @ [?new])) = Some ?new"
  proof (rule first_max_unique)
    fix r assume r: "r \<in> set (filter ?mine (?rows @ [?new]))" "r \<noteq> ?new"
    then have "r \<in> set ?rows" "?mine r" by (auto split: if_splits)
    then have "rr_generated_at r \<le> rr_generated_at ?new" "rr_id r < rr_id ?new"
      using assms(2) next_id_greater [of r ?rows rr_id] by (auto simp: new_report_row_def)
    then show "(rr_generated_at r, rr_id r) < (rr_generated_at ?new, rr_id ?new)" by (auto simp: less_prod_def)
  qed (simp add: new_report_row_def)
  moreover have "prev = map_option decode_report
      (first_max (\<lambda>r. (rr_generated_at r, rr_id r)) (filter ?mine (db_reports (st_db st'))))"
    using squery_Inr [OF assms(3) [unfolded latest_report_def]] by simp
  ultimately show ?thesis
    by (simp add: saved_report_row [OF assms(1)] decode_report_def new_report_row_def)
qed

abbreviation spike_id :: string where "spike_id \<equiv> ''arr_wanted_missing_spike''"

lemma no_spike_without_metric:
  assumes "previous_metric d ''sonarr_wanted_missing'' = None" "previous_metric d ''radarr_wanted_missing'' = None"
    "run_arr_wanted_missing_spike d = Inr res"
  shows "re_findings res = []"
  using assms by (auto simp: run_arr_wanted_missing_spike_def wanted_missing_spike_def rbind_eq_Inr Let_def
      split: if_splits option.splits)

text \<open>The metrics of a five-minute report of the Pi are mount percentages only.\<close>

lemma five_minute_checks:
  assumes "checks_registry = Inr r"
  shows "checks_for_cadence (for_node r NodePi) (5 * minute) =
    [pure_check ''mount_race'' PiOnly TierCorrect (5 * minute) run_mount_race,
     pure_check ''host_mount_health'' BothNodes TierObserve (5 * minute) run_host_mount_health,
     pure_check ''arr_health'' PiOnly TierObserve (5 * minute) run_arr_health]"
proof -
  have "all_checks r = catalogue" using assms by (metis checks_registry_Inr sum.inject(2))
  then show ?thesis
    by (simp add: for_node_filter checks_for_cadence_def catalogue_def families_def family_defs pure_check_def)
qed

lemma keys_map_set: "fst ` set (map_set k v m) = insert k (fst ` set m)"
  by (simp add: map_set_def dom_update)

definition mount_key :: "string \<Rightarrow> bool" where
  "mount_key k \<longleftrightarrow> has_prefix k ''mount_used_percent:''"

lemma mount_metrics:
  assumes "run_host_mount_health d = Inr res"
  shows "fst ` set (re_metrics res) \<subseteq> {k. mount_key k}"
proof -
  obtain h where "rfoldl (host_mount_step d h) \<lparr>re_findings = [], re_metrics = []\<rparr> (unique_host_paths (cfg_mounts (d_cfg d))) = Inr res"
    using assms by (auto simp: run_host_mount_health_def split: option.splits if_splits)
  then show ?thesis
  proof (rule rfoldl_invariant [where I = "\<lambda>r. fst ` set (re_metrics r) \<subseteq> {k. mount_key k}", rotated 2])
    fix r r' :: check_result and p
    assume r: "fst ` set (re_metrics r) \<subseteq> {k. mount_key k}" "host_mount_step d h r p = Inr r'"
    then obtain x where x: "inspect_host_mount d h p = Inr x"
      "r' = (case x of Inl f \<Rightarrow> r\<lparr>re_findings := re_findings r @ [f]\<rparr>
         | Inr pct \<Rightarrow> r\<lparr>re_metrics := map_set (''mount_used_percent:'' @ p) pct (re_metrics r)\<rparr>)"
      by (auto simp: host_mount_step_def rbind_eq_Inr)
    have "mount_key (''mount_used_percent:'' @ p)" unfolding mount_key_def by (rule has_prefix_append)
    then show "fst ` set (re_metrics r') \<subseteq> {k. mount_key k}"
      using r(1) x(2) by (cases x) (simp_all add: keys_map_set)
  qed simp
qed

lemma metrics_keys:
  "fst ` set (foldl (\<lambda>m c. map_merge m (metrics_of race d c)) m cs) \<subseteq>
     fst ` set m \<union> (\<Union>c \<in> set cs. fst ` set (metrics_of race d c))"
proof -
  have merge: "fst ` set (map_merge m kvs) \<subseteq> fst ` set m \<union> fst ` set kvs" for m and kvs :: metrics
  proof (induction kvs arbitrary: m)
    case (Cons kv kvs)
    have "map_merge m (kv # kvs) = map_merge (map_set (fst kv) (snd kv) m) kvs"
      by (simp add: map_merge_def case_prod_beta)
    with Cons.IH [of "map_set (fst kv) (snd kv) m"] show ?case by (auto simp: keys_map_set)
  qed (simp add: map_merge_def)
  show ?thesis
  proof (induction cs arbitrary: m)
    case (Cons c cs)
    from Cons.IH [of "map_merge m (metrics_of race d c)"] merge [of m "metrics_of race d c"]
    show ?case by auto
  qed simp
qed

lemma five_minute_results:
  assumes "run \<in> {run_mount_race, run_host_mount_health, run_arr_health}" "run d = Inr res"
  shows "fst ` set (re_metrics res) \<subseteq> {k. mount_key k}"
proof -
  have "re_metrics res = []" if "run_mount_race d = Inr res"
    using that by (auto simp: run_mount_race_def rbind_eq_Inr split: option.splits if_splits)
  moreover have "re_metrics res = []" if "run_arr_health d = Inr res"
    using that by (auto simp: run_arr_health_def rbind_eq_Inr)
  ultimately show ?thesis using assms mount_metrics [of d res] by auto
qed

lemma five_minute_metrics:
  assumes "checks_registry = Inr r"
    "k \<in> fst ` set (rp_metrics (run_checks race (checks_for_cadence (for_node r NodePi) (5 * minute)) d))"
  shows "mount_key k"
proof -
  let ?cs = "checks_for_cadence (for_node r NodePi) (5 * minute)"
  have "k \<in> fst ` set ([] :: metrics) \<union> (\<Union>c \<in> set ?cs. fst ` set (metrics_of race d c))"
    by (rule subsetD [OF metrics_keys assms(2) [unfolded run_checks_fields(7)]])
  then have "k \<in> (\<Union>c \<in> set ?cs. fst ` set (metrics_of race d c))" by simp
  then obtain c where c: "c \<in> set ?cs" "k \<in> fst ` set (metrics_of race d c)" by (rule UN_E)
  then obtain res where res: "run_one race c d = Inr res" "k \<in> fst ` set (re_metrics res)"
    by (cases "run_one race c d") (simp_all add: metrics_of_def)
  then obtain raw where out: "outcome c (deps_at race c d) = Inr raw" "re_metrics res = re_metrics raw" by (auto simp: run_one_Inr)
  have "\<exists>run \<in> {run_mount_race, run_host_mount_health, run_arr_health}. ck_run c = Some (\<lambda>d. Returns (run d))"
    using c(1) unfolding five_minute_checks [OF assms(1)] pure_check_def by auto
  then obtain run where run: "run \<in> {run_mount_race, run_host_mount_health, run_arr_health}"
    "ck_run c = Some (\<lambda>d. Returns (run d))" by blast
  then have "run (deps_at race c d) = Inr raw" using out(1) by (simp add: outcome_def)
  from five_minute_results [OF run(1) this] res(2) out(2) show ?thesis by auto
qed


lemma run_cycle_pi:
  assumes "run_cycle a race deps now cadence s = (Inr (rep, i), s')" "ag_node a = NodePi"
    "checks_for_cadence (for_node (ag_registry a) NodePi) cadence \<noteq> []"
  obtains d prev st1 st2 sm where "deps = Inr d" "latest_report NodePi (sy_store s) = (Inr prev, st1)"
    "rep = run_checks race (checks_for_cadence (for_node (ag_registry a) NodePi) cadence) (cycle_deps d prev)"
    "save_report rep st1 = (Inr (i, sm), st2)" "sy_store s' = st2"
proof -
  obtain d where d: "deps = Inr d" using assms by (cases deps) (simp_all add: run_cycle_def)
  obtain q st1 where q: "latest_report NodePi (sy_store s) = (q, st1)" by fastforce
  have step: "abind (on_store (latest_report NodePi)) (\<lambda>r. case r of
      Inl e \<Rightarrow> aret (Inl (wrap_error ''agent: run cycle: latest report'' e))
    | Inr prev \<Rightarrow> let rep = run_checks race (checks_for_cadence (for_node (ag_registry a) NodePi) cadence) (cycle_deps d prev)
        in abind (on_store (save_report rep)) (\<lambda>r2. case r2 of
             Inl e \<Rightarrow> aret (Inl (wrap_error ''agent: run cycle: save report'' e))
           | Inr (i, _) \<Rightarrow> aret (Inr (rep, i)))) s = (Inr (rep, i), s')"
    using assms by (simp add: run_cycle_def d)
  show thesis
  proof (cases q)
    case (Inr prev)
    let ?rep = "run_checks race (checks_for_cadence (for_node (ag_registry a) NodePi) cadence) (cycle_deps d prev)"
    obtain q2 st2 where q2: "save_report ?rep st1 = (q2, st2)" by fastforce
    have "(case q2 of Inl e \<Rightarrow> aret (Inl (wrap_error ''agent: run cycle: save report'' e))
       | Inr (i, _) \<Rightarrow> aret (Inr (?rep, i))) (s\<lparr>sy_store := st2\<rparr>) = (Inr (rep, i), s')"
      using step by (simp add: abind_def on_store_def q Inr q2 Let_def)
    then show thesis using that d q Inr q2 by (cases q2) auto
  qed (use step in \<open>simp add: abind_def on_store_def q\<close>)
qed

text \<open>A cycle's previous report is the newest one of any cadence: when the Pi's last saved report is one
  of its five-minute cycles, the daily wanted-count check has no previous count to compare with and
  reports no spike, however far the count has jumped.\<close>

theorem spike_is_blind_after_other_cycle:
  assumes "checks_registry = Inr (ag_registry a)" "ag_node a = NodePi"
    "run_cycle a race deps now (5 * minute) s = (Inr (rep, i), s')"
    "\<forall>r \<in> set (db_reports (st_db (sy_store s))). rr_node r = NodePi \<longrightarrow>
       rr_generated_at r \<le> format_time (rp_generated_at rep)" "rp_node rep = NodePi"
    "run_cycle a race' (Inr d) now' (24 * hour) s' = (Inr (rep', i'), s'')" "f \<in> set (rp_findings rep')"
  shows "fi_check_id f \<noteq> ''arr_wanted_missing_spike''"
proof
  assume spike: "fi_check_id f = ''arr_wanted_missing_spike''"
  have cat: "all_checks (ag_registry a) = catalogue" using assms(1) by (metis checks_registry_Inr sum.inject(2))
  have "checks_for_cadence (for_node (ag_registry a) NodePi) (5 * minute) \<noteq> []"
    unfolding five_minute_checks [OF assms(1)] by simp
  then obtain d1 prev1 st1 st2 sm where first: "latest_report NodePi (sy_store s) = (Inr prev1, st1)"
    "rep = run_checks race (checks_for_cadence (for_node (ag_registry a) NodePi) (5 * minute)) (cycle_deps d1 prev1)"
    "save_report rep st1 = (Inr (i, sm), st2)" "sy_store s' = st2"
    by (rule run_cycle_pi [OF assms(3,2)])
  let ?cs = "checks_for_cadence (for_node (ag_registry a) NodePi) (24 * hour)"
  have "?cs \<noteq> []"
    by (simp add: checks_for_cadence_def for_node_filter cat catalogue_def families_def family_defs pure_check_def)
  then obtain prev st3 where second: "latest_report NodePi st2 = (Inr prev, st3)"
    "rep' = run_checks race' ?cs (cycle_deps d prev)"
    using run_cycle_pi [OF assms(6,2)] first(4) by (metis sum.inject(2))
  have db: "st_db st1 = st_db (sy_store s)" using first(1) by (auto simp: latest_report_def dest: squery_db)
  have "map_option rp_metrics prev = Some (rp_metrics rep)"
    by (rule latest_after_save [OF first(3)]) (use second(1) assms(4,5) db in simp_all)
  then obtain p where p: "prev = Some p" "rp_metrics p = rp_metrics rep" by auto
  have blind: "previous_metric (cycle_deps d prev) k = None" if "\<not> mount_key k" for k
  proof -
    have "k \<notin> fst ` set (rp_metrics rep)" using that five_minute_metrics [OF assms(1)] first(2) by blast
    then show ?thesis by (simp add: previous_metric_def cycle_deps_def p map_of_eq_None_iff)
  qed
  obtain c where c: "c \<in> set ?cs" "f \<in> set (findings_of race' (cycle_deps d prev) c)"
    using assms(7) by (auto simp: second(2) run_checks_fields sort_findings_def)
  define e where "e = deps_at race' c (cycle_deps d prev)"
  obtain out where "run_one race' c (cycle_deps d prev) = Inr out" "f \<in> set (re_findings out)"
    using c(2) by (cases "run_one race' c (cycle_deps d prev)") (auto simp: findings_of_def)
  then obtain res k where res: "outcome c e = Inr res" "k < length (re_findings res)"
    "fi_check_id f = fi_check_id (re_findings res ! k)"
    by (auto simp: run_one_Inr in_stamp_findings e_def)
  define g where "g = re_findings res ! k"
  have g: "g \<in> set (re_findings res)" "fi_check_id g = fi_check_id f" using res(2,3) by (simp_all add: g_def)
  have "c \<in> set catalogue" using c(1) by (simp add: checks_for_cadence_def for_node_filter cat)
  then have "stamps c" by (rule stamps_catalogue)
  then have "ck_id c = ''arr_wanted_missing_spike''"
    using res(1) g spike unfolding stamps_def by (metis stamped1_def stamped_def sum.simps(6))
  then have "ck_run c = Some (\<lambda>d. Returns (run_arr_wanted_missing_spike d))"
    using \<open>c \<in> set catalogue\<close> by (auto simp: catalogue_def families_def family_defs pure_check_def)
  then have "run_arr_wanted_missing_spike e = Inr res" using res(1) by (simp add: outcome_def)
  moreover have "previous_metric e k = previous_metric (cycle_deps d prev) k" for k by (simp add: e_def previous_metric_def)
  moreover have "\<not> mount_key ''sonarr_wanted_missing''" "\<not> mount_key ''radarr_wanted_missing''"
    by (simp_all add: mount_key_def has_prefix_def)
  ultimately have "re_findings res = []" using no_spike_without_metric blind by metis
  with g(1) show False by simp
qed


section \<open>Concrete instances\<close>

definition sample_agent :: agent where
  "sample_agent = \<lparr>ag_cfg = defaults\<lparr>cfg_node := NodePi, cfg_staleness := flat_weights,
       cfg_checks := (cfg_checks defaults)\<lparr>cc_disk_warn_percent := Fin 85, cc_disk_crit_percent := Fin 92\<rparr>\<rparr>,
     ag_registry = (case checks_registry of Inl _ \<Rightarrow> new_registry | Inr r \<Rightarrow> r), ag_version = ''v1'',
     ag_peer = True, ag_sender = True, ag_peer_token = ''t'', ag_web = False, ag_started_at = 0\<rparr>"

definition blank_sys :: sys where
  "blank_sys = \<lparr>sy_store = \<lparr>st_db = empty_db, st_faults = []\<rparr>, sy_world = \<lparr>w_log = [], w_answer = (\<lambda>_ _. Inr 0)\<rparr>\<rparr>"

lemma sample_registry: "checks_registry = Inr (ag_registry sample_agent)"
proof -
  obtain r where r: "checks_registry = Inr r" by (rule checks_registry_Inr)
  show ?thesis unfolding sample_agent_def agent.simps r by simp
qed

lemma sample_config: "validate (\<lambda>_. Inr utc) (ag_cfg sample_agent) = Inr ()"
proof -
  have "validate_node NodePi = Inr ()" by (simp add: validate_node_def)
  moreover have "validate_checks (cfg_checks (ag_cfg sample_agent)) = Inr ()"
    unfolding validate_checks_iff
    by (simp add: checks_ok_def defaults_def default_checks_def f_lt_def sample_agent_def)
  moreover have "validate_agent (\<lambda>_. Inr utc) (cfg_agent defaults) = Inr ()"
    by (simp add: validate_agent_def defaults_def) code_simp
  moreover have "validate_staleness flat_weights = Inr ()"
    unfolding validate_staleness_iff by (rule flat_weights_ok)
  moreover have "validate_cleanup (cfg_cleanup defaults) = Inr ()"
    unfolding validate_cleanup_iff by (simp add: defaults_def)
  moreover have "validate_email_digest_at (ec_digest_at (cfg_email defaults)) = Inr ()"
    by (simp add: validate_email_digest_at_def defaults_def) code_simp
  ultimately show ?thesis by (simp add: validate_def sample_agent_def)
qed


lemma sample_checks:
  "all_checks (ag_registry sample_agent) = catalogue"
  using sample_registry by (metis checks_registry_Inr sum.inject(2))

definition first_report :: report where
  "first_report = run_checks prompt (checks_for_cadence (for_node (ag_registry sample_agent) NodePi) (5 * minute))
     (sample_deps defaults)"

lemma first_report_blank: "rp_findings first_report = []" "rp_metrics first_report = []" "rp_ran first_report = []"
  "rp_node first_report = NodePi"
  unfolding first_report_def five_minute_checks [OF sample_registry]
  by (simp_all add: run_checks_def record_outcome_def run_one_def outcome_def pure_check_def empty_report_def
      run_mount_race_def run_host_mount_health_def run_arr_health_def app_healths_def sonarr_app_health_def
      radarr_app_health_def prowlarr_app_health_def sample_deps_def not_configured_def errors_is_def sort_findings_def)

definition second_report :: "report \<Rightarrow> report" where
  "second_report p = run_checks prompt (checks_for_cadence (for_node (ag_registry sample_agent) NodePi) (24 * hour))
     (silent_tautulli\<lparr>d_previous := Some p\<rparr>)"

lemma second_report_finds: "map fi_check_id (rp_findings (second_report p)) = [''tautulli_reachability'']"
  "map fi_data (rp_findings (second_report p)) = [[]]" "rp_metrics (second_report p) = []"
  by (simp_all add: second_report_def checks_for_cadence_def for_node_filter sample_checks catalogue_def families_def
      family_defs pure_check_def run_checks_def record_outcome_def run_one_def outcome_def empty_report_def
      silent_tautulli_def sample_deps_def not_configured_def errors_is_def sort_findings_def
      stamp_findings_def stamp_finding_def new_finding_def
      run_arr_wanted_missing_spike_def run_service_update_available_def run_tautulli_reachability_def
      run_overseerr_stuck_processing_def run_pressure_def run_image_bloat_def run_dir_size_def run_staleness_scan_def
      collect_items_def app_healths_def sonarr_app_health_def radarr_app_health_def prowlarr_app_health_def)


lemma run_cycle_working:
  assumes "working s" "ag_node a = NodePi"
    "checks_for_cadence (for_node (ag_registry a) NodePi) cadence \<noteq> []"
    "\<And>prev. fst (latest_report NodePi (sy_store s)) = Inr prev \<Longrightarrow>
       rep = run_checks race (checks_for_cadence (for_node (ag_registry a) NodePi) cadence) (cycle_deps d prev)"
    "list_all (\<lambda>(k, v). f_is_finite v) (rp_metrics rep)" "list_all encodable (rp_findings rep)"
  obtains i s' where "run_cycle a race (Inr d) now cadence s = (Inr (rep, i), s')" "working s'"
proof -
  have w: "st_faults (sy_store s) = []" using assms(1) by (simp add: working_def)
  obtain prev where l: "latest_report NodePi (sy_store s) = (Inr prev, sy_store s)"
    by (simp add: latest_report_def squery_no_fault [OF w])
  have rep: "run_checks race (checks_for_cadence (for_node (ag_registry a) NodePi) cadence) (cycle_deps d prev) = rep"
    using assms(4) [of prev] l by simp
  obtain i sm st' where sv: "save_report rep (sy_store s) = (Inr (i, sm), st')" "st_faults st' = []"
    using save_report_total [OF w assms(5,6)] by auto
  have "run_cycle a race (Inr d) now cadence s = (Inr (rep, i), s\<lparr>sy_store := st'\<rparr>)"
    using assms(2,3) by (simp add: run_cycle_def abind_def on_store_def l rep sv Let_def)
  then show thesis using that sv(2) by (simp add: working_def)
qed

theorem spike_is_blind_after_other_cycle_witness:
  "\<exists>s' rep i s''. run_cycle sample_agent prompt (Inr silent_tautulli) 0 (24 * hour) s' = (Inr (rep, i), s'') \<and>
     (\<exists>f. f \<in> set (rp_findings rep) \<and> fi_check_id f \<noteq> ''arr_wanted_missing_spike'')"
proof -
  have node: "ag_node sample_agent = NodePi" by (simp add: sample_agent_def)
  have five: "checks_for_cadence (for_node (ag_registry sample_agent) NodePi) (5 * minute) \<noteq> []"
    unfolding five_minute_checks [OF sample_registry] by simp
  have w: "working blank_sys" by (simp add: working_def blank_sys_def)
  have rep1: "first_report = run_checks prompt
      (checks_for_cadence (for_node (ag_registry sample_agent) NodePi) (5 * minute)) (cycle_deps (sample_deps defaults) prev)"
    if "fst (latest_report NodePi (sy_store blank_sys)) = Inr prev" for prev
    using that by (simp add: first_report_def latest_report_def blank_sys_def squery_no_fault empty_db_def cycle_deps_def)
  obtain i s1 where 1: "run_cycle sample_agent prompt (Inr (sample_deps defaults)) 0 (5 * minute) blank_sys =
      (Inr (first_report, i), s1)" "working s1"
    by (rule run_cycle_working [OF w node five rep1]) (simp_all add: first_report_blank)
  obtain d1 prev1 st1 st2 sm where first: "latest_report NodePi (sy_store blank_sys) = (Inr prev1, st1)"
    "save_report first_report st1 = (Inr (i, sm), st2)" "sy_store s1 = st2"
    by (rule run_cycle_pi [OF 1(1) node five])
  obtain p where p: "fst (latest_report NodePi (sy_store s1)) = Inr (Some p)"
  proof -
    obtain prev st3 where l: "latest_report NodePi (sy_store s1) = (Inr prev, st3)"
      using 1(2) by (simp add: latest_report_def squery_no_fault working_def)
    have "st_db st1 = empty_db" using first(1) by (auto simp: latest_report_def blank_sys_def dest: squery_db)
    then have "map_option rp_metrics prev = Some (rp_metrics first_report)"
      using latest_after_save [OF first(2)] l by (simp add: first_report_blank first(3) empty_db_def)
    then show thesis using that l by auto
  qed
  have daily: "checks_for_cadence (for_node (ag_registry sample_agent) NodePi) (24 * hour) \<noteq> []"
    by (simp add: checks_for_cadence_def for_node_filter sample_checks catalogue_def families_def family_defs pure_check_def)
  have rep2: "second_report p = run_checks prompt
      (checks_for_cadence (for_node (ag_registry sample_agent) NodePi) (24 * hour)) (cycle_deps silent_tautulli prev)"
    if "fst (latest_report NodePi (sy_store s1)) = Inr prev" for prev
  proof -
    have "prev = Some p" using that p by simp
    then show ?thesis by (simp add: second_report_def cycle_deps_def)
  qed
  have data: "fi_data g = []" if "g \<in> set (rp_findings (second_report p))" for g
  proof -
    have "fi_data g \<in> set (map fi_data (rp_findings (second_report p)))" using that by simp
    then show ?thesis unfolding second_report_finds(2) by simp
  qed
  have enc: "list_all encodable (rp_findings (second_report p))"
    using data by (auto simp: list_all_iff encodable_def)
  obtain i2 s2 where 2: "run_cycle sample_agent prompt (Inr silent_tautulli) 0 (24 * hour) s1 =
      (Inr (second_report p, i2), s2)"
    by (rule run_cycle_working [OF 1(2) node daily rep2]) (simp_all add: second_report_finds enc)
  obtain f where f: "f \<in> set (rp_findings (second_report p))"
    using second_report_finds(1) [of p] by (cases "rp_findings (second_report p)") auto
  have "fi_check_id f \<noteq> ''arr_wanted_missing_spike''"
    by (rule spike_is_blind_after_other_cycle [OF sample_registry node 1(1) _ _ 2 f])
      (simp_all add: blank_sys_def empty_db_def first_report_blank)
  with 2 f show ?thesis by blast
qed

end
