(* ===== verification/Exchange_Laws.thy ===== *)
theory Exchange_Laws
  imports Schedule_Laws Store_Tracker "HOL-Library.Sublist"
begin

text \<open>
  What one part of a node hands to another: the other node's report to the store, the nightly plan
  to the digest, the store to the mail.
\<close>

section \<open>A peer's report\<close>

lemma receive_report_saves:
  assumes "receive_report a now env s = (Inr i, s')"
  obtains j sm st where "ev_node env \<noteq> ag_node a"
    "save_report ((ev_report env)\<lparr>rp_node := ev_node env\<rparr>) (sy_store s) = (Inr (j, sm), st)"
    "db_findings (st_db (sy_store s')) = db_findings (st_db st)"
proof -
  let ?rep = "(ev_report env)\<lparr>rp_node := ev_node env\<rparr>"
  have other: "ev_node env \<noteq> ag_node a" using assms by (auto simp: receive_report_def)
  obtain q st where q: "save_report ?rep (sy_store s) = (q, st)" by fastforce
  let ?log = "save_peer_message ''in'' ''report'' (ev_node env) (envelope_payload env) now"
  obtain q2 st2 where q2: "?log st = (q2, st2)" by fastforce
  have frame: "preserves (\<lambda>db. db_findings db = db_findings (st_db st)) ?log"
    unfolding save_peer_message_def Let_def
    by (auto intro!: preserves_supdate simp: valid_peer_directions_def valid_peer_kinds_def)
  show thesis
  proof (cases q)
    case (Inl e)
    with assms other q show thesis by (simp add: receive_report_def abind_def on_store_def)
  next
    case (Inr x)
    then obtain j sm where x: "q = Inr (j, sm)" by (cases x) simp
    have "sy_store s' = st2"
      using assms other q q2 x
      by (auto simp: receive_report_def record_inbound_def abind_def on_store_def Let_def aret_def)
    moreover have "db_findings (st_db st2) = db_findings (st_db st)" using preservesD [OF frame _ q2] by simp
    ultimately show thesis using that other q x by simp
  qed
qed

text \<open>C13: What a peer's report can do to this node's own findings. The envelope decides the report's node,
  so no own finding is ever resolved by it, whatever the findings inside carry: what this node tracked it
  still tracks. An own finding changes only when a finding inside carries this node's name and the very
  same key, so none changes if the findings inside carry the peer's node. But a finding that carries this
  node's name is not rewritten and not rejected: it becomes an active finding of this node.\<close>

theorem peer_report_and_own_findings:
  assumes "receive_report a now env s = (Inr i, s')"
  shows "(\<forall>c e. tracked (st_db (sy_store s)) (ag_node a, c, e) \<noteq> None \<longrightarrow>
       tracked (st_db (sy_store s')) (ag_node a, c, e) \<noteq> None) \<and>
    (\<forall>c e. (ag_node a, c, e) \<notin> {(fi_node g, fi_check_id g, fi_entity_key g) | g. g \<in> set (rp_findings (ev_report env))} \<longrightarrow>
       tracked (st_db (sy_store s')) (ag_node a, c, e) = tracked (st_db (sy_store s)) (ag_node a, c, e)) \<and>
    (fi_node ` set (rp_findings (ev_report env)) \<subseteq> {ev_node env} \<longrightarrow>
       (\<forall>c e. tracked (st_db (sy_store s')) (ag_node a, c, e) = tracked (st_db (sy_store s)) (ag_node a, c, e))) \<and>
    (f \<in> set (rp_findings (ev_report env)) \<longrightarrow> fi_node f = ag_node a \<longrightarrow>
       (\<exists>r. tracked (st_db (sy_store s')) (ag_node a, fi_check_id f, fi_entity_key f) = Some r))"
proof -
  let ?rep = "(ev_report env)\<lparr>rp_node := ev_node env\<rparr>"
  obtain j sm st where r: "ev_node env \<noteq> ag_node a" "save_report ?rep (sy_store s) = (Inr (j, sm), st)"
    "db_findings (st_db (sy_store s')) = db_findings (st_db st)"
    by (rule receive_report_saves [OF assms])
  have "tracked (st_db (sy_store s')) = tracked (st_db st)" using r(3) by (simp add: tracked_def fun_eq_iff)
  also have "\<dots> = track_report ?rep (tracked (st_db (sy_store s)))" using save_report_tracked [OF r(2)] by blast
  finally have t: "tracked (st_db (sy_store s')) = track_report ?rep (tracked (st_db (sy_store s)))" .
  have keep: "\<not> drop_missing ?rep c k" if "fst k = ag_node a" for c k
    using that r(1) by (auto simp: drop_missing_def)
  have absent: "tracked (st_db (sy_store s')) (ag_node a, c, e) = tracked (st_db (sy_store s)) (ag_node a, c, e)"
    if "(ag_node a, c, e) \<notin> fkey_of ` set (rp_findings ?rep)" for c e
    using that keep by (simp add: t track_report_def foldl_track_absent)
  have present: "\<exists>r. tracked (st_db (sy_store s')) (ag_node a, c, e) = Some r"
    if "(ag_node a, c, e) \<in> fkey_of ` set (rp_findings ?rep)" for c e
    using foldl_track_present [OF that] keep by (force simp: t track_report_def)
  show ?thesis
  proof (intro conjI impI allI)
    fix c e assume "tracked (st_db (sy_store s)) (ag_node a, c, e) \<noteq> None"
    then show "tracked (st_db (sy_store s')) (ag_node a, c, e) \<noteq> None"
      using absent [of c e] present [of c e] by (cases "(ag_node a, c, e) \<in> fkey_of ` set (rp_findings ?rep)") auto
  next
    fix c e assume "(ag_node a, c, e) \<notin> {(fi_node g, fi_check_id g, fi_entity_key g) | g. g \<in> set (rp_findings (ev_report env))}"
    then show "tracked (st_db (sy_store s')) (ag_node a, c, e) = tracked (st_db (sy_store s)) (ag_node a, c, e)"
      by (intro absent) (auto simp: fkey_of_def)
  next
    fix c e assume "fi_node ` set (rp_findings (ev_report env)) \<subseteq> {ev_node env}"
    then show "tracked (st_db (sy_store s')) (ag_node a, c, e) = tracked (st_db (sy_store s)) (ag_node a, c, e)"
      using r(1) by (intro absent) (auto simp: fkey_of_def)
  next
    assume f: "f \<in> set (rp_findings (ev_report env))" "fi_node f = ag_node a"
    let ?k = "(ag_node a, fi_check_id f, fi_entity_key f)"
    have "?k \<in> fkey_of ` set (rp_findings ?rep)" 
      using f by (auto simp: fkey_of_def intro!: image_eqI [of _ _ f])
    then obtain r where "foldl (track_one (format_time (rp_generated_at (ev_report env)))) (tracked (st_db (sy_store s)))
        (rp_findings ?rep) ?k = Some r"
      using foldl_track_present by blast
    then show "\<exists>r. tracked (st_db (sy_store s')) ?k = Some r" using keep by (simp add: t track_report_def)
  qed
qed

section \<open>The nightly plan in the digest\<close>

lemma char_digit_facts: "char_digit CHR '' '' = None" "char_digit CHR ''-'' = None"
  by (simp_all add: char_digit_def)

lemma takeWhile_digits:
  "char_digit c = None \<Longrightarrow> takeWhile (\<lambda>c. char_digit c \<noteq> None) (show_nat n @ c # cs) = show_nat n \<and>
     dropWhile (\<lambda>c. char_digit c \<noteq> None) (show_nat n @ c # cs) = c # cs"
proof -
  assume c: "char_digit c = None"
  have "\<forall>x \<in> set (show_nat n). char_digit x \<noteq> None"
    by (induction n rule: show_nat.induct) (subst show_nat.simps, auto)
  with c show ?thesis by (auto simp: takeWhile_append2 dropWhile_append2)
qed

lemma drop_blanks_number: "dropWhile scan_blank (show_int i @ r) = show_int i @ r"
proof -
  have d: "\<not> scan_blank c" if "c \<in> set (show_nat n)" for c n
  proof -
    from set_show_nat [OF that] obtain k where "k < 10" "c = digit_char k" by blast
    then have "char_digit c = Some k" by simp
    then show ?thesis by (auto simp: scan_blank_def char_digit_def split: if_splits)
  qed
  have n: "dropWhile scan_blank (show_nat n @ r) = show_nat n @ r" for n
  proof -
    obtain x xs where x: "show_nat n = x # xs" by (cases "show_nat n") auto
    then have "\<not> scan_blank x" using d [of x n] by simp
    then show ?thesis by (simp add: x)
  qed
  have "\<not> scan_blank CHR ''-''" by (simp add: scan_blank_def)
  then show ?thesis unfolding show_int_def by (cases "i < 0") (simp_all only: if_True if_False n append_Cons dropWhile.simps)
qed

lemma scan_decimal_show:
  assumes "char_digit c = None" "min_int64 \<le> i" "i \<le> max_int64"
  shows "scan_decimal (show_int i @ c # cs) = Some (i, c # cs)"
proof (cases "i < 0")
  case True
  have "parse_int64 (CHR ''-'' # show_nat (nat (- i))) = Some i"
    using parse_int64_show_int [OF assms(2,3)] True by (simp add: show_int_def)
  then show ?thesis
    using takeWhile_digits [OF assms(1), of "nat (- i)" cs] True drop_blanks_number [of i "c # cs"]
    by (simp add: scan_decimal_def show_int_def)
next
  case False
  obtain x xs where x: "show_nat (nat i) = x # xs" by (cases "show_nat (nat i)") auto
  have "x \<noteq> CHR ''-''" "x \<noteq> CHR ''+''" using hd_show_nat [OF x] by auto
  moreover have "parse_int64 (show_nat (nat i)) = Some i"
    using parse_int64_show_int [OF assms(2,3)] False by (simp add: show_int_def)
  ultimately show ?thesis
    using takeWhile_digits [OF assms(1), of "nat i" cs] False x drop_blanks_number [of i "c # cs"]
    by (simp add: scan_decimal_def show_int_def)
qed

definition int64 :: "int \<Rightarrow> bool" where
  "int64 i \<longleftrightarrow> min_int64 \<le> i \<and> i \<le> max_int64"

lemma plan_detail_round_trip:
  assumes "int64 n" "int64 b"
  shows "parse_cleanup_plan_detail (show_int n @ '' items, '' @ show_int b @ '' bytes'') = (n, b)"
proof -
  have "scan_decimal (show_int n @ CHR '' '' # (''items, '' @ show_int b @ '' bytes'')) =
      Some (n, CHR '' '' # (''items, '' @ show_int b @ '' bytes''))"
    using assms by (intro scan_decimal_show) (simp_all add: int64_def char_digit_facts)
  moreover have "scan_decimal (show_int b @ CHR '' '' # ''bytes'') = Some (b, CHR '' '' # ''bytes'')"
    using assms by (intro scan_decimal_show) (simp_all add: int64_def char_digit_facts)
  moreover have "scan_blanks (CHR '' '' # ''items, '' @ show_int b @ '' bytes'') = Some (''items, '' @ show_int b @ '' bytes'')"
    by (simp add: scan_blanks_def scan_blank_def)
  moreover have "scan_blanks (CHR '' '' # show_int b @ '' bytes'') = Some (show_int b @ '' bytes'')"
    using drop_blanks_number [of b "'' bytes''"] by (simp add: scan_blanks_def scan_blank_def)
  ultimately show ?thesis by (simp add: parse_cleanup_plan_detail_def has_prefix_def trim_prefix_def)
qed

text \<open>C14: The night's plan comes back in the morning's mail: what the planning job writes for a planner is
  one dry-run row, and the digest's reader takes the planner's kind and exactly its item and byte
  counts back out of that row's text.\<close>

theorem plan_reaches_the_digest:
  assumes "pl_plan p d = Inr plan" "working s" "int64 (int (length (pn_items plan)))" "int64 (pn_bytes plan)"
  shows "\<exists>row. db_remediations (st_db (sy_store (snd (plan_one_daily_cleanup a d now p s)))) =
      db_remediations (st_db (sy_store s)) @ [row] \<and> mr_dry_run row \<and>
    cleanup_summaries [scan_remediation row] =
      [\<lparr>cs_kind = pl_kind p, cs_items = int (length (pn_items plan)), cs_bytes = pn_bytes plan\<rparr>]"
proof -
  have w: "st_faults (sy_store s) = []" using assms(2) by (simp add: working_def)
  have "has_prefix (''cleanup:'' @ pl_kind p) ''cleanup:''" "trim_prefix (''cleanup:'' @ pl_kind p) ''cleanup:'' = pl_kind p"
    by (rule has_prefix_append trim_prefix_append)+
  then show ?thesis
    using plan_detail_round_trip [OF assms(3,4)] assms(1) w
    by (simp add: plan_one_daily_cleanup_def record_cleanup_plan_def abind_def on_store_def aret_def
        record_remediation_def supdate_no_fault Let_def cleanup_summaries_def scan_remediation_def new_remediation_row_def)
qed


section \<open>The mail\<close>

lemma bucket_fold:
  "bk_critical (foldl add_to_bucket b fs) =
     bk_critical b @ map to_finding_view (filter (\<lambda>f. fi_severity f = SeverityCritical) fs)"
  "bk_warn (foldl add_to_bucket b fs) =
     bk_warn b @ map to_finding_view (filter (\<lambda>f. fi_severity f = SeverityWarn) fs)"
  "bk_info (foldl add_to_bucket b fs) =
     bk_info b @ map to_finding_view (filter (\<lambda>f. fi_severity f \<noteq> SeverityCritical \<and> fi_severity f \<noteq> SeverityWarn) fs)"
  by (induction fs arbitrary: b) (simp_all add: add_to_bucket_def)

lemma bucket_sets:
  "bk_critical (bucket_findings fs) = map to_finding_view (filter (\<lambda>f. fi_severity f = SeverityCritical) fs)"
  "bk_warn (bucket_findings fs) = map to_finding_view (filter (\<lambda>f. fi_severity f = SeverityWarn) fs)"
  "bk_info (bucket_findings fs) =
     map to_finding_view (filter (\<lambda>f. fi_severity f \<noteq> SeverityCritical \<and> fi_severity f \<noteq> SeverityWarn) fs)"
  by (simp_all add: bucket_findings_def bucket_fold)

lemma sublist_concat_map: "x \<in> set xs \<Longrightarrow> sublist (f x) (concat (map f xs))"
  by (induction xs) (auto intro: sublist_appendI sublist_append_leftI sublist_append_rightI simp: sublist_append)

lemma finding_in_section: "v \<in> set vs \<Longrightarrow> sublist (finding_lines v) (finding_section title vs)"
  using sublist_concat_map [of v vs finding_lines]
  by (auto simp: finding_section_def sublist_append)

lemma finding_in_sections:
  assumes "f \<in> set fs"
  shows "sublist (finding_lines (to_finding_view f)) (severity_sections fs)"
proof -
  let ?v = "to_finding_view f"
  have "?v \<in> set (bk_critical (bucket_findings fs)) \<or> ?v \<in> set (bk_warn (bucket_findings fs)) \<or>
      ?v \<in> set (bk_info (bucket_findings fs))"
    using assms by (auto simp: bucket_sets)
  then show ?thesis
    unfolding severity_sections_def Let_def
    by (auto simp: sublist_append dest: finding_in_section)
qed

lemma finding_in_digest: "f \<in> set (di_findings i) \<Longrightarrow> sublist (finding_lines (to_finding_view f)) (render_digest i)"
  using finding_in_sections [of f "di_findings i"] by (simp add: render_digest_def sublist_append)

text \<open>The line of a finding row in a mail.\<close>

definition row_line :: "finding_row \<Rightarrow> string" where
  "row_line r = ''- ['' @ fr_check_id r @ ''] '' @ fr_summary r"

lemma sections_working:
  assumes "working s"
  shows "\<exists>peer stale. build_peer_section a now s = (Inr (peer, stale), s)"
proof -
  have w: "st_faults (sy_store s) = []" using assms by (simp add: working_def)
  show ?thesis
    by (simp add: build_peer_section_def abind_def on_store_def last_peer_message_at_def latest_report_def
        open_findings_def squery_no_fault w aret_def Let_def split: option.split)
qed

lemma send_digest_working:
  assumes "working s" "ag_sender a"
  shows "\<exists>own peer stale rems pending. send_digest a z c s =
    deliver_digest a c (digest_of a z (dc_now c) own
      (map scan_stored_finding (sort_key (\<lambda>r. (- sql_severity (fr_severity r), fr_check_id r, fr_entity_key r))
        (filter (\<lambda>r. fr_node r = ag_node a \<and> active r) (db_findings (st_db (sy_store s)))))) peer stale rems pending) s"
proof -
  have w: "st_faults (sy_store s) = []" using assms by (simp add: working_def)
  obtain peer stale where p: "build_peer_section a (dc_peer c) s = (Inr (peer, stale), s)"
    using sections_working [OF assms(1)] by blast
  show ?thesis
    using assms(2)
    by (simp add: send_digest_def abind_def on_store_def latest_report_def open_findings_def p
        recent_remediations_def pending_decisions_def squery_no_fault w Let_def) blast
qed


lemma resolve_email_fresh:
  "i \<notin> er_id ` set rows \<Longrightarrow> resolve_email i st t msg (rows @ [r]) =
     rows @ (if er_id r = i then [r\<lparr>er_status := st, er_sent_at := Some (format_time t), er_error := msg\<rparr>] else [r])"
  by (auto simp: resolve_email_def intro!: map_idI)

definition digest_row :: "agent \<Rightarrow> digest_clock \<Rightarrow> digest_input \<Rightarrow> email_row list \<Rightarrow> int result \<Rightarrow> email_row" where
  "digest_row a c i rows answer =
     (new_email_row (next_id er_id rows) (ec_to (cfg_email (ag_cfg a))) (digest_subject i) (render_digest i) (dc_now c))
       \<lparr>er_status := (if isl answer then ''failed'' else ''sent''), er_sent_at := Some (format_time (dc_marked c)),
        er_error := (case answer of Inl e \<Rightarrow> err_msg e | Inr _ \<Rightarrow> '''')\<rparr>"

abbreviation digest_mail :: "agent \<Rightarrow> digest_input \<Rightarrow> action" where
  "digest_mail a i \<equiv> SendMail (ec_to (cfg_email (ag_cfg a))) (digest_subject i) (render_digest i)"

abbreviation emails_of :: "sys \<Rightarrow> email_row list" where
  "emails_of s \<equiv> db_emails (st_db (sy_store s))"

lemma deliver_working:
  fixes a :: agent
  assumes "working s"
  defines "answer \<equiv> \<lambda>i. w_answer (sy_world s) (calls s) (digest_mail a i)"
  shows "emails_of (snd (deliver_digest a c i s)) = emails_of s @ [digest_row a c i (emails_of s) (answer i)]"
    "calls (snd (deliver_digest a c i s)) = calls s @ [digest_mail a i]"
    "isl (fst (deliver_digest a c i s)) = isl (answer i)"
proof -
  have w: "st_faults (sy_store s) = []" using assms(1) by (simp add: working_def)
  have fresh: "next_id er_id (emails_of s) \<notin> er_id ` set (emails_of s)" by (rule next_id_fresh)
  have "emails_of (snd (deliver_digest a c i s)) = emails_of s @ [digest_row a c i (emails_of s) (answer i)] \<and>
    calls (snd (deliver_digest a c i s)) = calls s @ [digest_mail a i] \<and>
    isl (fst (deliver_digest a c i s)) = isl (answer i)"
  proof (cases "answer i")
    case (Inl e)
    with w fresh show ?thesis
      by (simp add: deliver_digest_def abind_def on_store_def enqueue_email_def supdate_no_fault Let_def call_def
          perform_def aret_def mark_email_failed_def update_email_def sbind_def resolve_email_fresh new_email_row_def
          digest_row_def answer_def calls_def sret_def sfail_def)
  next
    case (Inr k)
    with w fresh show ?thesis
      by (simp add: deliver_digest_def abind_def on_store_def enqueue_email_def supdate_no_fault Let_def call_def
          perform_def aret_def mark_email_sent_def update_email_def sbind_def resolve_email_fresh new_email_row_def
          digest_row_def answer_def calls_def sret_def sfail_def)
  qed
  then show "emails_of (snd (deliver_digest a c i s)) = emails_of s @ [digest_row a c i (emails_of s) (answer i)]"
    "calls (snd (deliver_digest a c i s)) = calls s @ [digest_mail a i]"
    "isl (fst (deliver_digest a c i s)) = isl (answer i)" by simp_all
qed

lemma digest_of_findings: "di_findings (digest_of a z now own sfs peer stale rems pending) = to_findings sfs"
  by (simp add: digest_of_def build_digest_def with_staleness_def with_cleanup_plans_def with_pending_decisions_def)

lemma row_in_digest:
  assumes "r \<in> set rows"
  shows "sublist (row_line r) (render_digest (digest_of a z now own (map scan_stored_finding (sort_key k rows)) peer stale rems pending))"
proof -
  let ?f = "sf_finding (scan_stored_finding r)"
  let ?i = "digest_of a z now own (map scan_stored_finding (sort_key k rows)) peer stale rems pending"
  have "?f \<in> set (di_findings ?i)" using assms by (simp add: digest_of_findings to_findings_def)
  then have "sublist (finding_lines (to_finding_view ?f)) (render_digest ?i)" by (rule finding_in_digest)
  moreover have "prefix (row_line r) (finding_lines (to_finding_view ?f))"
    by (simp add: finding_lines_def row_line_def line_def to_finding_view_def scan_stored_finding_def prefix_def)
  ultimately show ?thesis using prefix_imp_sublist sublist_order.order.trans by blast
qed

lemma digest_mails:
  assumes "working s" "ag_sender a" "send_digest a z c s = (r, s')"
  shows "\<exists>i. calls s' = calls s @ [digest_mail a i]"
proof -
  obtain i where "send_digest a z c s = deliver_digest a c i s" using send_digest_working [OF assms(1,2), of z c] by blast
  then have "s' = snd (deliver_digest a c i s)" using assms(3) by (cases "deliver_digest a c i s") simp
  then show ?thesis using deliver_working(2) [OF assms(1)] by blast
qed

text \<open>C11: The digest that is recorded is the digest that is sent: on a working store one row is added to
  the outbox and one mail handed to the sender, with the same recipient, subject and text; the row
  says sent or failed as the sender answered, with its error, and the result is an error exactly then;
  and the text names every finding of this node that is open or snoozed.\<close>

theorem digest_delivery:
  assumes "working s" "ag_sender a" "send_digest a z c s = (r, s')"
  shows "\<exists>i. emails_of s' = emails_of s @ [digest_row a c i (emails_of s) (w_answer (sy_world s) (calls s) (digest_mail a i))] \<and>
    calls s' = calls s @ [digest_mail a i] \<and>
    isl r = isl (w_answer (sy_world s) (calls s) (digest_mail a i)) \<and>
    (\<forall>row \<in> set (db_findings (st_db (sy_store s))). fr_node row = ag_node a \<longrightarrow> active row \<longrightarrow>
       sublist (row_line row) (render_digest i))"
proof -
  let ?rows = "filter (\<lambda>r. fr_node r = ag_node a \<and> active r) (db_findings (st_db (sy_store s)))"
  let ?key = "\<lambda>r. (- sql_severity (fr_severity r), fr_check_id r, fr_entity_key r)"
  obtain own peer stale rems pending where i: "send_digest a z c s =
      deliver_digest a c (digest_of a z (dc_now c) own (map scan_stored_finding (sort_key ?key ?rows)) peer stale rems pending) s"
    using send_digest_working [OF assms(1,2), of z c] by blast
  let ?i = "digest_of a z (dc_now c) own (map scan_stored_finding (sort_key ?key ?rows)) peer stale rems pending"
  have "deliver_digest a c ?i s = (r, s')" by (rule trans [OF i [symmetric] assms(3)])
  then have r: "r = fst (deliver_digest a c ?i s)" "s' = snd (deliver_digest a c ?i s)" by simp_all
  have "sublist (row_line row) (render_digest ?i)"
    if "row \<in> set (db_findings (st_db (sy_store s)))" "fr_node row = ag_node a" "active row" for row
    using that by (intro row_in_digest) simp
  then show ?thesis unfolding r using deliver_working [OF assms(1)] by blast
qed


section \<open>Concrete instances\<close>

theorem digest_delivery_witness:
  "\<exists>i r s'. send_digest sample_agent zone_utc \<lparr>dc_peer = 0, dc_now = 0, dc_marked = 0\<rparr> blank_sys = (r, s') \<and>
     calls s' = [digest_mail sample_agent i] \<and> \<not> isl r"
proof -
  have w: "working blank_sys" by (simp add: working_def blank_sys_def)
  obtain r s' where d: "send_digest sample_agent zone_utc \<lparr>dc_peer = 0, dc_now = 0, dc_marked = 0\<rparr> blank_sys = (r, s')"
    by fastforce
  have "ag_sender sample_agent" by (simp add: sample_agent_def)
  from digest_delivery [OF w this d] d show ?thesis by (auto simp: blank_sys_def calls_def)
qed

definition peer_finding :: finding where
  "peer_finding = \<lparr>fi_check_id = ''disk_usage'', fi_node = NodePi, fi_entity_key = ''fs:/'', fi_severity = SeverityWarn,
     fi_tier = TierCorrect, fi_summary = ''full'', fi_detail = '''', fi_data = [], fi_first_seen = 0, fi_last_seen = 0\<rparr>"

definition peer_envelope :: report_envelope where
  "peer_envelope = \<lparr>ev_node = NodeNAS, ev_sent_at = 0, ev_version = ''v1'',
     ev_report = (blank_report NodeNAS 0)\<lparr>rp_findings := [peer_finding]\<rparr>\<rparr>"

lemma sample_receive: "\<exists>j s'. receive_report sample_agent 0 peer_envelope blank_sys = (Inr j, s')"
proof -
  have "st_faults (sy_store blank_sys) = []" by (simp add: blank_sys_def)
  from save_report_total [OF this, of "(ev_report peer_envelope)\<lparr>rp_node := NodeNAS\<rparr>"]
  obtain j sm st where sv: "save_report ((ev_report peer_envelope)\<lparr>rp_node := NodeNAS\<rparr>) (sy_store blank_sys) = (Inr (j, sm), st)"
    "st_faults st = []"
    by (auto simp: peer_envelope_def blank_report_def peer_finding_def encodable_def)
  have node: "ag_node sample_agent = NodePi" by (simp add: sample_agent_def)
  have m: "\<exists>i st2. save_peer_message ''in'' ''report'' NodeNAS (envelope_payload peer_envelope) 0 st = (Inr i, st2)"
    using sv(2) by (simp add: save_peer_message_def valid_peer_directions_def valid_peer_kinds_def supdate_no_fault Let_def)
  have "ev_node peer_envelope = NodeNAS" by (simp add: peer_envelope_def)
  with m show ?thesis
    by (auto simp: receive_report_def node abind_def on_store_def sv record_inbound_def aret_def Let_def)
qed

theorem peer_report_and_own_findings_witness:
  "\<exists>s' r. snd (receive_report sample_agent 0 peer_envelope blank_sys) = s' \<and>
     tracked (st_db (sy_store s')) (NodePi, ''disk_usage'', ''fs:/'') = Some r"
proof -
  obtain j s' where ok: "receive_report sample_agent 0 peer_envelope blank_sys = (Inr j, s')" using sample_receive by blast
  have "peer_finding \<in> set (rp_findings (ev_report peer_envelope))" by (simp add: peer_envelope_def)
  with peer_report_and_own_findings [OF ok, of peer_finding] ok show ?thesis
    by (auto simp: sample_agent_def peer_finding_def)
qed

theorem plan_reaches_the_digest_witness:
  "\<exists>p row. db_remediations (st_db (sy_store (snd (plan_one_daily_cleanup sample_agent (sample_deps defaults) 0 p blank_sys)))) =
     [row] \<and> mr_dry_run row"
proof -
  let ?plan = "\<lparr>pn_kind = ''k'', pn_node = NodePi, pn_items = [], pn_bytes = 0\<rparr>"
  let ?p = "\<lparr>pl_kind = ''k'', pl_nodes = [NodePi], pl_plan = (\<lambda>_. Inr ?plan)\<rparr>"
  have "working blank_sys" by (simp add: working_def blank_sys_def)
  then show ?thesis
    using plan_reaches_the_digest [of ?p "sample_deps defaults" ?plan blank_sys sample_agent 0]
    by (auto simp: int64_def min_int64_def max_int64_def blank_sys_def empty_db_def)
qed

theorem disabled_daemon_only_observes_witness:
  "\<exists>s' as. daemon_run sample_agent blank_sys s' \<and> calls s' = calls blank_sys @ as \<and> list_all observing as \<and> as \<noteq> []"
proof -
  let ?c = "\<lparr>dc_peer = 0, dc_now = 0, dc_marked = 0\<rparr>"
  obtain r s' where d: "send_digest sample_agent zone_utc ?c blank_sys = (r, s')" by fastforce
  have run: "daemon_run sample_agent blank_sys s'"
    by (rule daemon_run.active_step [OF daemon_step.digest [OF d] daemon_run.idle])
  have "\<not> cfg_actions_enabled (ag_cfg sample_agent)" by (simp add: sample_agent_def defaults_def)
  from disabled_daemon_only_observes [OF run this] run digest_mails [OF _ _ d] show ?thesis
    by (auto simp: sample_agent_def working_def blank_sys_def)
qed

theorem daemon_keeps_database_witness:
  "\<exists>s'. snd (on_store (create_decision ''qbit:x'' ''delete'' 0) blank_sys) = s' \<and> db_ok (st_db (sy_store s'))"
proof -
  obtain i s' where d: "on_store (create_decision ''qbit:x'' ''delete'' 0) blank_sys = (i, s')" by fastforce
  have run: "daemon_run sample_agent blank_sys s'"
    by (rule daemon_run.active_step [OF daemon_step.decided [OF d] daemon_run.idle])
  have "db_ok (st_db (sy_store blank_sys))" by (simp add: blank_sys_def db_ok_empty)
  from daemon_keeps_database [OF run this] d show ?thesis by simp
qed

end
