(* ===== verification/Web_Laws.thy ===== *)
theory Web_Laws
  imports Web Exchange_Laws
begin

text \<open>
  What the web interface guarantees: who can change anything through it, for how long a login lasts, and
  what a confirmed decision leaves behind.
\<close>

section \<open>Requests that change nothing\<close>

definition untouched :: "sys \<Rightarrow> sys \<Rightarrow> bool" where
  "untouched s s' \<longleftrightarrow> st_db (sy_store s') = st_db (sy_store s) \<and> calls s' = calls s"

definition reads :: "'a act \<Rightarrow> bool" where
  "reads m \<longleftrightarrow> (\<forall>s. untouched s (snd (m s)))"

lemma reads_aret: "reads (aret x)"
  by (simp add: reads_def untouched_def aret_def)

lemma reads_abind: "reads m \<Longrightarrow> (\<And>x. reads (f x)) \<Longrightarrow> reads (abind m f)"
  unfolding reads_def untouched_def abind_def by (metis (no_types, lifting) case_prod_beta)

lemma reads_query: "reads (on_store (squery p q))"
  unfolding reads_def untouched_def
proof (intro allI conjI)
  fix s
  show "calls (snd (on_store (squery p q) s)) = calls s" by (rule calls_on_store)
  show "st_db (sy_store (snd (on_store (squery p q) s))) = st_db (sy_store s)"
    by (auto simp: on_store_def dest: squery_db split: prod.split)
qed

lemma reads_queries:
  "reads (on_store (latest_report n))" "reads (on_store (open_findings n))"
  "reads (on_store (last_peer_message_at n k))" "reads (on_store (recent_remediations t))"
  "reads (on_store pending_decisions)" "reads (on_store (finding_history n t l))"
  unfolding latest_report_def open_findings_def last_peer_message_at_def recent_remediations_def pending_decisions_def
    finding_history_def
  by (rule reads_query)+

lemma reads_case_sum: "(\<And>e. reads (f e)) \<Longrightarrow> (\<And>x. reads (g x)) \<Longrightarrow> reads (case_sum f g r)"
  by (cases r) auto

lemma reads_collect: "(\<And>x. reads (f x)) \<Longrightarrow> reads (collect f xs)"
  by (induction xs) (auto intro!: reads_aret reads_abind reads_case_sum)

lemmas reads_parts = reads_aret reads_abind reads_case_sum reads_queries reads_collect

lemma reads_node_view: "reads (build_node_view n)"
  unfolding build_node_view_def by (intro reads_parts)

lemma reads_candidates: "reads (staleness_candidates sv)"
  unfolding staleness_candidates_def by (intro reads_parts)

text \<open>A page neither changes the node nor the sessions.\<close>

definition viewing :: "'a web \<Rightarrow> bool" where
  "viewing m \<longleftrightarrow> (\<forall>s. untouched (wb_sys s) (wb_sys (snd (m s))) \<and> wb_sessions (snd (m s)) = wb_sessions s)"

lemma untouched_refl [simp]: "untouched s s"
  by (simp add: untouched_def)

lemma viewing_wret: "viewing (wret x)"
  by (simp add: viewing_def wret_def)

lemma viewing_wbind: "viewing m \<Longrightarrow> (\<And>x. viewing (f x)) \<Longrightarrow> viewing (wbind m f)"
  unfolding viewing_def untouched_def wbind_def by (metis (no_types, lifting) case_prod_beta)

lemma viewing_on_sys: "reads m \<Longrightarrow> viewing (on_sys m)"
  by (simp add: viewing_def on_sys_def reads_def case_prod_beta)

lemma viewing_case_sum: "(\<And>e. viewing (f e)) \<Longrightarrow> (\<And>x. viewing (g x)) \<Longrightarrow> viewing (case_sum f g r)"
  by (cases r) auto

lemmas viewing_parts = viewing_wret viewing_wbind viewing_on_sys viewing_case_sum

lemma viewing_pages:
  "viewing (handle_dashboard sv tp c r)" "viewing (handle_decisions_get sv tp en c r)"
  "viewing (handle_history sv tp en c r)"
  unfolding handle_dashboard_def handle_decisions_get_def handle_history_def Let_def
  by (intro viewing_parts reads_parts reads_node_view reads_candidates)+

section \<open>Runs of requests\<close>

text \<open>
  The requests the process has served, with whatever the rest of the daemon does to the node in
  between; a process starts without sessions.
\<close>

inductive web_run ::
  "web_server \<Rightarrow> templates \<Rightarrow> (int \<Rightarrow> decision result act) \<Rightarrow> (web_env \<times> web_request) list \<Rightarrow> web_state \<Rightarrow> bool"
  for sv tp runner where
  started: "web_run sv tp runner [] \<lparr>wb_sys = sy, wb_sessions = Map.empty\<rparr>"
| served: "web_run sv tp runner evs s \<Longrightarrow> web_serve sv tp runner en r s = (resp, s') \<Longrightarrow>
     web_run sv tp runner (evs @ [(en, r)]) s'"
| elsewhere: "web_run sv tp runner evs s \<Longrightarrow> web_run sv tp runner evs (s\<lparr>wb_sys := sy\<rparr>)"

inductive_cases web_run_servedE: "web_run sv tp runner (evs @ [e]) s"

definition routed :: "web_server \<Rightarrow> web_request \<Rightarrow> web_target" where
  "routed sv r = web_route sv (wr_method r) (wr_path r)"

text \<open>The request logs in as session \<open>i\<close> until \<open>expires\<close>; the request ends session \<open>i\<close>.\<close>

definition logs_in :: "web_server \<Rightarrow> web_env \<Rightarrow> web_request \<Rightarrow> string \<Rightarrow> time \<Rightarrow> bool" where
  "logs_in sv en r i expires \<longleftrightarrow> routed sv r = LoginRoute \<and> wr_token r = ws_token sv \<and> wr_token r \<noteq> '''' \<and>
     (\<exists>raw. en_random en = Inr raw \<and> i = hex_string raw) \<and> expires = t_add (en_now en) session_ttl"

definition logs_out :: "web_server \<Rightarrow> web_request \<Rightarrow> string \<Rightarrow> bool" where
  "logs_out sv r i \<longleftrightarrow> routed sv r = LogoutRoute \<and> wr_cookie r = Some i \<and> i \<noteq> '''' \<and>
     (\<exists>form. wr_form r = Some form \<and> form_value form ''csrf'' = csrf_token sv i)"

text \<open>The request carries a live session, its CSRF token and a decision to record.\<close>

definition confirmed :: "web_server \<Rightarrow> web_env \<Rightarrow> web_request \<Rightarrow> (string \<Rightarrow> time option) \<Rightarrow> string \<Rightarrow> time \<Rightarrow> (string \<times> string) list \<Rightarrow> bool" where
  "confirmed sv en r sessions c expires form \<longleftrightarrow> routed sv r = DecideRoute \<and> wr_cookie r = Some c \<and> c \<noteq> '''' \<and>
     sessions c = Some expires \<and> en_checked en \<le> expires \<and> wr_form r = Some form \<and>
     form_value form ''csrf'' = csrf_token sv c"

lemma require_session_cases:
  assumes "require_session sv en inner r s = (resp, s')"
  obtains (refused) "wb_sys s' = wb_sys s" "wb_sessions s' \<subseteq>\<^sub>m wb_sessions s"
      "\<And>c. wr_cookie r = Some c \<Longrightarrow> c \<noteq> '''' \<Longrightarrow> wb_sessions s' c = None"
    | (live) c expires where "wr_cookie r = Some c" "c \<noteq> ''''" "wb_sessions s c = Some expires" "en_checked en \<le> expires"
      "inner c r s = (resp, s')"
proof (cases "wr_cookie r")
  case None
  with assms refused show thesis by (simp add: require_session_def wret_def Let_def)
next
  case (Some c)
  show thesis
  proof (cases "c = '''' \<or> wb_sessions s c = None")
    case True
    with assms Some show thesis
      by (intro refused) (auto simp: require_session_def wret_def wbind_def valid_session_def Let_def split: if_splits)
  next
    case False
    then obtain e where e: "wb_sessions s c = Some e" "c \<noteq> ''''" by auto
    with assms Some refused live [of c e] show thesis
      by (cases "e < en_checked en")
        (auto simp: require_session_def wret_def wbind_def valid_session_def delete_session_def map_le_def Let_def)
  qed
qed

text \<open>What one request does to the node and to the sessions.\<close>

definition effect_of :: "web_server \<Rightarrow> web_env \<Rightarrow> web_request \<Rightarrow> web_state \<Rightarrow> web_state \<Rightarrow> bool" where
  "effect_of sv en r s s' \<longleftrightarrow>
     (untouched (wb_sys s) (wb_sys s') \<or> (\<exists>c expires form. confirmed sv en r (wb_sessions s) c expires form)) \<and>
     (\<forall>i e. wb_sessions s' i = Some e \<longrightarrow> \<not> logs_out sv r i \<and> (wb_sessions s i = Some e \<or> logs_in sv en r i e))"

lemma viewing_effect:
  "viewing (inner c r) \<Longrightarrow> \<not> logs_out sv r c \<Longrightarrow> inner c r s = (resp, s') \<Longrightarrow>
     untouched (wb_sys s) (wb_sys s') \<and> wb_sessions s' = wb_sessions s"
  unfolding viewing_def by (metis snd_conv)

lemma calm_effect:
  assumes "routed sv r \<noteq> LogoutRoute" "untouched (wb_sys s) (wb_sys s')" "wb_sessions s' \<subseteq>\<^sub>m wb_sessions s"
  shows "effect_of sv en r s s'"
  using assms by (fastforce simp: effect_of_def logs_out_def map_le_def dom_def)

lemma page_effect:
  assumes "routed sv r \<noteq> LogoutRoute" "\<And>c. viewing (inner c r)" "require_session sv en inner r s = (resp, s')"
  shows "effect_of sv en r s s'"
  using assms(3)
proof (cases rule: require_session_cases)
  case refused
  then show ?thesis using assms(1) by (intro calm_effect) simp_all
next
  case (live c e)
  then have "untouched (wb_sys s) (wb_sys s') \<and> wb_sessions s' = wb_sessions s"
    using assms(2) [of c] unfolding viewing_def by (metis snd_conv)
  then show ?thesis using assms(1) by (intro calm_effect) simp_all
qed

lemma login_effect:
  assumes "routed sv r = LoginRoute" "handle_login sv tp en r s = (resp, s')"
  shows "effect_of sv en r s s'"
  using assms
  by (auto simp: handle_login_def wret_def wbind_def create_session_def Let_def effect_of_def logs_out_def logs_in_def
      split: if_splits sum.splits)

lemma logout_effect:
  assumes "require_session sv en (handle_logout sv) r s = (resp, s')"
  shows "effect_of sv en r s s'"
  using assms
proof (cases rule: require_session_cases)
  case refused
  then show ?thesis by (fastforce simp: effect_of_def logs_out_def map_le_def dom_def)
next
  case (live c e)
  then show ?thesis
    by (auto simp: handle_logout_def wret_def wbind_def delete_session_def effect_of_def logs_out_def valid_csrf_def
        split: option.splits if_splits)
qed

lemma decide_effect:
  assumes "routed sv r = DecideRoute" "require_session sv en (handle_decisions_post sv runner en) r s = (resp, s')"
  shows "effect_of sv en r s s'"
  using assms(2)
proof (cases rule: require_session_cases)
  case refused
  then show ?thesis using assms(1) by (intro calm_effect) simp_all
next
  case (live c e)
  have same: "wb_sessions s' = wb_sessions s"
    using live(5)
    by (auto simp: handle_decisions_post_def wret_def wbind_def on_sys_def Let_def
        split: option.splits if_splits sum.splits prod.splits)
  show ?thesis
  proof (cases "\<exists>form. wr_form r = Some form \<and> form_value form ''csrf'' = csrf_token sv c")
    case True
    with live(1-4) assms(1) same show ?thesis
      by (fastforce simp: effect_of_def confirmed_def logs_out_def)
  next
    case False
    then have "s' = s" using live(5)
      by (auto simp: handle_decisions_post_def wret_def Let_def valid_csrf_def split: option.splits)
    then show ?thesis using assms(1) by (intro calm_effect) simp_all
  qed
qed

lemma still_effect: "web_route sv (wr_method r) (wr_path r) \<noteq> LogoutRoute \<Longrightarrow> effect_of sv en r t t"
  by (simp add: effect_of_def logs_out_def routed_def)

lemma serve_effect:
  assumes "web_serve sv tp runner en r s = (resp, s')"
  shows "effect_of sv en r s s'"
  using assms
  by (cases "routed sv r")
    (auto simp: web_serve_def routed_def wret_def intro: page_effect [unfolded routed_def] login_effect [unfolded routed_def]
      logout_effect decide_effect [unfolded routed_def] viewing_pages still_effect)

lemma issued_sessions:
  "web_run sv tp runner evs s \<Longrightarrow> wb_sessions s i = Some e \<Longrightarrow>
     \<exists>before en r after. evs = before @ (en, r) # after \<and> logs_in sv en r i e \<and> (\<forall>(en', r') \<in> set after. \<not> logs_out sv r' i)"
proof (induction rule: web_run.induct)
  case (served evs s en r resp s')
  from serve_effect [OF served.hyps(2)] served.prems
  have eff: "\<not> logs_out sv r i" "wb_sessions s i = Some e \<or> logs_in sv en r i e" by (auto simp: effect_of_def)
  from eff(2) show ?case
  proof
    assume "wb_sessions s i = Some e"
    from served.IH [OF this] obtain before en0 r0 after where
      "evs = before @ (en0, r0) # after" "logs_in sv en0 r0 i e" "\<forall>(en', r') \<in> set after. \<not> logs_out sv r' i" by blast
    with eff(1) show ?thesis
      by (intro exI [of _ before] exI [of _ en0] exI [of _ r0] exI [of _ "after @ [(en, r)]"]) auto
  next
    assume "logs_in sv en r i e"
    then show ?thesis by (intro exI [of _ evs] exI [of _ en] exI [of _ r] exI [of _ "[]"]) simp
  qed
qed auto

text \<open>C17: Nothing is changed through the web interface without a login: whenever a request, after any run of
  requests, changes the database or makes an external call, it is a decision form that carries the CSRF
  token of its session, and that session was opened by an earlier login with the configured token, at
  most thirty days before, and has not been logged out since.\<close>

theorem changes_need_a_login:
  assumes "web_run sv tp runner evs s" "web_serve sv tp runner en r s = (resp, s')"
    "st_db (sy_store (wb_sys s')) \<noteq> st_db (sy_store (wb_sys s)) \<or> calls (wb_sys s') \<noteq> calls (wb_sys s)"
  shows "\<exists>c form before en0 r0 after. routed sv r = DecideRoute \<and> wr_cookie r = Some c \<and>
    wr_form r = Some form \<and> form_value form ''csrf'' = csrf_token sv c \<and>
    evs = before @ (en0, r0) # after \<and> routed sv r0 = LoginRoute \<and> wr_token r0 = ws_token sv \<and>
    (\<exists>raw. en_random en0 = Inr raw \<and> c = hex_string raw) \<and> en_checked en \<le> t_add (en_now en0) session_ttl \<and>
    (\<forall>(en', r') \<in> set after. \<not> logs_out sv r' c)"
proof -
  from serve_effect [OF assms(2)] assms(3)
  obtain c expires form where c: "confirmed sv en r (wb_sessions s) c expires form"
    by (auto simp: effect_of_def untouched_def)
  then have "wb_sessions s c = Some expires" by (simp add: confirmed_def)
  from issued_sessions [OF assms(1) this] c show ?thesis
    unfolding confirmed_def logs_in_def by blast
qed

section \<open>Confirmed decisions\<close>

lemma confirmed_post:
  assumes "confirmed sv en r (wb_sessions s) c e form"
  shows "web_serve sv tp runner en r s = handle_decisions_post sv runner en c r s"
  using assms
  by (auto simp: confirmed_def routed_def web_serve_def require_session_def wbind_def valid_session_def Let_def)

lemma create_working:
  assumes "working s"
  defines "i \<equiv> next_id dr_id (decisions s)"
  obtains s1 where "on_store (create_decision key k t) s = (Inr i, s1)" "working s1" "sy_world s1 = sy_world s"
    "decisions s1 = decisions s @ [new_decision_row i key k t]"
    "find (\<lambda>r. dr_id r = i) (decisions s1) = Some (new_decision_row i key k t)"
proof -
  let ?s1 = "snd (on_store (create_decision key k t) s)"
  have c: "on_store (create_decision key k t) s = (Inr i, ?s1)" "working ?s1" "sy_world ?s1 = sy_world s"
    "decisions ?s1 = decisions s @ [new_decision_row i key k t]"
    using assms(1) by (simp_all add: on_store_def create_decision_def supdate_no_fault working_def i_def Let_def)
  have "find (\<lambda>r. dr_id r = i) (decisions s) = None"
    using next_id_fresh [of dr_id "decisions s"] by (force simp: find_None_iff i_def)
  moreover have "find P (xs @ [y]) = (case find P xs of None \<Rightarrow> if P y then Some y else None | Some x \<Rightarrow> Some x)"
    for P and xs and y :: decision_row by (induction xs) auto
  ultimately have "find (\<lambda>r. dr_id r = i) (decisions ?s1) = Some (new_decision_row i key k t)"
    using c(4) by (simp add: new_decision_row_def)
  with c that show thesis by blast
qed

lemma blocked_error:
  assumes "working s" "find (\<lambda>r. dr_id r = i) (decisions s) = Some r"
    "final_status d (sy_world s) (dr_kind r) (dr_entity_key r) = ''blocked''"
  shows "\<exists>e. fst (execute_decision d i s) = Inl e \<and> errors_is e ErrDecisionActionsDisabled"
proof -
  have "dr_kind r = KindDelete" "\<not> cfg_actions_enabled (d_cfg (dd_deps d))"
    using assms(3) by (auto simp: final_status_def split: if_splits sum.splits)
  then have "execute_decision d i s = block_delete d (scan_decision_row r) (d_now (dd_deps d)) s"
    by (simp add: execute_loaded abind_def load_working [OF assms(1)] assms(2) run_loaded_def execute_delete_def Let_def scan_decision_row_def)
  then show ?thesis
    by (auto simp: block_delete_def abind_def aret_def err_decision_actions_disabled_def split: prod.split sum.split)
qed

lemma resolve_fresh:
  "dr_id r = i \<Longrightarrow> i \<notin> dr_id ` set rows \<Longrightarrow>
     resolve_decision i st t msg (rows @ [r]) = rows @ [r\<lparr>dr_status := st, dr_executed_at := Some (format_time t), dr_error := msg\<rparr>]"
  by (induction rows) (auto simp: resolve_decision_def)

text \<open>C19: A confirmed decision is recorded and settled at once: on a working store the form adds one row, for
  the title and kind it names and requested now, whose status is the one the execution ends with
  (blocked when actions are disabled and it is a delete); the browser is told that the decision was
  carried out exactly when the row is executed, and that it was blocked when it is.\<close>

theorem posted_decision_is_settled:
  assumes "confirmed sv en r (wb_sessions s) c e form" "working (wb_sys s)"
    "form_value form ''kind'' \<in> {KindKeep, KindDelete}" "entity_key_pattern (form_value form ''entity_key'')"
    "web_serve sv tp (execute_decision d) en r s = (resp, s')"
  shows "\<exists>st msg.
    st = final_status d (sy_world (wb_sys s)) (form_value form ''kind'') (form_value form ''entity_key'') \<and>
    decisions (wb_sys s') = decisions (wb_sys s) @
      [(new_decision_row (next_id dr_id (decisions (wb_sys s))) (form_value form ''entity_key'') (form_value form ''kind'') (en_now en))
         \<lparr>dr_status := st, dr_executed_at := Some (format_time (d_now (dd_deps d))), dr_error := msg\<rparr>] \<and>
    (resp = SeeOther (ws_base sv @ ''/decisions?flash=ok'') KeepCookie \<longleftrightarrow> st = ''executed'') \<and>
    (st = ''blocked'' \<longrightarrow> resp = SeeOther (ws_base sv @ ''/decisions?flash=blocked'') KeepCookie)"
proof -
  let ?key = "form_value form ''entity_key''" and ?kind = "form_value form ''kind''"
  let ?i = "next_id dr_id (decisions (wb_sys s))"
  let ?row = "new_decision_row ?i ?key ?kind (en_now en)"
  let ?st = "final_status d (sy_world (wb_sys s)) ?kind ?key"
  obtain s1 where s1: "on_store (create_decision ?key ?kind (en_now en)) (wb_sys s) = (Inr ?i, s1)" "working s1"
    "sy_world s1 = sy_world (wb_sys s)" "decisions s1 = decisions (wb_sys s) @ [?row]"
    "find (\<lambda>r. dr_id r = ?i) (decisions s1) = Some ?row" by (rule create_working [OF assms(2)])
  obtain res s2 where run: "execute_decision d ?i s1 = (res, s2)" by fastforce
  have row: "dr_kind ?row = ?kind" "dr_entity_key ?row = ?key" "dr_id ?row = ?i" by (simp_all add: new_decision_row_def)
  have "settles_at s1 ?i ?st (d_now (dd_deps d)) (execute_decision d ?i)"
    using settles_decision [OF s1(2,5), of d] s1(3) row by simp
  then obtain msg where m: "decisions s2 = resolve_decision ?i ?st (d_now (dd_deps d)) msg (decisions s1)"
    "isl res = (?st \<noteq> ''executed'')"
    using s1(2,4) run row(3) by (auto simp: settles_at_def)
  have dec: "decisions s2 = decisions (wb_sys s) @
      [?row\<lparr>dr_status := ?st, dr_executed_at := Some (format_time (d_now (dd_deps d))), dr_error := msg\<rparr>]"
    unfolding m(1) s1(4) by (rule resolve_fresh [OF row(3) next_id_fresh])
  have blocked: "\<exists>e. res = Inl e \<and> errors_is e ErrDecisionActionsDisabled" if "?st = ''blocked''"
    using blocked_error [OF s1(2,5), of d] that s1(3) row run by simp
  have csrf: "valid_csrf sv c (form_value form ''csrf'')" "wr_form r = Some form"
    using assms(1) by (simp_all add: confirmed_def valid_csrf_def)
  have "(resp, s') = ((case res of Inr _ \<Rightarrow> SeeOther (ws_base sv @ ''/decisions?flash=ok'') KeepCookie
      | Inl e \<Rightarrow> if errors_is e ErrDecisionActionsDisabled then SeeOther (ws_base sv @ ''/decisions?flash=blocked'') KeepCookie
                 else internal_server_error), s\<lparr>wb_sys := s2\<rparr>)"
    using assms(3,4,5) csrf s1(1) run
    by (auto simp: confirmed_post [OF assms(1)] handle_decisions_post_def wbind_def on_sys_def wret_def Let_def)
  then have "resp = (case res of Inr _ \<Rightarrow> SeeOther (ws_base sv @ ''/decisions?flash=ok'') KeepCookie
      | Inl e \<Rightarrow> if errors_is e ErrDecisionActionsDisabled then SeeOther (ws_base sv @ ''/decisions?flash=blocked'') KeepCookie
                 else internal_server_error)" "wb_sys s' = s2" by simp_all
  with dec m(2) blocked show ?thesis
    by (cases res) (auto simp: internal_server_error_def)
qed


section \<open>Keys from the form\<close>

lemma parse_digits_total: "list_all (\<lambda>c. char_digit c \<noteq> None) ds \<Longrightarrow> \<exists>n. parse_digits acc ds = Some n"
  by (induction ds arbitrary: acc) auto

lemma not_sign: "char_digit c \<noteq> None \<Longrightarrow> c \<noteq> CHR ''-'' \<and> c \<noteq> CHR ''+''"
  by (auto simp: char_digit_def)

text \<open>
  The pattern admits no sign and no other provider, but any number of digits: a key above the range of
  \<open>int64\<close> is recorded and then fails.
\<close>

theorem form_keys_are_executable:
  assumes "entity_key_pattern key"
  shows "\<exists>p ds n. key = p @ '':'' @ ds \<and> parse_nat ds = Some n \<and>
    (if int n \<le> max_int64 then parse_entity_key key = Inr \<lparr>er_provider = p, er_ident = int n\<rparr>
     else isl (parse_entity_key key))"
proof -
  obtain p ds where cut: "cut_at (CHR '':'') key = Some (p, ds)" "p = ''sonarr'' \<or> p = ''radarr''" "ds \<noteq> ''''"
    "list_all (\<lambda>c. char_digit c \<noteq> None) ds"
    using assms by (auto simp: entity_key_pattern_def split: option.splits)
  obtain n where n: "parse_nat ds = Some n"
    using parse_digits_total [OF cut(4), of 0] cut(3) by (auto simp: parse_nat_def)
  obtain c cs where ds: "ds = c # cs" using cut(3) by (cases ds) auto
  have "min_int64 \<le> int n" by (simp add: min_int64_def)
  moreover have "c \<noteq> CHR ''-''" "c \<noteq> CHR ''+''" using cut(4) ds not_sign by auto
  ultimately have "parse_int64 ds = (if int n \<le> max_int64 then Some (int n) else None)"
    using n by (simp add: parse_int64_def ds Let_def)
  moreover have "key = p @ '':'' @ ds" using cut(1) by (simp add: cut_at_Some)
  ultimately show ?thesis
    using n cut(1,2) by (auto simp: parse_entity_key_def parse_int_def)
qed

section \<open>Concrete instances\<close>

definition sample_web :: web_server where
  "sample_web = \<lparr>ws_cfg = defaults, ws_base = ''/healarr'', ws_token = ''secret'', ws_csrf_key = ''k''\<rparr>"

definition sample_env :: web_env where
  "sample_env = \<lparr>en_checked = 0, en_now = 0, en_cookie = 0, en_random = Inr ''a''\<rparr>"

definition login_request :: web_request where
  "login_request = \<lparr>wr_method = ''GET'', wr_path = ''/healarr/login'', wr_cookie = None, wr_token = ''secret'',
     wr_flash = '''', wr_form = None\<rparr>"

definition decide_request :: web_request where
  "decide_request = \<lparr>wr_method = ''POST'', wr_path = ''/healarr/decisions'', wr_cookie = Some (hex_string ''a''), wr_token = '''',
     wr_flash = '''', wr_form = Some [(''csrf'', csrf_token sample_web (hex_string ''a'')), (''kind'', ''delete''),
       (''entity_key'', ''sonarr:7'')]\<rparr>"

definition logged_in :: web_state where
  "logged_in = \<lparr>wb_sys = blank_sys, wb_sessions = [hex_string ''a'' \<mapsto> t_add 0 session_ttl]\<rparr>"

lemma sample_routes: "routed sample_web login_request = LoginRoute" "routed sample_web decide_request = DecideRoute"
  by (simp_all add: routed_def web_route_def login_request_def decide_request_def sample_web_def Let_def has_prefix_def)

lemma sample_login: "web_run sample_web tp runner [(sample_env, login_request)] logged_in"
proof -
  let ?s = "\<lparr>wb_sys = blank_sys, wb_sessions = Map.empty\<rparr>"
  have "web_run sample_web tp runner [] ?s" by (rule web_run.started)
  moreover have "\<exists>resp. web_serve sample_web tp runner sample_env login_request ?s = (resp, logged_in)"
    using sample_routes(1)
    by (simp add: web_serve_def routed_def handle_login_def wbind_def wret_def create_session_def Let_def
        sample_env_def logged_in_def) (simp add: login_request_def sample_web_def)
  ultimately show ?thesis using web_run.served [of sample_web tp runner "[]" ?s] by fastforce
qed

lemma sample_confirmed:
  "confirmed sample_web sample_env decide_request (wb_sessions logged_in) (hex_string ''a'') (t_add 0 session_ttl)
     [(''csrf'', csrf_token sample_web (hex_string ''a'')), (''kind'', ''delete''), (''entity_key'', ''sonarr:7'')]"
  using sample_routes(2)
  by (simp add: confirmed_def logged_in_def form_value_def) (simp add: decide_request_def sample_env_def hex_string_def t_add_def session_ttl_def)

lemma sample_key: "entity_key_pattern ''sonarr:7''"
  by (simp add: entity_key_pattern_def char_digit_def)

theorem changes_need_a_login_witness:
  "\<exists>resp s'. web_serve sample_web (\<lambda>_. Inr '''') (\<lambda>_. aret (Inl (new_error ''busy''))) sample_env decide_request logged_in = (resp, s') \<and>
     decisions (wb_sys s') \<noteq> [] \<and> (\<exists>r0. wr_token r0 = ''secret'' \<and> (sample_env, r0) \<in> {(sample_env, login_request)})"
proof -
  let ?runner = "\<lambda>_ :: int. aret (Inl (new_error ''busy''))" and ?tp = "\<lambda>_ :: web_page. Inr ''''"
  obtain resp s' where w: "web_serve sample_web ?tp ?runner sample_env decide_request logged_in = (resp, s')" by fastforce
  have wk: "working (wb_sys logged_in)" by (simp add: logged_in_def working_def blank_sys_def)
  obtain s1 where s1: "on_store (create_decision ''sonarr:7'' ''delete'' 0) (wb_sys logged_in) = (Inr (next_id dr_id (decisions (wb_sys logged_in))), s1)"
    "decisions s1 = decisions (wb_sys logged_in) @ [new_decision_row (next_id dr_id (decisions (wb_sys logged_in))) ''sonarr:7'' ''delete'' 0]"
    using create_working [OF wk, of "''sonarr:7''" "''delete''" 0] by metis
  have "wb_sys s' = s1"
    using w [unfolded confirmed_post [OF sample_confirmed]] s1(1) sample_key
    by (auto simp: handle_decisions_post_def wbind_def on_sys_def wret_def decide_request_def form_value_def
        valid_csrf_def sample_env_def aret_def)
  moreover have "decisions (wb_sys logged_in) = []" by (simp add: logged_in_def blank_sys_def empty_db_def)
  ultimately have d: "decisions (wb_sys s') \<noteq> []" "st_db (sy_store (wb_sys s')) \<noteq> st_db (sy_store (wb_sys logged_in))"
    using s1(2) by auto
  from changes_need_a_login [OF sample_login w] d w show ?thesis
    by (fastforce simp: sample_web_def append_eq_Cons_conv Cons_eq_append_conv)
qed

theorem posted_decision_is_settled_witness:
  "\<exists>resp s' st. web_serve sample_web (\<lambda>_. Inr '''') (execute_decision sample_decider) sample_env decide_request logged_in = (resp, s') \<and>
     map dr_status (decisions (wb_sys s')) = [st]"
proof -
  have wk: "working (wb_sys logged_in)" by (simp add: logged_in_def working_def blank_sys_def)
  obtain resp s' where w: "web_serve sample_web (\<lambda>_. Inr '''') (execute_decision sample_decider) sample_env decide_request logged_in = (resp, s')"
    by fastforce
  have "decisions (wb_sys logged_in) = []" by (simp add: logged_in_def blank_sys_def empty_db_def)
  with posted_decision_is_settled [OF sample_confirmed wk _ _ w] w sample_key show ?thesis
    by (auto simp: form_value_def)
qed

end
