(* ===== verification/Httpx_Laws.thy ===== *)
theory Httpx_Laws
  imports Httpx
begin

text \<open>
  What the HTTP client guarantees: a query string is parsed back to the values it encodes, and no
  query value can be read off an error.
\<close>

section \<open>Escaping\<close>

lemma char_code: "c = d \<longleftrightarrow> (of_char c :: nat) = of_char d"
  by (metis of_char_eq_iff)

lemma unhex_upper_hex: "d < 16 \<Longrightarrow> unhex (upper_hex d) = Some d"
  by (simp add: unhex_def upper_hex_def Let_def)

lemma upper_hex_safe:
  assumes "d < 16"
  shows "query_safe (upper_hex d)"
  using assms by (simp add: query_safe_def upper_hex_def Let_def)

lemma safe_chars: "query_safe c \<Longrightarrow> c \<notin> set ''%&=;+ ''"
  by (auto simp: query_safe_def)

lemma nibbles: "(of_char c :: nat) div 16 < 16" "(of_char c :: nat) mod 16 < 16"
  using of_char_lt_256 [of c] by (auto simp: div_less_iff_less_mult)

lemma escape_char_cases:
  obtains (safe) "query_safe c" "escape_char c = [c]"
    | (blank) "c = CHR '' ''" "escape_char c = ''+''"
    | (hex) a b where "escape_char c = [CHR 0x25, a, b]" "query_safe a" "query_safe b"
        "unhex a = Some (of_char c div 16)" "unhex b = Some (of_char c mod 16)"
proof (cases "query_safe c \<or> c = CHR '' ''")
  case False
  then show thesis
    using hex nibbles [of c]
    by (simp add: escape_char_def percent_encode_def Let_def upper_hex_safe unhex_upper_hex)
qed (use safe blank in \<open>auto simp: escape_char_def query_safe_def\<close>)

lemma escape_facts: "set (escape_char c) \<inter> set ''&=;'' = {}" "escape_char c \<noteq> []"
  by (cases c rule: escape_char_cases; auto dest: safe_chars)+

lemma unescape_char:
  "query_unescape (escape_char c @ rest) = map_option ((#) c) (query_unescape rest)"
proof (cases c rule: escape_char_cases)
  case safe
  then have "c \<noteq> CHR 0x25" "c \<noteq> CHR ''+''" using safe_chars [OF safe(1)] by auto
  with safe show ?thesis by simp
next
  case (hex a b)
  have "16 * (of_char c div 16) + of_char c mod 16 = (of_char c :: nat)" by simp
  then have "char_of (16 * (of_char c div 16) + of_char c mod 16 :: nat) = c" by (simp only: char_of_char)
  with hex show ?thesis by simp
qed simp

lemma query_unescape_escape [simp]: "query_unescape (query_escape s) = Some s"
  by (induction s) (simp_all add: query_escape_def unescape_char)

lemma query_escape_chars:
  "CHR ''&'' \<notin> set (query_escape s)" "CHR ''='' \<notin> set (query_escape s)" "CHR '';'' \<notin> set (query_escape s)"
  using escape_facts(1) by (auto simp: query_escape_def)

lemma query_escape_Nil [simp]: "query_escape s = [] \<longleftrightarrow> s = []"
  using escape_facts(2) by (cases s) (auto simp: query_escape_def)

section \<open>Query strings\<close>

lemma parse_pair_text: "parse_pair (pair_text p) = Some p"
proof -
  obtain k v where p: "p = (k, v)" by (cases p)
  have "cut_at (CHR ''='') (query_escape k @ CHR ''='' # query_escape v) = Some (query_escape k, query_escape v)"
    by (rule cut_at_append [OF query_escape_chars(2)])
  moreover have "CHR '';'' \<notin> set (query_escape k @ CHR ''='' # query_escape v)" using query_escape_chars(3) by auto
  ultimately show ?thesis by (simp add: parse_pair_def pair_text_def p)
qed

lemma pair_text_amp: "CHR ''&'' \<notin> set (pair_text p)"
  using query_escape_chars(1) by (auto simp: pair_text_def split: prod.split)

lemma split_join: "\<forall>t \<in> set ts. c \<notin> set t \<Longrightarrow> ts \<noteq> [] \<Longrightarrow> split_on c (join_with [c] ts) = ts"
proof (induction "[c]" ts rule: join_with.induct)
  case (2 x)
  then show ?case by (induction x) auto
next
  case (3 x y ys)
  have "split_on c (x @ c # s) = x # split_on c s" if "c \<notin> set x" for s
    using that by (induction x) (auto split: list.splits)
  with 3 show ?case by simp
qed simp

lemma pairs_of_parsed:
  "concat (map (\<lambda>t. opt_list (parse_pair t)) (split_on (CHR ''&'') (join_with ''&'' (map pair_text ps)))) = ps"
proof (cases "ps = []")
  case True
  then show ?thesis by (simp add: parse_pair_def)
next
  case False
  then have "split_on (CHR ''&'') (join_with ''&'' (map pair_text ps)) = map pair_text ps"
    using pair_text_amp by (intro split_join) auto
  then show ?thesis by (simp add: parse_pair_text comp_def concat_map_singleton)
qed

lemma add_value_new: "k \<notin> fst ` set q \<Longrightarrow> add_value q (k, v) = q @ [(k, [v])]"
  by (induction q) auto

lemma add_value_same: "k \<notin> fst ` set q \<Longrightarrow> add_value (q @ [(k, vs)]) (k, v) = q @ [(k, vs @ [v])]"
  by (induction q) auto

lemma add_values_same:
  "k \<notin> fst ` set q \<Longrightarrow> foldl add_value (q @ [(k, us)]) (map (Pair k) vs) = q @ [(k, us @ vs)]"
  by (induction vs arbitrary: us) (simp_all add: add_value_same)

lemma add_values:
  "k \<notin> fst ` set q \<Longrightarrow> foldl add_value q (map (Pair k) vs) = (if vs = [] then q else q @ [(k, vs)])"
proof (cases vs)
  case (Cons v vs')
  then show "k \<notin> fst ` set q \<Longrightarrow> ?thesis" using add_values_same [of k q "[v]" vs'] by (simp add: add_value_new)
qed simp

definition present :: "query_values \<Rightarrow> query_values" where
  "present q = filter (\<lambda>(k, vs). vs \<noteq> []) q"

lemma collect_pairs:
  "distinct (map fst q) \<Longrightarrow> fst ` set acc \<inter> fst ` set q = {} \<Longrightarrow>
     foldl add_value acc (pairs_of q) = acc @ present q"
proof (induction q arbitrary: acc)
  case Nil
  then show ?case by (simp add: pairs_of_def present_def)
next
  case (Cons p q)
  obtain k vs where p: "p = (k, vs)" by (cases p)
  have k: "k \<notin> fst ` set acc" "k \<notin> fst ` set q" using Cons.prems p by auto
  let ?acc = "if vs = [] then acc else acc @ [(k, vs)]"
  have "foldl add_value acc (pairs_of (p # q)) = foldl add_value ?acc (pairs_of q)"
    using add_values [OF k(1)] by (simp add: pairs_of_def p)
  also have "\<dots> = ?acc @ present q" using Cons.prems k by (intro Cons.IH) (auto simp: p)
  also have "\<dots> = acc @ present (p # q)" by (simp add: present_def p)
  finally show ?case .
qed

lemma parse_encode:
  assumes "distinct (map fst q)"
  shows "parse_query (encode q) = present (sort_key fst q)"
proof -
  have "distinct (map fst (sort_key fst q))" using assms by (simp add: distinct_map inj_on_def)
  then show ?thesis
    using collect_pairs [of "sort_key fst q" "[]"] unfolding parse_query_def encode_def by (simp add: pairs_of_parsed)
qed

section \<open>Redaction\<close>

text \<open>The names of a query and how many values each has.\<close>

definition shape :: "query_values \<Rightarrow> (string \<times> nat) list" where
  "shape q = map (\<lambda>(k, vs). (k, length vs)) q"

lemma map_insort_key: "(\<And>x. g (f x) = h x) \<Longrightarrow> map f (insort_key h x xs) = insort_key g (f x) (map f xs)"
  by (induction xs) auto

lemma shape_sort: "shape (sort_key fst q) = sort_key fst (shape q)"
  by (induction q) (simp_all add: shape_def sort_key_def map_insort_key [where g = fst and h = fst] split_beta)

lemma shape_present: "shape (present q) = filter (\<lambda>(k, n). n \<noteq> 0) (shape q)"
  by (induction q) (auto simp: shape_def present_def)

lemma redact_shape: "redact_values q = map (\<lambda>(k, n). (k, replicate n ''REDACTED'')) (shape q)"
  by (induction q) (auto simp: redact_values_def shape_def map_replicate_const)

lemma fst_shape: "map fst (shape q) = map fst q"
  by (induction q) (auto simp: shape_def)

lemma join_with_Nil: "\<forall>t \<in> set ts. t \<noteq> [] \<Longrightarrow> join_with s ts = [] \<longleftrightarrow> ts = []"
  by (induction s ts rule: join_with.induct) auto

lemma encode_Nil: "encode q = [] \<longleftrightarrow> present (sort_key fst q) = []"
proof -
  have "pairs_of r = [] \<longleftrightarrow> present r = []" for r by (induction r) (auto simp: pairs_of_def present_def)
  moreover have "\<forall>t \<in> set (map pair_text ps). t \<noteq> []" for ps by (auto simp: pair_text_def)
  ultimately show ?thesis by (simp add: encode_def join_with_Nil)
qed

lemma redact_url_shape:
  assumes "distinct (map fst q)" "shape q = shape q'"
  shows "redact_url True (u\<lparr>ur_query := encode q\<rparr>) = redact_url True (u\<lparr>ur_query := encode q'\<rparr>)"
    "encode q = '''' \<longleftrightarrow> encode q' = ''''"
proof -
  have d: "distinct (map fst q')" using assms fst_shape [of q] fst_shape [of q'] by simp
  have sh: "shape (present (sort_key fst q)) = shape (present (sort_key fst q'))"
    by (simp add: shape_present shape_sort assms(2))
  have "shape r = [] \<longleftrightarrow> r = []" for r by (simp add: shape_def)
  with sh have e: "encode q = [] \<longleftrightarrow> encode q' = []" unfolding encode_Nil by metis
  with sh show "redact_url True (u\<lparr>ur_query := encode q\<rparr>) = redact_url True (u\<lparr>ur_query := encode q'\<rparr>)"
    by (cases "encode q = []") (simp_all add: redact_url_def parse_encode [OF assms(1)] parse_encode [OF d] redact_shape)
  show "encode q = '''' \<longleftrightarrow> encode q' = ''''" by (rule e)
qed

text \<open>
  Two outcomes that differ at most in the body of an answer that is an error: the same failure, or the
  same status, with the same body if it is a success. A URL that does not parse is not among them.
\<close>

fun alike :: "http_outcome \<Rightarrow> http_outcome \<Rightarrow> bool" where
  "alike (Unbuildable p op e) (Unbuildable p' op' e') = (p \<and> p' \<and> op = op' \<and> e = e')"
| "alike (TransportFailure op e) (TransportFailure op' e') = (op = op' \<and> e = e')"
| "alike (ReadFailure e) (ReadFailure e') = (e = e')"
| "alike (Answered status raw) (Answered status' raw') =
     (status = status' \<and> (200 \<le> status \<and> status \<le> 299 \<longrightarrow> raw = raw'))"
| "alike _ _ = False"

lemma alike_result:
  assumes "alike out out'" "redact_url True u = redact_url True u'" "ur_query u \<noteq> ''''" "ur_query u' \<noteq> ''''"
  shows "http_do c (\<lambda>_. out) method u body ct = http_do c (\<lambda>_. out') method u' body ct"
  using assms by (cases "(out, out')" rule: alike.cases)
    (auto simp: http_do_def Let_def has_query_def redact_transport_error_def split: option.split)

lemma http_do_outcome:
  "http_do c ex method u body ct = http_do c (\<lambda>_. ex (request_of c method u body ct)) method u body ct"
  by (simp add: http_do_def)

text \<open>C22: No query value reaches an error. The answers may depend on the whole request, so a server may
  repeat the query in the body of an error: two requests whose queries have the same names with the
  same number of values, and which come to the same failure or the same status (bodies of errors
  may be anything, bodies of successes agree), give exactly the same result, its error text included. So an
  API key in the query cannot be read off it. The one case left out is a URL that does not parse, which the
  code shows as it is; a failure of the transport is taken to be the same text inside its \<open>url.Error\<close>.\<close>

theorem errors_hide_query_values:
  assumes "distinct (map fst q)" "shape q = shape q'"
    "alike (ex (request_of c method (resolve c path (Some q)) body ct)) (ex (request_of c method (resolve c path (Some q')) body ct))"
  shows "http_do c ex method (resolve c path (Some q)) body ct = http_do c ex method (resolve c path (Some q')) body ct"
proof -
  let ?u = "resolve c path None"
  have u: "resolve c path (Some p) = ?u\<lparr>ur_query := encode p\<rparr>" for p by (simp add: resolve_def Let_def)
  note same = redact_url_shape [OF assms(1,2)]
  show ?thesis
  proof (cases "encode q = ''''")
    case True
    then have "resolve c path (Some q) = resolve c path (Some q')" using same(2) by (simp add: u)
    then show ?thesis by (simp only:)
  next
    case False
    have "http_do c (\<lambda>_. ex (request_of c method (resolve c path (Some q)) body ct)) method (resolve c path (Some q)) body ct =
        http_do c (\<lambda>_. ex (request_of c method (resolve c path (Some q')) body ct)) method (resolve c path (Some q')) body ct"
      by (rule alike_result [OF assms(3)]) (use same False in \<open>simp_all add: u\<close>)
    then show ?thesis using http_do_outcome [of c ex _ "resolve c path (Some q)" body ct]
        http_do_outcome [of c ex _ "resolve c path (Some q')" body ct] by (simp only:)
  qed
qed

definition sample_http :: http_client where
  "sample_http = \<lparr>hc_base = \<lparr>ur_base = ''http://nas:8181'', ur_path = '''', ur_query = ''''\<rparr>, hc_headers = [],
     hc_http_timeout = default_http_timeout, hc_server_name = '''', hc_timeout = 0\<rparr>"

text \<open>A server that repeats the query in its error page.\<close>

theorem errors_hide_query_values_witness:
  "http_do sample_http (\<lambda>rq. Answered 500 (ur_query (hq_url rq))) ''GET''
       (resolve sample_http ''/api/v2'' (Some [(''apikey'', [''s3cret''])])) '''' '''' =
     http_do sample_http (\<lambda>rq. Answered 500 (ur_query (hq_url rq))) ''GET''
       (resolve sample_http ''/api/v2'' (Some [(''apikey'', [''other''])])) '''' ''''"
  by (rule errors_hide_query_values) (simp_all add: shape_def)

text \<open>A query string means what was put into it: parsing the encoding of any values, whatever bytes
  the names and values consist of, gives back exactly the names that have values, each with its values
  in order.\<close>

theorem query_round_trip:
  assumes "distinct (map fst q)"
  shows "map_of (parse_query (encode q)) k = (case map_of q k of Some (v # vs) \<Rightarrow> Some (v # vs) | _ \<Rightarrow> None)"
proof -
  have d: "distinct (map fst (sort_key fst q))" using assms by (simp add: distinct_map inj_on_def)
  have "map_of (sort_key fst q) = map_of q"
    by (rule map_of_inject_set [THEN iffD2, OF d assms set_sort_key])
  moreover have "map_of (present r) k = (case map_of r k of Some (v # vs) \<Rightarrow> Some (v # vs) | _ \<Rightarrow> None)"
    if "distinct (map fst r)" for r
    using that
  proof (induction r)
    case (Cons p r)
    have "map_of (present r) k = None" if "k \<notin> fst ` set r"
      using that by (auto simp: present_def map_of_eq_None_iff)
    with Cons show ?case by (cases p; cases "snd p") (auto simp: present_def map_of_eq_None_iff)
  qed (simp add: present_def)
  ultimately show ?thesis using d by (simp add: parse_encode [OF assms])
qed

theorem query_round_trip_witness:
  "map_of (parse_query (encode [(''title'', [''A & B = 50%'', ''x+y''])])) ''title'' = Some [''A & B = 50%'', ''x+y'']"
  using query_round_trip [of "[(''title'', [''A & B = 50%'', ''x+y''])]"] by simp

end
