(* ===== verification/Peer_Laws.thy ===== *)
theory Peer_Laws
  imports Peer Httpx_Laws Exchange_Laws
begin

text \<open>
  What the channel between the nodes guarantees: which attempts a call makes and what it answers, and
  what a call over an unreliable connection does to the node at the other end.
\<close>

section \<open>Retrying\<close>

text \<open>The reference: an attempt ends the call unless it failed in a way that may pass.\<close>

definition decisive :: "caller \<Rightarrow> int \<Rightarrow> 'a result \<Rightarrow> bool" where
  "decisive cx i r =
     (case r of Inr _ \<Rightarrow> True
      | Inl e \<Rightarrow> cx_done cx i \<or> (case api_status e of None \<Rightarrow> False | Some status \<Rightarrow> status < 500))"

definition verdict :: "caller \<Rightarrow> int \<Rightarrow> 'a result \<Rightarrow> 'a result" where
  "verdict cx i r =
     (case r of Inr x \<Rightarrow> Inr x
      | Inl e \<Rightarrow> if \<not> cx_done cx i \<and> (is_status e 401 \<or> is_status e 403)
                then Inl (unauthorized (the (api_status e))) else Inl e)"

definition failure :: "'a result \<Rightarrow> goerr option" where
  "failure r = (case r of Inl e \<Rightarrow> Some e | Inr _ \<Rightarrow> None)"

definition retry_reference :: "peer_client \<Rightarrow> caller \<Rightarrow> (int \<Rightarrow> 'a result) \<Rightarrow> int \<Rightarrow> goerr option \<Rightarrow> 'a result \<times> int list" where
  "retry_reference c cx res n last_err =
     (case filter (\<lambda>i. decisive cx i (res i)) [n..pe_retries c] of
        i # _ \<Rightarrow> (verdict cx i (res i), [n..i])
      | [] \<Rightarrow> (Inl (peer_unavailable (if pe_retries c < n then last_err else failure (res (pe_retries c)))), [n..pe_retries c]))"

lemma reference_step:
  "n \<le> pe_retries c \<Longrightarrow> retry_reference c cx res n last_err =
     (if decisive cx n (res n) then (verdict cx n (res n), [n])
      else map_prod id ((#) n) (retry_reference c cx res (n + 1) (failure (res n))))"
proof -
  assume n: "n \<le> pe_retries c"
  let ?rest = "filter (\<lambda>i. decisive cx i (res i)) [n + 1..pe_retries c]"
  have up: "[n..m] = n # [n + 1..m]" if "n \<le> m" for m by (rule upto_rec1 [OF that])
  show ?thesis
  proof (cases "decisive cx n (res n)")
    case True
    then show ?thesis using up [OF n] up [of n] by (simp add: retry_reference_def)
  next
    case False
    show ?thesis
    proof (cases ?rest)
      case Nil
      show ?thesis
      proof (cases "n = pe_retries c")
        case True
        with False show ?thesis by (simp add: retry_reference_def)
      next
        case ne: False
        with False n Nil show ?thesis using up [OF n] by (simp add: retry_reference_def)
      qed
    next
      case (Cons i js)
      then have "i \<in> set ?rest" by simp
      then have "n \<le> i" by simp
      with Cons False show ?thesis using up [OF n] up [of i] by (simp add: retry_reference_def)
    qed
  qed
qed

lemma retry_from_reference:
  assumes "\<forall>i. wait_for cx (pe_backoff c i) i = None"
  shows "retry_from c cx (\<lambda>i s. (res i, s @ [i])) n last_err s =
    map_prod id ((@) s) (retry_reference c cx res n last_err)"
proof (induction "nat (pe_retries c + 1 - n)" arbitrary: n last_err s)
  case 0
  then show ?case by (simp add: retry_from.simps [of c cx _ n] retry_reference_def)
next
  case (Suc m)
  then have n: "n \<le> pe_retries c" "m = nat (pe_retries c + 1 - (n + 1))" by linarith+
  note IH = Suc.hyps(1) [OF n(2)]
  show ?case
    using n(1) assms
    by (cases "res n")
      (auto simp: retry_from.simps [of c cx _ n] reference_step IH decisive_def verdict_def failure_def is_status_def
        map_prod_def split_beta split: option.split)
qed

text \<open>C21: A call makes the attempts it documents and no other: as long as the caller's context does not
  end a wait, the attempts are numbered from 0 up to the first one that succeeds, ends with the context
  or gets an answer below 500, and its verdict is the answer (401 and 403 as \<open>ErrUnauthorized\<close>); if
  there is none, all retries are used up and the last failure is wrapped as \<open>ErrPeerUnavailable\<close>. With
  a negative number of retries no attempt is made at all and a nil is wrapped.\<close>

theorem retry_schedule:
  assumes "\<forall>i. wait_for cx (pe_backoff c i) i = None"
  shows "do_with_retry c cx (\<lambda>i s. (res i, s @ [i])) [] =
    (case filter (\<lambda>i. decisive cx i (res i)) [0..pe_retries c] of
       i # _ \<Rightarrow> (verdict cx i (res i), [0..i])
     | [] \<Rightarrow> (Inl (peer_unavailable (if pe_retries c < 0 then None else failure (res (pe_retries c)))), [0..pe_retries c]))"
  using retry_from_reference [OF assms, of res 0 None "[]"]
  by (auto simp: do_with_retry_def retry_reference_def split: list.split)

definition sample_peer_client :: "string \<Rightarrow> peer_client" where
  "sample_peer_client token = \<lparr>pe_http = with_header ''Authorization'' (''Bearer '' @ token) sample_http,
     pe_retries = 2, pe_backoff = default_backoff\<rparr>"

definition patient :: caller where
  "patient = \<lparr>cx_interrupts = (\<lambda>_. None), cx_done = (\<lambda>_. False)\<rparr>"

theorem retry_schedule_witness:
  "do_with_retry (sample_peer_client ''t'') patient
     (\<lambda>i s. (if i = 1 then Inr True else Inl (api_error 503 ''POST'' ''u'' ''''), s @ [i])) [] = (Inr True, [0, 1])"
  using retry_schedule [of patient "sample_peer_client ''t''"
      "\<lambda>i. if i = 1 then Inr True else Inl (api_error 503 ''POST'' ''u'' '''')"]
  by (simp add: patient_def wait_for_def sample_peer_client_def decisive_def verdict_def api_status_def api_error_def
      upto_rec1)

lemma retry_from_Inr:
  "retry_from c cx fn n last_err s = (Inr x, s') \<Longrightarrow> \<exists>i s1. fn i s1 = (Inr x, s')"
proof (induction c cx fn n last_err s rule: retry_from.induct)
  case (1 c cx fn n last_err s)
  show ?case
  proof (cases "fn n s")
    case (Pair r s1)
    show ?thesis
    proof (cases r)
      case (Inr y)
      with 1(3) Pair have "fn n s = (Inr x, s')"
        by (auto simp: retry_from.simps [of c cx fn n] split: if_splits option.splits)
      then show ?thesis by blast
    next
      case (Inl e)
      with Pair have p: "fn n s = (Inl e, s1)" by simp
      let ?w = "if 0 < n then wait_for cx (pe_backoff c n) n else None"
      have go: "n \<le> pe_retries c" "?w = None" "\<not> cx_done cx n"
        "retry_from c cx fn (n + 1) (Some e) s1 = (Inr x, s')"
        using 1(3) p by (auto simp: retry_from.simps [of c cx fn n] split: if_splits option.splits)
      have "api_status e = None \<or> (\<exists>st. api_status e = Some st \<and> \<not> (st = 401 \<or> st = 403) \<and> \<not> st < 500)"
        using 1(3) p go(1,2,3) by (auto simp: retry_from.simps [of c cx fn n] split: if_splits option.splits)
      then show ?thesis
        using 1(1) [OF go(1,2) p [symmetric] HOL.refl go(3)] 1(2) [OF go(1,2) p [symmetric] HOL.refl go(3)] go(4) by blast
    qed
  qed
qed

lemma retry_from_frame:
  assumes "\<And>i t. I t \<Longrightarrow> I (snd (fn i t))"
  shows "I s \<Longrightarrow> I (snd (retry_from c cx fn n last_err s))"
proof (induction "nat (pe_retries c + 1 - n)" arbitrary: n last_err s)
  case 0
  then show ?case by (simp add: retry_from.simps [of c cx _ n])
next
  case (Suc m)
  then have n: "n \<le> pe_retries c" "m = nat (pe_retries c + 1 - (n + 1))" by linarith+
  obtain r s1 where f: "fn n s = (r, s1)" by fastforce
  have "I s1" using assms [OF Suc.prems, of n] f by simp
  then have "I (snd (retry_from c cx fn (n + 1) (Some e) s1))" for e by (rule Suc.hyps(1) [OF n(2)])
  with n f \<open>I s1\<close> Suc.prems show ?case
    by (cases r) (auto simp: retry_from.simps [of c cx _ n] split: option.split)
qed

section \<open>Two nodes over an unreliable link\<close>

text \<open>What becomes of the request of an attempt: it is lost, its response is lost, or both get through.\<close>

datatype link = RequestLost goerr | ResponseLost goerr | Through

text \<open>\<open>net/http\<close> sends and reads the value of a header without white space around it.\<close>

definition field_blank :: "char \<Rightarrow> bool" where
  "field_blank c \<longleftrightarrow> c \<in> {CHR '' '', CHR 0x09, CHR 0x0A, CHR 0x0D}"

definition trim_end :: "string \<Rightarrow> string" where
  "trim_end s = rev (dropWhile field_blank (rev s))"

definition trim_field :: "string \<Rightarrow> string" where
  "trim_field s = trim_end (dropWhile field_blank s)"

definition to_server :: "http_request \<Rightarrow> server_request" where
  "to_server rq = \<lparr>sr_method = hq_method rq, sr_path = ur_path (hq_url rq),
     sr_authorization = (case map_of (hq_headers rq) ''Authorization'' of Some (v # _) \<Rightarrow> trim_field v | _ \<Rightarrow> ''''),
     sr_body = hq_body rq\<rparr>"

definition connect :: "(int \<Rightarrow> link) \<Rightarrow> (server_request \<Rightarrow> server_response act) \<Rightarrow> sys network" where
  "connect lk srv i rq s =
     (case lk i of
        RequestLost e \<Rightarrow> (TransportFailure ''Post'' e, s)
      | ResponseLost e \<Rightarrow> (TransportFailure ''Post'' e, snd (srv (to_server rq) s))
      | Through \<Rightarrow> (case srv (to_server rq) s of (resp, s') \<Rightarrow> (Answered (rs_status resp) (rs_body resp), s')))"

text \<open>
  What is relied on of \<open>encoding/json\<close>: a value that is completed from (a prefix of) the encoding of a
  message is that message as it comes over the wire, its texts in UTF-8, and an acknowledgement with an \<open>int64\<close> id is
  encoded and read back.
\<close>

definition faithful_codec :: "codec \<Rightarrow> bool" where
  "faithful_codec k \<longleftrightarrow>
     (\<forall>env b n v. enc_envelope k env = Inr b \<longrightarrow> dec_envelope k (take n b) = Complete v \<longrightarrow>
        wire_envelope (envelope_text env) = Some v) \<and>
     (\<forall>i. int64 i \<longrightarrow> (\<exists>t. enc_ack k \<lparr>ak_status = ''ok'', ak_id = i\<rparr> = Inr t \<and>
        um_ack k (take max_response (t @ [newline])) = Inr \<lparr>ak_status = ''ok'', ak_id = i\<rparr>))"

lemma authorization_header:
  assumes "new_peer_client parse base token opts = Inr c"
  shows "map_of (request_headers (pe_http c) ct) ''Authorization'' = Some [''Bearer '' @ token]"
  using assms
  by (auto simp: new_peer_client_def new_client_def with_header_def with_timeout_def request_headers_def rbind_eq_Inr
      wrap_result_eq_Inr Let_def map_of_map_set_apply split: if_splits list.splits option.splits)

lemma bearer_of_header:
  "bearer_token (trim_field (''Bearer '' @ t)) = (if trim_end t = '''' then None else Some (trim_end t))"
proof (cases "\<forall>c \<in> set t. field_blank c")
  case True
  then have "dropWhile field_blank (rev t @ u) = dropWhile field_blank u" for u by (intro dropWhile_append2) simp
  then have "trim_field (''Bearer '' @ t) = ''Bearer''" "trim_end t = ''''"
    using True by (simp_all add: trim_field_def trim_end_def field_blank_def)
  then show ?thesis by (simp add: bearer_token_def)
next
  case False
  then obtain c where c: "c \<in> set (rev t)" "\<not> field_blank c" by auto
  have "dropWhile field_blank (rev t @ u) = dropWhile field_blank (rev t) @ u" for u
    by (rule dropWhile_append1 [where P = field_blank, OF c])
  then have "trim_field (''Bearer '' @ t) = ''Bearer '' @ trim_end t"
    by (simp add: trim_field_def trim_end_def field_blank_def)
  moreover have "trim_end t \<noteq> ''''" using c by (auto simp: trim_end_def dropWhile_eq_Nil_conv)
  ultimately show ?thesis by (simp add: bearer_token_def)
qed

text \<open>How a post ends when its attempt succeeds, seen from the response.\<close>

lemma post_json_Inr:
  assumes "post_json c (\<lambda>_. out) dec path (Some (Inr b)) = Inr x"
  obtains status raw where "out = Answered status raw" "200 \<le> status" "status \<le> 299"
    "decode_json dec (take max_response raw) = Inr x"
  using assms
  by (auto simp: post_json_def post_json_query_def send_json_def http_do_def Let_def rbind_eq_Inr
      split: http_outcome.splits if_splits)

lemma attempt_post_Inr:
  assumes "attempt_post c (connect lk srv) dec path body i s = (Inr x, s')"
  obtains b resp where "body = Inr b"
    "srv (to_server (request_of c ''POST'' (resolve c path None) b ''application/json'')) s = (resp, s')"
    "200 \<le> rs_status resp" "rs_status resp \<le> 299" "decode_json dec (take max_response (rs_body resp)) = Inr x"
proof (cases body)
  case (Inl e)
  with assms show thesis by (simp add: attempt_post_def)
next
  case (Inr b)
  let ?rq = "request_of c ''POST'' (resolve c path None) b ''application/json''"
  obtain out s1 where out: "connect lk srv i ?rq s = (out, s1)" by fastforce
  with assms Inr have p: "post_json c (\<lambda>_. out) dec path (Some (Inr b)) = Inr x" "s1 = s'"
    by (simp_all add: attempt_post_def)
  from p(1) obtain status raw where r: "out = Answered status raw" "200 \<le> status" "status \<le> 299"
    "decode_json dec (take max_response raw) = Inr x" by (rule post_json_Inr)
  with out p(2) have "lk i = Through" by (auto simp: connect_def split: link.splits)
  with out r(1) p(2) have "srv (to_server ?rq) s = (\<lparr>rs_status = status, rs_body = raw\<rparr>, s')"
    by (auto simp: connect_def split: prod.splits)
  with that Inr r show thesis by fastforce
qed

text \<open>A server that turns every request away leaves its node alone.\<close>

lemma connect_frame:
  "(\<And>t. snd (srv (to_server rq) t) = t) \<Longrightarrow> snd (connect lk srv i rq s) = s"
  by (auto simp: connect_def split: link.split prod.split) (metis snd_conv)

lemma turned_away:
  assumes "new_peer_client parse base token opts = Inr c" "trim_end token \<noteq> token'"
  shows "peer_serve token' k h (to_server (request_of (pe_http c) m u b ct)) s = (write_error 401 ''unauthorized'', s)"
proof -
  have "bearer_token (sr_authorization (to_server (request_of (pe_http c) m u b ct))) \<noteq> Some token'"
    using assms(2) by (simp add: to_server_def request_of_def authorization_header [OF assms(1)] bearer_of_header
        del: append_Cons append_Nil)
  then show ?thesis by (simp add: peer_serve_def auth_middleware_def aret_def)
qed

text \<open>Attempts that all fail leave nothing but an error; one answered 401 ends them at once.\<close>

lemma failing_attempts:
  assumes "\<And>i t. snd (fn i t) = t" "\<And>i t. isl (fst (fn i t))"
  shows "\<exists>e. do_with_retry c cx fn s = (Inl e, s)"
proof -
  have frame: "snd (do_with_retry c cx fn s) = s"
    using retry_from_frame [of "\<lambda>t. t = s" fn s] assms(1) by (simp add: do_with_retry_def)
  have "isl (fst (do_with_retry c cx fn s))"
  proof (cases "fst (do_with_retry c cx fn s)")
    case (Inr x)
    then obtain i t t' where "fn i t = (Inr x, t')"
      using retry_from_Inr [of c cx fn 0 None s x] unfolding do_with_retry_def by (metis prod.collapse)
    then show ?thesis using assms(2) [of i t] by simp
  qed simp
  with frame show ?thesis by (metis isl_def prod.collapse)
qed

lemma unauthorized_attempt:
  assumes "fn 0 s = (Inl e, s)" "api_status e = Some 401" "0 \<le> pe_retries c" "\<not> cx_done cx 0"
  shows "do_with_retry c cx fn s = (Inl (unauthorized 401), s)"
  using assms by (simp add: do_with_retry_def retry_from.simps [of c cx _ 0])

lemma posts_turned_away:
  fixes dec :: "string \<Rightarrow> 'a result"
  assumes "new_peer_client parse base token opts = Inr c" "trim_end token \<noteq> token'"
    "fn = attempt_post (pe_http c) (connect lk (peer_serve token' k' h)) dec path body"
  shows "snd (fn i t) = t" "isl (fst (fn i t))"
    "lk i = Through \<Longrightarrow> \<not> isl body \<Longrightarrow> \<exists>e. fn i t = (Inl e, t) \<and> api_status e = Some 401"
proof -
  note away = turned_away [OF assms(1,2)]
  show "snd (fn i t) = t"
  proof (cases body)
    case (Inr b)
    have "snd (connect lk (peer_serve token' k' h) i
        (request_of (pe_http c) ''POST'' (resolve (pe_http c) path None) b ''application/json'') t) = t"
      by (rule connect_frame) (simp add: away)
    with Inr show ?thesis by (simp add: assms(3) attempt_post_def case_prod_beta)
  qed (simp add: assms(3) attempt_post_def)
  show "isl (fst (fn i t))"
  proof (cases "fst (fn i t)")
    case (Inr x)
    then have "attempt_post (pe_http c) (connect lk (peer_serve token' k' h)) dec path body i t = (Inr x, snd (fn i t))"
      by (metis assms(3) prod.collapse)
    then show ?thesis by (rule attempt_post_Inr) (simp add: away write_error_def)
  qed simp
  show "\<exists>e. fn i t = (Inl e, t) \<and> api_status e = Some 401" if "lk i = Through" "\<not> isl body"
    using that by (cases body) (simp_all add: assms(3) attempt_post_def connect_def away post_json_def post_json_query_def
        send_json_def http_do_def Let_def write_error_def api_error_def api_status_def)
qed

lemma gets_turned_away:
  fixes dec :: "string \<Rightarrow> 'a result"
  assumes "new_peer_client parse base token opts = Inr c" "trim_end token \<noteq> token'"
    "fn = attempt_get (pe_http c) (connect lk (peer_serve token' k' h)) dec path"
  shows "snd (fn i t) = t" "isl (fst (fn i t))"
    "lk i = Through \<Longrightarrow> \<exists>e. fn i t = (Inl e, t) \<and> api_status e = Some 401"
proof -
  let ?rq = "request_of (pe_http c) ''GET'' (resolve (pe_http c) path None) '''' ''''"
  note away = turned_away [OF assms(1,2)]
  show "snd (fn i t) = t" "isl (fst (fn i t))"
    "lk i = Through \<Longrightarrow> \<exists>e. fn i t = (Inl e, t) \<and> api_status e = Some 401"
    by (cases "lk i"; simp add: assms(3) attempt_get_def connect_def away get_json_def http_do_def Let_def write_error_def
        api_error_def api_status_def)+
qed

text \<open>C20: A caller without the token can neither change the other node nor learn anything from it. Any request at
  all, to any path with any method and body, whose bearer token is not the server's is answered 401 with
  the fixed text \<open>unauthorized\<close>, and the node's database and external calls stay exactly as they were. So for
  a client built with another token (white space at its end aside, which HTTP drops), for every way
  the link treats its attempts: posting any message to any path changes nothing and ends in an error, fetching the latest
  report changes nothing and yields no report, and if the first attempt gets through, the error is \<open>ErrUnauthorized\<close>.\<close>

theorem wrong_token_is_turned_away:
  assumes "new_peer_client parse base token opts = Inr c" "trim_end token \<noteq> token'"
  shows "(\<forall>rq. bearer_token (sr_authorization rq) \<noteq> Some token' \<longrightarrow>
       peer_serve token' k' h rq s = (\<lparr>rs_status = 401, rs_body = ''unauthorized'' @ [newline]\<rparr>, s)) \<and>
    (\<forall>what path body. \<exists>e. post_acked what c cx (connect lk (peer_serve token' k' h)) k path body s = (Inl e, s) \<and>
       (lk 0 = Through \<and> \<not> isl body \<and> 0 \<le> pe_retries c \<and> \<not> cx_done cx 0 \<longrightarrow> errors_is e ErrUnauthorized)) \<and>
    (\<exists>r. fetch_latest c cx (connect lk (peer_serve token' k' h)) k s = (r, s) \<and> (\<forall>env. r \<noteq> Inr (Some env)) \<and>
       (lk 0 = Through \<and> 0 \<le> pe_retries c \<and> \<not> cx_done cx 0 \<longrightarrow> (\<exists>e. r = Inl e \<and> errors_is e ErrUnauthorized)))"
proof (intro conjI allI impI)
  fix rq :: server_request
  assume "bearer_token (sr_authorization rq) \<noteq> Some token'"
  then show "peer_serve token' k' h rq s = (\<lparr>rs_status = 401, rs_body = ''unauthorized'' @ [newline]\<rparr>, s)"
    by (simp add: peer_serve_def auth_middleware_def aret_def write_error_def)
next
  fix what path and body :: "string result"
  let ?fn = "attempt_post (pe_http c) (connect lk (peer_serve token' k' h)) (um_ack k) path body"
  have "\<exists>e. do_with_retry c cx ?fn s = (Inl e, s)"
    by (rule failing_attempts) (rule posts_turned_away(1) [OF assms refl], rule posts_turned_away(2) [OF assms refl])
  then obtain e where e: "do_with_retry c cx ?fn s = (Inl e, s)" by blast
  have "errors_is e ErrUnauthorized" if g: "lk 0 = Through" "\<not> isl body" "0 \<le> pe_retries c" "\<not> cx_done cx 0"
  proof -
    obtain e1 where "?fn 0 s = (Inl e1, s)" "api_status e1 = Some 401"
      using posts_turned_away(3) [where lk = lk and i = 0, OF assms refl g(1,2)] by blast
    with e unauthorized_attempt [of ?fn s e1 c cx] g have "e = unauthorized 401" by simp
    then show ?thesis by (simp add: unauthorized_def)
  qed
  then show "\<exists>e. post_acked what c cx (connect lk (peer_serve token' k' h)) k path body s = (Inl e, s) \<and>
      (lk 0 = Through \<and> \<not> isl body \<and> 0 \<le> pe_retries c \<and> \<not> cx_done cx 0 \<longrightarrow> errors_is e ErrUnauthorized)"
    by (auto simp: post_acked_def e)
next
  let ?fn = "attempt_get (pe_http c) (connect lk (peer_serve token' k' h)) (um_envelope k) latest_report_path"
  have "\<exists>e. do_with_retry c cx ?fn s = (Inl e, s)"
    by (rule failing_attempts) (rule gets_turned_away(1) [OF assms refl], rule gets_turned_away(2) [OF assms refl])
  then obtain e where e: "do_with_retry c cx ?fn s = (Inl e, s)" by blast
  have "e = unauthorized 401" if g: "lk 0 = Through" "0 \<le> pe_retries c" "\<not> cx_done cx 0"
  proof -
    obtain e1 where "?fn 0 s = (Inl e1, s)" "api_status e1 = Some 401"
      using gets_turned_away(3) [where lk = lk and i = 0, OF assms refl g(1)] by blast
    with e unauthorized_attempt [of ?fn s e1 c cx] g show ?thesis by simp
  qed
  moreover have "\<not> is_status (unauthorized 401) 404" "errors_is (unauthorized 401) ErrUnauthorized"
    by (simp_all add: unauthorized_def is_status_def api_status_def)
  ultimately show "\<exists>r. fetch_latest c cx (connect lk (peer_serve token' k' h)) k s = (r, s) \<and> (\<forall>env. r \<noteq> Inr (Some env)) \<and>
      (lk 0 = Through \<and> 0 \<le> pe_retries c \<and> \<not> cx_done cx 0 \<longrightarrow> (\<exists>e. r = Inl e \<and> errors_is e ErrUnauthorized))"
    by (auto simp: fetch_latest_def e)
qed

text \<open>C18: An acknowledged push has been stored: over any link and whatever attempts failed before, if the
  push returns an acknowledgement then the other node, in the state it is left in, has just received
  the report as the wire carries it (texts in UTF-8, data as JSON), without error, and the acknowledgement carries the id of the row.\<close>

theorem acknowledged_push_was_received:
  assumes "faithful_codec k" "trim_right (CHR ''/'') (ur_path (hc_base (pe_http c))) = ''''"
    "peer_push_report c cx (connect lk (peer_serve token k (agent_handler b deps now now'))) k env s = (Inr a, s')"
  shows "\<exists>w s1 i. wire_envelope (envelope_text env) = Some w \<and> receive_report b now w s1 = (Inr i, s') \<and>
    (int64 i \<longrightarrow> a = \<lparr>ak_status = ''ok'', ak_id = i\<rparr>)"
proof -
  let ?h = "agent_handler b deps now now'"
  let ?fn = "attempt_post (pe_http c) (connect lk (peer_serve token k ?h)) (um_ack k) report_path (enc_envelope k env)"
  obtain x where x: "do_with_retry c cx ?fn s = (Inr x, s')" "a = (case x of None \<Rightarrow> zero_ack | Some a \<Rightarrow> a)"
    using assms(3) by (auto simp: peer_push_report_def post_acked_def split: prod.splits sum.splits)
  obtain j s1 where "?fn j s1 = (Inr x, s')" using retry_from_Inr [OF x(1) [unfolded do_with_retry_def]] by blast
  then obtain t resp where r: "enc_envelope k env = Inr t"
    "peer_serve token k ?h (to_server (request_of (pe_http c) ''POST'' (resolve (pe_http c) report_path None) t ''application/json''))
      s1 = (resp, s')"
    "200 \<le> rs_status resp" "rs_status resp \<le> 299"
    "decode_json (um_ack k) (take max_response (rs_body resp)) = Inr x"
    by (rule attempt_post_Inr)
  let ?rq = "to_server (request_of (pe_http c) ''POST'' (resolve (pe_http c) report_path None) t ''application/json'')"
  have rq: "sr_method ?rq = ''POST''" "sr_path ?rq = report_path" "sr_body ?rq = t"
    using assms(2) by (simp_all add: to_server_def request_of_def resolve_def Let_def report_path_def trim_left_def)
  have "handle_report k ?h ?rq s1 = (resp, s')"
    using r(2,3,4) rq(1,2)
    by (auto simp: peer_serve_def auth_middleware_def mux_def peer_routes_def write_error_def report_path_def
        latest_report_path_def decision_path_def heartbeat_path_def split: if_splits)
  then obtain w q s2 where w: "dec_envelope k (take max_body_bytes t) = Complete w"
    "receive_report b now w s1 = (q, s2)" "s2 = s'"
    "resp = (case q of Inl _ \<Rightarrow> internal_error | Inr i \<Rightarrow> write_json 200 (enc_ack k \<lparr>ak_status = ''ok'', ak_id = i\<rparr>))"
    using r(3,4) rq(3)
    by (auto simp: handle_report_def decode_body_def write_error_def abind_def agent_handler_def
        split: streamed.splits if_splits prod.splits)
  obtain i where q: "q = Inr i" using w(4) r(3,4) by (cases q) (auto simp: internal_error_def write_error_def)
  have "wire_envelope (envelope_text env) = Some w" using assms(1) r(1) w(1) unfolding faithful_codec_def by blast
  moreover have "a = \<lparr>ak_status = ''ok'', ak_id = i\<rparr>" if i: "int64 i"
  proof -
    obtain u where "enc_ack k \<lparr>ak_status = ''ok'', ak_id = i\<rparr> = Inr u"
      "um_ack k (take max_response (u @ [newline])) = Inr \<lparr>ak_status = ''ok'', ak_id = i\<rparr>"
      using assms(1) i unfolding faithful_codec_def by blast
    moreover have "take max_response (u @ [newline]) \<noteq> ''''" by (simp add: max_response_def)
    ultimately show ?thesis using r(5) w(4) x(2) q by (auto simp: write_json_def decode_json_def)
  qed
  ultimately show ?thesis using w(2,3) q by blast
qed


section \<open>The interface to the agent\<close>

text \<open>
  What a \<open>Handler\<close> promises about an invariant of the database, what the server makes of it, and the
  agent as the handler.
\<close>

lemma mux_Inr:
  assumes "mux routes m p = Inr h"
  shows "\<exists>m'. (m', p, h) \<in> set routes"
proof -
  let ?hit = "\<lambda>(m', p', h). m' = m \<or> m' = ''GET'' \<and> m = ''HEAD''"
  let ?hits = "filter ?hit (filter (\<lambda>(m', p', h). p' = p) routes)"
  obtain m' p' rest where "?hits = (m', p', h) # rest"
    using assms by (cases ?hits) (auto simp: mux_def Let_def)
  then have "(m', p', h) \<in> set ?hits" by simp
  then show ?thesis by auto
qed

locale peer_api =
  fixes I :: "db \<Rightarrow> bool" and h :: peer_handler
  assumes keeps_report: "keeps I (ph_receive_report h env)"
    and keeps_latest: "keeps I (ph_latest_own_report h)"
    and keeps_decision: "keeps I (ph_receive_decision h d)"
    and keeps_heartbeat: "keeps I (ph_receive_heartbeat h hb)"
begin

lemma keeps_handlers:
  "keeps I (handle_report k h r)" "keeps I (handle_latest_report k h r)"
  "keeps I (handle_decision k h r)" "keeps I (handle_heartbeat k h r)"
  unfolding handle_report_def handle_latest_report_def handle_decision_def handle_heartbeat_def
  by (intro keeps_case_sum keeps_aret keeps_abind keeps_report keeps_latest keeps_decision keeps_heartbeat)+

lemma keeps_serve: "keeps I (peer_serve token k h r)"
proof -
  have "keeps I (f r)" if "mux (peer_routes k h) m p = Inr f" for f m p
  proof -
    have "\<exists>m'. (m', p, f) \<in> set (peer_routes k h)" using mux_Inr [OF that] .
    then show ?thesis by (auto simp: peer_routes_def keeps_handlers)
  qed
  then have "keeps I (case mux (peer_routes k h) (sr_method r) (sr_path r) of Inl resp \<Rightarrow> aret resp | Inr f \<Rightarrow> f r)"
    by (cases "mux (peer_routes k h) (sr_method r) (sr_path r)") (auto intro: keeps_aret)
  then show ?thesis unfolding peer_serve_def auth_middleware_def by (intro keeps_if keeps_aret)
qed

lemma keeps_post:
  assumes "I (st_db (sy_store s))" "post_acked what c cx (connect lk (peer_serve token k h)) k path body s = (r, s')"
  shows "I (st_db (sy_store s'))"
proof -
  let ?I = "\<lambda>s. I (st_db (sy_store s))" and ?srv = "peer_serve token k h"
  have "?I (snd (?srv rq t))" if "?I t" for rq t
    using that keeps_serve [of token k rq] by (simp add: keeps_def)
  then have net: "?I (snd (connect lk ?srv i rq t))" if "?I t" for i rq t
    using that by (auto simp: connect_def case_prod_beta split: link.split)
  have "?I (snd (attempt_post (pe_http c) (connect lk ?srv) (um_ack k) path body i t))" if "?I t" for i t
    using that net [OF that] by (simp add: attempt_post_def case_prod_beta split: sum.split)
  from retry_from_frame [of ?I, OF this assms(1)] show ?thesis
    using assms(2) by (auto simp: post_acked_def do_with_retry_def case_prod_beta split: sum.splits)
qed

end

interpretation agent_api: peer_api db_ok "agent_handler a deps now now'" for a deps now now'
  by unfold_locales (simp_all add: agent_handler_def keeps_messages keeps_received_decision)

text \<open>A node's database stays well formed whatever its peer calls and however the connection behaves:
  any message posted over any link, with responses lost and attempts repeated, leaves the receiving
  node's database with its invariant.\<close>

theorem posts_keep_remote_database:
  assumes "db_ok (st_db (sy_store s))"
    "post_acked what c cx (connect lk (peer_serve token k (agent_handler a deps now now'))) k path body s = (r, s')"
  shows "db_ok (st_db (sy_store s'))"
  by (rule agent_api.keeps_post [OF assms])

section \<open>Concrete instances\<close>

definition sample_codec :: codec where
  "sample_codec = \<lparr>enc_envelope = (\<lambda>e. if e = peer_envelope then Inr ''r'' else Inl (new_error ''unsupported'')),
     enc_decision = (\<lambda>_. Inl (new_error ''unsupported'')), enc_heartbeat = (\<lambda>_. Inl (new_error ''unsupported'')),
     enc_ack = (\<lambda>a. Inr (show_int (ak_id a) @ '':'' @ ak_status a)),
     dec_envelope = (\<lambda>s. if s = ''r'' then Complete peer_envelope else if s = '''' then EndOfStream else Malformed),
     dec_decision = (\<lambda>_. Malformed), dec_heartbeat = (\<lambda>_. Malformed),
     um_ack = (\<lambda>s. case cut_at (CHR '':'') s of None \<Rightarrow> Inr zero_ack
        | Some (i, st) \<Rightarrow> (case parse_int64 i of None \<Rightarrow> Inr zero_ack
             | Some i \<Rightarrow> Inr \<lparr>ak_status = butlast st, ak_id = i\<rparr>)),
     um_envelope = (\<lambda>_. Inr peer_envelope)\<rparr>"

lemma length_show_nat: "n < 10 ^ k \<Longrightarrow> 0 < k \<Longrightarrow> length (show_nat n) \<le> k"
proof (induction k arbitrary: n)
  case (Suc k)
  show ?case
  proof (cases "n < 10")
    case True
    then show ?thesis by (subst show_nat.simps) simp
  next
    case False
    have "n div 10 < 10 ^ k" using Suc.prems(1) by (simp add: div_less_iff_less_mult)
    moreover have "0 < k" using False Suc.prems(1) by (cases k) auto
    ultimately have "length (show_nat (n div 10)) \<le> k" by (rule Suc.IH)
    then show ?thesis using False by (subst show_nat.simps) simp
  qed
qed simp

lemma length_show_int: "int64 i \<Longrightarrow> length (show_int i) \<le> 20"
proof -
  assume "int64 i"
  then have "nat i < 10 ^ 19" "nat (- i) < 10 ^ 19"
    by (auto simp: int64_def min_int64_def max_int64_def nat_less_iff)
  then have "length (show_nat (nat i)) \<le> 19" "length (show_nat (nat (- i))) \<le> 19"
    using length_show_nat [of _ 19] by simp_all
  then show ?thesis by (simp add: show_int_def)
qed

lemma wire_peer_envelope: "wire_envelope peer_envelope = Some peer_envelope"
  by (simp add: peer_envelope_def wire_envelope_def wire_report_def blank_report_def peer_finding_def wire_finding_def)

lemma json_text_ascii: "list_all (\<lambda>c. of_char c < (128 :: nat)) s \<Longrightarrow> json_text s = s"
  by (induction s) (simp_all add: rune_len_def)

lemma recode_no_keys: "recode_keys [] = []"
  by (simp add: recode_keys_def)

lemma peer_envelope_text: "envelope_text peer_envelope = peer_envelope"
proof -
  have "json_text '''' = ''''" "json_text NodeNAS = NodeNAS" "json_text NodePi = NodePi" "json_text ''v1'' = ''v1''"
    "json_text ''disk_usage'' = ''disk_usage''" "json_text ''fs:/'' = ''fs:/''" "json_text SeverityWarn = SeverityWarn"
    "json_text TierCorrect = TierCorrect" "json_text ''full'' = ''full''"
    by (rule json_text_ascii, simp)+
  then show ?thesis
    by (simp add: recode_no_keys envelope_text_def report_text_def finding_text_def peer_envelope_def blank_report_def peer_finding_def
        del: json_text.simps)
qed

lemma sample_codec_faithful: "faithful_codec sample_codec"
  unfolding faithful_codec_def
proof (intro conjI allI impI)
  fix env b n v
  assume "enc_envelope sample_codec env = Inr b" "dec_envelope sample_codec (take n b) = Complete v"
  then have "env = peer_envelope" "v = peer_envelope"
    by (auto simp: sample_codec_def split: if_splits)
  then show "wire_envelope (envelope_text env) = Some v" by (simp add: peer_envelope_text wire_peer_envelope)
next
  fix i assume i: "int64 i"
  let ?t = "show_int i @ '':'' @ ''ok''"
  have "length (?t @ [newline]) \<le> max_response"
    using length_show_int [OF i] by (simp add: max_response_def)
  then have tk: "take max_response (?t @ [newline]) = ?t @ [newline]" by (rule take_all)
  have "cut_at (CHR '':'') (show_int i @ CHR '':'' # ''ok'' @ [newline]) = Some (show_int i, ''ok'' @ [newline])"
    by (rule cut_at_append [OF colon_show_int])
  then have "um_ack sample_codec (?t @ [newline]) = Inr \<lparr>ak_status = ''ok'', ak_id = i\<rparr>"
    using parse_int64_show_int [of i] i by (simp add: sample_codec_def int64_def)
  moreover have "enc_ack sample_codec \<lparr>ak_status = ''ok'', ak_id = i\<rparr> = Inr ?t" by (simp add: sample_codec_def)
  ultimately show "\<exists>t. enc_ack sample_codec \<lparr>ak_status = ''ok'', ak_id = i\<rparr> = Inr t \<and>
      um_ack sample_codec (take max_response (t @ [newline])) = Inr \<lparr>ak_status = ''ok'', ak_id = i\<rparr>"
    using tk by metis
qed

theorem wrong_token_is_turned_away_witness:
  "\<exists>c r. new_peer_client (\<lambda>_. Inr (''http'', ''nas:8181'', '''', '''')) ''http://nas:8181'' ''guess'' [] = Inr c \<and>
     post_acked ''push report'' c patient (connect (\<lambda>_. Through) (peer_serve ''t'' sample_codec
       (agent_handler sample_agent (Inr (sample_deps defaults)) 0 0))) sample_codec report_path (Inr ''r'') blank_sys =
     (Inl r, blank_sys) \<and> errors_is r ErrUnauthorized"
proof -
  have "\<exists>c. new_peer_client (\<lambda>_. Inr (''http'', ''nas:8181'', '''', '''')) ''http://nas:8181'' ''guess'' [] = Inr c \<and> pe_retries c = 2"
    by (simp add: new_peer_client_def new_client_def default_retries_def Let_def)
  then obtain c where c: "new_peer_client (\<lambda>_. Inr (''http'', ''nas:8181'', '''', '''')) ''http://nas:8181'' ''guess'' [] = Inr c"
    "pe_retries c = 2" by blast
  have "trim_end ''guess'' \<noteq> ''t''" by (simp add: trim_end_def field_blank_def)
  then have "\<exists>e. post_acked ''push report'' c patient (connect (\<lambda>_. Through) (peer_serve ''t'' sample_codec
       (agent_handler sample_agent (Inr (sample_deps defaults)) 0 0))) sample_codec report_path (Inr ''r'') blank_sys =
     (Inl e, blank_sys) \<and> errors_is e ErrUnauthorized"
    using c(2) wrong_token_is_turned_away [OF c(1), of "''t''" sample_codec
        "agent_handler sample_agent (Inr (sample_deps defaults)) 0 0" blank_sys patient "\<lambda>_. Through" sample_codec]
    by (fastforce simp: patient_def)
  then show ?thesis using c(1) by blast
qed

theorem acknowledged_push_was_received_witness:
  "\<exists>i s'. peer_push_report (sample_peer_client ''t'') patient
      (connect (\<lambda>_. Through) (peer_serve ''t'' sample_codec (agent_handler sample_agent (Inr (sample_deps defaults)) 0 0)))
      sample_codec peer_envelope blank_sys = (i, s') \<and> \<not> isl i \<and>
    (\<exists>s1 i. receive_report sample_agent 0 peer_envelope s1 = (Inr i, s'))"
proof -
  let ?c = "sample_peer_client ''t''" and ?h = "agent_handler sample_agent (Inr (sample_deps defaults)) 0 0"
  let ?lk = "\<lambda>_ :: int. Through"
  obtain j s1 where r: "receive_report sample_agent 0 peer_envelope blank_sys = (Inr j, s1)" using sample_receive by blast
  let ?rq = "to_server (request_of (pe_http ?c) ''POST'' (resolve (pe_http ?c) report_path None) ''r'' ''application/json'')"
  have tr: "trim_right (CHR ''/'') (ur_path (hc_base (pe_http ?c))) = ''''"
    by (simp add: sample_peer_client_def sample_http_def with_header_def trim_right_def)
  have rq: "sr_method ?rq = ''POST''" "sr_path ?rq = report_path" "sr_body ?rq = ''r''"
    using tr by (simp_all add: to_server_def request_of_def resolve_def Let_def report_path_def trim_left_def)
  have "map_of (request_headers (pe_http ?c) ''application/json'') ''Authorization'' = Some [''Bearer t'']"
    by (simp add: sample_peer_client_def request_headers_def with_header_def sample_http_def map_set_def Let_def)
  then have au: "bearer_token (sr_authorization ?rq) = Some ''t''"
    by (simp add: to_server_def request_of_def bearer_token_def trim_field_def trim_end_def field_blank_def)
  have srv: "peer_serve ''t'' sample_codec ?h ?rq blank_sys =
      (\<lparr>rs_status = 200, rs_body = show_int j @ '':ok'' @ [newline]\<rparr>, s1)"
    using rq au r
    by (simp add: peer_serve_def auth_middleware_def mux_def peer_routes_def handle_report_def decode_body_def
        max_body_bytes_def sample_codec_def abind_def agent_handler_def write_json_def aret_def)
  have u: "\<not> isl (um_ack sample_codec t)" for t by (simp add: sample_codec_def split: option.split prod.split)
  have "\<not> isl (decode_json (um_ack sample_codec) t)" for t
    using u [of t] by (cases "um_ack sample_codec t") (auto simp: decode_json_def)
  then have "\<exists>x. decode_json (um_ack sample_codec) t = Inr x" for t
    by (metis isl_def sum.exhaust)
  then obtain x where x: "decode_json (um_ack sample_codec) (take max_response (show_int j @ [CHR '':'', CHR ''o'', CHR ''k'', newline])) = Inr x" by blast
  have enc: "enc_envelope sample_codec peer_envelope = Inr ''r''" by (simp add: sample_codec_def)
  have attempt: "attempt_post (pe_http ?c) (connect ?lk (peer_serve ''t'' sample_codec ?h)) (um_ack sample_codec) report_path
      (enc_envelope sample_codec peer_envelope) 0 blank_sys = (Inr x, s1)"
    unfolding attempt_post_def connect_def enc by (simp add: srv post_json_def post_json_query_def send_json_def http_do_def Let_def x del: take_append)
  have "pe_retries ?c = 2" by (simp add: sample_peer_client_def)
  with attempt have "do_with_retry ?c patient (attempt_post (pe_http ?c) (connect ?lk (peer_serve ''t'' sample_codec ?h))
      (um_ack sample_codec) report_path (enc_envelope sample_codec peer_envelope)) blank_sys = (Inr x, s1)"
    by (simp add: do_with_retry_def retry_from.simps [of ?c patient _ 0])
  then have "\<exists>a. peer_push_report ?c patient (connect ?lk (peer_serve ''t'' sample_codec ?h)) sample_codec peer_envelope blank_sys = (Inr a, s1)"
    by (simp add: peer_push_report_def post_acked_def)
  then obtain a where p: "peer_push_report ?c patient (connect ?lk (peer_serve ''t'' sample_codec ?h)) sample_codec
      peer_envelope blank_sys = (Inr a, s1)" by blast
  from acknowledged_push_was_received [OF sample_codec_faithful tr p] p wire_peer_envelope show ?thesis
    by (auto simp: peer_envelope_text)
qed

theorem posts_keep_remote_database_witness:
  "\<exists>r s'. peer_push_report (sample_peer_client ''t'') patient
      (connect (\<lambda>_. ResponseLost (new_error ''reset'')) (peer_serve ''t'' sample_codec (agent_handler sample_agent (Inr (sample_deps defaults)) 0 0)))
      sample_codec peer_envelope blank_sys = (r, s') \<and> db_ok (st_db (sy_store s'))"
proof -
  obtain r s' where p: "peer_push_report (sample_peer_client ''t'') patient
      (connect (\<lambda>_. ResponseLost (new_error ''reset'')) (peer_serve ''t'' sample_codec (agent_handler sample_agent (Inr (sample_deps defaults)) 0 0)))
      sample_codec peer_envelope blank_sys = (r, s')" by fastforce
  have "db_ok (st_db (sy_store blank_sys))" by (simp add: blank_sys_def)
  from posts_keep_remote_database [OF this p [unfolded peer_push_report_def]] p show ?thesis by blast
qed

end
