(* ===== verification/Host_Fs.thy ===== *)
theory Host_Fs
  imports Clients Go_Format Go_Path "HOL-Library.Word"
begin

text \<open>
  \<open>internal/clients/hostfs\<close>: the client of the host's file system. The kernel is a parameter,
  \<open>kernel\<close>: what \<open>statfs\<close>, \<open>stat\<close>, \<open>ReadDir\<close>, \<open>RemoveAll\<close> and reading the mount table answer. A walk
  sees the tree of files below its root. A cancelled context is the error \<open>ctx\<close> reports.
\<close>

section \<open>The kernel\<close>

record statfs =
  sf_bsize :: "64 word"
  sf_blocks :: "64 word"
  sf_bfree :: "64 word"
  sf_bavail :: "64 word"

text \<open>
  A node of the tree as \<open>Lstat\<close> types it: a regular file with what reading its size answers, a
  directory with the failure of reading it, if any, and its children by name, or anything else.
\<close>

datatype fs_node =
    Regular "int result"
  | Directory "goerr option" "(string \<times> fs_node) list"
  | Special

text \<open>A directory entry of \<open>os.ReadDir\<close>: its name, whether it is a directory, and its size and time.\<close>

type_synonym raw_entry = "string \<times> bool \<times> (int \<times> time) result"

text \<open>Reading a file ends with its text and, when reading stopped early, the failure.\<close>

record kernel =
  kn_statfs :: "string \<Rightarrow> statfs result"
  kn_stat_dev :: "string \<Rightarrow> 64 word result"
  kn_tree :: "string \<Rightarrow> fs_node result"
  kn_readdir :: "string \<Rightarrow> raw_entry list result"
  kn_remove_all :: "string \<Rightarrow> unit result"
  kn_read_file :: "string \<Rightarrow> (string \<times> goerr option) result"

definition unless_cancelled :: "goerr option \<Rightarrow> 'a result \<Rightarrow> 'a result" where
  "unless_cancelled ctx r = (case ctx of Some e \<Rightarrow> Inl e | None \<Rightarrow> r)"

section \<open>Space\<close>

text \<open>The arithmetic is that of \<open>uint64\<close>.\<close>

definition usage_of :: "string \<Rightarrow> statfs \<Rightarrow> usage" where
  "usage_of path st =
     (let whole = sf_blocks st * sf_bsize st;
          free = sf_bavail st * sf_bsize st;
          used = (sf_blocks st - sf_bfree st) * sf_bsize st;
          denom = used + free;
          pct = (if denom > 0 then f_mul (f_div (f_of_int (uint used)) (f_of_int (uint denom))) (Fin 100) else Fin 0)
      in \<lparr>us_path = path, us_total = uint whole, us_free = uint free, us_used = uint used, us_used_percent = pct\<rparr>)"

definition disk_space :: "kernel \<Rightarrow> goerr option \<Rightarrow> string \<Rightarrow> usage result" where
  "disk_space k ctx path =
     unless_cancelled ctx
       (rbind (wrap_result (''hostfs: statfs '' @ path) (kn_statfs k path)) (\<lambda>st. Inr (usage_of path st)))"

section \<open>Directory sizes\<close>

text \<open>\<open>filepath.Rel\<close> over the elements of the two cleaned paths; \<open>None\<close> is its error.\<close>

fun drop_common :: "'a list \<Rightarrow> 'a list \<Rightarrow> 'a list \<times> 'a list" where
  "drop_common (x # xs) (y # ys) = (if x = y then drop_common xs ys else (x # xs, y # ys))"
| "drop_common xs ys = (xs, ys)"

definition rel_comps :: "string \<Rightarrow> string \<Rightarrow> string list option" where
  "rel_comps base targ =
     (if is_rooted base \<noteq> is_rooted targ then None
      else let (b, t) = drop_common (clean_comps base) (clean_comps targ)
           in if b \<noteq> [] \<and> hd b = ''..'' then None else Some (replicate (length b) ''..'' @ t))"

text \<open>One more than the separators of the relative path is the number of its elements.\<close>

definition depth_below :: "string \<Rightarrow> string \<Rightarrow> int" where
  "depth_below rt path = (case rel_comps rt path of None \<Rightarrow> 0 | Some cs \<Rightarrow> int (length cs))"

definition too_deep :: "string \<Rightarrow> int \<Rightarrow> string \<Rightarrow> bool" where
  "too_deep rt max_depth path \<longleftrightarrow> max_depth > 0 \<and> path \<noteq> rt \<and> depth_below rt path > max_depth"

text \<open>
  \<open>filepath.WalkDir\<close> with the visiting function of \<open>DirSize\<close>, which adds to \<open>total\<close>: a directory is visited,
  then read, then its children are walked in order; the first error ends the walk.
\<close>

fun walk :: "(string \<Rightarrow> goerr option) \<Rightarrow> string \<Rightarrow> int \<Rightarrow> string \<Rightarrow> fs_node \<Rightarrow> int \<Rightarrow> int result"
  and walk_children :: "(string \<Rightarrow> goerr option) \<Rightarrow> string \<Rightarrow> int \<Rightarrow> string \<Rightarrow> (string \<times> fs_node) list \<Rightarrow> int \<Rightarrow> int result" where
  "walk ctx rt max_depth path node whole =
     (case ctx path of
        Some e \<Rightarrow> Inl e
      | None \<Rightarrow>
          if too_deep rt max_depth path then Inr whole
          else (case node of
                  Regular bytes \<Rightarrow>
                    rbind (wrap_result (''hostfs: stat '' @ path) bytes) (\<lambda>n. Inr (wrap_int64 (whole + n)))
                | Special \<Rightarrow> Inr whole
                | Directory (Some e) _ \<Rightarrow> Inl (wrap_error (''hostfs: walk '' @ path) e)
                | Directory None children \<Rightarrow> walk_children ctx rt max_depth path children whole))"
| "walk_children ctx rt max_depth path [] whole = Inr whole"
| "walk_children ctx rt max_depth path ((name, node) # rest) whole =
     rbind (walk ctx rt max_depth (path_join path name) node whole) (walk_children ctx rt max_depth path rest)"

declare walk.simps [simp del]

definition dir_size :: "kernel \<Rightarrow> (string \<Rightarrow> goerr option) \<Rightarrow> string \<Rightarrow> int \<Rightarrow> int result" where
  "dir_size k ctx rt max_depth =
     wrap_result (''hostfs: dirsize '' @ rt)
       (rbind (wrap_result (''hostfs: walk '' @ rt) (kn_tree k rt))
          (\<lambda>node. walk ctx rt max_depth rt node 0))"

section \<open>Listing and removing\<close>

definition list_dir :: "kernel \<Rightarrow> goerr option \<Rightarrow> string \<Rightarrow> dir_entry list result" where
  "list_dir k ctx path =
     unless_cancelled ctx
       (rbind (wrap_result (''hostfs: readdir '' @ path) (kn_readdir k path)) (\<lambda>raw.
        rbind (rmap (\<lambda>(name, is_dir, info).
                 rbind (wrap_result (''hostfs: stat '' @ path_join path name) info) (\<lambda>(bytes, mod_time).
                 Inr \<lparr>en_name = name, en_size = bytes, en_is_dir = is_dir, en_mod_time = mod_time\<rparr>)) raw)
          (\<lambda>entries. Inr (sort_key en_name entries))))"

definition remove_path :: "kernel \<Rightarrow> goerr option \<Rightarrow> string \<Rightarrow> unit result" where
  "remove_path k ctx path =
     unless_cancelled ctx
       (if path = '''' \<or> path = ''/'' then Inl (new_error (''hostfs: refusing to remove '' @ go_quote path))
        else wrap_result (''hostfs: remove '' @ path) (kn_remove_all k path))"

section \<open>The mount table\<close>

text \<open>
  \<open>strings.Fields\<close> splits at white space. \<open>white\<close> is the length in bytes of the white-space rune a text
  starts with, 0 when it starts with another one: the ASCII blanks, U+0085, U+00A0, U+1680,
  U+2000 to U+200A, U+2028, U+2029, U+202F, U+205F and U+3000.
\<close>

fun white :: "string \<Rightarrow> nat" where
  "white [] = 0"
| "white (c # cs) =
     (let n = of_char c :: nat; ms = map (of_char :: char \<Rightarrow> nat) (take 2 cs)
      in if is_space c then 1
         else if n = 0xC2 \<and> (take 1 ms = [0x85] \<or> take 1 ms = [0xA0]) then 2
         else if n = 0xE1 \<and> ms = [0x9A, 0x80] then 3
         else if n = 0xE2 \<and> length ms = 2 \<and> hd ms = 0x80
                \<and> (0x80 \<le> ms ! 1 \<and> ms ! 1 \<le> 0x8A \<or> ms ! 1 = 0xA8 \<or> ms ! 1 = 0xA9 \<or> ms ! 1 = 0xAF) then 3
         else if n = 0xE2 \<and> ms = [0x81, 0x9F] then 3
         else if n = 0xE3 \<and> ms = [0x80, 0x80] then 3
         else 0)"

definition emit :: "string \<Rightarrow> string list" where
  "emit acc = (if acc = [] then [] else [acc])"

function split_white :: "string \<Rightarrow> string \<Rightarrow> string list" where
  "split_white acc [] = emit acc"
| "split_white acc (c # cs) =
     (let n = white (c # cs)
      in if n = 0 then split_white (acc @ [c]) cs else emit acc @ split_white [] (drop (n - 1) cs))"
  by pat_completeness auto
termination by (relation "measure (\<lambda>(acc, s). length s)") auto

definition text_fields :: "string \<Rightarrow> string list" where
  "text_fields s = split_white [] s"

definition octal_digit :: "char \<Rightarrow> nat option" where
  "octal_digit c = (let n = of_char c :: nat in if 48 \<le> n \<and> n \<le> 55 then Some (n - 48) else None)"

text \<open>\<open>ParseUint\<close> of three digits in base 8 for 8 bits.\<close>

definition octal_byte :: "char \<Rightarrow> char \<Rightarrow> char \<Rightarrow> nat option" where
  "octal_byte a b c =
     (case (octal_digit a, octal_digit b, octal_digit c) of
        (Some x, Some y, Some z) \<Rightarrow> (let v = 64 * x + 8 * y + z in if v < 256 then Some v else None)
      | _ \<Rightarrow> None)"

abbreviation backslash :: char where "backslash \<equiv> CHR 92"

fun unescape_octal :: "string \<Rightarrow> string" where
  "unescape_octal (x # a # b # c # s) =
     (if x = backslash
      then (case octal_byte a b c of
              Some v \<Rightarrow> char_of v # unescape_octal s
            | None \<Rightarrow> x # unescape_octal (a # b # c # s))
      else x # unescape_octal (a # b # c # s))"
| "unescape_octal s = s"

definition min_mountinfo_fields :: nat where "min_mountinfo_fields = 6"

text \<open>The position of the first lone dash from position \<open>i\<close> on.\<close>

fun dash_index :: "nat \<Rightarrow> string list \<Rightarrow> nat option" where
  "dash_index i [] = None"
| "dash_index i (f # fs) = (if f = ''-'' then Some i else dash_index (Suc i) fs)"

definition parse_mount_line :: "string \<Rightarrow> host_mount result" where
  "parse_mount_line line =
     (let fs = text_fields line
      in if length fs < min_mountinfo_fields
         then Inl (new_error (''hostfs: malformed mountinfo line (too few fields): '' @ go_quote line))
         else
           let no_separator = Inl (new_error (''hostfs: malformed mountinfo line (missing '' @ [CHR 34] @ '' - '' @
                 [CHR 34] @ '' separator): '' @ go_quote line))
           in case dash_index min_mountinfo_fields (drop min_mountinfo_fields fs) of
                None \<Rightarrow> no_separator
              | Some i \<Rightarrow>
                  if length fs \<le> i + 3 then no_separator
                  else Inr \<lparr>hm_target = unescape_octal (fs ! 4), hm_source = unescape_octal (fs ! (i + 2)),
                            hm_fs_type = fs ! (i + 1), hm_options = split_on (CHR '','') (fs ! 5)\<rparr>)"

text \<open>
  \<open>bufio.Scanner\<close>: the lines of a text without their ends; a line of 65536 bytes or more stops the scan.
\<close>

definition max_token :: nat where "max_token = 65536"

definition drop_cr :: "string \<Rightarrow> string" where
  "drop_cr s = (if s \<noteq> [] \<and> last s = CHR 0x0D then butlast s else s)"

definition scan_lines :: "string \<Rightarrow> string list" where
  "scan_lines s = (let ls = split_on newline s in if last ls = [] then butlast ls else ls)"

fun parse_lines :: "string list \<Rightarrow> goerr option \<Rightarrow> host_mount list result" where
  "parse_lines [] failure =
     (case failure of None \<Rightarrow> Inr [] | Some e \<Rightarrow> Inl (wrap_error ''hostfs: read mountinfo'' e))"
| "parse_lines (l # ls) failure =
     (if max_token \<le> length l
      then Inl (wrap_error ''hostfs: read mountinfo'' (new_error ''bufio.Scanner: token too long''))
      else if text_fields (drop_cr l) = [] then parse_lines ls failure
      else rbind (parse_mount_line (drop_cr l)) (\<lambda>m. rbind (parse_lines ls failure) (\<lambda>ms. Inr (m # ms))))"

definition default_mountinfo_path :: string where
  "default_mountinfo_path = ''/proc/self/mountinfo''"

definition new_os :: "string \<Rightarrow> string" where
  "new_os mountinfo_path = (if mountinfo_path = '''' then default_mountinfo_path else mountinfo_path)"

definition os_mounts :: "kernel \<Rightarrow> string \<Rightarrow> goerr option \<Rightarrow> host_mount list result" where
  "os_mounts k mountinfo_path ctx =
     unless_cancelled ctx
       (rbind (wrap_result ''hostfs: open mountinfo'' (kn_read_file k mountinfo_path))
          (\<lambda>(s, failure). parse_lines (scan_lines s) failure))"

definition device_id :: "kernel \<Rightarrow> goerr option \<Rightarrow> string \<Rightarrow> 64 word result" where
  "device_id k ctx path = unless_cancelled ctx (wrap_result (''hostfs: stat '' @ path) (kn_stat_dev k path))"

definition is_mountpoint :: "kernel \<Rightarrow> goerr option \<Rightarrow> string \<Rightarrow> bool result" where
  "is_mountpoint k ctx path =
     unless_cancelled ctx
       (if path = ''/'' then Inr True
        else rbind (device_id k ctx path) (\<lambda>dev.
             rbind (device_id k ctx (path_dir path)) (\<lambda>parent.
             Inr (dev \<noteq> parent))))"

section \<open>The client\<close>

text \<open>The interface the checks use, on a node whose context is not cancelled.\<close>

definition os_client :: "kernel \<Rightarrow> string \<Rightarrow> host_client" where
  "os_client k mountinfo_path =
     \<lparr>host_mounts = os_mounts k (new_os mountinfo_path) None,
      host_is_mountpoint = is_mountpoint k None,
      host_device_id = (\<lambda>path. rbind (device_id k None path) (\<lambda>d. Inr (uint d))),
      host_usage = disk_space k None,
      host_dir_size = dir_size k (\<lambda>_. None),
      host_list_dir = list_dir k None\<rparr>"

end
