(* ===== verification/Host_Laws.thy ===== *)
theory Host_Laws
  imports Host_Fs
begin

text \<open>
  What the host client reports: the space figures against the arithmetic without wrap-around, a directory's
  size against the files of the tree, and a mount against the line the kernel writes for it.
\<close>

section \<open>Space\<close>

definition percent_of :: "int \<Rightarrow> int \<Rightarrow> f64" where
  "percent_of used denom = f_mul (f_div (f_of_int used) (f_of_int denom)) (Fin 100)"

lemma f_of_int_between:
  assumes "0 \<le> i" "i \<le> 2 ^ 64"
  obtains r where "f_of_int i = Fin r" "0 \<le> r"
proof -
  have "round64 (2 ^ 64) = Fin (2 ^ 64)" by code_simp
  then have "f_of_int (2 ^ 64) = Fin (2 ^ 64)" by (simp add: f_of_int_def)
  with f_of_int_mono [OF assms(2)] have hi: "f_le (f_of_int i) (Fin (2 ^ 64))" by simp
  have "f_le (Fin 0) (f_of_int i)" using assms by (simp add: f_of_int_def round64_nonneg)
  with hi that show ?thesis by (cases "f_of_int i") auto
qed

lemma percent_in_range:
  assumes "0 \<le> used" "used \<le> denom" "0 < denom" "denom \<le> 2 ^ 64"
  shows "f_le (Fin 0) (percent_of used denom) \<and> f_le (percent_of used denom) (Fin 100)"
proof -
  obtain u where u: "f_of_int used = Fin u" "0 \<le> u"
    using f_of_int_between [of used] assms by auto
  obtain d where d: "f_of_int denom = Fin d" "0 \<le> d"
    using f_of_int_between [of denom] assms by auto
  have "f_le (f_of_int 1) (f_of_int denom)" using assms by (intro f_of_int_mono) simp
  moreover have "f_of_int 1 = Fin 1" using f_of_int_exact [of 1] by simp
  ultimately have "1 \<le> d" using d by simp
  moreover have "u \<le> d" using f_of_int_mono [OF assms(2)] u d by simp
  ultimately have "0 \<le> u / d" "u / d \<le> 1" using u by simp_all
  then obtain q where q: "round64 (u / d) = Fin q" "0 \<le> q" "q \<le> 1" by (rule round64_unit_interval)
  have hundred: "round64 100 = Fin 100" using f_of_int_exact [of 100] by (simp add: f_of_int_def)
  have "percent_of used denom = round64 (q * 100)"
    using u d q \<open>1 \<le> d\<close> by (simp add: percent_of_def)
  moreover have "f_le (Fin 0) (round64 (q * 100))" using q by (intro round64_nonneg) simp
  moreover have "f_le (round64 (q * 100)) (round64 100)" using q by (intro round64_mono) simp
  ultimately show ?thesis using hundred by simp
qed

lemma uint_mult_exact: "uint (x :: 64 word) * uint y < 2 ^ 64 \<Longrightarrow> uint (x * y) = uint x * uint y"
  using uint_mult_lem [of x y] by simp

lemma uint_add_exact: "uint (x :: 64 word) + uint y < 2 ^ 64 \<Longrightarrow> uint (x + y) = uint x + uint y"
  using uint_add_lem [of x y] by simp

text \<open>The space figures are exact: for a file system whose size in bytes fits 64 bits and whose free
  blocks are no more than its blocks, the total, the free and the used bytes are the block counts times the block
  size with no wrap-around, and the percentage is a number between 0 and 100, as its documentation says.\<close>

theorem usage_is_exact:
  assumes size: "uint (sf_blocks st) * uint (sf_bsize st) < 2 ^ 64"
    and free: "sf_bavail st \<le> sf_bfree st" "sf_bfree st \<le> sf_blocks st"
  shows "us_total (usage_of p st) = uint (sf_blocks st) * uint (sf_bsize st)
       \<and> us_free (usage_of p st) = uint (sf_bavail st) * uint (sf_bsize st)
       \<and> us_used (usage_of p st) = (uint (sf_blocks st) - uint (sf_bfree st)) * uint (sf_bsize st)
       \<and> us_used (usage_of p st) + us_free (usage_of p st) \<le> us_total (usage_of p st)
       \<and> f_le (Fin 0) (us_used_percent (usage_of p st)) \<and> f_le (us_used_percent (usage_of p st)) (Fin 100)"
proof -
  let ?B = "uint (sf_bsize st)" and ?n = "uint (sf_blocks st)"
  let ?a = "uint (sf_bavail st)" and ?f = "uint (sf_bfree st)"
  have le: "?a \<le> ?f" "?f \<le> ?n" using free by (simp_all add: word_le_def)
  have nn: "0 \<le> ?B" "0 \<le> ?a" by simp_all
  have diff: "uint (sf_blocks st - sf_bfree st) = ?n - ?f"
    using uint_sub_lem [of "sf_bfree st" "sf_blocks st"] le by simp
  have "?a * ?B \<le> ?n * ?B" "(?n - ?f) * ?B \<le> ?n * ?B"
    using le nn by (auto intro: mult_right_mono)
  then have fr: "uint (sf_bavail st * sf_bsize st) = ?a * ?B"
    and us: "uint ((sf_blocks st - sf_bfree st) * sf_bsize st) = (?n - ?f) * ?B"
    using size diff uint_mult_exact [of "sf_bavail st" "sf_bsize st"]
      uint_mult_exact [of "sf_blocks st - sf_bfree st" "sf_bsize st"] by simp_all
  have tot: "uint (sf_blocks st * sf_bsize st) = ?n * ?B" using size by (rule uint_mult_exact)
  have "(?n - ?f + ?a) * ?B \<le> ?n * ?B" using le nn by (intro mult_right_mono) simp_all
  then have sm: "(?n - ?f) * ?B + ?a * ?B \<le> ?n * ?B" by (simp only: distrib_right)
  let ?u = "(sf_blocks st - sf_bfree st) * sf_bsize st" and ?e = "sf_bavail st * sf_bsize st"
  have den: "uint (?u + ?e) = uint ?u + uint ?e"
    using sm size by (intro uint_add_exact) (simp add: us fr)
  have "f_le (Fin 0) (us_used_percent (usage_of p st)) \<and> f_le (us_used_percent (usage_of p st)) (Fin 100)"
  proof (cases "0 < ?u + ?e")
    case True
    then have "0 < uint (?u + ?e)" by (simp add: word_less_def)
    moreover have "uint (?u + ?e) \<le> 2 ^ 64" using uint_lt2p [of "?u + ?e"] by simp
    moreover have "uint ?u \<le> uint (?u + ?e)" using den by simp
    ultimately show ?thesis
      using percent_in_range [of "uint ?u" "uint (?u + ?e)"] True
      by (simp add: usage_of_def percent_of_def Let_def)
  next
    case False
    then show ?thesis by (simp add: usage_of_def Let_def)
  qed
  then show ?thesis using tot fr us sm by (simp add: usage_of_def Let_def)
qed

theorem usage_is_exact_witness:
  "us_used (usage_of ''/media'' \<lparr>sf_bsize = 4096, sf_blocks = 1000, sf_bfree = 400, sf_bavail = 350\<rparr>)
     + us_free (usage_of ''/media'' \<lparr>sf_bsize = 4096, sf_blocks = 1000, sf_bfree = 400, sf_bavail = 350\<rparr>)
     \<le> us_total (usage_of ''/media'' \<lparr>sf_bsize = 4096, sf_blocks = 1000, sf_bfree = 400, sf_bavail = 350\<rparr>)"
  using usage_is_exact [of "\<lparr>sf_bsize = 4096, sf_blocks = 1000, sf_bfree = 400, sf_bavail = 350\<rparr>" "''/media''"]
  by (simp add: word_le_def)

section \<open>Directory sizes\<close>

text \<open>The reference: the bytes of the regular files no deeper than the limit, and whether all of that can be read.\<close>

definition in_reach :: "int \<Rightarrow> int \<Rightarrow> bool" where
  "in_reach limit depth \<longleftrightarrow> limit \<le> 0 \<or> depth \<le> limit"

fun bytes_within :: "int \<Rightarrow> int \<Rightarrow> fs_node \<Rightarrow> int"
  and children_bytes :: "int \<Rightarrow> int \<Rightarrow> (string \<times> fs_node) list \<Rightarrow> int" where
  "bytes_within m d (Regular (Inr n)) = (if in_reach m d then n else 0)"
| "bytes_within m d (Regular (Inl e)) = 0"
| "bytes_within m d Special = 0"
| "bytes_within m d (Directory e cs) = children_bytes m (d + 1) cs"
| "children_bytes m d [] = 0"
| "children_bytes m d ((name, c) # cs) = bytes_within m d c + children_bytes m d cs"

fun readable :: "int \<Rightarrow> int \<Rightarrow> fs_node \<Rightarrow> bool"
  and children_readable :: "int \<Rightarrow> int \<Rightarrow> (string \<times> fs_node) list \<Rightarrow> bool" where
  "readable m d (Regular r) \<longleftrightarrow> (case r of Inl _ \<Rightarrow> \<not> in_reach m d | Inr _ \<Rightarrow> True)"
| "readable m d Special \<longleftrightarrow> True"
| "readable m d (Directory e cs) \<longleftrightarrow> (in_reach m d \<longrightarrow> e = None) \<and> children_readable m (d + 1) cs"
| "children_readable m d [] \<longleftrightarrow> True"
| "children_readable m d ((name, c) # cs) \<longleftrightarrow> readable m d c \<and> children_readable m d cs"

fun plain_names :: "fs_node \<Rightarrow> bool" and plain_children :: "(string \<times> fs_node) list \<Rightarrow> bool" where
  "plain_names (Directory e cs) \<longleftrightarrow> plain_children cs"
| "plain_names _ \<longleftrightarrow> True"
| "plain_children [] \<longleftrightarrow> True"
| "plain_children ((name, c) # cs) \<longleftrightarrow> plain_comp name \<and> plain_names c \<and> plain_children cs"

lemma nothing_below_the_limit:
  "\<not> in_reach m d \<Longrightarrow> bytes_within m d c = 0 \<and> readable m d c"
  "\<not> in_reach m d \<Longrightarrow> children_bytes m d cs = 0 \<and> children_readable m d cs"
  by (induction m d c and m d cs rule: bytes_within_children_bytes.induct) (auto simp: in_reach_def)

lemma drop_common_append [simp]: "drop_common xs (xs @ ys) = ([], ys)"
  by (induction xs) (cases ys; simp)+

definition below :: "string \<Rightarrow> string \<Rightarrow> string list \<Rightarrow> bool" where
  "below rt path ds \<longleftrightarrow>
     is_rooted path = is_rooted rt \<and> clean_comps path = clean_comps rt @ ds \<and> path \<noteq> ''''"

lemma below_depth: "below rt path ds \<Longrightarrow> depth_below rt path = int (length ds)"
  by (auto simp: below_def depth_below_def rel_comps_def split: prod.splits)

lemma below_too_deep: "below rt path ds \<Longrightarrow> too_deep rt m path \<longleftrightarrow> \<not> in_reach m (int (length ds))"
  by (frule below_depth) (auto simp: too_deep_def in_reach_def below_def)

lemma path_join_ne: "a \<noteq> '''' \<Longrightarrow> path_join a b \<noteq> ''''"
  by (simp add: path_join_def)

lemma below_child: "below rt path ds \<Longrightarrow> plain_comp name \<Longrightarrow> below rt (path_join path name) (ds @ [name])"
  using path_join_comps [of path name] path_join_ne [of path name] by (auto simp: below_def)

lemma wrap_int64_wrap_add: "wrap_int64 (wrap_int64 a + b) = wrap_int64 (a + b)"
proof -
  let ?M = "18446744073709551616 :: int" and ?H = "9223372036854775808 :: int"
  have "(wrap_int64 a + b + ?H) mod ?M = ((a + ?H) mod ?M + b) mod ?M" by (simp add: wrap_int64_def)
  also have "\<dots> = (a + b + ?H) mod ?M" by (simp add: mod_simps algebra_simps)
  finally show ?thesis by (simp add: wrap_int64_def)
qed

definition sums_up :: "int \<Rightarrow> int \<Rightarrow> bool \<Rightarrow> int result \<Rightarrow> bool" where
  "sums_up start bytes ok r \<longleftrightarrow>
     (case r of Inr n \<Rightarrow> ok \<and> n = wrap_int64 (start + bytes) | Inl _ \<Rightarrow> \<not> ok)"

lemma sums_up_simps [simp]:
  "sums_up s b ok (Inr n) \<longleftrightarrow> ok \<and> n = wrap_int64 (s + b)" "sums_up s b ok (Inl e) \<longleftrightarrow> \<not> ok"
  by (simp_all add: sums_up_def)

lemma sums_up_bind:
  assumes "sums_up s b ok r" "\<And>n. r = Inr n \<Longrightarrow> n = wrap_int64 (s + b) \<Longrightarrow> sums_up n c ok' (f n)"
  shows "sums_up s (b + c) (ok \<and> ok') (rbind r f)"
proof (cases r)
  case (Inl e)
  with assms(1) show ?thesis by simp
next
  case (Inr n)
  with assms have n: "ok" "n = wrap_int64 (s + b)" "sums_up n c ok' (f n)" by simp_all
  then show ?thesis using Inr by (cases "f n") (simp_all add: wrap_int64_wrap_add add.assoc)
qed

lemma walk_sums_up:
  "below rt path ds \<Longrightarrow> plain_names c \<Longrightarrow> wrap_int64 s = s \<Longrightarrow>
     sums_up s (bytes_within m (int (length ds)) c) (readable m (int (length ds)) c)
       (walk (\<lambda>_. None) rt m path c s)"
  "below rt path ds \<Longrightarrow> plain_children cs \<Longrightarrow> wrap_int64 s = s \<Longrightarrow>
     sums_up s (children_bytes m (int (length ds) + 1) cs) (children_readable m (int (length ds) + 1) cs)
       (walk_children (\<lambda>_. None) rt m path cs s)"
proof (induction "\<lambda>_ :: string. None :: goerr option" rt m path c s
    and "\<lambda>_ :: string. None :: goerr option" rt m path cs s arbitrary: ds and ds
    rule: walk_walk_children.induct)
  case (1 rt m path node s)
  show ?case
  proof (cases "in_reach m (int (length ds))")
    case False
    with 1(2,4) nothing_below_the_limit(1) [OF False, of node] show ?thesis
      by (simp add: walk.simps below_too_deep)
  next
    case True
    then have deep: "\<not> too_deep rt m path" using 1(2) by (simp add: below_too_deep)
    show ?thesis
    proof (cases node)
      case (Regular r)
      with True deep 1(4) show ?thesis by (cases r) (simp_all add: walk.simps)
    next
      case (Directory e cs)
      with True deep 1 show ?thesis by (cases e) (simp_all add: walk.simps)
    next
      case Special
      with True deep 1(4) show ?thesis by (simp add: walk.simps)
    qed
  qed
next
  case (2 rt m path s)
  then show ?case by simp
next
  case (3 rt m path name c rest s)
  have child: "below rt (path_join path name) (ds @ [name])" using 3 by (intro below_child) simp_all
  have "int (length (ds @ [name])) = int (length ds) + 1" by simp
  then have "sums_up s (bytes_within m (int (length ds) + 1) c) (readable m (int (length ds) + 1) c)
      (walk (\<lambda>_. None) rt m (path_join path name) c s)"
    using 3(1) [OF child] 3(4,5) by (simp add: add.commute)
  moreover have "wrap_int64 (wrap_int64 n) = wrap_int64 n" for n using wrap_int64_wrap_add [of n 0] by simp
  ultimately have "sums_up s (bytes_within m (int (length ds) + 1) c + children_bytes m (int (length ds) + 1) rest)
      (readable m (int (length ds) + 1) c \<and> children_readable m (int (length ds) + 1) rest)
      (rbind (walk (\<lambda>_. None) rt m (path_join path name) c s) (walk_children (\<lambda>_. None) rt m path rest))"
    using 3(2) [OF 3(3)] 3(4) by (intro sums_up_bind) auto
  then show ?case by simp
qed

text \<open>C27: A directory's size is the size of its files: when the directory can be looked at and the names in it are
  names, the walk answers the sum of the sizes of the regular files no deeper below the directory than the limit
  (of all of them without a limit), modulo the range of 64 bits, if everything down to there can be read, and an
  error otherwise. Where the directory lies does not matter, so the depth counted on paths is the depth in the
  tree for the file system's root and for relative paths too.\<close>

theorem dir_size_counts_files:
  assumes "kn_tree k rt = Inr node" "plain_names node" "rt \<noteq> ''''"
  shows "case dir_size k (\<lambda>_. None) rt limit of
           Inr n \<Rightarrow> readable limit 0 node \<and> n = wrap_int64 (bytes_within limit 0 node)
         | Inl _ \<Rightarrow> \<not> readable limit 0 node"
proof -
  have "below rt rt []" using assms by (simp add: below_def)
  then have "sums_up 0 (bytes_within limit 0 node) (readable limit 0 node) (walk (\<lambda>_. None) rt limit rt node 0)"
    using walk_sums_up(1) [of rt rt "[]" node 0 limit] assms(2) by (simp add: wrap_int64_def)
  then show ?thesis
    using assms(1) by (cases "walk (\<lambda>_. None) rt limit rt node 0") (simp_all add: dir_size_def)
qed

definition sample_tree :: fs_node where
  "sample_tree = Directory None [(''a'', Regular (Inr 10)), (''b'', Directory None [(''c'', Regular (Inr 5))])]"

definition sample_kernel :: kernel where
  "sample_kernel = \<lparr>kn_statfs = (\<lambda>_. Inl (new_error ''no space'')), kn_stat_dev = (\<lambda>_. Inr 1),
     kn_tree = (\<lambda>_. Inr sample_tree), kn_readdir = (\<lambda>_. Inr []), kn_remove_all = (\<lambda>_. Inr ()),
     kn_read_file = (\<lambda>_. Inr ('''', None))\<rparr>"

theorem dir_size_counts_files_witness:
  "dir_size sample_kernel (\<lambda>_. None) ''/'' 1 = Inr 10 \<and> dir_size sample_kernel (\<lambda>_. None) ''/'' 0 = Inr 15"
proof -
  have t: "kn_tree sample_kernel ''/'' = Inr sample_tree" by (simp add: sample_kernel_def)
  have p: "plain_names sample_tree" by code_simp
  have v: "readable 1 0 sample_tree" "bytes_within 1 0 sample_tree = 10"
    "readable 0 0 sample_tree" "bytes_within 0 0 sample_tree = 15" by code_simp+
  show ?thesis
    using dir_size_counts_files [OF t p, of 1] dir_size_counts_files [OF t p, of 0] v
    by (auto simp: wrap_int64_def split: sum.splits)
qed

section \<open>The mount table\<close>

text \<open>
  The kernel writes a byte \<open>esc\<close> selects as a backslash and its three octal digits, and separates the
  items of a line with blanks.
\<close>

definition octal_escape :: "char \<Rightarrow> string" where
  "octal_escape c = (let n = of_char c :: nat
     in [backslash, char_of (48 + n div 64), char_of (48 + n div 8 mod 8), char_of (48 + n mod 8)])"

definition kernel_escape :: "(char \<Rightarrow> bool) \<Rightarrow> string \<Rightarrow> string" where
  "kernel_escape esc s = concat (map (\<lambda>c. if esc c then octal_escape c else [c]) s)"

lemma octal_digit_char: "d < 8 \<Longrightarrow> octal_digit (char_of (48 + d)) = Some d"
  by (simp add: octal_digit_def)

lemma unescape_octal_escape: "unescape_octal (octal_escape c @ s) = c # unescape_octal s"
proof -
  let ?n = "of_char c :: nat"
  have n: "?n < 256" by (rule of_char_lt_256)
  have eight: "?n div 64 = ?n div 8 div 8" by (simp flip: div_mult2_eq)
  have "?n div 64 < 8" using n by (intro less_mult_imp_div_less) linarith
  then have d: "octal_digit (char_of (48 + ?n div 64)) = Some (?n div 64)" by (rule octal_digit_char)
  have v: "64 * (?n div 64) + 8 * (?n div 8 mod 8) + ?n mod 8 = ?n"
    using mult_div_mod_eq [of 8 "?n"] mult_div_mod_eq [of 8 "?n div 8"] unfolding eight by linarith
  have "octal_byte (char_of (48 + ?n div 64)) (char_of (48 + ?n div 8 mod 8)) (char_of (48 + ?n mod 8)) = Some ?n"
    using n by (simp add: octal_byte_def d octal_digit_char v Let_def)
  then show ?thesis by (simp add: octal_escape_def Let_def)
qed

lemma unescape_octal_other: "c \<noteq> backslash \<Longrightarrow> unescape_octal (c # s) = c # unescape_octal s"
  by (cases s rule: unescape_octal.cases) simp_all

lemma unescape_kernel_escape: "esc backslash \<Longrightarrow> unescape_octal (kernel_escape esc s) = s"
proof (induction s)
  case Nil
  then show ?case by (simp add: kernel_escape_def)
next
  case (Cons c s)
  then have "c \<noteq> backslash" if "\<not> esc c" using that by blast
  with Cons show ?case by (simp add: kernel_escape_def unescape_octal_escape unescape_octal_other)
qed

text \<open>A text without white space, whatever follows it.\<close>

fun unbroken :: "string \<Rightarrow> bool" where
  "unbroken [] \<longleftrightarrow> True"
| "unbroken (c # cs) \<longleftrightarrow> white (c # cs) = 0 \<and> unbroken cs"

definition solid :: "string \<Rightarrow> bool" where
  "solid s \<longleftrightarrow> s \<noteq> [] \<and> unbroken s"

lemma white_before_blank: "cs = [] \<or> white (c # cs) = 0 \<Longrightarrow> white (c # cs) = 0 \<Longrightarrow> white (c # cs @ CHR '' '' # r) = 0"
  by (cases cs rule: unescape_octal.cases)
    (auto simp: Let_def take_Cons' hd_append split: if_splits)

lemma split_white_solid:
  "unbroken s \<Longrightarrow> split_white acc (s @ CHR '' '' # r) = emit (acc @ s) @ split_white [] r"
proof (induction s arbitrary: acc)
  case Nil
  have "white (CHR '' '' # r) = 1" by (simp add: is_space_def)
  then show ?case by (simp del: white.simps)
next
  case (Cons c cs)
  then show ?case using white_before_blank [of cs c r] by (simp del: white.simps)
qed

lemma split_white_end: "unbroken s \<Longrightarrow> split_white acc s = emit (acc @ s)"
  by (induction s arbitrary: acc) (simp_all del: white.simps)

lemma text_fields_join: "fs \<noteq> [] \<Longrightarrow> \<forall>f \<in> set fs. solid f \<Longrightarrow> text_fields (join_with '' '' fs) = fs"
proof (induction fs)
  case Nil
  then show ?case by simp
next
  case (Cons f fs)
  then show ?case
    by (cases "fs = []")
      (simp_all add: text_fields_def join_with_Cons solid_def split_white_solid split_white_end emit_def)
qed

lemma dash_index_skip: "''-'' \<notin> set xs \<Longrightarrow> dash_index i (xs @ ''-'' # ys) = Some (i + length xs)"
  by (induction xs arbitrary: i) auto

text \<open>A line of the mount table: six items, optional ones, a lone dash and three more.\<close>

definition mount_line_items :: "(char \<Rightarrow> bool) \<Rightarrow> string list \<Rightarrow> string list \<Rightarrow> string \<Rightarrow> host_mount \<Rightarrow> string list" where
  "mount_line_items esc ids optional super m =
     ids @ [kernel_escape esc (hm_target m), join_with '','' (hm_options m)] @ optional @
     [''-'', hm_fs_type m, kernel_escape esc (hm_source m), super]"

text \<open>C26: A mount survives the trip through the mount table: if the kernel escapes at least the backslash, and no
  item of its line is empty or holds white space after that, then parsing the line gives back the mount point and
  the source with every escape undone, the type and the options of the mount, whatever optional items the kernel
  puts before the dash.\<close>

theorem mount_line_round_trip:
  assumes "esc backslash" "length ids = 4" "''-'' \<notin> set optional"
    and "hm_options m \<noteq> []" "\<forall>opt \<in> set (hm_options m). CHR '','' \<notin> set opt"
    and "\<forall>f \<in> set (mount_line_items esc ids optional super m). solid f"
  shows "parse_mount_line (join_with '' '' (mount_line_items esc ids optional super m)) = Inr m"
proof -
  let ?fs = "mount_line_items esc ids optional super m"
  have fs: "text_fields (join_with '' '' ?fs) = ?fs"
    using assms(6) by (intro text_fields_join) (simp_all add: mount_line_items_def)
  have len: "length ?fs = 10 + length optional" using assms(2) by (simp add: mount_line_items_def)
  have "drop 6 ?fs = optional @ ''-'' # [hm_fs_type m, kernel_escape esc (hm_source m), super]"
    using assms(2) by (simp add: mount_line_items_def)
  then have d: "dash_index min_mountinfo_fields (drop min_mountinfo_fields ?fs) = Some (6 + length optional)"
    using assms(3) dash_index_skip by (simp add: min_mountinfo_fields_def)
  have at: "?fs ! 4 = kernel_escape esc (hm_target m)" "?fs ! 5 = join_with '','' (hm_options m)"
    "?fs ! (6 + length optional + 1) = hm_fs_type m"
    "?fs ! (6 + length optional + 2) = kernel_escape esc (hm_source m)"
    using assms(2) by (simp_all add: mount_line_items_def nth_append)
  show ?thesis
    using assms(1,4,5) len d at
    by (simp add: parse_mount_line_def fs min_mountinfo_fields_def unescape_kernel_escape split_on_join)
qed

definition linux_escaped :: "char \<Rightarrow> bool" where
  "linux_escaped c \<longleftrightarrow> c \<in> set [CHR '' '', CHR 0x09, CHR 0x0A, backslash, CHR ''#'']"

definition sample_mount :: "string \<Rightarrow> host_mount" where
  "sample_mount target = \<lparr>hm_target = target, hm_source = ''nas:/volume1'', hm_fs_type = ''nfs4'',
     hm_options = [''rw'', ''noatime'']\<rparr>"

abbreviation sample_ids :: "string list" where
  "sample_ids \<equiv> [''36'', ''35'', ''98:0'', ''/'']"

theorem mount_line_round_trip_witness:
  "parse_mount_line (join_with '' '' (mount_line_items linux_escaped sample_ids [''shared:1''] ''rw''
     (sample_mount ''/mnt/my disk''))) = Inr (sample_mount ''/mnt/my disk'')"
proof (rule mount_line_round_trip)
  show "linux_escaped backslash" by code_simp
  show "\<forall>f \<in> set (mount_line_items linux_escaped sample_ids [''shared:1''] ''rw'' (sample_mount ''/mnt/my disk'')).
      solid f" by code_simp
qed (simp_all add: sample_mount_def)

text \<open>
  The kernel leaves a no-break space (the bytes C2 A0) as it is, but \<open>strings.Fields\<close> splits there: such a
  mount point is cut, and what follows is read as the mount's options.
\<close>

lemma no_break_space_cuts_mount_point:
  "parse_mount_line (join_with '' '' (mount_line_items linux_escaped sample_ids [] ''rw''
     (sample_mount (''/mnt/my'' @ [CHR 0xC2, CHR 0xA0] @ ''disk''))))
   = Inr ((sample_mount ''/mnt/my'')\<lparr>hm_options := [''disk'']\<rparr>)"
  by code_simp

section \<open>Removing\<close>

text \<open>Only the two literal spellings are refused: another spelling of the root reaches \<open>os.RemoveAll\<close>.\<close>

lemma remove_refuses_literally:
  "remove_path k None '''' = Inl (new_error (''hostfs: refusing to remove '' @ go_quote ''''))"
  "remove_path k None ''/'' = Inl (new_error (''hostfs: refusing to remove '' @ go_quote ''/''))"
  "clean ''//'' = ''/'' \<and> remove_path k None ''//'' = wrap_result ''hostfs: remove //'' (kn_remove_all k ''//'')"
proof -
  have "clean ''//'' = ''/''" by code_simp
  then show "clean ''//'' = ''/'' \<and> remove_path k None ''//'' = wrap_result ''hostfs: remove //'' (kn_remove_all k ''//'')"
    by (simp add: remove_path_def unless_cancelled_def)
qed (simp_all add: remove_path_def unless_cancelled_def)

end
