(* ===== verification/Upstream.thy ===== *)
theory Upstream
  imports Httpx Clients "HOL-Library.Word"
begin

text \<open>
  What the HTTP clients of the upstream services share: requests over a network that has a state, the
  conversion of the values services write loosely, and listings that come in pages.
\<close>

section \<open>Requests over a network\<close>

text \<open>A call on the rest of the world, whose state the caller does not see.\<close>

type_synonym ('a, 's) io = "'s \<Rightarrow> 'a result \<times> 's"

type_synonym 's wire = "http_request \<Rightarrow> 's \<Rightarrow> http_outcome \<times> 's"

definition ireturn :: "'a \<Rightarrow> ('a, 's) io" where
  "ireturn x s = (Inr x, s)"

definition ibind :: "('a, 's) io \<Rightarrow> ('a \<Rightarrow> ('b, 's) io) \<Rightarrow> ('b, 's) io" where
  "ibind m f s = (case m s of (Inl e, s') \<Rightarrow> (Inl e, s') | (Inr x, s') \<Rightarrow> f x s')"

definition iwrap :: "string \<Rightarrow> ('a, 's) io \<Rightarrow> ('a, 's) io" where
  "iwrap p m s = (case m s of (r, s') \<Rightarrow> (wrap_result p r, s'))"

definition over_wire :: "'s wire \<Rightarrow> http_request \<Rightarrow> (exchange \<Rightarrow> 'a result) \<Rightarrow> ('a, 's) io" where
  "over_wire net rq f s = (case net rq s of (out, s') \<Rightarrow> (f (\<lambda>_. out), s'))"

definition io_get_json :: "http_client \<Rightarrow> 's wire \<Rightarrow> (string \<Rightarrow> 'a result) \<Rightarrow> string \<Rightarrow> query_values option \<Rightarrow> ('a option, 's) io" where
  "io_get_json c net dec path query =
     over_wire net (request_of c ''GET'' (resolve c path query) '''' '''') (\<lambda>ex. get_json c ex dec path query)"

definition io_get_text :: "http_client \<Rightarrow> 's wire \<Rightarrow> string \<Rightarrow> query_values option \<Rightarrow> (string, 's) io" where
  "io_get_text c net path query =
     over_wire net (request_of c ''GET'' (resolve c path query) '''' '''') (\<lambda>ex. get_text c ex path query)"

text \<open>A body that cannot be encoded is never sent.\<close>

definition io_send_json :: "http_client \<Rightarrow> 's wire \<Rightarrow> (string \<Rightarrow> 'a result) \<Rightarrow> string \<Rightarrow> string \<Rightarrow> query_values option \<Rightarrow>
    string result option \<Rightarrow> ('a option, 's) io" where
  "io_send_json c net dec method path query body =
     (case body of
        Some (Inl e) \<Rightarrow> (\<lambda>s. (Inl (wrap_error ''httpx: encode body'' e), s))
      | _ \<Rightarrow> over_wire net
               (request_of c method (resolve c path query) (case body of Some (Inr b) \<Rightarrow> b | _ \<Rightarrow> '''') ''application/json'')
               (\<lambda>ex. send_json c ex dec method path query body))"

definition io_delete :: "http_client \<Rightarrow> 's wire \<Rightarrow> string \<Rightarrow> query_values option \<Rightarrow> (unit, 's) io" where
  "io_delete c net path query =
     over_wire net (request_of c ''DELETE'' (resolve c path query) '''' '''') (\<lambda>ex. http_delete c ex path query)"

definition io_post_form :: "http_client \<Rightarrow> 's wire \<Rightarrow> string \<Rightarrow> query_values \<Rightarrow> (string, 's) io" where
  "io_post_form c net path form =
     over_wire net (request_of c ''POST'' (resolve c path None) (encode form) ''application/x-www-form-urlencoded'')
       (\<lambda>ex. post_form c ex path form)"

text \<open>Where the caller passes no destination the body is not decoded.\<close>

definition discard :: "string \<Rightarrow> unit result" where
  "discard body = Inr ()"

definition ignore :: "('a, 's) io \<Rightarrow> (unit, 's) io" where
  "ignore m = ibind m (\<lambda>_. ireturn ())"

text \<open>A response without a body leaves the destination at its zero value.\<close>

definition or_zero :: "'a \<Rightarrow> ('a option, 's) io \<Rightarrow> ('a, 's) io" where
  "or_zero z m = ibind m (\<lambda>r. ireturn (case r of None \<Rightarrow> z | Some v \<Rightarrow> v))"

definition show_bool :: "bool \<Rightarrow> string" where
  "show_bool b = (if b then ''true'' else ''false'')"

section \<open>Timestamps and loose scalars\<close>

text \<open>\<open>time.Unix\<close>: the seconds between year 1 and 1970 are added in 64 bits.\<close>

definition unix_time :: "int \<Rightarrow> time" where
  "unix_time sec = wrap_int64 (sec + 62135596800) * second"

definition epoch_of :: "int \<Rightarrow> time" where
  "epoch_of sec = (if sec \<le> 0 then 0 else unix_time sec)"

text \<open>
  A field with its own decoding method is given that method's argument, the JSON text of the value; a field
  that is absent (\<open>None\<close>) keeps its zero value.
\<close>

definition field :: "(string \<Rightarrow> 'a result) \<Rightarrow> 'a \<Rightarrow> string option \<Rightarrow> 'a result" where
  "field dec zero text = (case text of None \<Rightarrow> Inr zero | Some t \<Rightarrow> dec t)"

text \<open>The \<open>epochTime\<close> of qBittorrent and Plex: a bare integer.\<close>

definition epoch_time :: "string \<Rightarrow> string \<Rightarrow> time result" where
  "epoch_time who text =
     rbind (wrap_result (who @ '': decode epoch time '' @ go_quote text) (parse_int text)) (\<lambda>sec. Inr (epoch_of sec))"

text \<open>The runes of a quoted Go string, in UTF-8.\<close>

definition utf8 :: "nat \<Rightarrow> string" where
  "utf8 r =
     (if r < 0x80 then [char_of r]
      else if r < 0x800 then [char_of (0xC0 + r div 64), char_of (0x80 + r mod 64)]
      else if r < 0x10000 then
        [char_of (0xE0 + r div 4096), char_of (0x80 + r div 64 mod 64), char_of (0x80 + r mod 64)]
      else [char_of (0xF0 + r div 262144), char_of (0x80 + r div 4096 mod 64), char_of (0x80 + r div 64 mod 64),
            char_of (0x80 + r mod 64)])"

fun hex_value :: "nat \<Rightarrow> string \<Rightarrow> nat option" where
  "hex_value acc [] = Some acc"
| "hex_value acc (c # cs) = (case unhex c of None \<Rightarrow> None | Some d \<Rightarrow> hex_value (16 * acc + d) cs)"

fun octal_value :: "nat \<Rightarrow> string \<Rightarrow> nat option" where
  "octal_value acc [] = Some acc"
| "octal_value acc (c # cs) = (let n = of_char c :: nat
     in if 48 \<le> n \<and> n \<le> 55 then octal_value (8 * acc + (n - 48)) cs else None)"

definition valid_rune :: "nat \<Rightarrow> bool" where
  "valid_rune r \<longleftrightarrow> r < 0xD800 \<or> 0xE000 \<le> r \<and> r < 0x110000"

definition simple_escape :: "char \<Rightarrow> nat option" where
  "simple_escape c = map_of (zip ''abfnrtv'' [7, 8, 12, 10, 13, 9, 11]) c"

text \<open>\<open>strconv.Unquote\<close> of the text after the opening double quote, which is valid UTF-8.\<close>

function unquote_body :: "string \<Rightarrow> string option" where
  "unquote_body s =
     (case s of
        [] \<Rightarrow> None
      | c # cs \<Rightarrow>
          if c = CHR 34 then (if cs = [] then Some [] else None)
          else if c = newline then None
          else if c \<noteq> CHR 92 then map_option (Cons c) (unquote_body cs)
          else (case cs of
                  [] \<Rightarrow> None
                | e # rest \<Rightarrow>
                    if e = CHR 92 \<or> e = CHR 34 then map_option (Cons e) (unquote_body rest)
                    else if e = CHR ''x'' then
                      (case (if length rest < 2 then None else hex_value 0 (take 2 rest)) of
                         None \<Rightarrow> None | Some v \<Rightarrow> map_option (Cons (char_of v)) (unquote_body (drop 2 rest)))
                    else if e = CHR ''u'' \<or> e = CHR ''U'' then
                      (let n = (if e = CHR ''u'' then 4 else 8)
                       in case (if length rest < n then None else hex_value 0 (take n rest)) of
                            None \<Rightarrow> None
                          | Some v \<Rightarrow> if valid_rune v then map_option (append (utf8 v)) (unquote_body (drop n rest)) else None)
                    else if CHR ''0'' \<le> e \<and> e \<le> CHR ''7'' then
                      (case (if length rest < 2 then None else octal_value 0 (e # take 2 rest)) of
                         None \<Rightarrow> None
                       | Some v \<Rightarrow> if 255 < v then None else map_option (Cons (char_of v)) (unquote_body (drop 2 rest)))
                    else (case simple_escape e of
                            None \<Rightarrow> None | Some v \<Rightarrow> map_option (Cons (char_of v)) (unquote_body rest))))"
  by pat_completeness auto
termination by (relation "measure length") (auto simp: le_imp_less_Suc)

declare unquote_body.simps [simp del]

text \<open>\<open>looseScalarText\<close>; \<open>None\<close> stands for JSON null.\<close>

definition loose_scalar_text :: "string \<Rightarrow> string option result" where
  "loose_scalar_text text =
     (if text = ''null'' then Inr None
      else if 2 \<le> length text \<and> hd text = CHR 34 then
        (case unquote_body (tl text) of
           None \<Rightarrow> Inl (wrap_error (''tautulli: decode quoted value '' @ go_quote text) (new_error ''invalid syntax''))
         | Some t \<Rightarrow> Inr (Some t))
      else Inr (Some text))"

definition loose_number_string :: "string \<Rightarrow> string result" where
  "loose_number_string text = rbind (loose_scalar_text text) (\<lambda>t. Inr (case t of None \<Rightarrow> '''' | Some s \<Rightarrow> s))"

text \<open>Null and the empty text are the zero value; anything else has to parse.\<close>

definition loose :: "string \<Rightarrow> (string \<Rightarrow> 'a result) \<Rightarrow> 'a \<Rightarrow> string \<Rightarrow> 'a result" where
  "loose what parse zero text =
     rbind (loose_scalar_text text) (\<lambda>t.
       case t of
         None \<Rightarrow> Inr zero
       | Some s \<Rightarrow> if s = '''' then Inr zero
                   else wrap_result (''tautulli: decode '' @ what @ '' '' @ go_quote text) (parse s))"

definition loose_float :: "(string \<Rightarrow> f64 result) \<Rightarrow> string \<Rightarrow> f64 result" where
  "loose_float parse_float = loose ''number'' parse_float (Fin 0)"

definition loose_int :: "string \<Rightarrow> int result" where
  "loose_int = loose ''integer'' parse_int 0"

definition loose_epoch :: "string \<Rightarrow> time result" where
  "loose_epoch text = rbind (loose ''epoch time'' parse_int 0 text) (\<lambda>sec. Inr (epoch_of sec))"

text \<open>\<open>nullTime\<close> of Prowlarr; \<open>parse\<close> is the decoding method of \<open>time.Time\<close>.\<close>

definition null_time :: "(string \<Rightarrow> time result) \<Rightarrow> string \<Rightarrow> time result" where
  "null_time parse text = (if text = ''null'' \<or> text = [CHR 34, CHR 34] then Inr 0 else parse text)"

section \<open>Pages\<close>

text \<open>One page of a listing: how many records the service says there are, and the records of the page.\<close>

record 'r page =
  pg_total :: "64 word"
  pg_records :: "'r list"

definition empty_page :: "'r page" where
  "empty_page = \<lparr>pg_total = 0, pg_records = []\<rparr>"

lemma sint_less_63: "sint (w :: 64 word) < 2 ^ 63"
  using sint_lt [of w] by simp

lemma more_records_measure:
  assumes "\<not> (sint (t :: 64 word) \<le> int (n + length rs) \<or> rs = [])"
  shows "(2 :: nat) ^ 63 - (n + length rs) < 2 ^ 63 - n"
proof -
  have "int (n + length rs) < int (2 ^ 63)" using assms sint_less_63 [of t] by simp
  then have "n + length rs < 2 ^ 63" by (simp only: of_nat_less_iff)
  then show ?thesis using assms by (intro diff_less_mono2) simp_all
qed

text \<open>The page loop of \<open>Queue\<close>: it ends when enough records are there or a page has none.\<close>

function collect_pages :: "(int \<Rightarrow> ('r page, 's) io) \<Rightarrow> int \<Rightarrow> 'r list \<Rightarrow> ('r list, 's) io" where
  "collect_pages fetch n items s =
     (case fetch n s of
        (Inl e, s') \<Rightarrow> (Inl e, s')
      | (Inr p, s') \<Rightarrow>
          (let items' = items @ pg_records p
           in if sint (pg_total p) \<le> int (length items') \<or> pg_records p = [] then (Inr items', s')
              else collect_pages fetch (n + 1) items' s'))"
  by pat_completeness auto
termination
  by (relation "measure (\<lambda>(fetch, n, items, s). 2 ^ 63 - length items)")
    (use more_records_measure in \<open>force+\<close>)

declare collect_pages.simps [simp del]

text \<open>
  The page loop of \<open>History\<close>: records come newest first, and the first record \<open>stop\<close> holds of ends it.
\<close>

function collect_until :: "('r \<Rightarrow> bool) \<Rightarrow> (int \<Rightarrow> ('r page, 's) io) \<Rightarrow> int \<Rightarrow> nat \<Rightarrow> 'r list \<Rightarrow> ('r list, 's) io" where
  "collect_until stop fetch n fetched out s =
     (case fetch n s of
        (Inl e, s') \<Rightarrow> (Inl e, s')
      | (Inr p, s') \<Rightarrow>
          (let fetched' = fetched + length (pg_records p); out' = out @ takeWhile (\<lambda>r. \<not> stop r) (pg_records p)
           in if \<exists>r \<in> set (pg_records p). stop r then (Inr out', s')
              else if sint (pg_total p) \<le> int fetched' \<or> pg_records p = [] then (Inr out', s')
              else collect_until stop fetch (n + 1) fetched' out' s'))"
  by pat_completeness auto
termination
  by (relation "measure (\<lambda>(stop, fetch, n, fetched, out, s). 2 ^ 63 - fetched)")
    (use more_records_measure in \<open>force+\<close>)

declare collect_until.simps [simp del]

end
