(* ===== verification/Arr_Clients.thy ===== *)
theory Arr_Clients
  imports Upstream
begin

text \<open>
  \<open>internal/clients/sonarr\<close>, \<open>radarr\<close> and \<open>prowlarr\<close>: the HTTP clients of the *arr applications. The
  decoders of their JSON bodies and the encoder of a JSON object are parameters, one record per client.
\<close>

section \<open>Building a client\<close>

definition api_key_client :: "string \<Rightarrow> url_parser \<Rightarrow> string \<Rightarrow> string \<Rightarrow> http_option list \<Rightarrow> http_client result" where
  "api_key_client who parse base api_key opts =
     wrap_result who (new_client parse base (with_header ''X-Api-Key'' api_key # opts))"

definition new_sonarr where "new_sonarr = api_key_client ''sonarr''"
definition new_radarr where "new_radarr = api_key_client ''radarr''"
definition new_prowlarr where "new_prowlarr = api_key_client ''prowlarr''"

definition arr_api :: string where "arr_api = ''/api/v3''"
definition queue_page_size :: int where "queue_page_size = 250"
definition history_page_size :: int where "history_page_size = 500"

definition item_path :: "string \<Rightarrow> string \<Rightarrow> int \<Rightarrow> string" where
  "item_path api kind i = api @ ''/'' @ kind @ ''/'' @ show_int i"

section \<open>Sonarr\<close>

record raw_sonarr_queue =
  rsq_id :: int
  rsq_series_id :: int
  rsq_episode_id :: int
  rsq_title :: string
  rsq_status :: string
  rsq_tracked_download_status :: string
  rsq_tracked_download_state :: string
  rsq_download_id :: string
  rsq_output_path :: string
  rsq_size :: f64
  rsq_size_left :: f64
  rsq_added :: time
  rsq_status_messages :: "string list list"

record raw_series =
  rse_id :: int
  rse_tvdb_id :: int
  rse_title :: string
  rse_monitored :: bool
  rse_status :: string
  rse_path :: string
  rse_added :: time
  rse_statistics :: "int \<times> int \<times> int"

record sonarr_codec =
  sc_health :: "string \<Rightarrow> health_item list result"
  sc_queue :: "string \<Rightarrow> raw_sonarr_queue page result"
  sc_series :: "string \<Rightarrow> raw_series list result"
  sc_root_folders :: "string \<Rightarrow> root_folder list result"
  sc_total :: "string \<Rightarrow> int result"
  sc_history :: "string \<Rightarrow> sonarr_history page result"
  sc_object :: "string \<Rightarrow> data result"
  sc_command :: "string \<Rightarrow> int result"
  sc_encode :: "data \<Rightarrow> string result"

definition sonarr_queue_item_of :: "raw_sonarr_queue \<Rightarrow> sonarr_queue_item" where
  "sonarr_queue_item_of r =
     \<lparr>sq_id = rsq_id r, sq_series_id = rsq_series_id r, sq_episode_id = rsq_episode_id r, sq_title = rsq_title r,
      sq_status = rsq_status r, sq_tracked_download_status = rsq_tracked_download_status r,
      sq_tracked_download_state = rsq_tracked_download_state r, sq_download_id = rsq_download_id r,
      sq_output_path = rsq_output_path r, sq_size = rsq_size r, sq_size_left = rsq_size_left r,
      sq_messages = concat (rsq_status_messages r), sq_added = rsq_added r\<rparr>"

definition series_of :: "raw_series \<Rightarrow> series" where
  "series_of r = (case rse_statistics r of (files, episodes, bytes) \<Rightarrow>
     \<lparr>se_id = rse_id r, se_tvdb_id = rse_tvdb_id r, se_title = rse_title r, se_monitored = rse_monitored r,
      se_status = rse_status r, se_path = rse_path r, se_added = rse_added r, se_episode_file_count = files,
      se_episode_count = episodes, se_size_on_disk = bytes\<rparr>)"

definition io_sonarr_health :: "http_client \<Rightarrow> 's wire \<Rightarrow> sonarr_codec \<Rightarrow> (health_item list, 's) io" where
  "io_sonarr_health c net k =
     or_zero [] (iwrap ''sonarr health'' (io_get_json c net (sc_health k) (arr_api @ ''/health'') None))"

definition queue_query :: "string \<Rightarrow> int \<Rightarrow> query_values" where
  "queue_query unknown n =
     [(''page'', [show_int n]), (''pageSize'', [show_int queue_page_size]), (unknown, [''true''])]"

definition sonarr_queue_page :: "http_client \<Rightarrow> 's wire \<Rightarrow> sonarr_codec \<Rightarrow> int \<Rightarrow> (sonarr_queue_item page, 's) io" where
  "sonarr_queue_page c net k n =
     ibind (or_zero empty_page (iwrap (''sonarr queue page '' @ show_int n)
              (io_get_json c net (sc_queue k) (arr_api @ ''/queue'') (Some (queue_query ''includeUnknownSeriesItems'' n)))))
       (\<lambda>p. ireturn \<lparr>pg_total = pg_total p, pg_records = map sonarr_queue_item_of (pg_records p)\<rparr>)"

definition io_sonarr_queue :: "http_client \<Rightarrow> 's wire \<Rightarrow> sonarr_codec \<Rightarrow> (sonarr_queue_item list, 's) io" where
  "io_sonarr_queue c net k = collect_pages (sonarr_queue_page c net k) 1 []"

definition io_sonarr_series :: "http_client \<Rightarrow> 's wire \<Rightarrow> sonarr_codec \<Rightarrow> (series list, 's) io" where
  "io_sonarr_series c net k =
     ibind (or_zero [] (iwrap ''sonarr series'' (io_get_json c net (sc_series k) (arr_api @ ''/series'') None)))
       (\<lambda>raw. ireturn (map series_of raw))"

definition io_sonarr_root_folders :: "http_client \<Rightarrow> 's wire \<Rightarrow> sonarr_codec \<Rightarrow> (root_folder list, 's) io" where
  "io_sonarr_root_folders c net k =
     or_zero [] (iwrap ''sonarr rootfolders'' (io_get_json c net (sc_root_folders k) (arr_api @ ''/rootfolder'') None))"

definition wanted_query :: query_values where
  "wanted_query = [(''pageSize'', [''1'']), (''monitored'', [''true''])]"

definition io_sonarr_wanted :: "http_client \<Rightarrow> 's wire \<Rightarrow> sonarr_codec \<Rightarrow> (int, 's) io" where
  "io_sonarr_wanted c net k =
     or_zero 0 (iwrap ''sonarr wanted/missing''
       (io_get_json c net (sc_total k) (arr_api @ ''/wanted/missing'') (Some wanted_query)))"

definition history_query :: "string \<Rightarrow> int \<Rightarrow> query_values" where
  "history_query event_type n =
     (let q = [(''page'', [show_int n]), (''pageSize'', [show_int history_page_size]), (''sortKey'', [''date'']),
               (''sortDirection'', [''descending''])]
      in if event_type = '''' then q else map_set ''eventType'' [event_type] q)"

definition sonarr_history_page ::
  "http_client \<Rightarrow> 's wire \<Rightarrow> sonarr_codec \<Rightarrow> string \<Rightarrow> int \<Rightarrow> (sonarr_history page, 's) io" where
  "sonarr_history_page c net k event_type n =
     or_zero empty_page (iwrap (''sonarr history page '' @ show_int n)
       (io_get_json c net (sc_history k) (arr_api @ ''/history'') (Some (history_query event_type n))))"

definition before_since :: "('r \<Rightarrow> time) \<Rightarrow> time \<Rightarrow> 'r \<Rightarrow> bool" where
  "before_since date since r \<longleftrightarrow> \<not> t_is_zero since \<and> date r < since"

definition io_sonarr_history ::
  "http_client \<Rightarrow> 's wire \<Rightarrow> sonarr_codec \<Rightarrow> time \<Rightarrow> string \<Rightarrow> (sonarr_history list, 's) io" where
  "io_sonarr_history c net k since event_type =
     collect_until (before_since sh_date since) (sonarr_history_page c net k event_type) 1 0 []"

definition delete_queue_query :: "bool \<Rightarrow> bool \<Rightarrow> query_values" where
  "delete_queue_query remove_from_client blocklist =
     [(''removeFromClient'', [show_bool remove_from_client]), (''blocklist'', [show_bool blocklist]),
      (''skipRedownload'', [''false''])]"

definition delete_queue_item :: "string \<Rightarrow> http_client \<Rightarrow> 's wire \<Rightarrow> int \<Rightarrow> bool \<Rightarrow> bool \<Rightarrow> (unit, 's) io" where
  "delete_queue_item who c net i remove_from_client blocklist =
     iwrap (who @ '' delete queue '' @ show_int i)
       (io_delete c net (item_path arr_api ''queue'' i) (Some (delete_queue_query remove_from_client blocklist)))"

definition sonarr_delete_queue_item where
  "sonarr_delete_queue_item = delete_queue_item ''sonarr''"

text \<open>The fetched object is sent back with one field set; a response without a body is an empty object.\<close>

definition update_monitored :: "string \<Rightarrow> string \<Rightarrow> (string \<Rightarrow> data result) \<Rightarrow> (data \<Rightarrow> string result) \<Rightarrow>
    http_client \<Rightarrow> 's wire \<Rightarrow> int \<Rightarrow> bool \<Rightarrow> (unit, 's) io" where
  "update_monitored who kind dec enc c net i monitored =
     ibind (or_zero [] (iwrap (who @ '' get '' @ kind @ '' '' @ show_int i)
              (io_get_json c net dec (item_path arr_api kind i) None))) (\<lambda>full.
     iwrap (who @ '' update '' @ kind @ '' '' @ show_int i)
       (ignore (io_send_json c net discard ''PUT'' (item_path arr_api kind i) None
          (Some (enc (map_set ''monitored'' (VBool monitored) full))))))"

definition update_series_monitored where
  "update_series_monitored c net k = update_monitored ''sonarr'' ''series'' (sc_object k) (sc_encode k) c net"

definition delete_item :: "string \<Rightarrow> string \<Rightarrow> string \<Rightarrow> http_client \<Rightarrow> 's wire \<Rightarrow> int \<Rightarrow> bool \<Rightarrow> bool \<Rightarrow> (unit, 's) io" where
  "delete_item who kind exclusion c net i delete_files add_exclusion =
     iwrap (who @ '' delete '' @ kind @ '' '' @ show_int i)
       (io_delete c net (item_path arr_api kind i)
          (Some [(''deleteFiles'', [show_bool delete_files]), (exclusion, [show_bool add_exclusion])]))"

definition delete_series where
  "delete_series = delete_item ''sonarr'' ''series'' ''addImportListExclusion''"

text \<open>The name is set after the parameters are copied.\<close>

definition run_command :: "string \<Rightarrow> (string \<Rightarrow> int result) \<Rightarrow> (data \<Rightarrow> string result) \<Rightarrow> http_client \<Rightarrow> 's wire \<Rightarrow>
    string \<Rightarrow> data \<Rightarrow> (int, 's) io" where
  "run_command who dec enc c net name params =
     or_zero 0 (iwrap (who @ '' command '' @ name)
       (io_send_json c net dec ''POST'' (arr_api @ ''/command'') None (Some (enc (map_set ''name'' (VStr name) params)))))"

definition sonarr_run_command where
  "sonarr_run_command c net k = run_command ''sonarr'' (sc_command k) (sc_encode k) c net"

section \<open>Radarr\<close>

record raw_radarr_queue =
  rrq_id :: int
  rrq_movie_id :: int
  rrq_title :: string
  rrq_status :: string
  rrq_tracked_download_status :: string
  rrq_tracked_download_state :: string
  rrq_download_id :: string
  rrq_output_path :: string
  rrq_size :: f64
  rrq_size_left :: f64
  rrq_added :: time
  rrq_status_messages :: "string list list"

record radarr_codec =
  rc_health :: "string \<Rightarrow> health_item list result"
  rc_queue :: "string \<Rightarrow> raw_radarr_queue page result"
  rc_movies :: "string \<Rightarrow> movie list result"
  rc_root_folders :: "string \<Rightarrow> root_folder list result"
  rc_total :: "string \<Rightarrow> int result"
  rc_history :: "string \<Rightarrow> radarr_history page result"
  rc_object :: "string \<Rightarrow> data result"
  rc_command :: "string \<Rightarrow> int result"
  rc_encode :: "data \<Rightarrow> string result"

definition radarr_queue_item_of :: "raw_radarr_queue \<Rightarrow> radarr_queue_item" where
  "radarr_queue_item_of r =
     \<lparr>rq_id = rrq_id r, rq_movie_id = rrq_movie_id r, rq_title = rrq_title r, rq_status = rrq_status r,
      rq_tracked_download_status = rrq_tracked_download_status r,
      rq_tracked_download_state = rrq_tracked_download_state r, rq_download_id = rrq_download_id r,
      rq_output_path = rrq_output_path r, rq_size = rrq_size r, rq_size_left = rrq_size_left r,
      rq_messages = concat (rrq_status_messages r), rq_added = rrq_added r\<rparr>"

definition io_radarr_health :: "http_client \<Rightarrow> 's wire \<Rightarrow> radarr_codec \<Rightarrow> (health_item list, 's) io" where
  "io_radarr_health c net k =
     or_zero [] (iwrap ''radarr health'' (io_get_json c net (rc_health k) (arr_api @ ''/health'') None))"

definition radarr_queue_page :: "http_client \<Rightarrow> 's wire \<Rightarrow> radarr_codec \<Rightarrow> int \<Rightarrow> (radarr_queue_item page, 's) io" where
  "radarr_queue_page c net k n =
     ibind (or_zero empty_page (iwrap (''radarr queue page '' @ show_int n)
              (io_get_json c net (rc_queue k) (arr_api @ ''/queue'') (Some (queue_query ''includeUnknownMovieItems'' n)))))
       (\<lambda>p. ireturn \<lparr>pg_total = pg_total p, pg_records = map radarr_queue_item_of (pg_records p)\<rparr>)"

definition io_radarr_queue :: "http_client \<Rightarrow> 's wire \<Rightarrow> radarr_codec \<Rightarrow> (radarr_queue_item list, 's) io" where
  "io_radarr_queue c net k = collect_pages (radarr_queue_page c net k) 1 []"

definition io_radarr_movies :: "http_client \<Rightarrow> 's wire \<Rightarrow> radarr_codec \<Rightarrow> (movie list, 's) io" where
  "io_radarr_movies c net k =
     or_zero [] (iwrap ''radarr movies'' (io_get_json c net (rc_movies k) (arr_api @ ''/movie'') None))"

definition io_radarr_root_folders :: "http_client \<Rightarrow> 's wire \<Rightarrow> radarr_codec \<Rightarrow> (root_folder list, 's) io" where
  "io_radarr_root_folders c net k =
     or_zero [] (iwrap ''radarr rootfolders'' (io_get_json c net (rc_root_folders k) (arr_api @ ''/rootfolder'') None))"

definition io_radarr_wanted :: "http_client \<Rightarrow> 's wire \<Rightarrow> radarr_codec \<Rightarrow> (int, 's) io" where
  "io_radarr_wanted c net k =
     or_zero 0 (iwrap ''radarr wanted/missing''
       (io_get_json c net (rc_total k) (arr_api @ ''/wanted/missing'') (Some wanted_query)))"

definition radarr_history_page ::
  "http_client \<Rightarrow> 's wire \<Rightarrow> radarr_codec \<Rightarrow> string \<Rightarrow> int \<Rightarrow> (radarr_history page, 's) io" where
  "radarr_history_page c net k event_type n =
     or_zero empty_page (iwrap (''radarr history page '' @ show_int n)
       (io_get_json c net (rc_history k) (arr_api @ ''/history'') (Some (history_query event_type n))))"

definition io_radarr_history ::
  "http_client \<Rightarrow> 's wire \<Rightarrow> radarr_codec \<Rightarrow> time \<Rightarrow> string \<Rightarrow> (radarr_history list, 's) io" where
  "io_radarr_history c net k since event_type =
     collect_until (before_since rh_date since) (radarr_history_page c net k event_type) 1 0 []"

definition radarr_delete_queue_item where
  "radarr_delete_queue_item = delete_queue_item ''radarr''"

definition update_movie_monitored where
  "update_movie_monitored c net k = update_monitored ''radarr'' ''movie'' (rc_object k) (rc_encode k) c net"

definition delete_movie where
  "delete_movie = delete_item ''radarr'' ''movie'' ''addImportExclusion''"

definition radarr_run_command where
  "radarr_run_command c net k = run_command ''radarr'' (rc_command k) (rc_encode k) c net"

section \<open>Prowlarr\<close>

definition prowlarr_api :: string where "prowlarr_api = ''/api/v1''"

text \<open>Status rows with the JSON texts of their timestamps.\<close>

record raw_indexer_status =
  ris_indexer_id :: int
  ris_most_recent_failure :: "string option"
  ris_disabled_till :: "string option"

record prowlarr_codec =
  pc_health :: "string \<Rightarrow> health_item list result"
  pc_indexers :: "string \<Rightarrow> indexer list result"
  pc_status :: "string \<Rightarrow> raw_indexer_status list result"
  pc_time :: "string \<Rightarrow> time result"
  pc_object :: "string \<Rightarrow> data result"
  pc_encode :: "data \<Rightarrow> string result"

definition indexer_status_of :: "(string \<Rightarrow> time result) \<Rightarrow> raw_indexer_status \<Rightarrow> indexer_status result" where
  "indexer_status_of parse r =
     rbind (field (null_time parse) 0 (ris_most_recent_failure r)) (\<lambda>failure.
     rbind (field (null_time parse) 0 (ris_disabled_till r)) (\<lambda>till.
     Inr \<lparr>is_indexer_id = ris_indexer_id r, is_most_recent_failure = failure, is_disabled_till = till\<rparr>))"

definition io_prowlarr_health :: "http_client \<Rightarrow> 's wire \<Rightarrow> prowlarr_codec \<Rightarrow> (health_item list, 's) io" where
  "io_prowlarr_health c net k =
     or_zero [] (iwrap ''prowlarr health'' (io_get_json c net (pc_health k) (prowlarr_api @ ''/health'') None))"

definition io_prowlarr_indexers :: "http_client \<Rightarrow> 's wire \<Rightarrow> prowlarr_codec \<Rightarrow> (indexer list, 's) io" where
  "io_prowlarr_indexers c net k =
     or_zero [] (iwrap ''prowlarr indexers'' (io_get_json c net (pc_indexers k) (prowlarr_api @ ''/indexer'') None))"

text \<open>The timestamps are decoded with the body.\<close>

definition io_prowlarr_status :: "http_client \<Rightarrow> 's wire \<Rightarrow> prowlarr_codec \<Rightarrow> (indexer_status list, 's) io" where
  "io_prowlarr_status c net k =
     or_zero [] (iwrap ''prowlarr indexerstatus''
       (io_get_json c net (\<lambda>body. rbind (pc_status k body) (rmap (indexer_status_of (pc_time k))))
          (prowlarr_api @ ''/indexerstatus'') None))"

definition io_delete_indexer :: "http_client \<Rightarrow> 's wire \<Rightarrow> int \<Rightarrow> (unit, 's) io" where
  "io_delete_indexer c net i =
     iwrap (''prowlarr delete indexer '' @ show_int i) (io_delete c net (item_path prowlarr_api ''indexer'' i) None)"

definition io_test_indexer :: "http_client \<Rightarrow> 's wire \<Rightarrow> prowlarr_codec \<Rightarrow> int \<Rightarrow> (unit, 's) io" where
  "io_test_indexer c net k i =
     ibind (or_zero [] (iwrap (''prowlarr get indexer '' @ show_int i)
              (io_get_json c net (pc_object k) (item_path prowlarr_api ''indexer'' i) None))) (\<lambda>def.
     iwrap (''prowlarr test indexer '' @ show_int i)
       (ignore (io_send_json c net discard ''POST'' (prowlarr_api @ ''/indexer/test'') None (Some (pc_encode k def)))))"

end
