(* ===== verification/Media_Clients.thy ===== *)
theory Media_Clients
  imports Upstream
begin

text \<open>
  \<open>internal/clients/qbittorrent\<close>, \<open>plex\<close>, \<open>tautulli\<close> and \<open>overseerr\<close>: the HTTP clients of the download
  client and of the media services. The decoders of their JSON bodies are parameters.
\<close>

section \<open>qBittorrent\<close>

definition qbit_api :: string where "qbit_api = ''/api/v2''"

record qbit_http =
  qh_http :: http_client
  qh_user :: string
  qh_pass :: string

definition new_qbit :: "url_parser \<Rightarrow> string \<Rightarrow> string \<Rightarrow> string \<Rightarrow> http_option list \<Rightarrow> qbit_http result" where
  "new_qbit parse base user pass opts =
     rbind (wrap_result ''qbittorrent''
              (new_client parse base ([with_http_client (15 * second) '''', with_header ''Referer'' base] @ opts)))
       (\<lambda>h. Inr \<lparr>qh_http = h, qh_user = user, qh_pass = pass\<rparr>)"

text \<open>The state is whether a login has succeeded, and the network with the session's cookies.\<close>

definition keep_login :: "('a, 's) io \<Rightarrow> ('a, bool \<times> 's) io" where
  "keep_login m st = (case m (snd st) of (r, s') \<Rightarrow> (r, (fst st, s')))"

definition login :: "qbit_http \<Rightarrow> 's wire \<Rightarrow> (unit, bool \<times> 's) io" where
  "login q net st =
     (if qh_user q = '''' \<and> qh_pass q = '''' then (Inr (), st)
      else
        (case iwrap ''qbittorrent login''
                (io_post_form (qh_http q) net (qbit_api @ ''/auth/login'')
                   [(''username'', [qh_user q]), (''password'', [qh_pass q])]) (snd st) of
           (Inl e, s') \<Rightarrow> (Inl e, (fst st, s'))
         | (Inr body, s') \<Rightarrow>
             if trim_space body \<noteq> ''Ok.''
             then (Inl (new_error ''qbittorrent login: invalid credentials''), (fst st, s'))
             else (Inr (), (True, s'))))"

definition with_auth :: "qbit_http \<Rightarrow> 's wire \<Rightarrow> ('a, 's) io \<Rightarrow> ('a, bool \<times> 's) io" where
  "with_auth q net fn st =
     (case (if fst st then (Inr (), st) else login q net st) of
        (Inl e, st1) \<Rightarrow> (Inl e, st1)
      | (Inr _, st1) \<Rightarrow>
          (case keep_login fn st1 of
             (Inr x, st2) \<Rightarrow> (Inr x, st2)
           | (Inl e, st2) \<Rightarrow>
               if is_status e 403 then
                 (case login q net (False, snd st2) of
                    (Inl e', st3) \<Rightarrow> (Inl e', st3)
                  | (Inr _, st3) \<Rightarrow> keep_login fn st3)
               else (Inl e, st2)))"

text \<open>Torrents with the JSON texts of their timestamps; seeding time is in seconds.\<close>

record raw_torrent =
  rt_hash :: string
  rt_name :: string
  rt_state :: string
  rt_category :: string
  rt_save_path :: string
  rt_content_path :: string
  rt_progress :: f64
  rt_ratio :: f64
  rt_size :: int
  rt_completed :: int
  rt_downloaded :: int
  rt_uploaded :: int
  rt_added_on :: "string option"
  rt_completion_on :: "string option"
  rt_seeding_time :: int
  rt_dl_speed :: int
  rt_up_speed :: int
  rt_num_seeds :: int
  rt_num_leechs :: int

record qbit_codec =
  qc_torrents :: "string \<Rightarrow> raw_torrent list result"
  qc_files :: "string \<Rightarrow> torrent_file list result"
  qc_preferences :: "string \<Rightarrow> preferences result"
  qc_encode :: "data \<Rightarrow> string result"

definition torrent_of :: "raw_torrent \<Rightarrow> torrent result" where
  "torrent_of r =
     rbind (field (epoch_time ''qbittorrent'') 0 (rt_added_on r)) (\<lambda>added.
     rbind (field (epoch_time ''qbittorrent'') 0 (rt_completion_on r)) (\<lambda>completion.
     Inr \<lparr>to_hash = rt_hash r, to_name = rt_name r, to_state = rt_state r, to_category = rt_category r,
          to_save_path = rt_save_path r, to_content_path = rt_content_path r, to_progress = rt_progress r,
          to_ratio = rt_ratio r, to_size = rt_size r, to_completed = rt_completed r,
          to_downloaded = rt_downloaded r, to_uploaded = rt_uploaded r, to_added_on = added,
          to_completion_on = completion, to_seeding_time = wrap_int64 (rt_seeding_time r * second),
          to_dl_speed = rt_dl_speed r, to_up_speed = rt_up_speed r, to_num_seeds = rt_num_seeds r,
          to_num_leechs = rt_num_leechs r\<rparr>))"

definition io_qbit_version :: "qbit_http \<Rightarrow> 's wire \<Rightarrow> (string, bool \<times> 's) io" where
  "io_qbit_version q net =
     iwrap ''qbittorrent version'' (with_auth q net (io_get_text (qh_http q) net (qbit_api @ ''/app/version'') None))"

definition torrents_query :: "string \<Rightarrow> string \<Rightarrow> query_values" where
  "torrents_query flt category =
     (if flt = '''' then [] else [(''filter'', [flt])]) @ (if category = '''' then [] else [(''category'', [category])])"

definition io_qbit_torrents ::
  "qbit_http \<Rightarrow> 's wire \<Rightarrow> qbit_codec \<Rightarrow> string \<Rightarrow> string \<Rightarrow> (torrent list, bool \<times> 's) io" where
  "io_qbit_torrents q net k flt category =
     or_zero [] (iwrap ''qbittorrent torrents'' (with_auth q net
       (io_get_json (qh_http q) net (\<lambda>body. rbind (qc_torrents k body) (rmap torrent_of))
          (qbit_api @ ''/torrents/info'') (Some (torrents_query flt category)))))"

definition io_qbit_files :: "qbit_http \<Rightarrow> 's wire \<Rightarrow> qbit_codec \<Rightarrow> string \<Rightarrow> (torrent_file list, bool \<times> 's) io" where
  "io_qbit_files q net k hash =
     or_zero [] (iwrap (''qbittorrent files '' @ hash) (with_auth q net
       (io_get_json (qh_http q) net (qc_files k) (qbit_api @ ''/torrents/files'') (Some [(''hash'', [hash])]))))"

definition qbit_post :: "string \<Rightarrow> string \<Rightarrow> query_values \<Rightarrow> qbit_http \<Rightarrow> 's wire \<Rightarrow> (unit, bool \<times> 's) io" where
  "qbit_post what path form q net =
     iwrap (''qbittorrent '' @ what) (with_auth q net (ignore (io_post_form (qh_http q) net (qbit_api @ path) form)))"

definition io_qbit_delete :: "qbit_http \<Rightarrow> 's wire \<Rightarrow> string list \<Rightarrow> bool \<Rightarrow> (unit, bool \<times> 's) io" where
  "io_qbit_delete q net hashes delete_files =
     qbit_post ''delete'' ''/torrents/delete''
       [(''hashes'', [join_with ''|'' hashes]), (''deleteFiles'', [show_bool delete_files])] q net"

definition io_qbit_reannounce :: "qbit_http \<Rightarrow> 's wire \<Rightarrow> string list \<Rightarrow> (unit, bool \<times> 's) io" where
  "io_qbit_reannounce q net hashes =
     qbit_post ''reannounce'' ''/torrents/reannounce'' [(''hashes'', [join_with ''|'' hashes])] q net"

definition io_qbit_resume :: "qbit_http \<Rightarrow> 's wire \<Rightarrow> string list \<Rightarrow> (unit, bool \<times> 's) io" where
  "io_qbit_resume q net hashes =
     qbit_post ''resume'' ''/torrents/resume'' [(''hashes'', [join_with ''|'' hashes])] q net"

definition zero_preferences :: preferences where
  "zero_preferences = \<lparr>pr_save_path = '''', pr_temp_path = '''', pr_temp_path_enabled = False, pr_max_ratio = Fin 0,
     pr_max_seeding_time = 0, pr_excluded_file_names = ''''\<rparr>"

definition io_qbit_preferences :: "qbit_http \<Rightarrow> 's wire \<Rightarrow> qbit_codec \<Rightarrow> (preferences, bool \<times> 's) io" where
  "io_qbit_preferences q net k =
     or_zero zero_preferences (iwrap ''qbittorrent preferences'' (with_auth q net
       (io_get_json (qh_http q) net (qc_preferences k) (qbit_api @ ''/app/preferences'') None)))"

definition io_set_preferences :: "qbit_http \<Rightarrow> 's wire \<Rightarrow> qbit_codec \<Rightarrow> data \<Rightarrow> (unit, bool \<times> 's) io" where
  "io_set_preferences q net k patch st =
     (case qc_encode k patch of
        Inl e \<Rightarrow> (Inl (wrap_error ''qbittorrent set preferences: encode patch'' e), st)
      | Inr body \<Rightarrow> qbit_post ''set preferences'' ''/app/setPreferences'' [(''json'', [body])] q net st)"

section \<open>Plex\<close>

definition new_plex :: "url_parser \<Rightarrow> string \<Rightarrow> string \<Rightarrow> http_option list \<Rightarrow> http_client result" where
  "new_plex parse base token opts =
     wrap_result ''plex'' (new_client parse base
       ([with_header ''Accept'' ''application/json''] @
        (if token \<noteq> '''' then [with_header ''X-Plex-Token'' token] else []) @ opts))"

record raw_directory =
  rd_key :: string
  rd_title :: string
  rd_type :: string
  rd_scanned_at :: "string option"
  rd_updated_at :: "string option"

record raw_metadata =
  rm_rating_key :: string
  rm_title :: string
  rm_type :: string
  rm_added_at :: "string option"
  rm_library_section_id :: int

record plex_codec =
  xc_identity :: "string \<Rightarrow> identity result"
  xc_sections :: "string \<Rightarrow> raw_directory list result"
  xc_metadata :: "string \<Rightarrow> raw_metadata list result"

definition library_of :: "raw_directory \<Rightarrow> library result" where
  "library_of d =
     rbind (field (epoch_time ''plex'') 0 (rd_scanned_at d)) (\<lambda>scanned.
     rbind (field (epoch_time ''plex'') 0 (rd_updated_at d)) (\<lambda>updated.
     Inr \<lparr>li_key = rd_key d, li_title = rd_title d, li_type = rd_type d, li_scanned_at = scanned, li_updated_at = updated\<rparr>))"

definition plex_item_of :: "raw_metadata \<Rightarrow> plex_item result" where
  "plex_item_of m =
     rbind (field (epoch_time ''plex'') 0 (rm_added_at m)) (\<lambda>added.
     Inr \<lparr>pi_rating_key = rm_rating_key m, pi_title = rm_title m, pi_type = rm_type m, pi_added_at = added,
          pi_library_key = show_int (rm_library_section_id m)\<rparr>)"

definition io_plex_identity :: "http_client \<Rightarrow> 's wire \<Rightarrow> plex_codec \<Rightarrow> (identity, 's) io" where
  "io_plex_identity c net k =
     or_zero \<lparr>id_machine_identifier = '''', id_version = ''''\<rparr>
       (iwrap ''plex identity'' (io_get_json c net (xc_identity k) ''/identity'' None))"

definition io_plex_libraries :: "http_client \<Rightarrow> 's wire \<Rightarrow> plex_codec \<Rightarrow> (library list, 's) io" where
  "io_plex_libraries c net k =
     or_zero [] (iwrap ''plex libraries''
       (io_get_json c net (\<lambda>body. rbind (xc_sections k body) (rmap library_of)) ''/library/sections'' None))"

definition io_plex_recently_added ::
  "http_client \<Rightarrow> 's wire \<Rightarrow> plex_codec \<Rightarrow> string \<Rightarrow> int \<Rightarrow> (plex_item list, 's) io" where
  "io_plex_recently_added c net k library_key limit =
     or_zero [] (iwrap (''plex recently added '' @ library_key)
       (io_get_json c net (\<lambda>body. rbind (xc_metadata k body) (rmap plex_item_of))
          (''/library/sections/'' @ library_key @ ''/recentlyAdded'')
          (Some [(''X-Plex-Container-Size'', [show_int limit]), (''X-Plex-Container-Start'', [''0''])])))"

definition io_plex_refresh :: "http_client \<Rightarrow> 's wire \<Rightarrow> string \<Rightarrow> (unit, 's) io" where
  "io_plex_refresh c net library_key =
     iwrap (''plex refresh library '' @ library_key)
       (ignore (io_get_json c net discard (''/library/sections/'' @ library_key @ ''/refresh'') None))"

section \<open>Tautulli\<close>

record tautulli_http =
  th_http :: http_client
  th_api_key :: string

definition new_tautulli :: "url_parser \<Rightarrow> string \<Rightarrow> string \<Rightarrow> http_option list \<Rightarrow> tautulli_http result" where
  "new_tautulli parse base api_key opts =
     rbind (wrap_result ''tautulli'' (new_client parse base opts)) (\<lambda>h. Inr \<lparr>th_http = h, th_api_key = api_key\<rparr>)"

text \<open>The wrapper of every answer, with the JSON text of its data.\<close>

record tautulli_envelope =
  te_result :: string
  te_message :: "string option"
  te_data :: string

record raw_history_row =
  rhr_rating_key :: "string option"
  rhr_parent_rating_key :: "string option"
  rhr_grandparent_rating_key :: "string option"
  rhr_title :: string
  rhr_grandparent_title :: string
  rhr_media_type :: string
  rhr_user :: string
  rhr_date :: "string option"
  rhr_watched_status :: "string option"
  rhr_percent_complete :: "string option"

record tautulli_codec =
  tc_envelope :: "string \<Rightarrow> tautulli_envelope result"
  tc_history :: "string \<Rightarrow> raw_history_row list result"
  tc_stream_count :: "string \<Rightarrow> string result"
  tc_parse_float :: "string \<Rightarrow> f64 result"

definition history_row_of :: "(string \<Rightarrow> f64 result) \<Rightarrow> raw_history_row \<Rightarrow> history_row result" where
  "history_row_of parse_float r =
     rbind (field loose_number_string '''' (rhr_rating_key r)) (\<lambda>key.
     rbind (field loose_number_string '''' (rhr_parent_rating_key r)) (\<lambda>parent.
     rbind (field loose_number_string '''' (rhr_grandparent_rating_key r)) (\<lambda>grandparent.
     rbind (field loose_epoch 0 (rhr_date r)) (\<lambda>date.
     rbind (field (loose_float parse_float) (Fin 0) (rhr_watched_status r)) (\<lambda>watched.
     rbind (field loose_int 0 (rhr_percent_complete r)) (\<lambda>percent.
     Inr \<lparr>hr_rating_key = key, hr_grandparent_rating_key = grandparent, hr_parent_rating_key = parent,
          hr_title = rhr_title r, hr_grandparent_title = rhr_grandparent_title r, hr_media_type = rhr_media_type r,
          hr_user = rhr_user r, hr_date = date, hr_watched_status = watched, hr_percent_complete = percent\<rparr>))))))"

definition zero_tautulli_envelope :: tautulli_envelope where
  "zero_tautulli_envelope = \<lparr>te_result = '''', te_message = None, te_data = ''''\<rparr>"

definition tautulli_query :: "string \<Rightarrow> string \<Rightarrow> query_values \<Rightarrow> query_values" where
  "tautulli_query api_key cmd extra =
     foldl add_value [(''apikey'', [api_key]), (''cmd'', [cmd])] (pairs_of extra)"

definition tautulli_call ::
  "tautulli_http \<Rightarrow> 's wire \<Rightarrow> tautulli_codec \<Rightarrow> string \<Rightarrow> query_values \<Rightarrow> (string \<Rightarrow> 'a result) \<Rightarrow> ('a, 's) io" where
  "tautulli_call t net k cmd extra decode_data =
     ibind (or_zero zero_tautulli_envelope (iwrap (''tautulli '' @ cmd)
              (io_get_json (th_http t) net (tc_envelope k) ''/api/v2'' (Some (tautulli_query (th_api_key t) cmd extra)))))
       (\<lambda>env s.
          if te_result env \<noteq> ''success'' then
            (Inl (new_error (''tautulli '' @ cmd @ '': '' @
               (case te_message env of None \<Rightarrow> ''unknown error'' | Some m \<Rightarrow> m))), s)
          else (wrap_result (''tautulli '' @ cmd @ '': decode data'') (decode_data (te_data env)), s))"

definition io_tautulli_ping :: "tautulli_http \<Rightarrow> 's wire \<Rightarrow> tautulli_codec \<Rightarrow> (unit, 's) io" where
  "io_tautulli_ping t net k = tautulli_call t net k ''status'' [] discard"

text \<open>The date sent is the one \<open>since\<close> has in its own zone.\<close>

definition io_tautulli_history ::
  "tautulli_http \<Rightarrow> 's wire \<Rightarrow> tautulli_codec \<Rightarrow> location \<Rightarrow> time \<Rightarrow> int \<Rightarrow> (history_row list, 's) io" where
  "io_tautulli_history t net k loc since n =
     tautulli_call t net k ''get_history'' [(''after'', [fmt_date loc since]), (''length'', [show_int n])]
       (\<lambda>body. rbind (tc_history k body) (rmap (history_row_of (tc_parse_float k))))"

definition io_tautulli_activity_count :: "tautulli_http \<Rightarrow> 's wire \<Rightarrow> tautulli_codec \<Rightarrow> (int, 's) io" where
  "io_tautulli_activity_count t net k =
     ibind (tautulli_call t net k ''get_activity'' [] (tc_stream_count k)) (\<lambda>n s.
       (wrap_result (''tautulli get_activity: parse stream_count '' @ go_quote n) (parse_int n), s))"

section \<open>Overseerr\<close>

definition new_overseerr :: "url_parser \<Rightarrow> string \<Rightarrow> string \<Rightarrow> http_option list \<Rightarrow> http_client result" where
  "new_overseerr parse base api_key opts =
     wrap_result ''overseerr'' (new_client parse base (with_header ''X-Api-Key'' api_key # opts))"

definition overseerr_api :: string where "overseerr_api = ''/api/v1''"
definition requests_page_size :: int where "requests_page_size = 100"
definition max_request_pages :: nat where "max_request_pages = 500"

record raw_requested_by =
  rb_email :: string
  rb_display_name :: string

record raw_request =
  rr_id :: int
  rr_status :: int
  rr_type :: string
  rr_created_at :: time
  rr_updated_at :: time
  rr_tmdb_id :: int
  rr_tvdb_id :: int
  rr_media_status :: int
  rr_requested_by :: raw_requested_by

record raw_requests_page =
  rp_pages :: int
  rp_page :: int
  rp_results :: "raw_request list"

record overseerr_codec =
  oc_version :: "string \<Rightarrow> string result"
  oc_initialized :: "string \<Rightarrow> bool result"
  oc_requests :: "string \<Rightarrow> raw_requests_page result"

definition requested_by_name :: "raw_requested_by \<Rightarrow> string" where
  "requested_by_name u = (if rb_email u \<noteq> '''' then rb_email u else rb_display_name u)"

definition overseerr_request_of :: "raw_request \<Rightarrow> overseerr_request" where
  "overseerr_request_of r =
     \<lparr>or_id = rr_id r, or_status = rr_status r, or_media_type = rr_type r, or_tmdb_id = rr_tmdb_id r,
      or_tvdb_id = rr_tvdb_id r, or_media_status = rr_media_status r,
      or_requested_by = requested_by_name (rr_requested_by r), or_created_at = rr_created_at r,
      or_updated_at = rr_updated_at r\<rparr>"

definition io_overseerr_status :: "http_client \<Rightarrow> 's wire \<Rightarrow> overseerr_codec \<Rightarrow> (string \<times> bool, 's) io" where
  "io_overseerr_status c net k =
     ibind (or_zero '''' (iwrap ''overseerr status'' (io_get_json c net (oc_version k) (overseerr_api @ ''/status'') None)))
       (\<lambda>version.
     ibind (or_zero False (iwrap ''overseerr settings''
              (io_get_json c net (oc_initialized k) (overseerr_api @ ''/settings/public'') None)))
       (\<lambda>initialized. ireturn (version, initialized)))"

definition requests_query :: "string \<Rightarrow> int \<Rightarrow> query_values" where
  "requests_query flt skip = [(''filter'', [flt]), (''take'', [show_int requests_page_size]), (''skip'', [show_int skip])]"

definition requests_page ::
  "http_client \<Rightarrow> 's wire \<Rightarrow> overseerr_codec \<Rightarrow> string \<Rightarrow> int \<Rightarrow> (raw_requests_page, 's) io" where
  "requests_page c net k flt skip =
     or_zero \<lparr>rp_pages = 0, rp_page = 0, rp_results = []\<rparr> (iwrap ''overseerr requests''
       (io_get_json c net (oc_requests k) (overseerr_api @ ''/request'') (Some (requests_query flt skip))))"

text \<open>The loop over pages; the first argument is how many more it may ask for.\<close>

primrec request_pages :: "nat \<Rightarrow> (int \<Rightarrow> (raw_requests_page, 's) io) \<Rightarrow> int \<Rightarrow> overseerr_request list \<Rightarrow>
    (overseerr_request list, 's) io" where
  "request_pages 0 fetch skip out s =
     (Inl (new_error (''overseerr requests: exceeded '' @ show_nat max_request_pages @
        '' pages without reaching pageInfo.pages'')), s)"
| "request_pages (Suc n) fetch skip out s =
     (case fetch skip s of
        (Inl e, s') \<Rightarrow> (Inl e, s')
      | (Inr p, s') \<Rightarrow>
          (let out' = out @ map overseerr_request_of (rp_results p)
           in if rp_results p = [] \<or> rp_pages p \<le> rp_page p then (Inr out', s')
              else request_pages n fetch (skip + requests_page_size) out' s'))"

definition io_overseerr_requests ::
  "http_client \<Rightarrow> 's wire \<Rightarrow> overseerr_codec \<Rightarrow> string \<Rightarrow> (overseerr_request list, 's) io" where
  "io_overseerr_requests c net k flt = request_pages max_request_pages (requests_page c net k flt) 0 []"

definition io_decline_request :: "http_client \<Rightarrow> 's wire \<Rightarrow> int \<Rightarrow> (unit, 's) io" where
  "io_decline_request c net i =
     iwrap (''overseerr decline request '' @ show_int i)
       (ignore (io_send_json c net discard ''POST'' (overseerr_api @ ''/request/'' @ show_int i @ ''/decline'') None None))"

end
