(* ===== verification/Docker_Client.thy ===== *)
theory Docker_Client
  imports Upstream
begin

text \<open>
  \<open>internal/clients/docker\<close>: the Docker Engine over its socket. The decoders of the JSON bodies and of RFC 3339
  timestamps are a parameter, and so is running the docker program.
\<close>

section \<open>Building the client\<close>

record docker_http =
  dh_http :: http_client
  dh_socket :: string
  dh_binary :: string

definition docker_base :: string where "docker_base = ''http://docker''"
definition docker_timeout :: duration where "docker_timeout = 15 * second"

definition new_docker :: "url_parser \<Rightarrow> string \<Rightarrow> string \<Rightarrow> docker_http result" where
  "new_docker parse socket_path binary =
     (if binary = '''' then Inl (new_error ''docker: binary must not be empty'')
      else rbind (wrap_result ''docker'' (new_client parse docker_base [with_http_client 0 '''', with_timeout docker_timeout]))
             (\<lambda>h. Inr \<lparr>dh_http = h, dh_socket = socket_path, dh_binary = binary\<rparr>))"

definition docker_error :: "docker_http \<Rightarrow> string \<Rightarrow> goerr \<Rightarrow> goerr" where
  "docker_error d op e =
     (if errors_is e ErrPermission
      then wrap_error (''docker '' @ op @ '': permission denied on '' @ dh_socket d @ '': add this user to the docker group'') e
      else wrap_error (''docker '' @ op) e)"

definition docker_wrap :: "docker_http \<Rightarrow> string \<Rightarrow> ('a, 's) io \<Rightarrow> ('a, 's) io" where
  "docker_wrap d op m s =
     (case m s of (Inl e, s') \<Rightarrow> (Inl (docker_error d op e), s') | (Inr x, s') \<Rightarrow> (Inr x, s'))"

section \<open>Containers\<close>

record raw_container =
  rco_id :: string
  rco_names :: "string list"
  rco_image :: string
  rco_state :: string
  rco_status :: string

record raw_inspect =
  ri_started_at :: string
  ri_health :: "string option"
  ri_restart_count :: int
  ri_tty :: bool

definition zero_inspect :: raw_inspect where
  "zero_inspect = \<lparr>ri_started_at = '''', ri_health = None, ri_restart_count = 0, ri_tty = False\<rparr>"

text \<open>Disk usage: the size of the layers, the containers and size of each image, the size of each cache entry.\<close>

record docker_codec =
  kc_containers :: "string \<Rightarrow> raw_container list result"
  kc_inspect :: "string \<Rightarrow> raw_inspect result"
  kc_usage :: "string \<Rightarrow> (int \<times> (int \<times> int) list \<times> int list) result"
  kc_reclaimed :: "string \<Rightarrow> int result"
  kc_time :: "string \<Rightarrow> time result"

text \<open>\<open>url.PathEscape\<close>; the HTTP client escapes the path it is given once more.\<close>

definition segment_safe :: "char \<Rightarrow> bool" where
  "segment_safe c \<longleftrightarrow> query_safe c \<or> c \<in> set ''$&+=:@''"

definition path_escape :: "string \<Rightarrow> string" where
  "path_escape s = concat (map (\<lambda>c. if segment_safe c then [c] else percent_encode c) s)"

definition inspect :: "docker_http \<Rightarrow> 's wire \<Rightarrow> docker_codec \<Rightarrow> string \<Rightarrow> (raw_inspect, 's) io" where
  "inspect d net k name =
     or_zero zero_inspect (io_get_json (dh_http d) net (kc_inspect k) (''/containers/'' @ path_escape name @ ''/json'') None)"

definition summary_of :: "raw_container \<Rightarrow> container" where
  "summary_of r =
     \<lparr>co_id = rco_id r, co_name = (case rco_names r of [] \<Rightarrow> rco_id r | n # _ \<Rightarrow> trim_prefix n ''/''), co_image = rco_image r,
      co_state = rco_state r, co_status = rco_status r, co_health = '''', co_restart_count = 0, co_started_at = 0\<rparr>"

text \<open>A container that is gone by the time it is inspected keeps its summary.\<close>

definition merge_inspect :: "docker_http \<Rightarrow> 's wire \<Rightarrow> docker_codec \<Rightarrow> raw_container \<Rightarrow> (container, 's) io" where
  "merge_inspect d net k r s =
     (let cont = summary_of r
      in case inspect d net k (rco_id r) s of
           (Inl e, s') \<Rightarrow>
             if is_status e 404 then (Inr cont, s')
             else (Inl (docker_error d (''containers: inspect '' @ co_name cont) e), s')
         | (Inr insp, s') \<Rightarrow>
             (let cont = cont\<lparr>co_restart_count := ri_restart_count insp,
                              co_health := (case ri_health insp of None \<Rightarrow> co_health cont | Some h \<Rightarrow> h)\<rparr>
              in if ri_started_at insp = '''' then (Inr cont, s')
                 else (case kc_time k (ri_started_at insp) of
                         Inl e \<Rightarrow> (Inl (wrap_error (''docker containers: inspect '' @ co_name cont @ '': parse StartedAt'') e), s')
                       | Inr t \<Rightarrow> (Inr (cont\<lparr>co_started_at := t\<rparr>), s'))))"

primrec io_each :: "('a \<Rightarrow> ('b, 's) io) \<Rightarrow> 'a list \<Rightarrow> ('b list, 's) io" where
  "io_each f [] = ireturn []"
| "io_each f (x # xs) = ibind (f x) (\<lambda>y. ibind (io_each f xs) (\<lambda>ys. ireturn (y # ys)))"

definition io_docker_containers :: "docker_http \<Rightarrow> 's wire \<Rightarrow> docker_codec \<Rightarrow> (container list, 's) io" where
  "io_docker_containers d net k =
     ibind (docker_wrap d ''containers''
              (or_zero [] (io_get_json (dh_http d) net (kc_containers k) ''/containers/json'' (Some [(''all'', [''1''])]))))
       (io_each (merge_inspect d net k))"

section \<open>Logs\<close>

text \<open>A frame of the stream: type, three zero bytes, the payload's length in four bytes, and the payload.\<close>

abbreviation nul :: char where "nul \<equiv> char_of (0 :: nat)"

definition looks_framed :: "string \<Rightarrow> bool" where
  "looks_framed b \<longleftrightarrow> 8 \<le> length b \<and> (of_char (b ! 0) :: nat) \<le> 2 \<and> take 3 (drop 1 b) = [nul, nul, nul]"

definition frame_size :: "string \<Rightarrow> nat" where
  "frame_size b = (case map (of_char :: char \<Rightarrow> nat) (take 4 (drop 4 b)) of
     [w, x, y, z] \<Rightarrow> 16777216 * w + 65536 * x + 256 * y + z | _ \<Rightarrow> 0)"

function strip_frames :: "string \<Rightarrow> string" where
  "strip_frames b =
     (if length b < 8 then b
      else let rest = drop 8 b
           in if length rest < frame_size b then rest
              else take (frame_size b) rest @ strip_frames (drop (frame_size b) rest))"
  by pat_completeness auto
termination by (relation "measure length") auto

declare strip_frames.simps [simp del]

definition demultiplex :: "string \<Rightarrow> string" where
  "demultiplex raw = (if looks_framed raw then strip_frames raw else raw)"

definition logs_query :: "int \<Rightarrow> query_values" where
  "logs_query tail = [(''stdout'', [''1'']), (''stderr'', [''1'']), (''tail'', [show_int tail])]"

definition io_docker_logs :: "docker_http \<Rightarrow> 's wire \<Rightarrow> docker_codec \<Rightarrow> string \<Rightarrow> int \<Rightarrow> (string, 's) io" where
  "io_docker_logs d net k name tail =
     ibind (docker_wrap d (''logs: inspect '' @ name) (inspect d net k name)) (\<lambda>insp.
     ibind (docker_wrap d (''logs '' @ name)
              (io_get_text (dh_http d) net (''/containers/'' @ path_escape name @ ''/logs'') (Some (logs_query tail))))
       (\<lambda>raw. ireturn (if ri_tty insp then raw else demultiplex raw)))"

section \<open>Images\<close>

text \<open>Sizes add up in 64 bits.\<close>

definition disk_usage_of :: "int \<Rightarrow> (int \<times> int) list \<Rightarrow> int list \<Rightarrow> disk_usage" where
  "disk_usage_of layers images caches =
     (let idle = filter (\<lambda>(containers, _). \<not> containers > 0) images
      in \<lparr>du_images_total = int (length images), du_images_active = int (length images) - int (length idle),
          du_images_size = layers,
          du_images_reclaimable = foldl (\<lambda>n (_, bytes). wrap_int64 (n + bytes)) 0 idle,
          du_build_cache_size = foldl (\<lambda>n bytes. wrap_int64 (n + bytes)) 0 caches\<rparr>)"

definition io_docker_disk_usage :: "docker_http \<Rightarrow> 's wire \<Rightarrow> docker_codec \<Rightarrow> (disk_usage, 's) io" where
  "io_docker_disk_usage d net k =
     ibind (docker_wrap d ''disk usage''
              (or_zero (0, [], []) (io_get_json (dh_http d) net (kc_usage k) ''/system/df'' None)))
       (\<lambda>(layers, images, caches). ireturn (disk_usage_of layers images caches))"

definition prune_query :: "bool \<Rightarrow> query_values" where
  "prune_query dangling =
     [(''filters'', [''{'' @ [CHR 34] @ ''dangling'' @ [CHR 34] @ '':['' @ [CHR 34] @ show_bool dangling @ [CHR 34] @ '']}''])]"

definition io_prune_images :: "docker_http \<Rightarrow> 's wire \<Rightarrow> docker_codec \<Rightarrow> bool \<Rightarrow> (int, 's) io" where
  "io_prune_images d net k dangling =
     docker_wrap d ''prune images''
       (or_zero 0 (io_send_json (dh_http d) net (kc_reclaimed k) ''POST'' ''/images/prune'' (Some (prune_query dangling)) None))"

section \<open>Running a command in a container\<close>

text \<open>\<open>run\<close> is how a program ends: with its combined output and, when it fails, the error.\<close>

definition docker_exec_args :: "string \<Rightarrow> string list \<Rightarrow> string list" where
  "docker_exec_args name args = [''exec'', name] @ args"

definition io_docker_exec ::
  "docker_http \<Rightarrow> (string \<Rightarrow> string list \<Rightarrow> 's \<Rightarrow> (string \<times> goerr option) \<times> 's) \<Rightarrow> string \<Rightarrow> string list \<Rightarrow> (string, 's) io" where
  "io_docker_exec d run name args s =
     (case run (dh_binary d) (docker_exec_args name args) s of
        ((out, None), s') \<Rightarrow> (Inr (trim_space out), s')
      | ((out, Some e), s') \<Rightarrow>
          (Inl (GoErr (''docker exec '' @ name @ '': '' @ err_msg e @ '': '' @ trim_space out) (err_chain e)), s'))"

end
