(* ===== verification/Upstream_Laws.thy ===== *)
theory Upstream_Laws
  imports Arr_Clients Media_Clients Docker_Client Httpx_Laws
begin

text \<open>
  What the HTTP clients of the upstream services guarantee: listings in pages come to an end and are complete,
  a session of qBittorrent is renewed once, and Docker's log stream loses its frames and nothing else.
\<close>

section \<open>How many requests a listing makes\<close>

definition counted :: "'s wire \<Rightarrow> ('s \<times> nat) wire" where
  "counted net rq st = (case net rq (fst st) of (out, s') \<Rightarrow> (out, (s', snd st + 1)))"

definition at_most :: "nat \<Rightarrow> ('a, 's \<times> nat) io \<Rightarrow> bool" where
  "at_most n m \<longleftrightarrow> (\<forall>st. snd (snd (m st)) \<le> snd st + n)"

lemma at_most_get_json [intro]: "at_most 1 (io_get_json c (counted net) dec path query)"
  by (auto simp: at_most_def io_get_json_def over_wire_def counted_def split: prod.splits)

lemma at_most_iwrap [intro]: "at_most n m \<Longrightarrow> at_most n (iwrap p m)"
  by (auto simp: at_most_def iwrap_def split: prod.splits) (metis snd_conv)

lemma at_most_ibind_return [intro]:
  "at_most n m \<Longrightarrow> at_most n (ibind m (\<lambda>x. ireturn (f x)))"
  by (auto simp: at_most_def ibind_def ireturn_def split: prod.splits sum.splits) (metis snd_conv)+

lemma at_most_or_zero [intro]: "at_most n m \<Longrightarrow> at_most n (or_zero z m)"
  unfolding or_zero_def by (rule at_most_ibind_return)

lemma takeWhile_True [simp]: "takeWhile (\<lambda>_. True) xs = xs"
  by (induction xs) auto

lemma collect_pages_until:
  "collect_pages fetch n items s = collect_until (\<lambda>_. False) fetch n (length items) items s"
  by (induction fetch n items s rule: collect_pages.induct)
    (subst collect_pages.simps, subst collect_until.simps,
      auto simp: Let_def split: prod.splits sum.splits)

lemma collect_until_requests:
  assumes "\<And>n. at_most 1 (fetch n)"
    and "\<And>n s p s'. fetch n s = (Inr p, s') \<Longrightarrow> sint (pg_total p) \<le> int N"
  shows "snd (snd (collect_until stop fetch n fetched out st)) \<le> snd st + max 1 (N - fetched)"
  using assms
proof (induction stop fetch n fetched out st rule: collect_until.induct)
  case (1 stop fetch n fetched out st)
  obtain r st' where f: "fetch n st = (r, st')" by (cases "fetch n st")
  have k: "snd st' \<le> snd st + 1" using 1(2) [of n] f unfolding at_most_def by (metis snd_conv)
  show ?case
  proof (cases r)
    case (Inl e)
    with f k show ?thesis by (subst collect_until.simps) simp
  next
    case (Inr p)
    let ?f = "fetched + length (pg_records p)"
    let ?stop = "\<exists>r \<in> set (pg_records p). stop r" and ?fin = "sint (pg_total p) \<le> int ?f \<or> pg_records p = []"
    show ?thesis
    proof (cases "?stop \<or> ?fin")
      case True
      with f Inr k show ?thesis by (subst collect_until.simps) (auto simp: Let_def)
    next
      case False
      let ?o = "out @ takeWhile (\<lambda>r. \<not> stop r) (pg_records p)"
      have eq: "collect_until stop fetch n fetched out st = collect_until stop fetch (n + 1) ?f ?o st'"
        using f Inr False by (subst collect_until.simps) (simp add: Let_def)
      have "snd (snd (collect_until stop fetch (n + 1) ?f ?o st')) \<le> snd st' + max 1 (N - ?f)"
        using f Inr False 1(2,3) by (intro 1(1)) (auto simp: prod_eq_iff)
      moreover have "?f < N" "0 < length (pg_records p)" using 1(3) [of n st p st'] f Inr False by simp_all
      then have "max 1 (N - ?f) + 1 \<le> max 1 (N - fetched)" by linarith
      ultimately show ?thesis unfolding eq using k by linarith
    qed
  qed
qed

definition never_claims_more :: "(string \<Rightarrow> 'r page result) \<Rightarrow> nat \<Rightarrow> bool" where
  "never_claims_more dec N \<longleftrightarrow> (\<forall>body p. dec body = Inr p \<longrightarrow> sint (pg_total p) \<le> int N)"

lemma or_zero_page_total:
  assumes "never_claims_more dec N"
    and "or_zero empty_page (iwrap w (io_get_json c net dec path query)) s = (Inr p, s')"
  shows "sint (pg_total p) \<le> int N"
proof -
  have "p = empty_page \<or> (\<exists>body. dec body = Inr p)"
    using assms(2)
    by (auto simp: or_zero_def ibind_def iwrap_def io_get_json_def over_wire_def ireturn_def get_json_def decode_json_def
        rbind_def split: prod.splits sum.splits option.splits if_splits)
  then show ?thesis using assms(1) by (auto simp: never_claims_more_def empty_page_def)
qed

lemma mapped_page_total:
  assumes "never_claims_more dec N"
    and "ibind (or_zero empty_page (iwrap w (io_get_json c net dec path query)))
      (\<lambda>p. ireturn \<lparr>pg_total = pg_total p, pg_records = map f (pg_records p)\<rparr>) s = (Inr p, s')"
  shows "sint (pg_total p) \<le> int N"
  using assms(2) or_zero_page_total [OF assms(1)]
  by (auto simp: ibind_def ireturn_def split: prod.splits sum.splits)

lemma collect_pages_requests:
  assumes "\<And>n. at_most 1 (fetch n)"
    and "\<And>n s p s'. fetch n s = (Inr p, s') \<Longrightarrow> sint (pg_total p) \<le> int N"
  shows "snd (snd (collect_pages fetch 1 [] (s, 0))) \<le> max 1 N"
  using collect_until_requests [OF assms, where st = "(s, 0)" and fetched = 0] by (simp add: collect_pages_until)

lemma collect_history_requests:
  assumes "\<And>n. at_most 1 (fetch n)"
    and "\<And>n s p s'. fetch n s = (Inr p, s') \<Longrightarrow> sint (pg_total p) \<le> int N"
  shows "snd (snd (collect_until stop fetch 1 0 [] (s, 0))) \<le> max 1 N"
  using collect_until_requests [OF assms, where st = "(s, 0)" and fetched = 0] by simp

lemma pages_at_most:
  "at_most 1 (sonarr_queue_page c (counted net) ks n)"
  "at_most 1 (sonarr_history_page c (counted net) ks event_type n)"
  "at_most 1 (radarr_queue_page c (counted net) kr n)"
  "at_most 1 (radarr_history_page c (counted net) kr event_type n)"
  unfolding sonarr_queue_page_def sonarr_history_page_def radarr_queue_page_def radarr_history_page_def
  by (intro at_most_ibind_return at_most_or_zero at_most_iwrap at_most_get_json)+

lemma queue_page_totals:
  assumes "never_claims_more (sc_queue ks) N" "never_claims_more (rc_queue kr) N"
  shows "sonarr_queue_page c net ks n s = (Inr p, s') \<Longrightarrow> sint (pg_total p) \<le> int N"
    and "radarr_queue_page c net kr n s = (Inr q, s') \<Longrightarrow> sint (pg_total q) \<le> int N"
  unfolding sonarr_queue_page_def radarr_queue_page_def by (erule mapped_page_total [OF assms(1)] mapped_page_total [OF assms(2)])+

lemma history_page_totals:
  assumes "never_claims_more (sc_history ks) N" "never_claims_more (rc_history kr) N"
  shows "sonarr_history_page c net ks event_type n s = (Inr p, s') \<Longrightarrow> sint (pg_total p) \<le> int N"
    and "radarr_history_page c net kr event_type n s = (Inr q, s') \<Longrightarrow> sint (pg_total q) \<le> int N"
  unfolding sonarr_history_page_def radarr_history_page_def
  by (erule or_zero_page_total [OF assms(1)] or_zero_page_total [OF assms(2)])+

text \<open>C25: Listing the queue or the history of Sonarr or Radarr comes to an end whatever the service answers: the
  loop has no bound of its own, but every page it goes on after brings a record, so against a service that never
  claims more than N records it makes at most N requests (one, if N is zero), even if the totals it reports and
  the sizes of its pages change from one answer to the next.\<close>

theorem listings_end:
  assumes "never_claims_more (sc_queue ks) N" "never_claims_more (sc_history ks) N"
    and "never_claims_more (rc_queue kr) N" "never_claims_more (rc_history kr) N"
  shows "snd (snd (io_sonarr_queue c (counted net) ks (s, 0))) \<le> max 1 N
       \<and> snd (snd (io_sonarr_history c (counted net) ks since event_type (s, 0))) \<le> max 1 N
       \<and> snd (snd (io_radarr_queue c (counted net) kr (s, 0))) \<le> max 1 N
       \<and> snd (snd (io_radarr_history c (counted net) kr since event_type (s, 0))) \<le> max 1 N"
  unfolding io_sonarr_queue_def io_sonarr_history_def io_radarr_queue_def io_radarr_history_def
  by (intro conjI collect_pages_requests collect_history_requests pages_at_most;
      rule queue_page_totals [OF assms(1,3)] history_page_totals [OF assms(2,4)], assumption)

section \<open>Complete listings\<close>

text \<open>
  A service that holds a fixed list and hands out pages of \<open>m\<close> records, where \<open>m\<close> need not be the size asked
  for; it answers every page that has records, and the first.
\<close>

definition serves :: "(int \<Rightarrow> ('r page, 's) io) \<Rightarrow> nat \<Rightarrow> 'r list \<Rightarrow> bool" where
  "serves fetch m xs \<longleftrightarrow> 0 < m \<and> length xs < 2 ^ 63 \<and>
     (\<forall>i s. i = 0 \<or> i * m < length xs \<longrightarrow>
        (\<exists>s'. fetch (int i + 1) s = (Inr \<lparr>pg_total = of_nat (length xs), pg_records = take m (drop (i * m) xs)\<rparr>, s')))"

lemma sint_length: "n < 2 ^ 63 \<Longrightarrow> sint (of_nat n :: 64 word) = int n"
  by (simp add: signed_of_nat signed_take_bit_int_eq_self)

lemma collect_until_serves:
  assumes "serves fetch m xs" "i = 0 \<or> i * m < length xs"
  shows "\<exists>s'. collect_until stop fetch (int i + 1) (i * m) out s
     = (Inr (out @ takeWhile (\<lambda>r. \<not> stop r) (drop (i * m) xs)), s')"
  using assms(2)
proof (induction "length xs - i * m" arbitrary: i out s rule: less_induct)
  case less
  let ?p = "\<lparr>pg_total = of_nat (length xs), pg_records = take m (drop (i * m) xs)\<rparr>"
  let ?rest = "drop (i * m) xs" and ?keep = "takeWhile (\<lambda>r. \<not> stop r)"
  obtain s' where f: "fetch (int i + 1) s = (Inr ?p, s')" 
    using assms(1) less(2) unfolding serves_def by blast
  have m: "0 < m" and tot: "sint (pg_total ?p) = int (length xs)"
    using assms(1) by (simp_all add: serves_def sint_length)
  show ?case
  proof (cases "\<exists>r \<in> set (take m ?rest). stop r")
    case True
    then obtain r where r: "r \<in> set (take m ?rest)" "\<not> \<not> stop r" by blast
    have "?keep (take m ?rest @ drop m ?rest) = ?keep (take m ?rest)" using r by (intro takeWhile_append1) auto
    then have "?keep ?rest = ?keep (take m ?rest)" by (simp only: append_take_drop_id)
    with f True show ?thesis by (subst collect_until.simps) (simp add: Let_def)
  next
    case go: False
    then have keep: "?keep (take m ?rest) = take m ?rest" by (auto simp: takeWhile_eq_all_conv)
    show ?thesis
    proof (cases "length xs \<le> i * m + length (take m ?rest)")
      case True
      then have "take m ?rest = ?rest" by (simp add: min_def split: if_splits)
      with f go True keep tot show ?thesis by (subst collect_until.simps) (simp add: Let_def)
    next
      case False
      then have more: "i * m + m < length xs" by (auto simp: min_def split: if_splits)
      then have len: "length (take m ?rest) = m" by simp
      have split: "?rest = take m ?rest @ drop ((i + 1) * m) xs"
        using append_take_drop_id [of m ?rest] by (simp add: add.commute)
      have "\<forall>r \<in> set (take m ?rest). \<not> stop r" using go by blast
      then have "?keep ?rest = take m ?rest @ ?keep (drop ((i + 1) * m) xs)"
        by (subst split) (rule takeWhile_append2, blast)
      moreover have "take m ?rest \<noteq> []" using len m by auto
      then have "collect_until stop fetch (int i + 1) (i * m) out s
          = collect_until stop fetch (int (i + 1) + 1) ((i + 1) * m) (out @ ?keep (take m ?rest)) s'"
        using f go False len tot more by (subst collect_until.simps) (simp add: Let_def add.commute)
      note this [unfolded keep]
      moreover have "\<exists>s''. collect_until stop fetch (int (i + 1) + 1) ((i + 1) * m) (out @ take m ?rest) s'
          = (Inr ((out @ take m ?rest) @ ?keep (drop ((i + 1) * m) xs)), s'')"
        using more m by (intro less(1)) (simp_all add: add.commute)
      ultimately show ?thesis by simp
    qed
  qed
qed

lemma takeWhile_newest_first:
  assumes "sorted_wrt (\<lambda>a b. date b \<le> date a) xs"
  shows "takeWhile (\<lambda>r. \<not> before_since date since r) xs = filter (\<lambda>r. \<not> before_since date since r) xs"
  using assms
proof (induction xs)
  case Nil
  then show ?case by simp
next
  case (Cons x xs)
  show ?case
  proof (cases "before_since date since x")
    case True
    then have "before_since date since r" if "r \<in> set xs" for r
      using Cons(2) that by (fastforce simp: before_since_def)
    with True show ?thesis by (simp add: filter_eq_Nil_iff)
  next
    case False
    with Cons show ?thesis by simp
  qed
qed

text \<open>C24: Listings are complete: against a service that holds a fixed list and hands it out in pages, whatever the
  size of its pages, the queue is the whole list in order, and the history since a time, if the service sorts it
  newest first as it was asked to, is the list of exactly the records that are not older (all of them for the zero
  time), although the loop stops at the first older record.\<close>

theorem listings_are_complete:
  assumes "serves (sonarr_queue_page c net ks) m qs"
    and "serves (sonarr_history_page c net ks event_type) m' hs" "sorted_wrt (\<lambda>a b. sh_date b \<le> sh_date a) hs"
  shows "fst (io_sonarr_queue c net ks s) = Inr qs
       \<and> fst (io_sonarr_history c net ks since event_type s) = Inr (filter (\<lambda>r. since = 0 \<or> since \<le> sh_date r) hs)"
proof -
  have "\<exists>s'. collect_until (\<lambda>_. False) (sonarr_queue_page c net ks) 1 0 [] s = (Inr qs, s')"
    using collect_until_serves [OF assms(1), of 0 "\<lambda>_. False" "[]" s] by simp
  moreover have "\<exists>s'. collect_until (before_since sh_date since) (sonarr_history_page c net ks event_type) 1 0 [] s
      = (Inr (filter (\<lambda>r. \<not> before_since sh_date since r) hs), s')"
    using collect_until_serves [OF assms(2), of 0 "before_since sh_date since" "[]" s]
      takeWhile_newest_first [OF assms(3), of since] by simp
  moreover have "filter (\<lambda>r. \<not> before_since sh_date since r) hs = filter (\<lambda>r. since = 0 \<or> since \<le> sh_date r) hs"
    by (intro filter_cong) (auto simp: before_since_def t_is_zero_def)
  ultimately show ?thesis
    by (auto simp: io_sonarr_queue_def io_sonarr_history_def collect_pages_until)
qed

section \<open>Docker's log stream\<close>

text \<open>What the engine writes for one piece of output: its stream and length, then the piece.\<close>

definition frame :: "nat \<times> string \<Rightarrow> string" where
  "frame f = (let n = length (snd f)
     in [char_of (fst f), nul, nul, nul, char_of (n div 16777216), char_of (n div 65536 mod 256),
         char_of (n div 256 mod 256), char_of (n mod 256)] @ snd f)"

definition good_frame :: "nat \<times> string \<Rightarrow> bool" where
  "good_frame f \<longleftrightarrow> fst f \<le> 2 \<and> length (snd f) < 2 ^ 32"

lemma big_endian: "16777216 * (n div 16777216) + 65536 * (n div 65536 mod 256) + 256 * (n div 256 mod 256) + n mod 256 = (n :: nat)"
proof -
  have parts: "n = 256 * a + d \<Longrightarrow> a = 256 * b + e \<Longrightarrow> b = 256 * c + f \<Longrightarrow>
      16777216 * c + 65536 * f + 256 * e + d = n" for a b c d e f :: nat by simp
  have "n div 65536 = n div 256 div 256" "n div 16777216 = n div 256 div 256 div 256" by (simp_all flip: div_mult2_eq)
  then show ?thesis
    by (simp only:) (rule parts [of "n div 256" "n mod 256" "n div 256 div 256"]; simp only: mult_div_mod_eq)
qed

lemma frame_parts:
  assumes "good_frame f"
  shows "length (frame f) = 8 + length (snd f)" "drop 8 (frame f @ r) = snd f @ r"
    "frame_size (frame f @ r) = length (snd f)" "looks_framed (frame f @ r)"
proof -
  let ?n = "length (snd f)"
  have n: "?n < 2 ^ 32" using assms by (simp add: good_frame_def)
  then have "?n div 16777216 < 256" by (intro less_mult_imp_div_less) simp
  then have "frame_size (frame f @ r)
      = 16777216 * (?n div 16777216) + 65536 * (?n div 65536 mod 256) + 256 * (?n div 256 mod 256) + ?n mod 256"
    by (simp add: frame_size_def frame_def Let_def)
  then show "frame_size (frame f @ r) = ?n" using big_endian [of ?n] by simp
  show "length (frame f) = 8 + ?n" "drop 8 (frame f @ r) = snd f @ r" "looks_framed (frame f @ r)"
    using assms by (simp_all add: frame_def Let_def looks_framed_def good_frame_def)
qed

lemma strip_frames_frame:
  assumes "good_frame f"
  shows "strip_frames (frame f @ r) = snd f @ strip_frames r"
  using frame_parts [OF assms] by (subst strip_frames.simps) (simp add: Let_def)

lemma strip_frames_concat: "list_all good_frame fs \<Longrightarrow> strip_frames (concat (map frame fs) @ r) = concat (map snd fs) @ strip_frames r"
  by (induction fs) (simp_all add: strip_frames_frame)

lemma frame_cut:
  assumes "good_frame f" "8 \<le> n"
  shows "strip_frames (take n (frame f)) = take (n - 8) (snd f)"
proof (cases "n < length (frame f)")
  case False
  then show ?thesis
    using strip_frames_frame [OF assms(1), of "[]"] strip_frames.simps [of "[]"] frame_parts(1) [OF assms(1)] by simp
next
  case True
  note len = frame_parts(1) [OF assms(1)]
  have d: "drop 8 (take n (frame f)) = take (n - 8) (snd f)"
    using frame_parts(2) [OF assms(1), of "[]"] by (simp add: drop_take)
  have "take 4 (drop 4 (take n (frame f))) = take 4 (drop 4 (frame f))" using assms(2) by (simp add: drop_take min_def)
  then have s: "frame_size (take n (frame f)) = length (snd f)"
    using frame_parts(3) [OF assms(1), of "[]"] by (simp add: frame_size_def)
  have "\<not> length (take n (frame f)) < 8" using assms(2) len by simp
  then show ?thesis using True len assms(2) d s by (subst strip_frames.simps) (auto simp: Let_def)
qed

text \<open>The frames come off a container's log and nothing else does: for any sequence of pieces of output on the
  three streams, each shorter than four gigabytes, demultiplexing what the engine writes for them gives the pieces
  one after the other, and if the stream was cut inside the piece that follows, also the part of it that arrived.\<close>

theorem log_frames_come_off:
  assumes "list_all good_frame fs" "good_frame f" "8 \<le> n"
  shows "demultiplex (concat (map frame fs)) = concat (map snd fs)
       \<and> demultiplex (concat (map frame fs) @ take n (frame f)) = concat (map snd fs) @ take (n - 8) (snd f)"
proof
  have empty: "strip_frames [] = []" by (subst strip_frames.simps) simp
  show "demultiplex (concat (map frame fs)) = concat (map snd fs)"
  proof (cases fs)
    case Nil
    then show ?thesis by (simp add: demultiplex_def empty)
  next
    case (Cons g gs)
    then have "looks_framed (concat (map frame fs))" using assms(1) frame_parts(4) [of g] by simp
    then show ?thesis using strip_frames_concat [OF assms(1), of "[]"] by (simp add: demultiplex_def empty)
  qed
  have "looks_framed (concat (map frame fs) @ take n (frame f))"
  proof (cases fs)
    case Nil
    have "take 8 (take n (frame f)) = take 8 (frame f)" using assms(3) by (simp add: min_def)
    moreover have "looks_framed b \<longleftrightarrow> looks_framed (take 8 b)" for b
      by (cases "8 \<le> length b") (auto simp: looks_framed_def drop_take)
    ultimately have "looks_framed (take n (frame f)) \<longleftrightarrow> looks_framed (frame f)" by metis
    then show ?thesis using frame_parts(4) [OF assms(2), of "[]"] Nil by simp
  next
    case (Cons g gs)
    then show ?thesis using assms(1) frame_parts(4) [of g] by simp
  qed
  then show "demultiplex (concat (map frame fs) @ take n (frame f)) = concat (map snd fs) @ take (n - 8) (snd f)"
    using strip_frames_concat [OF assms(1)] frame_cut [OF assms(2,3)] by (simp add: demultiplex_def)
qed

theorem log_frames_come_off_witness:
  "demultiplex (concat (map frame [(1, ''up''), (2, ''down'')]) @ take 11 (frame (1, ''again''))) = ''updownaga''"
  using log_frames_come_off [of "[(1, ''up''), (2, ''down'')]" "(1, ''again'')" 11] by (simp add: good_frame_def)

section \<open>The session of qBittorrent\<close>

text \<open>A network that remembers the requests it was sent and answers by them.\<close>

definition recorded :: "(http_request list \<Rightarrow> http_request \<Rightarrow> http_outcome) \<Rightarrow> http_request list wire" where
  "recorded ans rq sent = (ans sent rq, sent @ [rq])"

definition login_request :: "qbit_http \<Rightarrow> http_request" where
  "login_request q = request_of (qh_http q) ''POST'' (resolve (qh_http q) (qbit_api @ ''/auth/login'') None)
     (encode [(''username'', [qh_user q]), (''password'', [qh_pass q])]) ''application/x-www-form-urlencoded''"

definition form_request :: "qbit_http \<Rightarrow> string \<Rightarrow> query_values \<Rightarrow> http_request" where
  "form_request q path form = request_of (qh_http q) ''POST'' (resolve (qh_http q) (qbit_api @ path) None)
     (encode form) ''application/x-www-form-urlencoded''"

definition accepted :: "http_outcome \<Rightarrow> bool" where
  "accepted out \<longleftrightarrow> (case out of Answered status _ \<Rightarrow> 200 \<le> status \<and> status \<le> 299 | _ \<Rightarrow> False)"

definition forbidden :: "http_outcome \<Rightarrow> bool" where
  "forbidden out \<longleftrightarrow> (case out of Answered status _ \<Rightarrow> status = 403 | TransportFailure _ e \<Rightarrow> is_status e 403
     | ReadFailure e \<Rightarrow> is_status e 403 | Unbuildable _ _ e \<Rightarrow> is_status e 403)"

lemma is_status_wrap [simp]: "is_status (wrap_error p e) n = is_status e n"
  by (simp add: is_status_def api_status_def wrap_error_def)

lemma http_do_answer:
  "http_do c (\<lambda>_. out) method u body ct = Inl e \<Longrightarrow> \<not> accepted out \<and> (is_status e 403 \<longleftrightarrow> forbidden out)"
  "http_do c (\<lambda>_. out) method u body ct = Inr x \<Longrightarrow> accepted out"
  by (auto simp: http_do_def Let_def accepted_def forbidden_def api_error_def is_status_def api_status_def
      wrap_error_def redact_transport_error_def split: http_outcome.splits if_splits option.splits)

text \<open>One form sent over the recording network.\<close>

lemma post_form_step:
  assumes "ignore (io_post_form (qh_http q) (recorded ans) (qbit_api @ path) form) sent = (r, sent')"
  shows "sent' = sent @ [form_request q path form]"
    and "r = Inr () \<longleftrightarrow> accepted (ans sent (form_request q path form))"
    and "r = Inl e \<Longrightarrow> is_status e 403 \<longleftrightarrow> forbidden (ans sent (form_request q path form))"
  using assms http_do_answer
  by (auto simp: ignore_def ibind_def io_post_form_def over_wire_def recorded_def post_form_def form_request_def ireturn_def
      split: prod.splits sum.splits)

lemma login_step:
  assumes "login q (recorded ans) (b, sent) = (r, (b', sent'))"
  shows "sent' = sent \<or> sent' = sent @ [login_request q]"
    and "qh_user q = '''' \<and> qh_pass q = '''' \<Longrightarrow> r = Inr () \<and> b' = b \<and> sent' = sent"
    and "\<not> (qh_user q = '''' \<and> qh_pass q = '''') \<Longrightarrow> sent' = sent @ [login_request q]"
  using assms
  by (auto simp: login_def iwrap_def io_post_form_def over_wire_def recorded_def login_request_def split: prod.splits sum.splits if_splits)

lemma login_is_no_form: "p \<noteq> ''auth/login'' \<Longrightarrow> form_request q (sep # p) form \<noteq> login_request q"
  by (auto simp: form_request_def login_request_def request_of_def resolve_def Let_def qbit_api_def trim_left_def
      dest!: arg_cong [where f = ur_path])

text \<open>The sequences of requests one operation makes, and when it succeeds.\<close>

lemma with_auth_post:
  fixes ans q path form
  defines "d \<equiv> form_request q path form" and "l \<equiv> login_request q"
  assumes run: "with_auth q (recorded ans) (ignore (io_post_form (qh_http q) (recorded ans) (qbit_api @ path) form)) (b, sent)
      = (r, (b', sent'))"
  shows "\<exists>ls ls'. set ls \<subseteq> {l} \<and> set ls' \<subseteq> {l} \<and>
     (sent' = sent @ ls \<and> (\<exists>e. r = Inl e)
    \<or> sent' = sent @ ls @ [d] \<and> (r = Inr () \<longleftrightarrow> accepted (ans (sent @ ls) d))
    \<or> sent' = sent @ ls @ [d] @ ls' \<and> (\<exists>e. r = Inl e) \<and> forbidden (ans (sent @ ls) d)
    \<or> sent' = sent @ ls @ [d] @ ls' @ [d] \<and> forbidden (ans (sent @ ls) d)
        \<and> (r = Inr () \<longleftrightarrow> accepted (ans (sent @ ls @ [d] @ ls') d)))"
proof -
  let ?fn = "ignore (io_post_form (qh_http q) (recorded ans) (qbit_api @ path) form)"
  obtain r0 b0 s0 where i: "(if b then (Inr (), (b, sent)) else login q (recorded ans) (b, sent)) = (r0, (b0, s0))"
    by (metis prod.exhaust)
  then obtain ls where ls: "s0 = sent @ ls" "set ls \<subseteq> {l}"
    using login_step(1) [of q ans b sent r0 b0 s0] by (force simp: l_def split: if_splits)
  obtain r1 s1 where f: "?fn s0 = (r1, s1)" by (cases "?fn s0")
  note step1 = post_form_step [OF f, folded d_def]
  obtain r2 b2 s2 where j: "login q (recorded ans) (False, s1) = (r2, (b2, s2))" by (metis prod.exhaust)
  then obtain ls' where ls': "s2 = s1 @ ls'" "set ls' \<subseteq> {l}"
    using login_step(1) [OF j] by (force simp: l_def)
  obtain r3 s3 where g: "?fn s2 = (r3, s3)" by (cases "?fn s2")
  note step2 = post_form_step [OF g, folded d_def]
  note unfold = run [unfolded with_auth_def, unfolded fst_conv i]
  show ?thesis
  proof (cases r0)
    case (Inl e)
    with unfold ls show ?thesis by - (rule exI [of _ ls], rule exI [of _ "[]"], auto)
  next
    case r0: (Inr x)
    show ?thesis
    proof (cases r1)
      case (Inr y)
      with r0 unfold f ls step1 show ?thesis
        by - (rule exI [of _ ls], rule exI [of _ "[]"], simp add: keep_login_def)
    next
      case r1: (Inl e)
      show ?thesis
      proof (cases "is_status e 403")
        case False
        with r0 r1 unfold f ls step1(1,2) show ?thesis
          by - (rule exI [of _ ls], rule exI [of _ "[]"], auto simp: keep_login_def)
      next
        case True
        then have fb: "forbidden (ans (sent @ ls) d)" using step1(3) [OF r1] ls by simp
        show ?thesis
        proof (cases r2)
          case (Inl e')
          with r0 r1 True unfold f j ls ls' step1(1) fb show ?thesis
            by - (rule exI [of _ ls], rule exI [of _ ls'], auto simp: keep_login_def)
        next
          case (Inr z)
          with r0 r1 True unfold f j g ls ls' step1(1) step2(1,2) fb show ?thesis
            by - (rule exI [of _ ls], rule exI [of _ ls'], simp add: keep_login_def)
        qed
      qed
    qed
  qed
qed

lemma accepted_not_forbidden: "accepted out \<Longrightarrow> \<not> forbidden out"
  by (auto simp: accepted_def forbidden_def split: http_outcome.splits)

lemma snoc_eq_snoc: "xs @ [d] = pre @ d # post \<Longrightarrow> post \<noteq> [] \<Longrightarrow> \<exists>post'. post = post' @ [d] \<and> xs = pre @ d # post'"
  by (cases post rule: rev_cases) auto

text \<open>What is true of the requests of one operation whose own request is \<open>d\<close>.\<close>

definition sent_once :: "(http_request list \<Rightarrow> http_request \<Rightarrow> http_outcome) \<Rightarrow> http_request list \<Rightarrow> http_request \<Rightarrow>
    http_request list \<Rightarrow> unit result \<Rightarrow> bool" where
  "sent_once ans sent d new r \<longleftrightarrow>
     count_list new d \<le> 2 \<and>
     (r = Inr () \<longleftrightarrow> (\<exists>pre. new = pre @ [d] \<and> accepted (ans (sent @ pre) d))) \<and>
     (\<forall>pre post. new = pre @ d # post \<and> post \<noteq> [] \<longrightarrow> forbidden (ans (sent @ pre) d))"

lemma count_list_0: "set ls \<subseteq> {l} \<Longrightarrow> d \<noteq> l \<Longrightarrow> count_list ls d = 0"
  by (auto simp: count_list_0_iff)

lemma sent_once_cases:
  assumes d: "d \<noteq> l" and ls: "set ls \<subseteq> {l}" "set ls' \<subseteq> {l}"
  shows "\<exists>e. r = Inl e \<Longrightarrow> sent_once ans sent d ls r"
    and "r = Inr () \<longleftrightarrow> accepted (ans (sent @ ls) d) \<Longrightarrow> sent_once ans sent d (ls @ [d]) r"
    and "\<exists>e. r = Inl e \<Longrightarrow> forbidden (ans (sent @ ls) d) \<Longrightarrow> sent_once ans sent d (ls @ [d] @ ls') r"
    and "forbidden (ans (sent @ ls) d) \<Longrightarrow> r = Inr () \<longleftrightarrow> accepted (ans (sent @ ls @ [d] @ ls') d) \<Longrightarrow>
      sent_once ans sent d (ls @ [d] @ ls' @ [d]) r"
proof -
  have out: "d \<notin> set ls" "d \<notin> set ls'" using d ls by auto
  note c = count_list_0 [OF ls(1) d] count_list_0 [OF ls(2) d]
  have uniq: "pre = ls" if "ls @ d # zs = pre @ d # post" "d \<notin> set zs" for pre post zs
    using that out(1) append_Cons_eq_iff [of d ls zs pre post] by simp
  show "\<exists>e. r = Inl e \<Longrightarrow> sent_once ans sent d ls r"
    using out c by (auto simp: sent_once_def)
  show "r = Inr () \<longleftrightarrow> accepted (ans (sent @ ls) d) \<Longrightarrow> sent_once ans sent d (ls @ [d]) r"
    using out c by (auto simp: sent_once_def dest: snoc_eq_snoc)
  show "sent_once ans sent d (ls @ [d] @ ls') r" if "\<exists>e. r = Inl e" "forbidden (ans (sent @ ls) d)"
  proof -
    have refused: "forbidden (ans (sent @ pre) d)" if "ls @ d # ls' = pre @ d # post" for pre post
      using uniq [OF that out(2)] \<open>forbidden (ans (sent @ ls) d)\<close> by simp
    have "\<nexists>pre. ls @ d # ls' = pre @ [d] \<and> accepted (ans (sent @ pre) d)"
      using refused accepted_not_forbidden by blast
    moreover have "r \<noteq> Inr ()" using \<open>\<exists>e. r = Inl e\<close> by auto
    moreover have "count_list (ls @ [d] @ ls') d \<le> 2" using c by simp
    ultimately show ?thesis unfolding sent_once_def using refused by simp
  qed
  show "sent_once ans sent d (ls @ [d] @ ls' @ [d]) r"
    if "forbidden (ans (sent @ ls) d)" "r = Inr () \<longleftrightarrow> accepted (ans (sent @ ls @ [d] @ ls') d)"
  proof -
    have "forbidden (ans (sent @ pre) d)" if eq: "ls @ d # ls' @ [d] = pre @ d # post" and ne: "post \<noteq> []" for pre post
    proof -
      have "(ls @ d # ls') @ [d] = pre @ d # post" using eq by simp
      from snoc_eq_snoc [OF this ne] obtain post' where "ls @ d # ls' = pre @ d # post'" by blast
      then have "pre = ls" using out(2) by (rule uniq)
      with \<open>forbidden (ans (sent @ ls) d)\<close> show ?thesis by simp
    qed
    with that c show ?thesis by (auto simp: sent_once_def)
  qed
qed

definition delete_form :: "string list \<Rightarrow> bool \<Rightarrow> query_values" where
  "delete_form hashes delete_files =
     [(''hashes'', [join_with ''|'' hashes]), (''deleteFiles'', [show_bool delete_files])]"

text \<open>C23: A deletion in qBittorrent happens at most once: whatever the application answers, the operation sends
  logins and at most two requests to delete, all for exactly these torrents with exactly this choice about their
  files; a request to delete that is followed by anything was refused with status 403, so one that was accepted is
  the last request made, and the operation reports success exactly if its last request is an accepted deletion.\<close>

theorem deletion_happens_once:
  assumes "io_qbit_delete q (recorded ans) hashes delete_files (logged_in, sent) = (r, (logged_in', sent'))"
  shows "\<exists>new. sent' = sent @ new
    \<and> set new \<subseteq> {form_request q ''/torrents/delete'' (delete_form hashes delete_files), login_request q}
    \<and> sent_once ans sent (form_request q ''/torrents/delete'' (delete_form hashes delete_files)) new r"
proof -
  let ?d = "form_request q ''/torrents/delete'' (delete_form hashes delete_files)" and ?l = "login_request q"
  obtain r0 where w: "with_auth q (recorded ans) (ignore (io_post_form (qh_http q) (recorded ans)
      (qbit_api @ ''/torrents/delete'') (delete_form hashes delete_files))) (logged_in, sent) = (r0, (logged_in', sent'))"
    and r: "r = wrap_result ''qbittorrent delete'' r0"
    using assms by (auto simp: io_qbit_delete_def qbit_post_def iwrap_def delete_form_def split: prod.splits)
  have ok: "r = Inr () \<longleftrightarrow> r0 = Inr ()" "(\<exists>e. r = Inl e) \<longleftrightarrow> (\<exists>e. r0 = Inl e)"
    using r by (cases r0; simp)+
  have dl: "?d \<noteq> ?l" by (rule login_is_no_form) simp
  from with_auth_post [OF w] obtain ls ls' where ls: "set ls \<subseteq> {?l}" "set ls' \<subseteq> {?l}" and
    seq: "sent' = sent @ ls \<and> (\<exists>e. r0 = Inl e)
      \<or> sent' = sent @ ls @ [?d] \<and> (r0 = Inr () \<longleftrightarrow> accepted (ans (sent @ ls) ?d))
      \<or> sent' = sent @ ls @ [?d] @ ls' \<and> (\<exists>e. r0 = Inl e) \<and> forbidden (ans (sent @ ls) ?d)
      \<or> sent' = sent @ ls @ [?d] @ ls' @ [?d] \<and> forbidden (ans (sent @ ls) ?d)
          \<and> (r0 = Inr () \<longleftrightarrow> accepted (ans (sent @ ls @ [?d] @ ls') ?d))" by blast
  note once = sent_once_cases [OF dl ls, where r = r and ans = ans and sent = sent]
  have sets: "set ls \<subseteq> {?d, ?l}" "set (ls @ [?d]) \<subseteq> {?d, ?l}" "set (ls @ [?d] @ ls') \<subseteq> {?d, ?l}"
    "set (ls @ [?d] @ ls' @ [?d]) \<subseteq> {?d, ?l}" using ls by auto
  from seq [folded ok] show ?thesis
    using once sets by (elim disjE conjE) blast+
qed

section \<open>Requests of Overseerr\<close>

text \<open>A service that holds a fixed list of requests and answers \<open>take\<close> and \<open>skip\<close> on it.\<close>

definition lists_requests :: "(int \<Rightarrow> (raw_requests_page, 's) io) \<Rightarrow> raw_request list \<Rightarrow> bool" where
  "lists_requests fetch xs \<longleftrightarrow>
     (\<forall>i s. i = 0 \<or> i * 100 < length xs \<longrightarrow>
        (\<exists>s'. fetch (int i * 100) s =
           (Inr \<lparr>rp_pages = (int (length xs) + 99) div 100, rp_page = int i + 1, rp_results = take 100 (drop (i * 100) xs)\<rparr>, s')))"

lemma request_pages_listed:
  assumes "lists_requests fetch xs" "i = 0 \<and> 0 < n \<or> i * 100 < length xs"
  shows "case fst (request_pages n fetch (int i * 100) out s) of
           Inr rs \<Rightarrow> length xs \<le> (i + n) * 100 \<and> rs = out @ map overseerr_request_of (drop (i * 100) xs)
         | Inl _ \<Rightarrow> (i + n) * 100 < length xs"
  using assms(2)
proof (induction n arbitrary: i out s)
  case 0
  then show ?case by simp
next
  case (Suc n)
  let ?rest = "drop (i * 100) xs"
  let ?p = "\<lparr>rp_pages = (int (length xs) + 99) div 100, rp_page = int i + 1, rp_results = take 100 ?rest\<rparr>"
  obtain s' where f: "fetch (int i * 100) s = (Inr ?p, s')"
    using assms(1) Suc(2) unfolding lists_requests_def by blast
  have ends: "(int (length xs) + 99) div 100 \<le> int i + 1 \<longleftrightarrow> length xs \<le> (i + 1) * 100"
    using mult_div_mod_eq [of 100 "int (length xs) + 99"] pos_mod_sign [of 100 "int (length xs) + 99"]
      pos_mod_bound [of 100 "int (length xs) + 99"] by (intro iffI; simp; linarith)
  show ?case
  proof (cases "take 100 ?rest = [] \<or> length xs \<le> (i + 1) * 100")
    case True
    then have "take 100 ?rest = ?rest" by auto
    moreover have "length xs \<le> (i + Suc n) * 100" using True Suc(2) by (auto simp: algebra_simps)
    ultimately show ?thesis using f True ends by simp
  next
    case False
    have "(i + 1) * 100 < length xs" using False by simp
    note ih = Suc(1) [of "i + 1", OF disjI2, OF this, of "out @ map overseerr_request_of (take 100 ?rest)" s']
    have "?rest = take 100 ?rest @ drop ((i + 1) * 100) xs"
      using append_take_drop_id [of 100 ?rest] by (simp add: add.commute)
    then have "map overseerr_request_of ?rest
        = map overseerr_request_of (take 100 ?rest) @ map overseerr_request_of (drop ((i + 1) * 100) xs)"
      by (metis map_append)
    with ih show ?thesis
      using f False ends by (simp add: requests_page_size_def algebra_simps split: sum.splits)
  qed
qed

text \<open>The listing of Overseerr has a limit of exactly 50000 requests: against a service that holds a fixed list
  and honours the paging parameters, the whole list comes back in order as long as it has at most that many
  entries, and an error beyond.\<close>

theorem overseerr_limit:
  assumes "lists_requests (requests_page c net k flt) xs"
  shows "case fst (io_overseerr_requests c net k flt s) of
           Inr rs \<Rightarrow> length xs \<le> 50000 \<and> rs = map overseerr_request_of xs
         | Inl _ \<Rightarrow> 50000 < length xs"
  using request_pages_listed [OF assms, of 0 max_request_pages "[]" s]
  by (simp add: io_overseerr_requests_def max_request_pages_def split: sum.splits)

section \<open>Concrete services\<close>

definition answering :: "(http_request \<Rightarrow> string) \<Rightarrow> 's wire" where
  "answering f rq s = (Answered 200 (f rq), s)"

definition sample_raw_queue :: raw_sonarr_queue where
  "sample_raw_queue = \<lparr>rsq_id = 7, rsq_series_id = 1, rsq_episode_id = 2, rsq_title = ''t'', rsq_status = ''queued'',
     rsq_tracked_download_status = ''ok'', rsq_tracked_download_state = ''downloading'', rsq_download_id = ''d'',
     rsq_output_path = '''', rsq_size = Fin 1, rsq_size_left = Fin 0, rsq_added = 5, rsq_status_messages = [[''a''], [''b'']]\<rparr>"

definition sample_past :: "int \<Rightarrow> sonarr_history" where
  "sample_past t = \<lparr>sh_id = t, sh_date = t, sh_event_type = ''grabbed'', sh_source_title = ''t'', sh_series_id = 1,
     sh_episode_id = 1, sh_download_id = ''d''\<rparr>"

definition sample_sonarr :: sonarr_codec where
  "sample_sonarr = \<lparr>sc_health = (\<lambda>_. Inr []), sc_queue = (\<lambda>_. Inr \<lparr>pg_total = 1, pg_records = [sample_raw_queue]\<rparr>),
     sc_series = (\<lambda>_. Inr []), sc_root_folders = (\<lambda>_. Inr []), sc_total = (\<lambda>_. Inr 0),
     sc_history = (\<lambda>body. Inr \<lparr>pg_total = 3,
        pg_records = (if body = ''2'' then [sample_past 10] else [sample_past 30, sample_past 20])\<rparr>),
     sc_object = (\<lambda>_. Inr []), sc_command = (\<lambda>_. Inr 1), sc_encode = (\<lambda>_. Inr ''{}'')\<rparr>"

definition sample_radarr :: radarr_codec where
  "sample_radarr = \<lparr>rc_health = (\<lambda>_. Inr []), rc_queue = (\<lambda>_. Inr empty_page), rc_movies = (\<lambda>_. Inr []),
     rc_root_folders = (\<lambda>_. Inr []), rc_total = (\<lambda>_. Inr 0), rc_history = (\<lambda>_. Inr empty_page),
     rc_object = (\<lambda>_. Inr []), rc_command = (\<lambda>_. Inr 1), rc_encode = (\<lambda>_. Inr ''{}'')\<rparr>"

definition second_page :: "http_request \<Rightarrow> string" where
  "second_page rq = (if ur_query (hq_url rq) = encode (history_query '''' 2) then ''2'' else ''1'')"

lemmas page_simps = or_zero_def ibind_def iwrap_def io_get_json_def over_wire_def ireturn_def get_json_def decode_json_def
  http_do_def answering_def Let_def max_response_def

theorem listings_end_witness:
  "snd (snd (io_sonarr_queue sample_http (counted (answering second_page)) sample_sonarr ((), 0))) \<le> 3
 \<and> snd (snd (io_sonarr_history sample_http (counted (answering second_page)) sample_sonarr 15 '''' ((), 0))) \<le> 3"
  using listings_end [where ks = sample_sonarr and kr = sample_radarr and N = 3 and c = sample_http
      and net = "answering second_page" and s = "()" and since = 15 and event_type = "''''"]
  by (simp add: never_claims_more_def sample_sonarr_def sample_radarr_def empty_page_def)

lemma sample_history_pages:
  "sonarr_history_page sample_http (answering second_page) sample_sonarr '''' 1 s
     = (Inr \<lparr>pg_total = 3, pg_records = [sample_past 30, sample_past 20]\<rparr>, s)"
  "sonarr_history_page sample_http (answering second_page) sample_sonarr '''' 2 s
     = (Inr \<lparr>pg_total = 3, pg_records = [sample_past 10]\<rparr>, s)"
proof -
  have "encode (history_query '''' 1) \<noteq> encode (history_query '''' 2)" by code_simp
  then show "sonarr_history_page sample_http (answering second_page) sample_sonarr '''' 1 s
      = (Inr \<lparr>pg_total = 3, pg_records = [sample_past 30, sample_past 20]\<rparr>, s)"
    and "sonarr_history_page sample_http (answering second_page) sample_sonarr '''' 2 s
      = (Inr \<lparr>pg_total = 3, pg_records = [sample_past 10]\<rparr>, s)"
    by (simp_all add: sonarr_history_page_def page_simps second_page_def request_of_def resolve_def sample_sonarr_def)
qed

theorem listings_are_complete_witness:
  "fst (io_sonarr_queue sample_http (answering second_page) sample_sonarr ()) = Inr [sonarr_queue_item_of sample_raw_queue]
 \<and> fst (io_sonarr_history sample_http (answering second_page) sample_sonarr 15 '''' ()) = Inr [sample_past 30, sample_past 20]"
proof -
  have q: "serves (sonarr_queue_page sample_http (answering second_page) sample_sonarr) 1 [sonarr_queue_item_of sample_raw_queue]"
    by (auto simp: serves_def sonarr_queue_page_def page_simps second_page_def sample_sonarr_def)
  have h: "serves (sonarr_history_page sample_http (answering second_page) sample_sonarr '''') 2
      [sample_past 30, sample_past 20, sample_past 10]"
    unfolding serves_def
  proof (intro conjI allI impI)
    fix i s
    assume "i = 0 \<or> i * 2 < length [sample_past 30, sample_past 20, sample_past 10]"
    then consider "i = 0" | "i = 1" by fastforce
    then show "\<exists>s'. sonarr_history_page sample_http (answering second_page) sample_sonarr '''' (int i + 1) s
        = (Inr \<lparr>pg_total = of_nat (length [sample_past 30, sample_past 20, sample_past 10]),
            pg_records = take 2 (drop (i * 2) [sample_past 30, sample_past 20, sample_past 10])\<rparr>, s')"
      by cases (simp_all add: sample_history_pages)
  qed simp_all
  show ?thesis
    using listings_are_complete [OF q h, of "()" 15] by (simp add: sample_past_def)
qed

definition sample_request :: raw_request where
  "sample_request = \<lparr>rr_id = 1, rr_status = 2, rr_type = ''tv'', rr_created_at = 5, rr_updated_at = 6, rr_tmdb_id = 7,
     rr_tvdb_id = 8, rr_media_status = 3, rr_requested_by = \<lparr>rb_email = '''', rb_display_name = ''sam''\<rparr>\<rparr>"

definition sample_overseerr :: overseerr_codec where
  "sample_overseerr = \<lparr>oc_version = (\<lambda>_. Inr ''1''), oc_initialized = (\<lambda>_. Inr True),
     oc_requests = (\<lambda>_. Inr \<lparr>rp_pages = 1, rp_page = 1, rp_results = [sample_request]\<rparr>)\<rparr>"

theorem overseerr_limit_witness:
  "case fst (io_overseerr_requests sample_http (answering second_page) sample_overseerr '''' ()) of
     Inr rs \<Rightarrow> map or_requested_by rs = [''sam''] | Inl _ \<Rightarrow> False"
proof -
  have "lists_requests (requests_page sample_http (answering second_page) sample_overseerr '''') [sample_request]"
    by (auto simp: lists_requests_def requests_page_def page_simps second_page_def sample_overseerr_def)
  from overseerr_limit [OF this, of "()"] show ?thesis
    by (simp add: sample_request_def overseerr_request_of_def requested_by_name_def split: sum.splits)
qed

definition sample_qbit :: qbit_http where
  "sample_qbit = \<lparr>qh_http = sample_http, qh_user = ''admin'', qh_pass = ''pw''\<rparr>"

text \<open>A session that has expired: the first deletion is refused, the login succeeds.\<close>

definition expired_session :: "http_request list \<Rightarrow> http_request \<Rightarrow> http_outcome" where
  "expired_session sent rq = (if sent = [] then Answered 403 ''Forbidden'' else Answered 200 ''Ok.'')"

theorem deletion_happens_once_witness:
  "case io_qbit_delete sample_qbit (recorded expired_session) [''abc''] True (True, []) of
     (r, (_, sent)) \<Rightarrow> r = Inr () \<and>
       sent_once expired_session [] (form_request sample_qbit ''/torrents/delete'' (delete_form [''abc''] True)) sent r"
proof -
  obtain r b sent where run: "io_qbit_delete sample_qbit (recorded expired_session) [''abc''] True (True, []) = (r, (b, sent))"
    by (metis prod.exhaust)
  have "fst (io_qbit_delete sample_qbit (recorded expired_session) [''abc''] True (True, [])) = Inr ()"
    by (simp add: io_qbit_delete_def qbit_post_def iwrap_def with_auth_def keep_login_def ignore_def ibind_def ireturn_def
        io_post_form_def over_wire_def recorded_def expired_session_def login_def post_form_def http_do_def Let_def
        is_status_def api_status_def api_error_def max_response_def trim_space_def is_space_def)
  then have "r = Inr ()" using run by simp
  with deletion_happens_once [OF run] run show ?thesis by auto
qed

section \<open>Loose values\<close>

text \<open>A number reads the same whether the service quotes it or not; an empty text and null are zero.\<close>

lemma unquote_plain: "\<forall>c \<in> set s. c \<noteq> CHR 34 \<and> c \<noteq> CHR 92 \<and> c \<noteq> newline \<Longrightarrow> unquote_body (s @ [CHR 34]) = Some s"
  by (induction s) (subst unquote_body.simps, simp)+

lemma digit_char_plain: "d < 10 \<Longrightarrow> digit_char d \<noteq> CHR 34 \<and> digit_char d \<noteq> CHR 92 \<and> digit_char d \<noteq> newline"
  by (auto simp: digit_char_def newline_def dest!: arg_cong [where f = "of_char :: char \<Rightarrow> nat"])

lemma show_int_plain: "c \<in> set (show_int i) \<Longrightarrow> c \<noteq> CHR 34 \<and> c \<noteq> CHR 92 \<and> c \<noteq> newline"
  using digit_char_plain by (auto simp: show_int_def newline_def dest!: set_show_nat split: if_splits)

lemma loose_scalar_plain:
  assumes "s \<noteq> ''null''" "\<forall>c \<in> set s. c \<noteq> CHR 34 \<and> c \<noteq> CHR 92 \<and> c \<noteq> newline"
  shows "loose_scalar_text s = Inr (Some s)" "loose_scalar_text (CHR 34 # s @ [CHR 34]) = Inr (Some s)"
proof -
  show "loose_scalar_text s = Inr (Some s)"
    using assms by (cases s) (auto simp: loose_scalar_text_def)
  show "loose_scalar_text (CHR 34 # s @ [CHR 34]) = Inr (Some s)"
    using unquote_plain [OF assms(2)] by (simp add: loose_scalar_text_def)
qed

lemma loose_int_reads:
  assumes "min_int64 \<le> i" "i \<le> max_int64"
  shows "loose_int (show_int i) = Inr i" "loose_int (CHR 34 # show_int i @ [CHR 34]) = Inr i"
    "loose_int [CHR 34, CHR 34] = Inr 0" "loose_int ''null'' = Inr 0"
proof -
  have "parse_int (show_int i) = Inr i" using parse_int64_show_int assms by (simp add: parse_int_def)
  moreover have "show_int i \<noteq> ''''" "show_int i \<noteq> ''null''"
    using calculation by (auto simp: parse_int_def parse_int64_def split: option.splits if_splits)
      (simp add: parse_nat_def char_digit_def)
  moreover have "\<forall>c \<in> set (show_int i). c \<noteq> CHR 34 \<and> c \<noteq> CHR 92 \<and> c \<noteq> newline" using show_int_plain by blast
  ultimately show "loose_int (show_int i) = Inr i" "loose_int (CHR 34 # show_int i @ [CHR 34]) = Inr i"
    by (simp_all add: loose_int_def loose_def loose_scalar_plain)
  show "loose_int [CHR 34, CHR 34] = Inr 0" "loose_int ''null'' = Inr 0" by code_simp+
qed

text \<open>
  A quoted text is read with Go's rules for string literals, not JSON's: a slash that JSON lets a service
  escape is refused.
\<close>

lemma json_escape_refused:
  "loose_number_string [CHR 34, CHR ''a'', CHR 92, sep, CHR ''b'', CHR 34] =
     Inl (wrap_error (''tautulli: decode quoted value '' @ go_quote [CHR 34, CHR ''a'', CHR 92, sep, CHR ''b'', CHR 34])
       (new_error ''invalid syntax''))"
  by code_simp

text \<open>A name that needs escaping in a path is escaped twice: the space below arrives as a percent sign.\<close>

lemma name_escaped_twice:
  "url_string (resolve sample_http (''/containers/'' @ path_escape ''my app'' @ ''/json'') None)
     = ''http://nas:8181/containers/my%2520app/json''"
  by code_simp

end
