(* ===== verification/Cli_Output.thy ===== *)
theory Cli_Output
  imports System Go_Format Upstream
begin

text \<open>
  \<open>internal/cli/output.go\<close>: what the verbs print (indented JSON or a table aligned by
  \<open>text/tabwriter\<close>) and how they read \<open>--since\<close>, an id and a switch. The JSON encoder and the shortest
  decimal form of a float are parameters; no cell of a table has the byte 0xFF, the escape of \<open>text/tabwriter\<close>.
\<close>

section \<open>Aligned tables\<close>

definition tab :: char where "tab = CHR 0x09"

datatype cell = CStr string | CInt int | CBool bool | CFloat f64

text \<open>\<open>fmt.Sprint\<close> of one field.\<close>

fun sprint :: "(f64 \<Rightarrow> string) \<Rightarrow> cell \<Rightarrow> string" where
  "sprint ff (CStr s) = s"
| "sprint ff (CInt i) = show_int i"
| "sprint ff (CBool b) = show_bool b"
| "sprint ff (CFloat x) = ff x"

text \<open>
  \<open>tabwriter.NewWriter(w, 0, 4, 2, ' ', 0)\<close>: a cell that a tab ends belongs to the column of the same cells in
  the adjacent lines, and a column is two wider than its widest cell, in runes. The last cell of a line is not padded.
\<close>

definition in_column :: "nat \<Rightarrow> string list \<Rightarrow> bool" where
  "in_column j cells \<longleftrightarrow> j + 1 < length cells"

definition column_block :: "string list list \<Rightarrow> nat \<Rightarrow> nat \<Rightarrow> string list list" where
  "column_block ls i j = rev (takeWhile (in_column j) (rev (take i ls))) @ takeWhile (in_column j) (drop i ls)"

definition column_width :: "string list list \<Rightarrow> nat" where
  "column_width block = foldr max (map rune_count (concat block)) 0 + 2"

definition block_width :: "string list list \<Rightarrow> nat \<Rightarrow> nat \<Rightarrow> nat" where
  "block_width ls i j = column_width (map (\<lambda>cells. [cells ! j]) (column_block ls i j))"

definition pad_to :: "nat \<Rightarrow> string \<Rightarrow> string" where
  "pad_to w s = s @ replicate (w - rune_count s) CHR '' ''"

definition padded_line :: "string list list \<Rightarrow> nat \<Rightarrow> string" where
  "padded_line ls i =
     (let cells = ls ! i
      in concat (map (\<lambda>j. if in_column j cells then pad_to (block_width ls i j) (cells ! j) else cells ! j) [0..<length cells]))"

text \<open>
  A vertical tab ends a cell like a tab, and a form feed a line like a line break; the columns of the lines before it
  are laid out without those after it. The last line of the text has no empty cell at its end.
\<close>

definition cells_of :: "string \<Rightarrow> string list" where
  "cells_of line = split_on tab (map (\<lambda>c. if c = CHR 0x0B then tab else c) line)"

definition format_lines :: "string list list \<Rightarrow> string" where
  "format_lines ls = join_with [newline] (map (padded_line ls) [0..<length ls])"

definition without_open_cell :: "string list list \<Rightarrow> string list list" where
  "without_open_cell ls =
     (let cells = last ls in butlast ls @ [if last cells = '''' then butlast cells else cells])"

definition aligned :: "string \<Rightarrow> string" where
  "aligned text =
     (let pages = map (\<lambda>page. map cells_of (split_on newline page)) (split_on (CHR 0x0C) text)
      in join_with [newline] (map format_lines (butlast pages @ [without_open_cell (last pages)])))"

definition row_text :: "string list \<Rightarrow> string" where
  "row_text cells = join_with [tab] cells @ [newline]"

definition print_struct_rows :: "string list \<Rightarrow> string list list \<Rightarrow> string" where
  "print_struct_rows header rows = aligned (concat (map row_text (header # rows)))"

text \<open>The keys of a map are distinct.\<close>

definition print_map_rows :: "(string \<times> string) list \<Rightarrow> string" where
  "print_map_rows rows = aligned (concat (map (\<lambda>(k, v). row_text [k, v]) (sort_key fst rows)))"

text \<open>What the switch on \<open>reflect.Kind\<close> finds; a struct is a slice of one row.\<close>

datatype shown =
    ShowNothing | ShowPairs "(string \<times> string) list" | ShowRows "string list" "string list list" | ShowPlain string

fun print_table :: "shown \<Rightarrow> string" where
  "print_table ShowNothing = ''''"
| "print_table (ShowPairs rows) = print_map_rows rows"
| "print_table (ShowRows header rows) = print_struct_rows header rows"
| "print_table (ShowPlain t) = t @ [newline]"

text \<open>\<open>Print\<close>; \<open>text\<close> is what \<open>MarshalIndent\<close> makes of the value, whose nil slices are empty ones.\<close>

definition print_value :: "bool \<Rightarrow> string result \<Rightarrow> shown \<Rightarrow> string result" where
  "print_value json_mode text v =
     (if json_mode then (case text of Inl e \<Rightarrow> Inl (wrap_error ''cli: marshal json'' e) | Inr t \<Rightarrow> Inr (t @ [newline]))
      else Inr (print_table v))"

section \<open>Durations\<close>

text \<open>\<open>time.ParseDuration\<close>. Digits are read up to \<open>2\<^sup>6\<^sup>3\<close>, a fraction as far as it fits.\<close>

definition two63 :: nat where "two63 = 9223372036854775808"

fun leading_int :: "nat \<Rightarrow> string \<Rightarrow> (nat \<times> string) option" where
  "leading_int x [] = Some (x, [])"
| "leading_int x (c # s) =
     (case char_digit c of
        None \<Rightarrow> Some (x, c # s)
      | Some d \<Rightarrow> if two63 div 10 < x \<or> two63 < 10 * x + d then None else leading_int (10 * x + d) s)"

text \<open>The state is the value, its scale and whether a digit did not fit.\<close>

fun leading_fraction :: "nat \<Rightarrow> nat \<Rightarrow> bool \<Rightarrow> string \<Rightarrow> nat \<times> nat \<times> string" where
  "leading_fraction x scale over [] = (x, scale, [])"
| "leading_fraction x scale over (c # s) =
     (case char_digit c of
        None \<Rightarrow> (x, scale, c # s)
      | Some d \<Rightarrow>
          if over then leading_fraction x scale over s
          else if (two63 - 1) div 10 < x \<or> two63 < 10 * x + d then leading_fraction x scale True s
          else leading_fraction (10 * x + d) (10 * scale) False s)"

definition unit_end :: "char \<Rightarrow> bool" where
  "unit_end c \<longleftrightarrow> c = CHR ''.'' \<or> char_digit c \<noteq> None"

text \<open>Both UTF-8 spellings of the micro sign are units.\<close>

definition duration_units :: "(string \<times> nat) list" where
  "duration_units = [(''ns'', 1), (''us'', 1000), ([CHR 0xC2, CHR 0xB5] @ ''s'', 1000), ([CHR 0xCE, CHR 0xBC] @ ''s'', 1000),
     (''ms'', 1000000), (''s'', 1000000000), (''m'', 60000000000), (''h'', 3600000000000)]"

text \<open>The package quotes a byte that is not printable ASCII in hexadecimal.\<close>

definition time_quote :: "string \<Rightarrow> string" where
  "time_quote s = [CHR 34] @ concat (map (\<lambda>c. let n = of_char c :: nat in
       if 128 \<le> n \<or> n < 32 then [CHR 92] @ ''x'' @ [hex_digit (n div 16), hex_digit (n mod 16)]
       else if n = 34 \<or> n = 92 then [CHR 92, c] else [c]) s) @ [CHR 34]"

definition bad_duration :: "string \<Rightarrow> string \<Rightarrow> goerr" where
  "bad_duration what s = new_error (''time: '' @ what @ '' duration '' @ time_quote s)"

text \<open>\<open>uint64(float64(f) * (float64(unit) / scale))\<close>.\<close>

definition fraction_part :: "nat \<Rightarrow> nat \<Rightarrow> nat \<Rightarrow> nat" where
  "fraction_part f unit scale =
     (if f = 0 then 0 else nat (f_to_int (f_mul (f_of_int (int f)) (f_div (f_of_int (int unit)) (f_of_int (int scale))))))"

text \<open>One number with its unit: what it adds and what is left, or the error.\<close>

definition duration_item :: "string \<Rightarrow> string \<Rightarrow> (nat \<times> string) result" where
  "duration_item orig s =
     (if s = '''' \<or> \<not> unit_end (hd s) then Inl (bad_duration ''invalid'' orig)
      else case leading_int 0 s of
        None \<Rightarrow> Inl (bad_duration ''invalid'' orig)
      | Some (v, s1) \<Rightarrow>
          let (f, scale, s2, post) =
                (if s1 \<noteq> '''' \<and> hd s1 = CHR ''.''
                 then case leading_fraction 0 1 False (tl s1) of (f, scale, r) \<Rightarrow> (f, scale, r, length r \<noteq> length (tl s1))
                 else (0, 1, s1, False));
              u = takeWhile (\<lambda>c. \<not> unit_end c) s2
          in if length s1 = length s \<and> \<not> post then Inl (bad_duration ''invalid'' orig)
             else if u = '''' then Inl (bad_duration ''missing unit in'' orig)
             else case map_of duration_units u of
               None \<Rightarrow> Inl (bad_duration (''unknown unit '' @ time_quote u @ '' in'') orig)
             | Some unit \<Rightarrow>
                 if two63 div unit < v then Inl (bad_duration ''invalid'' orig)
                 else let w = v * unit + fraction_part f unit scale
                      in if two63 < w then Inl (bad_duration ''invalid'' orig) else Inr (w, drop (length u) s2))"

lemma length_leading_int: "leading_int x s = Some (v, r) \<Longrightarrow> length r \<le> length s"
  by (induction x s rule: leading_int.induct) (auto split: option.splits if_splits)

lemma length_leading_fraction: "leading_fraction x c b s = (f, e, r) \<Longrightarrow> length r \<le> length s"
  by (induction x c b s rule: leading_fraction.induct) (auto split: option.splits if_splits)

lemma duration_item_shorter: "duration_item orig s = Inr (w, r) \<Longrightarrow> length r < length s"
  by (auto simp: duration_item_def Let_def split: if_splits option.splits prod.splits
      dest!: length_leading_int length_leading_fraction)

function duration_items :: "string \<Rightarrow> nat \<Rightarrow> string \<Rightarrow> nat result" where
  "duration_items orig d s =
     (if s = '''' then Inr d
      else case duration_item orig s of
        Inl e \<Rightarrow> Inl e
      | Inr (w, r) \<Rightarrow> if two63 < d + w then Inl (bad_duration ''invalid'' orig) else duration_items orig (d + w) r)"
  by pat_completeness auto
termination by (relation "measure (\<lambda>(orig, d, s). length s)") (auto simp: duration_item_shorter)

declare duration_items.simps [simp del]

definition parse_duration :: "string \<Rightarrow> duration result" where
  "parse_duration orig =
     (let neg = (orig \<noteq> '''' \<and> hd orig = CHR ''-'');
          s = (if orig \<noteq> '''' \<and> (hd orig = CHR ''-'' \<or> hd orig = CHR ''+'') then tl orig else orig)
      in if s = ''0'' then Inr 0
         else if s = '''' then Inl (bad_duration ''invalid'' orig)
         else rbind (duration_items orig 0 s) (\<lambda>d.
           if neg then Inr (- int d)
           else if two63 - 1 < d then Inl (bad_duration ''invalid'' orig)
           else Inr (int d)))"

section \<open>Arguments\<close>

definition err_since_must_be_positive :: goerr where
  "err_since_must_be_positive = new_error ''--since must be positive''"

definition atoi_failure :: "string \<Rightarrow> goerr" where
  "atoi_failure s = new_error (''strconv.Atoi: parsing '' @ drop (length ''strconv.ParseInt: parsing '') (err_msg (parse_int_error s)))"

text \<open>
  \<open>parseSince\<close>: the empty text is the zero time. The product of a day count with 24 hours is computed in 64
  bits and wraps.
\<close>

definition parse_since :: "time \<Rightarrow> string \<Rightarrow> time result" where
  "parse_since now s =
     (let what = ''parse --since '' @ go_quote s
      in if s = '''' then Inr 0
         else if last s = CHR ''d'' then
           (case parse_int64 (butlast s) of
              None \<Rightarrow> Inl (wrap_error what (atoi_failure (butlast s)))
            | Some n \<Rightarrow>
                if n < 0 then Inl (wrap_error what err_since_must_be_positive)
                else Inr (t_add now (wrap_int64 (- n * 24 * hour))))
         else rbind (wrap_result what (parse_duration s)) (\<lambda>d.
           if d < 0 then Inl (wrap_error what err_since_must_be_positive) else Inr (t_add now (- d))))"

definition parse_id :: "string \<Rightarrow> int result" where
  "parse_id s = wrap_result (''parse id '' @ go_quote s) (parse_int s)"

definition parse_on_off :: "string \<Rightarrow> bool result" where
  "parse_on_off s =
     (if s = ''on'' then Inr True else if s = ''off'' then Inr False
      else Inl (new_error (''invalid state '' @ go_quote s @ '': want '' @ go_quote ''on'' @ '' or '' @ go_quote ''off'')))"

section \<open>Shapes of a verb\<close>

text \<open>What a verb writes to the standard output and the error it returns.\<close>

type_synonym verb_end = "string \<times> goerr option"

record global_flags =
  gf_config_path :: string
  gf_json :: bool
  gf_dry_run :: bool

text \<open>The two forms of the values that verbs print.\<close>

record 'v printer =
  pt_json :: "'v \<Rightarrow> string result"
  pt_table :: "'v \<Rightarrow> shown"

fun written :: "string result \<Rightarrow> verb_end" where
  "written (Inl e) = ('''', Some e)"
| "written (Inr t) = (t, None)"

definition print_out :: "'v printer \<Rightarrow> global_flags \<Rightarrow> 'v \<Rightarrow> verb_end" where
  "print_out p fl v = written (print_value (gf_json fl) (pt_json p v) (pt_table p v))"

definition vfail :: "goerr \<Rightarrow> verb_end act" where
  "vfail e = aret ('''', Some e)"

text \<open>A step of a verb whose error ends it, without and with an effect.\<close>

definition vtry :: "'a result \<Rightarrow> ('a \<Rightarrow> verb_end act) \<Rightarrow> verb_end act" where
  "vtry r f = (case r of Inl e \<Rightarrow> vfail e | Inr x \<Rightarrow> f x)"

definition vstep :: "string \<Rightarrow> 'a result act \<Rightarrow> ('a \<Rightarrow> verb_end act) \<Rightarrow> verb_end act" where
  "vstep what m f = abind m (\<lambda>r. vtry (wrap_result what r) f)"

definition simple_cmd :: "'v printer \<Rightarrow> global_flags \<Rightarrow> 'c result \<Rightarrow> ('c \<Rightarrow> 'v result) \<Rightarrow> verb_end act" where
  "simple_cmd p fl get run = vtry get (\<lambda>c. vtry (run c) (\<lambda>v. aret (print_out p fl v)))"

definition do_or_dry_run :: "'v printer \<Rightarrow> global_flags \<Rightarrow> string \<Rightarrow> 'v result act \<Rightarrow> verb_end act" where
  "do_or_dry_run p fl desc run =
     (if gf_dry_run fl then aret (''would '' @ desc @ [newline], None)
      else abind run (\<lambda>r. vtry r (\<lambda>v. aret (print_out p fl v))))"

lemma vtry_simps [simp]: "vtry (Inl e) f = vfail e" "vtry (Inr x) f = f x"
  by (simp_all add: vtry_def)

end
