(* ===== verification/Cli_Deps.thy ===== *)
theory Cli_Deps
  imports Cli_Output Catalogue Agent_Schedule Web
begin

text \<open>
  \<open>internal/cli/deps.go\<close>, \<open>checkdeps.go\<close>, \<open>agentdeps.go\<close> and the opening of the state file in
  \<open>internal/store/store.go\<close>: how a verb gets its configuration, its clients and its store. \<open>Deps\<close> is the
  record of constructors it is in the code, an optional field being one that may be nil.
\<close>

section \<open>Opening the store\<close>

text \<open>How the SQL driver answers; closing is also asked after a failed ping or migration.\<close>

record sql_driver =
  sd_open :: "string \<Rightarrow> goerr option"
  sd_ping :: "goerr option"
  sd_close :: "goerr option"

definition dsn :: "string \<Rightarrow> string" where
  "dsn path = ''file:'' @ path @ ''?_pragma=busy_timeout(5000)&_pragma=journal_mode(WAL)&_pragma=synchronous(NORMAL)''"

definition open_failure :: "sql_driver \<Rightarrow> string \<Rightarrow> goerr \<Rightarrow> goerr" where
  "open_failure dv what e =
     (case sd_close dv of
        None \<Rightarrow> wrap_error what e
      | Some c \<Rightarrow> GoErr (what @ '': '' @ err_msg e @ '' (close: '' @ err_msg c @ '')'') (err_chain e))"

definition store_open :: "sql_driver \<Rightarrow> string \<Rightarrow> unit result act" where
  "store_open dv path =
     (case sd_open dv (dsn path) of
        Some e \<Rightarrow> aret (Inl (wrap_error (''store: open '' @ path) e))
      | None \<Rightarrow>
          (case sd_ping dv of
             Some e \<Rightarrow> aret (Inl (open_failure dv (''store: ping '' @ path) e))
           | None \<Rightarrow> abind (on_store migrate) (\<lambda>r. aret (case r of
               Inl e \<Rightarrow> Inl (open_failure dv (''store: migrate '' @ path) e)
             | Inr _ \<Rightarrow> Inr ()))))"

definition store_close :: "sql_driver \<Rightarrow> goerr option" where
  "store_close dv = map_option (wrap_error ''store: close'') (sd_close dv)"

text \<open>
  An open store as the verbs hold it: its dynamic type, which of the wider interfaces it has, and how closing
  it ends.
\<close>

record handle =
  hd_type :: string
  hd_remediations :: bool
  hd_web :: bool
  hd_decisions :: bool
  hd_close :: "goerr option"

definition sqlite_handle :: "sql_driver \<Rightarrow> handle" where
  "sqlite_handle dv = \<lparr>hd_type = ''*store.Store'', hd_remediations = True, hd_web = True, hd_decisions = True,
     hd_close = store_close dv\<rparr>"

section \<open>Constructors\<close>

text \<open>The methods of two clients that only verbs call.\<close>

record cli_prowlarr = prowlarr_client +
  pw_test_indexer :: "int \<Rightarrow> unit result"

record cli_overseerr = overseerr_client +
  ov_status :: "(string \<times> bool) result"

text \<open>A peer client: what its \<open>FetchLatest\<close> answers; the other methods are calls.\<close>

record peer_api =
  pa_latest :: "report_envelope option result"

record cli_deps =
  cd_load :: "(string \<Rightarrow> (config \<times> secrets) result) option"
  cd_sonarr :: "config \<Rightarrow> secrets \<Rightarrow> sonarr_client result"
  cd_radarr :: "config \<Rightarrow> secrets \<Rightarrow> radarr_client result"
  cd_prowlarr :: "config \<Rightarrow> secrets \<Rightarrow> cli_prowlarr result"
  cd_qbit :: "config \<Rightarrow> secrets \<Rightarrow> qbit_client result"
  cd_plex :: "config \<Rightarrow> secrets \<Rightarrow> plex_client result"
  cd_tautulli :: "config \<Rightarrow> secrets \<Rightarrow> tautulli_client result"
  cd_overseerr :: "config \<Rightarrow> secrets \<Rightarrow> cli_overseerr result"
  cd_docker :: "config \<Rightarrow> secrets \<Rightarrow> docker_client result"
  cd_host :: "config \<Rightarrow> secrets \<Rightarrow> host_client result"
  cd_registry :: "(config \<Rightarrow> registry result) option"
  cd_open_store :: "(config \<Rightarrow> handle result act) option"
  cd_peer_client :: "(config \<Rightarrow> secrets \<Rightarrow> peer_api option result) option"
  cd_sender :: "(config \<Rightarrow> bool) option"
  cd_open_agent_store :: "(config \<Rightarrow> handle result act) option"
  cd_new_agent :: "(agent_options \<Rightarrow> agent result) option"

text \<open>
  The world of one invocation: the clock when it is read first and again later, the zone of the process, the
  files that exist, the events the check runner sees, the driver, the real \<open>config.Load\<close> and \<open>peer.New\<close>.
\<close>

record cli_env =
  cn_now :: time
  cn_later :: time
  cn_zone :: zone
  cn_stat :: "string \<Rightarrow> bool"
  cn_race :: race
  cn_driver :: sql_driver
  cn_config_load :: "string \<Rightarrow> (config \<times> secrets) result"
  cn_new_peer :: "string \<Rightarrow> string \<Rightarrow> peer_api result"
  cn_version :: string
  cn_commit :: string

text \<open>
  \<open>plexTLSOpts\<close>: the server name is sent when the URL has a host that is not a literal address. \<open>hostname\<close> is
  what \<open>url.Parse\<close> and \<open>Hostname\<close> give, \<open>literal\<close> is \<open>net.ParseIP\<close>.
\<close>

definition plex_tls_opts :: "(string \<Rightarrow> string option) \<Rightarrow> (string \<Rightarrow> bool) \<Rightarrow> string \<Rightarrow> http_option list" where
  "plex_tls_opts hostname literal raw =
     (case hostname raw of
        None \<Rightarrow> []
      | Some host \<Rightarrow> if host = '''' \<or> literal host then [] else [with_tls_server_name host])"

definition cli_load :: "cli_deps \<Rightarrow> cli_env \<Rightarrow> global_flags \<Rightarrow> (config \<times> secrets) result" where
  "cli_load d en fl =
     wrap_result (''load config '' @ gf_config_path fl)
       ((case cd_load d of None \<Rightarrow> cn_config_load en | Some f \<Rightarrow> f) (gf_config_path fl))"

definition getter :: "cli_deps \<Rightarrow> cli_env \<Rightarrow> global_flags \<Rightarrow> string \<Rightarrow> (config \<Rightarrow> secrets \<Rightarrow> 'c result) \<Rightarrow> 'c result" where
  "getter d en fl name ctor =
     rbind (cli_load d en fl) (\<lambda>(cfg, sec). wrap_result (name @ '' client'') (ctor cfg sec))"

definition registry_for :: "cli_deps \<Rightarrow> config \<Rightarrow> registry result" where
  "registry_for d cfg =
     wrap_result ''check registry'' (case cd_registry d of None \<Rightarrow> checks_registry | Some f \<Rightarrow> f cfg)"

definition default_open_store :: "cli_env \<Rightarrow> config \<Rightarrow> handle result act" where
  "default_open_store en cfg =
     abind (store_open (cn_driver en) (cfg_db_path cfg)) (\<lambda>r. aret (rbind r (\<lambda>_. Inr (sqlite_handle (cn_driver en)))))"

definition open_store :: "cli_deps \<Rightarrow> cli_env \<Rightarrow> config \<Rightarrow> handle result act" where
  "open_store d en cfg = (case cd_open_store d of None \<Rightarrow> default_open_store en cfg | Some f \<Rightarrow> f cfg)"

definition open_agent_store :: "cli_deps \<Rightarrow> cli_env \<Rightarrow> config \<Rightarrow> handle result act" where
  "open_agent_store d en cfg = (case cd_open_agent_store d of None \<Rightarrow> default_open_store en cfg | Some f \<Rightarrow> f cfg)"

definition default_peer_client :: "cli_env \<Rightarrow> config \<Rightarrow> secrets \<Rightarrow> peer_api option result" where
  "default_peer_client en cfg sec =
     (if pc_peer_url (cfg_peer cfg) = '''' then Inr None
      else rbind (wrap_result ''peer client'' (cn_new_peer en (pc_peer_url (cfg_peer cfg)) (s_peer_token sec)))
             (\<lambda>c. Inr (Some c)))"

definition peer_client_for :: "cli_deps \<Rightarrow> cli_env \<Rightarrow> config \<Rightarrow> secrets \<Rightarrow> peer_api option result" where
  "peer_client_for d en cfg sec =
     (case cd_peer_client d of None \<Rightarrow> default_peer_client en cfg sec | Some f \<Rightarrow> f cfg sec)"

text \<open>Whether the node has a sender.\<close>

definition default_sender :: "config \<Rightarrow> bool" where
  "default_sender cfg \<longleftrightarrow> \<not> (cfg_node cfg \<noteq> NodePi \<or> ec_msmtp_path (cfg_email cfg) = '''' \<or> ec_from (cfg_email cfg) = '''')"

definition sender_for :: "cli_deps \<Rightarrow> config \<Rightarrow> bool" where
  "sender_for d cfg = (case cd_sender d of None \<Rightarrow> default_sender cfg | Some f \<Rightarrow> f cfg)"

section \<open>The dependencies of the checks\<close>

definition set_client :: "string \<Rightarrow> service \<Rightarrow> 'c result \<Rightarrow> 'c option result" where
  "set_client name sv build =
     wrap_result (''check deps: '' @ name) (if svc_url sv = '''' then Inr None else rbind build (\<lambda>c. Inr (Some c)))"

definition set_configured_clients :: "cli_deps \<Rightarrow> config \<Rightarrow> secrets \<Rightarrow> deps \<Rightarrow> deps result" where
  "set_configured_clients d cfg sec cd =
     (let sv = cfg_services cfg
      in rbind (set_client ''sonarr'' (svcs_sonarr sv) (cd_sonarr d cfg sec)) (\<lambda>so.
         rbind (set_client ''radarr'' (svcs_radarr sv) (cd_radarr d cfg sec)) (\<lambda>ra.
         rbind (set_client ''prowlarr'' (svcs_prowlarr sv) (cd_prowlarr d cfg sec)) (\<lambda>pr.
         rbind (set_client ''qbittorrent'' (svcs_qbittorrent sv) (cd_qbit d cfg sec)) (\<lambda>qb.
         rbind (set_client ''plex'' (svcs_plex sv) (cd_plex d cfg sec)) (\<lambda>pl.
         rbind (set_client ''tautulli'' (svcs_tautulli sv) (cd_tautulli d cfg sec)) (\<lambda>ta.
         rbind (set_client ''overseerr'' (svcs_overseerr sv) (cd_overseerr d cfg sec)) (\<lambda>ov.
         Inr (cd\<lparr>d_sonarr := so, d_radarr := ra, d_prowlarr := map_option prowlarr_client.truncate pr, d_qbit := qb,
           d_plex := pl, d_tautulli := ta, d_overseerr := map_option overseerr_client.truncate ov\<rparr>)))))))))"

definition want_docker :: "cli_env \<Rightarrow> config \<Rightarrow> bool" where
  "want_docker en cfg \<longleftrightarrow>
     (if cfg_node cfg = NodePi then True
      else if cfg_node cfg = NodeNAS then
        (if dc_socket (cfg_docker cfg) = '''' then False else cn_stat en (dc_socket (cfg_docker cfg)))
      else False)"

definition set_docker_and_host :: "cli_deps \<Rightarrow> cli_env \<Rightarrow> config \<Rightarrow> secrets \<Rightarrow> deps \<Rightarrow> deps result" where
  "set_docker_and_host d en cfg sec cd =
     rbind (if want_docker en cfg
            then rbind (wrap_result ''check deps: docker'' (cd_docker d cfg sec)) (\<lambda>c. Inr (cd\<lparr>d_docker := Some c\<rparr>))
            else Inr cd) (\<lambda>cd.
     rbind (wrap_result ''check deps: host'' (cd_host d cfg sec)) (\<lambda>h. Inr (cd\<lparr>d_host := Some h\<rparr>)))"

definition bare_deps :: "cli_env \<Rightarrow> config \<Rightarrow> deps" where
  "bare_deps en cfg = \<lparr>d_node = cfg_node cfg, d_cfg = cfg, d_now = cn_now en, d_local = zn_offset (cn_zone en),
     d_previous = None, d_sonarr = None, d_radarr = None, d_prowlarr = None, d_qbit = None, d_plex = None,
     d_tautulli = None, d_overseerr = None, d_docker = None, d_host = None\<rparr>"

definition build_check_deps :: "cli_deps \<Rightarrow> cli_env \<Rightarrow> config \<Rightarrow> secrets \<Rightarrow> deps result" where
  "build_check_deps d en cfg sec =
     rbind (set_configured_clients d cfg sec (bare_deps en cfg)) (set_docker_and_host d en cfg sec)"

section \<open>Closing on the way out\<close>

text \<open>The deferred \<open>Close\<close>: its failure is joined to the error of the verb, if there is one.\<close>

definition close_error :: "string \<Rightarrow> goerr option \<Rightarrow> goerr option \<Rightarrow> goerr option" where
  "close_error what c e =
     (case c of
        None \<Rightarrow> e
      | Some ce \<Rightarrow> Some (case e of None \<Rightarrow> wrap_error what ce | Some e \<Rightarrow> join_errors e (wrap_error what ce)))"

definition closing :: "string \<Rightarrow> handle \<Rightarrow> verb_end act \<Rightarrow> verb_end act" where
  "closing what h m = abind m (\<lambda>(t, e). aret (t, close_error what (hd_close h) e))"

end
