(* ===== verification/Cli_Verbs.thy ===== *)
theory Cli_Verbs
  imports Cli_Deps Staleness
begin

text \<open>
  The verbs of \<open>internal/cli\<close> that run the parts modelled elsewhere: \<open>check\<close>, \<open>report\<close>, \<open>cleanup\<close>, \<open>decide\<close>,
  \<open>staleness\<close>, \<open>notify\<close>, \<open>peer\<close>, \<open>config\<close> and \<open>agent\<close>. A write to the standard output succeeds.
\<close>

section \<open>What the verbs print\<close>

record check_row =
  kr_id :: string
  kr_nodes :: string
  kr_tier :: string
  kr_cadence :: string

record cleanup_output =
  cq_kind :: kind
  cq_node :: node
  cq_plan :: plan
  cq_status :: string
  cq_dry_run :: bool
  cq_result :: "cleanup_result option"

record score_row =
  sw_entity_key :: string
  sw_title :: string
  sw_score :: f64
  sw_band :: string
  sw_top :: string

record ping_result =
  pg_node :: string
  pg_reachable :: bool
  pg_error :: string
  pg_has_report :: bool
  pg_age :: f64
  pg_checks_run :: int
  pg_checks_failed :: int
  pg_findings :: int

record validation =
  va_node :: string
  va_actions :: bool
  va_dry_run :: bool
  va_candidate :: f64
  va_watchlist :: f64
  va_urls :: "(string \<times> string) list"
  va_keys :: "(string \<times> string) list"

datatype printed =
    PrMap "(string \<times> cell) list" | PrText string
  | PrChecks "check_row list" | PrRun report bool upsert_summary | PrCleanup cleanup_output | PrDecision decision
  | PrDigest digest_input | PrScores "score_row list" | PrPing ping_result | PrValidation validation
  | PrHealth "health_item list" | PrSonarrQueue "sonarr_queue_item list" | PrSeries "series list"
  | PrRootFolders "root_folder list" | PrSonarrHistory "sonarr_history list"
  | PrRadarrQueue "radarr_queue_item list" | PrMovies "movie list" | PrRadarrHistory "radarr_history list"
  | PrIndexers "indexer list" | PrIndexerStatus "indexer_status list"
  | PrTorrents "torrent list" | PrFiles "torrent_file list" | PrPreferences preferences
  | PrIdentity identity | PrLibraries "library list" | PrPlexItems "plex_item list" | PrWatches "history_row list"
  | PrRequests "overseerr_request list" | PrServerStatus string bool
  | PrContainers "container list" | PrDockerUsage disk_usage
  | PrMounts "host_mount list" | PrUsage usage | PrEntries "dir_entry list"

text \<open>
  How values are rendered: the JSON encoder, the shortest form of a float and the tables of the values that come
  from a client.
\<close>

record rendering =
  re_json :: "printed \<Rightarrow> string result"
  re_float :: "f64 \<Rightarrow> string"
  re_other :: "printed \<Rightarrow> shown"

definition rows_of :: "(f64 \<Rightarrow> string) \<Rightarrow> string list \<Rightarrow> cell list list \<Rightarrow> shown" where
  "rows_of ff header rows = ShowRows header (map (map (sprint ff)) rows)"

definition ping_cells :: "ping_result \<Rightarrow> cell list" where
  "ping_cells r = [CStr (pg_node r), CBool (pg_reachable r), CStr (pg_error r), CBool (pg_has_report r), CFloat (pg_age r),
     CInt (pg_checks_run r), CInt (pg_checks_failed r), CInt (pg_findings r)]"

fun table_of :: "rendering \<Rightarrow> printed \<Rightarrow> shown" where
  "table_of rd (PrMap kvs) = ShowPairs (map (\<lambda>(k, c). (k, sprint (re_float rd) c)) kvs)"
| "table_of rd (PrText t) = ShowPlain t"
| "table_of rd (PrChecks rows) = rows_of (re_float rd) [''ID'', ''Nodes'', ''Tier'', ''Cadence'']
     (map (\<lambda>r. [CStr (kr_id r), CStr (kr_nodes r), CStr (kr_tier r), CStr (kr_cadence r)]) rows)"
| "table_of rd (PrScores rows) = rows_of (re_float rd) [''EntityKey'', ''Title'', ''Score'', ''Band'', ''Top'']
     (map (\<lambda>r. [CStr (sw_entity_key r), CStr (sw_title r), CFloat (sw_score r), CStr (sw_band r), CStr (sw_top r)]) rows)"
| "table_of rd (PrPing r) = rows_of (re_float rd)
     [''Node'', ''Reachable'', ''Error'', ''HasReport'', ''ReportAgeSeconds'', ''ChecksRun'', ''ChecksFailed'', ''Findings'']
     [ping_cells r]"
| "table_of rd (PrHealth hs) = rows_of (re_float rd) [''Type'', ''Source'', ''Message'']
     (map (\<lambda>h. [CStr (hi_type h), CStr (hi_source h), CStr (hi_message h)]) hs)"
| "table_of rd v = re_other rd v"

definition out_of :: "rendering \<Rightarrow> printed printer" where
  "out_of rd = \<lparr>pt_json = re_json rd, pt_table = table_of rd\<rparr>"

section \<open>check\<close>

definition nodes_string :: "node list \<Rightarrow> string" where
  "nodes_string ns = join_with '','' ns"

text \<open>\<open>time.Duration.String\<close>: the fraction without trailing zeros, then the units that are needed.\<close>

definition fraction_digits :: "nat \<Rightarrow> nat \<Rightarrow> string" where
  "fraction_digits prec v =
     (let s = show_nat v; ds = rev (dropWhile (\<lambda>c. c = CHR ''0'') (rev (replicate (prec - length s) CHR ''0'' @ s)))
      in if v = 0 then '''' else CHR ''.'' # ds)"

definition duration_text :: "duration \<Rightarrow> string" where
  "duration_text d =
     (let u = nat \<bar>d\<bar>; sign = (if d < 0 then ''-'' else ''''); secs = u div 1000000000
      in sign @
         (if u = 0 then ''0s''
          else if u < 1000 then show_nat u @ ''ns''
          else if u < 1000000 then show_nat (u div 1000) @ fraction_digits 3 (u mod 1000) @ [CHR 0xC2, CHR 0xB5] @ ''s''
          else if u < 1000000000 then show_nat (u div 1000000) @ fraction_digits 6 (u mod 1000000) @ ''ms''
          else (if 60 \<le> secs then (if 3600 \<le> secs then show_nat (secs div 3600) @ ''h'' else '''') @
                  show_nat (secs div 60 mod 60) @ ''m'' else '''') @
               show_nat (secs mod 60) @ fraction_digits 9 (u mod 1000000000) @ ''s''))"

definition check_list_rows :: "check list \<Rightarrow> check_row list" where
  "check_list_rows cs = map (\<lambda>c. \<lparr>kr_id = ck_id c, kr_nodes = nodes_string (ck_nodes c), kr_tier = ck_tier c,
     kr_cadence = duration_text (ck_cadence c)\<rparr>) cs"

definition run_check_list :: "cli_deps \<Rightarrow> cli_env \<Rightarrow> rendering \<Rightarrow> global_flags \<Rightarrow> verb_end act" where
  "run_check_list d en rd fl =
     vtry (cli_load d en fl) (\<lambda>(cfg, _).
     vtry (registry_for d cfg) (\<lambda>reg.
     aret (print_out (out_of rd) fl (PrChecks (check_list_rows (all_checks reg))))))"

definition err_check_run_flags :: goerr where
  "err_check_run_flags = new_error ''check run: exactly one of --all or --id is required''"

definition select_checks :: "registry \<Rightarrow> node \<Rightarrow> bool \<Rightarrow> string \<Rightarrow> check list result" where
  "select_checks reg n every i =
     (if every then Inr (for_node reg n)
      else case by_id reg i of
        None \<Rightarrow> Inl (new_error (''check run: check '' @ i @ '' not found''))
      | Some c \<Rightarrow>
          if \<not> applies_to c n then Inl (new_error (''check '' @ i @ '' does not run on node '' @ n))
          else Inr [c])"

definition finding_cells :: "finding \<Rightarrow> string list" where
  "finding_cells f = [fi_severity f, fi_check_id f, fi_entity_key f, fi_summary f]"

definition print_check_run_table :: "report \<Rightarrow> string" where
  "print_check_run_table rep =
     print_struct_rows [''Severity'', ''CheckID'', ''EntityKey'', ''Summary''] (map finding_cells (rp_findings rep)) @
     ''checks: '' @ show_int (int (length (rp_ran rep))) @ '' run, '' @ show_int (int (length (rp_errors rep))) @
     '' failed, '' @ show_int (int (length (rp_skipped rep))) @ '' skipped; findings: '' @
     show_int (int (length (rp_findings rep))) @ [newline] @
     (if length (rp_errors rep) = 0 then ''''
      else ''errors:'' @ [newline] @
        concat (map (\<lambda>e. ''  '' @ ce_check_id e @ '': '' @ ce_error e @ [newline]) (rp_errors rep)))"

definition print_check_run :: "rendering \<Rightarrow> global_flags \<Rightarrow> report \<Rightarrow> bool \<Rightarrow> upsert_summary \<Rightarrow> verb_end" where
  "print_check_run rd fl rep persisted up =
     written (if gf_json fl
       then rbind (wrap_result ''cli: marshal check run json'' (re_json rd (PrRun rep persisted up))) (\<lambda>t. Inr (t @ [newline]))
       else Inr (print_check_run_table rep))"

definition run_check_run :: "cli_deps \<Rightarrow> cli_env \<Rightarrow> rendering \<Rightarrow> global_flags \<Rightarrow> bool \<Rightarrow> string \<Rightarrow> verb_end act" where
  "run_check_run d en rd fl every i =
     (if every = (i \<noteq> '''') then vfail err_check_run_flags
      else
        vtry (cli_load d en fl) (\<lambda>(cfg, sec).
        vtry (registry_for d cfg) (\<lambda>reg.
        vtry (select_checks reg (cfg_node cfg) every i) (\<lambda>selected.
        vtry (build_check_deps d en cfg sec) (\<lambda>cd.
        if gf_dry_run fl then aret (print_check_run rd fl (run_checks (cn_race en) selected cd) False zero_summary)
        else
          vstep ''check run: open store'' (open_store d en cfg) (\<lambda>h.
          closing ''check run: close store'' h (
          vstep ''check run: previous report'' (on_store (latest_report (cfg_node cfg))) (\<lambda>prev.
          let rep = run_checks (cn_race en) selected (cycle_deps cd prev)
          in vstep ''check run: save report'' (on_store (save_report rep)) (\<lambda>(_, up).
             aret (print_check_run rd fl rep True up))))))))))"

section \<open>report\<close>

definition digest_from_run :: "cli_deps \<Rightarrow> cli_env \<Rightarrow> config \<Rightarrow> secrets \<Rightarrow> digest_input result" where
  "digest_from_run d en cfg sec =
     rbind (registry_for d cfg) (\<lambda>reg.
     rbind (build_check_deps d en cfg sec) (\<lambda>cd.
     let rep = run_checks (cn_race en) (for_node reg (cfg_node cfg)) cd
     in Inr (build_digest (rp_node rep) (cn_zone en, rp_generated_at rep) rep (rp_findings rep) None '''' [])))"

text \<open>Without a report the digest is dated by the clock; a stored time is in UTC.\<close>

definition stored_digest :: "cli_env \<Rightarrow> config \<Rightarrow> stored_finding list \<Rightarrow> report option \<Rightarrow> digest_input" where
  "stored_digest en cfg sfs rep =
     (let at_time = (case rep of None \<Rightarrow> (cn_zone en, cn_now en) | Some r \<Rightarrow> utc_time (rp_generated_at r))
      in build_digest (cfg_node cfg) at_time (case rep of None \<Rightarrow> no_report | Some r \<Rightarrow> r) (to_findings sfs) None '''' [])"

definition print_digest :: "rendering \<Rightarrow> global_flags \<Rightarrow> digest_input \<Rightarrow> verb_end" where
  "print_digest rd fl i =
     (if gf_json fl then print_out (out_of rd) fl (PrDigest i) else (render_digest i, None))"

text \<open>The store is closed before the digest is printed, so a failing close prints nothing.\<close>

definition digest_from_store :: "cli_deps \<Rightarrow> cli_env \<Rightarrow> config \<Rightarrow> digest_input result act" where
  "digest_from_store d en cfg =
     abind (open_store d en cfg) (\<lambda>r. case r of
       Inl e \<Rightarrow> aret (Inl (wrap_error ''report generate: open store'' e))
     | Inr h \<Rightarrow>
         abind (on_store (open_findings (cfg_node cfg))) (\<lambda>r1.
         abind (case r1 of Inl e \<Rightarrow> aret (Inl (wrap_error ''report generate: open findings'' e))
                | Inr sfs \<Rightarrow> abind (on_store (latest_report (cfg_node cfg))) (\<lambda>r2. aret
                    (rbind (wrap_result ''report generate: latest report'' r2) (\<lambda>rep. Inr (stored_digest en cfg sfs rep))))) (\<lambda>r3.
         aret (case close_error ''report generate: close store'' (hd_close h) (case r3 of Inl e \<Rightarrow> Some e | Inr _ \<Rightarrow> None) of
                 None \<Rightarrow> r3 | Some e \<Rightarrow> Inl e))))"

definition run_report_generate :: "cli_deps \<Rightarrow> cli_env \<Rightarrow> rendering \<Rightarrow> global_flags \<Rightarrow> verb_end act" where
  "run_report_generate d en rd fl =
     vtry (cli_load d en fl) (\<lambda>(cfg, sec).
     abind (if gf_dry_run fl then aret (digest_from_run d en cfg sec) else digest_from_store d en cfg) (\<lambda>r.
     vtry r (\<lambda>i. aret (print_digest rd fl i))))"

end
