(* ===== verification/Cli_Actions.thy ===== *)
theory Cli_Actions
  imports Cli_Verbs
begin

text \<open>
  The verbs of \<open>internal/cli\<close> that may change something: \<open>cleanup\<close>, \<open>decide\<close>, \<open>notify test\<close>, \<open>peer ping\<close> and
  \<open>agent serve\<close>, and the previews \<open>staleness score\<close> and \<open>config validate\<close>.
\<close>

section \<open>cleanup\<close>

definition on_world :: "(world \<Rightarrow> 'a \<times> world) \<Rightarrow> 'a act" where
  "on_world f s = (case f (sy_world s) of (x, w) \<Rightarrow> (x, s\<lparr>sy_world := w\<rparr>))"

definition planner_for_kind :: "kind \<Rightarrow> planner result" where
  "planner_for_kind k =
     (case find (\<lambda>p. pl_kind p = k) all_planners of
        None \<Rightarrow> Inl (new_error (''cleanup: unknown kind '' @ go_quote k))
      | Some p \<Rightarrow> Inr p)"

definition node_allowed :: "node list \<Rightarrow> node \<Rightarrow> bool" where
  "node_allowed ns n \<longleftrightarrow> list_ex (\<lambda>m. m = n) ns"

definition plan_summary :: "plan \<Rightarrow> string" where
  "plan_summary p =
     show_int (int (length (pn_items p))) @ '' item(s) planned, '' @ show_int (pn_bytes p) @ '' byte(s)''"

definition result_summary :: "cleanup_result \<Rightarrow> string" where
  "result_summary r =
     show_int (cr_executed r) @ '' item(s) executed, '' @ show_int (cr_bytes r) @ '' byte(s) reclaimed'' @
     (if 0 < length (cr_errors r)
      then '', '' @ show_int (int (length (cr_errors r))) @ '' error(s): '' @ join_with ''; '' (cr_errors r)
      else '''')"

definition cleanup_remediation :: "config \<Rightarrow> time \<Rightarrow> kind \<Rightarrow> bool \<Rightarrow> string \<Rightarrow> string \<Rightarrow> remediation" where
  "cleanup_remediation cfg now k dry status detail = \<lparr>rm_id = 0, rm_finding_id = None, rm_node = cfg_node cfg,
     rm_action = ''cleanup:'' @ k, rm_tier = TierCorrect, rm_status = status, rm_detail = detail,
     rm_dry_run = dry, rm_created_at = now, rm_finished_at = None\<rparr>"

definition close_result :: "string \<Rightarrow> handle \<Rightarrow> goerr option \<Rightarrow> unit result" where
  "close_result what h e = (case close_error what (hd_close h) e of None \<Rightarrow> Inr () | Some e \<Rightarrow> Inl e)"

definition record_cleanup ::
  "cli_deps \<Rightarrow> cli_env \<Rightarrow> config \<Rightarrow> time \<Rightarrow> kind \<Rightarrow> bool \<Rightarrow> string \<Rightarrow> string \<Rightarrow> unit result act" where
  "record_cleanup d en cfg now k dry status detail =
     abind (open_store d en cfg) (\<lambda>r. case r of
       Inl e \<Rightarrow> aret (Inl (wrap_error ''cleanup: open store'' e))
     | Inr h \<Rightarrow>
         if \<not> hd_remediations h then aret (close_result ''cleanup: close store'' h
           (Some (new_error (''cleanup: store '' @ hd_type h @ '' does not support recording remediations''))))
         else abind (on_store (record_remediation (cleanup_remediation cfg now k dry status detail))) (\<lambda>r2.
           aret (close_result ''cleanup: close store'' h
             (case r2 of Inl e \<Rightarrow> Some (wrap_error ''cleanup: record remediation'' e) | Inr _ \<Rightarrow> None))))"

definition item_cells :: "plan_item \<Rightarrow> string list" where
  "item_cells i = [it_key i, it_detail i, show_int (it_bytes i)]"

definition print_cleanup_table :: "cleanup_output \<Rightarrow> string" where
  "print_cleanup_table o1 =
     print_struct_rows [''Key'', ''Detail'', ''Bytes''] (map item_cells (pn_items (cq_plan o1))) @
     ''plan: '' @ show_int (int (length (pn_items (cq_plan o1)))) @ '' item(s), '' @ show_int (pn_bytes (cq_plan o1)) @
     '' byte(s); status: '' @ cq_status o1 @ '' (dryRun='' @ show_bool (cq_dry_run o1) @ '')'' @ [newline] @
     (case cq_result o1 of
        None \<Rightarrow> ''''
      | Some r \<Rightarrow> ''result: '' @ show_int (cr_executed r) @ '' executed, '' @ show_int (cr_bytes r) @
          '' byte(s) reclaimed, '' @ show_int (int (length (cr_errors r))) @ '' error(s)'' @ [newline])"

definition print_cleanup :: "rendering \<Rightarrow> global_flags \<Rightarrow> cleanup_output \<Rightarrow> verb_end" where
  "print_cleanup rd fl o1 =
     written (if gf_json fl
       then rbind (wrap_result ''cli: marshal cleanup json'' (re_json rd (PrCleanup o1))) (\<lambda>t. Inr (t @ [newline]))
       else Inr (print_cleanup_table o1))"

text \<open>A failure that is recorded: a failing record is joined to it.\<close>

definition fail_recorded :: "unit result act \<Rightarrow> goerr \<Rightarrow> verb_end act" where
  "fail_recorded rec e =
     abind rec (\<lambda>r. case r of Inl re \<Rightarrow> vfail (join_errors e re) | Inr _ \<Rightarrow> vfail e)"

definition finish_cleanup ::
  "cli_deps \<Rightarrow> cli_env \<Rightarrow> rendering \<Rightarrow> global_flags \<Rightarrow> deps \<Rightarrow> config \<Rightarrow> kind \<Rightarrow> plan \<Rightarrow> verb_end act" where
  "finish_cleanup d en rd fl cd cfg k p =
     (let shown = (\<lambda>status dry res. aret (print_cleanup rd fl
            \<lparr>cq_kind = k, cq_node = cfg_node cfg, cq_plan = p, cq_status = status, cq_dry_run = dry, cq_result = res\<rparr>));
          rec = record_cleanup d en cfg (d_now cd) k
      in if gf_dry_run fl then shown ''planned'' True None
         else if \<not> (cfg_actions_enabled cfg \<and> \<not> cl_dry_run (cfg_cleanup cfg)) then
           (let status = (if \<not> cfg_actions_enabled cfg then ''blocked'' else ''planned'')
            in abind (rec True status (plan_summary p)) (\<lambda>r. vtry r (\<lambda>_. shown status True None)))
         else abind (on_world (execute cd p)) (\<lambda>r. case r of
           Inl e \<Rightarrow> fail_recorded (rec False ''failed'' (err_msg e)) e
         | Inr res \<Rightarrow>
             abind (rec False ''executed'' (result_summary res)) (\<lambda>r2. vtry r2 (\<lambda>_. shown ''executed'' False (Some res)))))"

definition run_cleanup :: "cli_deps \<Rightarrow> cli_env \<Rightarrow> rendering \<Rightarrow> global_flags \<Rightarrow> kind \<Rightarrow> verb_end act" where
  "run_cleanup d en rd fl k =
     vtry (planner_for_kind k) (\<lambda>pl.
     vtry (cli_load d en fl) (\<lambda>(cfg, sec).
     if \<not> node_allowed (pl_nodes pl) (cfg_node cfg)
     then vfail (new_error (''cleanup: '' @ k @ '' does not run on node '' @ cfg_node cfg))
     else
       vtry (build_check_deps d en cfg sec) (\<lambda>cd.
       case pl_plan pl cd of
         Inl e \<Rightarrow>
           if \<not> gf_dry_run fl then fail_recorded (record_cleanup d en cfg (d_now cd) k True ''failed'' (err_msg e)) e
           else vfail e
       | Inr p \<Rightarrow> finish_cleanup d en rd fl cd cfg k p)))"

section \<open>decide\<close>

definition run_decide :: "cli_deps \<Rightarrow> cli_env \<Rightarrow> rendering \<Rightarrow> global_flags \<Rightarrow> string \<Rightarrow> string \<Rightarrow> int \<Rightarrow> verb_end act" where
  "run_decide d en rd fl kind entity_key snooze_days =
     vtry (cli_load d en fl) (\<lambda>(cfg0, sec).
     let cfg = (if 0 < snooze_days
                then cfg0\<lparr>cfg_staleness := (cfg_staleness cfg0)\<lparr>sc_snooze_days := snooze_days\<rparr>\<rparr> else cfg0)
     in if gf_dry_run fl then aret (''would decide '' @ kind @ '' '' @ entity_key @ [newline], None)
        else
          vstep ''decide: open store'' (store_open (cn_driver en) (cfg_db_path cfg)) (\<lambda>_.
          closing ''decide: close store'' (sqlite_handle (cn_driver en)) (
          vtry (wrap_result ''decide'' (build_check_deps d en cfg sec)) (\<lambda>cd.
          vtry (wrap_result ''decide: peer client'' (peer_client_for d en cfg sec)) (\<lambda>pc.
          vstep ''decide: create decision'' (on_store (create_decision entity_key kind (cn_later en))) (\<lambda>i.
          vstep ''decide'' (execute_decision \<lparr>dd_deps = cd, dd_peer = (pc \<noteq> None)\<rparr> i) (\<lambda>dec.
          aret (print_out (out_of rd) fl (PrDecision dec)))))))))"

section \<open>staleness\<close>

text \<open>
  The order \<open>sort.Slice\<close> is given: by descending score, then by entity key. A score is finite, so its rank is
  its value. Rows with the same score and key keep their order here; the library promises none.
\<close>

datatype rank_key = RankKey (rk_score: rat) (rk_entity: string)

instantiation rank_key :: linorder
begin

definition less_rank_key :: "rank_key \<Rightarrow> rank_key \<Rightarrow> bool" where
  "a < b \<longleftrightarrow> (if rk_score a \<noteq> rk_score b then rk_score b < rk_score a else rk_entity a < rk_entity b)"

definition less_eq_rank_key :: "rank_key \<Rightarrow> rank_key \<Rightarrow> bool" where
  "a \<le> b \<longleftrightarrow> a = b \<or> a < (b :: rank_key)"

instance
proof
  fix x y z :: rank_key
  show "x < y \<longleftrightarrow> x \<le> y \<and> \<not> y \<le> x"
    by (auto simp: less_rank_key_def less_eq_rank_key_def split: if_splits)
  show "x \<le> x" by (simp add: less_eq_rank_key_def)
  show "x \<le> z" if "x \<le> y" "y \<le> z"
    using that by (auto simp: less_rank_key_def less_eq_rank_key_def split: if_splits)
  show "x = y" if "x \<le> y" "y \<le> x"
    using that by (auto simp: less_rank_key_def less_eq_rank_key_def split: if_splits)
  show "x \<le> y \<or> y \<le> x"
    by (cases x; cases y) (auto simp: less_rank_key_def less_eq_rank_key_def split: if_splits)
qed

end

definition score_order :: "score_row \<Rightarrow> rank_key" where
  "score_order r = RankKey (score_rank (sw_score r)) (sw_entity_key r)"

definition staleness_score_rows :: "item list \<Rightarrow> staleness_cfg \<Rightarrow> time \<Rightarrow> f64 \<Rightarrow> score_row list" where
  "staleness_score_rows items w now threshold =
     sort_key score_order
       (map (\<lambda>it. let sc = score_item it w now in \<lparr>sw_entity_key = it_entity_key it, sw_title = it_title it,
            sw_score = scr_total sc, sw_band = band (scr_total sc) w,
            sw_top = join_with '', '' (top_components (scr_components sc))\<rparr>)
          (filter (\<lambda>it. \<not> f_lt (scr_total (score_item it w now)) threshold) items))"

definition run_staleness_score ::
  "cli_deps \<Rightarrow> cli_env \<Rightarrow> rendering \<Rightarrow> global_flags \<Rightarrow> f64 option \<Rightarrow> verb_end act" where
  "run_staleness_score d en rd fl threshold =
     vtry (cli_load d en fl) (\<lambda>(cfg, sec).
     vtry (build_check_deps d en cfg sec) (\<lambda>cd.
     let m = (case threshold of None \<Rightarrow> sc_watchlist_threshold (cfg_staleness cfg) | Some x \<Rightarrow> x)
     in vtry (wrap_result ''staleness score'' (collect_items cd)) (\<lambda>items.
        aret (print_out (out_of rd) fl (PrScores (staleness_score_rows items (cfg_staleness cfg) (d_now cd) m))))))"

section \<open>notify\<close>

definition err_no_email :: goerr where
  "err_no_email = new_error ''email is only configured on the pi node''"

definition err_no_recipient :: goerr where
  "err_no_recipient = new_error ''no recipient: set [email] to or pass --to''"

definition run_notify_test :: "cli_deps \<Rightarrow> cli_env \<Rightarrow> global_flags \<Rightarrow> string \<Rightarrow> verb_end act" where
  "run_notify_test d en fl to =
     vtry (cli_load d en fl) (\<lambda>(cfg, _).
     if \<not> sender_for d cfg then vfail err_no_email
     else
       let addr = (if to = '''' then ec_to (cfg_email cfg) else to);
           subject = ''healarr test email from '' @ cfg_node cfg;
           body = ''healarr '' @ cn_version en @ [newline] @ ''sent at '' @
             fmt_rfc3339 (zn_offset (cn_zone en)) (cn_now en) @ [newline]
       in if addr = '''' then vfail err_no_recipient
          else if gf_dry_run fl then
            vstep ''notify test: send'' (call (SendMail addr subject body)) (\<lambda>_.
            aret (''sent (not recorded)'' @ [newline], None))
          else
            vstep ''notify test: open store'' (open_agent_store d en cfg) (\<lambda>h.
            closing ''notify test: close store'' h (
            vstep ''notify test: enqueue'' (on_store (enqueue_email addr subject body (cn_now en))) (\<lambda>i.
            abind (call (SendMail addr subject body)) (\<lambda>sent. case sent of
              Inl e \<Rightarrow> abind (on_store (mark_email_failed i (cn_later en) (Some e))) (\<lambda>m. case m of
                  Inl me \<Rightarrow> vfail (join_errors (wrap_error ''notify test: send'' e) (wrap_error ''notify test: mark failed'' me))
                | Inr _ \<Rightarrow> vfail (wrap_error ''notify test: send'' e))
            | Inr _ \<Rightarrow> vstep ''notify test: mark sent'' (on_store (mark_email_sent i (cn_later en))) (\<lambda>_.
                aret (''outbox id: '' @ show_int i @ [newline], None)))))))"

section \<open>peer\<close>

definition err_peer_not_configured :: goerr where
  "err_peer_not_configured = new_error ''peer_url is not configured''"

definition ping_error_text :: "goerr option \<Rightarrow> goerr option \<Rightarrow> string" where
  "ping_error_text hb fetch =
     (case (hb, fetch) of
        (Some h, Some f) \<Rightarrow> ''heartbeat: '' @ err_msg h @ ''; fetch latest: '' @ err_msg f
      | (Some h, None) \<Rightarrow> ''heartbeat: '' @ err_msg h
      | (None, Some f) \<Rightarrow> ''fetch latest: '' @ err_msg f
      | (None, None) \<Rightarrow> '''')"

definition error_of :: "'a result \<Rightarrow> goerr option" where
  "error_of r = (case r of Inl e \<Rightarrow> Some e | Inr _ \<Rightarrow> None)"

definition ping_report :: "node \<Rightarrow> time \<Rightarrow> goerr option \<Rightarrow> report_envelope option result \<Rightarrow> ping_result" where
  "ping_report n now hb latest =
     (let silent = \<lparr>pg_node = n, pg_reachable = (hb = None \<and> error_of latest = None),
            pg_error = ping_error_text hb (error_of latest), pg_has_report = False, pg_age = Fin 0, pg_checks_run = 0,
            pg_checks_failed = 0, pg_findings = 0\<rparr>
      in case latest of
           Inr (Some env) \<Rightarrow> silent\<lparr>pg_has_report := True, pg_age := dur_seconds (t_sub now (ev_sent_at env)),
             pg_checks_run := rp_checks_run (ev_report env), pg_checks_failed := rp_checks_failed (ev_report env),
             pg_findings := int (length (rp_findings (ev_report env)))\<rparr>
         | _ \<Rightarrow> silent)"

definition run_peer_ping :: "cli_deps \<Rightarrow> cli_env \<Rightarrow> rendering \<Rightarrow> global_flags \<Rightarrow> verb_end act" where
  "run_peer_ping d en rd fl =
     vtry (cli_load d en fl) (\<lambda>(cfg, sec).
     vtry (wrap_result ''peer ping'' (peer_client_for d en cfg sec)) (\<lambda>pc.
     case pc of
       None \<Rightarrow> vfail err_peer_not_configured
     | Some c \<Rightarrow>
         abind (call (PeerHeartbeat \<lparr>hb_node = cfg_node cfg, hb_at = cn_now en, hb_version = cn_version en, hb_uptime = 0\<rparr>)) (\<lambda>hb.
         aret (print_out (out_of rd) fl (PrPing (ping_report (cfg_node cfg) (cn_now en) (error_of hb) (pa_latest c)))))))"

section \<open>config\<close>

definition key_status :: "string \<Rightarrow> string" where
  "key_status v = (if v = '''' then ''missing'' else ''set'')"

definition url_entries :: "config \<Rightarrow> (string \<times> string) list" where
  "url_entries cfg = (let sv = cfg_services cfg in
     [(''sonarr'', svc_url (svcs_sonarr sv)), (''radarr'', svc_url (svcs_radarr sv)),
      (''prowlarr'', svc_url (svcs_prowlarr sv)), (''overseerr'', svc_url (svcs_overseerr sv)),
      (''qbittorrent'', svc_url (svcs_qbittorrent sv)), (''plex'', svc_url (svcs_plex sv)),
      (''tautulli'', svc_url (svcs_tautulli sv))])"

definition key_entries :: "secrets \<Rightarrow> (string \<times> string) list" where
  "key_entries sec =
     [(''sonarr_api_key'', key_status (s_sonarr_api_key sec)), (''radarr_api_key'', key_status (s_radarr_api_key sec)),
      (''prowlarr_api_key'', key_status (s_prowlarr_api_key sec)), (''overseerr_api_key'', key_status (s_overseerr_api_key sec)),
      (''qbit_user'', key_status (s_qbit_user sec)), (''qbit_pass'', key_status (s_qbit_pass sec)),
      (''plex_token'', key_status (s_plex_token sec)), (''tautulli_api_key'', key_status (s_tautulli_api_key sec)),
      (''peer_token'', key_status (s_peer_token sec)), (''web_token'', key_status (s_web_token sec)),
      (''anthropic_api_key'', key_status (s_anthropic_api_key sec))]"

definition validation_report :: "config \<Rightarrow> secrets \<Rightarrow> validation" where
  "validation_report cfg sec = \<lparr>va_node = cfg_node cfg, va_actions = cfg_actions_enabled cfg,
     va_dry_run = cl_dry_run (cfg_cleanup cfg), va_candidate = sc_candidate_threshold (cfg_staleness cfg),
     va_watchlist = sc_watchlist_threshold (cfg_staleness cfg), va_urls = url_entries cfg, va_keys = key_entries sec\<rparr>"

definition validation_lines :: "rendering \<Rightarrow> config \<Rightarrow> secrets \<Rightarrow> string list" where
  "validation_lines rd cfg sec =
     [''node: '' @ cfg_node cfg, ''actions_enabled: '' @ show_bool (cfg_actions_enabled cfg),
      ''cleanup_dry_run: '' @ show_bool (cl_dry_run (cfg_cleanup cfg)),
      ''staleness_candidate_threshold: '' @ re_float rd (sc_candidate_threshold (cfg_staleness cfg)),
      ''staleness_watchlist_threshold: '' @ re_float rd (sc_watchlist_threshold (cfg_staleness cfg))] @
     map (\<lambda>(k, v). k @ ''_url: '' @ v) (url_entries cfg) @ map (\<lambda>(k, v). k @ '': '' @ v) (key_entries sec)"

definition print_validation :: "rendering \<Rightarrow> global_flags \<Rightarrow> config \<Rightarrow> secrets \<Rightarrow> verb_end" where
  "print_validation rd fl cfg sec =
     (if gf_json fl then print_out (out_of rd) fl (PrValidation (validation_report cfg sec))
      else (concat (map (\<lambda>l. l @ [newline]) (validation_lines rd cfg sec)), None))"

definition run_config_validate :: "cli_deps \<Rightarrow> cli_env \<Rightarrow> rendering \<Rightarrow> global_flags \<Rightarrow> verb_end act" where
  "run_config_validate d en rd fl = vtry (cli_load d en fl) (\<lambda>(cfg, sec). aret (print_validation rd fl cfg sec))"

section \<open>agent\<close>

definition err_agent_dry_run :: goerr where
  "err_agent_dry_run =
     new_error ''agent serve does not support --dry-run; the daemon is observe-only in this phase''"

definition err_missing_web_token :: goerr where
  "err_missing_web_token = new_error ''agent serve: pi requires secrets.web_token to serve the web ui''"

text \<open>The \<open>decisionRunnerAdapter\<close>: the clients are built anew for every decision, from the configuration at the start.\<close>

definition decision_runner ::
  "cli_deps \<Rightarrow> cli_env \<Rightarrow> config \<Rightarrow> secrets \<Rightarrow> peer_api option \<Rightarrow> int \<Rightarrow> decision result act" where
  "decision_runner d en cfg sec pc i =
     (case build_check_deps d en cfg sec of
        Inl e \<Rightarrow> aret (Inl (wrap_error ''web decision runner: build check deps'' e))
      | Inr cd \<Rightarrow> execute_decision \<lparr>dd_deps = cd, dd_peer = (pc \<noteq> None)\<rparr> i)"

text \<open>What the daemon meets: the random source, the templates, and the arguments of \<open>Run\<close>.\<close>

record daemon_env =
  dn_csrf_key :: "string result"
  dn_templates :: "goerr option"
  dn_zone_error :: "goerr option"
  dn_cron :: cron
  dn_body :: "unit act"
  dn_shutdown :: shutdown_event
  dn_peer_exit :: "goerr option option"
  dn_web_exit :: "goerr option option"

definition build_web_handler ::
  "daemon_env \<Rightarrow> config \<Rightarrow> secrets \<Rightarrow> handle \<Rightarrow> (web_server option \<times> string) result" where
  "build_web_handler dn cfg sec h =
     (if cfg_node cfg \<noteq> NodePi then Inr (None, '''')
      else if s_web_token sec = '''' then Inl err_missing_web_token
      else if \<not> hd_web h then Inl (new_error (''web: store '' @ hd_type h @ '' does not implement web.Store''))
      else if \<not> hd_decisions h then
        Inl (new_error (''web: store '' @ hd_type h @ '' does not implement decision.DecisionStore''))
      else rbind (wrap_result ''web'' (new_web cfg (s_web_token sec) True True (dn_csrf_key dn) (dn_templates dn)))
             (\<lambda>sv. Inr (Some sv, wc_listen_addr (cfg_web cfg))))"

definition run_agent_serve :: "cli_deps \<Rightarrow> cli_env \<Rightarrow> daemon_env \<Rightarrow> global_flags \<Rightarrow> verb_end act" where
  "run_agent_serve d en dn fl =
     (if gf_dry_run fl then vfail err_agent_dry_run
      else
        vtry (cli_load d en fl) (\<lambda>(cfg, sec).
        vtry (registry_for d cfg) (\<lambda>reg.
        vtry (wrap_result ''agent serve: peer client'' (peer_client_for d en cfg sec)) (\<lambda>pc.
        vstep ''agent serve: open store'' (open_agent_store d en cfg) (\<lambda>h.
        closing ''agent serve: close store'' h (
        vtry (wrap_result ''agent serve'' (build_web_handler dn cfg sec h)) (\<lambda>(web, _).
        vtry (wrap_result ''agent serve'' ((case cd_new_agent d of None \<Rightarrow> new_agent | Some f \<Rightarrow> f)
          \<lparr>ao_cfg = cfg, ao_registry = Some reg, ao_has_deps = True, ao_has_store = True, ao_has_now = True,
           ao_version = cn_version en, ao_peer = (pc \<noteq> None), ao_sender = sender_for d cfg,
           ao_peer_token = s_peer_token sec, ao_web = (web \<noteq> None)\<rparr>)) (\<lambda>a.
        vstep ''agent serve''
          (run_agent a (cn_later en) (dn_zone_error dn) (dn_cron dn) (cn_race en) (build_check_deps d en cfg sec)
             (dn_body dn) (dn_shutdown dn) (dn_peer_exit dn) (dn_web_exit dn))
          (\<lambda>_. aret ('''', None))))))))))"

end
