(* ===== verification/Cli_Tree.thy ===== *)
theory Cli_Tree
  imports Cli_Actions
begin

text \<open>
  The verbs of one service each (\<open>cmd_sonarr.go\<close>, \<open>cmd_radarr.go\<close>, \<open>cmd_prowlarr.go\<close>, \<open>cmd_qbit.go\<close>, \<open>cmd_plex.go\<close>,
  \<open>cmd_tautulli.go\<close>, \<open>cmd_overseerr.go\<close>, \<open>cmd_docker.go\<close>, \<open>cmd_host.go\<close> and the write halves) and the command
  tree of \<open>root.go\<close>. A verb is its path with the flags and arguments cobra has parsed.
\<close>

section \<open>Verbs that write to a service\<close>

definition ok_map :: printed where
  "ok_map = PrMap [(''ok'', CBool True)]"

text \<open>The client is built inside the guarded part, so a dry run builds none.\<close>

definition write_verb ::
  "rendering \<Rightarrow> global_flags \<Rightarrow> string \<Rightarrow> 'c result \<Rightarrow> action \<Rightarrow> (int \<Rightarrow> printed) \<Rightarrow> verb_end act" where
  "write_verb rd fl desc get a shown =
     do_or_dry_run (out_of rd) fl desc
       (case get of Inl e \<Rightarrow> aret (Inl e) | Inr _ \<Rightarrow> abind (call a) (\<lambda>r. aret (rbind r (\<lambda>n. Inr (shown n)))))"

definition with_id :: "string \<Rightarrow> (int \<Rightarrow> verb_end act) \<Rightarrow> verb_end act" where
  "with_id arg f = vtry (parse_id arg) f"

text \<open>The verbs Sonarr and Radarr share, up to the client and the names of its methods.\<close>

definition queue_delete_cmd ::
  "rendering \<Rightarrow> global_flags \<Rightarrow> 'c result \<Rightarrow> (int \<Rightarrow> bool \<Rightarrow> bool \<Rightarrow> action) \<Rightarrow> string \<Rightarrow> bool \<Rightarrow> bool \<Rightarrow> verb_end act" where
  "queue_delete_cmd rd fl get act arg remove_from_client blocklist =
     with_id arg (\<lambda>i. write_verb rd fl
       (''DeleteQueueItem('' @ show_int i @ '','' @ show_bool remove_from_client @ '','' @ show_bool blocklist @ '')'')
       get (act i remove_from_client blocklist) (\<lambda>_. ok_map))"

definition monitor_cmd ::
  "rendering \<Rightarrow> global_flags \<Rightarrow> 'c result \<Rightarrow> string \<Rightarrow> (int \<Rightarrow> bool \<Rightarrow> action) \<Rightarrow> string \<Rightarrow> string \<Rightarrow> verb_end act" where
  "monitor_cmd rd fl get method act arg state =
     with_id arg (\<lambda>i. vtry (parse_on_off state) (\<lambda>m. write_verb rd fl
       (method @ ''('' @ show_int i @ '','' @ show_bool m @ '')'') get (act i m) (\<lambda>_. ok_map)))"

definition title_delete_cmd ::
  "rendering \<Rightarrow> global_flags \<Rightarrow> 'c result \<Rightarrow> string \<Rightarrow> (int \<Rightarrow> bool \<Rightarrow> bool \<Rightarrow> action) \<Rightarrow> string \<Rightarrow> bool \<Rightarrow> verb_end act" where
  "title_delete_cmd rd fl get method act arg delete_files =
     with_id arg (\<lambda>i. write_verb rd fl (method @ ''('' @ show_int i @ '','' @ show_bool delete_files @ '',false)'')
       get (act i delete_files False) (\<lambda>_. ok_map))"

definition command_cmd :: "rendering \<Rightarrow> global_flags \<Rightarrow> 'c result \<Rightarrow> (string \<Rightarrow> action) \<Rightarrow> string \<Rightarrow> verb_end act" where
  "command_cmd rd fl get act name =
     write_verb rd fl (''RunCommand('' @ name @ '')'') get (act name) (\<lambda>n. PrMap [(''id'', CInt n)])"

text \<open>Radarr's.\<close>

definition radarr_queue_delete_cmd :: "rendering \<Rightarrow> global_flags \<Rightarrow> 'c result \<Rightarrow> string \<Rightarrow> bool \<Rightarrow> bool \<Rightarrow> verb_end act" where
  "radarr_queue_delete_cmd rd fl get = queue_delete_cmd rd fl get RadarrDeleteQueueItem"

definition radarr_monitor_cmd :: "rendering \<Rightarrow> global_flags \<Rightarrow> 'c result \<Rightarrow> string \<Rightarrow> string \<Rightarrow> verb_end act" where
  "radarr_monitor_cmd rd fl get = monitor_cmd rd fl get ''UpdateMovieMonitored'' RadarrUpdateMonitored"

definition radarr_movie_delete_cmd :: "rendering \<Rightarrow> global_flags \<Rightarrow> 'c result \<Rightarrow> string \<Rightarrow> bool \<Rightarrow> verb_end act" where
  "radarr_movie_delete_cmd rd fl get = title_delete_cmd rd fl get ''DeleteMovie'' RadarrDeleteMovie"

definition radarr_command_cmd :: "rendering \<Rightarrow> global_flags \<Rightarrow> 'c result \<Rightarrow> string \<Rightarrow> verb_end act" where
  "radarr_command_cmd rd fl get = command_cmd rd fl get RadarrRunCommand"

definition show_strings :: "string list \<Rightarrow> string" where
  "show_strings ss = ''['' @ join_with '' '' ss @ '']''"

definition qbit_delete_cmd :: "rendering \<Rightarrow> global_flags \<Rightarrow> 'c result \<Rightarrow> string list \<Rightarrow> bool \<Rightarrow> verb_end act" where
  "qbit_delete_cmd rd fl get hashes delete_files =
     write_verb rd fl (''Delete('' @ show_strings hashes @ '', '' @ show_bool delete_files @ '')'') get
       (QbitDelete hashes delete_files) (\<lambda>_. ok_map)"

definition qbit_reannounce_cmd :: "rendering \<Rightarrow> global_flags \<Rightarrow> 'c result \<Rightarrow> string list \<Rightarrow> verb_end act" where
  "qbit_reannounce_cmd rd fl get hashes =
     write_verb rd fl (''Reannounce('' @ show_strings hashes @ '')'') get (QbitReannounce hashes) (\<lambda>_. ok_map)"

definition qbit_resume_cmd :: "rendering \<Rightarrow> global_flags \<Rightarrow> 'c result \<Rightarrow> string list \<Rightarrow> verb_end act" where
  "qbit_resume_cmd rd fl get hashes =
     write_verb rd fl (''Resume('' @ show_strings hashes @ '')'') get (QbitResume hashes) (\<lambda>_. ok_map)"

definition indexer_delete_cmd :: "rendering \<Rightarrow> global_flags \<Rightarrow> 'c result \<Rightarrow> string \<Rightarrow> verb_end act" where
  "indexer_delete_cmd rd fl get arg =
     with_id arg (\<lambda>i. write_verb rd fl (''DeleteIndexer('' @ show_int i @ '')'') get (ProwlarrDeleteIndexer i) (\<lambda>_. ok_map))"

definition overseerr_decline_cmd :: "rendering \<Rightarrow> global_flags \<Rightarrow> 'c result \<Rightarrow> string \<Rightarrow> verb_end act" where
  "overseerr_decline_cmd rd fl get arg =
     with_id arg (\<lambda>i. write_verb rd fl (''DeclineRequest('' @ show_int i @ '')'') get (OverseerrDecline i) (\<lambda>_. ok_map))"

definition plex_refresh_cmd :: "rendering \<Rightarrow> global_flags \<Rightarrow> 'c result \<Rightarrow> string \<Rightarrow> verb_end act" where
  "plex_refresh_cmd rd fl get key =
     write_verb rd fl (''RefreshLibrary('' @ key @ '')'') get (PlexRefresh key) (\<lambda>_. ok_map)"

definition docker_prune_cmd :: "rendering \<Rightarrow> global_flags \<Rightarrow> 'c result \<Rightarrow> bool \<Rightarrow> verb_end act" where
  "docker_prune_cmd rd fl get dangling =
     write_verb rd fl (''PruneImages('' @ show_bool dangling @ '')'') get (DockerPrune dangling)
       (\<lambda>n. PrMap [(''reclaimed_bytes'', CInt n)])"

text \<open>The answer to a command run in a container is a text, which the client has.\<close>

definition docker_exec_cmd ::
  "rendering \<Rightarrow> global_flags \<Rightarrow> docker_client result \<Rightarrow> string \<Rightarrow> string list \<Rightarrow> verb_end act" where
  "docker_exec_cmd rd fl get name args =
     do_or_dry_run (out_of rd) fl (''Exec('' @ name @ '', '' @ join_with '' '' args @ '')'')
       (case get of
          Inl e \<Rightarrow> aret (Inl e)
        | Inr c \<Rightarrow> abind (call (DockerExec name args)) (\<lambda>_. aret (rbind (docker_exec c name args) (\<lambda>t. Inr (PrText t)))))"

section \<open>Verbs that read from a service\<close>

definition read_verb :: "rendering \<Rightarrow> global_flags \<Rightarrow> 'c result \<Rightarrow> ('c \<Rightarrow> 'v result) \<Rightarrow> ('v \<Rightarrow> printed) \<Rightarrow> verb_end act" where
  "read_verb rd fl get run shown = simple_cmd (out_of rd) fl get (\<lambda>c. rbind (run c) (\<lambda>v. Inr (shown v)))"

text \<open>A history reads its lower bound before it builds the client.\<close>

definition history_verb ::
  "rendering \<Rightarrow> global_flags \<Rightarrow> time \<Rightarrow> string \<Rightarrow> 'c result \<Rightarrow> ('c \<Rightarrow> time \<Rightarrow> 'v result) \<Rightarrow> ('v \<Rightarrow> printed) \<Rightarrow> verb_end act" where
  "history_verb rd fl now since get run shown =
     vtry (parse_since now since) (\<lambda>t. read_verb rd fl get (\<lambda>c. run c t) shown)"

definition indexer_test_cmd :: "rendering \<Rightarrow> global_flags \<Rightarrow> cli_prowlarr result \<Rightarrow> string \<Rightarrow> verb_end act" where
  "indexer_test_cmd rd fl get arg =
     with_id arg (\<lambda>i. read_verb rd fl get (\<lambda>c. pw_test_indexer c i) (\<lambda>_. ok_map))"

section \<open>The command tree\<close>

datatype arr_verb =
    ArrHealth | ArrQueue | ArrTitles | ArrRootFolders | ArrMissing | ArrHistory string string
  | ArrQueueDelete string bool bool | ArrMonitor string string | ArrDelete string bool | ArrCommand string

datatype prowlarr_verb = PwHealth | PwIndexers | PwStatus | PwIndexerDelete string | PwIndexerTest string

datatype qbit_verb =
    QbVersion | QbPrefs | QbList string string | QbFiles string
  | QbDelete "string list" bool | QbReannounce "string list" | QbResume "string list"

datatype plex_verb = PxIdentity | PxLibraries | PxRecent string int | PxRefresh string

datatype tautulli_verb = TtPing | TtActivity | TtHistory string int

datatype overseerr_verb = OvStatus | OvRequests string | OvDecline string

datatype docker_verb = DkPs | DkDf | DkLogs string int | DkPrune bool | DkExec string "string list"

datatype host_verb = HsMounts | HsIsMount string | HsDev string | HsUsage string | HsLs string | HsDirsize string int

datatype verb =
    VersionVerb | SonarrVerb arr_verb | RadarrVerb arr_verb | ProwlarrVerb prowlarr_verb | QBitVerb qbit_verb
  | PlexVerb plex_verb | TautulliVerb tautulli_verb | OverseerrVerb overseerr_verb | DockerVerb docker_verb
  | HostVerb host_verb | ConfigValidate | CheckList | CheckRun bool string | ReportGenerate
  | StalenessScore "f64 option" | CleanupVerb kind | DecideKeep string int | DecideDelete string
  | AgentServe | NotifyTest string | PeerPing

fun run_sonarr_verb :: "cli_deps \<Rightarrow> cli_env \<Rightarrow> rendering \<Rightarrow> global_flags \<Rightarrow> arr_verb \<Rightarrow> verb_end act" where
  "run_sonarr_verb d en rd fl v =
     (let get = getter d en fl ''sonarr'' (cd_sonarr d)
      in case v of
           ArrHealth \<Rightarrow> read_verb rd fl get sonarr_health PrHealth
         | ArrQueue \<Rightarrow> read_verb rd fl get sonarr_queue PrSonarrQueue
         | ArrTitles \<Rightarrow> read_verb rd fl get sonarr_series PrSeries
         | ArrRootFolders \<Rightarrow> read_verb rd fl get sonarr_root_folders PrRootFolders
         | ArrMissing \<Rightarrow> read_verb rd fl get sonarr_wanted_missing (\<lambda>n. PrMap [(''missing'', CInt n)])
         | ArrHistory since event \<Rightarrow>
             history_verb rd fl (cn_now en) since get (\<lambda>c t. sonarr_history c t event) PrSonarrHistory
         | ArrQueueDelete i rc bl \<Rightarrow> queue_delete_cmd rd fl get SonarrDeleteQueueItem i rc bl
         | ArrMonitor i state \<Rightarrow> monitor_cmd rd fl get ''UpdateSeriesMonitored'' SonarrUpdateMonitored i state
         | ArrDelete i files \<Rightarrow> title_delete_cmd rd fl get ''DeleteSeries'' SonarrDeleteSeries i files
         | ArrCommand name \<Rightarrow> command_cmd rd fl get SonarrRunCommand name)"

fun run_radarr_verb :: "cli_deps \<Rightarrow> cli_env \<Rightarrow> rendering \<Rightarrow> global_flags \<Rightarrow> arr_verb \<Rightarrow> verb_end act" where
  "run_radarr_verb d en rd fl v =
     (let get = getter d en fl ''radarr'' (cd_radarr d)
      in case v of
           ArrHealth \<Rightarrow> read_verb rd fl get radarr_health PrHealth
         | ArrQueue \<Rightarrow> read_verb rd fl get radarr_queue PrRadarrQueue
         | ArrTitles \<Rightarrow> read_verb rd fl get radarr_movies PrMovies
         | ArrRootFolders \<Rightarrow> read_verb rd fl get radarr_root_folders PrRootFolders
         | ArrMissing \<Rightarrow> read_verb rd fl get radarr_wanted_missing (\<lambda>n. PrMap [(''missing'', CInt n)])
         | ArrHistory since event \<Rightarrow>
             history_verb rd fl (cn_now en) since get (\<lambda>c t. radarr_history c t event) PrRadarrHistory
         | ArrQueueDelete i rc bl \<Rightarrow> radarr_queue_delete_cmd rd fl get i rc bl
         | ArrMonitor i state \<Rightarrow> radarr_monitor_cmd rd fl get i state
         | ArrDelete i files \<Rightarrow> radarr_movie_delete_cmd rd fl get i files
         | ArrCommand name \<Rightarrow> radarr_command_cmd rd fl get name)"

fun run_prowlarr_verb :: "cli_deps \<Rightarrow> cli_env \<Rightarrow> rendering \<Rightarrow> global_flags \<Rightarrow> prowlarr_verb \<Rightarrow> verb_end act" where
  "run_prowlarr_verb d en rd fl v =
     (let get = getter d en fl ''prowlarr'' (cd_prowlarr d)
      in case v of
           PwHealth \<Rightarrow> read_verb rd fl get prowlarr_health PrHealth
         | PwIndexers \<Rightarrow> read_verb rd fl get prowlarr_indexers PrIndexers
         | PwStatus \<Rightarrow> read_verb rd fl get prowlarr_indexer_status PrIndexerStatus
         | PwIndexerDelete i \<Rightarrow> indexer_delete_cmd rd fl get i
         | PwIndexerTest i \<Rightarrow> indexer_test_cmd rd fl get i)"

fun run_qbit_verb :: "cli_deps \<Rightarrow> cli_env \<Rightarrow> rendering \<Rightarrow> global_flags \<Rightarrow> qbit_verb \<Rightarrow> verb_end act" where
  "run_qbit_verb d en rd fl v =
     (let get = getter d en fl ''qbit'' (cd_qbit d)
      in case v of
           QbVersion \<Rightarrow> read_verb rd fl get qbit_version (\<lambda>s. PrMap [(''version'', CStr s)])
         | QbPrefs \<Rightarrow> read_verb rd fl get qbit_preferences PrPreferences
         | QbList filter_text category \<Rightarrow> read_verb rd fl get (\<lambda>c. qbit_torrents c filter_text category) PrTorrents
         | QbFiles hash \<Rightarrow> read_verb rd fl get (\<lambda>c. qbit_files c hash) PrFiles
         | QbDelete hashes files \<Rightarrow> qbit_delete_cmd rd fl get hashes files
         | QbReannounce hashes \<Rightarrow> qbit_reannounce_cmd rd fl get hashes
         | QbResume hashes \<Rightarrow> qbit_resume_cmd rd fl get hashes)"

fun run_plex_verb :: "cli_deps \<Rightarrow> cli_env \<Rightarrow> rendering \<Rightarrow> global_flags \<Rightarrow> plex_verb \<Rightarrow> verb_end act" where
  "run_plex_verb d en rd fl v =
     (let get = getter d en fl ''plex'' (cd_plex d)
      in case v of
           PxIdentity \<Rightarrow> read_verb rd fl get plex_identity PrIdentity
         | PxLibraries \<Rightarrow> read_verb rd fl get plex_libraries PrLibraries
         | PxRecent key limit \<Rightarrow> read_verb rd fl get (\<lambda>c. plex_recently_added c key limit) PrPlexItems
         | PxRefresh key \<Rightarrow> plex_refresh_cmd rd fl get key)"

fun run_tautulli_verb :: "cli_deps \<Rightarrow> cli_env \<Rightarrow> rendering \<Rightarrow> global_flags \<Rightarrow> tautulli_verb \<Rightarrow> verb_end act" where
  "run_tautulli_verb d en rd fl v =
     (let get = getter d en fl ''tautulli'' (cd_tautulli d)
      in case v of
           TtPing \<Rightarrow> read_verb rd fl get tautulli_ping (\<lambda>_. ok_map)
         | TtActivity \<Rightarrow> read_verb rd fl get tautulli_activity_count (\<lambda>n. PrMap [(''activity'', CInt n)])
         | TtHistory since len \<Rightarrow>
             history_verb rd fl (cn_now en) since get (\<lambda>c t. tautulli_history c t len) PrWatches)"

fun run_overseerr_verb :: "cli_deps \<Rightarrow> cli_env \<Rightarrow> rendering \<Rightarrow> global_flags \<Rightarrow> overseerr_verb \<Rightarrow> verb_end act" where
  "run_overseerr_verb d en rd fl v =
     (let get = getter d en fl ''overseerr'' (cd_overseerr d)
      in case v of
           OvStatus \<Rightarrow> read_verb rd fl get ov_status (\<lambda>(version, update). PrServerStatus version update)
         | OvRequests filter_text \<Rightarrow> read_verb rd fl get (\<lambda>c. overseerr_requests c filter_text) PrRequests
         | OvDecline i \<Rightarrow> overseerr_decline_cmd rd fl get i)"

fun run_docker_verb :: "cli_deps \<Rightarrow> cli_env \<Rightarrow> rendering \<Rightarrow> global_flags \<Rightarrow> docker_verb \<Rightarrow> verb_end act" where
  "run_docker_verb d en rd fl v =
     (let get = getter d en fl ''docker'' (cd_docker d)
      in case v of
           DkPs \<Rightarrow> read_verb rd fl get docker_containers PrContainers
         | DkDf \<Rightarrow> read_verb rd fl get docker_disk_usage PrDockerUsage
         | DkLogs name n \<Rightarrow> read_verb rd fl get (\<lambda>c. docker_logs c name n) PrText
         | DkPrune dangling \<Rightarrow> docker_prune_cmd rd fl get dangling
         | DkExec name args \<Rightarrow> docker_exec_cmd rd fl get name args)"

fun run_host_verb :: "cli_deps \<Rightarrow> cli_env \<Rightarrow> rendering \<Rightarrow> global_flags \<Rightarrow> host_verb \<Rightarrow> verb_end act" where
  "run_host_verb d en rd fl v =
     (let get = getter d en fl ''host'' (cd_host d)
      in case v of
           HsMounts \<Rightarrow> read_verb rd fl get host_mounts PrMounts
         | HsIsMount path \<Rightarrow> read_verb rd fl get (\<lambda>c. host_is_mountpoint c path) (\<lambda>b. PrMap [(''mountpoint'', CBool b)])
         | HsDev path \<Rightarrow> read_verb rd fl get (\<lambda>c. host_device_id c path) (\<lambda>n. PrMap [(''device_id'', CInt n)])
         | HsUsage path \<Rightarrow> read_verb rd fl get (\<lambda>c. host_usage c path) PrUsage
         | HsLs path \<Rightarrow> read_verb rd fl get (\<lambda>c. host_list_dir c path) PrEntries
         | HsDirsize path depth \<Rightarrow> read_verb rd fl get (\<lambda>c. host_dir_size c path depth) (\<lambda>n. PrMap [(''bytes'', CInt n)]))"

fun run_verb ::
  "cli_deps \<Rightarrow> cli_env \<Rightarrow> daemon_env \<Rightarrow> rendering \<Rightarrow> global_flags \<Rightarrow> verb \<Rightarrow> verb_end act" where
  "run_verb d en dn rd fl VersionVerb =
     aret (''healarr '' @ cn_version en @ '' ('' @ cn_commit en @ '')'' @ [newline], None)"
| "run_verb d en dn rd fl (SonarrVerb v) = run_sonarr_verb d en rd fl v"
| "run_verb d en dn rd fl (RadarrVerb v) = run_radarr_verb d en rd fl v"
| "run_verb d en dn rd fl (ProwlarrVerb v) = run_prowlarr_verb d en rd fl v"
| "run_verb d en dn rd fl (QBitVerb v) = run_qbit_verb d en rd fl v"
| "run_verb d en dn rd fl (PlexVerb v) = run_plex_verb d en rd fl v"
| "run_verb d en dn rd fl (TautulliVerb v) = run_tautulli_verb d en rd fl v"
| "run_verb d en dn rd fl (OverseerrVerb v) = run_overseerr_verb d en rd fl v"
| "run_verb d en dn rd fl (DockerVerb v) = run_docker_verb d en rd fl v"
| "run_verb d en dn rd fl (HostVerb v) = run_host_verb d en rd fl v"
| "run_verb d en dn rd fl ConfigValidate = run_config_validate d en rd fl"
| "run_verb d en dn rd fl CheckList = run_check_list d en rd fl"
| "run_verb d en dn rd fl (CheckRun every i) = run_check_run d en rd fl every i"
| "run_verb d en dn rd fl ReportGenerate = run_report_generate d en rd fl"
| "run_verb d en dn rd fl (StalenessScore threshold) = run_staleness_score d en rd fl threshold"
| "run_verb d en dn rd fl (CleanupVerb k) = run_cleanup d en rd fl k"
| "run_verb d en dn rd fl (DecideKeep key days) = run_decide d en rd fl KindKeep key days"
| "run_verb d en dn rd fl (DecideDelete key) = run_decide d en rd fl KindDelete key 0"
| "run_verb d en dn rd fl AgentServe = run_agent_serve d en dn fl"
| "run_verb d en dn rd fl (NotifyTest to) = run_notify_test d en fl to"
| "run_verb d en dn rd fl PeerPing = run_peer_ping d en rd fl"

end
