(* ===== verification/Cli_Laws.thy ===== *)
theory Cli_Laws
  imports Cli_Tree Agent_Laws Cleanup_Laws
begin

text \<open>
  What the command line guarantees: a dry run leaves the store alone and calls nothing but the mail of
  \<open>notify test\<close> and the heartbeat of \<open>peer ping\<close>, a verb makes the calls it names once and no others, a cleanup
  leaves one remediation per attempt on a store that works, the database keeps its invariant and \<open>config validate\<close> shows no secret. Opening a store
  is an interface, the locale \<open>store_opener\<close>, interpreted on the opener of the sources.
\<close>

section \<open>Confined verbs\<close>

text \<open>An operation that leaves the store alone and whose calls satisfy a predicate.\<close>

definition confined :: "(action \<Rightarrow> bool) \<Rightarrow> 'a act \<Rightarrow> bool" where
  "confined P m \<longleftrightarrow> only_calls P m \<and> (\<forall>s. sy_store (snd (m s)) = sy_store s)"

named_theorems confined_intros \<open>rules that confine an operation by its steps\<close>
named_theorems call_intros \<open>rules that bound the calls of an operation by its steps\<close>

lemma confined_aret [confined_intros]: "confined P (aret x)"
  by (simp add: confined_def only_calls_aret aret_def)

lemma confined_call [confined_intros]: "P a \<Longrightarrow> confined P (call a)"
  by (simp add: confined_def only_calls_call store_call)

lemma confined_abind [confined_intros]: "confined P m \<Longrightarrow> (\<And>x. confined P (f x)) \<Longrightarrow> confined P (abind m f)"
  unfolding confined_def by (auto simp: only_calls_abind) (simp add: abind_def split: prod.split, metis snd_conv)

lemma confined_vfail [confined_intros]: "confined P (vfail e)"
  by (simp add: vfail_def confined_aret)

lemma confined_vtry [confined_intros]: "(\<And>x. r = Inr x \<Longrightarrow> confined P (f x)) \<Longrightarrow> confined P (vtry r f)"
  by (cases r) (simp_all add: confined_vfail)

lemma confined_vstep [confined_intros]: "confined P m \<Longrightarrow> (\<And>x. confined P (f x)) \<Longrightarrow> confined P (vstep what m f)"
  unfolding vstep_def by (intro confined_abind confined_vtry)

lemma confined_prod [confined_intros]: "(\<And>x y. p = (x, y) \<Longrightarrow> confined P (f x y)) \<Longrightarrow> confined P (case p of (x, y) \<Rightarrow> f x y)"
  by (cases p) simp

lemmas only_calls_basics [call_intros] =
  only_calls_aret only_calls_on_store only_calls_call only_calls_abind only_calls_if only_calls_case_sum only_calls_case_option

lemma only_calls_vfail [call_intros]: "only_calls P (vfail e)"
  by (simp add: vfail_def only_calls_aret)

lemma only_calls_vtry [call_intros]: "(\<And>x. r = Inr x \<Longrightarrow> only_calls P (f x)) \<Longrightarrow> only_calls P (vtry r f)"
  by (cases r) (simp_all add: only_calls_vfail)

lemma only_calls_vstep [call_intros]: "only_calls P m \<Longrightarrow> (\<And>x. only_calls P (f x)) \<Longrightarrow> only_calls P (vstep what m f)"
  unfolding vstep_def by (intro call_intros)

lemma only_calls_closing [call_intros]: "only_calls P m \<Longrightarrow> only_calls P (closing what h m)"
  unfolding closing_def case_prod_beta by (intro call_intros)

lemma only_calls_prod [call_intros]: "(\<And>x y. p = (x, y) \<Longrightarrow> only_calls P (f x y)) \<Longrightarrow> only_calls P (case p of (x, y) \<Rightarrow> f x y)"
  by (cases p) simp

section \<open>Dry runs\<close>

text \<open>The calls a verb makes although nothing may be changed.\<close>

fun dry_call :: "verb \<Rightarrow> action \<Rightarrow> bool" where
  "dry_call (NotifyTest to) (SendMail a b c) = True"
| "dry_call PeerPing (PeerHeartbeat h) = True"
| "dry_call v a = False"

lemma dry_write [confined_intros]: "gf_dry_run fl \<Longrightarrow> confined P (write_verb rd fl desc get a shown)"
  by (simp add: write_verb_def do_or_dry_run_def confined_aret)

lemma dry_exec [confined_intros]: "gf_dry_run fl \<Longrightarrow> confined P (docker_exec_cmd rd fl get name args)"
  by (simp add: docker_exec_cmd_def do_or_dry_run_def confined_aret)

lemma confined_read [confined_intros]: "confined P (read_verb rd fl get run shown)"
  unfolding read_verb_def simple_cmd_def by (intro confined_intros)

lemma confined_history [confined_intros]: "confined P (history_verb rd fl now since get run shown)"
  unfolding history_verb_def by (intro confined_intros)

lemma confined_with_id [confined_intros]: "(\<And>i. confined P (f i)) \<Longrightarrow> confined P (with_id arg f)"
  unfolding with_id_def by (intro confined_intros)

lemmas service_commands = queue_delete_cmd_def monitor_cmd_def title_delete_cmd_def command_cmd_def qbit_delete_cmd_def
  qbit_reannounce_cmd_def qbit_resume_cmd_def indexer_delete_cmd_def overseerr_decline_cmd_def plex_refresh_cmd_def
  docker_prune_cmd_def indexer_test_cmd_def radarr_queue_delete_cmd_def radarr_monitor_cmd_def radarr_movie_delete_cmd_def
  radarr_command_cmd_def

lemma dry_services:
  assumes "gf_dry_run fl"
  shows "confined P (run_sonarr_verb d en rd fl ar)" "confined P (run_radarr_verb d en rd fl ar)"
    "confined P (run_prowlarr_verb d en rd fl pw)" "confined P (run_qbit_verb d en rd fl qb)"
    "confined P (run_plex_verb d en rd fl px)" "confined P (run_tautulli_verb d en rd fl tt)"
    "confined P (run_overseerr_verb d en rd fl ov)" "confined P (run_docker_verb d en rd fl dk)"
    "confined P (run_host_verb d en rd fl hs)"
  subgoal by (cases ar; simp add: Let_def service_commands; intro confined_intros assms)
  subgoal by (cases ar; simp add: Let_def service_commands; intro confined_intros assms)
  subgoal by (cases pw; simp add: Let_def service_commands; intro confined_intros assms)
  subgoal by (cases qb; simp add: Let_def service_commands; intro confined_intros assms)
  subgoal by (cases px; simp add: Let_def service_commands; intro confined_intros assms)
  subgoal by (cases tt; simp add: Let_def service_commands; intro confined_intros assms)
  subgoal by (cases ov; simp add: Let_def service_commands; intro confined_intros assms)
  subgoal by (cases dk; simp add: Let_def service_commands; intro confined_intros assms)
  subgoal by (cases hs; simp add: Let_def service_commands; intro confined_intros assms)
  done

lemma dry_cleanup:
  assumes "gf_dry_run fl"
  shows "confined P (run_cleanup d en rd fl k)"
proof -
  have "confined P (finish_cleanup d en rd fl cd cfg k p)" for cd cfg p
    by (simp add: finish_cleanup_def Let_def assms confined_aret)
  then show ?thesis
    unfolding run_cleanup_def by (intro confined_intros) (simp add: assms confined_intros split: sum.split)
qed

lemma dry_own_verbs:
  assumes "gf_dry_run fl"
  shows "confined P (run_config_validate d en rd fl)" "confined P (run_check_list d en rd fl)"
    "confined P (run_check_run d en rd fl every i)" "confined P (run_report_generate d en rd fl)"
    "confined P (run_staleness_score d en rd fl threshold)" "confined P (run_decide d en rd fl kind key days)"
    "confined P (run_agent_serve d en dn fl)"
  using assms
  unfolding run_config_validate_def run_check_list_def run_check_run_def run_report_generate_def
    run_staleness_score_def run_decide_def run_agent_serve_def Let_def
  by (simp_all add: confined_intros)

lemma dry_notify:
  assumes "gf_dry_run fl" "\<And>a b c. P (SendMail a b c)"
  shows "confined P (run_notify_test d en fl to)"
  using assms unfolding run_notify_test_def Let_def by (simp add: confined_intros)

lemma confined_ping:
  assumes "\<And>h. P (PeerHeartbeat h)"
  shows "confined P (run_peer_ping d en rd fl)"
  using assms unfolding run_peer_ping_def by (intro confined_intros) (simp add: confined_intros split: option.split)

text \<open>C5: With \<open>--dry-run\<close> no verb of the command tree touches the store, and none makes a mutating
  call except \<open>notify test\<close>, which sends its mail, and \<open>peer ping\<close>, which sends its heartbeat: for any
  constructors, environment and arguments.\<close>

theorem dry_run_changes_nothing:
  assumes "gf_dry_run fl"
  shows "sy_store (snd (run_verb d en dn rd fl v s)) = sy_store s \<and>
    (\<exists>as. calls (snd (run_verb d en dn rd fl v s)) = calls s @ as \<and> list_all (dry_call v) as)"
proof -
  have "confined (dry_call v) (run_verb d en dn rd fl v)"
    using assms by (cases v) (simp_all add: dry_services dry_own_verbs dry_cleanup dry_notify confined_ping confined_aret
        del: run_sonarr_verb.simps run_radarr_verb.simps run_prowlarr_verb.simps run_qbit_verb.simps run_plex_verb.simps
          run_tautulli_verb.simps run_overseerr_verb.simps run_docker_verb.simps run_host_verb.simps)
  then show ?thesis unfolding confined_def only_calls_def by blast
qed

section \<open>What a verb calls\<close>

definition parsed :: "string \<Rightarrow> (int \<Rightarrow> action) \<Rightarrow> action option" where
  "parsed arg f = (case parse_int arg of Inl _ \<Rightarrow> None | Inr i \<Rightarrow> Some (f i))"

definition switched :: "string \<Rightarrow> string \<Rightarrow> (int \<Rightarrow> bool \<Rightarrow> action) \<Rightarrow> action option" where
  "switched arg state f =
     (if state = ''on'' then parsed arg (\<lambda>i. f i True) else if state = ''off'' then parsed arg (\<lambda>i. f i False) else None)"

text \<open>The one mutating call a verb of a service names, if its arguments can be read.\<close>

fun named_call :: "verb \<Rightarrow> action option" where
  "named_call (SonarrVerb (ArrQueueDelete i rc bl)) = parsed i (\<lambda>n. SonarrDeleteQueueItem n rc bl)"
| "named_call (SonarrVerb (ArrMonitor i state)) = switched i state SonarrUpdateMonitored"
| "named_call (SonarrVerb (ArrDelete i files)) = parsed i (\<lambda>n. SonarrDeleteSeries n files False)"
| "named_call (SonarrVerb (ArrCommand name)) = Some (SonarrRunCommand name)"
| "named_call (RadarrVerb (ArrQueueDelete i rc bl)) = parsed i (\<lambda>n. RadarrDeleteQueueItem n rc bl)"
| "named_call (RadarrVerb (ArrMonitor i state)) = switched i state RadarrUpdateMonitored"
| "named_call (RadarrVerb (ArrDelete i files)) = parsed i (\<lambda>n. RadarrDeleteMovie n files False)"
| "named_call (RadarrVerb (ArrCommand name)) = Some (RadarrRunCommand name)"
| "named_call (ProwlarrVerb (PwIndexerDelete i)) = parsed i ProwlarrDeleteIndexer"
| "named_call (QBitVerb (QbDelete hashes files)) = Some (QbitDelete hashes files)"
| "named_call (QBitVerb (QbReannounce hashes)) = Some (QbitReannounce hashes)"
| "named_call (QBitVerb (QbResume hashes)) = Some (QbitResume hashes)"
| "named_call (PlexVerb (PxRefresh key)) = Some (PlexRefresh key)"
| "named_call (OverseerrVerb (OvDecline i)) = parsed i OverseerrDecline"
| "named_call (DockerVerb (DkPrune dangling)) = Some (DockerPrune dangling)"
| "named_call (DockerVerb (DkExec name args)) = Some (DockerExec name args)"
| "named_call v = None"

text \<open>Whether the client of a verb's service can be built.\<close>

definition built :: "cli_deps \<Rightarrow> cli_env \<Rightarrow> global_flags \<Rightarrow> (config \<Rightarrow> secrets \<Rightarrow> 'c result) \<Rightarrow> bool" where
  "built d en fl ctor \<longleftrightarrow> (case cli_load d en fl of Inl _ \<Rightarrow> False | Inr (cfg, sec) \<Rightarrow> \<not> isl (ctor cfg sec))"

fun client_built :: "cli_deps \<Rightarrow> cli_env \<Rightarrow> global_flags \<Rightarrow> verb \<Rightarrow> bool" where
  "client_built d en fl (SonarrVerb v) = built d en fl (cd_sonarr d)"
| "client_built d en fl (RadarrVerb v) = built d en fl (cd_radarr d)"
| "client_built d en fl (ProwlarrVerb v) = built d en fl (cd_prowlarr d)"
| "client_built d en fl (QBitVerb v) = built d en fl (cd_qbit d)"
| "client_built d en fl (PlexVerb v) = built d en fl (cd_plex d)"
| "client_built d en fl (TautulliVerb v) = built d en fl (cd_tautulli d)"
| "client_built d en fl (OverseerrVerb v) = built d en fl (cd_overseerr d)"
| "client_built d en fl (DockerVerb v) = built d en fl (cd_docker d)"
| "client_built d en fl v = False"

definition service_log :: "cli_deps \<Rightarrow> cli_env \<Rightarrow> global_flags \<Rightarrow> verb \<Rightarrow> action list" where
  "service_log d en fl v =
     (case named_call v of None \<Rightarrow> [] | Some a \<Rightarrow> if gf_dry_run fl \<or> \<not> client_built d en fl v then [] else [a])"

fun cleanup_call :: "kind \<Rightarrow> action \<Rightarrow> bool" where
  "cleanup_call k (HostRemove path) = (k = KindRecycle \<or> k = KindOrphans)"
| "cleanup_call k (DockerPrune dangling) = (k = KindDocker)"
| "cleanup_call k (QbitDelete hashes files) = (k = KindSeeded \<and> \<not> files)"
| "cleanup_call k a = False"

text \<open>When a cleanup is carried out, with which dependencies and plan; and when a decision is executed.\<close>

definition cleaning :: "cli_deps \<Rightarrow> cli_env \<Rightarrow> global_flags \<Rightarrow> kind \<Rightarrow> deps \<Rightarrow> plan \<Rightarrow> bool" where
  "cleaning d en fl k cd p \<longleftrightarrow>
     \<not> gf_dry_run fl \<and> (\<exists>pl cfg sec. planner_for_kind k = Inr pl \<and> cli_load d en fl = Inr (cfg, sec) \<and>
       cfg_node cfg \<in> set (pl_nodes pl) \<and> build_check_deps d en cfg sec = Inr cd \<and> pl_plan pl cd = Inr p)"

definition deciding :: "cli_deps \<Rightarrow> cli_env \<Rightarrow> global_flags \<Rightarrow> decision_deps \<Rightarrow> bool" where
  "deciding d en fl dd \<longleftrightarrow>
     \<not> gf_dry_run fl \<and> (\<exists>cfg sec pc. cli_load d en fl = Inr (cfg, sec) \<and>
       build_check_deps d en cfg sec = Inr (dd_deps dd) \<and> peer_client_for d en cfg sec = Inr pc \<and> dd_peer dd = (pc \<noteq> None))"

text \<open>The calls of an executed decision about a key, in a world.\<close>

definition decided :: "decision_deps \<Rightarrow> string \<Rightarrow> string \<Rightarrow> world \<Rightarrow> action list \<Rightarrow> bool" where
  "decided dd kind key w as \<longleftrightarrow> as = [] \<or>
     kind = KindDelete \<and> cfg_actions_enabled (d_cfg (dd_deps dd)) \<and>
     (\<exists>e fs. parse_entity_key key = Inr e \<and> as = delete_call e # fs \<and>
       (if isl (fst (perform (delete_call e) w)) then fs = [] else follow_ups dd key e fs))"

definition test_mail :: "cli_deps \<Rightarrow> cli_env \<Rightarrow> global_flags \<Rightarrow> string \<Rightarrow> action \<Rightarrow> bool" where
  "test_mail d en fl to a \<longleftrightarrow>
     (\<exists>cfg sec body. cli_load d en fl = Inr (cfg, sec) \<and> sender_for d cfg \<and>
        a = SendMail (if to = '''' then ec_to (cfg_email cfg) else to) (''healarr test email from '' @ cfg_node cfg) body)"

definition own_heartbeat :: "cli_deps \<Rightarrow> cli_env \<Rightarrow> global_flags \<Rightarrow> action \<Rightarrow> bool" where
  "own_heartbeat d en fl a \<longleftrightarrow>
     (\<exists>cfg sec c. cli_load d en fl = Inr (cfg, sec) \<and> peer_client_for d en cfg sec = Inr (Some c) \<and>
        a = PeerHeartbeat \<lparr>hb_node = cfg_node cfg, hb_at = cn_now en, hb_version = cn_version en, hb_uptime = 0\<rparr>)"

text \<open>What a verb adds to the log of calls when the world is \<open>w\<close>.\<close>

fun verb_log :: "cli_deps \<Rightarrow> cli_env \<Rightarrow> global_flags \<Rightarrow> verb \<Rightarrow> world \<Rightarrow> action list \<Rightarrow> bool" where
  "verb_log d en fl (CleanupVerb k) w as \<longleftrightarrow>
     list_all (cleanup_call k) as \<and>
     (if \<exists>cd p. cleaning d en fl k cd p then \<exists>cd p. cleaning d en fl k cd p \<and> as = cleanup_calls cd p else as = [])"
| "verb_log d en fl (DecideDelete key) w as \<longleftrightarrow> as = [] \<or> (\<exists>dd. deciding d en fl dd \<and> decided dd KindDelete key w as)"
| "verb_log d en fl (NotifyTest to) w as \<longleftrightarrow> as = [] \<or> (\<exists>a. test_mail d en fl to a \<and> as = [a])"
| "verb_log d en fl PeerPing w as \<longleftrightarrow>
     (if \<exists>a. own_heartbeat d en fl a then \<exists>a. own_heartbeat d en fl a \<and> as = [a] else as = [])"
| "verb_log d en fl v w as \<longleftrightarrow> as = service_log d en fl v"

lemma confined_calls: "confined P m \<Longrightarrow> only_calls P m"
  by (simp add: confined_def)

lemma confined_log: "confined (\<lambda>_. False) m \<Longrightarrow> calls (snd (m s)) = calls s"
  using silent_log [OF confined_calls] by (metis prod.collapse)

lemma isl_getter: "isl (getter d en fl name ctor) \<longleftrightarrow> \<not> built d en fl ctor"
  by (auto simp: getter_def built_def wrap_result_def rbind_def split: sum.split)

lemma log_write:
  "calls (snd (write_verb rd fl desc get a shown s)) = calls s @ (if gf_dry_run fl \<or> isl get then [] else [a])"
  using calls_call [of a s]
  by (cases get) (auto simp: write_verb_def do_or_dry_run_def abind_def aret_def vtry_def vfail_def split: prod.splits sum.splits)

lemma log_exec:
  "calls (snd (docker_exec_cmd rd fl get name args s)) =
     calls s @ (if gf_dry_run fl \<or> isl get then [] else [DockerExec name args])"
  using calls_call [of "DockerExec name args" s]
  by (cases get) (auto simp: docker_exec_cmd_def do_or_dry_run_def abind_def aret_def vtry_def vfail_def split: prod.splits sum.splits)

lemma log_vfail: "calls (snd (vfail e s)) = calls s"
  by (simp add: vfail_def aret_def)

lemma log_vtry: "calls (snd (vtry r f s)) = (case r of Inl _ \<Rightarrow> calls s | Inr x \<Rightarrow> calls (snd (f x s)))"
  by (cases r) (simp_all add: vfail_def aret_def)

lemma log_with_id: "calls (snd (with_id arg f s)) = (case parse_int arg of Inl _ \<Rightarrow> calls s | Inr i \<Rightarrow> calls (snd (f i s)))"
  by (cases "parse_int arg") (simp_all add: with_id_def parse_id_def log_vfail)

lemmas log_rules = log_vfail log_write log_exec log_vtry log_with_id isl_getter confined_log [OF confined_read] confined_log [OF confined_history]

lemmas named_rules = service_log_def parsed_def switched_def parse_on_off_def

lemma log_services:
  "calls (snd (run_sonarr_verb d en rd fl ar s)) = calls s @ service_log d en fl (SonarrVerb ar)"
  "calls (snd (run_radarr_verb d en rd fl ar s)) = calls s @ service_log d en fl (RadarrVerb ar)"
  "calls (snd (run_prowlarr_verb d en rd fl pw s)) = calls s @ service_log d en fl (ProwlarrVerb pw)"
  "calls (snd (run_qbit_verb d en rd fl qb s)) = calls s @ service_log d en fl (QBitVerb qb)"
  "calls (snd (run_plex_verb d en rd fl px s)) = calls s @ service_log d en fl (PlexVerb px)"
  "calls (snd (run_tautulli_verb d en rd fl tt s)) = calls s @ service_log d en fl (TautulliVerb tt)"
  "calls (snd (run_overseerr_verb d en rd fl ov s)) = calls s @ service_log d en fl (OverseerrVerb ov)"
  "calls (snd (run_docker_verb d en rd fl dk s)) = calls s @ service_log d en fl (DockerVerb dk)"
  "calls (snd (run_host_verb d en rd fl hs s)) = calls s @ service_log d en fl (HostVerb hs)"
  subgoal by (cases ar; simp add: Let_def service_commands log_rules named_rules split: sum.split)
  subgoal by (cases ar; simp add: Let_def service_commands log_rules named_rules split: sum.split)
  subgoal by (cases pw; simp add: Let_def service_commands log_rules named_rules split: sum.split)
  subgoal by (cases qb; simp add: Let_def service_commands log_rules named_rules)
  subgoal by (cases px; simp add: Let_def service_commands log_rules named_rules)
  subgoal by (cases tt; simp add: Let_def log_rules named_rules)
  subgoal by (cases ov; simp add: Let_def service_commands log_rules named_rules split: sum.split)
  subgoal by (cases dk; simp add: Let_def service_commands log_rules named_rules)
  subgoal by (cases hs; simp add: Let_def log_rules named_rules)
  done

section \<open>Opening the store\<close>

named_theorems keep_intros \<open>rules that keep the invariant of the database through an operation's steps\<close>

lemmas keeps_basics [keep_intros] = keeps_parts keeps_queries keeps_writes

lemma keeps_vfail [keep_intros]: "keeps I (vfail e)"
  by (simp add: vfail_def keeps_aret)

lemma keeps_vtry [keep_intros]: "(\<And>x. keeps I (f x)) \<Longrightarrow> keeps I (vtry r f)"
  by (cases r) (simp_all add: keeps_vfail)

lemma keeps_vstep [keep_intros]: "keeps I m \<Longrightarrow> (\<And>x. keeps I (f x)) \<Longrightarrow> keeps I (vstep what m f)"
  unfolding vstep_def by (intro keeps_abind keeps_vtry)

lemma keeps_closing [keep_intros]: "keeps I m \<Longrightarrow> keeps I (closing what h m)"
  unfolding closing_def case_prod_beta by (intro keeps_abind keeps_aret)

lemma keeps_prod [keep_intros]: "(\<And>x y. keeps I (f x y)) \<Longrightarrow> keeps I (case p of (x, y) \<Rightarrow> f x y)"
  by (cases p) simp

lemma keeps_on_world [keep_intros]: "keeps I (on_world f)"
  by (simp add: keeps_def on_world_def case_prod_beta)

lemma keeps_confined: "confined P m \<Longrightarrow> keeps I m"
  by (simp add: confined_def keeps_def)

lemma keeps_store_open [keep_intros]: "keeps db_ok (store_open dv path)"
  unfolding store_open_def by (intro keep_intros keeps_on_store preserves_migrate)

text \<open>
  What a verb relies on when it opens a store: opening calls nothing outside the process and keeps the invariant
  of the database. A verb that opens, works and closes is bounded by its work.
\<close>

locale store_opener =
  fixes open_it :: "config \<Rightarrow> handle result act"
  assumes opens_silently: "silent (open_it cfg)"
    and opens_soundly: "keeps db_ok (open_it cfg)"
begin

lemma opening_calls: "only_calls P (open_it cfg)"
  by (rule only_calls_mono [OF opens_silently]) simp

lemma session_calls:
  "(\<And>h. only_calls P (m h)) \<Longrightarrow> only_calls P (vstep what (open_it cfg) (\<lambda>h. closing ending h (m h)))"
  by (intro call_intros opening_calls)

lemma session_keeps:
  "(\<And>h. keeps db_ok (m h)) \<Longrightarrow> keeps db_ok (vstep what (open_it cfg) (\<lambda>h. closing ending h (m h)))"
  by (intro keep_intros opens_soundly)

end

interpretation sqlite: store_opener "default_open_store en" for en
proof
  show "silent (default_open_store en cfg)" for cfg
    unfolding default_open_store_def store_open_def by (auto intro!: call_intros split: option.split)
  show "keeps db_ok (default_open_store en cfg)" for cfg
    unfolding default_open_store_def by (intro keep_intros)
qed

text \<open>The openers that replace the store of the sources keep its laws.\<close>

definition lawful_stores :: "cli_deps \<Rightarrow> bool" where
  "lawful_stores d \<longleftrightarrow> (\<forall>f. cd_open_store d = Some f \<or> cd_open_agent_store d = Some f \<longrightarrow> store_opener f)"

lemma lawful_openers:
  assumes "lawful_stores d"
  shows "store_opener (open_store d en)" "store_opener (open_agent_store d en)"
  using assms sqlite.store_opener_axioms [of en]
  by (cases "cd_open_store d"; cases "cd_open_agent_store d";
      simp add: open_store_def [abs_def] open_agent_store_def [abs_def] lawful_stores_def)+

lemmas opening_calls_rules [call_intros] =
  store_opener.opening_calls [OF lawful_openers(1)] store_opener.session_calls [OF lawful_openers(1)]
  store_opener.opening_calls [OF lawful_openers(2)] store_opener.session_calls [OF lawful_openers(2)]

lemmas opening_keeps_rules [keep_intros] =
  store_opener.opens_soundly [OF lawful_openers(1)] store_opener.session_keeps [OF lawful_openers(1)]
  store_opener.opens_soundly [OF lawful_openers(2)] store_opener.session_keeps [OF lawful_openers(2)]

lemma calls_record_cleanup [call_intros]:
  "lawful_stores d \<Longrightarrow> only_calls P (record_cleanup d en cfg now k dry status detail)"
  unfolding record_cleanup_def by (intro call_intros) assumption

lemma calls_fail_recorded [call_intros]: "only_calls P rec \<Longrightarrow> only_calls P (fail_recorded rec e)"
  unfolding fail_recorded_def by (intro call_intros)

lemma planner_for_kind_cases:
  assumes "planner_for_kind k = Inr pl"
  shows "pl = recycle_planner \<and> k = KindRecycle \<or> pl = orphans_planner \<and> k = KindOrphans \<or>
    pl = docker_planner \<and> k = KindDocker \<or> pl = seeded_planner \<and> k = KindSeeded"
  using assms
  by (auto simp: planner_for_kind_def all_planners_def recycle_planner_def orphans_planner_def docker_planner_def
      seeded_planner_def split: if_splits option.splits)

lemma planned_kind:
  assumes "planner_for_kind k = Inr pl" "pl_plan pl cd = Inr p"
  shows "pn_kind p = k"
  using planner_for_kind_cases [OF assms(1)] assms(2)
  by (auto simp: recycle_planner_def orphans_planner_def docker_planner_def seeded_planner_def
      dest: recycle.plan_kind orphans.plan_kind docker.plan_kind seeded.plan_kind)

lemma cleanup_call_planned: "pn_kind p = k \<Longrightarrow> list_all (cleanup_call k) (cleanup_calls cd p)"
  by (auto simp: cleanup_calls_def removal_def list_all_iff)

text \<open>How an attempt ends, the status of its row, and the state after it.\<close>

definition attempt_status :: "deps \<Rightarrow> plan \<Rightarrow> sys \<Rightarrow> string" where
  "attempt_status cd p s =
     (if \<not> cfg_actions_enabled (d_cfg cd) then ''blocked''
      else if cl_dry_run (cfg_cleanup (d_cfg cd)) then ''planned''
      else case fst (execute cd p (sy_world s)) of Inl _ \<Rightarrow> ''failed'' | Inr _ \<Rightarrow> ''executed'')"

definition attempted :: "deps \<Rightarrow> plan \<Rightarrow> sys \<Rightarrow> sys" where
  "attempted cd p s = (if gate_open cd then s\<lparr>sy_world := snd (execute cd p (sy_world s))\<rparr> else s)"

lemma attempted_calls: "calls (attempted cd p s) = calls s @ cleanup_calls cd p"
  by (simp add: attempted_def calls_def execute_log cleanup_calls_def)

lemma attempted_store [simp]: "sy_store (attempted cd p s) = sy_store s"
  by (simp add: attempted_def)

lemma finish_steps:
  assumes "\<not> gf_dry_run fl" "d_cfg cd = cfg" "finish_cleanup d en rd fl cd cfg k p s = (out, s')"
  shows "\<exists>detail r. record_cleanup d en cfg (d_now cd) k (\<not> gate_open cd) (attempt_status cd p s) detail (attempted cd p s) =
    (r, s') \<and> (isl r \<longrightarrow> snd out \<noteq> None)"
proof (cases "gate_open cd")
  case False
  obtain r s1 where "record_cleanup d en cfg (d_now cd) k True (attempt_status cd p s) (plan_summary p) s = (r, s1)" by fastforce
  with False assms show ?thesis
    by (intro exI [of _ "plan_summary p"] exI [of _ r], cases r)
      (auto simp: finish_cleanup_def Let_def gate_open_def abind_def attempt_status_def attempted_def vfail_def split: if_splits)
next
  case True
  obtain r0 w where ex: "execute cd p (sy_world s) = (r0, w)" by fastforce
  define detail where "detail = (case r0 of Inl e \<Rightarrow> err_msg e | Inr res \<Rightarrow> result_summary res)"
  obtain r s1 where rec: "record_cleanup d en cfg (d_now cd) k False (attempt_status cd p s) detail (attempted cd p s) = (r, s1)" by fastforce
  with True ex assms show ?thesis
    by (intro exI [of _ detail] exI [of _ r], cases r0; cases r)
      (auto simp: finish_cleanup_def Let_def gate_open_def abind_def attempt_status_def attempted_def on_world_def
        fail_recorded_def vfail_def detail_def)
qed

lemma build_check_deps_cfg: "build_check_deps d en cfg sec = Inr cd \<Longrightarrow> d_cfg cd = cfg \<and> d_now cd = cn_now en"
  by (auto simp: build_check_deps_def set_configured_clients_def set_docker_and_host_def bare_deps_def Let_def rbind_eq_Inr
      split: if_splits)

lemma silent_log': "silent m \<Longrightarrow> calls (snd (m s)) = calls s"
  using silent_log by (metis prod.collapse)

lemma log_finish:
  assumes "lawful_stores d" "d_cfg cd = cfg"
  shows "calls (snd (finish_cleanup d en rd fl cd cfg k p s)) = calls s @ (if gf_dry_run fl then [] else cleanup_calls cd p)"
proof (cases "gf_dry_run fl")
  case True
  then show ?thesis by (simp add: finish_cleanup_def Let_def aret_def)
next
  case False
  obtain out s' where run: "finish_cleanup d en rd fl cd cfg k p s = (out, s')" by fastforce
  from finish_steps [OF False assms(2) run] obtain detail r where rec:
    "record_cleanup d en cfg (d_now cd) k (\<not> gate_open cd) (attempt_status cd p s) detail (attempted cd p s) = (r, s')" by blast
  from silent_log [OF calls_record_cleanup [OF assms(1)] rec] False show ?thesis by (simp add: run attempted_calls)
qed

lemma run_cleaning:
  assumes "cleaning d en fl k cd p"
  shows "run_cleanup d en rd fl k s = finish_cleanup d en rd fl cd (d_cfg cd) k p s"
  using assms build_check_deps_cfg by (auto simp: cleaning_def run_cleanup_def node_allowed_def list_ex_iff)

lemma log_not_cleaning:
  assumes "lawful_stores d" "\<And>cd p. \<not> cleaning d en fl k cd p"
  shows "calls (snd (run_cleanup d en rd fl k s)) = calls s"
proof (rule silent_log')
  have dry: "gf_dry_run fl" if "planner_for_kind k = Inr pl" "cli_load d en fl = Inr (cfg, sec)" "node_allowed (pl_nodes pl) (cfg_node cfg)"
    "build_check_deps d en cfg sec = Inr cd" "pl_plan pl cd = Inr p" for pl cfg sec cd p
    using assms(2) [of cd p] that by (auto simp: cleaning_def node_allowed_def list_ex_iff)
  show "silent (run_cleanup d en rd fl k)"
    unfolding run_cleanup_def
    by (intro call_intros assms(1)) (auto simp: finish_cleanup_def Let_def only_calls_aret dest: dry)
qed

lemma log_cleanup:
  assumes "lawful_stores d"
  shows "\<exists>as. calls (snd (run_cleanup d en rd fl k s)) = calls s @ as \<and> verb_log d en fl (CleanupVerb k) w as"
proof (cases "\<exists>cd p. cleaning d en fl k cd p")
  case True
  then obtain cd p where c: "cleaning d en fl k cd p" by blast
  then have "pn_kind p = k" "\<not> gf_dry_run fl" by (auto simp: cleaning_def dest: planned_kind)
  then show ?thesis
    using c cleanup_call_planned log_finish [OF assms refl] by (auto simp: run_cleaning [OF c])
next
  case False
  then show ?thesis using log_not_cleaning [OF assms] by (intro exI [of _ "[]"]) simp
qed

lemma calls_own_verbs:
  assumes "lawful_stores d"
  shows "only_calls P (run_config_validate d en rd fl)" "only_calls P (run_check_list d en rd fl)"
    "only_calls P (run_check_run d en rd fl every i)" "only_calls P (run_report_generate d en rd fl)"
    "only_calls P (run_staleness_score d en rd fl threshold)"
  unfolding run_config_validate_def run_check_list_def run_check_run_def run_report_generate_def digest_from_store_def
    run_staleness_score_def Let_def
  by (intro call_intros assms)+

text \<open>The decision a verb has just created is the one it executes.\<close>

lemma find_append_None: "find P xs = None \<Longrightarrow> find P (xs @ ys) = find P ys"
  by (induction xs) (auto split: if_splits)

lemma find_new_row:
  assumes "dr_id r = next_id dr_id rows"
  shows "find (\<lambda>x. dr_id x = next_id dr_id rows) (rows @ [r]) = Some r"
proof -
  have "find (\<lambda>x. dr_id x = next_id dr_id rows) rows = None"
    using next_id_fresh [of dr_id rows] by (force simp: find_None_iff)
  then show ?thesis using assms by (simp add: find_append_None)
qed

lemma created_row:
  assumes "on_store (create_decision key kind t) s = (Inr i, s1)"
  shows "find (\<lambda>r. dr_id r = i) (decisions s1) = Some (new_decision_row i key kind t)"
proof -
  obtain st where c: "create_decision key kind t (sy_store s) = (Inr i, st)" and s1: "s1 = s\<lparr>sy_store := st\<rparr>"
    using assms by (auto simp: on_store_def split: prod.splits)
  from supdate_Inr [OF c [unfolded create_decision_def]]
  have i: "i = next_id dr_id (decisions s)"
    and db: "st_db st = (st_db (sy_store s))\<lparr>db_decisions := decisions s @ [new_decision_row i key kind t]\<rparr>"
    by (auto simp: Let_def)
  then have "decisions s1 = decisions s @ [new_decision_row i key kind t]" by (simp add: s1)
  then show ?thesis using find_new_row [of "new_decision_row i key kind t" "decisions s"] i by (simp add: new_decision_row_def)
qed

text \<open>An operation that adds to the log a list its starting world allows.\<close>

definition tells :: "(world \<Rightarrow> action list \<Rightarrow> bool) \<Rightarrow> 'a act \<Rightarrow> bool" where
  "tells Q m \<longleftrightarrow> (\<forall>s. \<exists>as. calls (snd (m s)) = calls s @ as \<and> Q (sy_world s) as)"

definition still :: "'a act \<Rightarrow> bool" where
  "still m \<longleftrightarrow> (\<forall>s. sy_world (snd (m s)) = sy_world s)"

lemma tells_mono: "tells Q m \<Longrightarrow> (\<And>w as. Q w as \<Longrightarrow> R w as) \<Longrightarrow> tells R m"
  unfolding tells_def by blast

lemma tells_silent: "silent m \<Longrightarrow> (\<And>w. Q w []) \<Longrightarrow> tells Q m"
  unfolding tells_def using silent_log' by (metis append_Nil2)

lemma tells_aret: "(\<And>w. Q w []) \<Longrightarrow> tells Q (aret x)"
  by (simp add: tells_def aret_def)

lemma tells_vtry: "(\<And>w. Q w []) \<Longrightarrow> (\<And>x. r = Inr x \<Longrightarrow> tells Q (f x)) \<Longrightarrow> tells Q (vtry r f)"
  by (cases r) (simp_all add: vfail_def tells_aret)

lemma tells_after: "still m \<Longrightarrow> (\<And>x. tells Q (f x)) \<Longrightarrow> tells Q (abind m f)"
  unfolding tells_def still_def abind_def calls_def by (metis (no_types, lifting) case_prod_beta)

lemma tells_vstep: "still m \<Longrightarrow> (\<And>w. Q w []) \<Longrightarrow> (\<And>x. tells Q (f x)) \<Longrightarrow> tells Q (vstep what m f)"
  unfolding vstep_def by (intro tells_after tells_vtry)

lemma tells_closing: "tells Q m \<Longrightarrow> tells Q (closing what h m)"
  unfolding tells_def closing_def abind_def aret_def by (simp add: case_prod_beta)

lemma still_on_store: "still (on_store m)"
  by (simp add: still_def on_store_def split: prod.split)

lemma still_store_open: "still (store_open dv path)"
  by (auto simp: still_def store_open_def abind_def aret_def on_store_def split: option.split prod.split)

lemma tells_if: "(c \<Longrightarrow> tells Q m) \<Longrightarrow> (\<not> c \<Longrightarrow> tells Q n) \<Longrightarrow> tells Q (if c then m else n)"
  by simp

lemma tells_delete:
  assumes "de_kind dec = KindDelete"
  shows "tells (decided dd KindDelete (de_entity_key dec)) (execute_delete dd dec)"
proof (cases "cfg_actions_enabled (d_cfg (dd_deps dd)) \<and> (\<exists>e. parse_entity_key (de_entity_key dec) = Inr e)")
  case True
  then obtain e where e: "parse_entity_key (de_entity_key dec) = Inr e" by blast
  show ?thesis
    using opens_with_delete [OF e, of dd] e True unfolding opens_with_def tells_def decided_def
    by (metis append_Nil2)
next
  case False
  then show ?thesis by (intro tells_silent unmatched_delete_is_silent) (auto simp: decided_def)
qed

lemma tells_loaded:
  assumes "\<And>dec. q = Inr (Some dec) \<Longrightarrow> de_kind dec = kind \<and> de_entity_key dec = key"
  shows "tells (decided dd kind key) (run_loaded dd i q)"
proof (cases "\<exists>dec. q = Inr (Some dec)")
  case True
  then obtain dec where dec: "q = Inr (Some dec)" by blast
  have "silent (execute_keep dd dec)" "silent (fail_delete dd dec now cause)" for now cause by blast+
  then show ?thesis
    using assms [OF dec] tells_delete [of dec dd] by (auto simp: dec run_loaded_def decided_def intro: tells_silent)
next
  case False
  then show ?thesis by (cases q) (auto simp: run_loaded_def decided_def intro: tells_aret split: option.split)
qed

lemma created_log:
  assumes "on_store (create_decision key kind t) s = (Inr i, s1)"
  shows "\<exists>as. calls (snd (execute_decision dd i s1)) = calls s1 @ as \<and> decided dd kind key (sy_world s1) as"
proof -
  obtain q s2 where q: "on_store (decision_by_id i) s1 = (q, s2)" by fastforce
  have s2: "sy_world s2 = sy_world s1" using still_on_store [of "decision_by_id i"] q by (metis snd_conv still_def)
  have "de_kind dec = kind \<and> de_entity_key dec = key" if "q = Inr (Some dec)" for dec
    using q that created_row [OF assms]
    by (auto simp: on_store_def decision_by_id_def scan_decision_row_def new_decision_row_def split: prod.splits dest!: squery_Inr)
  then have "tells (decided dd kind key) (run_loaded dd i q)" by (rule tells_loaded)
  then show ?thesis
    unfolding execute_loaded using s2 by (simp add: abind_def q tells_def calls_def) metis
qed

lemma tells_create_and_execute:
  assumes "\<And>x. silent (f x)"
  shows "tells (decided dd kind key)
    (vstep w (on_store (create_decision key kind t)) (\<lambda>i. vstep w2 (execute_decision dd i) f))"
    (is "tells ?P ?m")
  unfolding tells_def
proof
  fix s
  obtain r s1 where c: "on_store (create_decision key kind t) s = (r, s1)" by fastforce
  have s1: "sy_world s1 = sy_world s" using still_on_store [of "create_decision key kind t"] c by (metis snd_conv still_def)
  show "\<exists>as. calls (snd (?m s)) = calls s @ as \<and> ?P (sy_world s) as"
  proof (cases r)
    case (Inl e)
    then show ?thesis using c s1
      by (intro exI [of _ "[]"]) (simp add: vstep_def abind_def vfail_def aret_def decided_def calls_def)
  next
    case (Inr i)
    obtain x s2 where x: "execute_decision dd i s1 = (x, s2)" by fastforce
    have "silent (vtry (wrap_result w2 x) f)" by (intro call_intros assms)
    then have "calls (snd (vtry (wrap_result w2 x) f s2)) = calls s2" by (rule silent_log')
    then show ?thesis
      using created_log [OF c [unfolded Inr], of dd] by (simp add: vstep_def abind_def c Inr x s1 calls_def)
  qed
qed

lemma tells_decide:
  "tells (\<lambda>w as. as = [] \<or> (\<exists>dd. (snooze \<le> 0 \<longrightarrow> deciding d en fl dd) \<and> decided dd kind key w as))
    (run_decide d en rd fl kind key snooze)" (is "tells ?Q _")
proof -
  let ?cfg = "\<lambda>cfg0. if 0 < snooze then cfg0\<lparr>cfg_staleness := (cfg_staleness cfg0)\<lparr>sc_snooze_days := snooze\<rparr>\<rparr> else cfg0"
  have "tells ?Q (vstep ''decide: create decision'' (on_store (create_decision key kind (cn_later en))) (\<lambda>i.
      vstep ''decide'' (execute_decision \<lparr>dd_deps = cd, dd_peer = (pc \<noteq> None)\<rparr> i) (\<lambda>dec.
      aret (print_out (out_of rd) fl (PrDecision dec)))))" (is "tells _ ?m")
    if "\<not> gf_dry_run fl" "cli_load d en fl = Inr (cfg0, sec)" "build_check_deps d en (?cfg cfg0) sec = Inr cd"
      "peer_client_for d en (?cfg cfg0) sec = Inr pc" for cfg0 sec cd pc
  proof -
    let ?dd = "\<lparr>dd_deps = cd, dd_peer = (pc \<noteq> None)\<rparr>"
    have "snooze \<le> 0 \<longrightarrow> deciding d en fl ?dd" using that by (auto simp: deciding_def)
    moreover have "tells (decided ?dd kind key) ?m" by (rule tells_create_and_execute) (rule only_calls_aret)
    ultimately show ?thesis by (blast intro: tells_mono)
  qed
  note step = this
  show ?thesis
    unfolding run_decide_def Let_def
  proof (intro tells_vtry, simp, goal_cases)
    case (1 p)
    obtain cfg0 sec where p: "p = (cfg0, sec)" by fastforce
    show ?case
      unfolding p prod.case
    proof (intro tells_if, simp add: tells_aret, goal_cases)
      case 1
      note dry = this
      show ?case
      proof (rule tells_vstep [OF still_store_open], simp, rule tells_closing, rule tells_vtry, simp, rule tells_vtry, simp, goal_cases)
        case (1 x cd pc)
        then show ?case using step [OF dry \<open>cli_load d en fl = Inr p\<close> [unfolded p], of cd pc] by simp
      qed
    qed
  qed
qed

text \<open>The test mail and the heartbeat.\<close>

lemma adds_quiet: "silent m \<Longrightarrow> (\<And>x. adds P (f x)) \<Longrightarrow> adds P (abind m f)"
  by (rule adds_abind [where P = "\<lambda>as. as = []" and Q = P]) (simp_all add: adds_nothing)

lemma adds_vtry: "P [] \<Longrightarrow> (\<And>x. r = Inr x \<Longrightarrow> adds P (f x)) \<Longrightarrow> adds P (vtry r f)"
  by (cases r) (simp_all add: vfail_def adds_aret)

lemma adds_vstep: "silent m \<Longrightarrow> P [] \<Longrightarrow> (\<And>x. adds P (f x)) \<Longrightarrow> adds P (vstep what m f)"
  unfolding vstep_def by (intro adds_quiet adds_vtry)

lemma adds_call_then: "P [a] \<Longrightarrow> (\<And>x. silent (f x)) \<Longrightarrow> adds P (abind (call a) f)"
  by (rule adds_abind [OF adds_call, where P = "\<lambda>as. as = [a]" and Q = "\<lambda>as. as = []"]) (simp_all add: adds_nothing)

lemma adds_closing: "adds P m \<Longrightarrow> adds P (closing what h m)"
  unfolding closing_def case_prod_beta
  by (rule adds_abind [where P = P and Q = "\<lambda>as. as = []"]) (simp_all add: adds_aret)

lemma log_notify:
  assumes "lawful_stores d"
  shows "adds (\<lambda>as. as = [] \<or> (\<exists>a. test_mail d en fl to a \<and> as = [a])) (run_notify_test d en fl to)" (is "adds ?P _")
proof -
  let ?to = "\<lambda>cfg. if to = '''' then ec_to (cfg_email cfg) else to"
  have mail: "?P [SendMail (?to cfg) (''healarr test email from '' @ cfg_node cfg) body]"
    if "cli_load d en fl = Inr (cfg, sec)" "sender_for d cfg" for cfg sec body
    using that by (auto simp: test_mail_def)
  have send: "adds ?P (abind (call (SendMail (?to cfg) (''healarr test email from '' @ cfg_node cfg) body)) f)"
    if "cli_load d en fl = Inr (cfg, sec)" "sender_for d cfg" "\<And>x. silent (f x)" for cfg sec body and f :: "int result \<Rightarrow> verb_end act"
    using mail [OF that(1,2)] that(3) by (rule adds_call_then)
  have enqueue: "adds ?P (vstep what (on_store (enqueue_email a b c t)) f)" if "\<And>x. adds ?P (f x)" for what a b c t f
    using that by (intro adds_vstep) (auto intro: only_calls_on_store)
  show ?thesis
    unfolding run_notify_test_def Let_def
  proof (intro adds_vtry, simp, goal_cases)
    case (1 p)
    obtain cfg sec where p: "p = (cfg, sec)" by fastforce
    have opened: "silent (open_agent_store d en cfg)"
      using store_opener.opens_silently [OF lawful_openers(2) [OF assms]] .
    have none: "adds ?P (vfail e)" for e by (simp add: vfail_def adds_aret)
    show ?case
      unfolding p prod.case
    proof (intro adds_if none, goal_cases)
      case 1
      then show ?case
        unfolding vstep_def
        by (intro send [OF \<open>cli_load d en fl = Inr p\<close> [unfolded p]]) (simp, intro call_intros)
    next
      case 2
      show ?case
        by (rule adds_vstep [OF opened], simp, rule adds_closing, rule enqueue, rule send [OF \<open>cli_load d en fl = Inr p\<close> [unfolded p]])
          (use 2 in simp, intro call_intros)
    qed
  qed
qed

lemma log_ping:
  "\<exists>as. calls (snd (run_peer_ping d en rd fl s)) = calls s @ as \<and> verb_log d en fl PeerPing w as"
proof (cases "\<exists>cfg sec c. cli_load d en fl = Inr (cfg, sec) \<and> peer_client_for d en cfg sec = Inr (Some c)")
  case True
  then obtain cfg sec c where c: "cli_load d en fl = Inr (cfg, sec)" "peer_client_for d en cfg sec = Inr (Some c)" by blast
  let ?a = "PeerHeartbeat \<lparr>hb_node = cfg_node cfg, hb_at = cn_now en, hb_version = cn_version en, hb_uptime = 0\<rparr>"
  have "own_heartbeat d en fl ?a" using c by (auto simp: own_heartbeat_def)
  moreover have "calls (snd (run_peer_ping d en rd fl s)) = calls s @ [?a]"
    using calls_call [of ?a s] by (simp add: run_peer_ping_def c abind_def aret_def case_prod_beta)
  ultimately show ?thesis by auto
next
  case False
  then have "calls (snd (run_peer_ping d en rd fl s)) = calls s"
    by (auto simp: run_peer_ping_def log_vtry vfail_def aret_def wrap_result_def split: sum.split option.split prod.split)
  moreover have "\<nexists>a. own_heartbeat d en fl a" using False by (auto simp: own_heartbeat_def)
  ultimately show ?thesis by simp
qed

text \<open>C6: Whatever the flags, a verb other than the daemon makes the mutating calls it names and no other. A
  service verb that writes (\<open>docker exec\<close> included) makes its one call, once and with the parsed arguments, exactly
  when its arguments can be read, its client can be built and it is not a dry run. \<open>cleanup\<close> makes exactly the
  calls of its plan, all of its own kind (torrents keep their files), when there is one and it is not a dry
  run. \<open>decide delete\<close> makes none, or deletes the entity of its key and then, unless that fails, makes the follow-ups
  about this entity; \<open>notify test\<close> sends at most its one mail and \<open>peer ping\<close> exactly one heartbeat when a peer
  is configured. \<open>decide keep\<close> and every reading verb make none at all. An opener that replaces the store of the
  sources is taken to make no call of its own.\<close>

theorem verbs_call_what_they_name:
  assumes "lawful_stores d" "v \<noteq> AgentServe"
  shows "\<exists>as. calls (snd (run_verb d en dn rd fl v s)) = calls s @ as \<and> verb_log d en fl v (sy_world s) as"
proof -
  have own: "calls (snd (run_config_validate d en rd fl s)) = calls s" "calls (snd (run_check_list d en rd fl s)) = calls s"
    "calls (snd (run_check_run d en rd fl every i s)) = calls s" "calls (snd (run_report_generate d en rd fl s)) = calls s"
    "calls (snd (run_staleness_score d en rd fl threshold s)) = calls s" for every i threshold
    by (rule silent_log' [OF calls_own_verbs(1) [OF assms(1)]] silent_log' [OF calls_own_verbs(2) [OF assms(1)]]
        silent_log' [OF calls_own_verbs(3) [OF assms(1)]] silent_log' [OF calls_own_verbs(4) [OF assms(1)]]
        silent_log' [OF calls_own_verbs(5) [OF assms(1)]])+
  show ?thesis
  proof (cases v)
    case (DecideKeep key days)
    have "tells (\<lambda>w as. as = []) (run_decide d en rd fl KindKeep key days)"
      by (rule tells_mono [OF tells_decide]) (auto simp: decided_def)
    then show ?thesis unfolding DecideKeep tells_def by (simp add: service_log_def)
  next
    case (DecideDelete key)
    have "tells (\<lambda>w as. as = [] \<or> (\<exists>dd. deciding d en fl dd \<and> decided dd KindDelete key w as)) (run_decide d en rd fl KindDelete key 0)"
      by (rule tells_mono [OF tells_decide]) auto
    then show ?thesis unfolding DecideDelete tells_def by simp
  next
    case (CleanupVerb k)
    show ?thesis unfolding CleanupVerb run_verb.simps by (rule log_cleanup [OF assms(1)])
  next
    case (NotifyTest to)
    show ?thesis using log_notify [OF assms(1), of en fl to] unfolding NotifyTest run_verb.simps verb_log.simps adds_def by blast
  next
    case PeerPing
    show ?thesis unfolding PeerPing run_verb.simps by (rule log_ping)
  qed (use assms in \<open>simp_all add: log_services own service_log_def aret_def
      del: run_sonarr_verb.simps run_radarr_verb.simps run_prowlarr_verb.simps run_qbit_verb.simps run_plex_verb.simps
          run_tautulli_verb.simps run_overseerr_verb.simps run_docker_verb.simps run_host_verb.simps\<close>)
qed

section \<open>Cleanups\<close>

definition remediations :: "sys \<Rightarrow> remediation_row list" where
  "remediations s = db_remediations (st_db (sy_store s))"

lemma remediations_recorded:
  assumes "st_faults (sy_store s) = []"
  shows "\<exists>row. remediations (snd (on_store (record_remediation r) s)) = remediations s @ [row] \<and>
    mr_action row = rm_action r \<and> mr_status row = rm_status r \<and> mr_dry_run row = rm_dry_run r \<and> mr_detail row = rm_detail r"
  using assms
  by (simp add: remediations_def on_store_def record_remediation_def supdate_def sexec_def Let_def new_remediation_row_def)

text \<open>
  A store that works: no statement fails and its schema is one the migrations have made. On such a store an opener
  either gives a handle and leaves the remediations alone, or it fails.
\<close>

definition sound_store :: "sys \<Rightarrow> bool" where
  "sound_store s \<longleftrightarrow> st_faults (sy_store s) = [] \<and> schema_ok (st_db (sy_store s))"

definition opens_onto :: "handle result act \<Rightarrow> handle \<Rightarrow> bool" where
  "opens_onto m h \<longleftrightarrow> (\<forall>s. sound_store s \<longrightarrow>
     (\<exists>s1. m s = (Inr h, s1) \<and> remediations s1 = remediations s \<and> st_faults (sy_store s1) = []))"

definition refuses :: "handle result act \<Rightarrow> bool" where
  "refuses m \<longleftrightarrow> (\<forall>s. \<exists>e s1. m s = (Inl e, s1) \<and> remediations s1 = remediations s)"

text \<open>The opener of the sources does the one when the driver opens the file and answers the ping, else the other.\<close>

lemma sqlite_opens:
  assumes "sd_open (cn_driver en) (dsn (cfg_db_path cfg)) = None" "sd_ping (cn_driver en) = None"
  shows "opens_onto (default_open_store en cfg) (sqlite_handle (cn_driver en))"
  unfolding opens_onto_def
proof (intro allI impI)
  fix s assume s: "sound_store s"
  then have st: "\<lparr>st_db = st_db (sy_store s), st_faults = []\<rparr> = sy_store s" by (simp add: sound_store_def)
  obtain db where "migrate (sy_store s) = (Inr (), \<lparr>st_db = db, st_faults = []\<rparr>)" "db_remediations db = remediations s"
    using migrate_completes [of "st_db (sy_store s)", unfolded st] s by (simp add: sound_store_def remediations_def)
  then show "\<exists>s1. default_open_store en cfg s = (Inr (sqlite_handle (cn_driver en)), s1) \<and> remediations s1 = remediations s \<and>
      st_faults (sy_store s1) = []"
    using assms by (simp add: default_open_store_def store_open_def abind_def aret_def on_store_def remediations_def)
qed

lemma sqlite_refuses:
  assumes "sd_open (cn_driver en) (dsn (cfg_db_path cfg)) \<noteq> None \<or> sd_ping (cn_driver en) \<noteq> None"
  shows "refuses (default_open_store en cfg)"
  using assms by (auto simp: refuses_def default_open_store_def store_open_def abind_def aret_def split: option.split)

lemma recorded_cleanup:
  assumes "opens_onto (open_store d en cfg) h" "hd_remediations h" "sound_store s"
    "record_cleanup d en cfg now k dry status detail s = (r, s')"
  shows "\<exists>row. remediations s' = remediations s @ [row] \<and> mr_action row = ''cleanup:'' @ k \<and> mr_status row = status \<and>
    mr_dry_run row = dry"
proof -
  obtain s1 where s1: "open_store d en cfg s = (Inr h, s1)" "remediations s1 = remediations s" "st_faults (sy_store s1) = []"
    using assms(1,3) unfolding opens_onto_def by blast
  then have "s' = snd (on_store (record_remediation (cleanup_remediation cfg now k dry status detail)) s1)"
    using assms(2,4) by (auto simp: record_cleanup_def abind_def aret_def split: prod.splits)
  then show ?thesis
    using remediations_recorded [OF s1(3), of "cleanup_remediation cfg now k dry status detail"] s1(2)
    by (auto simp: cleanup_remediation_def)
qed

lemma unrecorded_cleanup:
  assumes "refuses (open_store d en cfg)" "record_cleanup d en cfg now k dry status detail s = (r, s')"
  shows "isl r \<and> remediations s' = remediations s"
proof -
  obtain e s1 where "open_store d en cfg s = (Inl e, s1)" "remediations s1 = remediations s"
    using assms(1) unfolding refuses_def by blast
  then show ?thesis using assms(2) by (auto simp: record_cleanup_def abind_def)
qed

text \<open>C7: A \<open>cleanup\<close> that has a plan and is not a dry run makes exactly the calls its plan stands for (none
  unless actions are enabled and the cleanup's own \<open>dry_run\<close> is off), whatever becomes of the store; an opener that
  replaces the one of the sources is taken to make no call of its own. If the store works
  (no statement fails, its schema is one of the migrations), can be opened and can record remediations, exactly one
  remediation is left, whose status tells whether the cleanup was blocked, only planned, failed or executed, also
  when the store then fails to close. If the store cannot be opened, no remediation is left and the verb fails,
  although the calls have been made.\<close>

theorem cleanup_leaves_one_remediation:
  assumes "planner_for_kind k = Inr pl" "cli_load d en fl = Inr (cfg, sec)" "cfg_node cfg \<in> set (pl_nodes pl)"
    "build_check_deps d en cfg sec = Inr cd" "pl_plan pl cd = Inr p" "\<not> gf_dry_run fl" "lawful_stores d"
    "run_cleanup d en rd fl k s = (out, s')"
  shows "calls s' = calls s @ cleanup_calls cd p \<and>
    (opens_onto (open_store d en cfg) h \<and> hd_remediations h \<and> sound_store s \<longrightarrow>
       (\<exists>row. remediations s' = remediations s @ [row] \<and> mr_action row = ''cleanup:'' @ k \<and>
          mr_status row = attempt_status cd p s \<and> mr_dry_run row = (\<not> gate_open cd))) \<and>
    (refuses (open_store d en cfg) \<longrightarrow> remediations s' = remediations s \<and> snd out \<noteq> None)"
proof -
  have cfg: "d_cfg cd = cfg" using build_check_deps_cfg assms(4) by blast
  have "cleaning d en fl k cd p" using assms by (auto simp: cleaning_def)
  then have run: "finish_cleanup d en rd fl cd cfg k p s = (out, s')" using assms(8) by (simp add: run_cleaning cfg)
  obtain detail r where rec: "record_cleanup d en cfg (d_now cd) k (\<not> gate_open cd) (attempt_status cd p s) detail (attempted cd p s) = (r, s')"
    and out: "isl r \<longrightarrow> snd out \<noteq> None"
    using finish_steps [OF assms(6) cfg run] by blast
  have "calls s' = calls s @ cleanup_calls cd p" using log_finish [OF assms(7) cfg, of en rd fl k p s] run assms(6) by simp
  moreover have "sound_store (attempted cd p s) = sound_store s" "remediations (attempted cd p s) = remediations s"
    by (simp_all add: sound_store_def remediations_def)
  ultimately show ?thesis
    using recorded_cleanup [OF _ _ _ rec] unrecorded_cleanup [OF _ rec] out by auto
qed

section \<open>The database over a verb\<close>

lemma keeps_write [keep_intros]: "keeps I (write_verb rd fl desc get a shown)"
  unfolding write_verb_def do_or_dry_run_def by (intro keeps_parts keeps_vtry)

lemma keeps_exec [keep_intros]: "keeps I (docker_exec_cmd rd fl get name args)"
  unfolding docker_exec_cmd_def do_or_dry_run_def by (intro keeps_parts keeps_vtry)

lemma keeps_with_id [keep_intros]: "(\<And>i. keeps I (f i)) \<Longrightarrow> keeps I (with_id arg f)"
  unfolding with_id_def by (intro keeps_vtry)

lemmas keeps_reads [keep_intros] =
  keeps_confined [OF confined_read [of "\<lambda>_. True"]] keeps_confined [OF confined_history [of "\<lambda>_. True"]]

lemma keeps_services:
  "keeps I (run_sonarr_verb d en rd fl ar)" "keeps I (run_radarr_verb d en rd fl ar)"
  "keeps I (run_prowlarr_verb d en rd fl pw)" "keeps I (run_qbit_verb d en rd fl qb)"
  "keeps I (run_plex_verb d en rd fl px)" "keeps I (run_tautulli_verb d en rd fl tt)"
  "keeps I (run_overseerr_verb d en rd fl ov)" "keeps I (run_docker_verb d en rd fl dk)"
  "keeps I (run_host_verb d en rd fl hs)"
  subgoal by (cases ar; simp add: Let_def service_commands; intro keep_intros)
  subgoal by (cases ar; simp add: Let_def service_commands; intro keep_intros)
  subgoal by (cases pw; simp add: Let_def service_commands; intro keep_intros)
  subgoal by (cases qb; simp add: Let_def service_commands; intro keep_intros)
  subgoal by (cases px; simp add: Let_def service_commands; intro keep_intros)
  subgoal by (cases tt; simp add: Let_def service_commands; intro keep_intros)
  subgoal by (cases ov; simp add: Let_def service_commands; intro keep_intros)
  subgoal by (cases dk; simp add: Let_def service_commands; intro keep_intros)
  subgoal by (cases hs; simp add: Let_def service_commands; intro keep_intros)
  done

lemma keeps_cleanup:
  assumes "lawful_stores d"
  shows "keeps db_ok (run_cleanup d en rd fl k)"
proof -
  have [keep_intros]: "keeps db_ok (record_cleanup d en cfg now k dry status detail)" for cfg now dry status detail
    unfolding record_cleanup_def by (intro keep_intros assms)
  have [keep_intros]: "keeps db_ok rec \<Longrightarrow> keeps db_ok (fail_recorded rec e)" for rec e
    unfolding fail_recorded_def by (intro keep_intros)
  have [keep_intros]: "keeps db_ok (finish_cleanup d en rd fl cd cfg k p)" for cd cfg p
    unfolding finish_cleanup_def Let_def by (intro keep_intros)
  show ?thesis unfolding run_cleanup_def by (intro keep_intros)
qed

lemma keeps_run_agent:
  assumes "keeps db_ok body"
  shows "keeps db_ok (run_agent a now ze cron race dps body ev pe we)"
proof -
  have "keeps db_ok (run_cycle a race dps now cadence)" for a cadence
    using keeps_cycle [of a race dps now cadence] by (simp add: run_scheduled_cycle_def keeps_def abind_def aret_def split: prod.splits) (metis prod.collapse)
  then show ?thesis unfolding run_agent_def Let_def by (intro keep_intros assms)
qed

lemma keeps_own_verbs:
  assumes "lawful_stores d"
  shows "keeps db_ok (run_config_validate d en rd fl)" "keeps db_ok (run_check_list d en rd fl)"
    "keeps db_ok (run_check_run d en rd fl every i)" "keeps db_ok (run_report_generate d en rd fl)"
    "keeps db_ok (run_staleness_score d en rd fl threshold)" "keeps db_ok (run_decide d en rd fl kind key days)"
    "keeps db_ok (run_notify_test d en fl to)" "keeps db_ok (run_peer_ping d en rd fl)"
    "keeps db_ok (dn_body dn) \<Longrightarrow> keeps db_ok (run_agent_serve d en dn fl)"
  unfolding run_config_validate_def run_check_list_def run_check_run_def run_report_generate_def digest_from_store_def
    run_staleness_score_def run_decide_def run_notify_test_def run_peer_ping_def run_agent_serve_def Let_def
  by (intro keep_intros assms keeps_execution keeps_run_agent | assumption)+

text \<open>C8: The invariant of the database holds after every verb, the daemon included when its jobs keep it:
  whatever statements fail on the way, from a migration at opening to the rows a verb writes.\<close>

theorem verbs_keep_database:
  assumes "lawful_stores d" "keeps db_ok (dn_body dn)" "db_ok (st_db (sy_store s))"
  shows "db_ok (st_db (sy_store (snd (run_verb d en dn rd fl v s))))"
proof -
  have "keeps db_ok (run_verb d en dn rd fl v)"
    by (cases v) (simp_all add: keeps_services keeps_own_verbs keeps_cleanup keeps_aret assms
        del: run_sonarr_verb.simps run_radarr_verb.simps run_prowlarr_verb.simps run_qbit_verb.simps run_plex_verb.simps
          run_tautulli_verb.simps run_overseerr_verb.simps run_docker_verb.simps run_host_verb.simps)
  then show ?thesis using assms(3) by (simp add: keeps_def)
qed

section \<open>Dependencies and previews\<close>

lemma set_client_None: "set_client name sv build = Inr r \<Longrightarrow> r = None \<longleftrightarrow> svc_url sv = ''''"
  by (auto simp: set_client_def rbind_eq_Inr split: if_splits)

text \<open>A service without a URL stays out of the checks, and one with a URL is there.\<close>

definition services_match :: "config \<Rightarrow> deps \<Rightarrow> bool" where
  "services_match cfg cd \<longleftrightarrow>
     (d_sonarr cd = None) = (svc_url (svcs_sonarr (cfg_services cfg)) = '''') \<and>
     (d_radarr cd = None) = (svc_url (svcs_radarr (cfg_services cfg)) = '''') \<and>
     (d_prowlarr cd = None) = (svc_url (svcs_prowlarr (cfg_services cfg)) = '''') \<and>
     (d_qbit cd = None) = (svc_url (svcs_qbittorrent (cfg_services cfg)) = '''') \<and>
     (d_plex cd = None) = (svc_url (svcs_plex (cfg_services cfg)) = '''') \<and>
     (d_tautulli cd = None) = (svc_url (svcs_tautulli (cfg_services cfg)) = '''') \<and>
     (d_overseerr cd = None) = (svc_url (svcs_overseerr (cfg_services cfg)) = '''')"

lemma configured_services:
  "set_configured_clients d cfg sec cd0 = Inr cd \<Longrightarrow> services_match cfg cd \<and> d_docker cd = d_docker cd0 \<and> d_previous cd = d_previous cd0"
  by (simp only: set_configured_clients_def Let_def rbind_eq_Inr, elim exE conjE, (drule set_client_None)+, drule Inr_inject, hypsubst,
      unfold services_match_def, intro conjI; simp)

lemma services_match_update [simp]:
  "services_match cfg (cd\<lparr>d_docker := x\<rparr>) = services_match cfg cd" "services_match cfg (cd\<lparr>d_host := y\<rparr>) = services_match cfg cd"
  by (simp_all add: services_match_def)

lemma docker_and_host:
  assumes "set_docker_and_host d en cfg sec c1 = Inr cd"
  shows "\<exists>x h. cd = c1\<lparr>d_docker := x, d_host := Some h\<rparr> \<and> (if want_docker en cfg then x \<noteq> None else x = d_docker c1)"
proof (cases "want_docker en cfg")
  case True
  then show ?thesis using assms by (auto simp: set_docker_and_host_def rbind_eq_Inr)
next
  case False
  then obtain h where "cd = c1\<lparr>d_host := Some h\<rparr>" using assms by (auto simp: set_docker_and_host_def rbind_eq_Inr)
  with False show ?thesis by (intro exI [of _ "d_docker c1"] exI [of _ h]) simp
qed

lemma unconfigured_services_stay_out:
  assumes "build_check_deps d en cfg sec = Inr cd"
  shows "services_match cfg cd \<and> (d_docker cd = None) = (\<not> want_docker en cfg) \<and> d_host cd \<noteq> None \<and> d_previous cd = None"
proof -
  obtain c1 where c1: "set_configured_clients d cfg sec (bare_deps en cfg) = Inr c1" "set_docker_and_host d en cfg sec c1 = Inr cd"
    using assms by (auto simp: build_check_deps_def rbind_eq_Inr)
  have "d_docker (bare_deps en cfg) = None" "d_previous (bare_deps en cfg) = None" by (simp_all add: bare_deps_def)
  then show ?thesis
    using configured_services [OF c1(1)] docker_and_host [OF c1(2)] by (cases "want_docker en cfg") auto
qed

text \<open>\<open>config validate\<close> shows of the secrets only which of them are set.\<close>

lemma validation_shows_no_secret:
  assumes "key_entries sec = key_entries sec'"
  shows "print_validation rd fl cfg sec = print_validation rd fl cfg sec'"
  using assms by (simp add: print_validation_def validation_report_def validation_lines_def)

text \<open>The preview lists exactly the items at or above the bound, best first.\<close>

lemma staleness_score_rows_sorted:
  "sorted (map score_order (staleness_score_rows items w now m))"
  "set (map sw_entity_key (staleness_score_rows items w now m)) =
     it_entity_key ` {it \<in> set items. \<not> f_lt (scr_total (score_item it w now)) m}"
  by (simp_all add: staleness_score_rows_def Let_def image_image)

section \<open>Instances\<close>

definition plain_flags :: global_flags where
  "plain_flags = \<lparr>gf_config_path = '''', gf_json = False, gf_dry_run = False\<rparr>"

text \<open>A Pi with actions enabled, a docker engine with something to reclaim, and no service configured.\<close>

definition pi_config :: config where
  "pi_config = (acting defaults)\<lparr>cfg_node := NodePi\<rparr>"

definition pi_docker :: docker_client where
  "pi_docker = \<lparr>docker_containers = Inr [], docker_logs = (\<lambda>_ _. Inr ''''),
     docker_disk_usage = Inr \<lparr>du_images_total = 2, du_images_active = 1, du_images_size = 900, du_images_reclaimable = 700,
       du_build_cache_size = 0\<rparr>, docker_exec = (\<lambda>_ _. Inr '''')\<rparr>"

definition no_client :: "config \<Rightarrow> secrets \<Rightarrow> 'c result" where
  "no_client cfg sec = Inl (new_error ''no client'')"

definition no_secrets :: secrets where
  "no_secrets = \<lparr>s_sonarr_api_key = '''', s_radarr_api_key = '''', s_prowlarr_api_key = '''', s_overseerr_api_key = '''',
     s_qbit_user = '''', s_qbit_pass = '''', s_plex_token = '''', s_tautulli_api_key = '''', s_peer_token = '''',
     s_web_token = '''', s_anthropic_api_key = ''''\<rparr>"

definition sample_cli :: cli_deps where
  "sample_cli = \<lparr>cd_load = Some (\<lambda>_. Inr (pi_config, no_secrets)), cd_sonarr = no_client, cd_radarr = no_client,
     cd_prowlarr = no_client, cd_qbit = no_client, cd_plex = no_client, cd_tautulli = no_client, cd_overseerr = no_client,
     cd_docker = (\<lambda>_ _. Inr pi_docker), cd_host = (\<lambda>_ _. Inr (sample_host [])), cd_registry = None,
     cd_open_store = None, cd_peer_client = None, cd_sender = None,
     cd_open_agent_store = None, cd_new_agent = None\<rparr>"

definition sample_env :: cli_env where
  "sample_env = \<lparr>cn_now = 63900000000 * second, cn_later = 63900000001 * second, cn_zone = zone_utc, cn_stat = (\<lambda>_. False),
     cn_race = prompt, cn_driver = \<lparr>sd_open = (\<lambda>_. None), sd_ping = None, sd_close = None\<rparr>,
     cn_config_load = (\<lambda>_. Inr (pi_config, no_secrets)), cn_new_peer = (\<lambda>_ _. Inl (new_error ''no peer'')),
     cn_version = ''v1'', cn_commit = ''abc''\<rparr>"

definition sample_daemon :: daemon_env where
  "sample_daemon = \<lparr>dn_csrf_key = Inr ''k'', dn_templates = None, dn_zone_error = None, dn_cron = (\<lambda>_. Inr ()),
     dn_body = aret (), dn_shutdown = CtxDone, dn_peer_exit = None, dn_web_exit = None\<rparr>"

definition sample_rendering :: rendering where
  "sample_rendering = \<lparr>re_json = (\<lambda>_. Inr ''[]''), re_float = (\<lambda>_. ''0''), re_other = (\<lambda>_. ShowNothing)\<rparr>"

definition idle_sys :: sys where
  "idle_sys = \<lparr>sy_store = \<lparr>st_db = empty_db, st_faults = []\<rparr>, sy_world = sample_world\<rparr>"

lemma idle_simps [simp]:
  "calls idle_sys = []" "remediations idle_sys = []"
  "sy_store idle_sys = \<lparr>st_db = empty_db, st_faults = []\<rparr>" "db_ok empty_db"
  using db_ok_empty by (simp_all add: idle_sys_def calls_def sample_world_def remediations_def empty_db_def)

lemma sample_loads: "cli_load sample_cli sample_env fl = Inr (pi_config, no_secrets)"
  by (simp add: cli_load_def sample_cli_def)

definition pi_deps :: deps where
  "pi_deps = (bare_deps sample_env pi_config)\<lparr>d_docker := Some pi_docker, d_host := Some (sample_host [])\<rparr>"

lemma sample_deps_built: "build_check_deps sample_cli sample_env pi_config no_secrets = Inr pi_deps"
  by (simp add: build_check_deps_def set_configured_clients_def set_client_def set_docker_and_host_def want_docker_def
      sample_cli_def pi_config_def acting_def defaults_def no_service_def bare_deps_def pi_deps_def Let_def)

lemma sample_stores: "lawful_stores sample_cli"
  by (simp add: lawful_stores_def sample_cli_def)

theorem dry_run_changes_nothing_witness:
  "sy_store (snd (run_verb sample_cli sample_env sample_daemon sample_rendering (plain_flags\<lparr>gf_dry_run := True\<rparr>)
     (CleanupVerb ''docker'') idle_sys)) = sy_store idle_sys"
  using dry_run_changes_nothing [of "plain_flags\<lparr>gf_dry_run := True\<rparr>" sample_cli sample_env sample_daemon sample_rendering
      "CleanupVerb ''docker''" idle_sys] by simp

theorem verbs_call_what_they_name_witness:
  "calls (snd (run_verb sample_cli sample_env sample_daemon sample_rendering plain_flags
     (DockerVerb (DkExec ''plex'' [''ls''])) idle_sys)) = [DockerExec ''plex'' [''ls'']]"
proof -
  have "\<not> gf_dry_run plain_flags" "built sample_cli sample_env plain_flags (cd_docker sample_cli)"
    by (simp_all add: built_def sample_loads) (simp_all add: plain_flags_def sample_cli_def)
  then have "service_log sample_cli sample_env plain_flags (DockerVerb (DkExec ''plex'' [''ls''])) = [DockerExec ''plex'' [''ls'']]"
    by (simp add: service_log_def)
  then show ?thesis
    using verbs_call_what_they_name [OF sample_stores, of "DockerVerb (DkExec ''plex'' [''ls''])" sample_env sample_daemon
        sample_rendering plain_flags idle_sys] by (simp del: run_verb.simps)
qed

theorem verbs_keep_database_witness:
  "db_ok (st_db (sy_store (snd (run_verb sample_cli sample_env sample_daemon sample_rendering plain_flags
     (CleanupVerb ''docker'') idle_sys))))"
  using verbs_keep_database [OF sample_stores, of sample_daemon idle_sys sample_env sample_rendering plain_flags
      "CleanupVerb ''docker''"] by (simp add: sample_daemon_def keeps_aret del: run_verb.simps)

theorem cleanup_leaves_one_remediation_witness:
  "\<exists>row. calls (snd (run_cleanup sample_cli sample_env sample_rendering plain_flags ''docker'' idle_sys)) = [DockerPrune True] \<and>
     remediations (snd (run_cleanup sample_cli sample_env sample_rendering plain_flags ''docker'' idle_sys)) = [row] \<and>
     mr_status row = ''executed''"
proof -
  obtain out s' where run: "run_cleanup sample_cli sample_env sample_rendering plain_flags ''docker'' idle_sys = (out, s')" by fastforce
  have cfg: "d_cfg pi_deps = pi_config" "cfg_actions_enabled pi_config" "\<not> cl_dry_run (cfg_cleanup pi_config)"
    "cl_docker_dangling (cfg_cleanup pi_config)" "cfg_node pi_config = NodePi" "d_docker pi_deps = Some pi_docker"
    by (simp_all add: pi_deps_def bare_deps_def pi_config_def acting_def defaults_def)
  obtain p where p: "plan_docker pi_deps = Inr p" "pn_kind p = KindDocker"
    by (simp add: plan_docker_def cfg pi_docker_def empty_plan_def Let_def)
  have pl: "planner_for_kind ''docker'' = Inr docker_planner"
    by (simp add: planner_for_kind_def all_planners_def recycle_planner_def orphans_planner_def docker_planner_def)
  have side: "cfg_node pi_config \<in> set (pl_nodes docker_planner)" "pl_plan docker_planner pi_deps = Inr p" "\<not> gf_dry_run plain_flags"
    using p cfg by (simp_all add: docker_planner_def plain_flags_def)
  have "opens_onto (open_store sample_cli sample_env pi_config) (sqlite_handle (cn_driver sample_env))"
    using sqlite_opens [of sample_env pi_config] by (simp add: open_store_def sample_cli_def sample_env_def)
  moreover have "hd_remediations (sqlite_handle (cn_driver sample_env))" "sound_store idle_sys"
    by (simp_all add: sqlite_handle_def sound_store_def schema_ok_def empty_db_def)
  ultimately have "calls s' = cleanup_calls pi_deps p \<and> (\<exists>row. remediations s' = [row] \<and> mr_status row = attempt_status pi_deps p idle_sys)"
    using cleanup_leaves_one_remediation [OF pl sample_loads side(1) sample_deps_built side(2,3) sample_stores run,
        of "sqlite_handle (cn_driver sample_env)"] by auto
  moreover have "cleanup_calls pi_deps p = [DockerPrune True]"
    using p cfg by (simp add: cleanup_calls_def gate_open_def)
  moreover have "attempt_status pi_deps p idle_sys = ''executed''"
    using p cfg by (simp add: attempt_status_def execute_def execute_docker_def perform_def idle_sys_def sample_world_def)
  ultimately show ?thesis by (simp add: run)
qed

end
