(* ===== verification/Cli_Output_Laws.thy ===== *)
theory Cli_Output_Laws
  imports Cli_Output
begin

text \<open>
  What the verbs print and read: a table of plain cells has one width per column, and a day count in \<open>--since\<close>
  is right as long as its nanoseconds fit 64 bits.
\<close>

section \<open>Tables\<close>

definition plain_cell :: "string \<Rightarrow> bool" where
  "plain_cell c \<longleftrightarrow> set c \<inter> {tab, newline, CHR 0x0B, CHR 0x0C, CHR 0xFF} = {}"

text \<open>The reference: every column but the last is two wider than its widest cell.\<close>

definition widest :: "string list list \<Rightarrow> nat \<Rightarrow> nat" where
  "widest rows j = foldr max (map (\<lambda>r. rune_count (r ! j)) rows) 0"

definition reference_line :: "string list list \<Rightarrow> string list \<Rightarrow> string" where
  "reference_line rows r =
     concat (map (\<lambda>j. if j + 1 < length r then pad_to (widest rows j + 2) (r ! j) else r ! j) [0..<length r])"

lemma lines_as_join: "concat (map (\<lambda>l. l @ [c]) ls) = join_with [c] (ls @ [[]])"
  by (induction ls) (simp_all add: join_with_Cons)

lemma set_join_with: "set (join_with s xs) \<subseteq> \<Union> (set ` set xs) \<union> set s"
  by (induction s xs rule: join_with.induct) auto

lemma tab_newline [simp]: "tab \<noteq> newline" "newline \<noteq> tab"
  by (simp_all add: tab_def newline_def)

lemma split_off_none: "c \<notin> set s \<Longrightarrow> split_on c s = [s]"
  by (induction s) auto

lemma cells_of_join: "list_all plain_cell r \<Longrightarrow> r \<noteq> [] \<Longrightarrow> cells_of (join_with [tab] r) = r"
proof -
  assume r: "list_all plain_cell r" "r \<noteq> []"
  have "CHR 0x0B \<notin> set (join_with [tab] r)"
    using r(1) set_join_with [of "[tab]" r] by (auto simp: list_all_iff plain_cell_def tab_def)
  then have "map (\<lambda>c. if c = CHR 0x0B then tab else c) (join_with [tab] r) = join_with [tab] r"
    by (intro map_idI) auto
  moreover have "split_on tab (join_with [tab] r) = r"
    using r by (intro split_on_join) (auto simp: list_all_iff plain_cell_def)
  ultimately show ?thesis by (simp add: cells_of_def)
qed

lemma split_rows:
  assumes "\<forall>r \<in> set rows. r \<noteq> [] \<and> list_all plain_cell r"
  shows "map cells_of (split_on newline (concat (map row_text rows))) = rows @ [[[]]]"
    "split_on (CHR 0x0C) (concat (map row_text rows)) = [concat (map row_text rows)]"
proof -
  have sub: "set (join_with [tab] r) \<subseteq> - {newline, CHR 0x0C}" if "r \<in> set rows" for r
    using assms that set_join_with [of "[tab]" r] by (fastforce simp: list_all_iff plain_cell_def tab_def newline_def)
  have "concat (map row_text rows) = join_with [newline] (map (join_with [tab]) rows @ [[]])"
    using lines_as_join [of newline "map (join_with [tab]) rows"] by (simp add: row_text_def [abs_def] comp_def)
  moreover have "split_on newline (join_with [newline] (map (join_with [tab]) rows @ [[]])) = map (join_with [tab]) rows @ [[]]"
    by (intro split_on_join) (use sub in auto)
  moreover have "cells_of [] = [[]]" by (simp add: cells_of_def)
  ultimately show "map cells_of (split_on newline (concat (map row_text rows))) = rows @ [[[]]]"
    using assms by (simp add: map_idI cells_of_join)
  have "CHR 0x0C \<notin> set (row_text r)" if "r \<in> set rows" for r
    using sub [OF that] by (auto simp: row_text_def newline_def)
  then have "CHR 0x0C \<notin> set (concat (map row_text rows))" by auto
  then show "split_on (CHR 0x0C) (concat (map row_text rows)) = [concat (map row_text rows)]" by (rule split_off_none)
qed

lemma aligned_page:
  "split_on (CHR 0x0C) t = [t] \<Longrightarrow> aligned t = format_lines (without_open_cell (map cells_of (split_on newline t)))"
  by (simp add: aligned_def)

lemma takeWhile_all: "(\<And>x. x \<in> set xs \<Longrightarrow> P x) \<Longrightarrow> takeWhile P (xs @ ys) = xs @ takeWhile P ys"
  by (induction xs) auto

lemma column_block_all:
  assumes "i < length rows" "\<forall>r \<in> set rows. in_column j r"
  shows "column_block (rows @ [[]]) i j = rows"
proof -
  have up: "takeWhile (in_column j) (rev (take i rows)) = rev (take i rows)"
    using assms(2) by (subst takeWhile_eq_all_conv) (auto dest: in_set_takeD)
  have "takeWhile (in_column j) (drop i rows @ [[]]) = drop i rows @ takeWhile (in_column j) [[]]"
    by (rule takeWhile_all) (use assms(2) in \<open>auto dest: in_set_dropD\<close>)
  then have down: "takeWhile (in_column j) (drop i rows @ [[]]) = drop i rows" by (simp add: in_column_def)
  have "take i (rows @ [[]]) = take i rows" "drop i (rows @ [[]]) = drop i rows @ [[]]" using assms(1) by simp_all
  then show ?thesis by (simp only: column_block_def up down rev_rev_ident append_take_drop_id)
qed

lemma padded_row:
  assumes "i < length rows" "\<forall>r \<in> set rows. length r = n"
  shows "padded_line (rows @ [[]]) i = reference_line rows (rows ! i)"
proof -
  have r: "(rows @ [[]]) ! i = rows ! i" "length (rows ! i) = n" using assms by (simp_all add: nth_append)
  have "block_width (rows @ [[]]) i j = widest rows j + 2" if "j + 1 < n" for j
  proof -
    have "column_block (rows @ [[]]) i j = rows"
      using assms that by (intro column_block_all) (auto simp: in_column_def)
    then show ?thesis by (simp add: block_width_def column_width_def widest_def comp_def concat_map_singleton)
  qed
  then show ?thesis
    unfolding padded_line_def reference_line_def Let_def r
    by (intro arg_cong [where f = concat] map_cong) (auto simp: in_column_def r)
qed

text \<open>C28: The table a verb prints is the reference table: when no cell holds a character that
  \<open>text/tabwriter\<close> interprets (tab, line break, vertical tab, form feed, escape), every
  column starts at the same offset in the header and in every row, two characters after the widest cell
  before it, and the last column is not padded.\<close>

theorem tables_are_aligned:
  assumes "\<forall>r \<in> set (header # rows). length r = n \<and> list_all plain_cell r" "0 < n"
  shows "print_struct_rows header rows = concat (map (\<lambda>r. reference_line (header # rows) r @ [newline]) (header # rows))"
proof -
  let ?rows = "header # rows" and ?ls = "(header # rows) @ [[]]"
  have ls: "map cells_of (split_on newline (concat (map row_text ?rows))) = ?rows @ [[[]]]"
    "split_on (CHR 0x0C) (concat (map row_text ?rows)) = [concat (map row_text ?rows)]"
    using assms by (intro split_rows; auto)+
  have "padded_line ?ls (length ?rows) = []" by (simp add: padded_line_def nth_append)
  moreover have "map (padded_line ?ls) [0..<length ?rows] = map (reference_line ?rows) ?rows"
  proof (rule nth_equalityI)
    fix i assume "i < length (map (padded_line ?ls) [0..<length ?rows])"
    then have i: "i < length ?rows" by simp
    from padded_row [OF i, of n] assms(1) have "padded_line ?ls i = reference_line ?rows (?rows ! i)" by blast
    with i show "map (padded_line ?ls) [0..<length ?rows] ! i = map (reference_line ?rows) ?rows ! i"
      by (simp only: nth_map nth_upt length_upt diff_zero add_0)
  qed simp
  moreover have "[0..<length ?ls] = [0..<length ?rows] @ [length ?rows]" by simp
  ultimately have "format_lines ?ls = join_with [newline] (map (reference_line ?rows) ?rows @ [[]])"
    unfolding format_lines_def by (simp only: map_append list.map)
  moreover have "without_open_cell (?rows @ [[[]]]) = ?ls" by (simp add: without_open_cell_def)
  ultimately show ?thesis
    unfolding print_struct_rows_def aligned_page [OF ls(2)] ls(1)
    by (simp only: lines_as_join [symmetric] map_map comp_def)
qed

section \<open>Lower bounds\<close>

text \<open>C29: A day count is exact up to 106751 days; from 106752 to 213503 days its nanoseconds wrap around 64 bits
  once and the bound lands in the future, which is what the check for negative counts is there to exclude.\<close>

theorem since_days_wrap:
  assumes "n \<le> 213503"
  shows "\<exists>t. parse_since now (show_nat n @ ''d'') = Inr t \<and>
    (n \<le> 106751 \<longrightarrow> t = now - int n * day) \<and> (106752 \<le> n \<longrightarrow> now < t)"
proof -
  have "parse_int64 (show_nat n) = Some (int n)"
    using parse_int64_show_int [of "int n"] assms by (simp add: min_int64_def max_int64_def show_int_def)
  then have "parse_since now (show_nat n @ ''d'') = Inr (now + wrap_int64 (- int n * day))"
    by (simp add: parse_since_def t_add_def mult.commute)
  moreover have "wrap_int64 (- int n * day) = - int n * day" if "n \<le> 106751"
  proof -
    have "(- int n * day + 9223372036854775808) mod 18446744073709551616 = - int n * day + 9223372036854775808"
      using that by (intro mod_pos_pos_trivial) simp_all
    then show ?thesis by (simp add: wrap_int64_def)
  qed
  moreover have "0 < wrap_int64 (- int n * day)" if "106752 \<le> n"
  proof -
    have "(- int n * day + 9223372036854775808) mod 18446744073709551616 =
        (- int n * day + 9223372036854775808 + 18446744073709551616) mod 18446744073709551616"
      by (simp only: mod_add_self2)
    also have "\<dots> = - int n * day + 9223372036854775808 + 18446744073709551616"
      using that assms by (intro mod_pos_pos_trivial) simp_all
    finally show ?thesis using assms by (simp add: wrap_int64_def)
  qed
  ultimately show ?thesis by (intro exI [of _ "now + wrap_int64 (- int n * day)"]) auto
qed

text \<open>A bound given as a duration is in the past and within 64 bits of the clock.\<close>

lemma duration_items_bound: "duration_items orig d s = Inr n \<Longrightarrow> d \<le> two63 \<Longrightarrow> n \<le> two63"
proof (induction orig d s rule: duration_items.induct)
  case (1 orig d s)
  show ?case
  proof (cases "s = ''''")
    case True
    then show ?thesis using "1.prems" by (simp add: duration_items.simps)
  next
    case False
    obtain w r where w: "duration_item orig s = Inr (w, r)" "d + w \<le> two63" "duration_items orig (d + w) r = Inr n"
      using "1.prems"(1) False by (subst (asm) duration_items.simps) (auto split: sum.splits prod.splits if_splits)
    show ?thesis by (rule "1.IH" [OF False w(1) refl _ w(3) w(2)]) (use w(2) in simp)
  qed
qed

lemma parse_duration_int64: "parse_duration s = Inr d \<Longrightarrow> min_int64 \<le> d \<and> d \<le> max_int64"
  by (auto simp: parse_duration_def Let_def rbind_eq_Inr min_int64_def max_int64_def two63_def split: if_splits
      dest!: duration_items_bound)

lemma since_duration_is_past:
  assumes "parse_since now s = Inr t" "s \<noteq> ''''" "last s \<noteq> CHR ''d''"
  shows "t \<le> now \<and> now - t \<le> max_int64"
  using assms by (auto simp: parse_since_def Let_def rbind_eq_Inr t_add_def split: if_splits dest!: parse_duration_int64)

section \<open>Instances\<close>

theorem tables_are_aligned_witness:
  "print_struct_rows [''Key'', ''Bytes''] [[''/bin/a'', ''10''], [''b'', ''2048'']] =
     ''Key     Bytes'' @ [newline] @ ''/bin/a  10'' @ [newline] @ ''b       2048'' @ [newline]"
proof -
  have "\<forall>r \<in> set ([''Key'', ''Bytes''] # [[''/bin/a'', ''10''], [''b'', ''2048'']]). length r = 2 \<and> list_all plain_cell r"
    by (simp add: plain_cell_def tab_def newline_def)
  from tables_are_aligned [OF this] show ?thesis
    by (simp add: reference_line_def widest_def pad_to_def rune_len_def upt_rec)
qed

theorem since_days_wrap_witness: "\<exists>t. parse_since 0 (show_nat 106752 @ ''d'') = Inr t \<and> 0 < t"
  using since_days_wrap [of 106752 0] by auto

end
