(* ===== verification/Spec2Isabelle.thy ===== *)
theory Spec2Isabelle
  imports Store_Laws Staleness_Laws Cleanup_Laws Mounts_Laws Checks_Services Catalogue Web_Laws Peer_Laws
    Host_Laws Upstream_Laws Cli_Laws Cli_Output_Laws
begin

text \<open>
  Healarr watches a two-node media server: a Raspberry Pi that runs the *arr applications (Sonarr, Radarr,
  Prowlarr, Plex's companions) and a NAS that holds the media. Each node runs the same program. On a schedule it
  runs a catalogue of read-only checks against the local services, stores the findings in SQLite, sends its report
  to the other node, plans cleanups, scores titles for staleness and mails a daily digest; a human confirms a keep
  or a delete in the web interface, and only with actions enabled does the program change anything outside itself.

  \<^bold>\<open>How the parts interact.\<close> The agent (\<open>internal/agent\<close>) drives everything: a cycle builds the dependencies of
  the checks (\<open>internal/check\<close>, clients of \<open>internal/clients\<close>), runs the catalogue of \<open>internal/checks\<close> for its
  cadence, saves the report in the store (\<open>internal/store\<close>) and pushes it to the peer (\<open>internal/peer\<close>), whose
  server hands it to the other node's agent. Planning and executing removals is \<open>internal/cleanup\<close>, scoring is
  \<open>internal/staleness\<close>, executing a confirmed choice is \<open>internal/decision\<close>, the digest is \<open>internal/notify\<close>,
  and the pages are \<open>internal/web\<close>. The command line (\<open>internal/cli\<close>) reaches the same parts one verb at a time
  and starts the agent. The store and the calls on the outside world are the state the parts share: theory
  System threads them (\<open>sys\<close>) through the operations of the agent, the decisions, the server and the pages.

  \<^bold>\<open>Conventions.\<close> A Go error is a message and the sentinel errors in its chain, a fallible function returns
  \<open>goerr + 'a\<close>. Strings are byte strings. An \<open>int\<close> of Go is an \<open>int\<close> with the wrap-around of 64 bits written out
  (\<open>wrap_int64\<close>) or a 64-bit word where arithmetic can overflow, a \<open>float64\<close> is the value of Go_Float with one
  rounding per operation, a time counts nanoseconds from year 1. The clock is read where the code reads it: a run of
  the checks has an instant, and the record \<open>race\<close> says how much later each check and each \<open>NewFinding\<close> in it
  reads the clock (a check that reads it several times for its ages reads one value). Mutating calls of the upstream interfaces are
  appended to a log with the answer they get (the command \<open>docker exec\<close> among them; the probe of the mount check runs
  in a container too, but only reads, and is a field of the client), so a statement about the outside world is one about that log. The
  goroutine scheduler appears as the event each \<open>select\<close> takes, a cancelled context as the error it reports.

  \<^bold>\<open>Theories and sources.\<close>
  \<^item> Prelude, Go_Float, Go_Time, Go_Path, Go_Format: the parts of Go's standard library the program computes with.
  \<^item> Healarr_Config, Config_Laws: \<open>internal/config\<close> (records, defaults, environment, validation). Validation is
    compared with a declarative contract that names every field.
  \<^item> Check_Types, Check_Engine: \<open>internal/check\<close> and the messages of \<open>internal/peer/types.go\<close>.
  \<^item> Clients: the interfaces of \<open>internal/clients/*/types.go\<close> as records, their mutating methods as \<open>action\<close>.
  \<^item> Checks_Qbit, Checks_Disk, Checks_Arr, Checks_Mounts, Checks_Services, Catalogue, Mounts_Laws: \<open>internal/checks\<close>,
    every check family and the catalogue; the shell probe of a mount is read back word for word.
  \<^item> Store_Core, Store_Findings, Store_Queues, Store_Tracker, Store_Laws: \<open>internal/store\<close>, one table per list of
    rows and a fault plan with an entry per SQL statement. The findings table refines an abstract tracker (one
    active finding per key); decisions and outbox are two interpretations of one queue locale; an invariant of the
    whole database survives every operation under every fault plan.
  \<^item> Staleness, Staleness_Laws: \<open>internal/staleness\<close>, with bounds on the floating-point score.
  \<^item> Cleanup, Cleanup_Laws: \<open>internal/cleanup\<close>: a planner contract as a locale interpreted on the four planners, what
    executing a plan calls, and where removals can land.
  \<^item> System, Decisions, Decisions_Laws: \<open>internal/decision\<close>.
  \<^item> Notify, Agent, Agent_Schedule, Agent_Laws, Schedule_Laws, Exchange_Laws: \<open>internal/notify\<close> and \<open>internal/agent\<close>;
    the daemon as a step relation over its jobs, the peer's calls and the confirmed decisions, its database
    invariant and the calls it may make by rule induction over runs.
  \<^item> Httpx, Httpx_Laws: \<open>internal/clients/httpx\<close>: requests, redaction, status handling, query encoding.
  \<^item> Upstream, Arr_Clients, Media_Clients, Docker_Client, Upstream_Laws: the HTTP clients of Sonarr, Radarr, Prowlarr,
    qBittorrent, Plex, Tautulli, Overseerr and Docker over a network with a state: paged listings are complete and
    end, a session is renewed once, log frames come off.
  \<^item> Host_Fs, Host_Laws: \<open>internal/clients/hostfs\<close>: space in 64-bit words, directory sizes over a tree of files, the
    mount table.
  \<^item> Peer, Peer_Laws: \<open>internal/peer\<close>: the retrying client and the authenticated server, composed over an
    unreliable link. A string that crosses the wire arrives as the JSON of its UTF-8 (a byte that is not part of an
    encoding becomes U+FFFD), and HTTP trims the white space around a header value.
  \<^item> Web, Web_Laws: \<open>internal/web\<close>: sessions, CSRF tokens, routing, every page and the form that records a
    decision; a run of requests is an inductive relation.
  \<^item> Cli_Output, Cli_Deps, Cli_Verbs, Cli_Actions, Cli_Tree, Cli_Laws, Cli_Output_Laws: \<open>internal/cli\<close>. A verb is its
    path with the flags and arguments cobra has parsed; running it gives the printed text and the error it ends
    with, over the system the verbs share with the agent. Cli_Output holds what \<open>output.go\<close> prints and parses (the
    aligned tables of text/tabwriter, durations and day counts), Cli_Deps how a verb opens the store and builds
    clients (and \<open>Open\<close> and \<open>Close\<close> of the store), Cli_Verbs the checks and reports, Cli_Actions the verbs that act
    (cleanup, decide, notify, peer, agent), Cli_Tree the verbs of the services and the command tree. The laws say
    what a dry run leaves untouched, exactly which calls a verb makes, that the database invariant survives every
    verb, that a cleanup is recorded once when the store works, and how a table is laid out; opening a store is the locale \<open>store_opener\<close>.

  \<^bold>\<open>Bounds.\<close> No loop runs on fuel that the code does not have. The retry loop, the page loops and the directory
  walk are total functions with a measure: the retries left, \<open>2\<^sup>6\<^sup>3\<close> less the records fetched (a total is a 64-bit
  integer, and every page the loop goes on after brings a record), the tree. The listing of Overseerr counts down
  the 500 pages the code allows.

  \<^bold>\<open>Not modelled.\<close> What the sources do not define is a parameter of the definitions that use it: the TOML, XML
  and JSON codecs, the time zone database, the cron library, SQL (a statement succeeds on the rows or fails as
  the fault plan says), the kernel, the network, the HTML templates and the msmtp and docker programs. The
  command line adds the cobra library (a verb is given with its arguments), the shortest text of a float and the
  cells of the upstream tables (the record \<open>rendering\<close>), the real constructors of \<open>DefaultDeps\<close> and the daemon's
  servers (\<open>daemon_env\<close>). What a command does inside a container is not modelled, only that it is run. Left out are
  log lines, the fakes of the tests, and \<open>cmd/healarr/main.go\<close>, which runs the tree and exits with 1 on an
  error. Unicode case folding and white space are ASCII outside the mount table.
\<close>

end
